(* ===== verification/U_Prelude.thy ===== *)
theory U_Prelude
  imports Main "HOL-Library.Word" "HOL-Library.Multiset"
begin

text \<open>
  The shared vocabulary of the development: the machine types of the C++ sources, bytes of
  program text, the conventions for positions inside a text, packed bit fields, the
  ``remove by moving the last element'' idiom on vectors, and depth-first closure of a
  finite graph. Everything here is independent of the compiler; the component theories
  import it and use the collections \<open>text_pos\<close>, \<open>word_field\<close> and the lemmas below.
\<close>

unbundle bit_operations_syntax

section \<open>Machine types\<close>

type_synonym byte = "8 word"
type_synonym u8 = "8 word"
type_synonym u16 = "16 word"
type_synonym u32 = "32 word"
type_synonym u64 = "64 word"

named_theorems word_field \<open>packing and unpacking of bit fields\<close>
named_theorems text_pos \<open>positions in a text move forward\<close>

section \<open>Bytes of program text\<close>

text \<open>
  A C++ string literal is a list of bytes; \<open>ch\<close> and \<open>str\<close> give the bytes of Isabelle's
  character and string literals.
\<close>

definition ch :: "char \<Rightarrow> byte" where
  "ch c = of_char c"

definition str :: "string \<Rightarrow> byte list" where
  "str s = map ch s"

lemma str_Nil [simp]: "str [] = []"
  by (simp add: str_def)

lemma str_Cons [simp]: "str (c # s) = ch c # str s"
  by (simp add: str_def)

lemma length_str [simp]: "length (str s) = length s"
  by (simp add: str_def)

lemma str_append: "str (s @ t) = str s @ str t"
  by (simp add: str_def)

lemma unat_ch: "unat (ch c) = of_char c"
proof -
  have "ch c = word_of_nat (of_char c)"
    by (simp add: ch_def of_nat_of_char)
  then show ?thesis
    by (simp add: unat_of_nat)
qed

lemma ch_inj: "ch c = ch d \<longleftrightarrow> c = d"
proof
  assume "ch c = ch d"
  then have "(of_char c :: nat) = of_char d"
    by (metis unat_ch)
  then show "c = d" by simp
qed simp

lemma str_inj: "str s = str t \<longleftrightarrow> s = t"
  by (auto simp: str_def ch_inj inj_def)

text \<open>\<^verbatim>\<open>std::to_string\<close> of a number that is not negative.\<close>

fun to_string :: "nat \<Rightarrow> byte list" where
  "to_string n = (if n < 10 then [0x30 + word_of_nat n] else to_string (n div 10) @ [0x30 + word_of_nat (n mod 10)])"

declare to_string.simps [simp del]

lemma to_string_value: "foldl (\<lambda>a d. 10 * a + unat (d - 0x30)) 0 (to_string n) = n"
proof (induction n rule: to_string.induct)
  case (1 n)
  have digit: "unat (word_of_nat k :: byte) = k" if "k < 10" for k
    using that by (simp add: unat_of_nat)
  show ?case
    by (subst to_string.simps) (use 1 in \<open>simp add: digit\<close>)
qed

lemma to_string_inj: "to_string m = to_string n \<Longrightarrow> m = n"
  by (metis to_string_value)

lemma to_string_digits: "ch (CHR ''_'') \<notin> set (to_string n)"
proof (induction n rule: to_string.induct)
  case (1 n)
  have digit: "ch (CHR ''_'') \<noteq> 0x30 + word_of_nat k" if "k < 10" for k
  proof
    assume "ch (CHR ''_'') = 0x30 + word_of_nat k"
    then have "unat (ch (CHR ''_'')) = 48 + k" using that by (simp add: unat_word_ariths unat_of_nat)
    then show False using that by (simp add: unat_ch)
  qed
  show ?case by (subst to_string.simps) (use 1 digit in auto)
qed

lemma last_part_eq:
  assumes "a @ c # x = b @ c # y" and "c \<notin> set x" and "c \<notin> set y"
  shows "x = y"
proof -
  have "takeWhile (\<lambda>d. d \<noteq> c) (rev (a @ c # x)) = rev x" if "c \<notin> set x" for a x
    using that by (simp add: takeWhile_append)
  with assms show ?thesis by (metis rev_is_rev_conv)
qed

section \<open>Packed bit fields\<close>

text \<open>
  A word that holds two fields: the high one shifted left by \<open>k\<close>, the low one in the \<open>k\<close> low bits.
  The simplifier distributes \<open>drop_bit\<close> and \<open>take_bit\<close> over \<open>OR\<close>; these lemmas say what each
  part of the sum contributes to either field.
\<close>

lemma drop_bit_push_bit_fits [word_field]:
  fixes h :: "'a::len word"
  assumes "take_bit (LENGTH('a) - k) h = h"
  shows "drop_bit k (push_bit k h) = h"
proof (rule bit_eqI)
  fix n assume "possible_bit TYPE('a word) n"
  have "bit h n \<Longrightarrow> k + n < LENGTH('a)"
    using assms by (metis bit_take_bit_iff less_diff_conv add.commute)
  then show "bit (drop_bit k (push_bit k h)) n = bit h n"
    by (auto simp: bit_simps)
qed

lemma take_bit_push_bit_zero [word_field]: "take_bit k (push_bit k (h :: 'a::len word)) = 0"
  by (rule bit_eqI) (auto simp: bit_simps)

lemma drop_bit_take_bit_zero [word_field]: "drop_bit k (take_bit k (w :: 'a::len word)) = 0"
  by (rule bit_eqI) (auto simp: bit_simps)

lemma drop_bit_mask_zero [word_field]: "drop_bit k (mask k :: 'a::len word) = 0"
  by (rule bit_eqI) (auto simp: bit_simps)

lemma drop_bit_fits_zero [word_field]:
  "take_bit k l = l \<Longrightarrow> drop_bit k (l :: 'a::len word) = 0"
  by (metis drop_bit_take_bit_zero)

lemma take_bit_and_not_mask [word_field]: "take_bit k (w AND NOT (mask k)) = (0 :: 'a::len word)"
  by (rule bit_eqI) (auto simp: bit_simps)

lemma drop_bit_and_not_mask [word_field]:
  "drop_bit k (w AND NOT (mask k)) = drop_bit k (w :: 'a::len word)"
  by (rule bit_eqI) (auto simp: bit_simps dest: bit_imp_le_length)

lemma fits_take_bit: "unat w < 2 ^ k \<Longrightarrow> take_bit k w = (w :: 'a::len word)"
  by (rule word_unat_eq_iff [THEN iffD2]) (simp add: unsigned_take_bit_eq take_bit_nat_eq_self_iff)

lemma take_bit_fits: "take_bit k w = (w :: 'a::len word) \<Longrightarrow> unat w < 2 ^ k"
proof -
  assume "take_bit k w = w"
  then have "unat w = take_bit k (unat w)"
    by (metis unsigned_take_bit_eq)
  then show ?thesis
    by (metis take_bit_nat_less_exp)
qed

lemma unat_less: "unat (w :: 'a::len word) < 2 ^ LENGTH('a)"
  by (rule unsigned_less)

text \<open>Two words with equal fields are equal, and comparing words compares the high field first.\<close>

lemma field_split: "push_bit k (drop_bit k w) OR (w AND mask k) = (w :: 'a::len word)"
  by (rule bit_eqI) (auto simp: bit_simps)

lemma field_eq_iff:
  fixes v w :: "'a::len word"
  shows "v = w \<longleftrightarrow> drop_bit k v = drop_bit k w \<and> v AND mask k = w AND mask k"
  by (metis field_split)

lemma field_less_iff:
  fixes v w :: "'a::len word"
  shows "v < w \<longleftrightarrow> drop_bit k v < drop_bit k w
     \<or> drop_bit k v = drop_bit k w \<and> v AND mask k < w AND mask k"
proof -
  have u: "unat x = 2 ^ k * unat (drop_bit k x) + unat (x AND mask k)" for x :: "'a word"
  proof -
    have "unat (drop_bit k x) = unat x div 2 ^ k"
      by (simp only: unat_drop_bit_eq) (simp add: drop_bit_eq_div)
    moreover have "unat (x AND mask k) = unat x mod 2 ^ k"
      by (simp add: unsigned_take_bit_eq flip: take_bit_eq_mask) (simp add: take_bit_eq_mod)
    ultimately show ?thesis by simp
  qed
  have lt: "unat (x AND mask k) < 2 ^ k" for x :: "'a word"
    by (simp add: unsigned_take_bit_eq flip: take_bit_eq_mask)
  have "(a::nat) * p + c < b * p + d \<longleftrightarrow> a < b \<or> a = b \<and> c < d" if "c < p" "d < p" for a b c d p
  proof -
    have "a * p + c < b * p + d" if "a < b"
    proof -
      from that have "Suc a * p \<le> b * p" by (intro mult_le_mono1) simp
      with \<open>c < p\<close> show ?thesis by simp
    qed
    moreover have "b * p + d < a * p + c" if "b < a"
    proof -
      from that have "Suc b * p \<le> a * p" by (intro mult_le_mono1) simp
      with \<open>d < p\<close> show ?thesis by simp
    qed
    ultimately show ?thesis by (metis linorder_neqE_nat nat_add_left_cancel_less not_less_iff_gr_or_eq)
  qed
  from this [OF lt lt, of "unat (drop_bit k v)" v "unat (drop_bit k w)" w] show ?thesis
    by (simp add: word_less_nat_alt u [of v] u [of w] mult.commute word_unat_eq_iff)
qed

section \<open>Removal by moving the last element\<close>

text \<open>\<open>v[i] = std::move(v.back()); v.pop_back();\<close> removes the element at \<open>i\<close> and permutes the rest.\<close>

lemma mset_remove_by_last:
  assumes "i < length xs"
  shows "mset (butlast (if i + 1 < length xs then xs [i := last xs] else xs)) = mset xs - {#xs ! i#}"
proof (cases "i + 1 < length xs")
  case True
  then obtain ys x where xs: "xs = ys @ [x]" by (metis append_butlast_last_id assms length_0_conv not_less0)
  with True have i: "i < length ys" by simp
  with True xs show ?thesis by (simp add: list_update_append nth_append mset_update)
next
  case False
  with assms have "i = length xs - 1" by simp
  moreover obtain ys x where "xs = ys @ [x]" by (metis append_butlast_last_id assms length_0_conv not_less0)
  ultimately show ?thesis using False by simp
qed

section \<open>Loops over lists that may fail\<close>

primrec foldM :: "('a \<Rightarrow> 's \<Rightarrow> 's option) \<Rightarrow> 'a list \<Rightarrow> 's \<Rightarrow> 's option" where
  "foldM f [] s = Some s" |
  "foldM f (x # xs) s = Option.bind (f x s) (foldM f xs)"

lemma foldM_mono [partial_function_mono]:
  assumes "\<And>x s. mono_option (\<lambda>f. F f x s)"
  shows "mono_option (\<lambda>f. foldM (F f) xs s)"
proof (induction xs arbitrary: s)
  case Nil
  show ?case by (simp add: option.const_mono)
next
  case (Cons x xs)
  then show ?case using assms by (simp add: bind_mono)
qed

lemma foldM_invariant:
  assumes "foldM f xs s = Some t" and "Q 0 s"
    and "\<And>k s t. k < length xs \<Longrightarrow> Q k s \<Longrightarrow> f (xs ! k) s = Some t \<Longrightarrow> Q (Suc k) t"
  shows "Q (length xs) t"
  using assms
proof (induction xs arbitrary: s Q)
  case (Cons x xs)
  from Cons.prems(1) obtain u where u: "f x s = Some u" "foldM f xs u = Some t" by (auto simp: bind_eq_Some_conv)
  have "Q (Suc 0) u" using Cons.prems(3) [of 0 s u] Cons.prems(2) u(1) by simp
  then show ?case
    using Cons.IH [OF u(2), of "\<lambda>k. Q (Suc k)"] Cons.prems(3) [of "Suc _"] by simp
qed simp

lemma foldM_total:
  assumes "Q s" and "\<And>x s. x \<in> set xs \<Longrightarrow> Q s \<Longrightarrow> \<exists>t. f x s = Some t \<and> Q t"
  shows "\<exists>t. foldM f xs s = Some t \<and> Q t"
  using assms
proof (induction xs arbitrary: s)
  case (Cons x xs)
  then obtain u where "f x s = Some u" "Q u" by (metis list.set_intros(1))
  with Cons.IH [of u] Cons.prems(2) show ?case by (metis bind.bind_lunit foldM.simps(2) list.set_intros(2))
qed simp

section \<open>Search with a set of visited nodes\<close>

text \<open>
  A search that follows \<open>next\<close> from the nodes of a work list. The nodes it has visited and the nodes
  still in the list together reach the same nodes at every step, and when the list is empty
  the visited nodes are closed.
\<close>

locale visited_search =
  fixes succ :: "'a \<Rightarrow> 'a set"
begin

definition edges :: "('a \<times> 'a) set" where
  "edges = {(x, y). y \<in> succ x}"

definition reached :: "'a set \<Rightarrow> 'a set" where
  "reached A = edges\<^sup>* `` A"

definition closed_but :: "'a set \<Rightarrow> 'a set \<Rightarrow> bool" where
  "closed_but visited work \<longleftrightarrow> (\<forall>x \<in> visited. succ x \<subseteq> visited \<union> work)"

lemma reached_step: "reached (insert x (work \<union> visited)) = reached (succ x \<union> work \<union> insert x visited)"
proof
  show "reached (insert x (work \<union> visited)) \<subseteq> reached (succ x \<union> work \<union> insert x visited)"
    by (auto simp: reached_def)
  have "edges\<^sup>* `` succ x \<subseteq> edges\<^sup>* `` {x}"
    by (auto simp: edges_def intro: converse_rtrancl_into_rtrancl)
  then show "reached (succ x \<union> work \<union> insert x visited) \<subseteq> reached (insert x (work \<union> visited))"
    by (auto simp: reached_def)
qed

lemma reached_skip: "x \<in> visited \<Longrightarrow> reached (insert x (work \<union> visited)) = reached (work \<union> visited)"
  by (auto simp: reached_def)

lemma closed_step: "closed_but visited (insert x work) \<Longrightarrow> closed_but (insert x visited) (succ x \<union> work)"
  by (auto simp: closed_but_def)

lemma closed_skip: "x \<in> visited \<Longrightarrow> closed_but visited (insert x work) \<Longrightarrow> closed_but visited work"
  by (auto simp: closed_but_def)

lemma closed_start: "closed_but {} work"
  by (simp add: closed_but_def)

lemma reached_closed: "closed_but visited {} \<Longrightarrow> reached visited = visited"
proof
  assume c: "closed_but visited {}"
  show "reached visited \<subseteq> visited"
  proof
    fix y assume "y \<in> reached visited"
    then obtain x where "(x, y) \<in> edges\<^sup>*" "x \<in> visited" by (auto simp: reached_def)
    then show "y \<in> visited"
      by (induction rule: rtrancl_induct) (use c in \<open>auto simp: edges_def closed_but_def\<close>)
  qed
qed (auto simp: reached_def)

end

end
