(* ===== verification/Src_Loc.thy ===== *)
theory Src_Loc
  imports U_Prelude
begin

text \<open>
  \<^verbatim>\<open>source/lex_synt_lib_common/src_loc.hpp\<close> and \<^verbatim>\<open>src_loc.cpp\<close>: a location in a program,
  packed into two 32-bit words (file index and macro expansion index, line and column).
  The class has private fields and a total order, so it is a datatype with selectors and an
  instance of \<open>linorder\<close>; the words keep their width and every shift and mask is written out.
  The assertions of the constructor and of the setters are no code in a release build; they
  are the hypotheses of the lemmas.
\<close>

section \<open>The packed location\<close>

datatype SrcLoc = SrcLoc
  (packed_file_index_macro_expansion_index: u32)
  (packed_line_column: u32)

definition c_num_line_bits :: nat where
  "c_num_line_bits = 18"

definition c_num_column_bits :: nat where
  "c_num_column_bits = 32 - c_num_line_bits"

definition c_max_line :: u32 where
  "c_max_line = push_bit c_num_line_bits 1 - 1"

definition c_max_column :: u32 where
  "c_max_column = push_bit c_num_column_bits 1 - 1"

definition c_num_file_index_bits :: nat where
  "c_num_file_index_bits = 16"

definition c_num_macro_expansion_index_bits :: nat where
  "c_num_macro_expansion_index_bits = 32 - c_num_file_index_bits"

definition c_max_file_index :: u32 where
  "c_max_file_index = push_bit c_num_file_index_bits 1 - 1"

definition c_max_macro_expanison_index :: u32 where
  "c_max_macro_expanison_index = push_bit c_num_macro_expansion_index_bits 1 - 1"

definition SrcLoc_default :: SrcLoc where
  "SrcLoc_default = SrcLoc
     (push_bit c_num_macro_expansion_index_bits 0 OR c_max_macro_expanison_index) 0"

definition SrcLoc_make :: "u32 \<Rightarrow> u32 \<Rightarrow> u32 \<Rightarrow> SrcLoc" where
  "SrcLoc_make file_index line column = SrcLoc
     (push_bit c_num_macro_expansion_index_bits file_index OR c_max_macro_expanison_index)
     (push_bit c_num_column_bits line OR (column AND c_max_column))"

definition GetFileIndex :: "SrcLoc \<Rightarrow> u32" where
  "GetFileIndex s =
     drop_bit c_num_macro_expansion_index_bits (packed_file_index_macro_expansion_index s)"

definition GetMacroExpansionIndex :: "SrcLoc \<Rightarrow> u32" where
  "GetMacroExpansionIndex s =
     packed_file_index_macro_expansion_index s AND c_max_macro_expanison_index"

definition GetLine :: "SrcLoc \<Rightarrow> u32" where
  "GetLine s = drop_bit c_num_column_bits (packed_line_column s)"

definition GetColumn :: "SrcLoc \<Rightarrow> u32" where
  "GetColumn s = packed_line_column s AND c_max_column"

definition SetLine :: "u32 \<Rightarrow> SrcLoc \<Rightarrow> SrcLoc" where
  "SetLine line s = SrcLoc (packed_file_index_macro_expansion_index s)
     ((packed_line_column s AND c_max_column) OR push_bit c_num_column_bits line)"

definition SetFileIndex :: "u32 \<Rightarrow> SrcLoc \<Rightarrow> SrcLoc" where
  "SetFileIndex file_index s = SrcLoc
     ((packed_file_index_macro_expansion_index s AND c_max_macro_expanison_index)
        OR push_bit c_num_macro_expansion_index_bits file_index)
     (packed_line_column s)"

definition SetMacroExpansionIndex :: "u32 \<Rightarrow> SrcLoc \<Rightarrow> SrcLoc" where
  "SetMacroExpansionIndex macro_expansion_index s = SrcLoc
     ((packed_file_index_macro_expansion_index s AND NOT c_max_macro_expanison_index)
        OR macro_expansion_index)
     (packed_line_column s)"

definition SrcLoc_eq :: "SrcLoc \<Rightarrow> SrcLoc \<Rightarrow> bool" where
  "SrcLoc_eq a b \<longleftrightarrow>
     packed_file_index_macro_expansion_index a = packed_file_index_macro_expansion_index b \<and>
     packed_line_column a = packed_line_column b"

definition SrcLoc_less :: "SrcLoc \<Rightarrow> SrcLoc \<Rightarrow> bool" where
  "SrcLoc_less a b =
     (if packed_file_index_macro_expansion_index a \<noteq> packed_file_index_macro_expansion_index b
      then packed_file_index_macro_expansion_index a < packed_file_index_macro_expansion_index b
      else packed_line_column a < packed_line_column b)"

definition SrcLoc_less_eq :: "SrcLoc \<Rightarrow> SrcLoc \<Rightarrow> bool" where
  "SrcLoc_less_eq a b \<longleftrightarrow> SrcLoc_less a b \<or> SrcLoc_eq a b"

text \<open>\<open>size_t\<close> is 64 bits wide when \<open>sizeof_size_t\<close> is 8, and 32 bits wide when it is 4.\<close>

definition SrcLoc_Hash :: "nat \<Rightarrow> SrcLoc \<Rightarrow> u64" where
  "SrcLoc_Hash sizeof_size_t s =
     (if sizeof_size_t \<ge> 8
      then push_bit 32 (ucast (packed_file_index_macro_expansion_index s))
           OR ucast (packed_line_column s)
      else ucast (packed_file_index_macro_expansion_index s XOR packed_line_column s))"

section \<open>The fields are independent\<close>

lemmas src_loc_consts = c_num_line_bits_def c_num_column_bits_def c_max_line_def c_max_column_def
  c_num_file_index_bits_def c_num_macro_expansion_index_bits_def c_max_file_index_def
  c_max_macro_expanison_index_def

lemma c_max_column_mask: "c_max_column = mask 14"
  and c_max_macro_mask: "c_max_macro_expanison_index = mask 16"
  by (simp_all add: src_loc_consts mask_numeral)

lemma c_max_values:
  "c_max_line = 262143" "c_max_column = 16383" "c_max_file_index = 65535"
  "c_max_macro_expanison_index = 65535"
  by (simp_all add: src_loc_consts)

lemma bits_values [simp]:
  "c_num_column_bits = 14" "c_num_macro_expansion_index_bits = 16"
  by (simp_all add: src_loc_consts)

lemma src_loc_fits:
  "w \<le> c_max_line \<Longrightarrow> take_bit 18 w = w" "w \<le> c_max_file_index \<Longrightarrow> take_bit 16 w = w"
  "w \<le> c_max_column \<Longrightarrow> take_bit 14 w = w" "w \<le> c_max_macro_expanison_index \<Longrightarrow> take_bit 16 w = w"
  by (simp_all add: c_max_values fits_take_bit word_le_nat_alt)

lemmas src_loc_getters = GetFileIndex_def GetMacroExpansionIndex_def GetLine_def GetColumn_def

lemmas src_loc_masks = c_max_column_mask c_max_macro_mask take_bit_eq_mask [symmetric]

lemma SrcLoc_make_get:
  "line \<le> c_max_line \<Longrightarrow> GetLine (SrcLoc_make f line c) = line"
  "column \<le> c_max_column \<Longrightarrow> GetColumn (SrcLoc_make f l column) = column"
  "f \<le> c_max_file_index \<Longrightarrow> GetFileIndex (SrcLoc_make f l c) = f"
  "GetMacroExpansionIndex (SrcLoc_make f l c) = c_max_macro_expanison_index"
  by (simp_all add: SrcLoc_make_def src_loc_getters src_loc_masks word_field src_loc_fits)

lemma SetLine_get:
  "line \<le> c_max_line \<Longrightarrow> GetLine (SetLine line s) = line"
  "GetColumn (SetLine line s) = GetColumn s"
  "GetFileIndex (SetLine line s) = GetFileIndex s"
  "GetMacroExpansionIndex (SetLine line s) = GetMacroExpansionIndex s"
  by (simp_all add: SetLine_def src_loc_getters src_loc_masks word_field src_loc_fits)

lemma SetFileIndex_get:
  "f \<le> c_max_file_index \<Longrightarrow> GetFileIndex (SetFileIndex f s) = f"
  "GetMacroExpansionIndex (SetFileIndex f s) = GetMacroExpansionIndex s"
  "GetLine (SetFileIndex f s) = GetLine s"
  "GetColumn (SetFileIndex f s) = GetColumn s"
  by (simp_all add: SetFileIndex_def src_loc_getters src_loc_masks word_field src_loc_fits)

lemma SetMacroExpansionIndex_get:
  "m \<le> c_max_macro_expanison_index \<Longrightarrow> GetMacroExpansionIndex (SetMacroExpansionIndex m s) = m"
  "m \<le> c_max_macro_expanison_index \<Longrightarrow> GetFileIndex (SetMacroExpansionIndex m s) = GetFileIndex s"
  "GetLine (SetMacroExpansionIndex m s) = GetLine s"
  "GetColumn (SetMacroExpansionIndex m s) = GetColumn s"
  by (simp_all add: SetMacroExpansionIndex_def src_loc_getters src_loc_masks word_field src_loc_fits
      del: take_bit_and drop_bit_and)

section \<open>The order\<close>

instantiation SrcLoc :: linorder
begin

definition less_SrcLoc :: "SrcLoc \<Rightarrow> SrcLoc \<Rightarrow> bool" where
  "less_SrcLoc = SrcLoc_less"

definition less_eq_SrcLoc :: "SrcLoc \<Rightarrow> SrcLoc \<Rightarrow> bool" where
  "less_eq_SrcLoc = SrcLoc_less_eq"

instance
proof
  fix x y z :: SrcLoc
  show "x < y \<longleftrightarrow> x \<le> y \<and> \<not> y \<le> x"
    by (auto simp: less_SrcLoc_def less_eq_SrcLoc_def SrcLoc_less_def SrcLoc_less_eq_def SrcLoc_eq_def
        split: if_splits)
  show "x \<le> x"
    by (simp add: less_eq_SrcLoc_def SrcLoc_less_eq_def SrcLoc_eq_def)
  show "x \<le> y \<Longrightarrow> y \<le> z \<Longrightarrow> x \<le> z"
    by (auto simp: less_eq_SrcLoc_def SrcLoc_less_def SrcLoc_less_eq_def SrcLoc_eq_def split: if_splits)
  show "x \<le> y \<Longrightarrow> y \<le> x \<Longrightarrow> x = y"
    by (auto simp: less_eq_SrcLoc_def SrcLoc_less_def SrcLoc_less_eq_def SrcLoc_eq_def
        split: if_splits intro: SrcLoc.expand)
  show "x \<le> y \<or> y \<le> x"
    by (auto simp: less_eq_SrcLoc_def SrcLoc_less_def SrcLoc_less_eq_def SrcLoc_eq_def split: if_splits)
qed

end

lemma packed_file_macro_eq_iff:
  "packed_file_index_macro_expansion_index a = packed_file_index_macro_expansion_index b \<longleftrightarrow>
     GetFileIndex a = GetFileIndex b \<and> GetMacroExpansionIndex a = GetMacroExpansionIndex b"
  unfolding src_loc_getters bits_values c_max_macro_mask by (rule field_eq_iff)

lemma packed_file_macro_less_iff:
  "packed_file_index_macro_expansion_index a < packed_file_index_macro_expansion_index b \<longleftrightarrow>
     GetFileIndex a < GetFileIndex b \<or>
     GetFileIndex a = GetFileIndex b \<and> GetMacroExpansionIndex a < GetMacroExpansionIndex b"
  unfolding src_loc_getters bits_values c_max_macro_mask by (rule field_less_iff)

lemma packed_line_column_eq_iff:
  "packed_line_column a = packed_line_column b \<longleftrightarrow>
     GetLine a = GetLine b \<and> GetColumn a = GetColumn b"
  unfolding src_loc_getters bits_values c_max_column_mask by (rule field_eq_iff)

lemma packed_line_column_less_iff:
  "packed_line_column a < packed_line_column b \<longleftrightarrow>
     GetLine a < GetLine b \<or> GetLine a = GetLine b \<and> GetColumn a < GetColumn b"
  unfolding src_loc_getters bits_values c_max_column_mask by (rule field_less_iff)

lemma SrcLoc_fields_eq_iff:
  "a = b \<longleftrightarrow> GetFileIndex a = GetFileIndex b \<and> GetMacroExpansionIndex a = GetMacroExpansionIndex b
     \<and> GetLine a = GetLine b \<and> GetColumn a = GetColumn b"
  unfolding conj_assoc [symmetric] packed_file_macro_eq_iff [symmetric]
  unfolding conj_assoc packed_line_column_eq_iff [symmetric]
  by (auto intro: SrcLoc.expand)

lemma SrcLoc_make_less:
  assumes "f \<le> c_max_file_index" and "l \<le> c_max_line" and "l' \<le> c_max_line" and "c \<le> c_max_column"
    and "c' \<le> c_max_column"
  shows "SrcLoc_make f l c < SrcLoc_make f l' c' \<longleftrightarrow> l < l' \<or> l = l' \<and> c < c'"
  unfolding less_SrcLoc_def SrcLoc_less_def packed_file_macro_eq_iff packed_file_macro_less_iff
    packed_line_column_less_iff
  using assms by (auto simp: SrcLoc_make_get)

section \<open>Properties\<close>

text \<open>
  A location built from a file index, a line and a column in range gives all three back and
  is not inside a macro expansion; setting the line afterwards is building the location with the
  new line, and setting the file index keeps every other field, also inside a macro expansion.
\<close>

theorem SrcLoc_roundtrip:
  assumes "f \<le> c_max_file_index" and "l \<le> c_max_line" and "c \<le> c_max_column"
    and "l' \<le> c_max_line" and "m \<le> c_max_macro_expanison_index"
  shows "(let s = SrcLoc_make f l c in
      (GetFileIndex s, GetMacroExpansionIndex s, GetLine s, GetColumn s)
        = (f, c_max_macro_expanison_index, l, c)
      \<and> SetLine l' s = SrcLoc_make f l' c
      \<and> SetMacroExpansionIndex m s = SetFileIndex f (SetMacroExpansionIndex m (SrcLoc_make f' l c)))"
  using assms
  by (simp add: Let_def SrcLoc_fields_eq_iff SrcLoc_make_get SetLine_get SetMacroExpansionIndex_get
      SetFileIndex_get)

theorem SrcLoc_roundtrip_witness:
  "GetLine (SrcLoc_make 3 262143 16383) = 262143 \<and> GetColumn (SrcLoc_make 3 262143 16383) = 16383
     \<and> GetFileIndex (SrcLoc_make 3 262143 16383) = 3
     \<and> SetLine 7 (SrcLoc_make 3 262143 16383) = SrcLoc_make 3 7 16383"
  using SrcLoc_roundtrip [of 3 262143 16383 7 5 0] by (simp add: c_max_values Let_def)

text \<open>
  The order on locations, which sorts the errors of a compilation, compares the file index
  first, then the macro expansion index, then the line and last the column.
\<close>

theorem SrcLoc_less_lexicographic:
  "SrcLoc_less a b \<longleftrightarrow>
     GetFileIndex a < GetFileIndex b \<or> GetFileIndex a = GetFileIndex b \<and>
       (GetMacroExpansionIndex a < GetMacroExpansionIndex b \<or>
        GetMacroExpansionIndex a = GetMacroExpansionIndex b \<and>
          (GetLine a < GetLine b \<or> GetLine a = GetLine b \<and> GetColumn a < GetColumn b))"
  unfolding SrcLoc_less_def packed_file_macro_eq_iff packed_file_macro_less_iff
    packed_line_column_less_iff
  by auto

lemma SrcLoc_Hash_inj: "SrcLoc_Hash 8 a = SrcLoc_Hash 8 b \<Longrightarrow> a = b"
proof -
  assume "SrcLoc_Hash 8 a = SrcLoc_Hash 8 b"
  then have eq: "(push_bit 32 (ucast (packed_file_index_macro_expansion_index a)) OR
        ucast (packed_line_column a) :: u64) =
      push_bit 32 (ucast (packed_file_index_macro_expansion_index b)) OR ucast (packed_line_column b)"
    by (simp add: SrcLoc_Hash_def)
  have fits: "take_bit 32 (ucast w :: u64) = ucast w" for w :: u32
    by (rule fits_take_bit) (use unsigned_less [of w, where ?'a=nat] in \<open>auto simp: unsigned_ucast_eq intro: le_less_trans [OF take_bit_nat_less_eq_self]\<close>)
  have less64: "unat v < 2 ^ 64" for v :: u32
    by (rule less_trans [OF unsigned_less]) simp
  have inj: "v = w" if "(ucast v :: u64) = ucast w" for v w :: u32
    using arg_cong [OF that, of unat] by (simp add: unsigned_ucast_eq take_bit_nat_eq_self [OF less64] word_unat_eq_iff)
  have "packed_line_column a = packed_line_column b"
    using arg_cong [OF eq, of "take_bit 32"] by (intro inj) (simp add: word_field fits)
  moreover have "packed_file_index_macro_expansion_index a = packed_file_index_macro_expansion_index b"
    using arg_cong [OF eq, of "drop_bit 32"] by (intro inj) (simp add: word_field fits)
  ultimately show "a = b" by (auto intro: SrcLoc.expand)
qed

end
