(* ===== verification/Program_String.thy ===== *)
theory Program_String
  imports U_Prelude
begin

text \<open>
  \<^verbatim>\<open>source/compiler0/lex_synt_lib/program_string.cpp\<close>: reading and writing code points of UTF-8
  text, and conversion of positions in a line between UTF-8, UTF-16 and UTF-32.

  A \<open>const char*\<close> into a text is a position (\<open>nat\<close>) in its list of bytes. The functions read
  the byte at the end of the text when they are called there; the texts are buffers of
  \<^verbatim>\<open>std::string\<close>, whose byte at the end is NUL, so \<open>peek\<close> gives 0 there. \<open>char\<close> is signed on the
  supported hosts, so a conversion of a \<open>char\<close> to \<open>sprache_char\<close> extends its sign.
\<close>

type_synonym sprache_char = u32

definition peek :: "byte list \<Rightarrow> nat \<Rightarrow> byte" where
  "peek t i = (if i < length t then t ! i else 0)"

definition sprache_char :: "byte \<Rightarrow> sprache_char" where
  "sprache_char b = scast b"

section \<open>Code points\<close>

definition GetNumberOfUTF16Words :: "sprache_char \<Rightarrow> u32" where
  "GetNumberOfUTF16Words code_point = (if code_point \<le> 0xFFFF then 1 else 2)"

definition c_bit_masks :: "nat \<Rightarrow> sprache_char" where
  "c_bit_masks k = push_bit k 1 - 1"

definition ReadNextUTF8Char :: "byte list \<Rightarrow> nat \<Rightarrow> nat \<Rightarrow> sprache_char \<times> nat" where
  "ReadNextUTF8Char t start end' =
    (let c = ucast (peek t start) :: sprache_char in
     if c < 0x80 then (c, start + 1)
     else if c < 0xE0 then
       (if start + 2 > end' then (0, end')
        else (push_bit 6 (sprache_char (peek t start) AND c_bit_masks 5) OR
              push_bit 0 (sprache_char (peek t (start + 1)) AND c_bit_masks 6), start + 2))
     else if c < 0xF0 then
       (if start + 3 > end' then (0, end')
        else (push_bit 12 (sprache_char (peek t start) AND c_bit_masks 4) OR
              push_bit 6 (sprache_char (peek t (start + 1)) AND c_bit_masks 6) OR
              push_bit 0 (sprache_char (peek t (start + 2)) AND c_bit_masks 6), start + 3))
     else if c < 0xF8 then
       (if start + 4 > end' then (0, end')
        else (push_bit 18 (sprache_char (peek t start) AND c_bit_masks 3) OR
              push_bit 12 (sprache_char (peek t (start + 1)) AND c_bit_masks 6) OR
              push_bit 6 (sprache_char (peek t (start + 2)) AND c_bit_masks 6) OR
              push_bit 0 (sprache_char (peek t (start + 3)) AND c_bit_masks 6), start + 4))
     else (0, start + 1))"

definition GetUTF8FirstChar :: "byte list \<Rightarrow> nat \<Rightarrow> nat \<Rightarrow> sprache_char" where
  "GetUTF8FirstChar t start end' = fst (ReadNextUTF8Char t start end')"

definition PushCharToUTF8String :: "sprache_char \<Rightarrow> byte list \<Rightarrow> byte list" where
  "PushCharToUTF8String c s =
    (if c \<le> 0x7F then s @ [ucast c]
     else if c \<le> 0x7FF then s @ [ucast (0xC0 OR drop_bit 6 c), ucast (0x80 OR (c AND 63))]
     else if c \<le> 0xFFFF then
       s @ [ucast (0xE0 OR drop_bit 12 c), ucast (0x80 OR (drop_bit 6 c AND 63)),
            ucast (0x80 OR (c AND 63))]
     else if c \<le> 0x10FFFF then
       s @ [ucast (0xF0 OR drop_bit 18 c), ucast (0x80 OR (drop_bit 12 c AND 63)),
            ucast (0x80 OR (drop_bit 6 c AND 63)), ucast (0x80 OR (c AND 63))]
     else s)"

section \<open>Reading makes progress\<close>

lemma ReadNextUTF8Char_progress [text_pos]:
  assumes "s < e"
  shows "s < snd (ReadNextUTF8Char t s e)" "snd (ReadNextUTF8Char t s e) \<le> e"
  using assms by (auto simp: ReadNextUTF8Char_def Let_def)

lemma ReadNextUTF8Char_progressD [text_pos]:
  assumes "ReadNextUTF8Char t s e = (c, s')" and "s < e"
  shows "s < s'" "s' \<le> e"
  using ReadNextUTF8Char_progress [of s e t] assms by simp_all

lemma ReadNextUTF8Char_decreases [text_pos]:
  "(c, s') = ReadNextUTF8Char t s e \<Longrightarrow> s < e \<Longrightarrow> e - s' < e - s"
  using ReadNextUTF8Char_progress [of s e t] by (metis diff_less_mono2 snd_conv)

lemma c_bit_masks_mask: "c_bit_masks k = mask k"
  by (simp add: c_bit_masks_def mask_eq_exp_minus_1 push_bit_eq_mult)

lemma fits16_le: "take_bit 16 w = (w :: u32) \<Longrightarrow> w \<le> 0xFFFF"
  by (drule take_bit_fits) (simp add: word_le_nat_alt)

lemma code_two_bytes_le: "push_bit 6 (x AND mask 5) OR (y AND mask 6) \<le> (0xFFFF :: u32)"
  by (rule fits16_le) (rule bit_eqI, auto simp: bit_simps)

lemma code_three_bytes_le:
  "push_bit 12 (x AND mask 4) OR push_bit 6 (y AND mask 6) OR (z AND mask 6) \<le> (0xFFFF :: u32)"
  by (rule fits16_le) (rule bit_eqI, auto simp: bit_simps)

lemma ReadNextUTF8Char_width:
  assumes "s < e"
  shows "unat (GetNumberOfUTF16Words (fst (ReadNextUTF8Char t s e))) \<le> snd (ReadNextUTF8Char t s e) - s"
  using assms code_two_bytes_le code_three_bytes_le
  unfolding ReadNextUTF8Char_def GetNumberOfUTF16Words_def Let_def c_bit_masks_mask push_bit_0_id id_apply
  by (simp del: push_bit_and) (auto simp: word_le_nat_alt word_less_nat_alt unsigned_ucast_eq)

section \<open>Writing and reading back\<close>

text \<open>The low bits of a byte built from a code point are the low bits of the word it was cut from.\<close>

lemma byte_low_bits:
  assumes "k \<le> 7"
  shows "sprache_char (ucast w) AND mask k = w AND (mask k :: sprache_char)"
  using assms by (intro bit_eqI) (auto simp: sprache_char_def bit_simps)

lemma ucast_byte: "(ucast (ucast w :: byte) :: u32) = take_bit 8 w"
  by (rule bit_eqI) (auto simp: bit_simps)

lemma byte_lead:
  fixes w y :: u32
  assumes "take_bit k y = y" and "take_bit k w = 0" and "unat w + 2 ^ k \<le> 256"
  shows "unat (ucast (ucast (w OR y) :: byte) :: u32) = unat w + unat y"
proof -
  have "w AND y = (w AND mask k) AND y"
    using assms(1) by (simp add: take_bit_eq_mask ac_simps)
  then have "w AND y = 0"
    using assms(2) by (simp add: take_bit_eq_mask)
  then have "w OR y = w + y" by (simp add: disjunctive_add_eq_or)
  moreover have "unat w + unat y < 256"
    using take_bit_fits [OF assms(1)] assms(3) by simp
  ultimately show ?thesis
    by (simp add: unsigned_ucast_eq unat_word_ariths take_bit_eq_mod)
qed

lemma peek_middle:
  "i < length bs \<Longrightarrow> peek (pre @ bs @ rest) (length pre + i) = bs ! i"
  by (simp add: peek_def nth_append)

lemma code_bits_two: "take_bit 11 c = c \<Longrightarrow>
    push_bit 6 (drop_bit 6 c AND mask 5) OR (c AND mask 6) = (c :: u32)"
proof (rule bit_eqI)
  fix n assume "take_bit 11 c = c"
  then have "bit c n \<Longrightarrow> n < 11" by (metis bit_take_bit_iff)
  then show "bit (push_bit 6 (drop_bit 6 c AND mask 5) OR (c AND mask 6)) n = bit c n"
    by (cases "n < 6") (auto simp: bit_simps not_less le_add_diff_inverse)
qed

lemma code_bits_three: "take_bit 16 c = c \<Longrightarrow>
    push_bit 12 (drop_bit 12 c AND mask 4) OR push_bit 6 (drop_bit 6 c AND mask 6) OR (c AND mask 6)
      = (c :: u32)"
proof (rule bit_eqI)
  fix n assume "take_bit 16 c = c"
  then have "bit c n \<Longrightarrow> n < 16" by (metis bit_take_bit_iff)
  then show "bit (push_bit 12 (drop_bit 12 c AND mask 4) OR push_bit 6 (drop_bit 6 c AND mask 6)
      OR (c AND mask 6)) n = bit c n"
    by (cases "n < 6"; cases "n < 12") (auto simp: bit_simps not_less le_add_diff_inverse)
qed

lemma code_bits_four: "take_bit 21 c = c \<Longrightarrow>
    push_bit 18 (drop_bit 18 c AND mask 3) OR push_bit 12 (drop_bit 12 c AND mask 6) OR
      push_bit 6 (drop_bit 6 c AND mask 6) OR (c AND mask 6) = (c :: u32)"
proof (rule bit_eqI)
  fix n assume "take_bit 21 c = c"
  then have "bit c n \<Longrightarrow> n < 21" by (metis bit_take_bit_iff)
  then show "bit (push_bit 18 (drop_bit 18 c AND mask 3) OR push_bit 12 (drop_bit 12 c AND mask 6) OR
      push_bit 6 (drop_bit 6 c AND mask 6) OR (c AND mask 6)) n = bit c n"
    by (cases "n < 6"; cases "n < 12"; cases "n < 18")
       (auto simp: bit_simps not_less le_add_diff_inverse)
qed

lemma cont_bits: "sprache_char (ucast (0x80 OR (w AND 63))) AND mask 6 = w AND (mask 6 :: u32)"
proof -
  have "(0x80 OR (w AND 63)) AND mask 6 = w AND (mask 6 :: u32)"
    by (simp add: bit.conj_disj_distrib2 mask_numeral and.assoc)
  then show ?thesis by (simp add: byte_low_bits)
qed

lemma lead_bits:
  "sprache_char (ucast (0xC0 OR w)) AND mask 5 = w AND (mask 5 :: u32)"
  "sprache_char (ucast (0xE0 OR w)) AND mask 4 = w AND (mask 4 :: u32)"
  "sprache_char (ucast (0xF0 OR w)) AND mask 3 = w AND (mask 3 :: u32)"
  by (simp_all add: byte_low_bits bit.conj_disj_distrib2) (simp_all add: mask_numeral)

lemma lead_range:
  fixes w :: u32
  shows "take_bit 5 w = w \<Longrightarrow> unat (ucast (ucast (0xC0 OR w) :: byte) :: u32) = 0xC0 + unat w \<and> unat w < 32"
  "take_bit 4 w = w \<Longrightarrow> unat (ucast (ucast (0xE0 OR w) :: byte) :: u32) = 0xE0 + unat w \<and> unat w < 16"
  "take_bit 3 w = w \<Longrightarrow> unat (ucast (ucast (0xF0 OR w) :: byte) :: u32) = 0xF0 + unat w \<and> unat w < 8"
  using byte_lead [of 5 w "0xC0"] byte_lead [of 4 w "0xE0"] byte_lead [of 3 w "0xF0"]
    take_bit_fits [of 5 w] take_bit_fits [of 4 w] take_bit_fits [of 3 w]
  by simp_all

lemma drop_bit_fits:
  fixes c :: u32
  assumes "unat c < 2 ^ (j + k)"
  shows "take_bit k (drop_bit j c) = drop_bit j c"
proof (rule fits_take_bit)
  have "unat (drop_bit j c) = unat c div 2 ^ j"
    by (simp only: unat_drop_bit_eq) (simp add: drop_bit_eq_div)
  also have "\<dots> < 2 ^ k"
    using assms by (simp add: less_mult_imp_div_less power_add mult.commute)
  finally show "unat (drop_bit j c) < 2 ^ k" .
qed

lemma PushCharToUTF8String_append: "PushCharToUTF8String c s = s @ PushCharToUTF8String c []"
  by (simp add: PushCharToUTF8String_def)

text \<open>The four lengths of the encoding of a code point.\<close>

lemma utf8_encoding:
  assumes "c \<le> 0x10FFFF"
  obtains (one) "c \<le> 0x7F" "PushCharToUTF8String c [] = [ucast c]" "(ucast (ucast c :: byte) :: u32) = c"
  | (two) "take_bit 11 c = c" "take_bit 5 (drop_bit 6 c) = drop_bit 6 c"
      "PushCharToUTF8String c [] = [ucast (0xC0 OR drop_bit 6 c), ucast (0x80 OR (c AND 63))]"
  | (three) "take_bit 16 c = c" "take_bit 4 (drop_bit 12 c) = drop_bit 12 c"
      "PushCharToUTF8String c [] = [ucast (0xE0 OR drop_bit 12 c), ucast (0x80 OR (drop_bit 6 c AND 63)), ucast (0x80 OR (c AND 63))]"
  | (four) "take_bit 21 c = c" "take_bit 3 (drop_bit 18 c) = drop_bit 18 c"
      "PushCharToUTF8String c [] = [ucast (0xF0 OR drop_bit 18 c), ucast (0x80 OR (drop_bit 12 c AND 63)),
        ucast (0x80 OR (drop_bit 6 c AND 63)), ucast (0x80 OR (c AND 63))]"
proof -
  consider "c \<le> 0x7F" | "\<not> c \<le> 0x7F" "c \<le> 0x7FF" | "\<not> c \<le> 0x7FF" "c \<le> 0xFFFF" | "\<not> c \<le> 0xFFFF" "c \<le> 0x10FFFF"
    using assms by blast
  then show thesis
  proof cases
    case 1
    then have "PushCharToUTF8String c [] = [ucast c]" "take_bit 8 c = c"
      by (auto simp: PushCharToUTF8String_def word_le_nat_alt intro: fits_take_bit)
    with 1 show ?thesis by (intro one) (simp_all add: ucast_byte)
  next
    case 2
    then have "unat c < 2 ^ 11" by (simp add: word_le_nat_alt)
    with 2 show ?thesis by (intro two) (simp_all add: drop_bit_fits fits_take_bit PushCharToUTF8String_def)
  next
    case 3
    then have "unat c < 2 ^ 16" by (simp add: word_le_nat_alt)
    with 3 show ?thesis
      by (intro three) (auto simp: drop_bit_fits fits_take_bit PushCharToUTF8String_def word_le_nat_alt)
  next
    case 4
    then have "unat c < 2 ^ 21" by (simp add: word_le_nat_alt)
    with 4 show ?thesis
      by (intro four) (auto simp: drop_bit_fits fits_take_bit PushCharToUTF8String_def word_le_nat_alt)
  qed
qed

text \<open>
  C30. Writing a code point up to 0x10FFFF as UTF-8 and reading at the place where it was written
  gives the code point back and leaves the position right behind its bytes, whatever precedes and
  follows it.
\<close>

theorem utf8_roundtrip:
  assumes "c \<le> 0x10FFFF" and "t = PushCharToUTF8String c pre @ rest" and "e \<le> length t"
    and "length (PushCharToUTF8String c pre) \<le> e"
  shows "ReadNextUTF8Char t (length pre) e = (c, length (PushCharToUTF8String c pre))"
proof -
  define bs where "bs = PushCharToUTF8String c []"
  have t: "t = pre @ bs @ rest" and len: "length pre + length bs \<le> e"
    and new: "length (PushCharToUTF8String c pre) = length pre + length bs"
    using assms(2,4) PushCharToUTF8String_append [of c pre] by (simp_all add: bs_def)
  have byte: "peek t (length pre + i) = bs ! i" if "i < length bs" for i
    using peek_middle [OF that] t by simp
  have byte0: "peek t (length pre) = bs ! 0" if "0 < length bs" using byte [OF that] by simp
  have byte1: "peek t (Suc (length pre)) = bs ! 1" if "1 < length bs" using byte [OF that] by simp
  have byte2: "peek t (Suc (Suc (length pre))) = bs ! 2" if "2 < length bs" using byte [OF that] by simp
  note read = ReadNextUTF8Char_def Let_def new byte0 byte1 byte2 byte [of 3] c_bit_masks_mask
    cont_bits lead_bits
  from assms(1) show ?thesis
  proof (cases rule: utf8_encoding)
    case one
    then show ?thesis by (simp add: read word_le_nat_alt word_less_nat_alt flip: bs_def)
  next
    case two
    with lead_range(1) [of "drop_bit 6 c"] code_bits_two len show ?thesis
      by (simp add: read word_less_nat_alt flip: bs_def del: push_bit_and)
  next
    case three
    with lead_range(2) [of "drop_bit 12 c"] code_bits_three len show ?thesis
      by (simp add: read word_less_nat_alt flip: bs_def del: push_bit_and)
  next
    case four
    with lead_range(3) [of "drop_bit 18 c"] code_bits_four len show ?thesis
      by (simp add: read word_less_nat_alt flip: bs_def del: push_bit_and)
  qed
qed

theorem utf8_roundtrip_witness:
  "ReadNextUTF8Char (PushCharToUTF8String 0x1F600 [0x61] @ [0x62]) (length [0x61 :: byte]) 6
     = (0x1F600, length (PushCharToUTF8String 0x1F600 [0x61]))
   \<and> PushCharToUTF8String 0x1F600 [0x61] = [0x61, 0xF0, 0x9F, 0x98, 0x80]"
proof -
  have bytes: "PushCharToUTF8String 0x1F600 [0x61] = [0x61, 0xF0, 0x9F, 0x98, 0x80]"
    by (simp add: PushCharToUTF8String_def)
  show ?thesis
    using utf8_roundtrip [of "0x1F600" "PushCharToUTF8String 0x1F600 [0x61] @ [0x62]" "[0x61]" "[0x62]" 6]
    by (simp add: bytes)
qed

section \<open>Positions in a text\<close>

text \<open>
  The four conversions are loops of two shapes: one stops at a position of the UTF-8 text, the
  other at a count of units. A unit is a UTF-16 word (\<open>GetNumberOfUTF16Words\<close>) or a code point
  (one each). Both loops count in 32 bits and stop at the end of the text.
\<close>

function utf8_bounded_loop ::
  "(sprache_char \<Rightarrow> u32) \<Rightarrow> byte list \<Rightarrow> u32 \<Rightarrow> nat \<Rightarrow> u32 \<Rightarrow> nat \<times> u32" where
  "utf8_bounded_loop units text position s current =
     (if s < length text \<and> word_of_nat s < position
      then (let (c, s') = ReadNextUTF8Char text s (length text)
            in utf8_bounded_loop units text position s' (current + units c))
      else (s, current))"
  by pat_completeness auto
termination
  by (relation "measure (\<lambda>(units, text, position, s, current). length text - s)")
     (auto intro: ReadNextUTF8Char_decreases)

function units_bounded_loop ::
  "(sprache_char \<Rightarrow> u32) \<Rightarrow> byte list \<Rightarrow> u32 \<Rightarrow> nat \<Rightarrow> u32 \<Rightarrow> nat \<times> u32" where
  "units_bounded_loop units text position s current =
     (if s < length text \<and> current < position
      then (let (c, s') = ReadNextUTF8Char text s (length text)
            in units_bounded_loop units text position s' (current + units c))
      else (s, current))"
  by pat_completeness auto
termination
  by (relation "measure (\<lambda>(units, text, position, s, current). length text - s)")
     (auto intro: ReadNextUTF8Char_decreases)

declare utf8_bounded_loop.simps [simp del] units_bounded_loop.simps [simp del]

definition Utf8PositionToUtf16Position :: "byte list \<Rightarrow> u32 \<Rightarrow> u32 option" where
  "Utf8PositionToUtf16Position text position =
     (let (s, current_utf16_position) = utf8_bounded_loop GetNumberOfUTF16Words text position 0 0
      in if word_of_nat s \<noteq> position then None else Some current_utf16_position)"

definition Utf8PositionToUtf32Position :: "byte list \<Rightarrow> u32 \<Rightarrow> u32 option" where
  "Utf8PositionToUtf32Position text position =
     (let (s, current_utf32_position) = utf8_bounded_loop (\<lambda>_. 1) text position 0 0
      in if word_of_nat s \<noteq> position then None else Some current_utf32_position)"

definition Utf16PositionToUtf8Position :: "byte list \<Rightarrow> u32 \<Rightarrow> u32 option" where
  "Utf16PositionToUtf8Position text position =
     (let (s, current_utf16_position) = units_bounded_loop GetNumberOfUTF16Words text position 0 0
      in if current_utf16_position \<noteq> position then None else Some (word_of_nat s))"

definition Utf32PositionToUtf8Position :: "byte list \<Rightarrow> u32 \<Rightarrow> u32 option" where
  "Utf32PositionToUtf8Position text position =
     (let (s, current_utf32_position) = units_bounded_loop (\<lambda>_. 1) text position 0 0
      in if current_utf32_position \<noteq> position then None else Some (word_of_nat s))"

section \<open>The conversions are inverse to each other\<close>

text \<open>
  What the loops need from a way of counting: each code point counts for something, and for no more
  than the bytes it is read from. Then no count overflows in a text of less than \<open>2^32\<close> bytes, and the
  two loops run in lockstep.
\<close>

locale unit_counting =
  fixes units :: "sprache_char \<Rightarrow> u32"
  assumes units_pos: "0 < unat (units c)"
    and units_width: "s < e \<Longrightarrow>
      unat (units (fst (ReadNextUTF8Char t s e))) \<le> snd (ReadNextUTF8Char t s e) - s"
begin

lemma count_step:
  assumes "ReadNextUTF8Char t s (length t) = (c, s')" and "s < length t" and "length t < 2 ^ 32"
    and "unat cur \<le> s"
  shows "s < s'" "s' \<le> length t" "unat (cur + units c) = unat cur + unat (units c)"
    "cur < cur + units c" "unat (cur + units c) \<le> s'"
proof -
  show s: "s < s'" "s' \<le> length t"
    using ReadNextUTF8Char_progressD [OF assms(1,2)] by auto
  have "unat (units c) \<le> s' - s"
    using units_width [OF assms(2), of t] assms(1) by simp
  then have "unat cur + unat (units c) \<le> s'" using assms(4) s by simp
  then show u: "unat (cur + units c) = unat cur + unat (units c)" and "unat (cur + units c) \<le> s'"
    using s assms(3) by (simp_all add: unat_word_ariths)
  then show "cur < cur + units c" using units_pos [of c] by (simp add: word_less_nat_alt)
qed

lemma utf8_bounded_loop_range:
  assumes "utf8_bounded_loop units t p s cur = (s', cur')" and "length t < 2 ^ 32"
    and "s \<le> length t" and "unat cur \<le> s"
  shows "s \<le> s' \<and> s' \<le> length t \<and> cur \<le> cur' \<and> unat cur' \<le> s'
    \<and> (s < length t \<and> word_of_nat s < p \<longrightarrow> cur < cur')"
  using assms
proof (induction "length t - s" arbitrary: s cur rule: less_induct)
  case less
  show ?case
  proof (cases "s < length t \<and> word_of_nat s < p")
    case True
    obtain c s1 where read: "ReadNextUTF8Char t s (length t) = (c, s1)" by fastforce
    note step = count_step [OF read conjunct1 [OF True] less.prems(2,4)]
    have "utf8_bounded_loop units t p s1 (cur + units c) = (s', cur')"
      using less.prems(1) True read by (subst (asm) utf8_bounded_loop.simps) simp
    then have "s1 \<le> s' \<and> s' \<le> length t \<and> cur + units c \<le> cur' \<and> unat cur' \<le> s'"
      using less.hyps [of s1 "cur + units c"] step True less.prems(2) by simp
    then show ?thesis using step by auto
  next
    case False
    then show ?thesis using less.prems by (subst (asm) utf8_bounded_loop.simps) auto
  qed
qed

lemma units_bounded_loop_range:
  assumes "units_bounded_loop units t p s cur = (s', cur')" and "length t < 2 ^ 32"
    and "s \<le> length t" and "unat cur \<le> s"
  shows "s \<le> s' \<and> s' \<le> length t \<and> unat cur' \<le> s' \<and> (s < length t \<and> cur < p \<longrightarrow> s < s')"
  using assms
proof (induction "length t - s" arbitrary: s cur rule: less_induct)
  case less
  show ?case
  proof (cases "s < length t \<and> cur < p")
    case True
    obtain c s1 where read: "ReadNextUTF8Char t s (length t) = (c, s1)" by fastforce
    note step = count_step [OF read conjunct1 [OF True] less.prems(2,4)]
    have "units_bounded_loop units t p s1 (cur + units c) = (s', cur')"
      using less.prems(1) True read by (subst (asm) units_bounded_loop.simps) simp
    then have "s1 \<le> s' \<and> s' \<le> length t \<and> unat cur' \<le> s'"
      using less.hyps [of s1 "cur + units c"] step True less.prems(2) by simp
    then show ?thesis using step by auto
  next
    case False
    then show ?thesis using less.prems by (subst (asm) units_bounded_loop.simps) auto
  qed
qed

lemma utf8_then_units:
  assumes "utf8_bounded_loop units t p s cur = (s', cur')" and "length t < 2 ^ 32"
    and "s \<le> length t" and "unat cur \<le> s"
  shows "units_bounded_loop units t cur' s cur = (s', cur')"
  using assms
proof (induction "length t - s" arbitrary: s cur rule: less_induct)
  case less
  show ?case
  proof (cases "s < length t \<and> word_of_nat s < p")
    case True
    obtain c s1 where read: "ReadNextUTF8Char t s (length t) = (c, s1)" by fastforce
    note step = count_step [OF read conjunct1 [OF True] less.prems(2,4)]
    have "utf8_bounded_loop units t p s1 (cur + units c) = (s', cur')"
      using less.prems(1) True read by (subst (asm) utf8_bounded_loop.simps) simp
    then have "units_bounded_loop units t cur' s1 (cur + units c) = (s', cur')"
      using less.hyps step True less.prems(2) by simp
    moreover have "cur < cur'"
      using utf8_bounded_loop_range [OF less.prems] True by simp
    ultimately show ?thesis
      using True read by (subst units_bounded_loop.simps) simp
  next
    case False
    then have "s' = s" "cur' = cur" using less.prems(1) by (auto simp: utf8_bounded_loop.simps)
    then show ?thesis by (simp add: units_bounded_loop.simps)
  qed
qed

lemma units_then_utf8:
  assumes "units_bounded_loop units t p s cur = (s', cur')" and "length t < 2 ^ 32"
    and "s \<le> length t" and "unat cur \<le> s"
  shows "utf8_bounded_loop units t (word_of_nat s') s cur = (s', cur')"
  using assms
proof (induction "length t - s" arbitrary: s cur rule: less_induct)
  case less
  show ?case
  proof (cases "s < length t \<and> cur < p")
    case True
    obtain c s1 where read: "ReadNextUTF8Char t s (length t) = (c, s1)" by fastforce
    note step = count_step [OF read conjunct1 [OF True] less.prems(2,4)]
    have "units_bounded_loop units t p s1 (cur + units c) = (s', cur')"
      using less.prems(1) True read by (subst (asm) units_bounded_loop.simps) simp
    then have "utf8_bounded_loop units t (word_of_nat s') s1 (cur + units c) = (s', cur')"
      using less.hyps step True less.prems(2) by simp
    moreover have "s < s'" "s' \<le> length t"
      using units_bounded_loop_range [OF less.prems] True by simp_all
    then have "(word_of_nat s :: u32) < word_of_nat s'"
      using less.prems(2) by (simp add: word_less_nat_alt unat_of_nat)
    ultimately show ?thesis
      using True read by (subst utf8_bounded_loop.simps) simp
  next
    case False
    then have "s' = s" "cur' = cur" using less.prems(1) by (auto simp: units_bounded_loop.simps)
    then show ?thesis by (simp add: utf8_bounded_loop.simps)
  qed
qed

lemma loops_inverse:
  assumes "length t < 2 ^ 32"
  shows "(\<exists>s. utf8_bounded_loop units t p 0 0 = (s, q) \<and> word_of_nat s = p) \<longleftrightarrow>
    (\<exists>s. units_bounded_loop units t q 0 0 = (s, q) \<and> word_of_nat s = p)"
  using utf8_then_units [OF _ assms, of p 0 0] units_then_utf8 [OF _ assms, of q 0 0] by auto

end

lemma GetNumberOfUTF16Words_pos: "0 < unat (GetNumberOfUTF16Words c)"
  by (simp add: GetNumberOfUTF16Words_def)

interpretation utf16: unit_counting GetNumberOfUTF16Words
  by unfold_locales (simp_all add: GetNumberOfUTF16Words_pos ReadNextUTF8Char_width)

interpretation utf32: unit_counting "\<lambda>_. 1"
  using ReadNextUTF8Char_progress by unfold_locales (auto simp: Suc_le_eq)

text \<open>
  In a text of less than \<open>2^32\<close> bytes the UTF-16 column editors send and the byte column the compiler
  uses determine each other: \<open>Utf8PositionToUtf16Position\<close> sends a byte position to a UTF-16
  position exactly when \<open>Utf16PositionToUtf8Position\<close> sends it back. This holds for every text,
  malformed UTF-8 included.
\<close>

theorem utf16_positions_inverse:
  assumes "length text < 2 ^ 32"
  shows "Utf8PositionToUtf16Position text p = Some q \<longleftrightarrow> Utf16PositionToUtf8Position text q = Some p"
  using utf16.loops_inverse [OF assms, of p q]
  by (cases "utf8_bounded_loop GetNumberOfUTF16Words text p 0 0";
      cases "units_bounded_loop GetNumberOfUTF16Words text q 0 0")
     (auto simp: Utf8PositionToUtf16Position_def Utf16PositionToUtf8Position_def)

text \<open>
  The same for UTF-32 positions, which are the columns the compiler reports.
\<close>

theorem utf32_positions_inverse:
  assumes "length text < 2 ^ 32"
  shows "Utf8PositionToUtf32Position text p = Some q \<longleftrightarrow> Utf32PositionToUtf8Position text q = Some p"
  using utf32.loops_inverse [OF assms, of p q]
  by (cases "utf8_bounded_loop (\<lambda>_. 1) text p 0 0";
      cases "units_bounded_loop (\<lambda>_. 1) text q 0 0")
     (auto simp: Utf8PositionToUtf32Position_def Utf32PositionToUtf8Position_def)

lemmas position_loops = utf8_bounded_loop.simps units_bounded_loop.simps ReadNextUTF8Char_def
  peek_def Let_def sprache_char_def c_bit_masks_def

theorem utf16_positions_inverse_witness:
  "Utf8PositionToUtf16Position [0xF0, 0x9F, 0x98, 0x80, 0x61] 4 = Some 2
   \<and> Utf16PositionToUtf8Position [0xF0, 0x9F, 0x98, 0x80, 0x61] 2 = Some 4"
proof -
  have "Utf8PositionToUtf16Position [0xF0, 0x9F, 0x98, 0x80, 0x61] 4 = Some 2"
    by (simp add: Utf8PositionToUtf16Position_def GetNumberOfUTF16Words_def position_loops)
  then show ?thesis
    using utf16_positions_inverse [of "[0xF0, 0x9F, 0x98, 0x80, 0x61]" 4 2] by simp
qed

theorem utf32_positions_inverse_witness:
  "Utf8PositionToUtf32Position [0xD1, 0x84, 0x61] 2 = Some 1
   \<and> Utf32PositionToUtf8Position [0xD1, 0x84, 0x61] 1 = Some 2"
proof -
  have "Utf8PositionToUtf32Position [0xD1, 0x84, 0x61] 2 = Some 1"
    by (simp add: Utf8PositionToUtf32Position_def position_loops)
  then show ?thesis
    using utf32_positions_inverse [of "[0xD1, 0x84, 0x61]" 2 1] by simp
qed

end
