(* ===== verification/Number_Parsing.thy ===== *)
theory Number_Parsing
  imports U_Prelude
begin

text \<open>
  \<^verbatim>\<open>source/compiler0/lex_synt_lib/number_parsing_utils.hpp\<close>: digits of the four bases and the
  conversion of a digit string to a 128-bit integer with four 32-bit words. The template argument
  \<open>base\<close> is an ordinary argument here; the compiler instantiates it with 2, 8, 10 and 16.
\<close>

section \<open>Digits\<close>

definition in_range :: "char \<Rightarrow> char \<Rightarrow> byte \<Rightarrow> bool" where
  "in_range lo hi c \<longleftrightarrow> ch lo \<le> c \<and> c \<le> ch hi"

definition TryParseDigit :: "u32 \<Rightarrow> byte \<Rightarrow> u32" where
  "TryParseDigit base c =
    (if base = 2 \<and> in_range CHR ''0'' CHR ''1'' c then ucast c - ucast (ch CHR ''0'')
     else if base = 8 \<and> in_range CHR ''0'' CHR ''7'' c then ucast c - ucast (ch CHR ''0'')
     else if base = 10 \<and> in_range CHR ''0'' CHR ''9'' c then ucast c - ucast (ch CHR ''0'')
     else if base = 16 \<and> in_range CHR ''0'' CHR ''9'' c then ucast c - ucast (ch CHR ''0'')
     else if base = 16 \<and> in_range CHR ''a'' CHR ''f'' c then ucast c - ucast (ch CHR ''a'') + 10
     else if base = 16 \<and> in_range CHR ''A'' CHR ''F'' c then ucast c - ucast (ch CHR ''A'') + 10
     else - 1)"

record Int128 =
  lo :: u64
  hi :: u64

section \<open>Long arithmetic\<close>

text \<open>One pass over the words: multiply by the base and add the carry, low word first.\<close>

fun mul_add_words :: "u32 \<Rightarrow> u32 list \<Rightarrow> u32 \<Rightarrow> u32 list \<times> u32" where
  "mul_add_words base [] carry = ([], carry)" |
  "mul_add_words base (w # ws) carry =
    (let v = (ucast w :: u64) * ucast base + ucast carry;
         (ws', carry') = mul_add_words base ws (ucast (drop_bit 32 v))
     in (ucast v # ws', carry'))"

fun decode_digits :: "u32 \<Rightarrow> byte list \<Rightarrow> u32 list \<Rightarrow> u32 list option" where
  "decode_digits base [] words = Some words" |
  "decode_digits base (c # s) words =
    (let digit = TryParseDigit base c in
     if digit = - 1 then None
     else let (words', carry) = mul_add_words base words digit in
       if carry \<noteq> 0 then None else decode_digits base s words')"

definition words_to_Int128 :: "u32 list \<Rightarrow> Int128" where
  "words_to_Int128 words =
    \<lparr> lo = ucast (words ! 0) OR push_bit 32 (ucast (words ! 1)),
      hi = ucast (words ! 2) OR push_bit 32 (ucast (words ! 3)) \<rparr>"

definition DecodeParsedInteger :: "u32 \<Rightarrow> byte list \<Rightarrow> Int128 option" where
  "DecodeParsedInteger base s = map_option words_to_Int128 (decode_digits base s [0, 0, 0, 0])"

section \<open>The number a digit string denotes\<close>

definition Int128_val :: "Int128 \<Rightarrow> nat" where
  "Int128_val n = unat (lo n) + 2 ^ 64 * unat (hi n)"

definition supported_base :: "u32 \<Rightarrow> bool" where
  "supported_base b \<longleftrightarrow> b \<in> {2, 8, 10, 16}"

definition is_digit :: "u32 \<Rightarrow> byte \<Rightarrow> bool" where
  "is_digit b c \<longleftrightarrow> TryParseDigit b c < b"

definition digits_val :: "u32 \<Rightarrow> byte list \<Rightarrow> nat" where
  "digits_val b s = foldl (\<lambda>n c. n * unat b + unat (TryParseDigit b c)) 0 s"

fun words_val :: "u32 list \<Rightarrow> nat" where
  "words_val [] = 0" |
  "words_val (w # ws) = unat w + 2 ^ 32 * words_val ws"

lemma in_range_offset:
  assumes "in_range l h c"
  shows "unat (ucast c - ucast (ch l) :: u32) = unat c - of_char l \<and> unat c - of_char l \<le> of_char h - of_char l"
proof -
  have "of_char l \<le> unat c" "unat c \<le> of_char h"
    using assms by (simp_all add: in_range_def word_le_nat_alt unat_ch)
  moreover have "unat c < 2 ^ 8" "of_char l < (2 :: nat) ^ 8"
    using unat_less [of c] unat_less [of "ch l"] by (simp_all add: unat_ch)
  ultimately show ?thesis
    by (simp add: unat_sub_if' unsigned_ucast_eq take_bit_eq_mod unat_ch)
qed

lemma digit_offset_less:
  assumes "in_range l h c" and "of_char h - of_char l + k < unat (b :: u32)"
  shows "ucast c - ucast (ch l) + (word_of_nat k :: u32) < b"
proof -
  have "unat (word_of_nat k :: u32) \<le> k" by (simp add: unat_of_nat)
  moreover have "unat b < 2 ^ 32" using unat_less [of b] by simp
  ultimately show ?thesis
    using in_range_offset [OF assms(1)] assms(2) by (simp add: word_less_nat_alt unat_word_ariths)
qed

lemma TryParseDigit_cases:
  assumes "supported_base b"
  shows "TryParseDigit b c = - 1 \<or> TryParseDigit b c < b"
proof -
  have two: "in_range CHR ''0'' CHR ''1'' c \<Longrightarrow> ucast c - ucast (ch CHR ''0'') < (2 :: u32)"
    and eight: "in_range CHR ''0'' CHR ''7'' c \<Longrightarrow> ucast c - ucast (ch CHR ''0'') < (8 :: u32)"
    and ten: "in_range CHR ''0'' CHR ''9'' c \<Longrightarrow> ucast c - ucast (ch CHR ''0'') < (10 :: u32)"
    and sixteen: "in_range CHR ''0'' CHR ''9'' c \<Longrightarrow> ucast c - ucast (ch CHR ''0'') < (16 :: u32)"
      "in_range CHR ''a'' CHR ''f'' c \<Longrightarrow> ucast c - ucast (ch CHR ''a'') + 10 < (16 :: u32)"
      "in_range CHR ''A'' CHR ''F'' c \<Longrightarrow> ucast c - ucast (ch CHR ''A'') + 10 < (16 :: u32)"
    using digit_offset_less [of _ _ c 0] digit_offset_less [of _ _ c 10] by simp_all
  consider "b = 2" | "b = 8" | "b = 10" | "b = 16" using assms by (auto simp: supported_base_def)
  then show ?thesis
    by cases (auto simp: TryParseDigit_def two eight ten sixteen)
qed

lemma not_digit: "supported_base b \<Longrightarrow> \<not> - 1 < b"
  by (auto simp: supported_base_def)

lemma is_digit_iff: "supported_base b \<Longrightarrow> is_digit b c \<longleftrightarrow> TryParseDigit b c \<noteq> - 1"
  using TryParseDigit_cases not_digit by (auto simp: is_digit_def)

lemma base_small: "supported_base b \<Longrightarrow> unat b \<le> 16 \<and> 2 \<le> unat b"
  by (auto simp: supported_base_def)

text \<open>A pass loses nothing: the words and the carry together are the old value times the base plus the carry in.\<close>

lemma mul_add_step:
  fixes w base carry :: u32
  assumes "unat base \<le> 16" and "carry < base"
  defines "v \<equiv> (ucast w :: u64) * ucast base + ucast carry"
  shows "unat (ucast v :: u32) + 2 ^ 32 * unat (ucast (drop_bit 32 v) :: u32)
      = unat w * unat base + unat carry"
    and "(ucast (drop_bit 32 v) :: u32) < base"
proof -
  have "Suc (unat w) * unat base \<le> 2 ^ 32 * unat base"
    using unat_less [of w] by (intro mult_le_mono1) simp
  then have le: "unat w * unat base + unat carry < 2 ^ 32 * unat base"
    using assms(2) unfolding word_less_nat_alt mult_Suc by linarith
  moreover have "unat w < 2 ^ 64" using unat_less [of w] by simp
  ultimately have v: "unat v = unat w * unat base + unat carry"
    unfolding v_def using assms(1) by (simp add: unat_word_ariths unsigned_ucast_eq take_bit_eq_mod)
  have d: "unat (drop_bit 32 v) = unat v div 2 ^ 32"
    by (simp only: unat_drop_bit_eq) (simp add: drop_bit_eq_div)
  also have "\<dots> < unat base"
    using le v by (simp add: less_mult_imp_div_less mult.commute)
  finally have lt: "unat (drop_bit 32 v) < unat base" .
  then have d': "unat (ucast (drop_bit 32 v) :: u32) = unat v div 2 ^ 32"
    using d assms(1) by (simp add: unsigned_ucast_eq take_bit_eq_mod)
  moreover have "unat (ucast v :: u32) = unat v mod 2 ^ 32"
    by (simp add: unsigned_ucast_eq take_bit_eq_mod)
  ultimately show "unat (ucast v :: u32) + 2 ^ 32 * unat (ucast (drop_bit 32 v) :: u32)
      = unat w * unat base + unat carry"
    using v by simp
  show "(ucast (drop_bit 32 v) :: u32) < base"
    using d d' lt by (simp add: word_less_nat_alt)
qed

lemma mul_add_words_val:
  assumes "unat base \<le> 16" and "carry < base" and "mul_add_words base ws carry = (ws', carry')"
  shows "words_val ws' + 2 ^ (32 * length ws) * unat carry' = words_val ws * unat base + unat carry
    \<and> length ws' = length ws"
  using assms(2,3)
proof (induction ws arbitrary: carry ws')
  case Nil
  then show ?case by simp
next
  case (Cons w ws)
  define v where "v = (ucast w :: u64) * ucast base + ucast carry"
  obtain ws1 where ws1: "mul_add_words base ws (ucast (drop_bit 32 v)) = (ws1, carry')"
      "ws' = ucast v # ws1"
    using Cons.prems(2) by (auto simp: Let_def v_def split: prod.splits)
  note step = mul_add_step [OF assms(1) Cons.prems(1), of w, folded v_def]
  note IH = Cons.IH [OF step(2) ws1(1)]
  define q where "q = unat (ucast (drop_bit 32 v) :: u32)"
  have "words_val ws' + 2 ^ (32 * length (w # ws)) * unat carry' =
      unat (ucast v :: u32) + 2 ^ 32 * (words_val ws1 + 2 ^ (32 * length ws) * unat carry')"
    by (simp add: ws1(2) power_add algebra_simps)
  also have "\<dots> = unat (ucast v :: u32) + 2 ^ 32 * (words_val ws * unat base + q)"
    using IH by (simp add: q_def)
  also have "\<dots> = (unat (ucast v :: u32) + 2 ^ 32 * q) + 2 ^ 32 * (words_val ws * unat base)"
    by (simp add: algebra_simps)
  also have "\<dots> = words_val (w # ws) * unat base + unat carry"
    unfolding q_def step(1) by (simp add: algebra_simps)
  finally show ?case using IH ws1(2) by simp
qed

lemma words_val_less: "words_val ws < 2 ^ (32 * length ws)"
proof (induction ws)
  case (Cons w ws)
  have "unat w + 2 ^ 32 * words_val ws < 2 ^ 32 * (words_val ws + 1)"
    using unat_less [of w] by simp
  also have "\<dots> \<le> 2 ^ 32 * 2 ^ (32 * length ws)"
    using Cons.IH by (intro mult_le_mono2) simp
  finally show ?case by (simp add: power_add)
qed simp

lemma digits_val_snoc: "digits_val b (s @ [c]) = digits_val b s * unat b + unat (TryParseDigit b c)"
  by (simp add: digits_val_def)

lemma foldl_digits_ge:
  "2 \<le> unat b \<Longrightarrow> n \<le> foldl (\<lambda>n c. n * unat b + unat (TryParseDigit b c)) n s"
proof (induction s arbitrary: n)
  case (Cons c s)
  have "n \<le> n * unat b + unat (TryParseDigit b c)"
    using Cons.prems by (metis One_nat_def Suc_1 Suc_leD le_add1 le_trans mult_le_mono2 nat_mult_1_right)
  also have "\<dots> \<le> foldl (\<lambda>n c. n * unat b + unat (TryParseDigit b c)) (n * unat b + unat (TryParseDigit b c)) s"
    by (rule Cons.IH [OF Cons.prems])
  finally show ?case by simp
qed simp

lemma decode_digits_Some:
  assumes "supported_base b" and "length ws = 4"
    and "\<forall>c \<in> set s. is_digit b c"
    and "foldl (\<lambda>n c. n * unat b + unat (TryParseDigit b c)) (words_val ws) s < 2 ^ 128"
  shows "\<exists>ws'. decode_digits b s ws = Some ws' \<and> length ws' = 4 \<and>
    words_val ws' = foldl (\<lambda>n c. n * unat b + unat (TryParseDigit b c)) (words_val ws) s"
  using assms(2-)
proof (induction s arbitrary: ws)
  case (Cons c s)
  let ?d = "TryParseDigit b c"
  obtain ws1 carry where ma: "mul_add_words b ws ?d = (ws1, carry)" by fastforce
  have d: "?d < b" "?d \<noteq> - 1"
    using Cons.prems(2) not_digit [OF assms(1)] by (auto simp: is_digit_def)
  have v: "words_val ws1 + 2 ^ 128 * unat carry = words_val ws * unat b + unat ?d" "length ws1 = 4"
    using mul_add_words_val [OF _ d(1) ma] base_small [OF assms(1)] Cons.prems(1) by auto
  have "words_val ws * unat b + unat ?d < 2 ^ 128"
    using foldl_digits_ge [of b "words_val ws * unat b + unat ?d" s] base_small [OF assms(1)] Cons.prems(3)
    by simp
  then have "unat carry = 0" using v(1) by (metis add_lessD1 add.commute less_not_refl mult_0_right
        mult_le_mono2 nat_mult_1_right not_less order.strict_trans2 less_one linorder_not_le)
  then have "carry = 0" "words_val ws1 = words_val ws * unat b + unat ?d"
    using v(1) by (simp_all add: unat_eq_0)
  then show ?case
    using Cons.IH [of ws1] v(2) Cons.prems ma d(2) by (simp add: Let_def)
qed simp

lemma decode_digits_SomeD:
  assumes "supported_base b" and "length ws = 4" and "decode_digits b s ws = Some ws'"
  shows "(\<forall>c \<in> set s. is_digit b c) \<and>
    foldl (\<lambda>n c. n * unat b + unat (TryParseDigit b c)) (words_val ws) s < 2 ^ 128"
  using assms(2-)
proof (induction s arbitrary: ws)
  case Nil
  then show ?case using words_val_less [of ws] by simp
next
  case (Cons c s)
  let ?d = "TryParseDigit b c"
  obtain ws1 carry where ma: "mul_add_words b ws ?d = (ws1, carry)" by fastforce
  have d: "?d \<noteq> - 1" "?d < b" and "carry = 0" and rest: "decode_digits b s ws1 = Some ws'"
    using Cons.prems(2) ma TryParseDigit_cases [OF assms(1), of c]
    by (auto simp: Let_def split: if_splits)
  then have "words_val ws1 = words_val ws * unat b + unat ?d" "length ws1 = 4"
    using mul_add_words_val [OF _ d(2) ma] base_small [OF assms(1)] Cons.prems(1) by auto
  then show ?case
    using Cons.IH [OF _ rest] d(2) by (simp add: is_digit_def)
qed

lemma words_to_Int128_val:
  assumes "length ws = 4"
  shows "Int128_val (words_to_Int128 ws) = words_val ws"
proof -
  obtain a b c d where ws: "ws = [a, b, c, d]"
    using assms by (auto simp: length_Suc_conv numeral_eq_Suc)
  have pair: "unat ((ucast x :: u64) OR push_bit 32 (ucast y)) = unat x + 2 ^ 32 * unat y"
    for x y :: u32
  proof -
    have "(ucast x :: u64) AND push_bit 32 (ucast y) = 0"
      by (rule bit_eqI) (auto simp: bit_simps dest: bit_imp_le_length)
    then have "(ucast x :: u64) OR push_bit 32 (ucast y) = ucast x + push_bit 32 (ucast y)"
      by (simp add: disjunctive_add_eq_or)
    moreover have "unat (push_bit 32 (ucast y) :: u64) = 2 ^ 32 * unat y"
      using unat_less [of y]
      by (simp add: push_bit_eq_mult unat_word_ariths unsigned_ucast_eq take_bit_eq_mod)
    ultimately show ?thesis
      using unat_less [of x] unat_less [of y]
      by (simp add: unat_word_ariths unsigned_ucast_eq take_bit_eq_mod)
  qed
  show ?thesis
    by (simp add: ws words_to_Int128_def Int128_val_def pair)
qed

text \<open>
  C27. For each of the bases 2, 8, 10 and 16, \<open>DecodeParsedInteger\<close> computes the number its digits
  denote when all characters are digits of the base and the number is below \<open>2^128\<close>, and fails in
  every other case: the 32-bit long arithmetic neither overflows nor misses an overflow.
\<close>

theorem DecodeParsedInteger_correct:
  assumes "supported_base b"
  shows "map_option Int128_val (DecodeParsedInteger b s) =
    (if (\<forall>c \<in> set s. is_digit b c) \<and> digits_val b s < 2 ^ 128 then Some (digits_val b s) else None)"
proof (cases "(\<forall>c \<in> set s. is_digit b c) \<and> digits_val b s < 2 ^ 128")
  case True
  then show ?thesis
    using decode_digits_Some [OF assms, of "[0, 0, 0, 0]" s]
    by (auto simp: DecodeParsedInteger_def digits_val_def words_to_Int128_val)
next
  case False
  then have "decode_digits b s [0, 0, 0, 0] = None"
    using decode_digits_SomeD [OF assms, of "[0, 0, 0, 0]" s]
    by (cases "decode_digits b s [0, 0, 0, 0]") (auto simp: digits_val_def)
  then show ?thesis using False by (auto simp: DecodeParsedInteger_def)
qed

theorem DecodeParsedInteger_correct_witness:
  "map_option Int128_val (DecodeParsedInteger 16 (str ''1F'')) = Some 31
   \<and> map_option Int128_val (DecodeParsedInteger 10 (str ''7a'')) = None"
proof -
  note c = DecodeParsedInteger_correct [of 16 "str ''1F''"] DecodeParsedInteger_correct [of 10 "str ''7a''"]
  show ?thesis
    using c by (simp add: supported_base_def is_digit_def digits_val_def TryParseDigit_def
        in_range_def ch_def)
qed

end
