(* ===== verification/Lexem.thy ===== *)
theory Lexem
  imports Src_Loc Program_String Number_Parsing
begin

text \<open>
  The tokens of \<^verbatim>\<open>source/compiler0/lex_synt_lib/lexical_analyzer.hpp\<close> and the routines of
  \<^verbatim>\<open>lexical_analyzer.cpp\<close> that recognise one token each: character classes, fixed lexems, character
  and string literals with their escape sequences, identifiers, macro identifiers and numbers.

  An \<open>Iterator\<close> is a position in the text. All routines but \<open>AdvanceIteratorAndCountCodePoints\<close> are
  called with \<open>it_end\<close> at the end of the text, so it is not an argument here. A routine that
  changes its iterator and appends to \<open>out_errors\<close> returns the new position and the new error list.
\<close>

section \<open>Lexems and errors\<close>

datatype (plugins only: code) Lexem_Type =
    NoneLexem | Identifier | MacroIdentifier | MacroUniqueIdentifier | String | CharLiteral |
  IntegerNumber | FloatingPointNumber | LiteralSuffix | BracketLeft | BracketRight |
  SquareBracketLeft | SquareBracketRight | BraceLeft | BraceRight | TemplateBracketLeft |
  TemplateBracketRight | MacroBracketLeft | MacroBracketRight | DoubleColon | Comma | Dot |
  Colon | Semicolon | Question | Equal | Plus | Minus | Asterisk | Slash | Percent | Ampersand |
  Pipe | Caret | Tilde | Exclamation | At | DoublePlus | DoubleMinus | Less | Greater |
  DoubleEqual | ExclamationEqual | LessEqual | GreaterEqual | LessEqualGreater |
  DoubleAmpersand | DoublePipe | PlusEqual | MinusEqual | AsteriskEqual | SlashEqual |
  PercentEqual | AmpersandEqual | PipeEqual | CaretEqual | DoubleLess | DoubleGreater |
  DoubleLessEqual | DoubleGreaterEqual | MinusGreater | Dollar | DollarLess | DollarGreater |
  Ellipsis | CompletionIdentifier | CompletionScope | CompletionDot | SignatureHelpBracketLeft |
  SignatureHelpComma | EndOfFile

record Lexem =
  lexem_text :: "byte list"
  lexem_src_loc :: SrcLoc
  lexem_type :: Lexem_Type

record LexSyntError =
  error_text :: "byte list"
  error_src_loc :: SrcLoc

definition Lexem_default :: Lexem where
  "Lexem_default = \<lparr> lexem_text = [], lexem_src_loc = SrcLoc_default, lexem_type = NoneLexem \<rparr>"

definition mk_error :: "byte list \<Rightarrow> SrcLoc \<Rightarrow> LexSyntError" where
  "mk_error message loc = \<lparr> error_text = message, error_src_loc = loc \<rparr>"

section \<open>Fixed lexems\<close>

definition g_max_fixed_lexem_size :: nat where
  "g_max_fixed_lexem_size = 3"

definition fixed_lexems_1 :: "(string \<times> Lexem_Type) list" where
  "fixed_lexems_1 =
    [(''('', BracketLeft), ('')'', BracketRight), (''['', SquareBracketLeft),
     ('']'', SquareBracketRight), (''{'', BraceLeft), (''}'', BraceRight), ('','', Comma),
     (''.'', Dot), ('':'', Colon), ('';'', Semicolon), (''?'', Question), (''='', Equal),
     (''+'', Plus), (''-'', Minus), (''*'', Asterisk), (''/'', Slash), (''%'', Percent),
     (''<'', Less), (''>'', Greater), (''&'', Ampersand), (''|'', Pipe), (''^'', Caret),
     (''~'', Tilde), (''!'', Exclamation), (''@'', At), (''$'', Dollar)]"

definition fixed_lexems_2 :: "(string \<times> Lexem_Type) list" where
  "fixed_lexems_2 =
    [(''</'', TemplateBracketLeft), (''/>'', TemplateBracketRight), (''<?'', MacroBracketLeft),
     (''?>'', MacroBracketRight), (''::'', DoubleColon), (''++'', DoublePlus),
     (''--'', DoubleMinus), (''=='', DoubleEqual), (''!='', ExclamationEqual),
     (''<='', LessEqual), (''>='', GreaterEqual), (''&&'', DoubleAmpersand),
     (''||'', DoublePipe), (''+='', PlusEqual), (''-='', MinusEqual), (''*='', AsteriskEqual),
     (''/='', SlashEqual), (''%='', PercentEqual), (''&='', AmpersandEqual),
     (''|='', PipeEqual), (''^='', CaretEqual), (''<<'', DoubleLess), (''>>'', DoubleGreater),
     (''->'', MinusGreater), (''$<'', DollarLess), (''$>'', DollarGreater)]"

definition fixed_lexems_3 :: "(string \<times> Lexem_Type) list" where
  "fixed_lexems_3 =
    [(''<=>'', LessEqualGreater), (''<<='', DoubleLessEqual), (''>>='', DoubleGreaterEqual),
     (''...'', Ellipsis)]"

definition g_fixed_lexems :: "nat \<Rightarrow> (byte list \<times> Lexem_Type) list" where
  "g_fixed_lexems s = map (\<lambda>(text, type). (str text, type))
    (if s = 1 then fixed_lexems_1 else if s = 2 then fixed_lexems_2
     else if s = 3 then fixed_lexems_3 else [])"

section \<open>Character classes\<close>

text \<open>The code point of a character literal of the C++ source.\<close>

definition cp :: "char \<Rightarrow> sprache_char" where
  "cp c = of_char c"

definition IsWhitespace :: "sprache_char \<Rightarrow> bool" where
  "IsWhitespace c \<longleftrightarrow>
    c = cp CHR '' '' \<or> c = cp CHR 0x0C \<or> c = cp CHR 0x0A \<or> c = cp CHR 0x0D \<or> c = cp CHR 0x09 \<or>
    c = cp CHR 0x0B \<or> c \<le> 0x1F \<or> c = 0x7F"

definition IsNewline :: "sprache_char \<Rightarrow> bool" where
  "IsNewline c \<longleftrightarrow>
    c = cp CHR 0x0A \<or> c = cp CHR 0x0D \<or> c = cp CHR 0x0C \<or> c = cp CHR 0x0B \<or>
    c = 0x0085 \<or> c = 0x2028 \<or> c = 0x2029"

definition IsNewlineSequence :: "sprache_char \<Rightarrow> sprache_char \<Rightarrow> bool" where
  "IsNewlineSequence c0 c1 \<longleftrightarrow> c0 = cp CHR 0x0D \<and> c1 = cp CHR 0x0A"

definition IsNumberStartChar :: "sprache_char \<Rightarrow> bool" where
  "IsNumberStartChar c \<longleftrightarrow> c \<ge> cp CHR ''0'' \<and> c \<le> cp CHR ''9''"

definition IsIdentifierStartChar :: "sprache_char \<Rightarrow> bool" where
  "IsIdentifierStartChar c \<longleftrightarrow>
    (c \<ge> cp CHR ''a'' \<and> c \<le> cp CHR ''z'') \<or>
    (c \<ge> cp CHR ''A'' \<and> c \<le> cp CHR ''Z'') \<or>
    (c \<ge> 0x0400 \<and> c \<le> 0x04FF) \<or>
    (c \<ge> 0x0500 \<and> c \<le> 0x0527) \<or>
    (c \<ge> 0x00C0 \<and> c \<le> 0x00D6) \<or>
    (c \<ge> 0x00D8 \<and> c \<le> 0x00F6) \<or>
    (c \<ge> 0x00F8 \<and> c \<le> 0x00FF) \<or>
    (c \<ge> 0x0100 \<and> c \<le> 0x017F) \<or>
    (c \<ge> 0x0180 \<and> c \<le> 0x024F)"

definition IsIdentifierChar :: "sprache_char \<Rightarrow> bool" where
  "IsIdentifierChar c \<longleftrightarrow> IsIdentifierStartChar c \<or> IsNumberStartChar c \<or> c = cp CHR ''_''"

definition IsMacroIdentifierStartChar :: "sprache_char \<Rightarrow> bool" where
  "IsMacroIdentifierStartChar c \<longleftrightarrow> c = cp CHR ''?''"

section \<open>Escape sequences\<close>

text \<open>The one-letter escapes; string and character literals have the same ones.\<close>

definition simple_escape :: "byte \<Rightarrow> byte option" where
  "simple_escape c =
    (if c = ch CHR 0x22 then Some (ch CHR 0x22)
     else if c = ch CHR 0x27 then Some (ch CHR 0x27)
     else if c = ch CHR 0x5C then Some (ch CHR 0x5C)
     else if c = ch CHR ''/'' then Some (ch CHR ''/'')
     else if c = ch CHR ''b'' then Some 0x08
     else if c = ch CHR ''f'' then Some 0x0C
     else if c = ch CHR ''n'' then Some 0x0A
     else if c = ch CHR ''r'' then Some 0x0D
     else if c = ch CHR ''t'' then Some 0x09
     else if c = ch CHR ''0'' then Some 0x00
     else None)"

text \<open>The loop over the four hexadecimal digits: \<open>Some\<close> code, or \<open>None\<close> at the first character that is no digit.\<close>

function hex_digits_loop :: "byte list \<Rightarrow> nat \<Rightarrow> nat \<Rightarrow> sprache_char \<Rightarrow> nat \<times> sprache_char option" where
  "hex_digits_loop t it i char_code =
    (if i < 4 then
       (let digit = TryParseDigit 16 (peek t it) in
        if digit = - 1 then (it, None)
        else hex_digits_loop t (it + 1) (i + 1) (char_code OR push_bit ((3 - i) * 4) digit))
     else (it, Some char_code))"
  by pat_completeness auto
termination
  by (relation "measure (\<lambda>(t, it, i, char_code). 4 - i)") auto

declare hex_digits_loop.simps [simp del]

section \<open>Character literals\<close>

definition ParseCharLiteral ::
  "byte list \<Rightarrow> nat \<Rightarrow> SrcLoc \<Rightarrow> LexSyntError list \<Rightarrow> Lexem \<times> nat \<times> LexSyntError list" where
  "ParseCharLiteral t it0 src_loc out_errors =
    (let it = it0 + 1;
         result = Lexem_default \<lparr> lexem_type := CharLiteral \<rparr>;
         finish = (\<lambda>result it.
           if it = length t then
             (result, it, out_errors @ [mk_error (str ''unexpected end of file at char literal'') src_loc])
           else if peek t it \<noteq> ch CHR 0x27 then
             (result, it, out_errors @ [mk_error (str ''expected '' @ [ch CHR 0x27] @ str '' at end of char literal'') src_loc])
           else (result, it + 1, out_errors))
     in if it = length t then
          (result, it, out_errors @ [mk_error (str ''unexpected end of file after '' @ [ch CHR 0x27]) src_loc])
        else let c = peek t it in
        if c = ch CHR 0x27 then
          (result, it, out_errors @ [mk_error (str ''empty char literal'') src_loc])
        else if c = ch CHR 0x5C then
          (let it = it + 1; escaped_c = peek t it; it = it + 1 in
           case simple_escape escaped_c of
             Some b \<Rightarrow> finish (result \<lparr> lexem_text := lexem_text result @ [b] \<rparr>) it
           | None \<Rightarrow>
               if escaped_c = ch CHR ''u'' then
                 (if int (length t) - int it < 4 then
                    (result, it, out_errors @ [mk_error (str ''expected 4 hex digits'') src_loc])
                  else case hex_digits_loop t it 0 0 of
                    (it, None) \<Rightarrow> (result, it, out_errors @ [mk_error (str ''expected hex number'') src_loc])
                  | (it, Some char_code) \<Rightarrow>
                      finish (result \<lparr> lexem_text := PushCharToUTF8String char_code (lexem_text result) \<rparr>) it)
               else (result, it, out_errors @
                 [mk_error (str ''invalid escape sequence: '' @ [ch CHR 0x5C] @ [peek t it]) src_loc]))
        else let (c, it) = ReadNextUTF8Char t it (length t) in
          finish (result \<lparr> lexem_text := PushCharToUTF8String c (lexem_text result) \<rparr>) it)"

section \<open>String literals\<close>

text \<open>
  The loop of \<open>ParseStringImpl\<close>. Past the end of the text the byte read is 0, a control character,
  so the loop ends there even when the position has passed the end.
\<close>

function string_loop ::
  "byte list \<Rightarrow> SrcLoc \<Rightarrow> nat \<Rightarrow> byte list \<Rightarrow> LexSyntError list \<Rightarrow> byte list \<times> nat \<times> LexSyntError list" where
  "string_loop t src_loc it text' errors =
    (if it = length t then (text', it, errors)
     else if peek t it = ch CHR 0x22 then (text', it + 1, errors)
     else if sprache_char (peek t it) < 0x20 \<or> peek t it = 0x7F then
       (text', it, errors @ [mk_error (str ''control character inside string'') src_loc])
     else if peek t it = ch CHR 0x5C then
       (let it = it + 1 in
        if it = length t then (text', it, errors)
        else case simple_escape (peek t it) of
          Some b \<Rightarrow> string_loop t src_loc (it + 1) (text' @ [b]) errors
        | None \<Rightarrow>
            if peek t it = ch CHR ''u'' then
              (let it = it + 1 in
               if int (length t) - int it < 4 then
                 (text', it, errors @ [mk_error (str ''expected 4 hex digits'') src_loc])
               else case hex_digits_loop t it 0 0 of
                 (it, None) \<Rightarrow> (text', it, errors @ [mk_error (str ''expected hex number'') src_loc])
               | (it, Some char_code) \<Rightarrow>
                   string_loop t src_loc it (PushCharToUTF8String char_code text') errors)
            else (text', it, errors @
              [mk_error (str ''invalid escape sequence: '' @ [ch CHR 0x5C] @ [peek t it]) src_loc]))
     else string_loop t src_loc (it + 1) (text' @ [peek t it]) errors)"
  by pat_completeness auto

lemma hex_digits_loop_forward: "it \<le> fst (hex_digits_loop t it i code)"
  by (induction t it i code rule: hex_digits_loop.induct) (subst hex_digits_loop.simps, auto simp: Let_def)

lemma hex_digits_loop_forwardD: "(it', r) = hex_digits_loop t it i code \<Longrightarrow> it \<le> it'"
  using hex_digits_loop_forward [of it t i code] by (metis fst_conv)

lemma peek_past: "length t \<le> it \<Longrightarrow> peek t it = 0"
  by (simp add: peek_def)

lemma peek_neq_0_less: "peek t it \<noteq> 0 \<Longrightarrow> it < length t"
  by (simp add: peek_def split: if_splits)

termination string_loop
proof (relation "measure (\<lambda>(t, src_loc, it, text', errors). Suc (length t) - it)")
qed (auto dest!: hex_digits_loop_forwardD simp: peek_def sprache_char_def split: if_splits)

declare string_loop.simps [simp del]

definition ParseStringImpl ::
  "byte list \<Rightarrow> nat \<Rightarrow> SrcLoc \<Rightarrow> LexSyntError list \<Rightarrow> Lexem \<times> nat \<times> LexSyntError list" where
  "ParseStringImpl t it src_loc out_errors =
    (let (text', it', errors) = string_loop t src_loc (it + 1) [] out_errors
     in (Lexem_default \<lparr> lexem_type := String, lexem_text := text' \<rparr>, it', errors))"

section \<open>Identifiers\<close>

text \<open>The loop that \<open>ParseIdentifier\<close> and \<open>ParseMacroIdentifier\<close> share.\<close>

function identifier_loop :: "byte list \<Rightarrow> nat \<Rightarrow> byte list \<Rightarrow> byte list \<times> nat" where
  "identifier_loop t it text' =
    (if it < length t then
       (let (c, it_next) = ReadNextUTF8Char t it (length t) in
        if \<not> IsIdentifierChar c then (text', it)
        else identifier_loop t it_next (text' @ take (it_next - it) (drop it t)))
     else (text', it))"
  by pat_completeness auto
termination
  by (relation "measure (\<lambda>(t, it, text'). length t - it)") (auto intro: ReadNextUTF8Char_decreases)

declare identifier_loop.simps [simp del]

definition ParseIdentifier :: "byte list \<Rightarrow> nat \<Rightarrow> Lexem \<times> nat" where
  "ParseIdentifier t it =
    (let (text', it') = identifier_loop t it []
     in (Lexem_default \<lparr> lexem_type := Identifier, lexem_text := text' \<rparr>, it'))"

definition ParseMacroIdentifier :: "byte list \<Rightarrow> nat \<Rightarrow> Lexem \<times> nat" where
  "ParseMacroIdentifier t it =
    (let text1 = [peek t it]; it1 = it + 1;
         (type, text2, it2) =
           (if it1 < length t \<and> IsMacroIdentifierStartChar (sprache_char (peek t it1))
            then (MacroUniqueIdentifier, text1 @ [peek t it1], it1 + 1)
            else (MacroIdentifier, text1, it1));
         (text', it') = identifier_loop t it2 text2
     in (Lexem_default \<lparr> lexem_type := type, lexem_text := text' \<rparr>, it'))"

section \<open>Numbers\<close>

function digits_loop :: "u32 \<Rightarrow> byte list \<Rightarrow> nat \<Rightarrow> nat" where
  "digits_loop base t it =
    (if it < length t \<and> TryParseDigit base (peek t it) \<noteq> - 1 then digits_loop base t (it + 1) else it)"
  by pat_completeness auto
termination
  by (relation "measure (\<lambda>(base, t, it). length t - it)") auto

declare digits_loop.simps [simp del]

definition ExtractIntegerNumberChars ::
  "u32 \<Rightarrow> byte list \<Rightarrow> nat \<Rightarrow> SrcLoc \<Rightarrow> LexSyntError list \<Rightarrow> nat \<times> LexSyntError list" where
  "ExtractIntegerNumberChars base t it src_loc out_errors =
    (if it = length t \<or> TryParseDigit base (peek t it) = - 1 then
       (it, out_errors @ [mk_error (str ''Unexpected end of number'') src_loc])
     else (digits_loop base t (it + 1), out_errors))"

definition ParseNumber ::
  "byte list \<Rightarrow> nat \<Rightarrow> SrcLoc \<Rightarrow> LexSyntError list \<Rightarrow> Lexem \<times> nat \<times> LexSyntError list" where
  "ParseNumber t it_start src_loc out_errors =
    (let d = peek t (it_start + 1);
         prefixed = peek t it_start = ch CHR ''0'' \<and> it_start + 1 < length t;
         (parsed_non_decimal_base, it, errors) =
           (if prefixed \<and> d = ch CHR ''b'' then
              (True, ExtractIntegerNumberChars 2 t (it_start + 2) src_loc out_errors)
            else if prefixed \<and> d = ch CHR ''o'' then
              (True, ExtractIntegerNumberChars 8 t (it_start + 2) src_loc out_errors)
            else if prefixed \<and> d = ch CHR ''x'' then
              (True, ExtractIntegerNumberChars 16 t (it_start + 2) src_loc out_errors)
            else (False, it_start, out_errors));
         (is_floating_point, it) =
           (if parsed_non_decimal_base then (False, it)
            else
              let it = digits_loop 10 t it;
                  (fractional, it) =
                    (if it < length t \<and> peek t it = ch CHR ''.'' then (True, digits_loop 10 t (it + 1))
                     else (False, it));
                  (exponent, it) =
                    (if it < length t \<and> (peek t it = ch CHR ''e'' \<or> peek t it = ch CHR ''E'') then
                       (let it = it + 1;
                            it = (if it < length t \<and> (peek t it = ch CHR ''-'' \<or> peek t it = ch CHR ''+'')
                                  then it + 1 else it)
                        in (True, digits_loop 10 t it))
                     else (False, it))
              in (fractional \<or> exponent, it))
     in (Lexem_default \<lparr> lexem_type := (if is_floating_point then FloatingPointNumber else IntegerNumber),
           lexem_text := take (it - it_start) (drop it_start t) \<rparr>, it, errors))"

function count_code_points :: "byte list \<Rightarrow> nat \<Rightarrow> nat \<Rightarrow> u32 \<Rightarrow> u32" where
  "count_code_points t it it_end n =
    (if it < it_end then count_code_points t (snd (ReadNextUTF8Char t it it_end)) it_end (n + 1)
     else n)"
  by pat_completeness auto
termination
  by (relation "measure (\<lambda>(t, it, it_end, n). it_end - it)")
     (use ReadNextUTF8Char_progress in \<open>auto simp: diff_less_mono2\<close>)

declare count_code_points.simps [simp del]

definition AdvanceIteratorAndCountCodePoints :: "byte list \<Rightarrow> nat \<Rightarrow> nat \<Rightarrow> u32" where
  "AdvanceIteratorAndCountCodePoints t it it_end = count_code_points t it it_end 0"

end
