(* ===== verification/Lexem_Laws.thy ===== *)
theory Lexem_Laws
  imports Lexem
begin

text \<open>
  What the token routines of \<open>Lexem\<close> guarantee: they move the iterator forward and, one case
  apart, not past the end of the text; string literals and numbers are read according to their
  grammar.
\<close>

section \<open>Every routine moves forward\<close>

lemma hex_digits_loop_four:
  "hex_digits_loop t it 0 0 =
    (let d = (\<lambda>i. TryParseDigit 16 (peek t (it + i))) in
     if d 0 = - 1 then (it, None) else if d 1 = - 1 then (it + 1, None)
     else if d 2 = - 1 then (it + 2, None) else if d 3 = - 1 then (it + 3, None)
     else (it + 4, Some (push_bit 12 (d 0) OR push_bit 8 (d 1) OR push_bit 4 (d 2) OR d 3)))"
  by (simp add: hex_digits_loop.simps Let_def numeral_eq_Suc or.assoc)

lemma hex_digits_loop_bound:
  "hex_digits_loop t it 0 0 = (it', r) \<Longrightarrow> it \<le> it' \<and> it' \<le> it + 4"
  by (auto simp: hex_digits_loop_four Let_def split: if_splits)

lemma string_loop_bound:
  "string_loop t loc it text' errs = (text'', it', errs') \<Longrightarrow> it \<le> length t \<Longrightarrow> it \<le> it' \<and> it' \<le> length t"
proof (induction "Suc (length t) - it" arbitrary: it text' rule: less_induct)
  case less
  have IH: "it \<le> it' \<and> it' \<le> length t"
    if "string_loop t loc i x errs = (text'', it', errs')" "it < i" "i \<le> length t" for i x
    using less.hyps [OF _ that(1,3)] that by (simp add: diff_less_mono2)
  show ?case
  proof (cases "it = length t \<or> peek t it = ch CHR 0x22 \<or> sprache_char (peek t it) < 0x20 \<or> peek t it = 0x7F")
    case True
    then have "string_loop t loc it text' errs =
        (if it = length t then (text', it, errs)
         else if peek t it = ch CHR 0x22 then (text', it + 1, errs)
         else (text', it, errs @ [mk_error (str ''control character inside string'') loc]))"
      by (subst string_loop.simps) auto
    then show ?thesis using less.prems by (auto split: if_splits)
  next
    case normal: False
    then have it: "Suc it \<le> length t" using less.prems(2) by simp
    show ?thesis
    proof (cases "peek t it = ch CHR 0x5C \<and> Suc it \<noteq> length t")
      case True
      with it have "Suc (Suc it) \<le> length t" by simp
      with True normal less.prems(1) show ?thesis
        by (subst (asm) string_loop.simps)
           (auto simp: Let_def split: if_splits option.splits prod.splits dest!: IH dest: hex_digits_loop_bound)
    next
      case False
      with normal it less.prems(1) show ?thesis
        by (subst (asm) string_loop.simps) (auto simp: Let_def split: if_splits dest!: IH)
    qed
  qed
qed

lemma ParseStringImpl_bound:
  assumes "ParseStringImpl t it loc errs = (lexem, it', errs')" and "it < length t"
  shows "it < it' \<and> it' \<le> length t"
  using assms string_loop_bound [of t loc "it + 1" "[]" errs]
  by (fastforce simp: ParseStringImpl_def split: prod.splits)

lemma peek_quote_less: "peek t i = ch CHR 0x27 \<Longrightarrow> i < length t"
  by (rule peek_neq_0_less) (simp add: ch_def)

lemma ParseCharLiteral_bound:
  assumes "ParseCharLiteral t it loc errs = (lexem, it', errs')" and "it < length t"
  shows "it < it' \<and> it' \<le> length t + 1"
proof (cases "Suc it < length t")
  case True
  then have "Suc it < snd (ReadNextUTF8Char t (Suc it) (length t))"
    "snd (ReadNextUTF8Char t (Suc it) (length t)) \<le> length t"
    using ReadNextUTF8Char_progress by auto
  with assms(1) True show ?thesis
    unfolding ParseCharLiteral_def Let_def
    by (auto split: if_splits option.splits prod.splits dest!: hex_digits_loop_bound dest: peek_quote_less)
next
  case False
  with assms show ?thesis by (auto simp: ParseCharLiteral_def Let_def)
qed

lemma identifier_loop_bound:
  "identifier_loop t it text' = (text'', it') \<Longrightarrow> it \<le> it' \<and> (it \<le> length t \<longrightarrow> it' \<le> length t)"
proof (induction "length t - it" arbitrary: it text' rule: less_induct)
  case less
  show ?case
  proof (cases "it < length t")
    case True
    obtain c n where read: "ReadNextUTF8Char t it (length t) = (c, n)" by fastforce
    then have n: "it < n" "n \<le> length t" using ReadNextUTF8Char_progressD [OF read True] by auto
    show ?thesis
    proof (cases "IsIdentifierChar c")
      case c: True
      then have "identifier_loop t n (text' @ take (n - it) (drop it t)) = (text'', it')"
        using less.prems True read by (simp add: identifier_loop.simps [of t it])
      from less.hyps [OF diff_less_mono2 [OF n(1) True] this] n show ?thesis by auto
    next
      case False
      then show ?thesis using less.prems True read by (simp add: identifier_loop.simps [of t it])
    qed
  next
    case False
    then show ?thesis using less.prems by (simp add: identifier_loop.simps [of t it])
  qed
qed

lemma ParseIdentifier_bound:
  assumes "ParseIdentifier t it = (lexem, it')"
  shows "it \<le> it'" and "it \<le> length t \<Longrightarrow> it' \<le> length t"
    and "it < length t \<Longrightarrow> IsIdentifierChar (GetUTF8FirstChar t it (length t)) \<Longrightarrow> it < it'"
proof -
  obtain text' where loop: "identifier_loop t it [] = (text', it')"
    using assms by (auto simp: ParseIdentifier_def split: prod.splits)
  then show "it \<le> it'" and "it \<le> length t \<Longrightarrow> it' \<le> length t"
    using identifier_loop_bound by auto
  show "it < it'" if "it < length t" "IsIdentifierChar (GetUTF8FirstChar t it (length t))"
  proof -
    obtain c n where read: "ReadNextUTF8Char t it (length t) = (c, n)" by fastforce
    then have "identifier_loop t n ([] @ take (n - it) (drop it t)) = (text', it')"
      using loop that by (simp add: identifier_loop.simps [of t it] GetUTF8FirstChar_def)
    with identifier_loop_bound ReadNextUTF8Char_progressD(1) [OF read that(1)] show ?thesis
      by fastforce
  qed
qed

lemma ParseMacroIdentifier_bound:
  assumes "ParseMacroIdentifier t it = (lexem, it')" and "it < length t"
  shows "it < it' \<and> it' \<le> length t"
  using assms identifier_loop_bound [of t "Suc it"] identifier_loop_bound [of t "Suc (Suc it)"]
  by (fastforce simp: ParseMacroIdentifier_def Let_def split: if_splits prod.splits)

lemma digits_loop_bound: "it \<le> digits_loop b t it \<and> (it \<le> length t \<longrightarrow> digits_loop b t it \<le> length t)"
proof (induction b t it rule: digits_loop.induct)
  case (1 b t it)
  then show ?case by (subst digits_loop.simps; subst (2) digits_loop.simps) auto
qed

lemma ExtractIntegerNumberChars_bound:
  assumes "ExtractIntegerNumberChars b t it loc errs = (it', errs')" and "it \<le> length t"
  shows "it \<le> it' \<and> it' \<le> length t"
  using assms digits_loop_bound [of "it + 1" b t]
  by (auto simp: ExtractIntegerNumberChars_def split: if_splits)

lemma digits_loop_first:
  assumes "it < length t" and "TryParseDigit b (peek t it) \<noteq> - 1"
  shows "it < digits_loop b t it"
proof -
  have "digits_loop b t it = digits_loop b t (it + 1)"
    using assms by (subst digits_loop.simps) simp
  with digits_loop_bound [of "it + 1" b t] show ?thesis by simp
qed

text \<open>The three parts of a number without a base prefix: digits, a fraction, an exponent.\<close>

definition fraction_end :: "byte list \<Rightarrow> nat \<Rightarrow> nat" where
  "fraction_end t it = (if it < length t \<and> peek t it = ch CHR ''.'' then digits_loop 10 t (it + 1) else it)"

definition exponent_end :: "byte list \<Rightarrow> nat \<Rightarrow> nat" where
  "exponent_end t it =
    (if it < length t \<and> (peek t it = ch CHR ''e'' \<or> peek t it = ch CHR ''E'') then
       digits_loop 10 t (if it + 1 < length t \<and> (peek t (it + 1) = ch CHR ''-'' \<or> peek t (it + 1) = ch CHR ''+'')
                         then it + 2 else it + 1)
     else it)"

lemma fraction_end_bound: "it \<le> fraction_end t it \<and> (it \<le> length t \<longrightarrow> fraction_end t it \<le> length t)"
  using digits_loop_bound [of "it + 1" 10 t] by (auto simp: fraction_end_def)

lemma exponent_end_bound: "it \<le> exponent_end t it \<and> (it \<le> length t \<longrightarrow> exponent_end t it \<le> length t)"
  using digits_loop_bound [of "it + 1" 10 t] digits_loop_bound [of "it + 2" 10 t]
  by (auto simp: exponent_end_def)

definition number_prefix :: "byte list \<Rightarrow> nat \<Rightarrow> u32 option" where
  "number_prefix t it =
    (if peek t it = ch CHR ''0'' \<and> it + 1 < length t then
       (if peek t (it + 1) = ch CHR ''b'' then Some 2 else if peek t (it + 1) = ch CHR ''o'' then Some 8
        else if peek t (it + 1) = ch CHR ''x'' then Some 16 else None)
     else None)"

lemma ParseNumber_parts:
  "ParseNumber t it loc errs =
    (case number_prefix t it of
       Some b \<Rightarrow>
         (case ExtractIntegerNumberChars b t (it + 2) loc errs of (it', errs') \<Rightarrow>
            (Lexem_default \<lparr> lexem_type := IntegerNumber, lexem_text := take (it' - it) (drop it t) \<rparr>, it', errs'))
     | None \<Rightarrow>
         (let i = digits_loop 10 t it; f = fraction_end t i; e = exponent_end t f in
          (Lexem_default \<lparr> lexem_type := (if f \<noteq> i \<or> e \<noteq> f then FloatingPointNumber else IntegerNumber),
             lexem_text := take (e - it) (drop it t) \<rparr>, e, errs)))"
proof (cases "number_prefix t it")
  case None
  have f: "fraction_end t i \<noteq> i \<longleftrightarrow> i < length t \<and> peek t i = ch CHR ''.''" for i
    using digits_loop_bound [of "i + 1" 10 t] by (auto simp: fraction_end_def)
  have e: "exponent_end t i \<noteq> i \<longleftrightarrow> i < length t \<and> (peek t i = ch CHR ''e'' \<or> peek t i = ch CHR ''E'')" for i
    using digits_loop_bound [of "i + 1" 10 t] digits_loop_bound [of "i + 2" 10 t]
    by (auto simp: exponent_end_def)
  have np: "\<not> ((peek t it = ch CHR ''0'' \<and> it + 1 < length t) \<and> peek t (it + 1) = ch CHR ''b'')"
    "\<not> ((peek t it = ch CHR ''0'' \<and> it + 1 < length t) \<and> peek t (it + 1) = ch CHR ''o'')"
    "\<not> ((peek t it = ch CHR ''0'' \<and> it + 1 < length t) \<and> peek t (it + 1) = ch CHR ''x'')"
    using None by (auto simp: number_prefix_def split: if_splits)
  define i where "i = digits_loop 10 t it"
  define f where "f = fraction_end t i"
  have pair: "(if A then (True, x) else (False, y)) = (A, if A then x else y)" for A x y by simp
  have "ParseNumber t it loc errs =
     (Lexem_default \<lparr> lexem_type := (if f \<noteq> i \<or> exponent_end t f \<noteq> f then FloatingPointNumber else IntegerNumber),
        lexem_text := take (exponent_end t f - it) (drop it t) \<rparr>, exponent_end t f, errs)"
    unfolding ParseNumber_def Let_def if_not_P [OF np(1)] if_not_P [OF np(2)] if_not_P [OF np(3)]
      prod.case if_False pair i_def [symmetric] fraction_end_def [symmetric] e f_def f
    by (auto simp: exponent_end_def)
  with None show ?thesis by (simp add: Let_def i_def f_def)
next
  case (Some b)
  obtain it' errs' where ex: "ExtractIntegerNumberChars b t (it + 2) loc errs = (it', errs')" by fastforce
  have zero: "peek t it = ch CHR ''0''" "it + 1 < length t"
    and "peek t (it + 1) = ch CHR ''b'' \<and> b = 2 \<or> peek t (it + 1) = ch CHR ''o'' \<and> b = 8
      \<or> peek t (it + 1) = ch CHR ''x'' \<and> b = 16"
    using Some by (auto simp: number_prefix_def split: if_splits)
  then show ?thesis
    using Some ex by (elim disjE) (simp_all add: ParseNumber_def Let_def ch_inj)
qed

lemma ParseNumber_bound:
  assumes "ParseNumber t it loc errs = (lexem, it', errs')" and "it < length t"
  shows "it' \<le> length t" and "TryParseDigit 10 (peek t it) \<noteq> - 1 \<Longrightarrow> it < it'"
proof -
  have "it' \<le> length t \<and> (TryParseDigit 10 (peek t it) \<noteq> - 1 \<longrightarrow> it < it')"
  proof (cases "number_prefix t it")
    case None
    define i where "i = digits_loop 10 t it"
    have "it' = exponent_end t (fraction_end t i)"
      using assms(1) None by (simp add: ParseNumber_parts Let_def i_def)
    then show ?thesis
      using digits_loop_bound [of it 10 t] digits_loop_first [OF assms(2), of 10] i_def
        fraction_end_bound [of i t] exponent_end_bound [of "fraction_end t i" t] assms(2) by auto
  next
    case (Some b)
    then have "it + 2 \<le> length t" by (auto simp: number_prefix_def split: if_splits)
    with Some assms show ?thesis
      by (auto simp: ParseNumber_parts split: prod.splits dest!: ExtractIntegerNumberChars_bound)
  qed
  then show "it' \<le> length t" and "TryParseDigit 10 (peek t it) \<noteq> - 1 \<Longrightarrow> it < it'" by auto
qed

lemma count_code_points_bound:
  assumes "unat k + (e - it) < 2 ^ 32"
  shows "unat k \<le> unat (count_code_points t it e k) \<and> unat (count_code_points t it e k) \<le> unat k + (e - it)
    \<and> (it < e \<longrightarrow> unat k < unat (count_code_points t it e k))"
  using assms
proof (induction t it e k rule: count_code_points.induct)
  case (1 t it e k)
  show ?case
  proof (cases "it < e")
    case True
    define n where "n = snd (ReadNextUTF8Char t it e)"
    have n: "it < n" "n \<le> e" using ReadNextUTF8Char_progress [OF True, of t] by (auto simp: n_def)
    have k: "unat (k + 1) = unat k + 1"
      using 1(2) True by (simp add: unat_word_ariths)
    have "count_code_points t it e k = count_code_points t n e (k + 1)"
      using True by (subst count_code_points.simps) (simp add: n_def)
    moreover have "unat (k + 1) + (e - n) < 2 ^ 32" using n k 1(2) by simp
    note IH = 1(1) [OF True, folded n_def, OF this]
    ultimately show ?thesis using n k by auto
  next
    case False
    then show ?thesis by (simp add: count_code_points.simps)
  qed
qed

section \<open>String literals\<close>

text \<open>
  The grammar of the inside of a string literal and the bytes it denotes: bytes that need no escape,
  one-letter escapes, and four hexadecimal digits for a code point.
\<close>

definition plain_string_byte :: "byte \<Rightarrow> bool" where
  "plain_string_byte b \<longleftrightarrow> b \<noteq> 0x22 \<and> b \<noteq> 0x5C \<and> b \<noteq> 0x7F \<and> 0x20 \<le> b"

inductive string_body :: "byte list \<Rightarrow> byte list \<Rightarrow> bool" where
  body_end: "string_body [] []" |
  body_plain: "plain_string_byte b \<Longrightarrow> string_body s d \<Longrightarrow> string_body (b # s) (b # d)" |
  body_escape: "simple_escape c = Some b \<Longrightarrow> string_body s d \<Longrightarrow> string_body (0x5C # c # s) (b # d)" |
  body_unicode: "length h = 4 \<Longrightarrow> list_all (is_digit 16) h \<Longrightarrow> string_body s d \<Longrightarrow>
    string_body (0x5C # ch CHR ''u'' # h @ s)
      (PushCharToUTF8String (word_of_nat (digits_val 16 h)) [] @ d)"

lemma peek_append [simp]: "peek (pre @ b # rest) (length pre) = b"
  by (simp add: peek_def)

lemma peek_append_add: "peek (pre @ s) (length pre + i) = peek s i"
  by (auto simp: peek_def nth_append)

lemma or_shift4: "take_bit 4 x = x \<Longrightarrow> push_bit 4 y OR x = y * 16 + (x :: u32)"
proof -
  assume x: "take_bit 4 x = x"
  have "push_bit 4 y AND x = 0"
    by (subst x [symmetric], rule bit_eqI) (auto simp: bit_simps)
  then show ?thesis
    by (simp add: disjunctive_add_eq_or push_bit_eq_mult)
qed

lemma hex_value:
  assumes "is_digit 16 a" "is_digit 16 b" "is_digit 16 c" "is_digit 16 d"
  shows "push_bit 12 (TryParseDigit 16 a) OR push_bit 8 (TryParseDigit 16 b) OR
     push_bit 4 (TryParseDigit 16 c) OR TryParseDigit 16 d = word_of_nat (digits_val 16 [a, b, c, d])"
proof -
  have t: "take_bit 4 (TryParseDigit 16 x) = TryParseDigit 16 x" if "is_digit 16 x" for x
    using that by (intro fits_take_bit) (simp add: is_digit_def word_less_nat_alt)
  have "push_bit 12 (TryParseDigit 16 a) OR push_bit 8 (TryParseDigit 16 b) OR
     push_bit 4 (TryParseDigit 16 c) OR TryParseDigit 16 d =
     push_bit 4 (push_bit 4 (push_bit 4 (TryParseDigit 16 a) OR TryParseDigit 16 b)
       OR TryParseDigit 16 c) OR TryParseDigit 16 d"
    by (simp add: push_bit_or or.assoc)
  also have "\<dots> = word_of_nat (digits_val 16 [a, b, c, d])"
    unfolding or_shift4 [OF t [OF assms(2)]] or_shift4 [OF t [OF assms(3)]] or_shift4 [OF t [OF assms(4)]]
    by (simp add: digits_val_def)
  finally show ?thesis .
qed

lemma hex_digits_loop_text:
  assumes "length h = 4" and "list_all (is_digit 16) h"
  shows "hex_digits_loop (pre @ h @ rest) (length pre) 0 0 =
    (length pre + 4, Some (word_of_nat (digits_val 16 h)))"
proof -
  obtain a b c d where h: "h = [a, b, c, d]"
    using assms(1) by (auto simp: length_Suc_conv numeral_eq_Suc)
  have "peek (pre @ h @ rest) (length pre) = a" "peek (pre @ h @ rest) (Suc (length pre)) = b"
    "peek (pre @ h @ rest) (Suc (Suc (length pre))) = c" "peek (pre @ h @ rest) (length pre + 3) = d"
    by (simp_all add: h peek_def nth_append)
  moreover have "TryParseDigit 16 x \<noteq> - 1" if "is_digit 16 x" for x
    using that is_digit_iff [of 16 x] by (simp add: supported_base_def)
  ultimately show ?thesis
    using assms(2) hex_value [of a b c d]
    by (simp add: hex_digits_loop_four h Let_def)
qed

lemma plain_not_control: "plain_string_byte b \<Longrightarrow> \<not> sprache_char b < 0x20"
proof -
  have "(ucast (scast b :: u32) :: byte) = b"
    by (rule bit_eqI) (auto simp: bit_simps)
  moreover have "unat (ucast (scast b :: u32) :: byte) = unat (scast b :: u32) mod 256"
    by (simp only: unsigned_ucast_eq) (simp add: take_bit_eq_mod)
  ultimately have "unat b = unat (scast b :: u32) mod 256"
    by simp
  then have "0x20 \<le> b \<Longrightarrow> \<not> (scast b :: u32) < 0x20"
    by (auto simp: word_le_nat_alt word_less_nat_alt)
  then show "plain_string_byte b \<Longrightarrow> \<not> sprache_char b < 0x20"
    by (simp add: plain_string_byte_def sprache_char_def)
qed

lemma string_loop_body:
  "string_body s d \<Longrightarrow>
    string_loop (pre @ s @ 0x22 # rest) loc (length pre) acc errs =
      (acc @ d, length pre + length s + 1, errs)"
proof (induction s d arbitrary: pre acc rule: string_body.induct)
  case body_end
  then show ?case by (subst string_loop.simps) (simp add: ch_def)
next
  case (body_plain b s d)
  have "string_loop (pre @ (b # s) @ 0x22 # rest) loc (length pre) acc errs =
      string_loop ((pre @ [b]) @ s @ 0x22 # rest) loc (length (pre @ [b])) (acc @ [b]) errs"
    using body_plain.hyps(1) plain_not_control [OF body_plain.hyps(1)]
    by (subst string_loop.simps) (simp add: ch_def plain_string_byte_def)
  then show ?case using body_plain.IH [of "pre @ [b]" "acc @ [b]"] by simp
next
  case (body_escape c b s d)
  have "peek (pre @ (0x5C # c # s) @ 0x22 # rest) (length pre) = 0x5C"
    "peek (pre @ (0x5C # c # s) @ 0x22 # rest) (Suc (length pre)) = c"
    by (simp_all add: peek_def nth_append)
  then have "string_loop (pre @ (0x5C # c # s) @ 0x22 # rest) loc (length pre) acc errs =
      string_loop ((pre @ [0x5C, c]) @ s @ 0x22 # rest) loc (length (pre @ [0x5C, c])) (acc @ [b]) errs"
    using body_escape.hyps(1)
    by (subst string_loop.simps) (simp add: ch_def sprache_char_def Let_def)
  then show ?case using body_escape.IH [of "pre @ [0x5C, c]" "acc @ [b]"] by simp
next
  case (body_unicode h s d)
  let ?t = "pre @ (0x5C # ch CHR ''u'' # h @ s) @ 0x22 # rest"
  let ?code = "word_of_nat (digits_val 16 h)"
  have peeks: "peek ?t (length pre) = 0x5C" "peek ?t (Suc (length pre)) = ch CHR ''u''"
    by (simp_all add: peek_def nth_append)
  have hex: "hex_digits_loop ?t (Suc (Suc (length pre))) 0 0 = (length pre + 6, Some ?code)"
    using hex_digits_loop_text [OF body_unicode.hyps(1,2), of "pre @ [0x5C, ch CHR ''u'']" "s @ 0x22 # rest"]
    by simp
  have "string_loop ?t loc (length pre) acc errs =
      string_loop ?t loc (length pre + 6) (PushCharToUTF8String ?code acc) errs"
    using body_unicode.hyps(1) peeks hex
    by (subst string_loop.simps) (simp add: ch_def sprache_char_def Let_def simple_escape_def)
  also have "\<dots> = (acc @ PushCharToUTF8String ?code [] @ d, length pre + length (0x5C # ch CHR ''u'' # h @ s) + 1, errs)"
    using body_unicode.IH [of "pre @ [0x5C, ch CHR ''u''] @ h" "PushCharToUTF8String ?code acc"]
      body_unicode.hyps(1) PushCharToUTF8String_append [of ?code acc]
    by simp
  finally show ?case .
qed

text \<open>
  C28. A string literal that follows the grammar is accepted wherever it stands: the lexem holds
  exactly the bytes the literal denotes, no error is added, and the iterator is left right behind the
  closing quote.
\<close>

theorem ParseStringImpl_grammar:
  assumes "string_body s d" and "t = pre @ [0x22] @ s @ [0x22] @ rest"
  shows "ParseStringImpl t (length pre) loc errs =
    (Lexem_default \<lparr> lexem_type := String, lexem_text := d \<rparr>, length pre + length s + 2, errs)"
  using string_loop_body [OF assms(1), of "pre @ [0x22]" rest loc "[]" errs]
  by (simp add: ParseStringImpl_def assms(2))

theorem ParseStringImpl_grammar_witness:
  "ParseStringImpl (str ''s = '' @ [0x22] @ [0x41, 0x5C, 0x6E, 0x5C, 0x75, 0x30, 0x34, 0x34, 0x46] @ [0x22] @ str ''; '')
     (length (str ''s = '')) SrcLoc_default [] =
   (Lexem_default \<lparr> lexem_type := String, lexem_text := [0x41, 0x0A, 0xD1, 0x8F] \<rparr>, 15, [])"
proof -
  have dig: "list_all (is_digit 16) [0x30, 0x34, 0x34, 0x46]"
    by (simp add: is_digit_def TryParseDigit_def in_range_def ch_def)
  have code: "PushCharToUTF8String (word_of_nat (digits_val 16 [0x30, 0x34, 0x34, 0x46])) [] = [0xD1, 0x8F]"
    by (simp add: digits_val_def TryParseDigit_def in_range_def ch_def PushCharToUTF8String_def)
  have "string_body [0x5C, 0x75, 0x30, 0x34, 0x34, 0x46] [0xD1, 0x8F]"
    using body_unicode [OF _ dig body_end] code by (simp add: ch_def)
  then have "string_body [0x5C, 0x6E, 0x5C, 0x75, 0x30, 0x34, 0x34, 0x46] [0x0A, 0xD1, 0x8F]"
    by (rule body_escape [rotated]) (simp add: simple_escape_def ch_def)
  then have "string_body [0x41, 0x5C, 0x6E, 0x5C, 0x75, 0x30, 0x34, 0x34, 0x46] [0x41, 0x0A, 0xD1, 0x8F]"
    by (rule body_plain [rotated]) (simp add: plain_string_byte_def)
  from ParseStringImpl_grammar [OF this refl, of "str ''s = ''" "str ''; ''" SrcLoc_default "[]"]
  show ?thesis by simp
qed

section \<open>Character literals\<close>

text \<open>
  A character literal moves the iterator forward and leaves it inside the text, unless the text
  ends with a quote and a backslash: then the iterator ends up one byte behind the end of the text.
\<close>

theorem ParseCharLiteral_in_bounds:
  assumes "ParseCharLiteral t it loc errs = (lexem, it', errs')" and "it < length t"
  shows "it < it' \<and> (if it + 2 = length t \<and> peek t (it + 1) = 0x5C then it' = length t + 1 else it' \<le> length t)"
proof (cases "it + 2 = length t \<and> peek t (it + 1) = 0x5C")
  case True
  moreover have "peek t (Suc (Suc it)) = 0" using True by (simp add: peek_def)
  ultimately show ?thesis
    using assms by (auto simp: ParseCharLiteral_def simple_escape_def ch_def Let_def)
next
  case False
  have "it' \<le> length t"
  proof (cases "Suc it < length t \<and> peek t (Suc it) = ch CHR 0x5C")
    case True
    with False have "Suc (Suc it) < length t" by (auto simp: ch_def)
    with True assms(1) show ?thesis
      unfolding ParseCharLiteral_def Let_def
      by (auto simp del: str_Cons simp: ch_inj split: if_splits option.splits prod.splits dest!: hex_digits_loop_bound
          dest: peek_quote_less)
  next
    case no_escape: False
    have "snd (ReadNextUTF8Char t (Suc it) (length t)) \<le> length t" if "Suc it < length t"
      using ReadNextUTF8Char_progress that by auto
    with no_escape assms show ?thesis
      unfolding ParseCharLiteral_def Let_def
      by (auto simp del: str_Cons split: if_splits prod.splits dest: peek_quote_less)
  qed
  then show ?thesis using ParseCharLiteral_bound [OF assms] False by simp
qed

theorem ParseCharLiteral_in_bounds_witness:
  "fst (snd (ParseCharLiteral [0x27, 0x5C] 0 SrcLoc_default [])) = 3
   \<and> fst (snd (ParseCharLiteral [0x27, 0x61, 0x27] 0 SrcLoc_default [])) \<le> 3"
proof -
  obtain l i e l2 i2 e2 where p: "ParseCharLiteral [0x27, 0x5C] 0 SrcLoc_default [] = (l, i, e)"
    "ParseCharLiteral [0x27, 0x61, 0x27] 0 SrcLoc_default [] = (l2, i2, e2)" by (metis prod_cases3)
  from ParseCharLiteral_in_bounds [OF p(1)] ParseCharLiteral_in_bounds [OF p(2)] p
  show ?thesis by (simp add: peek_def)
qed

end
