(* ===== verification/Lexical_Analysis.thy ===== *)
theory Lexical_Analysis
  imports Lexem
begin

text \<open>
  \<open>LexicalAnalysis\<close> of \<^verbatim>\<open>source/compiler0/lex_synt_lib/lexical_analyzer.cpp\<close>: the loop that cuts a
  program text into lexems. The state of the loop is the partial result with the iterator, the
  line and the column. One round of the loop is \<open>lex_step\<close>; it gives \<open>Inl\<close> the result when the
  function returns early (a line or column limit), and \<open>Inr\<close> the next state otherwise. A round may
  leave the iterator in place, so the loop itself is a partial function: \<open>None\<close> means that it runs
  forever.
\<close>

section \<open>State and limits\<close>

record LexicalAnalysisResult =
  result_lexems :: "Lexem list"
  result_errors :: "LexSyntError list"

record LexState = LexicalAnalysisResult +
  ls_it :: nat
  ls_line :: u32
  ls_column :: u32

type_synonym 'a lex_result = "LexicalAnalysisResult + 'a"

fun bind_step :: "'a lex_result \<Rightarrow> ('a \<Rightarrow> 'b lex_result) \<Rightarrow> 'b lex_result" where
  "bind_step (Inl r) f = Inl r" |
  "bind_step (Inr x) f = f x"

lemma bind_step_Inr_iff: "bind_step m f = Inr y \<longleftrightarrow> (\<exists>x. m = Inr x \<and> f x = Inr y)"
  by (cases m) auto

lemma bind_step_Inl_iff: "bind_step m f = Inl r \<longleftrightarrow> m = Inl r \<or> (\<exists>x. m = Inr x \<and> f x = Inl r)"
  by (cases m) auto

definition GetLineLimitMessage :: "byte list" where
  "GetLineLimitMessage =
    str ''Lexical error: line limit reached, max is '' @ to_string (unat c_max_line) @ str ''.''"

definition GetColumnLimitMessage :: "byte list" where
  "GetColumnLimitMessage =
    str ''Lexical error: column limit reached, max is '' @ to_string (unat c_max_column) @ str ''.''"

definition state_result :: "LexState \<Rightarrow> LexicalAnalysisResult" where
  "state_result st = \<lparr> result_lexems = result_lexems st, result_errors = result_errors st \<rparr>"

definition add_error :: "byte list \<Rightarrow> SrcLoc \<Rightarrow> LexState \<Rightarrow> LexState" where
  "add_error message loc st = st \<lparr> result_errors := result_errors st @ [mk_error message loc] \<rparr>"

text \<open>The macro \<open>CHECK_RETURN_COLUMN_LIMIT\<close>.\<close>

definition CHECK_RETURN_COLUMN_LIMIT :: "LexState \<Rightarrow> LexState lex_result" where
  "CHECK_RETURN_COLUMN_LIMIT st =
    (if c_max_column < ls_column st
     then Inl (state_result (add_error GetColumnLimitMessage (SrcLoc_make 0 (ls_line st) c_max_column) st))
     else Inr st)"

definition next_line :: "LexState \<Rightarrow> LexState lex_result" where
  "next_line st =
    (let st = st \<lparr> ls_line := ls_line st + 1 \<rparr> in
     if c_max_line < ls_line st
     then Inl (state_result (add_error GetLineLimitMessage (SrcLoc_make 0 c_max_line (ls_column st)) st))
     else Inr (st \<lparr> ls_column := 0 \<rparr>))"

definition move :: "nat \<Rightarrow> u32 \<Rightarrow> LexState \<Rightarrow> LexState" where
  "move n k st = st \<lparr> ls_it := ls_it st + n, ls_column := ls_column st + k \<rparr>"

section \<open>Comments\<close>

function line_comment_loop :: "byte list \<Rightarrow> nat \<Rightarrow> nat" where
  "line_comment_loop t it =
    (if it < length t then
       (let (c, it_copy) = ReadNextUTF8Char t it (length t) in
        if IsNewline c then it else line_comment_loop t it_copy)
     else it)"
  by pat_completeness auto
termination
  by (relation "measure (\<lambda>(t, it). length t - it)") (auto intro: ReadNextUTF8Char_decreases)

declare line_comment_loop.simps [simp del]

text \<open>One round of the loop over a multiline comment, with the depth of nested comments.\<close>

definition comment_newline :: "byte list \<Rightarrow> sprache_char \<Rightarrow> LexState \<Rightarrow> LexState" where
  "comment_newline t c st =
    (let st = st \<lparr> ls_it := ls_it st + 1 \<rparr> in
     if ls_it st < length t then
       (let (c1, it_copy) = ReadNextUTF8Char t (ls_it st) (ls_it st) in
        if IsNewlineSequence c c1 then st \<lparr> ls_it := it_copy \<rparr> else st)
     else st)"

definition at_pair :: "byte list \<Rightarrow> nat \<Rightarrow> char \<Rightarrow> char \<Rightarrow> bool" where
  "at_pair t it a b \<longleftrightarrow> it + 1 < length t \<and> peek t it = ch a \<and> peek t (it + 1) = ch b"

definition comment_step :: "byte list \<Rightarrow> int \<Rightarrow> LexState \<Rightarrow> (int \<times> LexState) lex_result" where
  "comment_step t comments_depth st =
    (if at_pair t (ls_it st) CHR ''*'' CHR ''/'' then
       bind_step (CHECK_RETURN_COLUMN_LIMIT (move 2 2 st)) (\<lambda>st. Inr (comments_depth - 1, st))
     else if at_pair t (ls_it st) CHR ''/'' CHR ''*'' then
       bind_step (CHECK_RETURN_COLUMN_LIMIT (move 2 2 st)) (\<lambda>st. Inr (comments_depth + 1, st))
     else
       (let c = sprache_char (peek t (ls_it st)) in
        bind_step
          (if IsNewline c then bind_step (next_line st) (\<lambda>st. Inr (comment_newline t c st))
           else Inr (st \<lparr> ls_it := snd (ReadNextUTF8Char t (ls_it st) (length t)) \<rparr>))
          (\<lambda>st. bind_step (CHECK_RETURN_COLUMN_LIMIT (move 0 1 st)) (\<lambda>st. Inr (comments_depth, st)))))"

lemma ReadNextUTF8Char_forward: "s \<le> snd (ReadNextUTF8Char t s s)"
  by (auto simp: ReadNextUTF8Char_def Let_def)

lemma comment_newline_forward: "ls_it st < ls_it (comment_newline t c st)"
  using ReadNextUTF8Char_forward [of "Suc (ls_it st)" t]
  by (auto simp: comment_newline_def Let_def split: prod.splits)

lemma CHECK_RETURN_COLUMN_LIMIT_InrD:
  "CHECK_RETURN_COLUMN_LIMIT st = Inr st' \<Longrightarrow> st' = st \<and> ls_column st \<le> c_max_column"
  by (auto simp: CHECK_RETURN_COLUMN_LIMIT_def split: if_splits)

lemma next_line_InrD:
  "next_line st = Inr st' \<Longrightarrow>
    st' = st \<lparr> ls_line := ls_line st + 1, ls_column := 0 \<rparr> \<and> ls_line st + 1 \<le> c_max_line"
  by (auto simp: next_line_def Let_def split: if_splits)

lemma comment_newline_forward': "ls_it st = n \<Longrightarrow> n < ls_it (comment_newline t c st)"
  using comment_newline_forward by blast

lemma comment_step_progress:
  assumes "comment_step t d st = Inr (d', st')" and "ls_it st < length t"
  shows "ls_it st < ls_it st'"
proof -
  have new: "ls_it st < ls_it (comment_newline t c st1)" if "next_line st = Inr st1" for c st1
    using next_line_InrD [OF that] by (intro comment_newline_forward') simp
  have read: "ls_it st < snd (ReadNextUTF8Char t (ls_it st) (length t))"
    by (rule ReadNextUTF8Char_progress(1) [OF assms(2)])
  show ?thesis
    using assms(1) new read
    by (auto simp: comment_step_def Let_def bind_step_Inr_iff move_def split: if_splits
        dest!: CHECK_RETURN_COLUMN_LIMIT_InrD)
qed

function comment_loop :: "byte list \<Rightarrow> int \<Rightarrow> LexState \<Rightarrow> (int \<times> LexState) lex_result" where
  "comment_loop t comments_depth st =
    (if ls_it st < length t then
       (case comment_step t comments_depth st of
          Inl r \<Rightarrow> Inl r
        | Inr (comments_depth', st') \<Rightarrow>
            if comments_depth' = 0 then Inr (0, st') else comment_loop t comments_depth' st')
     else Inr (comments_depth, st))"
  by pat_completeness auto
termination
  by (relation "measure (\<lambda>(t, d, st). length t - ls_it st)")
     (auto dest: comment_step_progress intro: diff_less_mono2)

declare comment_loop.simps [simp del]

definition multiline_comment :: "byte list \<Rightarrow> LexState \<Rightarrow> LexState lex_result" where
  "multiline_comment t st =
    bind_step (CHECK_RETURN_COLUMN_LIMIT (move 2 2 st)) (\<lambda>st.
    bind_step (comment_loop t 1 st) (\<lambda>(comments_depth, st).
    Inr (if comments_depth \<noteq> 0
         then add_error (str ''Lexical error: expected */'') (SrcLoc_make 0 (ls_line st) (ls_column st)) st
         else st)))"

section \<open>Lexems\<close>

definition newline :: "byte list \<Rightarrow> sprache_char \<Rightarrow> LexState \<Rightarrow> LexState lex_result" where
  "newline t c st =
    bind_step (next_line st) (\<lambda>st.
      let st = st \<lparr> ls_it := snd (ReadNextUTF8Char t (ls_it st) (length t)) \<rparr> in
      Inr (if ls_it st < length t then
             (let (next_c, it_copy) = ReadNextUTF8Char t (ls_it st) (length t) in
              if IsNewlineSequence c next_c then st \<lparr> ls_it := it_copy \<rparr> else st)
           else st))"

text \<open>The end of a round: the lexem gets its location, the column moves behind it.\<close>

definition push_lexem :: "byte list \<Rightarrow> Lexem \<Rightarrow> nat \<Rightarrow> LexState \<Rightarrow> LexState lex_result" where
  "push_lexem t lexem it_prev st =
    (let lexem = lexem \<lparr> lexem_src_loc := SrcLoc_make 0 (ls_line st) (ls_column st) \<rparr> in
     bind_step
       (CHECK_RETURN_COLUMN_LIMIT
         (st \<lparr> ls_column := ls_column st + AdvanceIteratorAndCountCodePoints t it_prev (ls_it st) \<rparr>))
       (\<lambda>st. Inr (st \<lparr> result_lexems := result_lexems st @ [lexem] \<rparr>)))"

text \<open>A string, character or number literal, with the suffix behind it as a lexem of its own.\<close>

definition literal ::
  "byte list \<Rightarrow> (byte list \<Rightarrow> nat \<Rightarrow> SrcLoc \<Rightarrow> LexSyntError list \<Rightarrow> Lexem \<times> nat \<times> LexSyntError list) \<Rightarrow>
     LexState \<Rightarrow> LexState lex_result" where
  "literal t parse st =
    (let it_prev = ls_it st;
         (lexem, it, errors) = parse t (ls_it st) (SrcLoc_make 0 (ls_line st) (ls_column st)) (result_errors st);
         st = st \<lparr> ls_it := it, result_errors := errors \<rparr>
     in if IsIdentifierStartChar (GetUTF8FirstChar t it (length t)) then
          bind_step (push_lexem t lexem it_prev st) (\<lambda>st.
            let (suffix, it') = ParseIdentifier t it
            in push_lexem t (suffix \<lparr> lexem_type := LiteralSuffix \<rparr>) it (st \<lparr> ls_it := it' \<rparr>))
        else push_lexem t lexem it_prev st)"

text \<open>The search for the longest fixed lexem, from \<open>g_max_fixed_lexem_size\<close> characters down to one.\<close>

primrec fixed_lexem_search :: "nat \<Rightarrow> byte list \<Rightarrow> (byte list \<times> Lexem_Type) option" where
  "fixed_lexem_search 0 fixed_lexem_str = None" |
  "fixed_lexem_search (Suc s) fixed_lexem_str =
    (case map_of (g_fixed_lexems (Suc s)) fixed_lexem_str of
       Some type \<Rightarrow> Some (fixed_lexem_str, type)
     | None \<Rightarrow> fixed_lexem_search s (butlast fixed_lexem_str))"

definition fixed_lexem :: "byte list \<Rightarrow> sprache_char \<Rightarrow> LexState \<Rightarrow> LexState lex_result" where
  "fixed_lexem t c st =
    (let it = ls_it st; s = min g_max_fixed_lexem_size (length t - it) in
     case fixed_lexem_search s (take s (drop it t)) of
       Some (text', type) \<Rightarrow>
         push_lexem t (Lexem_default \<lparr> lexem_type := type, lexem_text := text' \<rparr>) it
           (st \<lparr> ls_it := it + length text' \<rparr>)
     | None \<Rightarrow>
         Inr ((add_error (str ''Lexical error: unrecognized character: '' @ to_string (unat c))
                (SrcLoc_make 0 (ls_line st) (ls_column st)) st) \<lparr> ls_it := it + 1 \<rparr>))"

section \<open>The loop\<close>

definition lex_step :: "byte list \<Rightarrow> LexState \<Rightarrow> LexState lex_result" where
  "lex_step t st =
    (let it = ls_it st; c = GetUTF8FirstChar t it (length t) in
     if c = cp CHR ''/'' \<and> length t - it > 1 \<and> peek t (it + 1) = ch CHR ''/'' then
       Inr (st \<lparr> ls_it := line_comment_loop t it \<rparr>)
     else if c = cp CHR ''/'' \<and> it + 1 < length t \<and> peek t (it + 1) = ch CHR ''*'' then
       multiline_comment t st
     else if IsNewline c then newline t c st
     else if IsWhitespace c then CHECK_RETURN_COLUMN_LIMIT (move 1 1 st)
     else if c = cp CHR 0x22 then literal t ParseStringImpl st
     else if c = cp CHR 0x27 then literal t ParseCharLiteral st
     else if IsNumberStartChar c then literal t ParseNumber st
     else if IsIdentifierStartChar c then
       (let (lexem, it') = ParseIdentifier t it in push_lexem t lexem it (st \<lparr> ls_it := it' \<rparr>))
     else if IsMacroIdentifierStartChar c \<and> it + 1 < length t \<and> peek t (it + 1) \<noteq> ch CHR ''>'' \<and>
         (IsIdentifierChar (GetUTF8FirstChar t (it + 1) (length t)) \<or>
          IsMacroIdentifierStartChar (GetUTF8FirstChar t (it + 1) (length t))) then
       (let (lexem, it') = ParseMacroIdentifier t it in push_lexem t lexem it (st \<lparr> ls_it := it' \<rparr>))
     else fixed_lexem t c st)"

definition finish_lex :: "LexState \<Rightarrow> LexicalAnalysisResult" where
  "finish_lex st = state_result (st \<lparr> result_lexems := result_lexems st @
    [\<lparr> lexem_text = str ''EOF'', lexem_src_loc = SrcLoc_make 0 (ls_line st) (ls_column st),
       lexem_type = EndOfFile \<rparr>] \<rparr>)"

partial_function (option) lex_loop :: "byte list \<Rightarrow> LexState \<Rightarrow> LexicalAnalysisResult option" where
  [code]: "lex_loop t st =
    (if ls_it st < length t then
       (case lex_step t st of Inl r \<Rightarrow> Some r | Inr st' \<Rightarrow> lex_loop t st')
     else Some (finish_lex st))"

definition lex_start :: "byte list \<Rightarrow> LexState" where
  "lex_start program_text =
    \<lparr> result_lexems = [], result_errors = [],
      ls_it = (if length program_text \<ge> 3 \<and> take 3 program_text = [0xEF, 0xBB, 0xBF] then 3 else 0),
      ls_line = 1, ls_column = 0 \<rparr>"

definition LexicalAnalysis :: "byte list \<Rightarrow> LexicalAnalysisResult option" where
  "LexicalAnalysis program_text = lex_loop program_text (lex_start program_text)"

end
