(* ===== verification/Lexer_Properties.thy ===== *)
theory Lexer_Properties
  imports Lexical_Analysis Lexem_Laws
begin

text \<open>
  The loop of \<open>LexicalAnalysis\<close>: when it terminates, and what it returns. An interface
  (\<open>lexer_invariant\<close>, extended by \<open>lexer_progress\<close>) turns a property of one round into a property
  of the result; the location invariant is its instance on the lexer.
\<close>

section \<open>From one round to the whole text\<close>

locale lexer_invariant =
  fixes I :: "byte list \<Rightarrow> LexState \<Rightarrow> bool" and Q :: "LexicalAnalysisResult \<Rightarrow> bool"
  assumes step: "I t st \<Longrightarrow> ls_it st < length t \<Longrightarrow> lex_step t st = Inr st' \<Longrightarrow> I t st'"
    and early: "I t st \<Longrightarrow> ls_it st < length t \<Longrightarrow> lex_step t st = Inl r \<Longrightarrow> Q r"
    and final: "I t st \<Longrightarrow> \<not> ls_it st < length t \<Longrightarrow> Q (finish_lex st)"
begin

lemma result_of_loop:
  assumes "lex_loop t st = Some r" and "I t st"
  shows "Q r"
proof -
  have "I t st \<longrightarrow> Q r"
    using assms(1)
  proof (rule lex_loop.raw_induct [where P = "\<lambda>t st r. I t st \<longrightarrow> Q r", rotated])
    fix loop :: "byte list \<Rightarrow> LexState \<Rightarrow> LexicalAnalysisResult option" and t st r
    assume IH: "\<And>t st r. loop t st = Some r \<Longrightarrow> I t st \<longrightarrow> Q r"
      and body: "(if ls_it st < length t
        then case lex_step t st of Inl r \<Rightarrow> Some r | Inr st' \<Rightarrow> loop t st'
        else Some (finish_lex st)) = Some r"
    show "I t st \<longrightarrow> Q r"
    proof
      assume I: "I t st"
      show "Q r"
        using body IH I step [OF I] early [OF I] final [OF I]
        by (cases "lex_step t st") (auto split: if_splits)
    qed
  qed
  with assms(2) show ?thesis by blast
qed

end

locale lexer_progress = lexer_invariant +
  assumes progress: "I t st \<Longrightarrow> ls_it st < length t \<Longrightarrow> lex_step t st = Inr st' \<Longrightarrow> ls_it st < ls_it st'"
begin

lemma loop_terminates: "I t st \<Longrightarrow> \<exists>r. lex_loop t st = Some r"
proof (induction "length t - ls_it st" arbitrary: st rule: less_induct)
  case less
  show ?case
  proof (cases "ls_it st < length t")
    case True
    show ?thesis
    proof (cases "lex_step t st")
      case (Inl r)
      with True show ?thesis by (subst lex_loop.simps) simp
    next
      case (Inr st')
      have "length t - ls_it st' < length t - ls_it st"
        using progress [OF less.prems True Inr] True by (simp add: diff_less_mono2)
      from less.hyps [OF this step [OF less.prems True Inr]] True Inr show ?thesis
        by (subst lex_loop.simps) simp
    qed
  next
    case False
    then show ?thesis by (subst lex_loop.simps) simp
  qed
qed

lemma loop_total: "I t st \<Longrightarrow> \<exists>r. lex_loop t st = Some r \<and> Q r"
  using loop_terminates result_of_loop by blast

end

section \<open>The location invariant\<close>

text \<open>
  A byte that is no decimal digit may be the start of a sequence that decodes to one (a continuation
  byte 0x80 or 0xA0 before a digit, or an overlong encoding). At such a place the lexer starts a
  number and reads nothing. The texts without such places are the ones it is sure to finish on.
\<close>

definition plain_digits :: "byte list \<Rightarrow> bool" where
  "plain_digits t \<longleftrightarrow> (\<forall>i < length t. IsNumberStartChar (GetUTF8FirstChar t i (length t)) \<longrightarrow>
     TryParseDigit 10 (t ! i) \<noteq> - 1)"

definition here :: "LexState \<Rightarrow> SrcLoc" where
  "here st = SrcLoc_make 0 (ls_line st) (ls_column st)"

definition in_limits :: "LexState \<Rightarrow> bool" where
  "in_limits st \<longleftrightarrow> 1 \<le> ls_line st \<and> ls_line st \<le> c_max_line \<and> ls_column st \<le> c_max_column"

definition location_ok :: "SrcLoc \<Rightarrow> bool" where
  "location_ok loc \<longleftrightarrow> GetFileIndex loc = 0 \<and> GetMacroExpansionIndex loc = c_max_macro_expanison_index
     \<and> 1 \<le> GetLine loc"

definition token_type :: "Lexem_Type \<Rightarrow> bool" where
  "token_type ty \<longleftrightarrow> ty \<noteq> NoneLexem \<and> ty \<noteq> EndOfFile"

definition lexems_ok :: "Lexem list \<Rightarrow> bool" where
  "lexems_ok ls \<longleftrightarrow> sorted_wrt (<) (map lexem_src_loc ls) \<and>
     (\<forall>l \<in> set ls. location_ok (lexem_src_loc l) \<and> token_type (lexem_type l))"

definition lex_inv :: "byte list \<Rightarrow> LexState \<Rightarrow> bool" where
  "lex_inv t st \<longleftrightarrow> plain_digits t \<and> length t < 2 ^ 31 \<and> ls_it st \<le> length t + 1 \<and> in_limits st \<and>
     lexems_ok (result_lexems st) \<and> (\<forall>l \<in> set (result_lexems st). lexem_src_loc l < here st)"

definition limit_reached :: "LexicalAnalysisResult \<Rightarrow> bool" where
  "limit_reached r \<longleftrightarrow> result_errors r \<noteq> [] \<and>
     error_text (last (result_errors r)) \<in> {GetLineLimitMessage, GetColumnLimitMessage}"

definition eof_at_end :: "LexicalAnalysisResult \<Rightarrow> bool" where
  "eof_at_end r \<longleftrightarrow> (\<exists>ls e. result_lexems r = ls @ [e] \<and> lexem_type e = EndOfFile \<and>
     location_ok (lexem_src_loc e) \<and> (\<forall>l \<in> set ls. lexem_src_loc l < lexem_src_loc e) \<and> lexems_ok ls)"

definition lex_result_ok :: "LexicalAnalysisResult \<Rightarrow> bool" where
  "lex_result_ok r \<longleftrightarrow> eof_at_end r \<or> limit_reached r \<and> lexems_ok (result_lexems r)"

text \<open>A round that only moves: the lexems stay, the line and column do not go back.\<close>

definition moves :: "LexState \<Rightarrow> LexState \<Rightarrow> bool" where
  "moves st st' \<longleftrightarrow> result_lexems st' = result_lexems st \<and> in_limits st' \<and>
     (ls_line st < ls_line st' \<or> ls_line st = ls_line st' \<and> ls_column st \<le> ls_column st')"

lemma moves_trans: "moves a b \<Longrightarrow> moves b c \<Longrightarrow> moves a c"
  by (auto simp: moves_def)

lemma here_le:
  assumes "in_limits st" and "moves st st'" and "loc < here st"
  shows "loc < here st'"
proof -
  have "here st \<le> here st'"
    using assms(1,2) SrcLoc_make_less [of 0 "ls_line st'" "ls_line st" "ls_column st'" "ls_column st"]
    by (auto simp: moves_def in_limits_def here_def not_less [symmetric])
  with assms(3) show ?thesis by (rule less_le_trans)
qed

lemma moves_inv:
  assumes "lex_inv t st" and "moves st st'" and "ls_it st' \<le> length t + 1"
  shows "lex_inv t st'"
  using assms here_le [OF _ assms(2)] by (auto simp: lex_inv_def moves_def)

lemma limit_Inl:
  "CHECK_RETURN_COLUMN_LIMIT st = Inl r \<Longrightarrow> limit_reached r \<and> result_lexems r = result_lexems st"
  by (auto simp: CHECK_RETURN_COLUMN_LIMIT_def limit_reached_def state_result_def add_error_def
      mk_error_def split: if_splits)

lemma next_line_Inl:
  "next_line st = Inl r \<Longrightarrow> limit_reached r \<and> result_lexems r = result_lexems st"
  by (auto simp: next_line_def Let_def limit_reached_def state_result_def add_error_def
      mk_error_def split: if_splits)

lemma limit_result_ok:
  "lexems_ok (result_lexems st) \<Longrightarrow> limit_reached r \<and> result_lexems r = result_lexems st \<Longrightarrow> lex_result_ok r"
  by (simp add: lex_result_ok_def)

section \<open>Rounds that only move\<close>

lemma column_grows:
  fixes c k :: u32
  assumes "c \<le> c_max_column" and "unat k < 2 ^ 31 + 4"
  shows "unat (c + k) = unat c + unat k"
  using assms by (simp add: c_max_values word_le_nat_alt unat_word_ariths)

lemma check_moves:
  assumes "CHECK_RETURN_COLUMN_LIMIT (move n k st) = Inr st'" and "in_limits st" and "unat k \<le> 2"
  shows "moves st st' \<and> ls_it st' = ls_it st + n"
proof -
  have "ls_column st \<le> ls_column st + k"
    using column_grows [of "ls_column st" k] assms(2,3) by (simp add: in_limits_def word_le_nat_alt)
  with CHECK_RETURN_COLUMN_LIMIT_InrD [OF assms(1)] assms(2) show ?thesis
    by (simp add: moves_def move_def in_limits_def)
qed

lemma line_grows: "l \<le> c_max_line \<Longrightarrow> l < l + 1 \<and> 1 \<le> l + 1"
  by (simp add: c_max_values word_le_nat_alt word_less_nat_alt unat_word_ariths)

lemma next_line_moves:
  assumes "next_line st = Inr st'" and "in_limits st"
  shows "moves st st' \<and> ls_it st' = ls_it st"
  using next_line_InrD [OF assms(1)] assms(2) line_grows [of "ls_line st"]
  by (auto simp: moves_def in_limits_def)

lemma moves_it [simp]: "moves st (st' \<lparr> ls_it := i \<rparr>) \<longleftrightarrow> moves st st'"
  by (simp add: moves_def in_limits_def)

lemma moves_errors [simp]: "moves st (add_error m loc st') \<longleftrightarrow> moves st st'"
  by (simp add: moves_def in_limits_def add_error_def)

lemma ls_it_add_error [simp]: "ls_it (add_error m loc st) = ls_it st"
  by (simp add: add_error_def)

lemma moves_refl [simp]: "in_limits st \<Longrightarrow> moves st st"
  by (simp add: moves_def)

lemma ReadNextUTF8Char_at_end: "snd (ReadNextUTF8Char t s s) \<le> s + 1"
  by (auto simp: ReadNextUTF8Char_def Let_def)

lemma comment_newline_moves:
  assumes "in_limits st" and "ls_it st < length t"
  shows "moves st (comment_newline t c st) \<and> ls_it (comment_newline t c st) \<le> length t"
proof -
  obtain c1 n where read: "ReadNextUTF8Char t (ls_it st + 1) (ls_it st + 1) = (c1, n)" by fastforce
  then have "n \<le> ls_it st + 2" using ReadNextUTF8Char_at_end [of t "ls_it st + 1"] by simp
  with assms read show ?thesis by (auto simp: comment_newline_def Let_def)
qed

lemma comment_step_moves:
  assumes "comment_step t d st = Inr (d', st')" and "in_limits st" and "ls_it st < length t"
  shows "moves st st' \<and> ls_it st' \<le> length t"
proof -
  have two: "moves st s \<and> ls_it s \<le> length t"
    if "CHECK_RETURN_COLUMN_LIMIT (move 2 2 st) = Inr s" "ls_it st + 1 < length t" for s
    using check_moves [OF that(1) assms(2)] that(2) by simp
  have one: "moves st s'" "ls_it s' = ls_it s"
    if "CHECK_RETURN_COLUMN_LIMIT (move 0 1 s) = Inr s'" "moves st s" for s s'
    using check_moves [OF that(1)] that(2) moves_trans [of st s s'] by (auto simp: moves_def)
  have new: "moves st (comment_newline t c s) \<and> ls_it (comment_newline t c s) \<le> length t"
    if "next_line st = Inr s" for c s
  proof -
    have s: "moves st s" "ls_it s = ls_it st" using next_line_moves [OF that assms(2)] by auto
    then have "in_limits s" by (simp add: moves_def)
    with s assms(3) comment_newline_moves [of s t c] show ?thesis using moves_trans by auto
  qed
  have read: "snd (ReadNextUTF8Char t (ls_it st) (length t)) \<le> length t"
    using ReadNextUTF8Char_progress(2) [OF assms(3)] .
  show ?thesis
    using assms(1) two new read one assms(2)
    by (auto simp: comment_step_def at_pair_def Let_def bind_step_Inr_iff split: if_splits)
qed

lemma comment_step_Inl:
  "comment_step t d st = Inl r \<Longrightarrow> limit_reached r \<and> result_lexems r = result_lexems st"
proof -
  have cn: "result_lexems (comment_newline t c s) = result_lexems s" for c s
    by (auto simp: comment_newline_def Let_def split: prod.splits)
  assume "comment_step t d st = Inl r"
  then show ?thesis
    by (auto simp: comment_step_def Let_def bind_step_Inl_iff bind_step_Inr_iff cn move_def split: if_splits
        dest!: limit_Inl next_line_Inl next_line_InrD)
qed

lemma comment_loop_moves:
  assumes "comment_loop t d st = Inr (d', st')" and "in_limits st" and "ls_it st \<le> length t"
  shows "moves st st' \<and> ls_it st \<le> ls_it st' \<and> ls_it st' \<le> length t"
  using assms
proof (induction "length t - ls_it st" arbitrary: d st rule: less_induct)
  case less
  show ?case
  proof (cases "ls_it st < length t")
    case True
    then obtain d1 st1 where step: "comment_step t d st = Inr (d1, st1)"
      and rest: "(if d1 = 0 then Inr (0, st1) else comment_loop t d1 st1) = Inr (d', st')"
      using less.prems(1) by (subst (asm) comment_loop.simps) (auto split: sum.splits)
    have s: "moves st st1" "ls_it st1 \<le> length t" and lt: "ls_it st < ls_it st1"
      using comment_step_moves [OF step less.prems(2) True] comment_step_progress [OF step True] by auto
    show ?thesis
    proof (cases "d1 = 0")
      case True
      with rest s lt show ?thesis by auto
    next
      case False
      moreover have "in_limits st1" using s(1) by (simp add: moves_def)
      ultimately have "moves st1 st' \<and> ls_it st1 \<le> ls_it st' \<and> ls_it st' \<le> length t"
        using less.hyps [OF diff_less_mono2 [OF lt True]] rest s(2) by simp
      then show ?thesis using moves_trans [OF s(1)] lt by auto
    qed
  next
    case False
    then show ?thesis using less.prems by (subst (asm) comment_loop.simps) auto
  qed
qed

lemma comment_loop_Inl:
  assumes "comment_loop t d st = Inl r" and "in_limits st"
  shows "limit_reached r \<and> result_lexems r = result_lexems st"
  using assms
proof (induction "length t - ls_it st" arbitrary: d st rule: less_induct)
  case less
  then have True: "ls_it st < length t" by (subst (asm) comment_loop.simps) (auto split: if_splits)
  show ?case
  proof (cases "comment_step t d st")
    case (Inl r')
    then show ?thesis
      using less.prems(1) True comment_step_Inl [OF Inl] by (simp add: comment_loop.simps)
  next
    case (Inr x)
    obtain d1 st1 where x: "x = (d1, st1)" by fastforce
    have "comment_loop t d1 st1 = Inl r"
      using less.prems(1) True Inr x by (simp add: comment_loop.simps [of t d st] split: if_splits)
    moreover have s: "moves st st1" "ls_it st < ls_it st1"
      using comment_step_moves [OF Inr [unfolded x] less.prems(2) True]
        comment_step_progress [OF Inr [unfolded x] True] by auto
    ultimately have "limit_reached r \<and> result_lexems r = result_lexems st1"
      using less.hyps [OF diff_less_mono2 [OF s(2) True]] by (simp add: moves_def)
    with s(1) show ?thesis by (simp add: moves_def)
  qed
qed

lemma line_comment_loop_bound:
  "it \<le> length t \<Longrightarrow> it \<le> line_comment_loop t it \<and> line_comment_loop t it \<le> length t"
proof (induction t it rule: line_comment_loop.induct)
  case (1 t it)
  show ?case
  proof (cases "it < length t")
    case True
    obtain c n where read: "ReadNextUTF8Char t it (length t) = (c, n)" by fastforce
    then have "it < n" "n \<le> length t" using ReadNextUTF8Char_progressD [OF read True] by auto
    with True read 1(1) [OF True read [symmetric]] show ?thesis
      by (subst line_comment_loop.simps, subst (2) line_comment_loop.simps) auto
  next
    case False
    with 1(2) show ?thesis by (simp add: line_comment_loop.simps)
  qed
qed

lemma line_comment_loop_progress:
  assumes "it < length t" and "\<not> IsNewline (GetUTF8FirstChar t it (length t))"
  shows "it < line_comment_loop t it \<and> line_comment_loop t it \<le> length t"
proof -
  obtain c n where read: "ReadNextUTF8Char t it (length t) = (c, n)" by fastforce
  then have "it < n" "n \<le> length t" using ReadNextUTF8Char_progressD [OF read assms(1)] by auto
  moreover have "line_comment_loop t it = line_comment_loop t n"
    using assms read by (subst line_comment_loop.simps) (simp add: GetUTF8FirstChar_def)
  ultimately show ?thesis using line_comment_loop_bound [of n t] by simp
qed

lemma multiline_comment_moves:
  assumes "multiline_comment t st = Inr st'" and "in_limits st" and "ls_it st + 1 < length t"
  shows "moves st st' \<and> ls_it st < ls_it st' \<and> ls_it st' \<le> length t"
proof -
  obtain st1 d st2 where s1: "CHECK_RETURN_COLUMN_LIMIT (move 2 2 st) = Inr st1"
    and s2: "comment_loop t 1 st1 = Inr (d, st2)"
    and s3: "moves st st' \<longleftrightarrow> moves st st2" "ls_it st' = ls_it st2"
    using assms(1) unfolding multiline_comment_def bind_step_Inr_iff
    by (auto simp del: str_Cons split: if_splits)
  have m1: "moves st st1" "ls_it st1 = ls_it st + 2" using check_moves [OF s1 assms(2)] by auto
  then have "moves st1 st2 \<and> ls_it st1 \<le> ls_it st2 \<and> ls_it st2 \<le> length t"
    using comment_loop_moves [OF s2] assms(3) by (simp add: moves_def)
  with m1 s3 show ?thesis using moves_trans by auto
qed

lemma multiline_comment_Inl:
  assumes "multiline_comment t st = Inl r" and "in_limits st"
  shows "limit_reached r \<and> result_lexems r = result_lexems st"
proof (cases "CHECK_RETURN_COLUMN_LIMIT (move 2 2 st)")
  case (Inl r')
  then show ?thesis using assms(1) limit_Inl [OF Inl] by (simp add: multiline_comment_def move_def)
next
  case (Inr st1)
  have m: "moves st st1" using check_moves [OF Inr assms(2)] by simp
  have "comment_loop t 1 st1 = Inl r"
    using assms(1) Inr by (cases "comment_loop t 1 st1") (auto simp: multiline_comment_def split: prod.splits)
  with m comment_loop_Inl show ?thesis by (auto simp: moves_def)
qed

lemma newline_moves:
  assumes "newline t c st = Inr st'" and "in_limits st" and "ls_it st < length t"
  shows "moves st st' \<and> ls_it st < ls_it st' \<and> ls_it st' \<le> length t"
proof -
  obtain st1 where s1: "next_line st = Inr st1"
    using assms(1) by (auto simp: newline_def bind_step_Inr_iff)
  have m1: "moves st st1" "ls_it st1 = ls_it st" using next_line_moves [OF s1 assms(2)] by auto
  define n where "n = snd (ReadNextUTF8Char t (ls_it st) (length t))"
  have n: "ls_it st < n" "n \<le> length t" using ReadNextUTF8Char_progress [OF assms(3)] by (auto simp: n_def)
  obtain c2 n2 where read: "ReadNextUTF8Char t n (length t) = (c2, n2)" by fastforce
  have "n < n2 \<and> n2 \<le> length t" if "n < length t" using ReadNextUTF8Char_progressD [OF read that] by auto
  then show ?thesis
    using assms(1) s1 m1 n read
    by (auto simp: newline_def Let_def n_def [symmetric] split: if_splits)
qed

section \<open>Rounds that push a lexem\<close>

lemma push_lexem_Inr:
  assumes "push_lexem t lexem it_prev st = Inr st'" and "lex_inv t st" and "it_prev < ls_it st"
    and "token_type (lexem_type lexem)"
  shows "lex_inv t st' \<and> ls_it st' = ls_it st"
proof -
  define n where "n = AdvanceIteratorAndCountCodePoints t it_prev (ls_it st)"
  define lexem' where "lexem' = lexem \<lparr> lexem_src_loc := here st \<rparr>"
  have len: "length t < 2 ^ 31" "ls_it st \<le> length t + 1" and lim: "in_limits st"
    using assms(2) by (auto simp: lex_inv_def)
  have d: "ls_it st - it_prev < 2 ^ 31 + 2" using len by linarith
  then have "unat (0 :: u32) + (ls_it st - it_prev) < 2 ^ 32" by simp
  from count_code_points_bound [OF this, of t] d assms(3)
  have n: "0 < unat n" "unat n < 2 ^ 31 + 4"
    by (auto simp: n_def AdvanceIteratorAndCountCodePoints_def)
  have st': "st' = st \<lparr> ls_column := ls_column st + n, result_lexems := result_lexems st @ [lexem'] \<rparr>"
    and max: "ls_column st + n \<le> c_max_column"
    using assms(1)
    by (auto simp: push_lexem_def Let_def bind_step_Inr_iff n_def lexem'_def here_def
        dest!: CHECK_RETURN_COLUMN_LIMIT_InrD)
  have less: "ls_column st < ls_column st + n"
    using column_grows [of "ls_column st" n] n lim by (simp add: in_limits_def word_less_nat_alt)
  then have after: "here st < here st'"
    using lim max SrcLoc_make_less [of 0 "ls_line st" "ls_line st" "ls_column st" "ls_column st + n"]
    by (simp add: here_def st' in_limits_def)
  have "location_ok (here st)"
    using lim by (simp add: location_ok_def here_def SrcLoc_make_get in_limits_def)
  then have "lexems_ok (result_lexems st')"
    using assms(2,4) by (auto simp: st' lexems_ok_def lex_inv_def sorted_wrt_append lexem'_def)
  moreover have "in_limits st'" using lim max by (simp add: st' in_limits_def)
  moreover have "\<forall>l \<in> set (result_lexems st'). lexem_src_loc l < here st'"
    using after assms(2) less_trans by (auto simp: st' lex_inv_def lexem'_def)
  ultimately show ?thesis using assms(2) by (simp add: lex_inv_def st')
qed

lemma push_lexem_Inl:
  "push_lexem t lexem it_prev st = Inl r \<Longrightarrow> limit_reached r \<and> result_lexems r = result_lexems st"
  by (auto simp: push_lexem_def Let_def bind_step_Inl_iff dest!: limit_Inl)

lemma lex_inv_errors: "lex_inv t st \<Longrightarrow> i \<le> length t + 1 \<Longrightarrow> lex_inv t (st \<lparr> ls_it := i, result_errors := e \<rparr>)"
  by (auto simp: lex_inv_def in_limits_def here_def)

lemma lex_inv_lexems: "lex_inv t st \<Longrightarrow> lexems_ok (result_lexems st)"
  by (simp add: lex_inv_def)

lemma ParseIdentifier_type: "ParseIdentifier t it = (lexem, it') \<Longrightarrow> lexem_type lexem = Identifier"
  by (auto simp: ParseIdentifier_def split: prod.splits)

lemma IsIdentifierStartChar_0: "\<not> IsIdentifierStartChar 0"
  by (simp add: IsIdentifierStartChar_def cp_def)

lemma GetUTF8FirstChar_past: "length t \<le> it \<Longrightarrow> GetUTF8FirstChar t it (length t) = 0"
  by (simp add: GetUTF8FirstChar_def ReadNextUTF8Char_def peek_past)

lemma literal_step:
  assumes "lex_inv t st" and "ls_it st < length t"
    and parse: "\<And>loc errs lexem it' errs'. parse t (ls_it st) loc errs = (lexem, it', errs') \<Longrightarrow>
      ls_it st < it' \<and> it' \<le> length t + 1 \<and> token_type (lexem_type lexem)"
  shows "literal t parse st = Inr st' \<Longrightarrow> lex_inv t st' \<and> ls_it st < ls_it st'"
    and "literal t parse st = Inl r \<Longrightarrow> lex_result_ok r"
proof -
  obtain lexem it errs where p: "parse t (ls_it st) (SrcLoc_make 0 (ls_line st) (ls_column st)) (result_errors st) = (lexem, it, errs)"
    by (metis prod_cases3)
  note b = parse [OF p]
  let ?st = "st \<lparr> ls_it := it, result_errors := errs \<rparr>"
  have inv: "lex_inv t ?st" using lex_inv_errors [OF assms(1)] b by blast
  obtain suffix it' where suf: "ParseIdentifier t it = (suffix, it')" by fastforce
  note first = push_lexem_Inr [OF _ inv, of lexem "ls_it st"]
  have second: "lex_inv t s' \<and> ls_it s' = it'"
    if "push_lexem t lexem (ls_it st) ?st = Inr s" "IsIdentifierStartChar (GetUTF8FirstChar t it (length t))"
      "push_lexem t (suffix \<lparr> lexem_type := LiteralSuffix \<rparr>) it (s \<lparr> ls_it := it' \<rparr>) = Inr s'" for s s'
  proof -
    have "it < length t" using that(2) GetUTF8FirstChar_past IsIdentifierStartChar_0 by (metis not_le)
    then have i: "it < it'" "it' \<le> length t"
      using ParseIdentifier_bound [OF suf] that(2) by (auto simp: IsIdentifierChar_def)
    have "lex_inv t s" using first [OF that(1)] b by simp
    then have "lex_inv t (s \<lparr> ls_it := it' \<rparr>)" using i(2) by (auto simp: lex_inv_def in_limits_def here_def)
    from push_lexem_Inr [OF that(3) this] i show ?thesis by (simp add: token_type_def)
  qed
  have it': "it \<le> it'" using ParseIdentifier_bound(1) [OF suf] .
  show "lex_inv t st' \<and> ls_it st < ls_it st'" if lit: "literal t parse st = Inr st'"
  proof (cases "IsIdentifierStartChar (GetUTF8FirstChar t it (length t))")
    case True
    then obtain s where "push_lexem t lexem (ls_it st) ?st = Inr s"
      "push_lexem t (suffix \<lparr> lexem_type := LiteralSuffix \<rparr>) it (s \<lparr> ls_it := it' \<rparr>) = Inr st'"
      using lit p suf by (auto simp: literal_def Let_def bind_step_Inr_iff)
    from second [OF this(1) True this(2)] b it' show ?thesis by auto
  next
    case False
    then show ?thesis using lit p first b by (simp add: literal_def Let_def)
  qed
  show "lex_result_ok r" if "literal t parse st = Inl r"
  proof -
    have "limit_reached r \<and> (result_lexems r = result_lexems ?st \<or>
        (\<exists>s. push_lexem t lexem (ls_it st) ?st = Inr s \<and> result_lexems r = result_lexems s))"
      using that p suf
      by (auto simp: literal_def Let_def bind_step_Inl_iff split: if_splits dest!: push_lexem_Inl)
    moreover have "lexems_ok (result_lexems s)" if "push_lexem t lexem (ls_it st) ?st = Inr s" for s
      using first [OF that] b by (auto dest: lex_inv_lexems)
    ultimately show ?thesis
      using lex_inv_lexems [OF inv] by (auto simp: lex_result_ok_def)
  qed
qed

section \<open>Every round keeps the invariant and moves forward\<close>

lemma fixed_lexem_search_Some:
  assumes "fixed_lexem_search s word = Some (word', ty)" and "length word = s"
  shows "\<exists>k \<ge> 1. k \<le> s \<and> word' = take k word \<and> map_of (g_fixed_lexems k) word' = Some ty \<and>
    (\<forall>j. k < j \<and> j \<le> s \<longrightarrow> map_of (g_fixed_lexems j) (take j word) = None)"
  using assms
proof (induction s arbitrary: word)
  case (Suc s)
  show ?case
  proof (cases "map_of (g_fixed_lexems (Suc s)) word")
    case (Some ty')
    with Suc.prems show ?thesis by (intro exI [of _ "Suc s"]) auto
  next
    case None
    then have "fixed_lexem_search s (butlast word) = Some (word', ty)" using Suc.prems by simp
    from Suc.IH [OF this] Suc.prems(2) obtain k where k: "k \<ge> 1" "k \<le> s" "word' = take k (butlast word)"
      "map_of (g_fixed_lexems k) word' = Some ty"
      "\<forall>j. k < j \<and> j \<le> s \<longrightarrow> map_of (g_fixed_lexems j) (take j (butlast word)) = None"
      by auto
    have take: "take j (butlast word) = take j word" if "j \<le> s" for j
      using that Suc.prems(2) by (simp add: take_butlast)
    have "map_of (g_fixed_lexems j) (take j word) = None" if "k < j" "j \<le> Suc s" for j
      using that k(5) take None Suc.prems(2) by (cases "j = Suc s") auto
    with k take show ?thesis by (intro exI [of _ k]) auto
  qed
qed simp

lemma fixed_lexem_search_None:
  assumes "fixed_lexem_search s word = None" and "length word = s"
  shows "1 \<le> j \<Longrightarrow> j \<le> s \<Longrightarrow> map_of (g_fixed_lexems j) (take j word) = None"
  using assms
proof (induction s arbitrary: word)
  case (Suc s)
  then show ?case
    by (cases "j = Suc s") (auto simp: take_butlast split: option.splits dest!: Suc.IH(1) [rotated 2])
qed simp

lemma g_fixed_lexems_tokens: "map_of (g_fixed_lexems k) text' = Some ty \<Longrightarrow> token_type ty"
proof -
  have "list_all (\<lambda>(text', ty). token_type ty) fixed_lexems_1" "list_all (\<lambda>(text', ty). token_type ty) fixed_lexems_2"
    "list_all (\<lambda>(text', ty). token_type ty) fixed_lexems_3"
    by (simp_all add: fixed_lexems_1_def fixed_lexems_2_def fixed_lexems_3_def token_type_def)
  then show "map_of (g_fixed_lexems k) text' = Some ty \<Longrightarrow> token_type ty"
    by (auto simp: g_fixed_lexems_def list_all_iff dest!: map_of_SomeD split: if_splits)
qed

lemma fixed_lexem_step:
  assumes "lex_inv t st" and "ls_it st < length t"
  shows "fixed_lexem t c st = Inr st' \<Longrightarrow> lex_inv t st' \<and> ls_it st < ls_it st'"
    and "fixed_lexem t c st = Inl r \<Longrightarrow> lex_result_ok r"
proof -
  define s where "s = min g_max_fixed_lexem_size (length t - ls_it st)"
  have len: "length (take s (drop (ls_it st) t)) = s" by (simp add: s_def)
  note def = fixed_lexem_def [of t c st, unfolded Let_def, folded s_def]
  have "(fixed_lexem t c st = Inr st' \<longrightarrow> lex_inv t st' \<and> ls_it st < ls_it st') \<and>
    (fixed_lexem t c st = Inl r \<longrightarrow> lex_result_ok r)"
  proof (cases "fixed_lexem_search s (take s (drop (ls_it st) t))")
    case None
    have "lex_inv t ((add_error m l st) \<lparr> ls_it := ls_it st + 1 \<rparr>)" for m l
      using assms by (auto simp: lex_inv_def in_limits_def here_def add_error_def)
    with None show ?thesis by (auto simp: def simp del: str_Cons)
  next
    case (Some p)
    obtain text' ty where p: "p = (text', ty)" by fastforce
    obtain k where k: "k \<ge> 1" "k \<le> s" "text' = take k (take s (drop (ls_it st) t))" "token_type ty"
      using fixed_lexem_search_Some [OF Some [unfolded p] len] g_fixed_lexems_tokens by blast
    then have l: "0 < length text'" "length text' \<le> length t - ls_it st"
      using assms(2) by (auto simp: s_def)
    have "lex_inv t (st \<lparr> ls_it := ls_it st + length text' \<rparr>)"
      using assms l by (auto simp: lex_inv_def in_limits_def here_def)
    note push = push_lexem_Inr [OF _ this]
    show ?thesis
      using Some p l k(4) push limit_result_ok [OF lex_inv_lexems [OF assms(1)]]
      by (auto simp: def dest!: push_lexem_Inl)
  qed
  then show "fixed_lexem t c st = Inr st' \<Longrightarrow> lex_inv t st' \<and> ls_it st < ls_it st'"
    and "fixed_lexem t c st = Inl r \<Longrightarrow> lex_result_ok r" by auto
qed

lemma literal_types:
  "ParseStringImpl t it loc errs = (lexem, it', errs') \<Longrightarrow> lexem_type lexem = String"
  "ParseCharLiteral t it loc errs = (lexem, it', errs') \<Longrightarrow> lexem_type lexem = CharLiteral"
  "ParseNumber t it loc errs = (lexem, it', errs') \<Longrightarrow> lexem_type lexem = IntegerNumber \<or> lexem_type lexem = FloatingPointNumber"
  "ParseMacroIdentifier t it = (lexem, it') \<Longrightarrow> lexem_type lexem = MacroIdentifier \<or> lexem_type lexem = MacroUniqueIdentifier"
     apply (auto simp: ParseStringImpl_def split: prod.splits)[1]
    apply (unfold ParseCharLiteral_def Let_def)[1]
    apply (auto simp del: str_Cons split: if_splits option.splits prod.splits)[1]
   apply (auto simp: ParseNumber_parts Let_def split: option.splits prod.splits if_splits)[1]
  apply (auto simp: ParseMacroIdentifier_def Let_def split: if_splits prod.splits)[1]
  done

definition round_ok :: "byte list \<Rightarrow> LexState \<Rightarrow> LexState lex_result \<Rightarrow> bool" where
  "round_ok t st m \<longleftrightarrow> (\<forall>st'. m = Inr st' \<longrightarrow> lex_inv t st' \<and> ls_it st < ls_it st') \<and>
     (\<forall>r. m = Inl r \<longrightarrow> lex_result_ok r)"

lemma round_ok_moves:
  assumes "lex_inv t st"
    and "\<And>st'. m = Inr st' \<Longrightarrow> moves st st' \<and> ls_it st < ls_it st' \<and> ls_it st' \<le> length t"
    and "\<And>r. m = Inl r \<Longrightarrow> limit_reached r \<and> result_lexems r = result_lexems st"
  shows "round_ok t st m"
  using assms(2,3) moves_inv [OF assms(1)] limit_result_ok [OF lex_inv_lexems [OF assms(1)]]
  by (fastforce simp: round_ok_def)

lemma round_ok_push:
  assumes "lex_inv t st" and "ls_it st < i" and "i \<le> length t" and "token_type (lexem_type lexem)"
  shows "round_ok t st (push_lexem t lexem (ls_it st) (st \<lparr> ls_it := i \<rparr>))"
proof -
  have "lex_inv t (st \<lparr> ls_it := i \<rparr>)" using assms(1,3) by (auto simp: lex_inv_def in_limits_def here_def)
  from push_lexem_Inr [OF _ this] assms(2,4) limit_result_ok [OF lex_inv_lexems [OF assms(1)]]
  show ?thesis by (auto simp: round_ok_def dest!: push_lexem_Inl)
qed

lemma round_ok_literals:
  assumes "lex_inv t st" and "ls_it st < length t"
  shows "round_ok t st (literal t ParseStringImpl st)"
    and "round_ok t st (literal t ParseCharLiteral st)"
    and "IsNumberStartChar (GetUTF8FirstChar t (ls_it st) (length t)) \<Longrightarrow>
      round_ok t st (literal t ParseNumber st)"
proof -
  have str: "ls_it st < it' \<and> it' \<le> length t + 1 \<and> token_type (lexem_type lexem)"
    if "ParseStringImpl t (ls_it st) loc errs = (lexem, it', errs')" for loc errs lexem it' errs'
    using ParseStringImpl_bound [OF that assms(2)] literal_types(1) [OF that] by (auto simp: token_type_def)
  show "round_ok t st (literal t ParseStringImpl st)"
    using literal_step [OF assms str] by (auto simp: round_ok_def)
  have chr: "ls_it st < it' \<and> it' \<le> length t + 1 \<and> token_type (lexem_type lexem)"
    if "ParseCharLiteral t (ls_it st) loc errs = (lexem, it', errs')" for loc errs lexem it' errs'
    using ParseCharLiteral_bound [OF that assms(2)] literal_types(2) [OF that] by (auto simp: token_type_def)
  show "round_ok t st (literal t ParseCharLiteral st)"
    using literal_step [OF assms chr] by (auto simp: round_ok_def)
  show "round_ok t st (literal t ParseNumber st)"
    if "IsNumberStartChar (GetUTF8FirstChar t (ls_it st) (length t))"
  proof -
    have "TryParseDigit 10 (peek t (ls_it st)) \<noteq> - 1"
      using assms that by (simp add: lex_inv_def plain_digits_def peek_def)
    then have "ls_it st < it' \<and> it' \<le> length t + 1 \<and> token_type (lexem_type lexem)"
      if "ParseNumber t (ls_it st) loc errs = (lexem, it', errs')" for loc errs lexem it' errs'
      using ParseNumber_bound [OF that assms(2)] literal_types(3) [OF that] by (auto simp: token_type_def)
    from literal_step [OF assms this] show ?thesis by (auto simp: round_ok_def)
  qed
qed

lemma round_ok_identifiers:
  assumes "lex_inv t st" and "ls_it st < length t"
  shows "IsIdentifierStartChar (GetUTF8FirstChar t (ls_it st) (length t)) \<Longrightarrow>
      round_ok t st (case ParseIdentifier t (ls_it st) of (lexem, it') \<Rightarrow>
        push_lexem t lexem (ls_it st) (st \<lparr> ls_it := it' \<rparr>))"
    and "round_ok t st (case ParseMacroIdentifier t (ls_it st) of (lexem, it') \<Rightarrow>
        push_lexem t lexem (ls_it st) (st \<lparr> ls_it := it' \<rparr>))"
  using assms
  by (auto split: prod.splits intro!: round_ok_push simp: IsIdentifierChar_def token_type_def
      dest: ParseIdentifier_bound(2,3) ParseIdentifier_type ParseMacroIdentifier_bound literal_types(4))

lemma round_ok_fixed: "lex_inv t st \<Longrightarrow> ls_it st < length t \<Longrightarrow> round_ok t st (fixed_lexem t c st)"
  using fixed_lexem_step by (auto simp: round_ok_def)

lemma round_ok_line_comment:
  assumes "lex_inv t st" and "ls_it st < length t" and "GetUTF8FirstChar t (ls_it st) (length t) = cp CHR ''/''"
  shows "round_ok t st (Inr (st \<lparr> ls_it := line_comment_loop t (ls_it st) \<rparr>))"
proof -
  have "\<not> IsNewline (GetUTF8FirstChar t (ls_it st) (length t))"
    using assms(3) by (simp add: IsNewline_def cp_def)
  from line_comment_loop_progress [OF assms(2) this] show ?thesis
    using assms(1) by (intro round_ok_moves) (auto simp: lex_inv_def)
qed

lemma result_lexems_move [simp]: "result_lexems (move n k st) = result_lexems st"
  by (simp add: move_def)

lemma round_ok_blank:
  assumes "lex_inv t st" and "ls_it st < length t"
  shows "round_ok t st (newline t c st)" and "round_ok t st (CHECK_RETURN_COLUMN_LIMIT (move 1 1 st))"
    and "ls_it st + 1 < length t \<Longrightarrow> round_ok t st (multiline_comment t st)"
proof -
  have lim: "in_limits st" using assms(1) by (simp add: lex_inv_def)
  show "round_ok t st (newline t c st)"
    using newline_moves [OF _ lim assms(2)] next_line_Inl
    by (intro round_ok_moves [OF assms(1)]) (auto simp: newline_def bind_step_Inl_iff Let_def)
  show "round_ok t st (CHECK_RETURN_COLUMN_LIMIT (move 1 1 st))"
    using check_moves [of 1 1 st, OF _ lim] limit_Inl assms(2)
    by (intro round_ok_moves [OF assms(1)]) auto
  show "round_ok t st (multiline_comment t st)" if "ls_it st + 1 < length t"
    using multiline_comment_moves [OF _ lim that] multiline_comment_Inl [OF _ lim]
    by (intro round_ok_moves [OF assms(1)]) auto
qed

lemma round_ok_if:
  "(P \<Longrightarrow> round_ok t st a) \<Longrightarrow> (\<not> P \<Longrightarrow> round_ok t st b) \<Longrightarrow> round_ok t st (if P then a else b)"
  by simp

lemma lex_step_round_ok:
  assumes "lex_inv t st" and "ls_it st < length t"
  shows "round_ok t st (lex_step t st)"
  unfolding lex_step_def Let_def
  using round_ok_line_comment [OF assms] round_ok_blank [OF assms] round_ok_literals [OF assms]
    round_ok_identifiers [OF assms] round_ok_fixed [OF assms]
  by (intro round_ok_if; blast)

lemma finish_lex_ok: "lex_inv t st \<Longrightarrow> lex_result_ok (finish_lex st)"
  by (auto simp: lex_result_ok_def eof_at_end_def finish_lex_def state_result_def lex_inv_def here_def
      location_ok_def SrcLoc_make_get in_limits_def)

interpretation lexer: lexer_progress lex_inv lex_result_ok
  using lex_step_round_ok finish_lex_ok by unfold_locales (auto simp: round_ok_def)

lemma lex_start_inv: "plain_digits t \<Longrightarrow> length t < 2 ^ 31 \<Longrightarrow> lex_inv t (lex_start t)"
  by (auto simp: lex_inv_def lex_start_def in_limits_def c_max_values lexems_ok_def)

section \<open>Properties of the lexer\<close>


lemma ascii_first_char: "i < length t \<Longrightarrow> t ! i < 0x80 \<Longrightarrow> GetUTF8FirstChar t i (length t) = ucast (t ! i)"
  by (simp add: GetUTF8FirstChar_def ReadNextUTF8Char_def peek_def Let_def word_less_nat_alt
      unsigned_ucast_eq take_bit_eq_mod)

lemma ascii_plain_digits:
  assumes "\<forall>b \<in> set t. b < 0x80"
  shows "plain_digits t"
proof -
  have "TryParseDigit 10 b \<noteq> - 1" if "IsNumberStartChar (ucast b)" for b
  proof -
    have r: "in_range CHR ''0'' CHR ''9'' b"
      using that by (simp add: IsNumberStartChar_def cp_def in_range_def ch_def word_le_nat_alt
          unsigned_ucast_eq take_bit_eq_mod) (use unat_less [of b] in simp)
    have "TryParseDigit 10 b < 10"
      using r digit_offset_less [OF r, of 0 10] by (simp add: TryParseDigit_def)
    then show ?thesis using not_digit [of 10] by (auto simp: supported_base_def)
  qed
  with assms show ?thesis by (auto simp: plain_digits_def ascii_first_char)
qed


subsection \<open>A text the lexer does not finish on\<close>

text \<open>A no-break space (0xC2 0xA0) before the digit 1.\<close>

definition nbsp_digit :: "byte list" where
  "nbsp_digit = [0xC2, 0xA0, 0x31]"

definition nbsp_state :: "byte list \<Rightarrow> LexState \<Rightarrow> bool" where
  "nbsp_state t st \<longleftrightarrow> t = nbsp_digit \<and> ls_it st \<le> 1 \<and> ls_column st \<le> c_max_column"

lemma nbsp_first: "GetUTF8FirstChar nbsp_digit 0 3 = 0xA0" "GetUTF8FirstChar nbsp_digit 1 3 = 0x31"
  by (simp_all add: nbsp_digit_def GetUTF8FirstChar_def ReadNextUTF8Char_def peek_def sprache_char_def
      c_bit_masks_def Let_def)

lemmas char_classes = IsNewline_def IsWhitespace_def IsNumberStartChar_def IsIdentifierStartChar_def
  IsMacroIdentifierStartChar_def cp_def

lemma nbsp_skips:
  assumes "ls_it st = 0"
  shows "\<exists>m loc. lex_step nbsp_digit st = Inr ((add_error m loc st) \<lparr> ls_it := 1 \<rparr>)"
proof -
  have len: "length nbsp_digit = 3" by (simp add: nbsp_digit_def)
  have "fixed_lexem_search 3 nbsp_digit = None"
    by code_simp
  then have "fixed_lexem nbsp_digit c st = Inr ((add_error (str ''Lexical error: unrecognized character: '' @ to_string (unat c))
      (SrcLoc_make 0 (ls_line st) (ls_column st)) st) \<lparr> ls_it := 1 \<rparr>)" for c
    using assms len by (simp add: fixed_lexem_def g_max_fixed_lexem_size_def Let_def del: str_Cons)
  moreover have "lex_step nbsp_digit st = fixed_lexem nbsp_digit 0xA0 st"
    using assms len nbsp_first by (simp add: lex_step_def char_classes Let_def)
  ultimately show ?thesis by (intro exI) (simp only:)
qed

lemma nbsp_stays:
  assumes "ls_it st = 1" and "ls_column st \<le> c_max_column"
  shows "\<exists>lexem. lex_step nbsp_digit st = Inr (st \<lparr> result_lexems := result_lexems st @ [lexem] \<rparr>)"
proof -
  have len: "length nbsp_digit = 3" by (simp add: nbsp_digit_def)
  have same: "st \<lparr> ls_it := Suc 0 \<rparr> = st"
    using assms(1) by (cases st) simp
  have peek1: "peek nbsp_digit 1 = 0xA0" by (simp add: nbsp_digit_def peek_def)
  have "digits_loop 10 nbsp_digit 1 = 1"
    using peek1 by (subst digits_loop.simps) (simp add: TryParseDigit_def in_range_def ch_def)
  then have "ParseNumber nbsp_digit 1 loc errs =
      (Lexem_default \<lparr> lexem_type := IntegerNumber, lexem_text := [] \<rparr>, 1, errs)" for loc errs
    using peek1 by (simp add: ParseNumber_parts number_prefix_def fraction_end_def exponent_end_def ch_def Let_def)
  then have "\<exists>lexem. literal nbsp_digit ParseNumber st = push_lexem nbsp_digit lexem 1 st"
    using assms(1) nbsp_first len by (intro exI) (simp add: literal_def Let_def char_classes same)
  moreover have "\<exists>lexem'. push_lexem nbsp_digit lexem 1 st = Inr (st \<lparr> result_lexems := result_lexems st @ [lexem'] \<rparr>)" for lexem
    using assms by (intro exI) (simp add: push_lexem_def Let_def AdvanceIteratorAndCountCodePoints_def
        count_code_points.simps CHECK_RETURN_COLUMN_LIMIT_def not_less)
  moreover have "lex_step nbsp_digit st = literal nbsp_digit ParseNumber st"
    using assms len nbsp_first by (simp add: lex_step_def char_classes Let_def)
  ultimately show ?thesis by metis
qed

lemma nbsp_round:
  assumes "nbsp_state t st"
  shows "\<exists>st'. lex_step t st = Inr st' \<and> nbsp_state t st'"
proof -
  from assms have t: "t = nbsp_digit" and col: "ls_column st \<le> c_max_column" and "ls_it st = 0 \<or> ls_it st = 1"
    by (auto simp: nbsp_state_def)
  then show ?thesis
    using nbsp_skips [of st] nbsp_stays [of st] by (auto simp: nbsp_state_def add_error_def)
qed

interpretation nbsp: lexer_invariant nbsp_state "\<lambda>_. False"
  by unfold_locales (use nbsp_round in \<open>fastforce simp: nbsp_state_def nbsp_digit_def\<close>)+

text \<open>
  C17. The lexer never returns on a no-break space followed by a digit, a well-formed text of three
  bytes: behind the unrecognised character it stops inside its encoding, where the byte
  0xA0 and the digit decode to the digit again, and the number it starts there has no characters.
\<close>

theorem LexicalAnalysis_nbsp_diverges: "LexicalAnalysis nbsp_digit = None"
proof (cases "LexicalAnalysis nbsp_digit")
  case (Some r)
  have "nbsp_state nbsp_digit (lex_start nbsp_digit)"
    by (simp add: nbsp_state_def lex_start_def nbsp_digit_def)
  then show ?thesis
    using nbsp.result_of_loop Some by (auto simp: LexicalAnalysis_def)
qed simp

text \<open>
  C40. Fixed lexems are cut by maximal munch: the search finds the longest prefix of its text that is
  in the table of its length, together with its type, and fails only if no prefix is in the tables.
\<close>

theorem fixed_lexem_search_longest:
  assumes "length w = s"
  shows "(case fixed_lexem_search s w of
     Some (u, ty) \<Rightarrow> (\<exists>k. 1 \<le> k \<and> k \<le> s \<and> u = take k w \<and> map_of (g_fixed_lexems k) u = Some ty \<and>
       (\<forall>j. k < j \<and> j \<le> s \<longrightarrow> map_of (g_fixed_lexems j) (take j w) = None))
   | None \<Rightarrow> (\<forall>j. 1 \<le> j \<and> j \<le> s \<longrightarrow> map_of (g_fixed_lexems j) (take j w) = None))"
  using fixed_lexem_search_Some [OF _ assms] fixed_lexem_search_None [OF _ assms]
  by (auto split: option.splits)

theorem fixed_lexem_search_longest_witness:
  "fixed_lexem_search 3 (str ''<<a'') = Some (str ''<<'', DoubleLess)
   \<and> map_of (g_fixed_lexems 3) (str ''<<a'') = None"
proof -
  have found: "fixed_lexem_search 3 (str ''<<a'') = Some (str ''<<'', DoubleLess)" by code_simp
  have "\<exists>k. 1 \<le> k \<and> k \<le> 3 \<and> str ''<<'' = take k (str ''<<a'') \<and>
      (\<forall>j. k < j \<and> j \<le> 3 \<longrightarrow> map_of (g_fixed_lexems j) (take j (str ''<<a'')) = None)"
    using fixed_lexem_search_longest [of "str ''<<a''" 3] found by auto
  then obtain k where "1 \<le> k" "k \<le> 3" "length (str ''<<'') = length (take k (str ''<<a''))"
    "\<forall>j. k < j \<and> j \<le> 3 \<longrightarrow> map_of (g_fixed_lexems j) (take j (str ''<<a'')) = None" by metis
  then have "map_of (g_fixed_lexems 3) (take 3 (str ''<<a'')) = None" by auto
  with found show ?thesis by simp
qed

section \<open>Examples\<close>

lemma LexicalAnalysis_returns: "plain_digits t \<Longrightarrow> length t < 2 ^ 31 \<Longrightarrow> LexicalAnalysis t \<noteq> None"
  using lexer.loop_total [OF lex_start_inv] by (auto simp: LexicalAnalysis_def)

definition a_plus_b :: LexicalAnalysisResult where
  "a_plus_b = \<lparr> result_lexems =
     [\<lparr> lexem_text = str ''a'', lexem_src_loc = SrcLoc_make 0 1 0, lexem_type = Identifier \<rparr>,
      \<lparr> lexem_text = str ''+'', lexem_src_loc = SrcLoc_make 0 1 2, lexem_type = Plus \<rparr>,
      \<lparr> lexem_text = str ''EOF'', lexem_src_loc = SrcLoc_make 0 1 3, lexem_type = EndOfFile \<rparr>],
     result_errors = [] \<rparr>"

lemma LexicalAnalysis_a_plus: "LexicalAnalysis (str ''a +'') = Some a_plus_b"
  by code_simp

end
