(* ===== verification/Text_Positions.thy ===== *)
theory Text_Positions
  imports Lexem_Laws
begin

text \<open>
  The text utilities of \<^verbatim>\<open>lexical_analyzer.cpp\<close> and \<^verbatim>\<open>lex_utils.cpp\<close> that the language server and the build
  tools use: checking an identifier, the index from lines to positions and the search in it, the
  bounds of the identifier at a position, parsing one string literal, finding the lexem at a
  line and column; and the report of lexical errors (\<^verbatim>\<open>lex_synt_error.cpp\<close>).
\<close>

section \<open>Identifiers\<close>

function skip_whitespaces :: "byte list \<Rightarrow> nat \<Rightarrow> nat" where
  "skip_whitespaces t it =
    (if it < length t then
       (if \<not> IsWhitespace (GetUTF8FirstChar t it (length t)) then it
        else skip_whitespaces t (snd (ReadNextUTF8Char t it (length t))))
     else it)"
  by pat_completeness auto
termination
  by (relation "measure (\<lambda>(t, it). length t - it)")
     (use ReadNextUTF8Char_progress in \<open>auto simp: diff_less_mono2\<close>)

declare skip_whitespaces.simps [simp del]

definition IsValidIdentifier :: "byte list \<Rightarrow> bool" where
  "IsValidIdentifier text' =
    (let it = skip_whitespaces text' 0 in
     if it = length text' then False
     else if \<not> IsIdentifierStartChar (GetUTF8FirstChar text' it (length text')) then False
     else let it = snd (ParseIdentifier text' it); it = skip_whitespaces text' it in it = length text')"

section \<open>Lines\<close>

type_synonym TextLinearPosition = u32
type_synonym LineToLinearPositionIndex = "TextLinearPosition list"

text \<open>The position behind a line ending whose first character \<open>c\<close> has been read.\<close>

definition after_newline :: "byte list \<Rightarrow> sprache_char \<Rightarrow> nat \<Rightarrow> nat" where
  "after_newline t c it =
    (if it < length t then
       (let (next_c, it_copy) = ReadNextUTF8Char t it (length t) in
        if IsNewlineSequence c next_c then it_copy else it)
     else it)"

lemma after_newline_bound: "it \<le> after_newline t c it" "it \<le> length t \<Longrightarrow> after_newline t c it \<le> length t"
  by (auto simp: after_newline_def less_imp_le dest: ReadNextUTF8Char_progressD split: prod.splits)

lemma after_newline_progress:
  "(c, n) = ReadNextUTF8Char t it (length t) \<Longrightarrow> it < length t \<Longrightarrow> it < after_newline t c n"
  using ReadNextUTF8Char_progressD(1) [of t it "length t" c n] after_newline_bound(1) [of n t c] by simp

function line_index_loop :: "byte list \<Rightarrow> nat \<Rightarrow> LineToLinearPositionIndex \<Rightarrow> LineToLinearPositionIndex" where
  "line_index_loop t it out_index =
    (if it < length t then
       (let (c, it) = ReadNextUTF8Char t it (length t) in
        if IsNewline c then
          (let it = after_newline t c it in line_index_loop t it (out_index @ [word_of_nat it]))
        else line_index_loop t it out_index)
     else out_index)"
  by pat_completeness auto
termination
  by (relation "measure (\<lambda>(t, it, out_index). length t - it)")
     (auto intro: ReadNextUTF8Char_decreases diff_less_mono2 after_newline_progress)

declare line_index_loop.simps [simp del]

definition BuildLineToLinearPositionIndex :: "byte list \<Rightarrow> LineToLinearPositionIndex" where
  "BuildLineToLinearPositionIndex text' = line_index_loop text' 0 [0, 0]"

text \<open>\<^verbatim>\<open>std::upper_bound\<close>: the place of the first element greater than the value.\<close>

definition upper_bound :: "'a::linorder list \<Rightarrow> 'a \<Rightarrow> nat" where
  "upper_bound xs v = length (takeWhile (\<lambda>x. x \<le> v) xs)"

definition LinearPositionToLine :: "LineToLinearPositionIndex \<Rightarrow> TextLinearPosition \<Rightarrow> u32" where
  "LinearPositionToLine index position =
    (let it = upper_bound index position in if it = 0 then 1 else word_of_nat (it - 1))"

section \<open>The identifier at a position\<close>

function code_point_start_loop :: "byte list \<Rightarrow> nat \<Rightarrow> nat option" where
  "code_point_start_loop t p =
    (if t ! p AND 0xC0 = 0x80 then (if p = 0 then None else code_point_start_loop t (p - 1)) else Some p)"
  by pat_completeness auto
termination
  by (relation "measure snd") auto

declare code_point_start_loop.simps [simp del]

lemma code_point_start_loop_le: "code_point_start_loop t p = Some q \<Longrightarrow> q \<le> p"
proof (induction t p rule: code_point_start_loop.induct)
  case (1 t p)
  then show ?case by (subst (asm) (2) code_point_start_loop.simps) (fastforce split: if_splits)
qed

function identifier_start_loop :: "byte list \<Rightarrow> nat \<Rightarrow> nat option" where
  "identifier_start_loop t current_position =
    (if current_position > 0 then
       (let c = t ! (current_position - 1) in
        if c AND 0x80 = 0 then
          (if \<not> IsIdentifierChar (sprache_char c) then Some current_position
           else identifier_start_loop t (current_position - 1))
        else
          (case code_point_start_loop t (current_position - 1) of
             None \<Rightarrow> None
           | Some code_point_start_position \<Rightarrow>
               if \<not> IsIdentifierChar (GetUTF8FirstChar t code_point_start_position (length t))
               then Some current_position
               else identifier_start_loop t code_point_start_position))
     else Some current_position)"
  by pat_completeness auto
termination
  by (relation "measure snd") (auto dest: code_point_start_loop_le)

declare identifier_start_loop.simps [simp del]

definition GetIdentifierStartForPosition :: "byte list \<Rightarrow> TextLinearPosition \<Rightarrow> TextLinearPosition option" where
  "GetIdentifierStartForPosition text' position =
    (if unat position \<ge> length text' then None
     else if \<not> IsIdentifierChar (GetUTF8FirstChar text' (unat position) (length text')) then None
     else map_option word_of_nat (identifier_start_loop text' (unat position)))"

function identifier_end_loop :: "byte list \<Rightarrow> nat \<Rightarrow> nat" where
  "identifier_end_loop t s =
    (if s < length t then
       (let (c, s_copy) = ReadNextUTF8Char t s (length t) in
        if \<not> IsIdentifierChar c then s else identifier_end_loop t s_copy)
     else s)"
  by pat_completeness auto
termination
  by (relation "measure (\<lambda>(t, s). length t - s)") (auto intro: ReadNextUTF8Char_decreases)

declare identifier_end_loop.simps [simp del]

definition GetIdentifierEndForPosition :: "byte list \<Rightarrow> TextLinearPosition \<Rightarrow> TextLinearPosition option" where
  "GetIdentifierEndForPosition text' position =
    (if unat position \<ge> length text' then None
     else
       let end_position = word_of_nat (identifier_end_loop text' (unat position)) in
       if end_position = position then None else Some end_position)"

section \<open>String literals and lexems\<close>

definition ParseStringLiteral :: "byte list \<Rightarrow> byte list option" where
  "ParseStringLiteral text' =
    (if text' = [] \<or> hd text' \<noteq> ch CHR 0x22 then None
     else let (string_lexem, it, errors) = ParseStringImpl text' 0 SrcLoc_default []
          in if errors \<noteq> [] then None else Some (lexem_text string_lexem))"

text \<open>The loop of \<open>GetLexemForPosition\<close>; \<open>prev\<close> is \<open>None\<close> exactly at the first lexem.\<close>

fun lexem_loop :: "SrcLoc \<Rightarrow> Lexem option \<Rightarrow> Lexem list \<Rightarrow> Lexem option" where
  "lexem_loop pos_loc prev [] = None" |
  "lexem_loop pos_loc prev (l # ls) =
    (let lexem_loc = SrcLoc_make 0 (GetLine (lexem_src_loc l)) (GetColumn (lexem_src_loc l)) in
     if SrcLoc_eq pos_loc lexem_loc then Some l
     else if SrcLoc_less pos_loc lexem_loc \<and> prev \<noteq> None then prev
     else lexem_loop pos_loc (Some l) ls)"

definition GetLexemForPosition :: "u32 \<Rightarrow> u32 \<Rightarrow> Lexem list \<Rightarrow> Lexem option" where
  "GetLexemForPosition line column lexems = lexem_loop (SrcLoc_make 0 line column) None lexems"

section \<open>Reports of lexical errors\<close>

datatype ErrorsFormat = GCC | MSVC

definition print_lex_synt_error :: "byte list list \<Rightarrow> ErrorsFormat \<Rightarrow> LexSyntError \<Rightarrow> byte list" where
  "print_lex_synt_error source_files format error =
    (let loc = error_src_loc error;
         file_path = (if unat (GetFileIndex loc) < length source_files
                      then source_files ! unat (GetFileIndex loc) else [])
     in case format of
          GCC \<Rightarrow> file_path @ str '':'' @ to_string (unat (GetLine loc)) @ str '':'' @
            to_string (unat (GetColumn loc)) @ str '': error: '' @ error_text error @ [0x0A]
        | MSVC \<Rightarrow> file_path @ str ''('' @ to_string (unat (GetLine loc)) @ str ''): error: '' @
            error_text error @ [0x0A])"

definition PrintLexSyntErrors :: "byte list list \<Rightarrow> LexSyntError list \<Rightarrow> ErrorsFormat \<Rightarrow> byte list" where
  "PrintLexSyntErrors source_files errors format =
    concat (map (print_lex_synt_error source_files format) errors)"

section \<open>The line index\<close>

definition line_index_ok :: "nat \<Rightarrow> LineToLinearPositionIndex \<Rightarrow> bool" where
  "line_index_ok it index \<longleftrightarrow> length index \<ge> 2 \<and> length index \<le> it + 2 \<and> sorted_wrt (<) (tl index) \<and>
     hd index = 0 \<and> index ! 1 = 0 \<and> (\<forall>x \<in> set index. unat x \<le> it)"

lemma line_index_ok_push:
  assumes "line_index_ok it index" and "it < it'" and "it' < 2 ^ 32"
  shows "line_index_ok it' (index @ [word_of_nat it'])"
proof -
  have u: "unat (word_of_nat it' :: u32) = it'" using assms(3) by (simp add: unat_of_nat)
  have "x < word_of_nat it'" if "x \<in> set (tl index)" for x :: u32
  proof -
    have "x \<in> set index" using that by (metis list.set_sel(2) tl_Nil)
    then show ?thesis using assms(1,2) u by (auto simp: line_index_ok_def word_less_nat_alt)
  qed
  moreover have "index \<noteq> []" using assms(1) by (auto simp: line_index_ok_def)
  ultimately show ?thesis
    using assms(1,2) u by (auto simp: line_index_ok_def sorted_wrt_append nth_append less_imp_le dest: less_le_trans)
qed

lemma line_index_ok_mono: "line_index_ok it index \<Longrightarrow> it \<le> it' \<Longrightarrow> line_index_ok it' index"
  by (fastforce simp: line_index_ok_def)

lemma line_index_loop_ok:
  assumes "line_index_ok it index" and "it \<le> length t" and "length t < 2 ^ 32"
  shows "line_index_ok (length t) (line_index_loop t it index)"
  using assms
proof (induction "length t - it" arbitrary: it index rule: less_induct)
  case less
  show ?case
  proof (cases "it < length t")
    case True
    obtain c n where read: "ReadNextUTF8Char t it (length t) = (c, n)" by fastforce
    then have n: "it < n" "n \<le> length t" using ReadNextUTF8Char_progressD [OF read True] by auto
    define m where "m = after_newline t c n"
    have m: "it < m" "m \<le> length t"
      using after_newline_progress [OF read [symmetric] True] after_newline_bound(2) [OF n(2), of c]
      by (auto simp: m_def)
    have "line_index_loop t it index =
        (if IsNewline c then line_index_loop t m (index @ [word_of_nat m]) else line_index_loop t n index)"
      using True read by (subst line_index_loop.simps) (simp add: m_def Let_def)
    then show ?thesis
      using less.hyps [OF diff_less_mono2 [OF m(1) True] line_index_ok_push [OF less.prems(1) m(1)]]
        less.hyps [OF diff_less_mono2 [OF n(1) True] line_index_ok_mono [OF less.prems(1)]]
        m n less.prems(3) by simp
  next
    case False
    with less.prems show ?thesis by (subst line_index_loop.simps) (simp add: line_index_ok_mono)
  qed
qed

lemma upper_bound_sorted:
  assumes "sorted xs"
  shows "upper_bound xs v \<le> length xs"
    and "i < upper_bound xs v \<Longrightarrow> xs ! i \<le> v"
    and "upper_bound xs v \<le> i \<Longrightarrow> i < length xs \<Longrightarrow> v < xs ! i"
proof -
  show "upper_bound xs v \<le> length xs" by (simp add: upper_bound_def length_takeWhile_le)
  show "xs ! i \<le> v" if "i < upper_bound xs v"
    using that by (metis upper_bound_def nth_mem set_takeWhileD takeWhile_nth)
  show "v < xs ! i" if "upper_bound xs v \<le> i" "i < length xs"
  proof -
    have k: "upper_bound xs v < length xs" using that by simp
    then have "\<not> xs ! upper_bound xs v \<le> v"
      unfolding upper_bound_def by (rule nth_length_takeWhile)
    moreover have "xs ! upper_bound xs v \<le> xs ! i" using assms that by (simp add: sorted_nth_mono)
    ultimately show ?thesis by simp
  qed
qed

text \<open>
  For a text of less than \<open>2^31\<close> bytes, looking up a position in the line index gives the line the
  position is on: a line number from 1 on, whose start is not behind the position while the
  start of the next line, if there is one, is.
\<close>

theorem LinearPositionToLine_correct:
  assumes "length t < 2 ^ 31" and "index = BuildLineToLinearPositionIndex t"
    and "line = unat (LinearPositionToLine index p)"
  shows "1 \<le> line \<and> line < length index \<and> index ! line \<le> p \<and>
    (line + 1 < length index \<longrightarrow> p < index ! (line + 1))"
proof -
  have ok: "line_index_ok (length t) index"
    unfolding assms(2) BuildLineToLinearPositionIndex_def
    by (rule line_index_loop_ok) (use assms(1) in \<open>auto simp: line_index_ok_def\<close>)
  then obtain a b rest where idx: "index = a # b # rest" and "a = 0" "b = 0"
    by (cases index; cases "tl index") (auto simp: line_index_ok_def)
  then have sorted: "sorted index"
    using ok by (auto simp: line_index_ok_def strict_sorted_imp_sorted)
  define u where "u = upper_bound index p"
  have "2 \<le> u" using idx \<open>a = 0\<close> \<open>b = 0\<close> by (simp add: u_def upper_bound_def)
  moreover have "u \<le> length index" using upper_bound_sorted(1) [OF sorted] by (simp add: u_def)
  moreover have "length index < 2 ^ 32" using ok assms(1) by (simp add: line_index_ok_def)
  ultimately have "unat (word_of_nat (u - 1) :: u32) = u - 1" and "u \<noteq> 0"
    by (simp_all only: unat_of_nat) simp_all
  then have "line = u - 1"
    unfolding assms(3) LinearPositionToLine_def Let_def u_def [symmetric] by simp
  with \<open>2 \<le> u\<close> \<open>u \<le> length index\<close> upper_bound_sorted(2) [OF sorted, of "u - 1" p]
    upper_bound_sorted(3) [OF sorted, of p u] show ?thesis
    by (cases u) (auto simp: u_def [symmetric])
qed

theorem LinearPositionToLine_correct_witness:
  "(let index = BuildLineToLinearPositionIndex [0x61, 0x0D, 0x0A, 0x62]; line = unat (LinearPositionToLine index 3)
    in 1 \<le> line \<and> line < length index \<and> index ! line \<le> 3)
   \<and> BuildLineToLinearPositionIndex [0x61, 0x0D, 0x0A, 0x62] = [0, 0, 3]"
proof -
  have "BuildLineToLinearPositionIndex [0x61, 0x0D, 0x0A, 0x62] = [0, 0, 3]" by code_simp
  moreover have "length [0x61, 0x0D, 0x0A, 0x62 :: byte] < 2 ^ 31" by simp
  ultimately show ?thesis
    using LinearPositionToLine_correct [OF _ refl refl, of "[0x61, 0x0D, 0x0A, 0x62]" 3]
    unfolding Let_def by blast
qed

section \<open>The end of an identifier\<close>

text \<open>A run of identifier characters, one after another.\<close>

inductive identifier_run :: "byte list \<Rightarrow> nat \<Rightarrow> nat \<Rightarrow> bool" for t where
  run_nil: "identifier_run t s s" |
  run_char: "s < length t \<Longrightarrow> ReadNextUTF8Char t s (length t) = (c, s') \<Longrightarrow> IsIdentifierChar c \<Longrightarrow>
    identifier_run t s' e \<Longrightarrow> identifier_run t s e"

definition identifier_stops :: "byte list \<Rightarrow> nat \<Rightarrow> bool" where
  "identifier_stops t e \<longleftrightarrow> e \<ge> length t \<or> \<not> IsIdentifierChar (GetUTF8FirstChar t e (length t))"

lemma identifier_end_loop_run:
  "identifier_run t s (identifier_end_loop t s) \<and> identifier_stops t (identifier_end_loop t s)"
proof (induction t s rule: identifier_end_loop.induct)
  case (1 t s)
  show ?case
  proof (cases "s < length t")
    case True
    obtain c n where read: "ReadNextUTF8Char t s (length t) = (c, n)" by fastforce
    show ?thesis
    proof (cases "IsIdentifierChar c")
      case id: True
      then have "identifier_end_loop t s = identifier_end_loop t n"
        using True read by (subst identifier_end_loop.simps) simp
      with 1 [OF True read [symmetric]] id run_char [OF True read id] show ?thesis by simp
    next
      case False
      then have "identifier_end_loop t s = s" using True read by (subst identifier_end_loop.simps) simp
      with False read show ?thesis by (simp add: run_nil identifier_stops_def GetUTF8FirstChar_def)
    qed
  next
    case False
    then have "identifier_end_loop t s = s" by (subst identifier_end_loop.simps) simp
    with False show ?thesis by (simp add: run_nil identifier_stops_def)
  qed
qed

lemma identifier_run_unique:
  "identifier_run t s e \<Longrightarrow> identifier_stops t e \<Longrightarrow> identifier_end_loop t s = e"
proof (induction rule: identifier_run.induct)
  case (run_nil s)
  then show ?case
    by (subst identifier_end_loop.simps) (auto simp: identifier_stops_def GetUTF8FirstChar_def split: prod.splits)
next
  case (run_char s c s' e)
  then show ?case by (subst identifier_end_loop.simps) simp
qed

lemma identifier_run_bound: "identifier_run t s e \<Longrightarrow> s \<le> e \<and> (s \<le> length t \<longrightarrow> e \<le> length t)"
  by (induction rule: identifier_run.induct) (use ReadNextUTF8Char_progressD in \<open>fastforce+\<close>)

text \<open>
  \<open>GetIdentifierEndForPosition\<close> gives the end of the longest run of identifier characters
  that starts at the position, and nothing when there is no such character there.
\<close>

theorem GetIdentifierEndForPosition_correct:
  assumes "length t < 2 ^ 32"
  shows "GetIdentifierEndForPosition t p = Some e \<longleftrightarrow>
    unat p < length t \<and> p < e \<and> identifier_run t (unat p) (unat e) \<and> identifier_stops t (unat e)"
proof (cases "unat p < length t")
  case True
  define n where "n = identifier_end_loop t (unat p)"
  have run: "identifier_run t (unat p) n" "identifier_stops t n"
    using identifier_end_loop_run [of t "unat p"] by (auto simp: n_def)
  have bound: "unat p \<le> n" "n < 2 ^ 32" using identifier_run_bound [OF run(1)] True assms by auto
  then have n: "unat (word_of_nat n :: u32) = n" by (simp add: unat_of_nat)
  have "identifier_run t (unat p) (unat e) \<and> identifier_stops t (unat e) \<longleftrightarrow> unat e = n"
    using run identifier_run_unique [of t "unat p" "unat e"] unfolding n_def by metis
  moreover have "unat e = n \<longleftrightarrow> e = word_of_nat n" using n by (metis word_unat_eq_iff)
  moreover have "word_of_nat n \<noteq> p \<longleftrightarrow> p < word_of_nat n"
    using bound n by (auto simp: word_less_nat_alt word_unat_eq_iff)
  moreover have "GetIdentifierEndForPosition t p = Some e \<longleftrightarrow> word_of_nat n \<noteq> p \<and> e = word_of_nat n"
    using True by (auto simp: GetIdentifierEndForPosition_def Let_def n_def [symmetric])
  ultimately show ?thesis using True by metis
next
  case False
  then show ?thesis by (simp add: GetIdentifierEndForPosition_def)
qed

theorem GetIdentifierEndForPosition_correct_witness:
  "identifier_run (str ''ab + c'') 0 2 \<and> identifier_stops (str ''ab + c'') 2"
proof -
  have "GetIdentifierEndForPosition (str ''ab + c'') 0 = Some 2" by code_simp
  with GetIdentifierEndForPosition_correct [of "str ''ab + c''" 0 2] show ?thesis by simp
qed

text \<open>
  \<open>ParseStringLiteral\<close> gives back the bytes that a string literal following the grammar denotes,
  also when more text follows the literal.
\<close>

theorem ParseStringLiteral_grammar:
  assumes "string_body s d"
  shows "ParseStringLiteral ([0x22] @ s @ [0x22] @ rest) = Some d"
  using string_loop_body [OF assms, of "[0x22]" rest SrcLoc_default "[]" "[]"]
  by (simp add: ParseStringLiteral_def ParseStringImpl_def ch_def)

theorem ParseStringLiteral_grammar_witness:
  "ParseStringLiteral ([0x22] @ [0x61, 0x5C, 0x22] @ [0x22] @ str '' + 1'') = Some [0x61, 0x22]"
proof -
  have "string_body [0x5C, 0x22] [0x22]"
    using body_escape [of "0x22" "0x22", OF _ body_end] by (simp add: simple_escape_def ch_def)
  then have "string_body [0x61, 0x5C, 0x22] [0x61, 0x22]"
    by (rule body_plain [rotated]) (simp add: plain_string_byte_def)
  from ParseStringLiteral_grammar [OF this] show ?thesis .
qed

end
