(* ===== verification/Operators.thy ===== *)
theory Operators
  imports U_Prelude
begin

text \<open>
  \<^verbatim>\<open>source/compiler0/lex_synt_lib/operators.hpp\<close> and \<^verbatim>\<open>operators.cpp\<close>: the operators of the language, their
  spelling, and which overloadable operator implements a binary operator or a compound assignment.
  The branches that the source guards with an assertion return \<open>OverloadedOperator::None\<close>,
  here \<open>NoneOperator\<close>.
\<close>

datatype BinaryOperatorType =
    Add | Sub | Mul | Div | Rem | Equal | NotEqual | Less | LessEqual | Greater |
  GreaterEqual | CompareOrder | And | Or | Xor | ShiftLeft | ShiftRight | LazyLogicalAnd |
  LazyLogicalOr

datatype OverloadedOperator =
    NoneOperator | Add | Sub | Mul | Div | Rem | CompareEqual | CompareOrder | And | Or | Xor |
  ShiftLeft | ShiftRight | AssignAdd | AssignSub | AssignMul | AssignDiv | AssignRem |
  AssignAnd | AssignOr | AssignXor | AssignShiftLeft | AssignShiftRight | LogicalNot |
  BitwiseNot | Assign | Increment | Decrement | Indexing | Call

fun BinaryOperatorToString :: "BinaryOperatorType \<Rightarrow> string" where
  "BinaryOperatorToString BinaryOperatorType.Add = ''+''" |
  "BinaryOperatorToString BinaryOperatorType.Sub = ''-''" |
  "BinaryOperatorToString BinaryOperatorType.Mul = ''*''" |
  "BinaryOperatorToString BinaryOperatorType.Div = ''/''" |
  "BinaryOperatorToString BinaryOperatorType.Rem = ''%''" |
  "BinaryOperatorToString BinaryOperatorType.Equal = ''==''" |
  "BinaryOperatorToString BinaryOperatorType.NotEqual = ''!=''" |
  "BinaryOperatorToString BinaryOperatorType.Less = ''<''" |
  "BinaryOperatorToString BinaryOperatorType.LessEqual = ''<=''" |
  "BinaryOperatorToString BinaryOperatorType.Greater = ''>''" |
  "BinaryOperatorToString BinaryOperatorType.GreaterEqual = ''>=''" |
  "BinaryOperatorToString BinaryOperatorType.CompareOrder = ''<=>''" |
  "BinaryOperatorToString BinaryOperatorType.And = ''&''" |
  "BinaryOperatorToString BinaryOperatorType.Or = ''|''" |
  "BinaryOperatorToString BinaryOperatorType.Xor = ''^''" |
  "BinaryOperatorToString BinaryOperatorType.ShiftLeft = ''<<''" |
  "BinaryOperatorToString BinaryOperatorType.ShiftRight = ''>>''" |
  "BinaryOperatorToString BinaryOperatorType.LazyLogicalAnd = ''&&''" |
  "BinaryOperatorToString BinaryOperatorType.LazyLogicalOr = ''||''"

definition StringToBinaryOperator :: "string \<Rightarrow> BinaryOperatorType option" where
  "StringToBinaryOperator s =
    (if s = ''+'' then Some BinaryOperatorType.Add
     else if s = ''-'' then Some BinaryOperatorType.Sub
     else if s = ''*'' then Some BinaryOperatorType.Mul
     else if s = ''/'' then Some BinaryOperatorType.Div
     else if s = ''%'' then Some BinaryOperatorType.Rem
     else if s = ''=='' then Some BinaryOperatorType.Equal
     else if s = ''!='' then Some BinaryOperatorType.NotEqual
     else if s = ''<'' then Some BinaryOperatorType.Less
     else if s = ''<='' then Some BinaryOperatorType.LessEqual
     else if s = ''>'' then Some BinaryOperatorType.Greater
     else if s = ''>='' then Some BinaryOperatorType.GreaterEqual
     else if s = ''<=>'' then Some BinaryOperatorType.CompareOrder
     else if s = ''&'' then Some BinaryOperatorType.And
     else if s = ''|'' then Some BinaryOperatorType.Or
     else if s = ''^'' then Some BinaryOperatorType.Xor
     else if s = ''<<'' then Some BinaryOperatorType.ShiftLeft
     else if s = ''>>'' then Some BinaryOperatorType.ShiftRight
     else if s = ''&&'' then Some BinaryOperatorType.LazyLogicalAnd
     else if s = ''||'' then Some BinaryOperatorType.LazyLogicalOr
     else None)"

fun OverloadedOperatorToString :: "OverloadedOperator \<Rightarrow> string" where
  "OverloadedOperatorToString OverloadedOperator.NoneOperator = ''''" |
  "OverloadedOperatorToString OverloadedOperator.Add = ''+''" |
  "OverloadedOperatorToString OverloadedOperator.Sub = ''-''" |
  "OverloadedOperatorToString OverloadedOperator.Mul = ''*''" |
  "OverloadedOperatorToString OverloadedOperator.Div = ''/''" |
  "OverloadedOperatorToString OverloadedOperator.Rem = ''%''" |
  "OverloadedOperatorToString OverloadedOperator.CompareEqual = ''==''" |
  "OverloadedOperatorToString OverloadedOperator.CompareOrder = ''<=>''" |
  "OverloadedOperatorToString OverloadedOperator.And = ''&''" |
  "OverloadedOperatorToString OverloadedOperator.Or = ''|''" |
  "OverloadedOperatorToString OverloadedOperator.Xor = ''^''" |
  "OverloadedOperatorToString OverloadedOperator.ShiftLeft = ''<<''" |
  "OverloadedOperatorToString OverloadedOperator.ShiftRight = ''>>''" |
  "OverloadedOperatorToString OverloadedOperator.AssignAdd = ''+=''" |
  "OverloadedOperatorToString OverloadedOperator.AssignSub = ''-=''" |
  "OverloadedOperatorToString OverloadedOperator.AssignMul = ''*=''" |
  "OverloadedOperatorToString OverloadedOperator.AssignDiv = ''/=''" |
  "OverloadedOperatorToString OverloadedOperator.AssignRem = ''%=''" |
  "OverloadedOperatorToString OverloadedOperator.AssignAnd = ''&=''" |
  "OverloadedOperatorToString OverloadedOperator.AssignOr = ''|=''" |
  "OverloadedOperatorToString OverloadedOperator.AssignXor = ''^=''" |
  "OverloadedOperatorToString OverloadedOperator.AssignShiftLeft = ''<<=''" |
  "OverloadedOperatorToString OverloadedOperator.AssignShiftRight = ''>>=''" |
  "OverloadedOperatorToString OverloadedOperator.LogicalNot = ''!''" |
  "OverloadedOperatorToString OverloadedOperator.BitwiseNot = ''~''" |
  "OverloadedOperatorToString OverloadedOperator.Assign = ''=''" |
  "OverloadedOperatorToString OverloadedOperator.Increment = ''++''" |
  "OverloadedOperatorToString OverloadedOperator.Decrement = ''--''" |
  "OverloadedOperatorToString OverloadedOperator.Indexing = ''[]''" |
  "OverloadedOperatorToString OverloadedOperator.Call = ''()''"

definition StringToOverloadedOperator :: "string \<Rightarrow> OverloadedOperator option" where
  "StringToOverloadedOperator s =
    (if s = ''+'' then Some OverloadedOperator.Add
     else if s = ''-'' then Some OverloadedOperator.Sub
     else if s = ''*'' then Some OverloadedOperator.Mul
     else if s = ''/'' then Some OverloadedOperator.Div
     else if s = ''%'' then Some OverloadedOperator.Rem
     else if s = ''=='' then Some OverloadedOperator.CompareEqual
     else if s = ''<=>'' then Some OverloadedOperator.CompareOrder
     else if s = ''&'' then Some OverloadedOperator.And
     else if s = ''|'' then Some OverloadedOperator.Or
     else if s = ''^'' then Some OverloadedOperator.Xor
     else if s = ''<<'' then Some OverloadedOperator.ShiftLeft
     else if s = ''>>'' then Some OverloadedOperator.ShiftRight
     else if s = ''+='' then Some OverloadedOperator.AssignAdd
     else if s = ''-='' then Some OverloadedOperator.AssignSub
     else if s = ''*='' then Some OverloadedOperator.AssignMul
     else if s = ''/='' then Some OverloadedOperator.AssignDiv
     else if s = ''%='' then Some OverloadedOperator.AssignRem
     else if s = ''&='' then Some OverloadedOperator.AssignAnd
     else if s = ''|='' then Some OverloadedOperator.AssignOr
     else if s = ''^='' then Some OverloadedOperator.AssignXor
     else if s = ''<<='' then Some OverloadedOperator.AssignShiftLeft
     else if s = ''>>='' then Some OverloadedOperator.AssignShiftRight
     else if s = ''!'' then Some OverloadedOperator.LogicalNot
     else if s = ''~'' then Some OverloadedOperator.BitwiseNot
     else if s = ''='' then Some OverloadedOperator.Assign
     else if s = ''++'' then Some OverloadedOperator.Increment
     else if s = ''--'' then Some OverloadedOperator.Decrement
     else if s = ''[]'' then Some OverloadedOperator.Indexing
     else if s = ''()'' then Some OverloadedOperator.Call
     else None)"

fun GetOverloadedOperatorForBinaryOperator :: "BinaryOperatorType \<Rightarrow> OverloadedOperator" where
  "GetOverloadedOperatorForBinaryOperator BinaryOperatorType.Add = OverloadedOperator.Add" |
  "GetOverloadedOperatorForBinaryOperator BinaryOperatorType.Sub = OverloadedOperator.Sub" |
  "GetOverloadedOperatorForBinaryOperator BinaryOperatorType.Mul = OverloadedOperator.Mul" |
  "GetOverloadedOperatorForBinaryOperator BinaryOperatorType.Div = OverloadedOperator.Div" |
  "GetOverloadedOperatorForBinaryOperator BinaryOperatorType.Rem = OverloadedOperator.Rem" |
  "GetOverloadedOperatorForBinaryOperator BinaryOperatorType.Equal = OverloadedOperator.CompareEqual" |
  "GetOverloadedOperatorForBinaryOperator BinaryOperatorType.NotEqual = OverloadedOperator.CompareEqual" |
  "GetOverloadedOperatorForBinaryOperator BinaryOperatorType.Less = OverloadedOperator.CompareOrder" |
  "GetOverloadedOperatorForBinaryOperator BinaryOperatorType.LessEqual = OverloadedOperator.CompareOrder" |
  "GetOverloadedOperatorForBinaryOperator BinaryOperatorType.Greater = OverloadedOperator.CompareOrder" |
  "GetOverloadedOperatorForBinaryOperator BinaryOperatorType.GreaterEqual = OverloadedOperator.CompareOrder" |
  "GetOverloadedOperatorForBinaryOperator BinaryOperatorType.CompareOrder = OverloadedOperator.CompareOrder" |
  "GetOverloadedOperatorForBinaryOperator BinaryOperatorType.And = OverloadedOperator.And" |
  "GetOverloadedOperatorForBinaryOperator BinaryOperatorType.Or = OverloadedOperator.Or" |
  "GetOverloadedOperatorForBinaryOperator BinaryOperatorType.Xor = OverloadedOperator.Xor" |
  "GetOverloadedOperatorForBinaryOperator BinaryOperatorType.ShiftLeft = OverloadedOperator.ShiftLeft" |
  "GetOverloadedOperatorForBinaryOperator BinaryOperatorType.ShiftRight = OverloadedOperator.ShiftRight" |
  "GetOverloadedOperatorForBinaryOperator BinaryOperatorType.LazyLogicalAnd = OverloadedOperator.NoneOperator" |
  "GetOverloadedOperatorForBinaryOperator BinaryOperatorType.LazyLogicalOr = OverloadedOperator.NoneOperator"

fun GetOverloadedOperatorForCompoundAssignmentOperator :: "BinaryOperatorType \<Rightarrow> OverloadedOperator" where
  "GetOverloadedOperatorForCompoundAssignmentOperator BinaryOperatorType.Add = OverloadedOperator.AssignAdd" |
  "GetOverloadedOperatorForCompoundAssignmentOperator BinaryOperatorType.Sub = OverloadedOperator.AssignSub" |
  "GetOverloadedOperatorForCompoundAssignmentOperator BinaryOperatorType.Mul = OverloadedOperator.AssignMul" |
  "GetOverloadedOperatorForCompoundAssignmentOperator BinaryOperatorType.Div = OverloadedOperator.AssignDiv" |
  "GetOverloadedOperatorForCompoundAssignmentOperator BinaryOperatorType.Rem = OverloadedOperator.AssignRem" |
  "GetOverloadedOperatorForCompoundAssignmentOperator BinaryOperatorType.Equal = OverloadedOperator.NoneOperator" |
  "GetOverloadedOperatorForCompoundAssignmentOperator BinaryOperatorType.NotEqual = OverloadedOperator.NoneOperator" |
  "GetOverloadedOperatorForCompoundAssignmentOperator BinaryOperatorType.Less = OverloadedOperator.NoneOperator" |
  "GetOverloadedOperatorForCompoundAssignmentOperator BinaryOperatorType.LessEqual = OverloadedOperator.NoneOperator" |
  "GetOverloadedOperatorForCompoundAssignmentOperator BinaryOperatorType.Greater = OverloadedOperator.NoneOperator" |
  "GetOverloadedOperatorForCompoundAssignmentOperator BinaryOperatorType.GreaterEqual = OverloadedOperator.NoneOperator" |
  "GetOverloadedOperatorForCompoundAssignmentOperator BinaryOperatorType.CompareOrder = OverloadedOperator.NoneOperator" |
  "GetOverloadedOperatorForCompoundAssignmentOperator BinaryOperatorType.And = OverloadedOperator.AssignAnd" |
  "GetOverloadedOperatorForCompoundAssignmentOperator BinaryOperatorType.Or = OverloadedOperator.AssignOr" |
  "GetOverloadedOperatorForCompoundAssignmentOperator BinaryOperatorType.Xor = OverloadedOperator.AssignXor" |
  "GetOverloadedOperatorForCompoundAssignmentOperator BinaryOperatorType.ShiftLeft = OverloadedOperator.AssignShiftLeft" |
  "GetOverloadedOperatorForCompoundAssignmentOperator BinaryOperatorType.ShiftRight = OverloadedOperator.AssignShiftRight" |
  "GetOverloadedOperatorForCompoundAssignmentOperator BinaryOperatorType.LazyLogicalAnd = OverloadedOperator.NoneOperator" |
  "GetOverloadedOperatorForCompoundAssignmentOperator BinaryOperatorType.LazyLogicalOr = OverloadedOperator.NoneOperator"

section \<open>Spelling\<close>

lemma if_SomeE: "(if c then Some a else r) = Some x \<Longrightarrow> (c \<Longrightarrow> a = x \<Longrightarrow> P) \<Longrightarrow> (r = Some x \<Longrightarrow> P) \<Longrightarrow> P"
  by (simp split: if_splits)

text \<open>
  Spelling a binary operator and reading a binary operator are inverse to each other.
\<close>

theorem BinaryOperator_spelling:
  "StringToBinaryOperator s = Some op \<longleftrightarrow> BinaryOperatorToString op = s"
proof
  show "StringToBinaryOperator s = Some op \<Longrightarrow> BinaryOperatorToString op = s"
    unfolding StringToBinaryOperator_def by (erule if_SomeE, hypsubst, simp)+ simp
  show "BinaryOperatorToString op = s \<Longrightarrow> StringToBinaryOperator s = Some op"
    by (cases op; hypsubst) (simp_all add: StringToBinaryOperator_def)
qed

text \<open>
  The same holds for the operators that can be overloaded; only \<open>NoneOperator\<close> cannot be spelled.
\<close>

theorem OverloadedOperator_spelling:
  "StringToOverloadedOperator s = Some op \<longleftrightarrow> op \<noteq> OverloadedOperator.NoneOperator \<and> OverloadedOperatorToString op = s"
proof
  show "StringToOverloadedOperator s = Some op \<Longrightarrow>
      op \<noteq> OverloadedOperator.NoneOperator \<and> OverloadedOperatorToString op = s"
    unfolding StringToOverloadedOperator_def by (erule if_SomeE, hypsubst, simp)+ simp
  show "op \<noteq> OverloadedOperator.NoneOperator \<and> OverloadedOperatorToString op = s \<Longrightarrow> StringToOverloadedOperator s = Some op"
    by (elim conjE; cases op; hypsubst) (simp_all add: StringToOverloadedOperator_def)
qed

text \<open>
  The operator called for a compound assignment is the one spelled with an equals sign behind the
  binary operator, for exactly the binary operators that can be overloaded themselves and
  are no comparisons.
\<close>

theorem CompoundAssignment_spelling:
  "GetOverloadedOperatorForCompoundAssignmentOperator op =
    (if OverloadedOperatorToString (GetOverloadedOperatorForBinaryOperator op) = BinaryOperatorToString op \<and>
        GetOverloadedOperatorForBinaryOperator op \<notin> {OverloadedOperator.CompareEqual, OverloadedOperator.CompareOrder}
     then the (StringToOverloadedOperator (BinaryOperatorToString op @ ''=''))
     else OverloadedOperator.NoneOperator)"
  by (cases op) (simp_all add: StringToOverloadedOperator_def)

end
