(* ===== verification/Lang_Types.thy ===== *)
theory Lang_Types
  imports U_Prelude
begin

text \<open>
  \<^verbatim>\<open>source/compiler0/code_builder_lib/lang_types.hpp\<close> and \<^verbatim>\<open>lang_types.cpp\<close>: the fundamental types of the
  language, their classes and their names; \<^verbatim>\<open>enum class ValueType\<close> of \<^verbatim>\<open>type.hpp\<close>, which the other
  components of the code builder share.

  The names of types are keywords. The build generates \<^verbatim>\<open>keywords.cpp\<close> from a list of words, so the
  function \<open>Keyword\<close> is a parameter here, a function on the enumerators the modelled code uses; what the
  code relies on is that different enumerators have different words.
\<close>

datatype ValueType = Value | ReferenceMut | ReferenceImut

section \<open>Keywords\<close>

datatype (plugins only: code) Keywords =
  void_kw | bool_kw | i8_kw | u8_kw | i16_kw | u16_kw | i32_kw | u32_kw | i64_kw | u64_kw |
  i128_kw | u128_kw | ssize_type_kw | size_type_kw | f32_kw | f64_kw | char8_kw | char16_kw |
  char32_kw | byte8_kw | byte16_kw | byte32_kw | byte64_kw | byte128_kw | typeof_kw | typeinfo_kw |
  generator_kw | async_kw | non_sync_kw | imut_kw | mut_kw |
  import_kw | namespace_kw | class_kw | struct_kw | fn_kw | op_kw | var_kw | auto_kw | static_assert_kw | this_kw

type_synonym Keyword = "Keywords \<Rightarrow> byte list"

section \<open>Fundamental types\<close>

datatype (plugins only: code) U_FundamentalType =
  InvalidType | void_t | bool_t | i8_t | u8_t | i16_t | u16_t | i32_t | u32_t | i64_t | u64_t |
  i128_t | u128_t | ssize_type_t | size_type_t | f32_t | f64_t | char8_t | char16_t | char32_t |
  byte8_t | byte16_t | byte32_t | byte64_t | byte128_t | LastType

definition IsUnsignedInteger :: "U_FundamentalType \<Rightarrow> bool" where
  "IsUnsignedInteger t \<longleftrightarrow> t = u8_t \<or> t = u16_t \<or> t = u32_t \<or> t = u64_t \<or> t = u128_t \<or> t = size_type_t"

definition IsSignedInteger :: "U_FundamentalType \<Rightarrow> bool" where
  "IsSignedInteger t \<longleftrightarrow> t = i8_t \<or> t = i16_t \<or> t = i32_t \<or> t = i64_t \<or> t = i128_t \<or> t = ssize_type_t"

definition IsInteger :: "U_FundamentalType \<Rightarrow> bool" where
  "IsInteger t \<longleftrightarrow> IsSignedInteger t \<or> IsUnsignedInteger t"

definition IsFloatingPoint :: "U_FundamentalType \<Rightarrow> bool" where
  "IsFloatingPoint t \<longleftrightarrow> t = f32_t \<or> t = f64_t"

definition IsNumericType :: "U_FundamentalType \<Rightarrow> bool" where
  "IsNumericType t \<longleftrightarrow> IsInteger t \<or> IsFloatingPoint t"

definition IsChar :: "U_FundamentalType \<Rightarrow> bool" where
  "IsChar t \<longleftrightarrow> t = char8_t \<or> t = char16_t \<or> t = char32_t"

definition IsByte :: "U_FundamentalType \<Rightarrow> bool" where
  "IsByte t \<longleftrightarrow> t = byte8_t \<or> t = byte16_t \<or> t = byte32_t \<or> t = byte64_t \<or> t = byte128_t"

definition g_invalid_type_name :: "byte list" where
  "g_invalid_type_name = str ''InvalidType''"

fun GetFundamentalTypeName :: "Keyword \<Rightarrow> U_FundamentalType \<Rightarrow> byte list" where
  "GetFundamentalTypeName Keyword InvalidType = g_invalid_type_name" |
  "GetFundamentalTypeName Keyword void_t = Keyword void_kw" |
  "GetFundamentalTypeName Keyword bool_t = Keyword bool_kw" |
  "GetFundamentalTypeName Keyword i8_t = Keyword i8_kw" |
  "GetFundamentalTypeName Keyword u8_t = Keyword u8_kw" |
  "GetFundamentalTypeName Keyword i16_t = Keyword i16_kw" |
  "GetFundamentalTypeName Keyword u16_t = Keyword u16_kw" |
  "GetFundamentalTypeName Keyword i32_t = Keyword i32_kw" |
  "GetFundamentalTypeName Keyword u32_t = Keyword u32_kw" |
  "GetFundamentalTypeName Keyword i64_t = Keyword i64_kw" |
  "GetFundamentalTypeName Keyword u64_t = Keyword u64_kw" |
  "GetFundamentalTypeName Keyword i128_t = Keyword i128_kw" |
  "GetFundamentalTypeName Keyword u128_t = Keyword u128_kw" |
  "GetFundamentalTypeName Keyword ssize_type_t = Keyword ssize_type_kw" |
  "GetFundamentalTypeName Keyword size_type_t = Keyword size_type_kw" |
  "GetFundamentalTypeName Keyword f32_t = Keyword f32_kw" |
  "GetFundamentalTypeName Keyword f64_t = Keyword f64_kw" |
  "GetFundamentalTypeName Keyword char8_t = Keyword char8_kw" |
  "GetFundamentalTypeName Keyword char16_t = Keyword char16_kw" |
  "GetFundamentalTypeName Keyword char32_t = Keyword char32_kw" |
  "GetFundamentalTypeName Keyword byte8_t = Keyword byte8_kw" |
  "GetFundamentalTypeName Keyword byte16_t = Keyword byte16_kw" |
  "GetFundamentalTypeName Keyword byte32_t = Keyword byte32_kw" |
  "GetFundamentalTypeName Keyword byte64_t = Keyword byte64_kw" |
  "GetFundamentalTypeName Keyword byte128_t = Keyword byte128_kw" |
  "GetFundamentalTypeName Keyword LastType = g_invalid_type_name"

definition GetFundamentalTypeByName :: "Keyword \<Rightarrow> byte list \<Rightarrow> U_FundamentalType" where
  "GetFundamentalTypeByName Keyword name =
    (if name = Keyword void_kw then void_t
     else if name = Keyword bool_kw then bool_t
     else if name = Keyword i8_kw then i8_t
     else if name = Keyword u8_kw then u8_t
     else if name = Keyword i16_kw then i16_t
     else if name = Keyword u16_kw then u16_t
     else if name = Keyword i32_kw then i32_t
     else if name = Keyword u32_kw then u32_t
     else if name = Keyword i64_kw then i64_t
     else if name = Keyword u64_kw then u64_t
     else if name = Keyword i128_kw then i128_t
     else if name = Keyword u128_kw then u128_t
     else if name = Keyword ssize_type_kw then ssize_type_t
     else if name = Keyword size_type_kw then size_type_t
     else if name = Keyword f32_kw then f32_t
     else if name = Keyword f64_kw then f64_t
     else if name = Keyword char8_kw then char8_t
     else if name = Keyword char16_kw then char16_t
     else if name = Keyword char32_kw then char32_t
     else if name = Keyword byte8_kw then byte8_t
     else if name = Keyword byte16_kw then byte16_t
     else if name = Keyword byte32_kw then byte32_t
     else if name = Keyword byte64_kw then byte64_t
     else if name = Keyword byte128_kw then byte128_t
     else InvalidType)"

section \<open>Names of fundamental types\<close>

text \<open>The words of \<^verbatim>\<open>keywords_list.txt\<close>, an instance of the parameter.\<close>

fun keyword_word :: "Keywords \<Rightarrow> string" where
  "keyword_word void_kw = ''void''" |
  "keyword_word bool_kw = ''bool''" |
  "keyword_word i8_kw = ''i8''" |
  "keyword_word u8_kw = ''u8''" |
  "keyword_word i16_kw = ''i16''" |
  "keyword_word u16_kw = ''u16''" |
  "keyword_word i32_kw = ''i32''" |
  "keyword_word u32_kw = ''u32''" |
  "keyword_word i64_kw = ''i64''" |
  "keyword_word u64_kw = ''u64''" |
  "keyword_word i128_kw = ''i128''" |
  "keyword_word u128_kw = ''u128''" |
  "keyword_word ssize_type_kw = ''ssize_type''" |
  "keyword_word size_type_kw = ''size_type''" |
  "keyword_word f32_kw = ''f32''" |
  "keyword_word f64_kw = ''f64''" |
  "keyword_word char8_kw = ''char8''" |
  "keyword_word char16_kw = ''char16''" |
  "keyword_word char32_kw = ''char32''" |
  "keyword_word byte8_kw = ''byte8''" |
  "keyword_word byte16_kw = ''byte16''" |
  "keyword_word byte32_kw = ''byte32''" |
  "keyword_word byte64_kw = ''byte64''" |
  "keyword_word byte128_kw = ''byte128''" |
  "keyword_word typeof_kw = ''typeof''" |
  "keyword_word typeinfo_kw = ''typeinfo''" |
  "keyword_word generator_kw = ''generator''" |
  "keyword_word async_kw = ''async''" |
  "keyword_word non_sync_kw = ''non_sync''" |
  "keyword_word imut_kw = ''imut''" |
  "keyword_word mut_kw = ''mut''" |
  "keyword_word import_kw = ''import''" |
  "keyword_word namespace_kw = ''namespace''" |
  "keyword_word class_kw = ''class''" |
  "keyword_word struct_kw = ''struct''" |
  "keyword_word fn_kw = ''fn''" |
  "keyword_word op_kw = ''op''" |
  "keyword_word var_kw = ''var''" |
  "keyword_word auto_kw = ''auto''" |
  "keyword_word static_assert_kw = ''static_assert''" |
  "keyword_word this_kw = ''this''"

definition keywords_list :: Keyword where
  "keywords_list k = str (keyword_word k)"

lemma type_name_eq: "GetFundamentalTypeByName K s = t \<Longrightarrow> t \<noteq> InvalidType \<Longrightarrow> GetFundamentalTypeName K t = s"
  by (auto simp: GetFundamentalTypeByName_def split: if_split_asm)

text \<open>
  The name of a fundamental type leads back to the type, and a name that leads to a
  fundamental type is the name of that type. The hypothesis on the generated list of keywords is that
  different keywords have different words.
\<close>

theorem GetFundamentalTypeByName_correct:
  assumes "inj Keyword" and "t \<noteq> InvalidType" and "t \<noteq> LastType"
  shows "GetFundamentalTypeByName Keyword name = t \<longleftrightarrow> name = GetFundamentalTypeName Keyword t"
proof
  assume "GetFundamentalTypeByName Keyword name = t"
  then show "name = GetFundamentalTypeName Keyword t" using assms(2) by (simp add: type_name_eq)
next
  assume "name = GetFundamentalTypeName Keyword t"
  with assms show "GetFundamentalTypeByName Keyword name = t"
    by (cases t) (simp_all add: GetFundamentalTypeByName_def inj_eq)
qed

text \<open>
  Every fundamental type is in at most one of the classes signed integer, unsigned integer, floating
  point, character and byte; what is in none of them is \<^verbatim>\<open>void\<close>, \<^verbatim>\<open>bool\<close> or a marker of the enumeration.
\<close>

theorem fundamental_type_classes:
  "length (filter (\<lambda>p. p t) [IsSignedInteger, IsUnsignedInteger, IsFloatingPoint, IsChar, IsByte]) =
     (if t \<in> {InvalidType, void_t, bool_t, LastType} then 0 else 1)"
  by (cases t) (simp_all add: IsSignedInteger_def IsUnsignedInteger_def IsFloatingPoint_def IsChar_def IsByte_def)

lemma keyword_word_inj: "keyword_word j = keyword_word k \<longleftrightarrow> j = k"
  by (cases j; cases k) simp_all

lemma keywords_list_inj: "inj keywords_list"
  by (simp add: inj_def keywords_list_def str_inj keyword_word_inj)

theorem GetFundamentalTypeByName_correct_witness:
  "GetFundamentalTypeByName keywords_list (str ''i32'') = i32_t \<longleftrightarrow> str ''i32'' = GetFundamentalTypeName keywords_list i32_t"
  by (rule GetFundamentalTypeByName_correct [OF keywords_list_inj]) simp_all

end
