(* ===== verification/References_Graph.thy ===== *)
theory References_Graph
  imports Src_Loc Lang_Types "HOL-Library.AList"
begin

text \<open>
  \<^verbatim>\<open>source/compiler0/code_builder_lib/references_graph.hpp\<close> and \<^verbatim>\<open>references_graph.cpp\<close>: the graph of
  references between variables with which the compiler enforces that a value has either one mutable
  reference or several immutable ones.

  The nodes are the \<open>Variable\<close> objects of \<^verbatim>\<open>value.hpp\<close>; their identity is the address, so a
  \<open>VariablePtr\<close> is an address in a heap of variables, which the graph only reads. Owning pointers
  (children and inner reference nodes) and parent pointers form no cycles: this is part of the type of
  heaps, and it is what makes the recursive methods total. The hash containers are lists without
  repetition; in which order the compiler iterates over them is not specified, and the theorems below do not depend on it.
\<close>

section \<open>Variables\<close>

type_synonym VariablePtr = nat

record Variable =
  v_name :: "byte list"
  v_value_type :: ValueType
  v_parent :: "VariablePtr option"
  v_children :: "VariablePtr option list"
  v_inner_reference_nodes :: "VariablePtr list"
  v_is_inner_reference_node :: bool
  v_is_variable_inner_reference_node :: bool
  v_reference_tag_count :: nat

definition no_variable :: Variable where
  "no_variable = \<lparr> v_name = [], v_value_type = ReferenceImut, v_parent = None, v_children = [],
     v_inner_reference_nodes = [], v_is_inner_reference_node = False,
     v_is_variable_inner_reference_node = False, v_reference_tag_count = 0 \<rparr>"

definition owned_of :: "Variable list \<Rightarrow> (VariablePtr \<times> VariablePtr) set" where
  "owned_of h = {(c, p). p < length h \<and>
     (Some c \<in> set (v_children (h ! p)) \<or> c \<in> set (v_inner_reference_nodes (h ! p)))}"

definition parents_of :: "Variable list \<Rightarrow> (VariablePtr \<times> VariablePtr) set" where
  "parents_of h = {(q, p). p < length h \<and> v_parent (h ! p) = Some q}"

typedef Heap = "{h :: Variable list. wf (owned_of h) \<and> wf (parents_of h)}"
  by (rule exI [of _ "[]"]) (simp add: owned_of_def parents_of_def)

setup_lifting type_definition_Heap

lift_definition var :: "Heap \<Rightarrow> VariablePtr \<Rightarrow> Variable" is
  "\<lambda>h p. if p < length h then h ! p else no_variable" .

lift_definition owned :: "Heap \<Rightarrow> (VariablePtr \<times> VariablePtr) set" is owned_of .

lift_definition parents :: "Heap \<Rightarrow> (VariablePtr \<times> VariablePtr) set" is parents_of .

lemma wf_owned: "wf (owned h)"
  by transfer simp

lemma wf_parents: "wf (parents h)"
  by transfer simp

lemma owned_child: "Some c \<in> set (v_children (var h p)) \<Longrightarrow> (c, p) \<in> owned h"
  by transfer (auto simp: owned_of_def no_variable_def split: if_splits)

lemma owned_inner: "c \<in> set (v_inner_reference_nodes (var h p)) \<Longrightarrow> (c, p) \<in> owned h"
  by transfer (auto simp: owned_of_def no_variable_def split: if_splits)

lemma parents_iff: "(q, p) \<in> parents h \<longleftrightarrow> v_parent (var h p) = Some q"
  by transfer (auto simp: parents_of_def no_variable_def)

lemma finite_parents: "finite (parents h)"
proof transfer
  fix h :: "Variable list"
  have "parents_of h \<subseteq> (\<lambda>p. (the (v_parent (h ! p)), p)) ` {..<length h}"
    by (auto simp: parents_of_def image_iff)
  then show "finite (parents_of h)" by (rule finite_subset) simp
qed

text \<open>Recursion on a fixed heap along owning pointers, and along parent pointers.\<close>

definition owned_rel :: "((Heap \<times> VariablePtr) \<times> (Heap \<times> VariablePtr)) set" where
  "owned_rel = {((h', c), (h, p)). h' = h \<and> (c, p) \<in> owned h}"

definition parents_rel :: "((Heap \<times> VariablePtr) \<times> (Heap \<times> VariablePtr)) set" where
  "parents_rel = {((h', c), (h, p)). h' = h \<and> (c, p) \<in> parents h}"

lemma wf_fixed_heap:
  assumes "\<And>h. wf (R h)"
  shows "wf {((h', c), (h, p)). h' = h \<and> (c, p) \<in> R h}"
proof (rule wfUNIVI, clarify)
  fix P and h :: 'a and p :: 'b
  assume step: "\<forall>x. (\<forall>y. (y, x) \<in> {((h', c), (h, p)). h' = h \<and> (c, p) \<in> R h} \<longrightarrow> P y) \<longrightarrow> P x"
  show "P (h, p)"
    using assms [of h]
    by (induction p rule: wf_induct_rule) (use step in blast)
qed

lemma wf_owned_rel: "wf owned_rel" and wf_parents_rel: "wf parents_rel"
  unfolding owned_rel_def parents_rel_def
  using wf_fixed_heap [of owned] wf_fixed_heap [of parents] wf_owned wf_parents by blast+

lemma owned_rel_iff: "((h', c), (h, p)) \<in> owned_rel \<longleftrightarrow> h' = h \<and> (c, p) \<in> owned h"
  by (simp add: owned_rel_def)

lemma parents_rel_iff: "((h', c), (h, p)) \<in> parents_rel \<longleftrightarrow> h' = h \<and> (c, p) \<in> parents h"
  by (simp add: parents_rel_def)

section \<open>The graph\<close>

datatype Link = Link (src: VariablePtr) (dst: VariablePtr)

record ReferencesGraph =
  g_nodes :: "(VariablePtr \<times> bool) list"
  g_links :: "Link list"

datatype GraphError =
    ReferenceProtectionError SrcLoc "byte list"
  | CreatingMutableReferencesLoop SrcLoc "byte list"
  | ConditionalMove SrcLoc "byte list"
  | OuterVariableMoveInsideLoop SrcLoc "byte list"
  | ReferencePollutionOfOuterLoopVariable SrcLoc "byte list" "byte list"

definition has_node :: "ReferencesGraph \<Rightarrow> VariablePtr \<Rightarrow> bool" where
  "has_node g p \<longleftrightarrow> p \<in> fst ` set (g_nodes g)"

definition emplace_node :: "VariablePtr \<Rightarrow> ReferencesGraph \<Rightarrow> ReferencesGraph" where
  "emplace_node p g = (if has_node g p then g else g \<lparr> g_nodes := g_nodes g @ [(p, False)] \<rparr>)"

function AddNode :: "Heap \<Rightarrow> VariablePtr \<Rightarrow> ReferencesGraph \<Rightarrow> ReferencesGraph" where
  "AddNode h node g =
    (let g = emplace_node node g in
     if v_parent (var h node) = None
     then fold (AddNode h) (v_inner_reference_nodes (var h node)) g
     else g)"
  by pat_completeness auto
termination
  by (relation "inv_image owned_rel (\<lambda>(h, node, g). (h, node))")
     (auto simp: wf_owned_rel owned_rel_iff owned_inner)

function AddNodeIfNotExists :: "Heap \<Rightarrow> VariablePtr \<Rightarrow> ReferencesGraph \<Rightarrow> ReferencesGraph" where
  "AddNodeIfNotExists h node g =
    fold (AddNodeIfNotExists h) (v_inner_reference_nodes (var h node)) (emplace_node node g)"
  by pat_completeness auto
termination
  by (relation "inv_image owned_rel (\<lambda>(h, node, g). (h, node))")
     (auto simp: wf_owned_rel owned_rel_iff owned_inner)

definition AddLink :: "VariablePtr \<Rightarrow> VariablePtr \<Rightarrow> ReferencesGraph \<Rightarrow> ReferencesGraph" where
  "AddLink from to g =
    (if from = to then g
     else if Link from to \<in> set (g_links g) then g
     else g \<lparr> g_links := g_links g @ [Link from to] \<rparr>)"

subsection \<open>Removal of links\<close>

definition in_nodes :: "VariablePtr \<Rightarrow> Link list \<Rightarrow> VariablePtr list" where
  "in_nodes node links = remdups (map src (filter (\<lambda>l. src l \<noteq> dst l \<and> dst l = node) links))"

definition out_nodes :: "VariablePtr \<Rightarrow> Link list \<Rightarrow> VariablePtr list" where
  "out_nodes node links = remdups (map dst (filter (\<lambda>l. src l \<noteq> dst l \<and> src l = node) links))"

text \<open>The loop that removes the links of a node by moving the last link into the free place.\<close>

function remove_links_loop :: "VariablePtr \<Rightarrow> nat \<Rightarrow> Link list \<Rightarrow> Link list" where
  "remove_links_loop node i links =
    (if i < length links then
       (if src (links ! i) = node \<or> dst (links ! i) = node then
          remove_links_loop node i
            (butlast (if i + 1 < length links then links [i := last links] else links))
        else remove_links_loop node (i + 1) links)
     else links)"
  by pat_completeness auto
termination
  by (relation "measure (\<lambda>(node, i, links). length links - i)") auto

declare remove_links_loop.simps [simp del]

definition RemoveNodeLinks :: "Heap \<Rightarrow> VariablePtr \<Rightarrow> ReferencesGraph \<Rightarrow> ReferencesGraph" where
  "RemoveNodeLinks h node g =
    (let ins = in_nodes node (g_links g);
         outs = out_nodes node (g_links g);
         g = g \<lparr> g_links := remove_links_loop node 0 (g_links g) \<rparr>;
         g = fold (\<lambda>from. fold (AddLink from) outs) ins g
     in case v_parent (var h node) of
          Some parent \<Rightarrow> fold (AddLink parent) outs g
        | None \<Rightarrow> g)"

function RemoveNode :: "Heap \<Rightarrow> VariablePtr \<Rightarrow> ReferencesGraph \<Rightarrow> ReferencesGraph" where
  "RemoveNode h node g =
    (if \<not> has_node g node then g
     else
       let g = (if v_parent (var h node) = None
                then fold (RemoveNode h) (v_inner_reference_nodes (var h node)) g else g);
           g = fold (\<lambda>child g. case child of Some c \<Rightarrow> RemoveNode h c g | None \<Rightarrow> g) (v_children (var h node)) g;
           g = RemoveNodeLinks h node g
       in g \<lparr> g_nodes := AList.delete node (g_nodes g) \<rparr>)"
  by pat_completeness auto
termination
  by (relation "inv_image owned_rel (\<lambda>(h, node, g). (h, node))")
     (auto simp: wf_owned_rel owned_rel_iff owned_inner owned_child)

subsection \<open>Outgoing links\<close>

definition HasDirectOutgoingLinks :: "ReferencesGraph \<Rightarrow> VariablePtr \<Rightarrow> bool" where
  "HasDirectOutgoingLinks g from = list_ex (\<lambda>link. src link = from) (g_links g)"

definition HasDirectOutgoingMutableNodes :: "Heap \<Rightarrow> ReferencesGraph \<Rightarrow> VariablePtr \<Rightarrow> bool" where
  "HasDirectOutgoingMutableNodes h g from =
    list_ex (\<lambda>link. src link = from \<and> v_value_type (var h (dst link)) = ReferenceMut) (g_links g)"

function HasOutgoingLinksIncludingChildrenLinks_r :: "Heap \<Rightarrow> ReferencesGraph \<Rightarrow> VariablePtr \<Rightarrow> bool" where
  "HasOutgoingLinksIncludingChildrenLinks_r h g from \<longleftrightarrow>
    HasDirectOutgoingLinks g from \<or>
    list_ex (\<lambda>child. case child of
        Some c \<Rightarrow> has_node g c \<and> HasOutgoingLinksIncludingChildrenLinks_r h g c
      | None \<Rightarrow> False) (v_children (var h from))"
  by pat_completeness auto
termination
  by (relation "inv_image owned_rel (\<lambda>(h, g, node). (h, node))")
     (auto simp: wf_owned_rel owned_rel_iff owned_child)

function HasOutgoingMutableNodesIncludingChildrenNodes_r :: "Heap \<Rightarrow> ReferencesGraph \<Rightarrow> VariablePtr \<Rightarrow> bool" where
  "HasOutgoingMutableNodesIncludingChildrenNodes_r h g from \<longleftrightarrow>
    HasDirectOutgoingMutableNodes h g from \<or>
    list_ex (\<lambda>child. case child of
        Some c \<Rightarrow> has_node g c \<and> HasOutgoingMutableNodesIncludingChildrenNodes_r h g c
      | None \<Rightarrow> False) (v_children (var h from))"
  by pat_completeness auto
termination
  by (relation "inv_image owned_rel (\<lambda>(h, g, node). (h, node))")
     (auto simp: wf_owned_rel owned_rel_iff owned_child)

text \<open>The loop over the parents of a node, with the test it makes on each.\<close>

function any_parent :: "Heap \<Rightarrow> (VariablePtr \<Rightarrow> bool) \<Rightarrow> VariablePtr \<Rightarrow> bool" where
  "any_parent h test node \<longleftrightarrow>
    (case v_parent (var h node) of None \<Rightarrow> False | Some parent \<Rightarrow> test parent \<or> any_parent h test parent)"
  by pat_completeness auto
termination
  by (relation "inv_image parents_rel (\<lambda>(h, test, node). (h, node))")
     (auto simp: wf_parents_rel parents_rel_iff parents_iff)

declare AddNode.simps [simp del] AddNodeIfNotExists.simps [simp del] RemoveNode.simps [simp del]
  HasOutgoingLinksIncludingChildrenLinks_r.simps [simp del]
  HasOutgoingMutableNodesIncludingChildrenNodes_r.simps [simp del] any_parent.simps [simp del]

definition HasOutgoingLinks :: "Heap \<Rightarrow> ReferencesGraph \<Rightarrow> VariablePtr \<Rightarrow> bool" where
  "HasOutgoingLinks h g from \<longleftrightarrow>
    HasOutgoingLinksIncludingChildrenLinks_r h g from \<or> any_parent h (HasDirectOutgoingLinks g) from"

definition HasOutgoingMutableNodes :: "Heap \<Rightarrow> ReferencesGraph \<Rightarrow> VariablePtr \<Rightarrow> bool" where
  "HasOutgoingMutableNodes h g from \<longleftrightarrow>
    HasOutgoingMutableNodesIncludingChildrenNodes_r h g from \<or>
    any_parent h (HasDirectOutgoingMutableNodes h g) from"

subsection \<open>Moving\<close>

definition set_moved :: "VariablePtr \<Rightarrow> ReferencesGraph \<Rightarrow> ReferencesGraph" where
  "set_moved node g = g \<lparr> g_nodes := AList.update node True (g_nodes g) \<rparr>"

function MoveNode :: "Heap \<Rightarrow> VariablePtr \<Rightarrow> ReferencesGraph \<Rightarrow> ReferencesGraph" where
  "MoveNode h node g =
    (let g = set_moved node g;
         g = fold (RemoveNodeLinks h) (v_inner_reference_nodes (var h node)) g;
         g = fold (\<lambda>child g. case child of Some c \<Rightarrow> if has_node g c then MoveNode h c g else g | None \<Rightarrow> g)
               (v_children (var h node)) g
     in RemoveNodeLinks h node g)"
  by pat_completeness auto
termination
  by (relation "inv_image owned_rel (\<lambda>(h, node, g). (h, node))")
     (auto simp: wf_owned_rel owned_rel_iff owned_child)

declare MoveNode.simps [simp del]

definition NodeMoved :: "ReferencesGraph \<Rightarrow> VariablePtr \<Rightarrow> bool" where
  "NodeMoved g node = (case map_of (g_nodes g) node of None \<Rightarrow> False | Some moved \<Rightarrow> moved)"

subsection \<open>Searches\<close>

text \<open>
  The searches are recursive functions with a set of visited nodes. Here the nodes whose calls are still to be made
  are a list, in the order the recursion makes the calls: the sources of the links to a node, then
  its parent.
\<close>

definition input_nodes :: "ReferencesGraph \<Rightarrow> VariablePtr \<Rightarrow> VariablePtr list" where
  "input_nodes g node = map src (filter (\<lambda>link. dst link = node) (g_links g))"

definition search_nodes :: "Heap \<Rightarrow> ReferencesGraph \<Rightarrow> VariablePtr \<Rightarrow> VariablePtr list" where
  "search_nodes h g node =
    input_nodes g node @ (case v_parent (var h node) of Some parent \<Rightarrow> [parent] | None \<Rightarrow> [])"

definition search_universe :: "Heap \<Rightarrow> ReferencesGraph \<Rightarrow> VariablePtr set" where
  "search_universe h g = src ` set (g_links g) \<union> Domain (parents h)"

lemma finite_search_universe: "finite (search_universe h g)"
  by (simp add: search_universe_def finite_Domain finite_parents)

lemma search_nodes_universe: "set (search_nodes h g node) \<subseteq> search_universe h g"
  by (auto simp: search_nodes_def input_nodes_def search_universe_def Domain_iff parents_iff split: option.splits)

definition search_measure :: "Heap \<Rightarrow> ReferencesGraph \<Rightarrow> VariablePtr list \<Rightarrow> VariablePtr list \<Rightarrow> nat" where
  "search_measure h g nodes visited = card ((set nodes \<union> search_universe h g) - set visited)"

lemma search_measure_new:
  assumes "set next \<subseteq> search_universe h g" and "to \<notin> set visited"
  shows "search_measure h g (next @ rest) (to # visited) < search_measure h g (to # rest) visited"
  unfolding search_measure_def
proof (rule psubset_card_mono)
  show "finite (set (to # rest) \<union> search_universe h g - set visited)"
    by (simp add: finite_search_universe)
  show "set (next @ rest) \<union> search_universe h g - set (to # visited)
      \<subset> set (to # rest) \<union> search_universe h g - set visited"
    using assms by auto
qed

lemma search_measure_old:
  "to \<in> set visited \<Longrightarrow> search_measure h g rest visited \<le> search_measure h g (to # rest) visited"
  unfolding search_measure_def by (rule card_mono) (auto simp: finite_search_universe)

lemma search_step_measures:
  "to \<notin> set visited \<Longrightarrow> search_measure h g (search_nodes h g to @ rest) (to # visited)
      < search_measure h g (to # rest) visited"
  by (rule search_measure_new [OF search_nodes_universe])

function IsNodeReachable_r :: "Heap \<Rightarrow> ReferencesGraph \<Rightarrow> VariablePtr \<Rightarrow> VariablePtr list \<Rightarrow> VariablePtr list \<Rightarrow> bool" where
  "IsNodeReachable_r h g from [] visited \<longleftrightarrow> False" |
  "IsNodeReachable_r h g from (to # rest) visited \<longleftrightarrow>
    (if from = to then True
     else if to \<in> set visited then IsNodeReachable_r h g from rest visited
     else IsNodeReachable_r h g from (search_nodes h g to @ rest) (to # visited))"
  by pat_completeness auto
termination
  by (relation "measures [\<lambda>(h, g, from, nodes, visited). search_measure h g nodes visited,
        \<lambda>(h, g, from, nodes, visited). length nodes]")
     (auto simp: search_step_measures le_less dest!: search_measure_old)

definition IsNodeReachable :: "Heap \<Rightarrow> ReferencesGraph \<Rightarrow> VariablePtr \<Rightarrow> VariablePtr \<Rightarrow> bool" where
  "IsNodeReachable h g from to = IsNodeReachable_r h g from [to] []"

function GetAllAccessibleVariableNodes_r ::
  "Heap \<Rightarrow> ReferencesGraph \<Rightarrow> VariablePtr list \<Rightarrow> VariablePtr list \<Rightarrow> VariablePtr list \<Rightarrow> VariablePtr list" where
  "GetAllAccessibleVariableNodes_r h g [] visited result = result" |
  "GetAllAccessibleVariableNodes_r h g (node # rest) visited result =
    (if node \<in> set visited then GetAllAccessibleVariableNodes_r h g rest visited result
     else GetAllAccessibleVariableNodes_r h g (search_nodes h g node @ rest) (node # visited)
       (if v_value_type (var h node) = Value then List.insert node result else result))"
  by pat_completeness auto
termination
  by (relation "measures [\<lambda>(h, g, nodes, visited, result). search_measure h g nodes visited,
        \<lambda>(h, g, nodes, visited, result). length nodes]")
     (auto simp: search_step_measures le_less dest!: search_measure_old)

definition GetAllAccessibleVariableNodes :: "Heap \<Rightarrow> ReferencesGraph \<Rightarrow> VariablePtr \<Rightarrow> VariablePtr list" where
  "GetAllAccessibleVariableNodes h g node = GetAllAccessibleVariableNodes_r h g [node] [] []"

definition inner_input_nodes :: "Heap \<Rightarrow> ReferencesGraph \<Rightarrow> VariablePtr \<Rightarrow> VariablePtr list" where
  "inner_input_nodes h g node = filter (\<lambda>p. v_is_inner_reference_node (var h p)) (input_nodes g node)"

lemma inner_input_nodes_universe: "set (inner_input_nodes h g node) \<subseteq> search_universe h g"
  by (auto simp: inner_input_nodes_def input_nodes_def search_universe_def)

function GetAllAccessibleNonInnerNodes_r ::
  "Heap \<Rightarrow> ReferencesGraph \<Rightarrow> VariablePtr list \<Rightarrow> VariablePtr list \<Rightarrow> VariablePtr list \<Rightarrow> VariablePtr list" where
  "GetAllAccessibleNonInnerNodes_r h g [] visited result = result" |
  "GetAllAccessibleNonInnerNodes_r h g (node # rest) visited result =
    (if node \<in> set visited then GetAllAccessibleNonInnerNodes_r h g rest visited result
     else GetAllAccessibleNonInnerNodes_r h g (inner_input_nodes h g node @ rest) (node # visited)
       (fold List.insert (filter (\<lambda>p. \<not> v_is_inner_reference_node (var h p)) (input_nodes g node)) result))"
  by pat_completeness auto
termination
  by (relation "measures [\<lambda>(h, g, nodes, visited, result). search_measure h g nodes visited,
        \<lambda>(h, g, nodes, visited, result). length nodes]")
     (auto simp: search_measure_new [OF inner_input_nodes_universe] le_less dest!: search_measure_old)

definition GetAllAccessibleNonInnerNodes :: "Heap \<Rightarrow> ReferencesGraph \<Rightarrow> VariablePtr \<Rightarrow> VariablePtr list" where
  "GetAllAccessibleNonInnerNodes h g node = GetAllAccessibleNonInnerNodes_r h g [node] [] []"

function GetNodeInputLinks :: "Heap \<Rightarrow> ReferencesGraph \<Rightarrow> VariablePtr \<Rightarrow> VariablePtr list" where
  "GetNodeInputLinks h g node =
    (case v_parent (var h node) of
       None \<Rightarrow> remdups (input_nodes g node)
     | Some parent \<Rightarrow> List.union (input_nodes g node) (GetNodeInputLinks h g parent))"
  by pat_completeness auto
termination
  by (relation "inv_image parents_rel (\<lambda>(h, g, node). (h, node))")
     (auto simp: wf_parents_rel parents_rel_iff parents_iff)

declare GetNodeInputLinks.simps [simp del]

subsection \<open>Adding links with checks\<close>

type_synonym checked_graph = "ReferencesGraph \<times> GraphError list"

definition TryAddLink :: "Heap \<Rightarrow> SrcLoc \<Rightarrow> VariablePtr \<Rightarrow> VariablePtr \<Rightarrow> checked_graph \<Rightarrow> checked_graph" where
  "TryAddLink h src_loc from to ge =
    (let (g, errors) = ge;
         errors =
           (if v_value_type (var h to) = ReferenceMut \<and> HasOutgoingLinks h g from \<or> HasOutgoingMutableNodes h g from
            then errors @ [ReferenceProtectionError src_loc (v_name (var h from))] else errors)
     in if v_value_type (var h to) = ReferenceMut \<and> v_is_variable_inner_reference_node (var h to) \<and>
           IsNodeReachable h g to from
        then (g, errors @ [CreatingMutableReferencesLoop src_loc (v_name (var h to))])
        else (AddLink from to g, errors))"

definition TryAddInnerLinks :: "Heap \<Rightarrow> SrcLoc \<Rightarrow> VariablePtr \<Rightarrow> VariablePtr \<Rightarrow> checked_graph \<Rightarrow> checked_graph" where
  "TryAddInnerLinks h src_loc from to =
    fold (\<lambda>i. TryAddLink h src_loc (v_inner_reference_nodes (var h from) ! i) (v_inner_reference_nodes (var h to) ! i))
      [0..<v_reference_tag_count (var h to)]"

text \<open>\<open>element_tag_counts\<close> are the numbers of reference tags of the element types of the tuple \<open>from\<close>.\<close>

definition TryAddInnerLinksForTupleElement ::
  "Heap \<Rightarrow> SrcLoc \<Rightarrow> nat list \<Rightarrow> VariablePtr \<Rightarrow> VariablePtr \<Rightarrow> nat \<Rightarrow> checked_graph \<Rightarrow> checked_graph" where
  "TryAddInnerLinksForTupleElement h src_loc element_tag_counts from to element_index ge =
    (let element_type_reference_tag_count = v_reference_tag_count (var h to) in
     if element_type_reference_tag_count = 0 then ge
     else
       let offset = sum_list (take element_index element_tag_counts) in
       fold (\<lambda>i. TryAddLink h src_loc (v_inner_reference_nodes (var h from) ! (i + offset))
                   (v_inner_reference_nodes (var h to) ! i))
         [0..<element_type_reference_tag_count] ge)"

definition TryAddInnerLinksForClassField ::
  "Heap \<Rightarrow> SrcLoc \<Rightarrow> nat list \<Rightarrow> VariablePtr \<Rightarrow> VariablePtr \<Rightarrow> checked_graph \<Rightarrow> checked_graph" where
  "TryAddInnerLinksForClassField h src_loc inner_reference_tags from to =
    fold (\<lambda>i. TryAddLink h src_loc (v_inner_reference_nodes (var h from) ! (inner_reference_tags ! i))
                (v_inner_reference_nodes (var h to) ! i))
      [0..<v_reference_tag_count (var h to)]"

text \<open>
  The search for inner reference nodes of variables has no set of visited nodes: \<open>None\<close> means that
  it does not end.
\<close>

partial_function (option) TryAddLinkToAllAccessibleVariableNodesInnerReferences_r ::
  "Heap \<Rightarrow> SrcLoc \<Rightarrow> VariablePtr \<Rightarrow> VariablePtr list \<Rightarrow> checked_graph \<Rightarrow> checked_graph option" where
  [code]: "TryAddLinkToAllAccessibleVariableNodesInnerReferences_r h src_loc from nodes ge =
    (case nodes of
       [] \<Rightarrow> Some ge
     | to # rest \<Rightarrow>
         if v_is_variable_inner_reference_node (var h to)
         then TryAddLinkToAllAccessibleVariableNodesInnerReferences_r h src_loc from rest (TryAddLink h src_loc from to ge)
         else TryAddLinkToAllAccessibleVariableNodesInnerReferences_r h src_loc from (input_nodes (fst ge) to @ rest) ge)"

definition TryAddLinkToAllAccessibleVariableNodesInnerReferences ::
  "Heap \<Rightarrow> SrcLoc \<Rightarrow> VariablePtr \<Rightarrow> VariablePtr \<Rightarrow> checked_graph \<Rightarrow> checked_graph option" where
  "TryAddLinkToAllAccessibleVariableNodesInnerReferences h src_loc from to =
    TryAddLinkToAllAccessibleVariableNodesInnerReferences_r h src_loc from [to]"

subsection \<open>Branches and loops\<close>

definition merge_node :: "Heap \<Rightarrow> SrcLoc \<Rightarrow> VariablePtr \<times> bool \<Rightarrow> checked_graph \<Rightarrow> checked_graph" where
  "merge_node h src_loc node_pair re =
    (let (result, errors) = re; (node, moved) = node_pair;
         result = (if has_node result node then result
                   else result \<lparr> g_nodes := g_nodes result @ [(node, moved)] \<rparr>)
     in (result,
         if map_of (g_nodes result) node \<noteq> Some moved
         then errors @ [ConditionalMove src_loc (v_name (var h node))] else errors))"

definition merge_link :: "Link \<Rightarrow> ReferencesGraph \<Rightarrow> ReferencesGraph" where
  "merge_link src_link result =
    (if src_link \<in> set (g_links result) then result
     else result \<lparr> g_links := g_links result @ [src_link] \<rparr>)"

definition merge_branch :: "Heap \<Rightarrow> SrcLoc \<Rightarrow> ReferencesGraph \<Rightarrow> checked_graph \<Rightarrow> checked_graph" where
  "merge_branch h src_loc branch_state re =
    (let (result, errors) = fold (merge_node h src_loc) (g_nodes branch_state) re
     in (fold merge_link (g_links branch_state) result, errors))"

definition MergeVariablesStateAfterIf :: "Heap \<Rightarrow> ReferencesGraph list \<Rightarrow> SrcLoc \<Rightarrow> checked_graph" where
  "MergeVariablesStateAfterIf h branches_variables_state src_loc =
    fold (merge_branch h src_loc) branches_variables_state (\<lparr> g_nodes = [], g_links = [] \<rparr>, [])"

definition check_node_after_loop ::
  "Heap \<Rightarrow> ReferencesGraph \<Rightarrow> ReferencesGraph \<Rightarrow> SrcLoc \<Rightarrow> VariablePtr \<times> bool \<Rightarrow> GraphError list" where
  "check_node_after_loop h state_before state_after src_loc var_before =
    (let (node, moved_before) = var_before in
     (if \<not> moved_before \<and> map_of (g_nodes state_after) node = Some True
      then [OuterVariableMoveInsideLoop src_loc (v_name (var h node))] else []) @
     (if v_value_type (var h node) = Value then
        concat (map (\<lambda>inner_reference_node.
          map (\<lambda>newly_linked_node. ReferencePollutionOfOuterLoopVariable src_loc (v_name (var h node))
                 (v_name (var h newly_linked_node)))
            (filter (\<lambda>p. p \<notin> set (GetNodeInputLinks h state_before inner_reference_node))
              (GetNodeInputLinks h state_after inner_reference_node)))
          (v_inner_reference_nodes (var h node)))
      else []))"

definition CheckVariablesStateAfterLoop :: "Heap \<Rightarrow> ReferencesGraph \<Rightarrow> ReferencesGraph \<Rightarrow> SrcLoc \<Rightarrow> GraphError list" where
  "CheckVariablesStateAfterLoop h state_before state_after src_loc =
    concat (map (check_node_after_loop h state_before state_after src_loc) (g_nodes state_before))"

end
