(* ===== verification/References_Graph_Laws.thy ===== *)
theory References_Graph_Laws
  imports References_Graph
begin

text \<open>
  What the operations of the references graph do to the relation its links form: removal of a node
  keeps everything else connected as it was, the searches find exactly what is connected, and the checked
  insertion keeps mutable references exclusive.
\<close>

section \<open>The relation of a graph\<close>

definition link_rel :: "ReferencesGraph \<Rightarrow> (VariablePtr \<times> VariablePtr) set" where
  "link_rel g = (\<lambda>l. (src l, dst l)) ` set (g_links g)"

definition flow :: "Heap \<Rightarrow> ReferencesGraph \<Rightarrow> (VariablePtr \<times> VariablePtr) set" where
  "flow h g = link_rel g \<union> parents h"

lemma link_rel_iff: "(a, b) \<in> link_rel g \<longleftrightarrow> Link a b \<in> set (g_links g)"
  by (force simp: link_rel_def)

lemma link_rel_AddLink: "link_rel (AddLink a b g) = link_rel g \<union> (if a = b then {} else {(a, b)})"
  by (auto simp: AddLink_def link_rel_iff)

lemma g_nodes_AddLink [simp]: "g_nodes (AddLink a b g) = g_nodes g"
  by (simp add: AddLink_def)

lemma link_rel_fold_AddLink:
  "link_rel (fold (AddLink a) bs g) = link_rel g \<union> {(a, b) | b. b \<in> set bs \<and> a \<noteq> b}"
  by (induction bs arbitrary: g) (auto simp: link_rel_AddLink)

lemma link_rel_fold_fold_AddLink:
  "link_rel (fold (\<lambda>a. fold (AddLink a) bs) as g) =
    link_rel g \<union> {(a, b) | a b. a \<in> set as \<and> b \<in> set bs \<and> a \<noteq> b}"
  by (induction as arbitrary: g) (auto simp: link_rel_fold_AddLink)

lemma g_nodes_fold_AddLink [simp]: "g_nodes (fold (AddLink a) bs g) = g_nodes g"
  by (induction bs arbitrary: g) auto

lemma g_nodes_fold_fold_AddLink [simp]: "g_nodes (fold (\<lambda>a. fold (AddLink a) bs) as g) = g_nodes g"
  by (induction as arbitrary: g) auto

definition touches :: "VariablePtr \<Rightarrow> Link \<Rightarrow> bool" where
  "touches node l \<longleftrightarrow> src l = node \<or> dst l = node"

lemma remove_links_loop_mset:
  assumes "\<forall>j < i. j < length links \<longrightarrow> \<not> touches node (links ! j)"
  shows "mset (remove_links_loop node i links) = filter_mset (\<lambda>l. \<not> touches node l) (mset links)"
  using assms
proof (induction "length links - i" arbitrary: i links rule: less_induct)
  case less
  show ?case
  proof (cases "i < length links")
    case True
    define links' where "links' = butlast (if i + 1 < length links then links [i := last links] else links)"
    have len: "length links' = length links - 1" by (simp add: links'_def)
    show ?thesis
    proof (cases "touches node (links ! i)")
      case t: True
      have "remove_links_loop node i links = remove_links_loop node i links'"
        using True t by (subst remove_links_loop.simps) (simp add: touches_def links'_def)
      moreover have "\<forall>j < i. j < length links' \<longrightarrow> \<not> touches node (links' ! j)"
        using less.prems True by (auto simp: links'_def nth_butlast)
      moreover have "filter_mset (\<lambda>l. \<not> touches node l) (mset links') = filter_mset (\<lambda>l. \<not> touches node l) (mset links)"
        unfolding links'_def mset_remove_by_last [OF True] using t by simp
      moreover have "length links' - i < length links - i" using len True by simp
      ultimately show ?thesis using less.hyps [of links' i] by simp
    next
      case False
      then have "remove_links_loop node i links = remove_links_loop node (i + 1) links"
        using True by (subst remove_links_loop.simps) (simp add: touches_def)
      moreover have "\<forall>j < i + 1. j < length links \<longrightarrow> \<not> touches node (links ! j)"
        using less.prems False by (auto simp: less_Suc_eq)
      ultimately show ?thesis using less.hyps [of links "i + 1"] True by simp
    qed
  next
    case False
    then have "filter (\<lambda>l. \<not> touches node l) links = links"
      using less.prems by (auto simp: filter_id_conv in_set_conv_nth)
    then show ?thesis using False by (subst remove_links_loop.simps) (simp flip: mset_filter)
  qed
qed

lemma mset_remove_links: "mset (remove_links_loop node 0 links) = mset (filter (\<lambda>l. \<not> touches node l) links)"
  using remove_links_loop_mset [of 0 links node] by simp

lemma set_remove_links_loop: "set (remove_links_loop node 0 links) = {l \<in> set links. \<not> touches node l}"
  using mset_eq_setD [OF mset_remove_links] by simp

lemma distinct_remove_links_loop: "distinct links \<Longrightarrow> distinct (remove_links_loop node 0 links)"
  using mset_eq_imp_distinct_iff [OF mset_remove_links] by simp

lemma set_in_nodes: "set (in_nodes n (g_links g)) = {a. (a, n) \<in> link_rel g \<and> a \<noteq> n}"
  by (force simp: in_nodes_def link_rel_def)

lemma set_out_nodes: "set (out_nodes n (g_links g)) = {b. (n, b) \<in> link_rel g \<and> b \<noteq> n}"
  by (force simp: out_nodes_def link_rel_def)

lemma link_rel_RemoveNodeLinks:
  "link_rel (RemoveNodeLinks h n g) =
    {(a, b) \<in> link_rel g. a \<noteq> n \<and> b \<noteq> n} \<union>
    {(a, b). a \<noteq> b \<and> a \<noteq> n \<and> b \<noteq> n \<and> (n, b) \<in> link_rel g \<and> (a, n) \<in> link_rel g} \<union>
    {(a, b). a \<noteq> b \<and> b \<noteq> n \<and> (n, b) \<in> link_rel g \<and> v_parent (var h n) = Some a}"
proof -
  have "link_rel (g \<lparr> g_links := remove_links_loop n 0 (g_links g) \<rparr>) = {(a, b) \<in> link_rel g. a \<noteq> n \<and> b \<noteq> n}"
    by (force simp: link_rel_def set_remove_links_loop touches_def)
  then show ?thesis
    unfolding RemoveNodeLinks_def Let_def
    by (cases "v_parent (var h n)")
       (auto simp: link_rel_fold_AddLink link_rel_fold_fold_AddLink set_in_nodes set_out_nodes)
qed

lemma g_nodes_RemoveNodeLinks [simp]: "g_nodes (RemoveNodeLinks h n g) = g_nodes g"
  by (auto simp: RemoveNodeLinks_def Let_def split: option.splits)

section \<open>Removal keeps the rest connected\<close>

lemma flow_new_in_old: "(a, b) \<in> flow h (RemoveNodeLinks h n g) \<Longrightarrow> (a, b) \<in> (flow h g)\<^sup>*"
proof -
  assume "(a, b) \<in> flow h (RemoveNodeLinks h n g)"
  then consider "(a, b) \<in> flow h g" | "(a, n) \<in> flow h g" "(n, b) \<in> flow h g"
    by (auto simp: flow_def link_rel_RemoveNodeLinks parents_iff)
  then show ?thesis
    by cases (auto intro: rtrancl_into_rtrancl [of a n])
qed

lemma flow_old_in_new:
  assumes "(a, b) \<in> (flow h g)\<^sup>*" and "a \<noteq> n" and leaf: "\<And>c. v_parent (var h c) \<noteq> Some n"
  shows "(b \<noteq> n \<longrightarrow> (a, b) \<in> (flow h (RemoveNodeLinks h n g))\<^sup>*) \<and>
    (b = n \<longrightarrow> (\<exists>y. y \<noteq> n \<and> (a, y) \<in> (flow h (RemoveNodeLinks h n g))\<^sup>* \<and> (y, n) \<in> flow h g))"
  using assms(1)
proof (induction rule: rtrancl_induct)
  case base
  with assms(2) show ?case by simp
next
  case (step y z)
  let ?F = "flow h (RemoveNodeLinks h n g)"
  show ?case
  proof (cases "y = n")
    case True
    with step.IH obtain w where w: "w \<noteq> n" "(a, w) \<in> ?F\<^sup>*" "(w, n) \<in> flow h g" by blast
    show ?thesis
    proof (cases "z = n")
      case False
      with True step.hyps(2) leaf have nz: "(n, z) \<in> link_rel g" by (auto simp: flow_def parents_iff)
      have "w = z \<or> (w, z) \<in> ?F"
        using w(1,3) nz False by (auto simp: flow_def link_rel_RemoveNodeLinks parents_iff)
      with w(2) False show ?thesis by (auto intro: rtrancl_into_rtrancl)
    qed (use w in blast)
  next
    case False
    then have IH: "(a, y) \<in> ?F\<^sup>*" using step.IH by blast
    show ?thesis
    proof (cases "z = n")
      case True
      with IH False step.hyps(2) show ?thesis by blast
    next
      case z: False
      with False step.hyps(2) have "(y, z) \<in> ?F" by (auto simp: flow_def link_rel_RemoveNodeLinks)
      with IH z show ?thesis by (auto intro: rtrancl_into_rtrancl)
    qed
  qed
qed


section \<open>The searches\<close>

interpretation search: visited_search "\<lambda>x. set (search_nodes h g x)" for h g .

lemma search_edges: "search.edges h g = (flow h g)\<inverse>"
  unfolding search.edges_def
  by (auto simp: flow_def search_nodes_def input_nodes_def link_rel_def parents_iff split: option.splits)

lemma search_reached: "b \<in> search.reached h g A \<longleftrightarrow> (\<exists>a \<in> A. (b, a) \<in> (flow h g)\<^sup>*)"
  unfolding search.reached_def search_edges by (auto simp: rtrancl_converse)

lemma IsNodeReachable_r_iff:
  assumes "search.closed_but h g (set visited) (set nodes)" and "from \<notin> set visited"
  shows "IsNodeReachable_r h g from nodes visited \<longleftrightarrow> from \<in> search.reached h g (set nodes \<union> set visited)"
  using assms
proof (induction h g "from" nodes visited rule: IsNodeReachable_r.induct)
  case (1 h g "from" visited)
  then show ?case by (simp add: search.reached_closed)
next
  case (2 h g "from" to rest visited)
  show ?case
  proof (cases "from = to \<or> to \<in> set visited")
    case True
    then show ?thesis
      using 2 search.closed_skip [of to "set visited" h g "set rest"] search.reached_skip [of to "set visited" h g "set rest"]
      by (auto simp: search.reached_def)
  next
    case False
    then show ?thesis
      using 2(2-4) search.closed_step [of h g "set visited" to "set rest"]
        search.reached_step [of h g to "set rest" "set visited"]
      by (simp add: Un_assoc)
  qed
qed

lemma IsNodeReachable_flow: "IsNodeReachable h g from to \<longleftrightarrow> (from, to) \<in> (flow h g)\<^sup>*"
  using IsNodeReachable_r_iff [of h g "[]" "[to]" "from"]
  by (simp add: IsNodeReachable_def search.closed_start search_reached)

text \<open>
  \<open>IsNodeReachable\<close> says whether the second node can be reached from the first along links and
  from parents to their children.
\<close>

theorem IsNodeReachable_correct: "IsNodeReachable h g from to \<longleftrightarrow> (from, to) \<in> (flow h g)\<^sup>*"
  by (rule IsNodeReachable_flow)

lemma GetAllAccessibleVariableNodes_r_set:
  assumes "search.closed_but h g (set visited) (set nodes)"
    and "set result = {v \<in> set visited. v_value_type (var h v) = Value}"
  shows "set (GetAllAccessibleVariableNodes_r h g nodes visited result) =
    {v \<in> search.reached h g (set nodes \<union> set visited). v_value_type (var h v) = Value}"
  using assms
proof (induction h g nodes visited result rule: GetAllAccessibleVariableNodes_r.induct)
  case (1 h g visited result)
  then show ?case by (simp add: search.reached_closed)
next
  case (2 h g node rest visited result)
  show ?case
  proof (cases "node \<in> set visited")
    case True
    then show ?thesis
      using 2(1) 2(3,4) search.closed_skip [of node "set visited" h g "set rest"]
        search.reached_skip [of node "set visited" h g "set rest"]
      by simp
  next
    case False
    let ?result = "if v_value_type (var h node) = Value then List.insert node result else result"
    have "set ?result = {v \<in> set (node # visited). v_value_type (var h v) = Value}" using 2(4) by auto
    then show ?thesis
      using 2(2) [OF False] 2(3) False search.closed_step [of h g "set visited" node "set rest"]
        search.reached_step [of h g node "set rest" "set visited"]
      by (simp add: Un_assoc)
  qed
qed

text \<open>
  \<open>GetAllAccessibleVariableNodes\<close> gives exactly the variables from which a node is
  reachable: the values a reference may point to, or into.
\<close>

theorem GetAllAccessibleVariableNodes_correct:
  "set (GetAllAccessibleVariableNodes h g node) =
    {v. v_value_type (var h v) = Value \<and> (v, node) \<in> (flow h g)\<^sup>*}"
  using GetAllAccessibleVariableNodes_r_set [of h g "[]" "[node]" "[]"]
  by (auto simp: GetAllAccessibleVariableNodes_def search.closed_start search_reached)

interpretation inner: visited_search "\<lambda>x. set (inner_input_nodes h g x)" for h g .

definition inner_flow :: "Heap \<Rightarrow> ReferencesGraph \<Rightarrow> (VariablePtr \<times> VariablePtr) set" where
  "inner_flow h g = {(a, b) \<in> link_rel g. v_is_inner_reference_node (var h a)}"

lemma inner_edges: "inner.edges h g = (inner_flow h g)\<inverse>"
  unfolding inner.edges_def by (auto simp: inner_flow_def inner_input_nodes_def input_nodes_def link_rel_def)

lemma inner_reached: "b \<in> inner.reached h g A \<longleftrightarrow> (\<exists>a \<in> A. (b, a) \<in> (inner_flow h g)\<^sup>*)"
  unfolding inner.reached_def inner_edges by (auto simp: rtrancl_converse)

lemma set_fold_insert: "set (fold List.insert xs ys) = set xs \<union> set ys"
  by (induction xs arbitrary: ys) auto

lemma set_input_nodes: "set (input_nodes g x) = {a. (a, x) \<in> link_rel g}"
  by (force simp: input_nodes_def link_rel_def)

lemma GetAllAccessibleNonInnerNodes_r_set:
  assumes "inner.closed_but h g (set visited) (set nodes)"
    and "set result = {a. \<not> v_is_inner_reference_node (var h a) \<and> (\<exists>x \<in> set visited. (a, x) \<in> link_rel g)}"
  shows "set (GetAllAccessibleNonInnerNodes_r h g nodes visited result) =
    {a. \<not> v_is_inner_reference_node (var h a) \<and>
       (\<exists>x \<in> inner.reached h g (set nodes \<union> set visited). (a, x) \<in> link_rel g)}"
  using assms
proof (induction h g nodes visited result rule: GetAllAccessibleNonInnerNodes_r.induct)
  case (1 h g visited result)
  then show ?case by (simp add: inner.reached_closed)
next
  case (2 h g node rest visited result)
  show ?case
  proof (cases "node \<in> set visited")
    case True
    then show ?thesis
      using 2(1) 2(3,4) inner.closed_skip [of node "set visited" h g "set rest"]
        inner.reached_skip [of node "set visited" h g "set rest"]
      by simp
  next
    case False
    let ?result = "fold List.insert (filter (\<lambda>p. \<not> v_is_inner_reference_node (var h p)) (input_nodes g node)) result"
    have "set ?result = {a. \<not> v_is_inner_reference_node (var h a) \<and> (\<exists>x \<in> set (node # visited). (a, x) \<in> link_rel g)}"
      using 2(4) by (auto simp: set_fold_insert set_input_nodes)
    then show ?thesis
      using 2(2) [OF False] 2(3) False inner.closed_step [of h g "set visited" node "set rest"]
        inner.reached_step [of h g node "set rest" "set visited"]
      by (simp add: Un_assoc)
  qed
qed

text \<open>
  \<open>GetAllAccessibleNonInnerNodes\<close> gives the nodes that are no inner reference nodes and from which a
  node is linked, directly or through inner reference nodes only.
\<close>

theorem GetAllAccessibleNonInnerNodes_correct:
  "set (GetAllAccessibleNonInnerNodes h g node) =
    {a. \<not> v_is_inner_reference_node (var h a) \<and>
       (\<exists>x. (a, x) \<in> link_rel g \<and> (x, node) \<in> (inner_flow h g)\<^sup>*)}"
  using GetAllAccessibleNonInnerNodes_r_set [of h g "[]" "[node]" "[]"]
  by (auto simp: GetAllAccessibleNonInnerNodes_def inner.closed_start inner_reached)

section \<open>Relatives\<close>

definition child_rel :: "Heap \<Rightarrow> ReferencesGraph \<Rightarrow> (VariablePtr \<times> VariablePtr) set" where
  "child_rel h g = {(p, c). Some c \<in> set (v_children (var h p)) \<and> has_node g c}"

lemma descend:
  assumes eq: "\<And>x. f x \<longleftrightarrow> P x \<or> (\<exists>c. (x, c) \<in> child_rel h g \<and> f c)"
  shows "f x \<longleftrightarrow> (\<exists>y. (x, y) \<in> (child_rel h g)\<^sup>* \<and> P y)"
proof (induction x rule: wf_induct_rule [OF wf_owned [of h]])
  case (1 x)
  have "f c \<longleftrightarrow> (\<exists>y. (c, y) \<in> (child_rel h g)\<^sup>* \<and> P y)" if "(x, c) \<in> child_rel h g" for c
    using that by (intro 1) (auto simp: child_rel_def intro: owned_child)
  then show ?case
    by (subst eq) (metis converse_rtranclE converse_rtrancl_into_rtrancl rtrancl.rtrancl_refl)
qed

lemma list_ex_child: "list_ex (\<lambda>child. case child of Some c \<Rightarrow> Q c | None \<Rightarrow> False) cs \<longleftrightarrow> (\<exists>c. Some c \<in> set cs \<and> Q c)"
  by (force simp: list_ex_iff split: option.splits)

lemma direct_links: "HasDirectOutgoingLinks g x \<longleftrightarrow> (\<exists>y. (x, y) \<in> link_rel g)"
  by (force simp: HasDirectOutgoingLinks_def list_ex_iff link_rel_def)

lemma direct_mutable: "HasDirectOutgoingMutableNodes h g x \<longleftrightarrow>
    (\<exists>y. (x, y) \<in> link_rel g \<and> v_value_type (var h y) = ReferenceMut)"
  by (force simp: HasDirectOutgoingMutableNodes_def list_ex_iff link_rel_def)

lemma children_links:
  "HasOutgoingLinksIncludingChildrenLinks_r h g x \<longleftrightarrow> (\<exists>y. (x, y) \<in> (child_rel h g)\<^sup>* \<and> HasDirectOutgoingLinks g y)"
  by (rule descend, subst HasOutgoingLinksIncludingChildrenLinks_r.simps, unfold list_ex_child)
     (auto simp: child_rel_def)

lemma children_mutable:
  "HasOutgoingMutableNodesIncludingChildrenNodes_r h g x \<longleftrightarrow>
    (\<exists>y. (x, y) \<in> (child_rel h g)\<^sup>* \<and> HasDirectOutgoingMutableNodes h g y)"
  by (rule descend, subst HasOutgoingMutableNodesIncludingChildrenNodes_r.simps, unfold list_ex_child)
     (auto simp: child_rel_def)

lemma any_parent_iff: "any_parent h test x \<longleftrightarrow> (\<exists>y. (y, x) \<in> (parents h)\<^sup>+ \<and> test y)"
proof (induction x rule: wf_induct_rule [OF wf_parents [of h]])
  case (1 x)
  show ?case
  proof (cases "v_parent (var h x)")
    case None
    then have "(y, x) \<notin> (parents h)\<^sup>+" for y by (auto simp: parents_iff elim: tranclE)
    with None show ?thesis by (subst any_parent.simps) simp
  next
    case (Some q)
    have "(y, x) \<in> (parents h)\<^sup>+ \<longleftrightarrow> y = q \<or> (y, q) \<in> (parents h)\<^sup>+" for y
      using Some by (auto simp: parents_iff elim: tranclE intro: trancl_into_trancl)
    with Some 1 [of q] show ?thesis by (subst any_parent.simps) (auto simp: parents_iff)
  qed
qed

section \<open>Mutable references are exclusive\<close>

text \<open>
  In a graph whose family pointers are consistent, nodes are added with their parents, and every link
  starts at a node of the graph. Two nodes are related when one is the other or part of it.
\<close>

definition family_ok :: "Heap \<Rightarrow> ReferencesGraph \<Rightarrow> bool" where
  "family_ok h g \<longleftrightarrow>
    (\<forall>p c. Some c \<in> set (v_children (var h p)) \<longrightarrow> v_parent (var h c) = Some p) \<and>
    (\<forall>p c. has_node g c \<and> v_parent (var h c) = Some p \<longrightarrow> Some c \<in> set (v_children (var h p)) \<and> has_node g p) \<and>
    (\<forall>a b. (a, b) \<in> link_rel g \<longrightarrow> has_node g a)"

definition related :: "Heap \<Rightarrow> VariablePtr \<Rightarrow> VariablePtr \<Rightarrow> bool" where
  "related h x y \<longleftrightarrow> (x, y) \<in> (parents h)\<^sup>* \<or> (y, x) \<in> (parents h)\<^sup>*"

lemma related_sym: "related h x y \<longleftrightarrow> related h y x"
  by (auto simp: related_def)

lemma family_okD:
  assumes "family_ok h g"
  shows "Some c \<in> set (v_children (var h p)) \<Longrightarrow> v_parent (var h c) = Some p"
    and "has_node g c \<Longrightarrow> v_parent (var h c) = Some p \<Longrightarrow> Some c \<in> set (v_children (var h p)) \<and> has_node g p"
    and "(a, b) \<in> link_rel g \<Longrightarrow> has_node g a"
  using assms unfolding family_ok_def by blast+

lemma descendant_in_graph:
  assumes "family_ok h g" and "(x, y) \<in> (parents h)\<^sup>*" and "has_node g y"
  shows "(x, y) \<in> (child_rel h g)\<^sup>*"
proof -
  have "(x, y) \<in> (child_rel h g)\<^sup>* \<and> has_node g x"
    using assms(2,3)
  proof (induction rule: converse_rtrancl_induct)
    case (step x z)
    then have "(x, z) \<in> child_rel h g" "has_node g x"
      using family_okD(2) [OF assms(1), of z x] by (simp_all add: child_rel_def parents_iff)
    with step show ?case by (blast intro: converse_rtrancl_into_rtrancl)
  qed simp
  then show ?thesis ..
qed

lemma child_rel_parents:
  assumes "family_ok h g" and "(x, y) \<in> (child_rel h g)\<^sup>*"
  shows "(x, y) \<in> (parents h)\<^sup>*"
proof -
  have "child_rel h g \<subseteq> parents h"
    using family_okD(1) [OF assms(1)] unfolding child_rel_def by (auto simp: parents_iff)
  with assms(2) show ?thesis using rtrancl_mono by blast
qed

lemma related_links:
  assumes "family_ok h g"
  shows "(\<exists>y. (x, y) \<in> (child_rel h g)\<^sup>* \<and> (\<exists>z. (y, z) \<in> link_rel g \<and> Q z)) \<or>
    (\<exists>y. (y, x) \<in> (parents h)\<^sup>+ \<and> (\<exists>z. (y, z) \<in> link_rel g \<and> Q z)) \<longleftrightarrow>
    (\<exists>y z. related h x y \<and> (y, z) \<in> link_rel g \<and> Q z)" (is "?L \<longleftrightarrow> ?R")
proof
  assume ?L
  then show ?R
    unfolding related_def using child_rel_parents [OF assms] trancl_into_rtrancl by metis
next
  assume ?R
  then obtain y z where yz: "related h x y" "(y, z) \<in> link_rel g" "Q z" by blast
  show ?L
  proof (cases "(x, y) \<in> (parents h)\<^sup>*")
    case True
    with yz descendant_in_graph [OF assms True family_okD(3) [OF assms yz(2)]] show ?thesis by blast
  next
    case False
    with yz(1) have "(y, x) \<in> (parents h)\<^sup>+" unfolding related_def by (metis rtranclD rtrancl.rtrancl_refl)
    with yz show ?thesis by blast
  qed
qed

lemma HasOutgoingLinks_related:
  assumes "family_ok h g"
  shows "HasOutgoingLinks h g x \<longleftrightarrow> (\<exists>y z. related h x y \<and> (y, z) \<in> link_rel g)"
  unfolding HasOutgoingLinks_def children_links any_parent_iff direct_links
  using related_links [OF assms, of x "\<lambda>_. True"] by simp

lemma HasOutgoingMutableNodes_related:
  assumes "family_ok h g"
  shows "HasOutgoingMutableNodes h g x \<longleftrightarrow>
    (\<exists>y z. related h x y \<and> (y, z) \<in> link_rel g \<and> v_value_type (var h z) = ReferenceMut)"
  unfolding HasOutgoingMutableNodes_def children_mutable any_parent_iff direct_mutable
  using related_links [OF assms, of x "\<lambda>z. v_value_type (var h z) = ReferenceMut"] .

definition exclusive :: "Heap \<Rightarrow> ReferencesGraph \<Rightarrow> bool" where
  "exclusive h g \<longleftrightarrow> (\<forall>x m x' y. (x, m) \<in> link_rel g \<and> v_value_type (var h m) = ReferenceMut \<and>
     (x', y) \<in> link_rel g \<and> related h x x' \<longrightarrow> x' = x \<and> y = m)"



section \<open>Branches and loops\<close>

lemma g_nodes_fold_merge_link [simp]: "g_nodes (fold merge_link ls r) = g_nodes r"
  by (induction ls arbitrary: r) (auto simp: merge_link_def)

lemma g_links_fold_merge_link: "set (g_links (fold merge_link ls r)) = set ls \<union> set (g_links r)"
  by (induction ls arbitrary: r) (auto simp: merge_link_def)

lemma merge_node_map:
  assumes "merge_node h loc (n, m) (r, errs) = (r', errs')"
  shows "map_of (g_nodes r) \<subseteq>\<^sub>m map_of (g_nodes r')" and "map_of (g_nodes r') \<subseteq>\<^sub>m map_of (g_nodes r @ [(n, m)])"
    and "n \<in> dom (map_of (g_nodes r'))"
    and "g_links r' = g_links r"
    and "errs' = errs \<longleftrightarrow> map_of (g_nodes r') n = Some m" and "\<exists>es. errs' = errs @ es"
proof -
  have "n \<notin> fst ` set (g_nodes r) \<Longrightarrow> map_of (g_nodes r) n = None" by (simp add: map_of_eq_None_iff)
  moreover have "n \<in> fst ` set (g_nodes r) \<Longrightarrow> n \<in> dom (map_of (g_nodes r))" by (simp add: dom_map_of_conv_image_fst)
  ultimately show "map_of (g_nodes r) \<subseteq>\<^sub>m map_of (g_nodes r')" "map_of (g_nodes r') \<subseteq>\<^sub>m map_of (g_nodes r @ [(n, m)])"
    "n \<in> dom (map_of (g_nodes r'))" "g_links r' = g_links r" "errs' = errs \<longleftrightarrow> map_of (g_nodes r') n = Some m"
    "\<exists>es. errs' = errs @ es"
    using assms
    by (auto simp: merge_node_def Let_def has_node_def map_le_def map_add_def split: if_splits option.splits)
qed

text \<open>What merging a list of node states into a result does, and when it reports nothing new.\<close>

definition merged :: "(VariablePtr \<times> bool) list \<Rightarrow> checked_graph \<Rightarrow> checked_graph \<Rightarrow> bool" where
  "merged ps re re' \<longleftrightarrow>
    map_of (g_nodes (fst re)) \<subseteq>\<^sub>m map_of (g_nodes (fst re')) \<and>
    (\<forall>n m. map_of (g_nodes (fst re')) n = Some m \<longrightarrow> map_of (g_nodes (fst re)) n = Some m \<or> (n, m) \<in> set ps) \<and>
    fst ` set ps \<subseteq> dom (map_of (g_nodes (fst re'))) \<and> (\<exists>es. snd re' = snd re @ es) \<and>
    (snd re' = snd re \<longleftrightarrow> (\<forall>n m. (n, m) \<in> set ps \<longrightarrow> map_of (g_nodes (fst re')) n = Some m))"

lemma merged_Nil: "merged [] re re"
  by (simp add: merged_def)

lemma mergedD:
  assumes "merged ps re re'"
  shows "map_of (g_nodes (fst re)) \<subseteq>\<^sub>m map_of (g_nodes (fst re'))"
    and "map_of (g_nodes (fst re')) n = Some m \<Longrightarrow> map_of (g_nodes (fst re)) n = Some m \<or> (n, m) \<in> set ps"
    and "fst ` set ps \<subseteq> dom (map_of (g_nodes (fst re')))" and "\<exists>es. snd re' = snd re @ es"
    and "snd re' = snd re \<longleftrightarrow> (\<forall>n m. (n, m) \<in> set ps \<longrightarrow> map_of (g_nodes (fst re')) n = Some m)"
  using assms unfolding merged_def by blast+

lemma merged_trans:
  assumes "merged ps re re1" and "merged qs re1 re2"
  shows "merged (ps @ qs) re re2"
proof -
  note d1 = mergedD [OF assms(1)] and d2 = mergedD [OF assms(2)]
  have keep: "map_of (g_nodes (fst re1)) n = Some m \<longleftrightarrow> map_of (g_nodes (fst re2)) n = Some m" if "(n, m) \<in> set ps" for n m
  proof -
    have "n \<in> dom (map_of (g_nodes (fst re1)))"
      using subsetD [OF d1(3) imageI [OF that, of fst]] by simp
    then have "map_of (g_nodes (fst re1)) n = map_of (g_nodes (fst re2)) n" using d2(1) by (simp add: map_le_def)
    then show ?thesis by simp
  qed
  obtain es fs where es: "snd re1 = snd re @ es" "snd re2 = snd re1 @ fs" using d1(4) d2(4) by blast
  have same: "(\<forall>n m. (n, m) \<in> set ps \<longrightarrow> map_of (g_nodes (fst re1)) n = Some m) \<longleftrightarrow>
      (\<forall>n m. (n, m) \<in> set ps \<longrightarrow> map_of (g_nodes (fst re2)) n = Some m)"
    using keep by blast
  have "snd re2 = snd re \<longleftrightarrow> snd re1 = snd re \<and> snd re2 = snd re1" using es by auto
  also have "\<dots> \<longleftrightarrow> (\<forall>n m. (n, m) \<in> set (ps @ qs) \<longrightarrow> map_of (g_nodes (fst re2)) n = Some m)"
    unfolding d1(5) d2(5) same by auto
  finally have "snd re2 = snd re \<longleftrightarrow> (\<forall>n m. (n, m) \<in> set (ps @ qs) \<longrightarrow> map_of (g_nodes (fst re2)) n = Some m)" .
  moreover have "fst ` set (ps @ qs) \<subseteq> dom (map_of (g_nodes (fst re2)))"
    using d1(3) d2(3) map_le_implies_dom_le [OF d2(1)] unfolding set_append image_Un by blast
  moreover have "map_of (g_nodes (fst re)) n = Some m \<or> (n, m) \<in> set (ps @ qs)"
    if "map_of (g_nodes (fst re2)) n = Some m" for n m
    using d2(2) [OF that] d1(2) by auto
  ultimately show ?thesis
    unfolding merged_def using map_le_trans [OF d1(1) d2(1)] es by simp
qed

lemma merged_node: "merged [p] re (merge_node h loc p re)"
proof -
  obtain n m r errs r' errs' where p: "p = (n, m)" "re = (r, errs)" "merge_node h loc (n, m) (r, errs) = (r', errs')"
    by (metis surj_pair)
  note l = merge_node_map [OF p(3)]
  have "map_of (g_nodes r) x = Some v \<or> (x, v) \<in> set [(n, m)]" if "map_of (g_nodes r') x = Some v" for x v
  proof -
    have "map_of (g_nodes r @ [(n, m)]) x = Some v"
      using l(2) that by (metis domI map_le_def)
    then show ?thesis by (auto simp: map_add_Some_iff split: if_splits)
  qed
  with l p show ?thesis by (simp add: merged_def)
qed

lemma merged_fold_nodes: "merged ps re (fold (merge_node h loc) ps re)"
proof (induction ps arbitrary: re)
  case (Cons p ps)
  from merged_trans [OF merged_node Cons.IH] show ?case by simp
qed (simp add: merged_Nil)

lemma merged_branch: "merged (g_nodes b) re (merge_branch h loc b re)"
  using merged_fold_nodes [of "g_nodes b" re h loc]
  by (cases "fold (merge_node h loc) (g_nodes b) re") (simp add: merge_branch_def merged_def)

lemma links_fold_merge_node: "g_links (fst (fold (merge_node h loc) ps re)) = g_links (fst re)"
proof (induction ps arbitrary: re)
  case (Cons p ps)
  moreover have "g_links (fst (merge_node h loc p re)) = g_links (fst re)"
    using merge_node_map(4) by (metis prod.collapse)
  ultimately show ?case by simp
qed simp

lemma links_merge_branch: "set (g_links (fst (merge_branch h loc b re))) = set (g_links b) \<union> set (g_links (fst re))"
  using links_fold_merge_node [of h loc "g_nodes b" re]
  by (cases "fold (merge_node h loc) (g_nodes b) re") (simp add: merge_branch_def g_links_fold_merge_link)

lemma merged_branches:
  "merged (concat (map g_nodes bs)) re (fold (merge_branch h loc) bs re) \<and>
    set (g_links (fst (fold (merge_branch h loc) bs re))) = (\<Union>b \<in> set bs. set (g_links b)) \<union> set (g_links (fst re))"
proof (induction bs arbitrary: re)
  case (Cons b bs)
  from Cons.IH [of "merge_branch h loc b re"] merged_trans [OF merged_branch [of b re h loc]]
    links_merge_branch [of h loc b re]
  show ?case by (simp add: Un_ac)
qed (simp add: merged_Nil)


lemma GetNodeInputLinks_set: "set (GetNodeInputLinks h g x) = {a. \<exists>y. (y, x) \<in> (parents h)\<^sup>* \<and> (a, y) \<in> link_rel g}"
proof (induction x rule: wf_induct_rule [OF wf_parents [of h]])
  case (1 x)
  show ?case
  proof (cases "v_parent (var h x)")
    case None
    then have "(y, x) \<in> (parents h)\<^sup>* \<longleftrightarrow> y = x" for y by (auto simp: parents_iff elim: rtranclE)
    with None show ?thesis by (subst GetNodeInputLinks.simps) (simp add: set_input_nodes)
  next
    case (Some q)
    then have "(y, x) \<in> (parents h)\<^sup>* \<longleftrightarrow> y = x \<or> (y, q) \<in> (parents h)\<^sup>*" for y
      by (auto simp: parents_iff elim: rtranclE intro: rtrancl_into_rtrancl)
    with Some 1 [of q] show ?thesis
      by (subst GetNodeInputLinks.simps) (auto simp: set_input_nodes parents_iff)
  qed
qed

lemma check_node_after_loop_Nil:
  "check_node_after_loop h before after loc (n, moved) = [] \<longleftrightarrow>
    (map_of (g_nodes after) n = Some True \<longrightarrow> moved) \<and>
    (v_value_type (var h n) = Value \<longrightarrow> (\<forall>i \<in> set (v_inner_reference_nodes (var h n)).
       set (GetNodeInputLinks h after i) \<subseteq> set (GetNodeInputLinks h before i)))"
  by (auto simp: check_node_after_loop_def filter_empty_conv)


section \<open>Removing and moving nodes\<close>

lemma has_node_delete: "has_node (g \<lparr> g_nodes := AList.delete n (g_nodes g) \<rparr>) x \<longleftrightarrow> x \<noteq> n \<and> has_node g x"
  by (force simp: has_node_def AList.delete_eq)

lemma has_node_RemoveNodeLinks [simp]: "has_node (RemoveNodeLinks h n g) x \<longleftrightarrow> has_node g x"
  by (simp add: has_node_def)

lemma fold_keeps:
  assumes "\<And>y g. y \<in> set ys \<Longrightarrow> P (f y g) \<longleftrightarrow> P g"
  shows "P (fold f ys g) \<longleftrightarrow> P g"
  using assms by (induction ys arbitrary: g) auto

lemma RemoveNode_keeps_others:
  "(x, n) \<notin> (owned h)\<^sup>* \<Longrightarrow> has_node (RemoveNode h n g) x \<longleftrightarrow> has_node g x"
proof (induction n arbitrary: g rule: wf_induct_rule [OF wf_owned [of h]])
  case (1 n)
  have IH: "has_node (RemoveNode h c g) x \<longleftrightarrow> has_node g x" if "(c, n) \<in> owned h" for c g
    using 1 that by (blast intro: rtrancl_into_rtrancl)
  have inner: "has_node (fold (RemoveNode h) (v_inner_reference_nodes (var h n)) g) x \<longleftrightarrow> has_node g x" for g
    by (rule fold_keeps) (simp add: IH owned_inner)
  have children: "has_node (fold (\<lambda>child g. case child of Some c \<Rightarrow> RemoveNode h c g | None \<Rightarrow> g) (v_children (var h n)) g) x
      \<longleftrightarrow> has_node g x" for g
    by (rule fold_keeps) (auto simp: IH owned_child split: option.splits)
  have "x \<noteq> n" using 1(2) by auto
  then show ?case
    by (subst RemoveNode.simps) (simp add: Let_def has_node_delete children inner del: g_nodes_RemoveNodeLinks)
qed

lemma not_own_parent: "v_parent (var h n) \<noteq> Some n"
  using wf_parents [of h] by (metis parents_iff wf_not_refl)


lemma map_of_set_moved: "map_of (g_nodes (set_moved n g)) = (map_of (g_nodes g))(n \<mapsto> True)"
  by (simp add: set_moved_def update_conv')

lemma fold_RemoveNodeLinks_nodes [simp]: "g_nodes (fold (RemoveNodeLinks h) ns g) = g_nodes g"
  by (induction ns arbitrary: g) auto

lemma fold_holds:
  assumes "\<And>y g. y \<in> set ys \<Longrightarrow> P g \<Longrightarrow> P (f y g)" and "P g"
  shows "P (fold f ys g)"
  using assms by (induction ys arbitrary: g) auto

lemma MoveNode_keeps_moved: "map_of (g_nodes g) x = Some True \<Longrightarrow> map_of (g_nodes (MoveNode h n g)) x = Some True"
proof (induction n arbitrary: g rule: wf_induct_rule [OF wf_owned [of h]])
  case (1 n)
  have "map_of (g_nodes (fold (\<lambda>child g. case child of Some c \<Rightarrow> if has_node g c then MoveNode h c g else g | None \<Rightarrow> g)
      (v_children (var h n)) g)) x = Some True" if "map_of (g_nodes g) x = Some True" for g
    using that by (intro fold_holds [where P = "\<lambda>g. map_of (g_nodes g) x = Some True"])
      (auto split: option.splits intro: 1(1) owned_child)
  with 1(2) show ?case by (subst MoveNode.simps) (simp add: Let_def map_of_set_moved)
qed


section \<open>A small program\<close>

text \<open>A variable \<open>x\<close> with a mutable reference \<open>r\<close> and an immutable reference \<open>s\<close>.\<close>

definition simple_var :: "string \<Rightarrow> ValueType \<Rightarrow> Variable" where
  "simple_var name ty = no_variable \<lparr> v_name := str name, v_value_type := ty \<rparr>"

lift_definition xrs_heap :: Heap is
  "[simple_var ''x'' Value, simple_var ''r'' ReferenceMut, simple_var ''s'' ReferenceImut]"
  by (simp add: owned_of_def parents_of_def simple_var_def no_variable_def nth_Cons' cong: conj_cong)

lemma xrs_var: "var xrs_heap 0 = simple_var ''x'' Value" "var xrs_heap (Suc 0) = simple_var ''r'' ReferenceMut"
  "var xrs_heap 2 = simple_var ''s'' ReferenceImut"
  by (transfer; simp)+

lemma xrs_parent: "v_parent (var xrs_heap p) = None" and xrs_children: "v_children (var xrs_heap p) = []"
  and xrs_inner: "v_inner_reference_nodes (var xrs_heap p) = []"
  by (transfer; simp add: simple_var_def no_variable_def nth_Cons')+

definition x_only :: ReferencesGraph where
  "x_only = \<lparr> g_nodes = [(0, False), (1, False), (2, False)], g_links = [] \<rparr>"

definition x_r_s :: ReferencesGraph where
  "x_r_s = \<lparr> g_nodes = [(0, False), (1, False), (2, False)], g_links = [Link 0 1, Link 1 2] \<rparr>"


lemma x_only_ok: "family_ok xrs_heap x_only" "exclusive xrs_heap x_only"
  by (auto simp: family_ok_def exclusive_def xrs_parent xrs_children x_only_def link_rel_def)

lemma x_only_outgoing: "\<not> HasOutgoingLinks xrs_heap x_only p" "\<not> HasOutgoingMutableNodes xrs_heap x_only p"
  using HasOutgoingLinks_related [OF x_only_ok(1)] HasOutgoingMutableNodes_related [OF x_only_ok(1)]
  by (auto simp: x_only_def link_rel_def)


lift_definition inner_heap :: Heap is
  "[simple_var ''a'' Value, (simple_var ''b'' ReferenceMut) \<lparr> v_is_variable_inner_reference_node := True \<rparr>]"
  by (simp add: owned_of_def parents_of_def simple_var_def no_variable_def nth_Cons' cong: conj_cong)

lemma inner_var: "v_value_type (var inner_heap (Suc 0)) = ReferenceMut"
  "v_is_variable_inner_reference_node (var inner_heap (Suc 0))"
  by (transfer; simp add: simple_var_def no_variable_def)+

lemma inner_no_family: "parents inner_heap = {}" and inner_children: "v_children (var inner_heap p) = []"
  by (transfer; auto simp: parents_of_def simple_var_def no_variable_def nth_Cons')+


definition x_moved :: ReferencesGraph where
  "x_moved = \<lparr> g_nodes = [(0, True), (1, False), (2, False)], g_links = [] \<rparr>"





end
