(* ===== verification/Syntax_Enums.thy ===== *)
theory Syntax_Enums
  imports U_Prelude
begin

text \<open>
  The enumerations of \<^verbatim>\<open>source/compiler0/lex_synt_lib/syntax_elements.hpp\<close>, which the syntax tree shares with the code builder.
\<close>

datatype MutabilityModifier = NoMutability | Mutable | Immutable | Constexpr

datatype ReferenceModifier = NoReference | Reference

datatype VirtualFunctionKind = NotVirtual | DeclareVirtual | VirtualOverride | VirtualFinal | VirtualPure

datatype ClassKindAttribute =
  StructAttribute | ClassAttribute | FinalAttribute | PolymorphAttribute | InterfaceAttribute | AbstractAttribute

datatype ClassMemberVisibility = Public | Protected | Private

datatype CoroutineKind = Generator | AsyncFunc

datatype BlockSafety = NoSafety | Safe | Unsafe

datatype FunctionBodyKind = NoBodyKind | BodyGenerationRequired | BodyGenerationDisabled

datatype FunctionKind = RegularFunction | GeneratorFunction | AsyncFunction

end
