(* ===== verification/Types.thy ===== *)
theory Types
  imports Lang_Types Syntax_Enums
begin

text \<open>
  \<^verbatim>\<open>source/compiler0/code_builder_lib/type.hpp\<close> and \<^verbatim>\<open>type.cpp\<close> with the parts of \<^verbatim>\<open>class.hpp\<close>,
  \<^verbatim>\<open>class.cpp\<close>, \<^verbatim>\<open>enum.hpp\<close>, \<^verbatim>\<open>coroutine.hpp\<close>, \<^verbatim>\<open>coroutine.cpp\<close>, \<^verbatim>\<open>typeinfo.hpp\<close> and
  \<^verbatim>\<open>template_types.hpp\<close>, \<^verbatim>\<open>template_types.cpp\<close> that types need: the representation of types, their equality
  and hash, their properties, inner references, and conversions between them.

  Classes, enums, namespaces and templates are objects with identity in C++; a pointer to one is an address, and a
  \<open>Tables\<close> record gives the object at an address. An \<open>llvm::Type*\<close> is an opaque address, the null
  pointer being 0; \<open>llvm::hash_combine\<close> is a parameter, a function on the list of its arguments. A failed
  assertion is the value \<open>None\<close>.
\<close>

section \<open>Representation\<close>

type_synonym LlvmPtr = u64
type_synonym ClassPtr = u64
type_synonym EnumPtr = u64
type_synonym NamesScopePtr = u64
type_synonym TypeTemplatePtr = u64

datatype InnerReferenceKind = Imut | Mut

datatype SecondOrderInnerReferenceKind = NoneKind | SecondImut | SecondMut

record InnerReference =
  ir_kind :: InnerReferenceKind
  ir_second_order_kind :: SecondOrderInnerReferenceKind

datatype CallingConvention = Default | C | Fast | Cold | System

type_synonym ParamReference = "u8 \<times> u8"

record ReferencePollution =
  rp_dst :: ParamReference
  rp_src :: ParamReference

datatype Type =
    Fundamental U_FundamentalType LlvmPtr
  | Array Type u64 LlvmPtr
  | RawPointer Type LlvmPtr
  | ClassType ClassPtr
  | EnumType EnumPtr
  | FunctionPointer FunctionType LlvmPtr
  | Tuple "Type list" LlvmPtr
and FunctionType =
    FunctionType
      (params: "Param list") (return_type: Type) (return_value_type: ValueType) (unsafe: bool)
      (calling_convention: CallingConvention) (return_references: "ParamReference list")
      (return_inner_references: "ParamReference list list") (references_pollution: "ReferencePollution list")
and Param = Param (p_type: Type) (p_value_type: ValueType)

definition c_param_reference_number :: u8 where
  "c_param_reference_number = 255"

section \<open>Classes and enums\<close>

datatype ClassKind = Struct | NonPolymorph | Interface | Abstract | PolymorphNonFinal | PolymorphFinal

record TypeinfoClassDescription =
  td_source_type :: Type
  td_is_main_class :: bool

record CoroutineTypeDescription =
  cd_kind :: CoroutineKind
  cd_return_type :: Type
  cd_return_value_type :: ValueType
  cd_return_references :: "ParamReference list"
  cd_return_inner_references :: "ParamReference list list"
  cd_inner_references :: "InnerReferenceKind list"
  cd_non_sync :: bool

record TemplateVariableArg =
  tv_type :: Type
  tv_constexpr_value :: LlvmPtr

datatype TemplateArg =
    VariableArg TemplateVariableArg
  | TypeArg Type
  | TypeTemplateArg TypeTemplatePtr

record BaseTemplate =
  bt_class_template :: TypeTemplatePtr
  bt_signature_args :: "TemplateArg list"

datatype GeneratedClassData =
    NonGeneratedClassTag
  | BaseTemplateData BaseTemplate
  | TypeinfoData TypeinfoClassDescription
  | CoroutineData CoroutineTypeDescription
  | LambdaClassData

record Parent =
  pa_class :: ClassPtr
  pa_field_number :: u32

record Class =
  c_members :: NamesScopePtr
  c_members_visibility :: "byte list \<Rightarrow> ClassMemberVisibility option"
  c_kind :: ClassKind
  c_inner_references :: "InnerReference list"
  c_is_default_constructible :: bool
  c_is_copy_constructible :: bool
  c_has_destructor :: bool
  c_is_copy_assignable :: bool
  c_is_equality_comparable :: bool
  c_can_be_constexpr :: bool
  c_no_discard :: bool
  c_llvm_type :: LlvmPtr
  c_generated_class_data :: GeneratedClassData
  c_parents :: "Parent list"

record Enum =
  e_members :: NamesScopePtr
  e_element_count :: u32
  e_no_discard :: bool
  e_underlying_type :: U_FundamentalType
  e_underlying_llvm_type :: LlvmPtr

text \<open>The objects that pointers to classes and to enums refer to.\<close>

record Tables =
  classes :: "ClassPtr \<Rightarrow> Class"
  enums :: "EnumPtr \<Rightarrow> Enum"

definition GetMemberVisibility :: "Class \<Rightarrow> byte list \<Rightarrow> ClassMemberVisibility" where
  "GetMemberVisibility c member_name =
    (case c_members_visibility c member_name of None \<Rightarrow> Public | Some v \<Rightarrow> v)"

definition SetMemberVisibility :: "byte list \<Rightarrow> ClassMemberVisibility \<Rightarrow> Class \<Rightarrow> Class" where
  "SetMemberVisibility member_name visibility c =
    (if visibility = Public then c
     else c \<lparr> c_members_visibility := (c_members_visibility c)(member_name \<mapsto> visibility) \<rparr>)"

text \<open>
  The loop over the parents of a class, with the recursive call for each parent. On a table whose
  inheritance has a cycle the recursion may not end, which is the value \<open>None\<close>.
\<close>

partial_function (option) HasAncestor_loop :: "(ClassPtr \<Rightarrow> Class) \<Rightarrow> ClassPtr list \<Rightarrow> ClassPtr \<Rightarrow> bool option" where
  "HasAncestor_loop cs ps c =
    (case ps of
       [] \<Rightarrow> Some False
     | p # ps' \<Rightarrow>
         if p = c then Some True
         else Option.bind (HasAncestor_loop cs (map pa_class (c_parents (cs p))) c)
           (\<lambda>r. if r then Some True else HasAncestor_loop cs ps' c))"

definition HasAncestor :: "(ClassPtr \<Rightarrow> Class) \<Rightarrow> ClassPtr \<Rightarrow> ClassPtr \<Rightarrow> bool option" where
  "HasAncestor cs this c = HasAncestor_loop cs (map pa_class (c_parents (cs this))) c"

section \<open>Equality\<close>

text \<open>
  \<open>operator==\<close> of types, of vectors of types, of function types and of parameters. The pointers to LLVM types take no
  part in it.
\<close>

fun Type_eq :: "Type \<Rightarrow> Type \<Rightarrow> bool"
  and Types_eq :: "Type list \<Rightarrow> Type list \<Rightarrow> bool"
  and FunctionType_eq :: "FunctionType \<Rightarrow> FunctionType \<Rightarrow> bool"
  and Param_eq :: "Param \<Rightarrow> Param \<Rightarrow> bool"
  and Params_eq :: "Param list \<Rightarrow> Param list \<Rightarrow> bool"
where
  "Type_eq (Fundamental a _) r = (case r of Fundamental b _ \<Rightarrow> a = b | _ \<Rightarrow> False)" |
  "Type_eq (Array a n _) r = (case r of Array b m _ \<Rightarrow> Type_eq a b \<and> n = m | _ \<Rightarrow> False)" |
  "Type_eq (RawPointer a _) r = (case r of RawPointer b _ \<Rightarrow> Type_eq a b | _ \<Rightarrow> False)" |
  "Type_eq (ClassType a) r = (case r of ClassType b \<Rightarrow> a = b | _ \<Rightarrow> False)" |
  "Type_eq (EnumType a) r = (case r of EnumType b \<Rightarrow> a = b | _ \<Rightarrow> False)" |
  "Type_eq (FunctionPointer f _) r = (case r of FunctionPointer g _ \<Rightarrow> FunctionType_eq f g | _ \<Rightarrow> False)" |
  "Type_eq (Tuple ts _) r = (case r of Tuple us _ \<Rightarrow> Types_eq ts us | _ \<Rightarrow> False)" |
  "Types_eq [] us = (us = [])" |
  "Types_eq (t # ts) us = (case us of [] \<Rightarrow> False | u # us' \<Rightarrow> Type_eq t u \<and> Types_eq ts us')" |
  "FunctionType_eq (FunctionType ps t vt un cc rr rir rp) g =
    (Type_eq t (return_type g) \<and> vt = return_value_type g \<and> Params_eq ps (params g) \<and>
     rr = return_references g \<and> rir = return_inner_references g \<and> rp = references_pollution g \<and>
     un = unsafe g \<and> cc = calling_convention g)" |
  "Param_eq (Param t vt) q = (Type_eq t (p_type q) \<and> vt = p_value_type q)" |
  "Params_eq [] qs = (qs = [])" |
  "Params_eq (p # ps) qs = (case qs of [] \<Rightarrow> False | q # qs' \<Rightarrow> Param_eq p q \<and> Params_eq ps qs')"

text \<open>\<open>operator<\<close> of \<open>std::pair\<close>, and of \<open>ReferencePollution\<close>.\<close>

definition ParamReference_less :: "ParamReference \<Rightarrow> ParamReference \<Rightarrow> bool" where
  "ParamReference_less a b \<longleftrightarrow> fst a < fst b \<or> \<not> fst b < fst a \<and> snd a < snd b"

definition ReferencePollution_less :: "ReferencePollution \<Rightarrow> ReferencePollution \<Rightarrow> bool" where
  "ReferencePollution_less a b =
    (if rp_dst a \<noteq> rp_dst b then ParamReference_less (rp_dst a) (rp_dst b)
     else ParamReference_less (rp_src a) (rp_src b))"

definition CoroutineTypeDescription_eq :: "CoroutineTypeDescription \<Rightarrow> CoroutineTypeDescription \<Rightarrow> bool" where
  "CoroutineTypeDescription_eq l r \<longleftrightarrow>
    cd_kind l = cd_kind r \<and> Type_eq (cd_return_type l) (cd_return_type r) \<and>
    cd_return_value_type l = cd_return_value_type r \<and> cd_return_references l = cd_return_references r \<and>
    cd_return_inner_references l = cd_return_inner_references r \<and>
    cd_inner_references l = cd_inner_references r \<and> cd_non_sync l = cd_non_sync r"

definition TemplateVariableArg_eq :: "TemplateVariableArg \<Rightarrow> TemplateVariableArg \<Rightarrow> bool" where
  "TemplateVariableArg_eq l r \<longleftrightarrow> Type_eq (tv_type l) (tv_type r) \<and> tv_constexpr_value l = tv_constexpr_value r"

fun TemplateArg_eq :: "TemplateArg \<Rightarrow> TemplateArg \<Rightarrow> bool" where
  "TemplateArg_eq (VariableArg a) (VariableArg b) = TemplateVariableArg_eq a b" |
  "TemplateArg_eq (TypeArg a) (TypeArg b) = Type_eq a b" |
  "TemplateArg_eq (TypeTemplateArg a) (TypeTemplateArg b) = (a = b)" |
  "TemplateArg_eq _ _ = False"

record TemplateKey =
  tk_template :: u64
  tk_args :: "TemplateArg list"

definition TemplateKey_eq :: "TemplateKey \<Rightarrow> TemplateKey \<Rightarrow> bool" where
  "TemplateKey_eq l r \<longleftrightarrow> tk_template l = tk_template r \<and> list_all2 TemplateArg_eq (tk_args l) (tk_args r)"

section \<open>Hash\<close>

text \<open>The kinds of arguments that are passed to \<open>llvm::hash_combine\<close>.\<close>

datatype HashArg =
    HSize u64
  | HValueType ValueType
  | HBool bool
  | HCallingConvention CallingConvention
  | HParamReference ParamReference
  | HCoroutineKind CoroutineKind
  | HInnerReferenceKind InnerReferenceKind
  | HPointer LlvmPtr

type_synonym HashCombine = "HashArg list \<Rightarrow> u64"

text \<open>\<open>size_t\<close> of an enumerator of \<open>U_FundamentalType\<close>: its position in the enumeration.\<close>

definition fundamental_types :: "U_FundamentalType list" where
  "fundamental_types =
    [InvalidType, void_t, bool_t, i8_t, u8_t, i16_t, u16_t, i32_t, u32_t, i64_t, u64_t, i128_t, u128_t,
     ssize_type_t, size_type_t, f32_t, f64_t, char8_t, char16_t, char32_t,
     byte8_t, byte16_t, byte32_t, byte64_t, byte128_t, LastType]"

definition fundamental_index :: "U_FundamentalType \<Rightarrow> u64" where
  "fundamental_index t = word_of_nat (length (takeWhile (\<lambda>u. u \<noteq> t) fundamental_types))"

definition hash_references :: "HashCombine \<Rightarrow> ParamReference list \<Rightarrow> u64 \<Rightarrow> u64" where
  "hash_references hc = fold (\<lambda>r h. hc [HSize h, HParamReference r])"

definition hash_inner_references :: "HashCombine \<Rightarrow> ParamReference list list \<Rightarrow> u64 \<Rightarrow> u64" where
  "hash_inner_references hc = fold (hash_references hc)"

definition hash_pollution :: "HashCombine \<Rightarrow> ReferencePollution list \<Rightarrow> u64 \<Rightarrow> u64" where
  "hash_pollution hc = fold (\<lambda>p h. hc [HSize h, HParamReference (rp_dst p), HParamReference (rp_src p)])"

text \<open>Each case gives the index of the alternative in the variant and the hash of its content.\<close>

fun Type_Hash :: "HashCombine \<Rightarrow> Type \<Rightarrow> u64"
  and Types_Hash :: "HashCombine \<Rightarrow> Type list \<Rightarrow> u64 \<Rightarrow> u64"
  and FunctionType_Hash :: "HashCombine \<Rightarrow> FunctionType \<Rightarrow> u64"
  and Params_Hash :: "HashCombine \<Rightarrow> Param list \<Rightarrow> u64 \<Rightarrow> u64"
  and Param_Hash :: "HashCombine \<Rightarrow> Param \<Rightarrow> u64 \<Rightarrow> u64"
where
  "Type_Hash hc (Fundamental a _) = hc [HSize 0, HSize (fundamental_index a)]" |
  "Type_Hash hc (Array a n _) = hc [HSize 1, HSize (hc [HSize (Type_Hash hc a), HSize n])]" |
  "Type_Hash hc (RawPointer a _) = hc [HSize 2, HSize (Type_Hash hc a)]" |
  "Type_Hash hc (ClassType a) = hc [HSize 3, HSize a]" |
  "Type_Hash hc (EnumType a) = hc [HSize 4, HSize a]" |
  "Type_Hash hc (FunctionPointer f _) = hc [HSize 5, HSize (FunctionType_Hash hc f)]" |
  "Type_Hash hc (Tuple ts _) = hc [HSize 6, HSize (Types_Hash hc ts 0)]" |
  "Types_Hash hc [] h = h" |
  "Types_Hash hc (t # ts) h = Types_Hash hc ts (hc [HSize h, HSize (Type_Hash hc t)])" |
  "FunctionType_Hash hc (FunctionType ps t vt un cc rr rir rp) =
    (let h = Params_Hash hc ps 0;
         h = hc [HSize h, HSize (Type_Hash hc t), HValueType vt, HBool un, HCallingConvention cc]
     in hash_pollution hc rp (hash_inner_references hc rir (hash_references hc rr h)))" |
  "Params_Hash hc [] h = h" |
  "Params_Hash hc (p # ps) h = Params_Hash hc ps (Param_Hash hc p h)" |
  "Param_Hash hc (Param t vt) h = hc [HSize h, HSize (Type_Hash hc t), HValueType vt]"

definition CoroutineTypeDescription_Hash :: "HashCombine \<Rightarrow> CoroutineTypeDescription \<Rightarrow> u64" where
  "CoroutineTypeDescription_Hash hc d =
    (let h = hc [HCoroutineKind (cd_kind d), HSize (Type_Hash hc (cd_return_type d)),
                 HValueType (cd_return_value_type d), HBool (cd_non_sync d)];
         h = hash_inner_references hc (cd_return_inner_references d) (hash_references hc (cd_return_references d) h)
     in fold (\<lambda>k h. hc [HSize h, HInnerReferenceKind k]) (cd_inner_references d) h)"

fun TemplateArgHash :: "HashCombine \<Rightarrow> TemplateArg \<Rightarrow> u64" where
  "TemplateArgHash hc (VariableArg a) = hc [HSize (Type_Hash hc (tv_type a)), HPointer (tv_constexpr_value a)]" |
  "TemplateArgHash hc (TypeArg t) = Type_Hash hc t" |
  "TemplateArgHash hc (TypeTemplateArg p) = p"

definition TemplateKey_Hash :: "HashCombine \<Rightarrow> TemplateKey \<Rightarrow> u64" where
  "TemplateKey_Hash hc k = fold (\<lambda>a h. hc [HSize h, HSize (TemplateArgHash hc a)]) (tk_args k) (tk_template k)"

record ParameterizedFunctionTemplateKey =
  pk_functions_set :: u64
  pk_args :: "TemplateArg list"

definition ParameterizedFunctionTemplateKey_eq ::
  "ParameterizedFunctionTemplateKey \<Rightarrow> ParameterizedFunctionTemplateKey \<Rightarrow> bool" where
  "ParameterizedFunctionTemplateKey_eq l r \<longleftrightarrow>
    pk_functions_set l = pk_functions_set r \<and> list_all2 TemplateArg_eq (pk_args l) (pk_args r)"

definition ParameterizedFunctionTemplateKey_Hash :: "HashCombine \<Rightarrow> ParameterizedFunctionTemplateKey \<Rightarrow> u64" where
  "ParameterizedFunctionTemplateKey_Hash hc k =
    fold (\<lambda>a h. hc [HSize h, HSize (TemplateArgHash hc a)]) (pk_args k) (pk_functions_set k)"

section \<open>Access to the content of a type\<close>

definition GetFundamentalType :: "Type \<Rightarrow> U_FundamentalType option" where
  "GetFundamentalType t = (case t of Fundamental f _ \<Rightarrow> Some f | _ \<Rightarrow> None)"

definition GetFunctionPointerType :: "Type \<Rightarrow> FunctionType option" where
  "GetFunctionPointerType t = (case t of FunctionPointer f _ \<Rightarrow> Some f | _ \<Rightarrow> None)"

definition GetArrayType :: "Type \<Rightarrow> (Type \<times> u64) option" where
  "GetArrayType t = (case t of Array e n _ \<Rightarrow> Some (e, n) | _ \<Rightarrow> None)"

definition GetRawPointerType :: "Type \<Rightarrow> Type option" where
  "GetRawPointerType t = (case t of RawPointer e _ \<Rightarrow> Some e | _ \<Rightarrow> None)"

definition GetTupleType :: "Type \<Rightarrow> Type list option" where
  "GetTupleType t = (case t of Tuple ts _ \<Rightarrow> Some ts | _ \<Rightarrow> None)"

definition GetClassType :: "Type \<Rightarrow> ClassPtr option" where
  "GetClassType t = (case t of ClassType c \<Rightarrow> Some c | _ \<Rightarrow> None)"

definition GetEnumType :: "Type \<Rightarrow> EnumPtr option" where
  "GetEnumType t = (case t of EnumType e \<Rightarrow> Some e | _ \<Rightarrow> None)"

fun GetLLVMType :: "Tables \<Rightarrow> Type \<Rightarrow> LlvmPtr" where
  "GetLLVMType tb (Fundamental _ l) = l" |
  "GetLLVMType tb (Array _ _ l) = l" |
  "GetLLVMType tb (RawPointer _ l) = l" |
  "GetLLVMType tb (ClassType c) = c_llvm_type (classes tb c)" |
  "GetLLVMType tb (EnumType e) = e_underlying_llvm_type (enums tb e)" |
  "GetLLVMType tb (FunctionPointer _ l) = l" |
  "GetLLVMType tb (Tuple _ l) = l"

section \<open>Properties of types\<close>

fun IsDefaultConstructible :: "Tables \<Rightarrow> Type \<Rightarrow> bool" where
  "IsDefaultConstructible tb (Fundamental f _) = (f = void_t)" |
  "IsDefaultConstructible tb (ClassType c) = c_is_default_constructible (classes tb c)" |
  "IsDefaultConstructible tb (Array e n _) = (n = 0 \<or> IsDefaultConstructible tb e)" |
  "IsDefaultConstructible tb (Tuple ts _) = list_all (\<lambda>e. IsDefaultConstructible tb e) ts" |
  "IsDefaultConstructible tb _ = False"

fun IsCopyConstructible :: "Tables \<Rightarrow> Type \<Rightarrow> bool" where
  "IsCopyConstructible tb (ClassType c) = c_is_copy_constructible (classes tb c)" |
  "IsCopyConstructible tb (Array e n _) = (n = 0 \<or> IsCopyConstructible tb e)" |
  "IsCopyConstructible tb (Tuple ts _) = list_all (\<lambda>e. IsCopyConstructible tb e) ts" |
  "IsCopyConstructible tb _ = True"

fun IsCopyAssignable :: "Tables \<Rightarrow> Type \<Rightarrow> bool" where
  "IsCopyAssignable tb (ClassType c) = c_is_copy_assignable (classes tb c)" |
  "IsCopyAssignable tb (Array e n _) = (n = 0 \<or> IsCopyAssignable tb e)" |
  "IsCopyAssignable tb (Tuple ts _) = list_all (\<lambda>e. IsCopyAssignable tb e) ts" |
  "IsCopyAssignable tb _ = True"

fun IsEqualityComparable :: "Tables \<Rightarrow> Type \<Rightarrow> bool" where
  "IsEqualityComparable tb (ClassType c) = c_is_equality_comparable (classes tb c)" |
  "IsEqualityComparable tb (Array e n _) = IsEqualityComparable tb e" |
  "IsEqualityComparable tb (Tuple ts _) = list_all (\<lambda>e. IsEqualityComparable tb e) ts" |
  "IsEqualityComparable tb _ = True"

fun HasDestructor :: "Tables \<Rightarrow> Type \<Rightarrow> bool" where
  "HasDestructor tb (ClassType c) = c_has_destructor (classes tb c)" |
  "HasDestructor tb (Array e n _) = HasDestructor tb e" |
  "HasDestructor tb (Tuple ts _) = list_ex (\<lambda>e. HasDestructor tb e) ts" |
  "HasDestructor tb _ = False"

fun CanBeConstexpr :: "Tables \<Rightarrow> Type \<Rightarrow> bool" where
  "CanBeConstexpr tb (RawPointer _ _) = False" |
  "CanBeConstexpr tb (ClassType c) = c_can_be_constexpr (classes tb c)" |
  "CanBeConstexpr tb (Array e n _) = CanBeConstexpr tb e" |
  "CanBeConstexpr tb (Tuple ts _) = list_all (\<lambda>e. CanBeConstexpr tb e) ts" |
  "CanBeConstexpr tb _ = True"

fun IsAbstract :: "Tables \<Rightarrow> Type \<Rightarrow> bool" where
  "IsAbstract tb (ClassType c) = (c_kind (classes tb c) = Abstract \<or> c_kind (classes tb c) = Interface)" |
  "IsAbstract tb (Array e n _) = (n > 0 \<and> IsAbstract tb e)" |
  "IsAbstract tb (Tuple ts _) = list_ex (\<lambda>e. IsAbstract tb e) ts" |
  "IsAbstract tb _ = False"

fun IsValidForTemplateVariableArgument :: "Type \<Rightarrow> bool" where
  "IsValidForTemplateVariableArgument (Fundamental f _) = (IsInteger f \<or> IsChar f \<or> IsByte f \<or> f = bool_t)" |
  "IsValidForTemplateVariableArgument (EnumType _) = True" |
  "IsValidForTemplateVariableArgument (Array e _ _) = IsValidForTemplateVariableArgument e" |
  "IsValidForTemplateVariableArgument (Tuple ts _) = list_all (\<lambda>e. IsValidForTemplateVariableArgument e) ts" |
  "IsValidForTemplateVariableArgument _ = False"

fun IsNoDiscard :: "Tables \<Rightarrow> Type \<Rightarrow> bool" where
  "IsNoDiscard tb (ClassType c) = c_no_discard (classes tb c)" |
  "IsNoDiscard tb (EnumType e) = e_no_discard (enums tb e)" |
  "IsNoDiscard tb (Array e _ _) = IsNoDiscard tb e" |
  "IsNoDiscard tb (Tuple ts _) = list_ex (\<lambda>e. IsNoDiscard tb e) ts" |
  "IsNoDiscard tb _ = False"

section \<open>Inner references\<close>

fun ReferenceTagCount :: "Tables \<Rightarrow> Type \<Rightarrow> nat" where
  "ReferenceTagCount tb (ClassType c) = length (c_inner_references (classes tb c))" |
  "ReferenceTagCount tb (Array e _ _) = ReferenceTagCount tb e" |
  "ReferenceTagCount tb (Tuple ts _) = fold (\<lambda>e result. result + ReferenceTagCount tb e) ts 0" |
  "ReferenceTagCount tb _ = 0"

text \<open>The loop over the elements of a tuple carries the offset of the first tag of the element.\<close>

fun GetInnerReferenceKind :: "Tables \<Rightarrow> Type \<Rightarrow> nat \<Rightarrow> InnerReferenceKind option"
  and GetInnerReferenceKind_loop :: "Tables \<Rightarrow> Type list \<Rightarrow> nat \<Rightarrow> nat \<Rightarrow> InnerReferenceKind option"
where
  "GetInnerReferenceKind tb (ClassType c) index =
    (let rs = c_inner_references (classes tb c) in if index < length rs then Some (ir_kind (rs ! index)) else None)" |
  "GetInnerReferenceKind tb (Array e _ _) index = GetInnerReferenceKind tb e index" |
  "GetInnerReferenceKind tb (Tuple ts _) index = GetInnerReferenceKind_loop tb ts 0 index" |
  "GetInnerReferenceKind tb _ index = None" |
  "GetInnerReferenceKind_loop tb [] offset index = None" |
  "GetInnerReferenceKind_loop tb (e # ts) offset index =
    (let count = ReferenceTagCount tb e in
     if index \<ge> offset \<and> index < offset + count then GetInnerReferenceKind tb e (index - offset)
     else GetInnerReferenceKind_loop tb ts (offset + count) index)"

fun GetSecondOrderInnerReferenceKind :: "Tables \<Rightarrow> Type \<Rightarrow> nat \<Rightarrow> SecondOrderInnerReferenceKind option"
  and GetSecondOrderInnerReferenceKind_loop ::
    "Tables \<Rightarrow> Type list \<Rightarrow> nat \<Rightarrow> nat \<Rightarrow> SecondOrderInnerReferenceKind option"
where
  "GetSecondOrderInnerReferenceKind tb (ClassType c) index =
    (let rs = c_inner_references (classes tb c) in
     if index < length rs then Some (ir_second_order_kind (rs ! index)) else None)" |
  "GetSecondOrderInnerReferenceKind tb (Array e _ _) index = GetSecondOrderInnerReferenceKind tb e index" |
  "GetSecondOrderInnerReferenceKind tb (Tuple ts _) index = GetSecondOrderInnerReferenceKind_loop tb ts 0 index" |
  "GetSecondOrderInnerReferenceKind tb _ index = None" |
  "GetSecondOrderInnerReferenceKind_loop tb [] offset index = None" |
  "GetSecondOrderInnerReferenceKind_loop tb (e # ts) offset index =
    (let count = ReferenceTagCount tb e in
     if index \<ge> offset \<and> index < offset + count then GetSecondOrderInnerReferenceKind tb e (index - offset)
     else GetSecondOrderInnerReferenceKind_loop tb ts (offset + count) index)"

fun GetReferenceIndirectionDepth :: "Tables \<Rightarrow> Type \<Rightarrow> nat" where
  "GetReferenceIndirectionDepth tb (ClassType c) =
    fold (\<lambda>r depth. max depth (1 + (if ir_second_order_kind r = NoneKind then 0 else 1)))
      (c_inner_references (classes tb c)) 0" |
  "GetReferenceIndirectionDepth tb (Array e _ _) = GetReferenceIndirectionDepth tb e" |
  "GetReferenceIndirectionDepth tb (Tuple ts _) = fold (\<lambda>e depth. max depth (GetReferenceIndirectionDepth tb e)) ts 0" |
  "GetReferenceIndirectionDepth tb _ = 0"

fun ContainsMutableReferences :: "Tables \<Rightarrow> Type \<Rightarrow> bool" where
  "ContainsMutableReferences tb (ClassType c) =
    list_ex (\<lambda>r. ir_kind r = Mut \<or> ir_second_order_kind r = SecondMut) (c_inner_references (classes tb c))" |
  "ContainsMutableReferences tb (Array e _ _) = ContainsMutableReferences tb e" |
  "ContainsMutableReferences tb (Tuple ts _) = list_ex (\<lambda>e. ContainsMutableReferences tb e) ts" |
  "ContainsMutableReferences tb _ = False"

section \<open>Conversions\<close>

text \<open>The loop over the parents; the recursive call first compares the parent with the target again.\<close>

partial_function (option) ReferenceIsConvertibleTo_loop ::
  "(ClassPtr \<Rightarrow> Class) \<Rightarrow> ClassPtr list \<Rightarrow> ClassPtr \<Rightarrow> bool option" where
  "ReferenceIsConvertibleTo_loop cs ps other =
    (case ps of
       [] \<Rightarrow> Some False
     | p # ps' \<Rightarrow>
         if p = other then Some True
         else if Type_eq (ClassType p) (ClassType other) then Some True
         else Option.bind (ReferenceIsConvertibleTo_loop cs (map pa_class (c_parents (cs p))) other)
           (\<lambda>r. if r then Some True else ReferenceIsConvertibleTo_loop cs ps' other))"

definition ReferenceIsConvertibleTo :: "Tables \<Rightarrow> Type \<Rightarrow> Type \<Rightarrow> bool option" where
  "ReferenceIsConvertibleTo tb this other =
    (if Type_eq this other then Some True
     else case (GetClassType this, GetClassType other) of
       (Some c, Some d) \<Rightarrow> ReferenceIsConvertibleTo_loop (classes tb) (map pa_class (c_parents (classes tb c))) d
     | _ \<Rightarrow> Some False)"

text \<open>\<open>std::binary_search\<close>: \<open>std::lower_bound\<close> halves the range, then one comparison decides.\<close>

function lower_bound :: "('a \<Rightarrow> 'a \<Rightarrow> bool) \<Rightarrow> 'a list \<Rightarrow> 'a \<Rightarrow> nat \<Rightarrow> nat \<Rightarrow> nat" where
  "lower_bound lt xs val first len =
    (if len = 0 then first
     else let half = len div 2; middle = first + half in
       if lt (xs ! middle) val then lower_bound lt xs val (middle + 1) (len - half - 1)
       else lower_bound lt xs val first half)"
  by pat_completeness auto
termination
  by (relation "measure (\<lambda>(_, _, _, _, len). len)") auto

declare lower_bound.simps [simp del]

definition binary_search :: "('a \<Rightarrow> 'a \<Rightarrow> bool) \<Rightarrow> 'a list \<Rightarrow> 'a \<Rightarrow> bool" where
  "binary_search lt xs val =
    (let i = lower_bound lt xs val 0 (length xs) in i \<noteq> length xs \<and> \<not> lt val (xs ! i))"

text \<open>The loop over the parameters; both lists have the same length when it is called.\<close>

definition param_convertible :: "Param \<Rightarrow> Param \<Rightarrow> bool" where
  "param_convertible s d =
    (if \<not> Type_eq (p_type s) (p_type d) then False
     else if (p_value_type s = Value) \<noteq> (p_value_type d = Value) then False
     else if p_value_type s = ReferenceMut \<and> p_value_type d = ReferenceImut then False
     else True)"

definition PointerCanBeConvertedTo :: "FunctionType \<Rightarrow> FunctionType \<Rightarrow> bool" where
  "PointerCanBeConvertedTo s d =
    (if \<not> Type_eq (return_type s) (return_type d) then False
     else if (return_value_type s = Value) \<noteq> (return_value_type d = Value) then False
     else if return_value_type s = ReferenceImut \<and> return_value_type d = ReferenceMut then False
     else if length (params s) \<noteq> length (params d) then False
     else if \<not> list_all (\<lambda>i. param_convertible (params s ! i) (params d ! i)) [0..<length (params s)] then False
     else if \<not> list_all (\<lambda>r. list_ex (\<lambda>q. q = r) (return_references d)) (return_references s) then False
     else if return_inner_references s \<noteq> return_inner_references d then False
     else if \<not> list_all (binary_search ReferencePollution_less (references_pollution d)) (references_pollution s) then False
     else if unsafe s \<and> \<not> unsafe d then False
     else if calling_convention s \<noteq> calling_convention d then False
     else True)"

definition ReturnsCompositeValue :: "FunctionType \<Rightarrow> bool" where
  "ReturnsCompositeValue f \<longleftrightarrow>
    return_value_type f = Value \<and>
    (GetClassType (return_type f) \<noteq> None \<or> GetArrayType (return_type f) \<noteq> None \<or> GetTupleType (return_type f) \<noteq> None)"

section \<open>Calling conventions\<close>

text \<open>The second spelling of the default convention is the letter U with diaeresis, two bytes in UTF-8.\<close>

definition StringToCallingConvention :: "byte list \<Rightarrow> CallingConvention option" where
  "StringToCallingConvention s =
    (if s = str ''default'' \<or> s = [0xC3, 0x9C] then Some Default
     else if s = str ''C'' then Some C
     else if s = str ''fast'' then Some Fast
     else if s = str ''cold'' then Some Cold
     else if s = str ''system'' then Some System
     else None)"

fun CallingConventionToString :: "CallingConvention \<Rightarrow> byte list" where
  "CallingConventionToString Default = str ''default''" |
  "CallingConventionToString C = str ''C''" |
  "CallingConventionToString Fast = str ''fast''" |
  "CallingConventionToString Cold = str ''cold''" |
  "CallingConventionToString System = str ''system''"

end
