(* ===== verification/Types_Laws.thy ===== *)
theory Types_Laws
  imports Types
begin

text \<open>
  Correctness of the operations on types: equality and hash agree, the search through the ancestors of a class is
  complete and ends, inner references are indexed consistently, and function pointers convert to each other
  along a preorder.
\<close>

section \<open>Equality and hash\<close>

text \<open>A type without its pointers to LLVM types: what a type is to the language.\<close>

fun erase :: "Type \<Rightarrow> Type" and erase_function :: "FunctionType \<Rightarrow> FunctionType" and erase_param :: "Param \<Rightarrow> Param"
where
  "erase (Fundamental a _) = Fundamental a 0" |
  "erase (Array a n _) = Array (erase a) n 0" |
  "erase (RawPointer a _) = RawPointer (erase a) 0" |
  "erase (ClassType a) = ClassType a" |
  "erase (EnumType a) = EnumType a" |
  "erase (FunctionPointer f _) = FunctionPointer (erase_function f) 0" |
  "erase (Tuple ts _) = Tuple (map erase ts) 0" |
  "erase_function (FunctionType ps t vt un cc rr rir rp) =
    FunctionType (map erase_param ps) (erase t) vt un cc rr rir rp" |
  "erase_param (Param t vt) = Param (erase t) vt"

lemma erase_function_sel [simp]:
  "params (erase_function g) = map erase_param (params g)" "return_type (erase_function g) = erase (return_type g)"
  "return_value_type (erase_function g) = return_value_type g" "unsafe (erase_function g) = unsafe g"
  "calling_convention (erase_function g) = calling_convention g" "return_references (erase_function g) = return_references g"
  "return_inner_references (erase_function g) = return_inner_references g"
  "references_pollution (erase_function g) = references_pollution g"
  by (cases g; simp)+

lemma erase_param_sel [simp]:
  "p_type (erase_param p) = erase (p_type p)" "p_value_type (erase_param p) = p_value_type p"
  by (cases p; simp)+

lemma function_eqI: "FunctionType ps t vt un cc rr rir rp = erase_function g \<longleftrightarrow>
    ps = map erase_param (params g) \<and> t = erase (return_type g) \<and> vt = return_value_type g \<and> un = unsafe g \<and>
    cc = calling_convention g \<and> rr = return_references g \<and> rir = return_inner_references g \<and>
    rp = references_pollution g"
  by (cases g) simp

lemma param_eqI: "Param t vt = erase_param q \<longleftrightarrow> t = erase (p_type q) \<and> vt = p_value_type q"
  by (cases q) simp

lemma eq_iff_erase:
  "Type_eq a b \<longleftrightarrow> erase a = erase b"
  "Types_eq as bs \<longleftrightarrow> map erase as = map erase bs"
  "FunctionType_eq f g \<longleftrightarrow> erase_function f = erase_function g"
  "Param_eq p q \<longleftrightarrow> erase_param p = erase_param q"
  "Params_eq ps qs \<longleftrightarrow> map erase_param ps = map erase_param qs"
proof (induction a b and as bs and f g and p q and ps qs
    rule: Type_eq_Types_eq_FunctionType_eq_Param_eq_Params_eq.induct)
  case (1 a l r) then show ?case by (cases r) auto
next
  case (2 a n l r) then show ?case by (cases r) auto
next
  case (3 a l r) then show ?case by (cases r) auto
next
  case (4 a r) then show ?case by (cases r) auto
next
  case (5 a r) then show ?case by (cases r) auto
next
  case (6 f l r) then show ?case by (cases r) auto
next
  case (7 ts l r) then show ?case by (cases r) auto
next
  case (9 t ts us) then show ?case by (cases us) auto
next
  case (13 p ps qs) then show ?case by (cases qs) auto
qed (auto simp: function_eqI param_eqI)

lemmas Type_eq_iff = eq_iff_erase(1)

lemma Type_eq_refl [simp]: "Type_eq t t"
  by (simp add: Type_eq_iff)

text \<open>
  \<open>operator==\<close> identifies exactly the types that are the same up to their pointers to LLVM types;
  in particular it is reflexive, symmetric and transitive.
\<close>

theorem Type_equality_equivalence: "Type_eq a b \<longleftrightarrow> erase a = erase b"
  by (rule Type_eq_iff)

lemma hash_erase:
  "Type_Hash hc a = Type_Hash hc (erase a)"
  "Types_Hash hc as h = Types_Hash hc (map erase as) h"
  "FunctionType_Hash hc f = FunctionType_Hash hc (erase_function f)"
  "Params_Hash hc ps h' = Params_Hash hc (map erase_param ps) h'"
  "Param_Hash hc p h'' = Param_Hash hc (erase_param p) h''"
  by (induction hc a and hc as h and hc f and hc ps h' and hc p h''
      rule: Type_Hash_Types_Hash_FunctionType_Hash_Params_Hash_Param_Hash.induct) simp_all

lemma hash_eq: "Type_eq a b \<Longrightarrow> Type_Hash hc a = Type_Hash hc b"
  by (metis Type_eq_iff hash_erase(1))

text \<open>
  C35. Equal types have equal hashes, whatever the hash function of LLVM is: types can be keys of hash tables.
\<close>

theorem Type_Hash_respects_equality:
  assumes "Type_eq a b"
  shows "Type_Hash hc a = Type_Hash hc b"
  by (rule hash_eq [OF assms])

lemma TemplateArg_hash_eq: "TemplateArg_eq a b \<Longrightarrow> TemplateArgHash hc a = TemplateArgHash hc b"
  by (induction a b rule: TemplateArg_eq.induct) (auto simp: TemplateVariableArg_eq_def dest: hash_eq [of _ _ hc])

lemma args_hash_eq: "list_all2 TemplateArg_eq as bs \<Longrightarrow>
    fold (\<lambda>a h. hc [HSize h, HSize (TemplateArgHash hc a)]) as h = fold (\<lambda>a h. hc [HSize h, HSize (TemplateArgHash hc a)]) bs h"
  by (induction arbitrary: h rule: list_all2_induct) (simp_all add: TemplateArg_hash_eq)

text \<open>
  Equal keys of the caches of templates and equal descriptions of coroutines have equal hashes.
\<close>

theorem cache_keys_hash:
  "(TemplateKey_eq k l \<longrightarrow> TemplateKey_Hash hc k = TemplateKey_Hash hc l) \<and>
   (ParameterizedFunctionTemplateKey_eq m n \<longrightarrow>
     ParameterizedFunctionTemplateKey_Hash hc m = ParameterizedFunctionTemplateKey_Hash hc n) \<and>
   (CoroutineTypeDescription_eq c d \<longrightarrow> CoroutineTypeDescription_Hash hc c = CoroutineTypeDescription_Hash hc d)"
  by (auto simp: TemplateKey_eq_def TemplateKey_Hash_def ParameterizedFunctionTemplateKey_eq_def
      ParameterizedFunctionTemplateKey_Hash_def CoroutineTypeDescription_eq_def CoroutineTypeDescription_Hash_def
      Let_def args_hash_eq hash_eq)

definition length_hash :: HashCombine where
  "length_hash xs = word_of_nat (length xs)"

theorem Type_Hash_respects_equality_witness:
  "Type_eq (Array (Fundamental i32_t 5) 3 7) (Array (Fundamental i32_t 8) 3 9) \<and>
   Type_Hash length_hash (Array (Fundamental i32_t 5) 3 7) = Type_Hash length_hash (Array (Fundamental i32_t 8) 3 9)"
  using Type_Hash_respects_equality [of "Array (Fundamental i32_t 5) 3 7" "Array (Fundamental i32_t 8) 3 9" length_hash]
  by simp

definition example_key :: "LlvmPtr \<Rightarrow> TemplateKey" where
  "example_key l = \<lparr> tk_template = 4, tk_args = [TypeArg (Fundamental i32_t l)] \<rparr>"

theorem cache_keys_hash_witness:
  "TemplateKey_eq (example_key 1) (example_key 2) \<and>
   TemplateKey_Hash length_hash (example_key 1) = TemplateKey_Hash length_hash (example_key 2)"
  using cache_keys_hash [of "example_key 1" "example_key 2" length_hash]
  by (simp add: example_key_def TemplateKey_eq_def)

section \<open>Ancestors of a class\<close>

text \<open>
  A depth-first search through \<open>next\<close> with no memory of what it has visited. On a well-founded graph it ends and
  finds what is reachable.
\<close>

locale ancestor_search =
  fixes succs :: "'a \<Rightarrow> 'a list" and loop :: "'a list \<Rightarrow> 'a \<Rightarrow> bool option"
  assumes loop_Nil: "loop [] c = Some False"
    and loop_Cons: "loop (p # ps) c =
      (if p = c then Some True else Option.bind (loop (succs p) c) (\<lambda>r. if r then Some True else loop ps c))"
begin

definition above :: "('a \<times> 'a) set" where
  "above = {(q, p). q \<in> set (succs p)}"

lemma above_step: "(c, p) \<in> above\<^sup>+ \<longleftrightarrow> (\<exists>q \<in> set (succs p). q = c \<or> (c, q) \<in> above\<^sup>+)"
proof
  assume "(c, p) \<in> above\<^sup>+"
  then show "\<exists>q \<in> set (succs p). q = c \<or> (c, q) \<in> above\<^sup>+"
    by (cases rule: trancl.cases) (auto simp: above_def)
next
  assume "\<exists>q \<in> set (succs p). q = c \<or> (c, q) \<in> above\<^sup>+"
  then obtain q where "(q, p) \<in> above" "q = c \<or> (c, q) \<in> above\<^sup>+" by (auto simp: above_def)
  then show "(c, p) \<in> above\<^sup>+" by (auto intro: trancl_into_trancl)
qed

lemma loop_members:
  assumes "\<And>p. p \<in> set ps \<Longrightarrow> loop (succs p) c = Some ((c, p) \<in> above\<^sup>+)"
  shows "loop ps c = Some (\<exists>p \<in> set ps. p = c \<or> (c, p) \<in> above\<^sup>+)"
  using assms by (induction ps) (auto simp: loop_Nil loop_Cons)

lemma loop_succs:
  assumes "wf above"
  shows "loop (succs p) c = Some ((c, p) \<in> above\<^sup>+)"
  using assms
proof (induction p rule: wf_induct_rule)
  case (less p)
  then have "loop (succs p) c = Some (\<exists>q \<in> set (succs p). q = c \<or> (c, q) \<in> above\<^sup>+)"
    by (intro loop_members) (auto simp: above_def)
  then show ?case by (simp add: above_step [of c p])
qed

end

definition parent_classes :: "(ClassPtr \<Rightarrow> Class) \<Rightarrow> ClassPtr \<Rightarrow> ClassPtr list" where
  "parent_classes cs p = map pa_class (c_parents (cs p))"

text \<open>The pairs of a parent and its direct child.\<close>

definition parent_of :: "(ClassPtr \<Rightarrow> Class) \<Rightarrow> (ClassPtr \<times> ClassPtr) set" where
  "parent_of cs = {(q, p). q \<in> pa_class ` set (c_parents (cs p))}"

interpretation ancestors: ancestor_search "parent_classes cs" "HasAncestor_loop cs" for cs
  by unfold_locales (subst HasAncestor_loop.simps; simp add: parent_classes_def)+

interpretation conversions: ancestor_search "parent_classes cs" "ReferenceIsConvertibleTo_loop cs" for cs
  by unfold_locales (subst ReferenceIsConvertibleTo_loop.simps; simp add: parent_classes_def)+

lemma above_parent_of: "ancestors.above cs = parent_of cs"
  by (auto simp: ancestors.above_def parent_of_def parent_classes_def)

text \<open>
  If inheritance has no cycle, the search for an ancestor ends, and it finds exactly the classes from which the
  class inherits through one or more steps.
\<close>

theorem HasAncestor_correct:
  assumes "wf (parent_of cs)"
  shows "HasAncestor cs this c = Some ((c, this) \<in> (parent_of cs)\<^sup>+)"
  using ancestors.loop_succs [of cs this c] assms
  by (simp add: HasAncestor_def above_parent_of flip: parent_classes_def)

lemma ReferenceIsConvertibleTo_iff:
  assumes "wf (parent_of (classes tb))"
  shows "ReferenceIsConvertibleTo tb a b =
    Some (Type_eq a b \<or> (\<exists>c d. a = ClassType c \<and> b = ClassType d \<and> (d, c) \<in> (parent_of (classes tb))\<^sup>+))"
proof -
  have "ReferenceIsConvertibleTo_loop (classes tb) (map pa_class (c_parents (classes tb c))) d =
      Some ((d, c) \<in> (parent_of (classes tb))\<^sup>+)" for c d
    using conversions.loop_succs [of "classes tb" c d] assms
    by (simp add: above_parent_of flip: parent_classes_def)
  then show ?thesis
    by (cases a; cases b) (simp_all add: ReferenceIsConvertibleTo_def GetClassType_def)
qed

text \<open>
  C34. If inheritance has no cycle, the test whether a reference converts to a reference to another type ends. It is
  true for equal types and for a class and its ancestors, and for nothing else.
\<close>

theorem ReferenceIsConvertibleTo_correct:
  assumes "wf (parent_of (classes tb))"
  shows "ReferenceIsConvertibleTo tb a b =
    Some (Type_eq a b \<or> (\<exists>c d. a = ClassType c \<and> b = ClassType d \<and> (d, c) \<in> (parent_of (classes tb))\<^sup>+))"
  using assms by (rule ReferenceIsConvertibleTo_iff)

text \<open>Two classes, the second a child of the first.\<close>

definition example_class :: Class where
  "example_class =
    \<lparr> c_members = 0, c_members_visibility = Map.empty, c_kind = Interface, c_inner_references = [],
      c_is_default_constructible = False, c_is_copy_constructible = False, c_has_destructor = True,
      c_is_copy_assignable = False, c_is_equality_comparable = False, c_can_be_constexpr = False,
      c_no_discard = False, c_llvm_type = 0, c_generated_class_data = NonGeneratedClassTag, c_parents = [] \<rparr>"

definition example_classes :: "ClassPtr \<Rightarrow> Class" where
  "example_classes p =
    (if p = 2 then example_class
      \<lparr> c_kind := PolymorphFinal,
        c_inner_references := [\<lparr> ir_kind = Imut, ir_second_order_kind = NoneKind \<rparr>,
                               \<lparr> ir_kind = Mut, ir_second_order_kind = SecondImut \<rparr>],
        c_parents := [\<lparr> pa_class = 1, pa_field_number = 0 \<rparr>] \<rparr>
     else example_class)"

definition example_tables :: Tables where
  "example_tables =
    \<lparr> classes = example_classes,
      enums = (\<lambda>_. \<lparr> e_members = 0, e_element_count = 2, e_no_discard = False, e_underlying_type = u8_t, e_underlying_llvm_type = 0 \<rparr>) \<rparr>"

lemma example_parents: "parent_of example_classes = {(1, 2)}"
  by (auto simp: parent_of_def example_classes_def example_class_def)

lemma example_wf: "wf (parent_of example_classes)"
  by (simp add: example_parents)

theorem HasAncestor_correct_witness:
  "HasAncestor example_classes 2 1 = Some True \<and> HasAncestor example_classes 1 2 = Some False"
proof -
  have "(2, 1) \<notin> {(1 :: ClassPtr, 2)}\<^sup>+" by (auto dest: tranclD)
  then show ?thesis
    using HasAncestor_correct [OF example_wf, of 2 1] HasAncestor_correct [OF example_wf, of 1 2]
    by (auto simp: example_parents)
qed

theorem ReferenceIsConvertibleTo_correct_witness:
  "ReferenceIsConvertibleTo example_tables (ClassType 2) (ClassType 1) = Some True"
  using ReferenceIsConvertibleTo_correct [of example_tables "ClassType 2" "ClassType 1"] example_wf
  by (auto simp: example_tables_def example_parents)

section \<open>Inner references\<close>

text \<open>The inner references of a type in order: those of a tuple are those of its elements one after the other.\<close>

fun inner_references :: "Tables \<Rightarrow> Type \<Rightarrow> InnerReference list" where
  "inner_references tb (ClassType c) = c_inner_references (classes tb c)" |
  "inner_references tb (Array e _ _) = inner_references tb e" |
  "inner_references tb (Tuple ts _) = concat (map (inner_references tb) ts)" |
  "inner_references tb _ = []"

lemma fold_add: "fold (\<lambda>e r. r + f e) ts n = n + sum_list (map f ts)" for n :: nat
  by (induction ts arbitrary: n) auto

lemma tag_count: "ReferenceTagCount tb t = length (inner_references tb t)"
proof (induction tb t rule: ReferenceTagCount.induct)
  case (3 tb ts l)
  then have "map (ReferenceTagCount tb) ts = map (length \<circ> inner_references tb) ts" by simp
  then show ?case by (simp only: ReferenceTagCount.simps fold_add inner_references.simps length_concat map_map)
qed simp_all

definition nth_option :: "'a list \<Rightarrow> nat \<Rightarrow> 'a option" where
  "nth_option xs i = (if i < length xs then Some (xs ! i) else None)"

lemma nth_option_append:
  "nth_option (xs @ ys) i = (if i < length xs then nth_option xs i else nth_option ys (i - length xs))"
  by (auto simp: nth_option_def nth_append)

lemma kind_nth:
  "GetInnerReferenceKind tb t i = map_option ir_kind (nth_option (inner_references tb t) i)"
  "offset \<le> j \<Longrightarrow> GetInnerReferenceKind_loop tb ts offset j =
     map_option ir_kind (nth_option (concat (map (inner_references tb) ts)) (j - offset))"
proof (induction tb t i and tb ts offset j rule: GetInnerReferenceKind_GetInnerReferenceKind_loop.induct)
  case (6 tb e ts offset j)
  then show ?case by (auto simp: tag_count nth_option_append Let_def)
qed (simp_all add: nth_option_def Let_def)

lemma second_kind_nth:
  "GetSecondOrderInnerReferenceKind tb t i = map_option ir_second_order_kind (nth_option (inner_references tb t) i)"
  "offset \<le> j \<Longrightarrow> GetSecondOrderInnerReferenceKind_loop tb ts offset j =
     map_option ir_second_order_kind (nth_option (concat (map (inner_references tb) ts)) (j - offset))"
proof (induction tb t i and tb ts offset j rule: GetSecondOrderInnerReferenceKind_GetSecondOrderInnerReferenceKind_loop.induct)
  case (6 tb e ts offset j)
  then show ?case by (auto simp: tag_count nth_option_append Let_def)
qed (simp_all add: nth_option_def Let_def)

text \<open>
  The tags of a type count its inner references, and the kinds at an index are those of the inner reference at that
  index; beyond the count there is no kind (the assertion fails).
\<close>

theorem inner_reference_kinds_correct:
  "ReferenceTagCount tb t = length (inner_references tb t) \<and>
   GetInnerReferenceKind tb t i =
     (if i < ReferenceTagCount tb t then Some (ir_kind (inner_references tb t ! i)) else None) \<and>
   GetSecondOrderInnerReferenceKind tb t i =
     (if i < ReferenceTagCount tb t then Some (ir_second_order_kind (inner_references tb t ! i)) else None)"
  by (simp add: tag_count kind_nth second_kind_nth nth_option_def)

lemma contains_mutable:
  "ContainsMutableReferences tb t \<longleftrightarrow>
    list_ex (\<lambda>r. ir_kind r = Mut \<or> ir_second_order_kind r = SecondMut) (inner_references tb t)"
  by (induction tb t rule: ContainsMutableReferences.induct) (auto simp: list_ex_iff)

definition reference_depth :: "InnerReference \<Rightarrow> nat" where
  "reference_depth r = (if ir_second_order_kind r = NoneKind then 1 else 2)"

definition max_list :: "nat list \<Rightarrow> nat" where
  "max_list xs = foldr max xs 0"

lemma max_list_simps [simp]: "max_list [] = 0" "max_list (x # xs) = max x (max_list xs)"
  by (simp_all add: max_list_def)

lemma max_list_append [simp]: "max_list (xs @ ys) = max (max_list xs) (max_list ys)"
  by (induction xs) (simp_all add: max.assoc)

lemma fold_max: "fold (\<lambda>e d. max d (f e)) ts n = max n (max_list (map f ts))"
  by (induction ts arbitrary: n) (simp_all add: max.assoc)

lemma max_list_concat: "max_list (map (\<lambda>e. max_list (g e)) ts) = max_list (concat (map g ts))"
  by (induction ts) simp_all

lemma depth_max: "GetReferenceIndirectionDepth tb t = max_list (map reference_depth (inner_references tb t))"
proof (induction tb t rule: GetReferenceIndirectionDepth.induct)
  case (1 tb c)
  have "(\<lambda>r depth. max depth (1 + (if ir_second_order_kind r = NoneKind then 0 else 1))) =
      (\<lambda>r depth. max depth (reference_depth r))" by (auto simp: reference_depth_def fun_eq_iff)
  then show ?case by (simp add: fold_max)
next
  case (3 tb ts l)
  then have "map (GetReferenceIndirectionDepth tb) ts = map (\<lambda>e. max_list (map reference_depth (inner_references tb e))) ts"
    by simp
  then show ?case
    by (simp only: GetReferenceIndirectionDepth.simps fold_max max_list_concat) (simp add: map_concat o_def)
qed simp_all

lemma max_list_le: "(\<forall>x \<in> set xs. x \<le> n) \<Longrightarrow> max_list xs \<le> n"
  by (induction xs) auto

lemma max_list_zero: "max_list xs = 0 \<longleftrightarrow> (\<forall>x \<in> set xs. x = 0)"
  by (induction xs) auto

text \<open>
  C36. The depth of indirection of a type is at most two, it is zero exactly if the type has no reference tag, and a
  type that contains mutable references has a tag.
\<close>

theorem GetReferenceIndirectionDepth_bound:
  "GetReferenceIndirectionDepth tb t \<le> 2 \<and>
   (GetReferenceIndirectionDepth tb t = 0 \<longleftrightarrow> ReferenceTagCount tb t = 0) \<and>
   \<not> (ContainsMutableReferences tb t \<and> GetReferenceIndirectionDepth tb t = 0)"
proof -
  have "GetReferenceIndirectionDepth tb t \<le> 2"
    unfolding depth_max by (rule max_list_le) (auto simp: reference_depth_def)
  moreover have "GetReferenceIndirectionDepth tb t = 0 \<longleftrightarrow> inner_references tb t = []"
    unfolding depth_max by (cases "inner_references tb t") (simp_all add: reference_depth_def)
  moreover have "\<not> ContainsMutableReferences tb t" if "inner_references tb t = []"
    using that by (simp add: contains_mutable)
  ultimately show ?thesis by (auto simp: tag_count)
qed

section \<open>Binary search\<close>

text \<open>A strict order that decides equality: what \<open>std::binary_search\<close> needs of \<open>operator<\<close> and of the range.\<close>

locale searchable =
  fixes lt :: "'a \<Rightarrow> 'a \<Rightarrow> bool"
  assumes lt_irrefl: "\<not> lt x x"
    and lt_trans: "lt x y \<Longrightarrow> lt y z \<Longrightarrow> lt x z"
    and lt_total: "lt x y \<or> x = y \<or> lt y x"
begin

lemma sorted_nth:
  assumes "sorted_wrt lt xs" and "i \<le> j" and "j < length xs"
  shows "i = j \<or> lt (xs ! i) (xs ! j)"
  using assms sorted_wrt_nth_less [of lt xs i j] by (cases "i = j") auto

definition parts :: "'a list \<Rightarrow> 'a \<Rightarrow> nat \<Rightarrow> nat \<Rightarrow> bool" where
  "parts xs val lo hi \<longleftrightarrow>
    hi \<le> length xs \<and> (\<forall>i < lo. lt (xs ! i) val) \<and> (\<forall>i. hi \<le> i \<and> i < length xs \<longrightarrow> \<not> lt (xs ! i) val)"

lemma parts_left:
  assumes "sorted_wrt lt xs" and "parts xs val lo hi" and "m < hi" and "lt (xs ! m) val"
  shows "parts xs val (Suc m) hi"
proof -
  have "lt (xs ! i) val" if "i < Suc m" for i
    using sorted_nth [OF assms(1), of i m] that assms(2-4) lt_trans by (auto simp: parts_def)
  with assms(2) show ?thesis by (simp add: parts_def)
qed

lemma parts_right:
  assumes "sorted_wrt lt xs" and "parts xs val lo hi" and "m < hi" and "\<not> lt (xs ! m) val"
  shows "parts xs val lo m"
proof -
  have "\<not> lt (xs ! i) val" if "m \<le> i" "i < length xs" for i
    using sorted_nth [OF assms(1), of m i] that assms(4) lt_trans by auto
  with assms(2,3) show ?thesis by (simp add: parts_def)
qed

lemma lower_bound_parts:
  assumes "sorted_wrt lt xs" and "parts xs val first (first + len)"
  shows "parts xs val (lower_bound lt xs val first len) (lower_bound lt xs val first len)"
  using assms(2)
proof (induction len arbitrary: first rule: less_induct)
  case (less len)
  define m where "m = first + len div 2"
  consider "len = 0" | "len \<noteq> 0" "lt (xs ! m) val" | "len \<noteq> 0" "\<not> lt (xs ! m) val" by blast
  then show ?case
  proof cases
    case 1
    with less.prems show ?thesis by (simp add: lower_bound.simps)
  next
    case 2
    have "lower_bound lt xs val first len = lower_bound lt xs val (Suc m) (len - len div 2 - 1)"
      using 2 by (subst lower_bound.simps) (simp add: Let_def m_def)
    moreover have "Suc m + (len - len div 2 - 1) = first + len" using 2(1) by (simp add: m_def)
    moreover have "parts xs val (Suc m) (first + len)"
      using parts_left [OF assms(1) less.prems _ 2(2)] 2(1) by (simp add: m_def)
    ultimately show ?thesis using less.IH [of "len - len div 2 - 1" "Suc m"] 2(1) by simp
  next
    case 3
    have "lower_bound lt xs val first len = lower_bound lt xs val first (len div 2)"
      using 3 by (subst lower_bound.simps) (simp add: Let_def m_def)
    moreover have "parts xs val first (first + len div 2)"
      using parts_right [OF assms(1) less.prems _ 3(2)] 3(1) by (simp add: m_def)
    ultimately show ?thesis using less.IH [of "len div 2" first] 3(1) by simp
  qed
qed

lemma binary_search_member:
  assumes "sorted_wrt lt xs"
  shows "binary_search lt xs val \<longleftrightarrow> val \<in> set xs"
proof -
  define i where "i = lower_bound lt xs val 0 (length xs)"
  have "parts xs val 0 (0 + length xs)" by (auto simp: parts_def)
  from lower_bound_parts [OF assms this] have "parts xs val i i" unfolding i_def .
  then have i: "i \<le> length xs" "\<forall>j < i. lt (xs ! j) val" "\<forall>j. i \<le> j \<and> j < length xs \<longrightarrow> \<not> lt (xs ! j) val"
    unfolding parts_def by blast+
  have "val \<in> set xs \<longleftrightarrow> i \<noteq> length xs \<and> \<not> lt val (xs ! i)"
  proof
    assume "val \<in> set xs"
    then obtain j where j: "j < length xs" "xs ! j = val" by (auto simp: in_set_conv_nth)
    then have "i \<le> j" using i(2) lt_irrefl by (metis not_le)
    then have "i = j \<or> lt (xs ! i) val" "i < length xs" using sorted_nth [OF assms, of i j] j by auto
    with i(3) j show "i \<noteq> length xs \<and> \<not> lt val (xs ! i)" using lt_irrefl by auto
  next
    assume "i \<noteq> length xs \<and> \<not> lt val (xs ! i)"
    with i have "i < length xs" "xs ! i = val" using lt_total [of "xs ! i" val] by auto
    then show "val \<in> set xs" by auto
  qed
  then show ?thesis by (simp add: binary_search_def i_def Let_def)
qed

lemma sorted_unique:
  assumes "sorted_wrt lt xs" and "sorted_wrt lt ys" and "set xs = set ys"
  shows "xs = ys"
  using assms
proof (induction xs arbitrary: ys)
  case (Cons x xs)
  then obtain y zs where ys: "ys = y # zs" by (cases ys) auto
  have "x = y" using Cons.prems ys lt_irrefl lt_trans
    by (metis (no_types, lifting) list.set_intros(1) set_ConsD sorted_wrt.simps(2))
  moreover have "x \<notin> set xs" "y \<notin> set zs" using Cons.prems ys lt_irrefl by auto
  ultimately show ?case using Cons ys by (metis insert_ident list.simps(15) sorted_wrt.simps(2))
qed simp

end

interpretation param_reference: searchable ParamReference_less
  by unfold_locales (auto simp: ParamReference_less_def prod_eq_iff)

interpretation pollution: searchable ReferencePollution_less
proof unfold_locales
  fix x y z
  show "\<not> ReferencePollution_less x x" by (simp add: ReferencePollution_less_def param_reference.lt_irrefl)
  show "ReferencePollution_less x y \<Longrightarrow> ReferencePollution_less y z \<Longrightarrow> ReferencePollution_less x z"
    unfolding ReferencePollution_less_def
    by (metis param_reference.lt_irrefl param_reference.lt_trans)
  show "ReferencePollution_less x y \<or> x = y \<or> ReferencePollution_less y x"
    using param_reference.lt_total [of "rp_dst x" "rp_dst y"] param_reference.lt_total [of "rp_src x" "rp_src y"]
    by (cases x; cases y) (auto simp: ReferencePollution_less_def)
qed

section \<open>Conversion of function pointers\<close>

definition sorted_references :: "FunctionType \<Rightarrow> bool" where
  "sorted_references f \<longleftrightarrow>
    sorted_wrt ParamReference_less (return_references f) \<and> sorted_wrt ReferencePollution_less (references_pollution f)"

text \<open>The order of mutability: which value types a caller may use in place of which.\<close>

definition weaker :: "ValueType \<Rightarrow> ValueType \<Rightarrow> bool" where
  "weaker a b \<longleftrightarrow> a = b \<or> a = ReferenceMut \<and> b = ReferenceImut"

lemma weaker_trans: "weaker a b \<Longrightarrow> weaker b c \<Longrightarrow> weaker a c"
  by (auto simp: weaker_def)

lemma weaker_antisym: "weaker a b \<Longrightarrow> weaker b a \<Longrightarrow> a = b"
  by (auto simp: weaker_def)

definition param_matches :: "Param \<Rightarrow> Param \<Rightarrow> bool" where
  "param_matches s d \<longleftrightarrow> erase (p_type s) = erase (p_type d) \<and> weaker (p_value_type d) (p_value_type s)"

lemma param_convertible_iff: "param_convertible s d \<longleftrightarrow> param_matches s d"
  by (cases "p_value_type s"; cases "p_value_type d")
     (auto simp: param_convertible_def param_matches_def weaker_def Type_eq_iff)

lemma params_convertible_iff:
  "length ps = length qs \<and> list_all (\<lambda>i. param_convertible (ps ! i) (qs ! i)) [0..<length ps] \<longleftrightarrow>
   list_all2 param_matches ps qs"
  by (auto simp: list_all2_conv_all_nth list_all_iff param_convertible_iff)

lemma guard_iff: "(if b then False else c) \<longleftrightarrow> \<not> b \<and> c"
  by simp

lemma conversion_iff:
  assumes "sorted_references d"
  shows "PointerCanBeConvertedTo s d \<longleftrightarrow>
    erase (return_type s) = erase (return_type d) \<and>
    weaker (return_value_type s) (return_value_type d) \<and>
    list_all2 param_matches (params s) (params d) \<and>
    set (return_references s) \<subseteq> set (return_references d) \<and>
    return_inner_references s = return_inner_references d \<and>
    set (references_pollution s) \<subseteq> set (references_pollution d) \<and>
    (unsafe s \<longrightarrow> unsafe d) \<and> calling_convention s = calling_convention d"
proof -
  have "(return_value_type s = Value) = (return_value_type d = Value) \<and>
      \<not> (return_value_type s = ReferenceImut \<and> return_value_type d = ReferenceMut) \<longleftrightarrow>
      weaker (return_value_type s) (return_value_type d)"
    by (cases "return_value_type s"; cases "return_value_type d") (auto simp: weaker_def)
  moreover have "list_all (\<lambda>r. list_ex (\<lambda>q. q = r) (return_references d)) (return_references s) \<longleftrightarrow>
      set (return_references s) \<subseteq> set (return_references d)"
    by (auto simp: list_all_iff list_ex_iff)
  moreover have "list_all (binary_search ReferencePollution_less (references_pollution d)) (references_pollution s) \<longleftrightarrow>
      set (references_pollution s) \<subseteq> set (references_pollution d)"
    using assms by (auto simp: list_all_iff pollution.binary_search_member sorted_references_def)
  ultimately show ?thesis
    unfolding PointerCanBeConvertedTo_def Type_eq_iff params_convertible_iff [symmetric] guard_iff by blast
qed

lemma param_matches_refl: "param_matches p p"
  by (simp add: param_matches_def weaker_def)

lemma params_trans: "list_all2 param_matches ps qs \<Longrightarrow> list_all2 param_matches qs rs \<Longrightarrow> list_all2 param_matches ps rs"
  by (rule list_all2_trans) (auto simp: param_matches_def dest: weaker_trans)

lemma params_antisym:
  assumes "list_all2 param_matches ps qs" and "list_all2 param_matches qs ps"
  shows "map erase_param ps = map erase_param qs"
proof -
  have "erase_param p = erase_param q" if "param_matches p q" "param_matches q p" for p q
    using that by (cases p; cases q) (auto simp: param_matches_def dest: weaker_antisym)
  with assms show ?thesis by (auto simp: list_all2_conv_all_nth intro: nth_equalityI)
qed

text \<open>
  C22. Conversion of function pointers is a partial order on function types with sorted lists of references: it is
  reflexive and transitive, and two function types that convert to each other are equal.
\<close>

theorem PointerCanBeConvertedTo_order:
  assumes "sorted_references f" and "sorted_references g" and "sorted_references h"
  shows "PointerCanBeConvertedTo f f \<and>
    (PointerCanBeConvertedTo f g \<and> PointerCanBeConvertedTo g h \<longrightarrow> PointerCanBeConvertedTo f h) \<and>
    (PointerCanBeConvertedTo f g \<and> PointerCanBeConvertedTo g f \<longrightarrow> FunctionType_eq f g)"
proof (intro conjI impI)
  show "PointerCanBeConvertedTo f f"
    by (simp add: conversion_iff assms weaker_def param_matches_refl list_all2_same)
  show "PointerCanBeConvertedTo f h" if "PointerCanBeConvertedTo f g \<and> PointerCanBeConvertedTo g h"
    using that by (auto simp: conversion_iff assms dest: weaker_trans params_trans)
  assume both: "PointerCanBeConvertedTo f g \<and> PointerCanBeConvertedTo g f"
  note c = both [THEN conjunct1, unfolded conversion_iff [OF assms(2)]]
    both [THEN conjunct2, unfolded conversion_iff [OF assms(1)]]
  have "return_references f = return_references g" "references_pollution f = references_pollution g"
    using c assms(1,2) unfolding sorted_references_def
    by (simp_all add: param_reference.sorted_unique pollution.sorted_unique subset_antisym)
  moreover have "return_value_type f = return_value_type g" "map erase_param (params f) = map erase_param (params g)"
    using c weaker_antisym params_antisym by simp_all
  ultimately have "erase_function f = erase_function g"
    using c by (intro FunctionType.expand) auto
  then show "FunctionType_eq f g" by (simp add: eq_iff_erase(3))
qed

text \<open>A function that takes an immutable reference can be called through a pointer that passes a mutable one.\<close>

definition example_function :: "ValueType \<Rightarrow> bool \<Rightarrow> FunctionType" where
  "example_function vt u =
    FunctionType [Param (Fundamental i32_t 0) vt] (Fundamental void_t 0) Value u Default [] []
      [\<lparr> rp_dst = (0, 0), rp_src = (1, 255) \<rparr>, \<lparr> rp_dst = (0, 1), rp_src = (1, 255) \<rparr>]"

lemma example_function_sorted: "sorted_references (example_function vt u)"
  by (simp add: sorted_references_def example_function_def ReferencePollution_less_def ParamReference_less_def)

theorem PointerCanBeConvertedTo_order_witness:
  "PointerCanBeConvertedTo (example_function ReferenceImut False) (example_function ReferenceMut True)"
proof -
  have "PointerCanBeConvertedTo (example_function ReferenceImut False) (example_function ReferenceMut False)"
    "PointerCanBeConvertedTo (example_function ReferenceMut False) (example_function ReferenceMut True)"
    by (auto simp: conversion_iff example_function_sorted)
       (simp_all add: example_function_def weaker_def param_matches_def)
  with PointerCanBeConvertedTo_order [OF example_function_sorted example_function_sorted example_function_sorted,
      of ReferenceImut False ReferenceMut False ReferenceMut True]
  show ?thesis by blast
qed

text \<open>
  Every calling convention is read back from its name.
\<close>

theorem CallingConvention_roundtrip: "StringToCallingConvention (CallingConventionToString c) = Some c"
  by (cases c) (simp_all add: StringToCallingConvention_def ch_inj)

text \<open>
  What a class says about the visibility of a member is what was set last, members without a setting being
  public; setting a member to public does not undo an earlier setting.
\<close>

theorem MemberVisibility_correct:
  "GetMemberVisibility (SetMemberVisibility n v c) m = (if m = n \<and> v \<noteq> Public then v else GetMemberVisibility c m)"
  by (simp add: GetMemberVisibility_def SetMemberVisibility_def)

end
