(* ===== verification/Text_Change.thy ===== *)
theory Text_Change
  imports U_Prelude
begin

text \<open>
  \<^verbatim>\<open>source/language_server/text_change.hpp\<close> and \<^verbatim>\<open>text_change.cpp\<close>: positions in a text and in an edited
  version of it. The compiler works on an older version of a document than the editor shows; these
  functions carry positions from one version to the other.
\<close>

section \<open>Mapping positions\<close>

record TextChange =
  range_start :: u32
  range_end :: u32
  new_count :: u32

definition new_position_of_change_end :: "TextChange \<Rightarrow> u32" where
  "new_position_of_change_end change = range_start change + new_count change"

text \<open>The loop over the changes from the last one back; the list is given in that order.\<close>

fun new_to_old_loop :: "TextChange list \<Rightarrow> u32 \<Rightarrow> u32 option" where
  "new_to_old_loop [] current_position = Some current_position" |
  "new_to_old_loop (change # changes) current_position =
    (if current_position < range_start change then new_to_old_loop changes current_position
     else if current_position \<ge> new_position_of_change_end change then
       new_to_old_loop changes (current_position - new_position_of_change_end change + range_end change)
     else None)"

definition MapNewPositionToOldPosition :: "TextChange list \<Rightarrow> u32 \<Rightarrow> u32 option" where
  "MapNewPositionToOldPosition changes position = new_to_old_loop (rev changes) position"

fun MapOldPositionToNewPosition :: "TextChange list \<Rightarrow> u32 \<Rightarrow> u32 option" where
  "MapOldPositionToNewPosition [] current_position = Some current_position" |
  "MapOldPositionToNewPosition (change # changes) current_position =
    (if current_position < range_start change then MapOldPositionToNewPosition changes current_position
     else if current_position \<ge> range_end change then
       MapOldPositionToNewPosition changes
         ((current_position - range_end change) + new_position_of_change_end change)
     else None)"

section \<open>Edits of a text\<close>

text \<open>
  A change is applied to a text by replacing the range with new characters. The edits are valid when each range
  lies in the text it is applied to, and no version of the text reaches \<open>2^32\<close> characters.
\<close>

type_synonym 'a edit = "TextChange \<times> 'a list"

definition apply_edit :: "'a edit \<Rightarrow> 'a list \<Rightarrow> 'a list" where
  "apply_edit e t = take (unat (range_start (fst e))) t @ snd e @ drop (unat (range_end (fst e))) t"

definition edit_ok :: "'a edit \<Rightarrow> 'a list \<Rightarrow> bool" where
  "edit_ok e t \<longleftrightarrow> range_start (fst e) \<le> range_end (fst e) \<and> unat (range_end (fst e)) \<le> length t \<and>
     length (snd e) = unat (new_count (fst e)) \<and> length t < 2 ^ 32 \<and> length (apply_edit e t) < 2 ^ 32"

fun edits_ok :: "'a edit list \<Rightarrow> 'a list \<Rightarrow> bool" where
  "edits_ok [] t \<longleftrightarrow> True" |
  "edits_ok (e # es) t \<longleftrightarrow> edit_ok e t \<and> edits_ok es (apply_edit e t)"

definition apply_edits :: "'a edit list \<Rightarrow> 'a list \<Rightarrow> 'a list" where
  "apply_edits es t = fold apply_edit es t"

text \<open>One change in either direction.\<close>

definition old_to_new :: "TextChange \<Rightarrow> u32 \<Rightarrow> u32 option" where
  "old_to_new c p = MapOldPositionToNewPosition [c] p"

definition new_to_old :: "TextChange \<Rightarrow> u32 \<Rightarrow> u32 option" where
  "new_to_old c p = new_to_old_loop [c] p"

lemma new_to_old_loop_append:
  "new_to_old_loop (xs @ ys) p = Option.bind (new_to_old_loop xs p) (new_to_old_loop ys)"
  by (induction xs arbitrary: p) auto

lemma map_new_Cons:
  "MapNewPositionToOldPosition (c # cs) q = Option.bind (MapNewPositionToOldPosition cs q) (new_to_old c)"
  by (auto simp: MapNewPositionToOldPosition_def new_to_old_loop_append new_to_old_def fun_eq_iff split: option.splits)
     (cases "new_to_old_loop (rev cs) q"; simp add: new_to_old_def)

lemma map_old_Cons:
  "MapOldPositionToNewPosition (c # cs) p = Option.bind (old_to_new c p) (MapOldPositionToNewPosition cs)"
  by (auto simp: old_to_new_def)

lemma edit_step:
  fixes t :: "'a list" and p q :: u32
  assumes "edit_ok (c, ins) t" and "unat p < length t"
  shows "old_to_new c p = Some q \<Longrightarrow>
      unat q < length (apply_edit (c, ins) t) \<and> apply_edit (c, ins) t ! unat q = t ! unat p \<and> new_to_old c q = Some p"
    (is "?A \<Longrightarrow> ?B")
proof -
  let ?s = "unat (range_start c)" and ?e = "unat (range_end c)" and ?n = "unat (new_count c)"
  have le: "?s \<le> ?e" "?e \<le> length t" "length ins = ?n"
    and len: "length t - ?e + ?n + ?s < 2 ^ 32"
    using assms(1) by (auto simp: edit_ok_def apply_edit_def word_le_nat_alt)
  have new_end: "unat (range_start c + new_count c) = ?s + ?n"
    using len by (simp add: unat_word_ariths)
  assume q: ?A
  show ?B
  proof (cases "p < range_start c")
    case True
    with q have "q = p" by (simp add: old_to_new_def)
    with True le assms(2) show ?thesis
      by (auto simp: word_less_nat_alt apply_edit_def nth_append new_to_old_def)
  next
    case False
    then have p: "range_end c \<le> p" and q': "q = (p - range_end c) + (range_start c + new_count c)"
      using q by (auto simp: old_to_new_def new_position_of_change_end_def split: if_splits)
    have diff: "unat (p - range_end c) = unat p - ?e"
      using p by (simp add: unat_sub_if' word_le_nat_alt)
    have uq: "unat q = unat p - ?e + (?s + ?n)"
      using assms(2) len le by (simp add: q' unat_word_ariths diff new_end)
    have "new_to_old c q = Some p"
      using uq new_end by (simp add: new_to_old_def new_position_of_change_end_def word_less_nat_alt word_le_nat_alt q')
    with uq le assms(2) p show ?thesis
      by (auto simp: apply_edit_def nth_append word_le_nat_alt)
  qed
qed

lemma edit_step_back:
  fixes t :: "'a list" and p q :: u32
  assumes "edit_ok (c, ins) t" and "unat q < length (apply_edit (c, ins) t)" and "new_to_old c q = Some p"
  shows "unat p < length t \<and> old_to_new c p = Some q"
proof -
  let ?s = "unat (range_start c)" and ?e = "unat (range_end c)" and ?n = "unat (new_count c)"
  have le: "?s \<le> ?e" "?e \<le> length t" "length ins = ?n" "length t < 2 ^ 32"
    and len: "length t - ?e + ?n + ?s < 2 ^ 32"
    using assms(1) by (auto simp: edit_ok_def apply_edit_def word_le_nat_alt)
  have new_end: "unat (range_start c + new_count c) = ?s + ?n"
    using len by (simp add: unat_word_ariths)
  show ?thesis
  proof (cases "q < range_start c")
    case True
    with assms(3) have "p = q" by (simp add: new_to_old_def)
    with True le show ?thesis by (auto simp: old_to_new_def word_less_nat_alt)
  next
    case False
    then have ge: "?s + ?n \<le> unat q" and p: "p = q - (range_start c + new_count c) + range_end c"
      using assms(3) new_end
      by (auto simp: new_to_old_def new_position_of_change_end_def word_le_nat_alt split: if_splits)
    have "unat q < ?s + ?n + (length t - ?e)" using assms(2) le by (simp add: apply_edit_def)
    moreover have "unat (q - (range_start c + new_count c)) = unat q - (?s + ?n)"
      using ge new_end by (simp add: unat_sub_if')
    ultimately have up: "unat p = unat q - (?s + ?n) + ?e"
      using le by (simp add: p unat_word_ariths)
    then have "old_to_new c p = Some q"
      using le by (simp add: old_to_new_def new_position_of_change_end_def word_less_nat_alt word_le_nat_alt p)
    with up ge le \<open>unat q < ?s + ?n + (length t - ?e)\<close> show ?thesis by simp
  qed
qed

text \<open>
  C38. A position of the old text that is carried to the new one carries the same character there, and
  is carried back to where it came from.
\<close>

theorem MapOldPositionToNewPosition_correct:
  assumes "edits_ok es t" and "unat p < length t" and "MapOldPositionToNewPosition (map fst es) p = Some q"
  shows "unat q < length (apply_edits es t) \<and> apply_edits es t ! unat q = t ! unat p \<and>
    MapNewPositionToOldPosition (map fst es) q = Some p"
  using assms
proof (induction es arbitrary: t p)
  case Nil
  then show ?case by (simp add: apply_edits_def MapNewPositionToOldPosition_def)
next
  case (Cons e es)
  obtain c ins where e: "e = (c, ins)" by fastforce
  from Cons.prems(3) obtain p1 where p1: "old_to_new c p = Some p1" "MapOldPositionToNewPosition (map fst es) p1 = Some q"
    by (auto simp: e map_old_Cons bind_eq_Some_conv simp del: MapOldPositionToNewPosition.simps)
  have ok: "edit_ok (c, ins) t" "edits_ok es (apply_edit (c, ins) t)" using Cons.prems(1) by (simp_all add: e)
  note s = edit_step [OF ok(1) Cons.prems(2) p1(1)]
  from Cons.IH [OF ok(2) _ p1(2)] s show ?case
    by (simp add: apply_edits_def e map_new_Cons)
qed

text \<open>
  A position of the new text that is carried back to the old one is carried forward to itself again;
  with the previous property, the two maps are inverse to each other where they are defined.
\<close>

theorem MapNewPositionToOldPosition_correct:
  assumes "edits_ok es t" and "unat q < length (apply_edits es t)"
    and "MapNewPositionToOldPosition (map fst es) q = Some p"
  shows "unat p < length t \<and> MapOldPositionToNewPosition (map fst es) p = Some q"
  using assms
proof (induction es arbitrary: t p)
  case Nil
  then show ?case by (simp add: apply_edits_def MapNewPositionToOldPosition_def)
next
  case (Cons e es)
  obtain c ins where e: "e = (c, ins)" by fastforce
  from Cons.prems(3) obtain p1 where p1: "MapNewPositionToOldPosition (map fst es) q = Some p1" "new_to_old c p1 = Some p"
    by (auto simp: e map_new_Cons bind_eq_Some_conv)
  have ok: "edit_ok (c, ins) t" "edits_ok es (apply_edit (c, ins) t)" using Cons.prems(1) by (simp_all add: e)
  have IH: "unat p1 < length (apply_edit (c, ins) t) \<and> MapOldPositionToNewPosition (map fst es) p1 = Some q"
    using Cons.IH [OF ok(2) _ p1(1)] Cons.prems(2) by (simp add: apply_edits_def e)
  with edit_step_back [OF ok(1) _ p1(2)] show ?case
    by (simp add: e map_old_Cons del: MapOldPositionToNewPosition.simps)
qed

definition replace_b :: "char edit" where
  "replace_b = (\<lparr> range_start = 1, range_end = 2, new_count = 3 \<rparr>, ''xyz'')"

lemma replace_b_ok: "edits_ok [replace_b] ''abc''"
  by (simp add: replace_b_def edit_ok_def apply_edit_def)

theorem MapOldPositionToNewPosition_correct_witness:
  "apply_edits [replace_b] ''abc'' ! 4 = CHR ''c'' \<and>
   MapNewPositionToOldPosition (map fst [replace_b]) 4 = Some 2"
  using MapOldPositionToNewPosition_correct [OF replace_b_ok, of 2 4]
  by (simp add: replace_b_def new_position_of_change_end_def)

theorem MapNewPositionToOldPosition_correct_witness:
  "MapOldPositionToNewPosition (map fst [replace_b]) 2 = Some 4"
  using MapNewPositionToOldPosition_correct [OF replace_b_ok, of 4 2]
  by (simp add: replace_b_def apply_edits_def apply_edit_def MapNewPositionToOldPosition_def
      new_position_of_change_end_def)

end
