(* ===== verification/Uri.thy ===== *)
theory Uri
  imports U_Prelude
begin

text \<open>
  \<^verbatim>\<open>source/language_server/uri.hpp\<close> and \<^verbatim>\<open>uri.cpp\<close>: the addresses of documents in messages between editor
  and language server. A \<^verbatim>\<open>llvm::StringRef\<close> is the list of bytes it refers to. The functions of the LLVM library on
  characters and on file paths are parameters: the fields of \<open>Llvm\<close>.
\<close>

record Llvm =
  hexdigit :: "nat \<Rightarrow> byte"
  isHexDigit :: "byte \<Rightarrow> bool"
  hexFromNibbles :: "byte \<Rightarrow> byte \<Rightarrow> byte"
  isAlpha :: "byte \<Rightarrow> bool"
  isAlnum :: "byte \<Rightarrow> bool"
  is_separator :: "byte \<Rightarrow> bool"
  root_name :: "byte list \<Rightarrow> byte list"
  convert_to_slash :: "byte list \<Rightarrow> byte list"
  native :: "byte list \<Rightarrow> byte list"

section \<open>Percent encoding\<close>

definition in_chars :: "char \<Rightarrow> char \<Rightarrow> byte \<Rightarrow> bool" where
  "in_chars l h c \<longleftrightarrow> ch l \<le> c \<and> c \<le> ch h"

definition ShouldEscape :: "byte \<Rightarrow> bool" where
  "ShouldEscape c =
    (if in_chars CHR ''a'' CHR ''z'' c \<or> in_chars CHR ''A'' CHR ''Z'' c \<or> in_chars CHR ''0'' CHR ''9'' c then False
     else if c \<in> set (str ''-_.~/:'') then False
     else True)"

primrec PercentEncode :: "Llvm \<Rightarrow> byte list \<Rightarrow> byte list" where
  "PercentEncode llvm [] = []" |
  "PercentEncode llvm (c # content) =
    (if ShouldEscape c
     then [ch CHR ''%'', hexdigit llvm (unat c div 16), hexdigit llvm (unat c mod 16)]
     else [c]) @ PercentEncode llvm content"

fun PercentDecode :: "Llvm \<Rightarrow> byte list \<Rightarrow> byte list" where
  "PercentDecode llvm [] = []" |
  "PercentDecode llvm (i # content) =
    (if i \<noteq> ch CHR ''%'' then i # PercentDecode llvm content
     else case content of
       a # b # rest \<Rightarrow>
         if isHexDigit llvm a \<and> isHexDigit llvm b then hexFromNibbles llvm a b # PercentDecode llvm rest
         else i # PercentDecode llvm content
     | _ \<Rightarrow> i # PercentDecode llvm content)"

section \<open>Kinds of paths\<close>

definition IsWindowsPath :: "Llvm \<Rightarrow> byte list \<Rightarrow> bool" where
  "IsWindowsPath llvm path \<longleftrightarrow> length path > 1 \<and> isAlpha llvm (path ! 0) \<and> path ! 1 = ch CHR '':''"

definition IsNetworkPath :: "Llvm \<Rightarrow> byte list \<Rightarrow> bool" where
  "IsNetworkPath llvm path \<longleftrightarrow> length path > 2 \<and> path ! 0 = path ! 1 \<and> is_separator llvm (path ! 0)"

definition IsValidScheme :: "Llvm \<Rightarrow> byte list \<Rightarrow> bool" where
  "IsValidScheme llvm scheme =
    (if scheme = [] then False
     else if \<not> isAlpha llvm (hd scheme) then False
     else list_all (\<lambda>c. isAlnum llvm c \<or> c = ch CHR ''+'' \<or> c = ch CHR ''.'' \<or> c = ch CHR ''-'') (tl scheme))"

section \<open>Addresses\<close>

record Uri =
  scheme_of :: "byte list"
  authority_of :: "byte list"
  body_of :: "byte list"

definition colon :: byte where "colon = ch CHR '':''"
definition slash :: byte where "slash = ch CHR ''/''"

definition Uri_Parse :: "Llvm \<Rightarrow> byte list \<Rightarrow> Uri option" where
  "Uri_Parse llvm s =
    (if colon \<notin> set s then None
     else
       let scheme = PercentDecode llvm (takeWhile (\<lambda>c. c \<noteq> colon) s) in
       if \<not> IsValidScheme llvm scheme then None
       else
         let rest = tl (dropWhile (\<lambda>c. c \<noteq> colon) s);
             (authority, rest) =
               (if take 2 rest = [slash, slash] then
                  (let rest = drop 2 rest
                   in (PercentDecode llvm (takeWhile (\<lambda>c. c \<noteq> slash) rest), dropWhile (\<lambda>c. c \<noteq> slash) rest))
                else ([], rest))
         in Some \<lparr> scheme_of = scheme, authority_of = authority, body_of = PercentDecode llvm rest \<rparr>)"

definition Uri_FromFilePath :: "Llvm \<Rightarrow> byte list \<Rightarrow> Uri" where
  "Uri_FromFilePath llvm absolute_path =
    (let root = root_name llvm absolute_path;
         (authority, path, body) =
           (if IsNetworkPath llvm root then
              (drop 2 root,
               if take (length root) absolute_path = root then drop (length root) absolute_path else absolute_path, [])
            else if IsWindowsPath llvm root then ([], absolute_path, str ''/'')
            else ([], absolute_path, []))
     in \<lparr> scheme_of = str ''file'', authority_of = authority, body_of = body @ convert_to_slash llvm path \<rparr>)"

definition starts_with_slash :: "byte list \<Rightarrow> bool" where
  "starts_with_slash s \<longleftrightarrow> s \<noteq> [] \<and> hd s = slash"

definition Uri_ToString :: "Llvm \<Rightarrow> Uri \<Rightarrow> byte list" where
  "Uri_ToString llvm u =
    (let result = PercentEncode llvm (scheme_of u) @ [colon] in
     if authority_of u = [] \<and> body_of u = [] then result
     else
       let result =
         (if authority_of u \<noteq> [] \<or> starts_with_slash (body_of u)
          then result @ [slash, slash] @ PercentEncode llvm (authority_of u) else result)
       in result @ PercentEncode llvm (body_of u))"

definition Uri_AsFilePath :: "Llvm \<Rightarrow> Uri \<Rightarrow> byte list option" where
  "Uri_AsFilePath llvm u =
    (if \<not> starts_with_slash (body_of u) then None
     else
       let (path, body) =
         (if authority_of u \<noteq> [] then ([slash, slash] @ authority_of u, body_of u)
          else if IsWindowsPath llvm (drop 1 (body_of u)) then ([], drop 1 (body_of u))
          else ([], body_of u))
       in Some (native llvm (path @ body)))"

section \<open>Round trips\<close>

text \<open>What the LLVM functions on characters do, as their documentation says.\<close>

definition llvm_chars_ok :: "Llvm \<Rightarrow> bool" where
  "llvm_chars_ok llvm \<longleftrightarrow>
    (\<forall>x < 16. isHexDigit llvm (hexdigit llvm x) \<and> hexdigit llvm x \<in> set (str ''0123456789ABCDEF'')) \<and>
    (\<forall>x < 16. \<forall>y < 16. hexFromNibbles llvm (hexdigit llvm x) (hexdigit llvm y) = word_of_nat (16 * x + y)) \<and>
    (\<forall>c. isAlpha llvm c \<longleftrightarrow> in_chars CHR ''a'' CHR ''z'' c \<or> in_chars CHR ''A'' CHR ''Z'' c) \<and>
    (\<forall>c. isAlnum llvm c \<longleftrightarrow> isAlpha llvm c \<or> in_chars CHR ''0'' CHR ''9'' c)"

lemma unat_div16: "unat (c :: byte) div 16 < 16"
  using unat_less [of c] by (simp add: less_mult_imp_div_less)

lemma unat_word_of_nat_id: "word_of_nat (unat (c :: byte)) = c"
  by simp

lemma nibbles: "llvm_chars_ok llvm \<Longrightarrow>
    hexFromNibbles llvm (hexdigit llvm (unat c div 16)) (hexdigit llvm (unat c mod 16)) = (c :: byte)"
  using unat_div16 [of c]
  unfolding llvm_chars_ok_def by (metis mod_less_divisor mult_div_mod_eq unat_word_of_nat_id zero_less_numeral)

lemma percent_escaped: "ShouldEscape (ch CHR ''%'')"
  by (simp add: ShouldEscape_def in_chars_def ch_def)

lemma decode_encode: "llvm_chars_ok llvm \<Longrightarrow> PercentDecode llvm (PercentEncode llvm s) = s"
proof (induction s)
  case (Cons c s)
  show ?case
  proof (cases "ShouldEscape c")
    case True
    have "isHexDigit llvm (hexdigit llvm (unat c div 16))" "isHexDigit llvm (hexdigit llvm (unat c mod 16))"
      using Cons.prems unat_div16 [of c] by (auto simp: llvm_chars_ok_def)
    with True Cons show ?thesis by (simp add: nibbles)
  next
    case False
    then have "c \<noteq> ch CHR ''%''" using percent_escaped by auto
    with False Cons show ?thesis by simp
  qed
qed simp

text \<open>
  Percent encoding is undone by percent decoding, for every string of bytes.
\<close>

theorem PercentDecode_PercentEncode:
  assumes "llvm_chars_ok llvm"
  shows "PercentDecode llvm (PercentEncode llvm s) = s"
  by (rule decode_encode [OF assms])

lemma encode_set:
  assumes "llvm_chars_ok llvm" and "b \<in> set (PercentEncode llvm s)" and "b \<notin> set (str ''0123456789ABCDEF%'')"
  shows "b \<in> set s"
proof -
  define escapes where "escapes = set (str ''0123456789ABCDEF%'')"
  have percent: "ch CHR ''%'' \<in> escapes" and digits: "set (str ''0123456789ABCDEF'') \<subseteq> escapes"
    by (simp_all add: escapes_def)
  have "hexdigit llvm x \<in> escapes" if "x < 16" for x
    by (rule subsetD [OF digits]) (use assms(1) that in \<open>simp only: llvm_chars_ok_def\<close>)
  then have "hexdigit llvm (unat c div 16) \<in> escapes" "hexdigit llvm (unat c mod 16) \<in> escapes" for c :: byte
    by (simp_all only: unat_div16 mod_less_divisor zero_less_numeral)
  moreover have "b \<notin> escapes" using assms(3) by (simp add: escapes_def)
  ultimately show ?thesis using assms(2) percent by (induction s) (auto split: if_splits)
qed

lemma no_colon: "llvm_chars_ok llvm \<Longrightarrow> colon \<notin> set s \<Longrightarrow> colon \<notin> set (PercentEncode llvm s)"
  and no_slash: "llvm_chars_ok llvm \<Longrightarrow> slash \<notin> set s \<Longrightarrow> slash \<notin> set (PercentEncode llvm s)"
  using encode_set [of llvm colon s] encode_set [of llvm slash s] by (auto simp: colon_def slash_def ch_inj)

lemma scheme_no_colon:
  assumes "llvm_chars_ok llvm" and "IsValidScheme llvm s"
  shows "colon \<notin> set s"
proof -
  have alpha: "\<not> isAlpha llvm colon" and alnum: "\<not> isAlnum llvm colon"
    using assms(1) by (auto simp: llvm_chars_ok_def in_chars_def colon_def ch_def)
  from assms(2) obtain a r where "s = a # r" by (cases s) (auto simp: IsValidScheme_def)
  with assms(2) alpha alnum show ?thesis
    by (auto simp: IsValidScheme_def list_all_iff colon_def ch_inj split: if_splits)
qed

lemma encode_Nil: "PercentEncode llvm s = [] \<longleftrightarrow> s = []"
  by (cases s) auto

lemma slash_not_escaped: "\<not> ShouldEscape slash"
  by (simp add: ShouldEscape_def slash_def)

lemma encode_hd:
  assumes "llvm_chars_ok llvm" and "s \<noteq> []"
  shows "hd (PercentEncode llvm s) = slash \<longleftrightarrow> hd s = slash"
  using assms(2) slash_not_escaped by (cases s) (auto simp: slash_def ch_inj)

lemma find_colon:
  assumes "colon \<notin> set a"
  shows "takeWhile (\<lambda>c. c \<noteq> colon) (a @ colon # b) = a" "dropWhile (\<lambda>c. c \<noteq> colon) (a @ colon # b) = colon # b"
  using assms by (auto simp: takeWhile_append dropWhile_append)

text \<open>
  C39. An address with a valid scheme and an authority without slashes, whose body starts with a slash if there
  is an authority, is read back from its text unchanged.
\<close>

theorem Uri_roundtrip:
  assumes "llvm_chars_ok llvm" and "IsValidScheme llvm (scheme_of u)" and "slash \<notin> set (authority_of u)"
    and "authority_of u = [] \<or> body_of u = [] \<or> starts_with_slash (body_of u)"
  shows "Uri_Parse llvm (Uri_ToString llvm u) = Some u"
proof -
  let ?e = "PercentEncode llvm"
  note dec = decode_encode [OF assms(1)]
  define tail where "tail = (if authority_of u = [] \<and> body_of u = [] then []
     else (if authority_of u \<noteq> [] \<or> starts_with_slash (body_of u) then [slash, slash] @ ?e (authority_of u) else [])
       @ ?e (body_of u))"
  have s: "Uri_ToString llvm u = ?e (scheme_of u) @ colon # tail"
    by (simp add: Uri_ToString_def tail_def Let_def)
  have c: "colon \<notin> set (?e (scheme_of u))" using no_colon scheme_no_colon assms by blast
  have auth: "takeWhile (\<lambda>c. c \<noteq> slash) (?e (authority_of u) @ x) = ?e (authority_of u)"
    "dropWhile (\<lambda>c. c \<noteq> slash) (?e (authority_of u) @ x) = x" if "x = [] \<or> hd x = slash" for x
    using that no_slash [OF assms(1,3)] by (cases x; auto simp: takeWhile_append dropWhile_append takeWhile_eq_all_conv)+
  have hd: "?e (body_of u) = [] \<or> hd (?e (body_of u)) = slash" if "body_of u = [] \<or> starts_with_slash (body_of u)"
    using that encode_hd [OF assms(1), of "body_of u"] encode_Nil [of llvm "body_of u"] by (auto simp: starts_with_slash_def)
  have "(if take 2 tail = [slash, slash] then
      (PercentDecode llvm (takeWhile (\<lambda>c. c \<noteq> slash) (drop 2 tail)), dropWhile (\<lambda>c. c \<noteq> slash) (drop 2 tail))
    else ([], tail)) = (authority_of u, ?e (body_of u))"
  proof (cases "authority_of u \<noteq> [] \<or> starts_with_slash (body_of u)")
    case True
    then have "tail = slash # slash # ?e (authority_of u) @ ?e (body_of u)"
      by (auto simp: tail_def starts_with_slash_def)
    moreover have "body_of u = [] \<or> starts_with_slash (body_of u)" using True assms(4) by auto
    ultimately show ?thesis using auth [OF hd] dec by simp
  next
    case False
    then have t: "tail = ?e (body_of u)" and a: "authority_of u = []" by (auto simp: tail_def encode_Nil)
    have "take 2 tail \<noteq> [slash, slash]"
    proof
      assume "take 2 tail = [slash, slash]"
      then have "tail \<noteq> []" "hd tail = slash" by (cases tail; auto)+
      with t False encode_hd [OF assms(1), of "body_of u"] show False
        by (auto simp: starts_with_slash_def encode_Nil)
    qed
    with t a show ?thesis by simp
  qed
  then have "(if take 2 tail = [slash, slash] then
      PercentDecode llvm (takeWhile (\<lambda>c. c \<noteq> slash) (drop 2 tail)) else []) = authority_of u"
    "(if take 2 tail = [slash, slash] then dropWhile (\<lambda>c. c \<noteq> slash) (drop 2 tail) else tail) = ?e (body_of u)"
    by (auto split: if_splits)
  then show ?thesis
    using c assms(2) dec find_colon [OF c] by (auto simp: Uri_Parse_def s Let_def split: if_splits)
qed

text \<open>What the LLVM functions on paths do on a POSIX system for a path that starts with one slash.\<close>

definition posix_path :: "Llvm \<Rightarrow> byte list \<Rightarrow> bool" where
  "posix_path llvm p \<longleftrightarrow> starts_with_slash p \<and> root_name llvm p = [] \<and> convert_to_slash llvm p = p \<and> native llvm p = p"

text \<open>
  On a POSIX system the address of a file leads back to its path, unless the path looks like a
  Windows path behind its first slash.
\<close>

theorem Uri_FilePath_roundtrip:
  assumes "posix_path llvm p" and "\<not> IsWindowsPath llvm (drop 1 p)"
  shows "Uri_AsFilePath llvm (Uri_FromFilePath llvm p) = Some p"
proof -
  have "\<not> IsNetworkPath llvm []" "\<not> IsWindowsPath llvm []" by (simp_all add: IsNetworkPath_def IsWindowsPath_def)
  with assms show ?thesis by (simp add: posix_path_def Uri_AsFilePath_def Uri_FromFilePath_def Let_def)
qed

section \<open>An instance of the LLVM functions\<close>

definition hex_value :: "byte \<Rightarrow> nat" where
  "hex_value c = (if c \<le> ch CHR ''9'' then unat c - 48 else unat c - 55)"

definition posix_llvm :: Llvm where
  "posix_llvm =
    \<lparr> hexdigit = (\<lambda>x. str ''0123456789ABCDEF'' ! x),
      isHexDigit = (\<lambda>c. c \<in> set (str ''0123456789ABCDEF'')),
      hexFromNibbles = (\<lambda>a b. word_of_nat (16 * hex_value a + hex_value b)),
      isAlpha = (\<lambda>c. in_chars CHR ''a'' CHR ''z'' c \<or> in_chars CHR ''A'' CHR ''Z'' c),
      isAlnum = (\<lambda>c. in_chars CHR ''a'' CHR ''z'' c \<or> in_chars CHR ''A'' CHR ''Z'' c \<or> in_chars CHR ''0'' CHR ''9'' c),
      is_separator = (\<lambda>c. c = slash), root_name = (\<lambda>p. []), convert_to_slash = (\<lambda>p. p), native = (\<lambda>p. p) \<rparr>"

lemma less_16_cases: "x < (16 :: nat) \<Longrightarrow> x \<in> {0, 1, 2, 3, 4, 5, 6, 7, 8, 9, 10, 11, 12, 13, 14, 15}"
  by (simp; presburger)

lemma posix_hex_value: "x < 16 \<Longrightarrow> hex_value (str ''0123456789ABCDEF'' ! x) = x"
  by (drule less_16_cases) (auto simp: hex_value_def ch_def)

lemma posix_llvm_ok: "llvm_chars_ok posix_llvm"
proof -
  have "str ''0123456789ABCDEF'' ! x \<in> set (str ''0123456789ABCDEF'')" if "x < 16" for x
    using that by (intro nth_mem) simp
  then show ?thesis by (auto simp: llvm_chars_ok_def posix_llvm_def posix_hex_value simp del: str_Cons)
qed

theorem PercentDecode_PercentEncode_witness:
  "PercentDecode posix_llvm (PercentEncode posix_llvm (str ''a b'')) = str ''a b''"
  by (rule PercentDecode_PercentEncode [OF posix_llvm_ok])

theorem Uri_roundtrip_witness:
  "Uri_Parse posix_llvm (Uri_ToString posix_llvm
     \<lparr> scheme_of = str ''file'', authority_of = [], body_of = str ''/home/a b.u'' \<rparr>) =
   Some \<lparr> scheme_of = str ''file'', authority_of = [], body_of = str ''/home/a b.u'' \<rparr>"
  by (rule Uri_roundtrip [OF posix_llvm_ok])
     (simp_all add: IsValidScheme_def posix_llvm_def in_chars_def ch_def starts_with_slash_def slash_def)

theorem Uri_FilePath_roundtrip_witness:
  "Uri_AsFilePath posix_llvm (Uri_FromFilePath posix_llvm (str ''/home/main.u'')) = Some (str ''/home/main.u'')"
  by (rule Uri_FilePath_roundtrip)
     (simp_all add: posix_path_def posix_llvm_def starts_with_slash_def slash_def IsWindowsPath_def ch_def in_chars_def)

end
