(* ===== verification/Macro.thy ===== *)
theory Macro
  imports Lexem
begin

text \<open>
  \<^verbatim>\<open>source/compiler0/lex_synt_lib/macro.hpp\<close> and the contexts of macro expansion of \<^verbatim>\<open>syntax_analyzer.hpp\<close>. The maps of macros
  are association lists.
\<close>

datatype MacroContext = ExpressionContext | BlockContext | ClassContext | NamespaceContext

datatype MatchElementKind =
    MatchLexem | MatchIdentifier | MatchTypename | MatchExpression | MatchBlock | MatchIfAlternative | MatchOptional | MatchRepeated

datatype ResultElementKind = ResultLexem | VariableElement | VariableElementWithMacroBlock

datatype BlockCheckLexemKind = LexemAfterBlockEnd | LexemAtBlockStart

datatype MatchElement = MatchElement
  (me_kind: MatchElementKind) (me_block_check_lexem_kind: BlockCheckLexemKind) (me_lexem: Lexem)
  (me_name: "byte list") (me_sub_elements: "MatchElement list")

datatype ResultElement = ResultElement
  (re_kind: ResultElementKind) (re_lexem: Lexem) (re_name: "byte list") (re_sub_elements: "ResultElement list")

record Macro =
  mc_src_loc :: SrcLoc
  mc_name :: "byte list"
  mc_match_template_elements :: "MatchElement list"
  mc_result_template_elements :: "ResultElement list"

type_synonym MacroMap = "(byte list \<times> Macro) list"
type_synonym MacrosByContextMap = "(MacroContext \<times> MacroMap) list"

record MacroExpansionContext =
  mx_macro_name :: "byte list"
  mx_macro_declaration_src_loc :: SrcLoc
  mx_src_loc :: SrcLoc

end
