(* ===== verification/Parser_Cursor.thy ===== *)
theory Parser_Cursor
  imports Macro Lang_Types
begin

text \<open>
  The cursor of the syntax analyzer, \<^verbatim>\<open>source/compiler0/lex_synt_lib/syntax_analyzer.cpp\<close>: moving over the lexems, reporting
  an error, skipping brackets, finding a lexem at which parsing can go on after an error; and the parser of the imports at the
  start of a file, which uses nothing else.

  An iterator is an index into the list of lexems. The last lexem is the end of the file, and the
  cursor never leaves it. \<open>cur\<close> is the lexem under the cursor; the theorem below shows that it is only read inside
  the list.
\<close>

section \<open>The cursor\<close>

record SyntaxAnalyzer =
  sa_lexems :: "Lexem list"
  sa_it :: nat
  sa_error_messages :: "LexSyntError list"
  sa_last_error_it :: nat
  sa_last_error_repeats :: nat
  sa_macro_unique_identifiers_base_name :: "byte list"
  sa_macros :: MacrosByContextMap
  sa_macro_expansion_contexts :: "MacroExpansionContext list"
  sa_macro_expansion_depth :: nat

definition SyntaxAnalyzer_make ::
  "Lexem list \<Rightarrow> MacrosByContextMap \<Rightarrow> MacroExpansionContext list \<Rightarrow> byte list \<Rightarrow> nat \<Rightarrow> SyntaxAnalyzer" where
  "SyntaxAnalyzer_make lexems macros macro_expansion_contexts base_name depth =
    \<lparr> sa_lexems = lexems, sa_it = 0, sa_error_messages = [], sa_last_error_it = length lexems, sa_last_error_repeats = 0,
       sa_macro_unique_identifiers_base_name = base_name, sa_macros = macros,
       sa_macro_expansion_contexts = macro_expansion_contexts, sa_macro_expansion_depth = depth \<rparr>"

text \<open>The analyzer that only parses imports has no macros.\<close>

definition SyntaxAnalyzer_start :: "Lexem list \<Rightarrow> SyntaxAnalyzer" where
  "SyntaxAnalyzer_start lexems = SyntaxAnalyzer_make lexems [] [] [] 0"

definition lexem_at :: "Lexem list \<Rightarrow> nat \<Rightarrow> Lexem" where
  "lexem_at ls i = (if i < length ls then ls ! i else Lexem_default)"

definition cur :: "SyntaxAnalyzer \<Rightarrow> Lexem" where
  "cur s = lexem_at (sa_lexems s) (sa_it s)"

definition NotEndOfFile :: "SyntaxAnalyzer \<Rightarrow> bool" where
  "NotEndOfFile s \<longleftrightarrow> sa_it s + 1 < length (sa_lexems s)"

definition NextLexem :: "SyntaxAnalyzer \<Rightarrow> SyntaxAnalyzer" where
  "NextLexem s = (if NotEndOfFile s then s \<lparr> sa_it := sa_it s + 1 \<rparr> else s)"

definition error_message_text :: "Lexem \<Rightarrow> byte list" where
  "error_message_text l =
    (if lexem_type l = IntegerNumber \<or> lexem_type l = FloatingPointNumber
     then str ''Syntax error - unexpected number lexem''
     else str ''Syntax error - unexpected lexem \"'' @ lexem_text l @ [ch (CHR 0x22)])"

definition PushErrorMessage :: "SyntaxAnalyzer \<Rightarrow> SyntaxAnalyzer" where
  "PushErrorMessage s =
    (let es = sa_error_messages s;
         s = (if es = [] \<or> \<not> SrcLoc_eq (error_src_loc (last es)) (lexem_src_loc (cur s))
              then s \<lparr> sa_error_messages := es @ [mk_error (error_message_text (cur s)) (lexem_src_loc (cur s))] \<rparr>
              else s);
         s = (if sa_it s = sa_last_error_it s
              then s \<lparr> sa_last_error_repeats := sa_last_error_repeats s + 1 \<rparr>
              else s \<lparr> sa_last_error_it := sa_it s, sa_last_error_repeats := 0 \<rparr>)
     in if sa_last_error_repeats s > 10
        then let s = NextLexem s in s \<lparr> sa_last_error_it := sa_it s, sa_last_error_repeats := 0 \<rparr>
        else s)"

definition ExpectLexem :: "Lexem_Type \<Rightarrow> SyntaxAnalyzer \<Rightarrow> SyntaxAnalyzer" where
  "ExpectLexem t s = (if lexem_type (cur s) \<noteq> t then PushErrorMessage s else NextLexem s)"

section \<open>Recovery after an error\<close>

definition is_opening :: "Lexem_Type \<Rightarrow> bool" where
  "is_opening t \<longleftrightarrow> t = BracketLeft \<or> t = SquareBracketLeft \<or> t = BraceLeft \<or> t = TemplateBracketLeft"

text \<open>\<open>static_cast<Lexem::Type>(int(bracket_type) + 1)\<close>: the enumerator behind an opening bracket.\<close>

fun closing_bracket :: "Lexem_Type \<Rightarrow> Lexem_Type" where
  "closing_bracket BracketLeft = BracketRight" |
  "closing_bracket SquareBracketLeft = SquareBracketRight" |
  "closing_bracket BraceLeft = BraceRight" |
  "closing_bracket TemplateBracketLeft = TemplateBracketRight" |
  "closing_bracket t = t"

text \<open>The loop of \<open>TrySkipBrackets\<close> from a position behind the opening bracket, and the position where it stops.\<close>

function (domintros) skip_brackets_loop :: "Lexem list \<Rightarrow> Lexem_Type \<Rightarrow> nat \<Rightarrow> nat" where
  "skip_brackets_loop ls bracket_type it =
    (if it + 1 < length ls then
       let t = lexem_type (lexem_at ls it);
           it' = (if is_opening t then skip_brackets_loop ls t (it + 1) else it)
       in if is_opening t \<and> it' + 1 \<ge> length ls then it'
          else if lexem_type (lexem_at ls it') = closing_bracket bracket_type then it' + 1
          else skip_brackets_loop ls bracket_type (it' + 1)
     else it)"
  by pat_completeness auto

lemma skip_brackets_loop_mono: "skip_brackets_loop_dom (ls, b, it) \<Longrightarrow> it \<le> skip_brackets_loop ls b it"
proof (induction rule: skip_brackets_loop.pinduct)
  case (1 ls b it)
  show ?case
  proof (cases "it + 1 < length ls")
    case False
    then show ?thesis using 1(1) by (simp add: skip_brackets_loop.psimps)
  next
    case True
    define t where "t = lexem_type (lexem_at ls it)"
    define it' where "it' = (if is_opening t then skip_brackets_loop ls t (it + 1) else it)"
    have "it \<le> it'" using 1(2) [OF True t_def] by (auto simp: it'_def)
    moreover have "it' + 1 \<le> skip_brackets_loop ls b (it' + 1)"
      if "\<not> (is_opening t \<and> it' + 1 \<ge> length ls)" "lexem_type (lexem_at ls it') \<noteq> closing_bracket b"
      using 1(3) [OF True t_def it'_def] that by blast
    moreover have "skip_brackets_loop ls b it =
        (if is_opening t \<and> it' + 1 \<ge> length ls then it'
         else if lexem_type (lexem_at ls it') = closing_bracket b then it' + 1
         else skip_brackets_loop ls b (it' + 1))"
      using True by (subst skip_brackets_loop.psimps [OF 1(1)]) (simp only: Let_def t_def it'_def if_True)
    ultimately show ?thesis by auto
  qed
qed

lemma skip_brackets_loop_all_dom: "skip_brackets_loop_dom (ls, b, it)"
proof (induction "length ls - it" arbitrary: b it rule: less_induct)
  case less
  have inner: "skip_brackets_loop_dom (ls, t, Suc it)" if "Suc it < length ls" for t
    by (rule less.hyps) (use that in simp)
  have outer: "skip_brackets_loop_dom (ls, b, Suc (skip_brackets_loop ls t (Suc it)))" if "Suc it < length ls" for t
    by (rule less.hyps) (use that skip_brackets_loop_mono [OF inner [OF that], of t] in simp)
  show ?case
    by (rule skip_brackets_loop.domintros; (rule inner outer, assumption)?)
qed

termination skip_brackets_loop
  by (simp add: skip_brackets_loop_all_dom)

lemmas skip_brackets_loop_le = skip_brackets_loop_mono [OF skip_brackets_loop_all_dom]

declare skip_brackets_loop.simps [simp del]

definition TrySkipBrackets :: "Lexem_Type \<Rightarrow> SyntaxAnalyzer \<Rightarrow> SyntaxAnalyzer" where
  "TrySkipBrackets bracket_type s = s \<lparr> sa_it := skip_brackets_loop (sa_lexems s) bracket_type (sa_it s + 1) \<rparr>"

record ExpectedLexem =
  el_type :: Lexem_Type
  el_text :: "byte list"

definition ExpectedLexem_type :: "Lexem_Type \<Rightarrow> ExpectedLexem" where
  "ExpectedLexem_type t = \<lparr> el_type = t, el_text = [] \<rparr>"

definition ExpectedLexem_keyword :: "Keyword \<Rightarrow> Keywords \<Rightarrow> ExpectedLexem" where
  "ExpectedLexem_keyword Keyword k = \<lparr> el_type = Identifier, el_text = Keyword k \<rparr>"

definition expected_eq :: "Lexem \<Rightarrow> ExpectedLexem \<Rightarrow> bool" where
  "expected_eq l e =
    (if lexem_type l = Identifier then lexem_type l = el_type e \<and> lexem_text l = el_text e
     else lexem_type l = el_type e)"

text \<open>The three lists of expected lexems are searched one after the other; they are one list here.\<close>

function recover_loop :: "Lexem list \<Rightarrow> ExpectedLexem list \<Rightarrow> nat \<Rightarrow> nat" where
  "recover_loop ls expected it =
    (if it + 1 < length ls then
       let t = lexem_type (lexem_at ls it);
           it' = (if is_opening t then skip_brackets_loop ls t (it + 1) else it)
       in if is_opening t \<and> it' + 1 \<ge> length ls then it'
          else if list_ex (expected_eq (lexem_at ls it')) expected then it'
          else recover_loop ls expected (it' + 1)
     else it)"
  by pat_completeness auto
termination
proof (relation "measure (\<lambda>(ls, _, it). length ls - it)", goal_cases)
  case (2 ls e it t it')
  with skip_brackets_loop_le [of "it + 1" ls t] show ?case by auto
qed auto

declare recover_loop.simps [simp del]

definition TryRecoverAfterError :: "ExpectedLexem list \<Rightarrow> SyntaxAnalyzer \<Rightarrow> SyntaxAnalyzer" where
  "TryRecoverAfterError expected s = s \<lparr> sa_it := recover_loop (sa_lexems s) expected (sa_it s) \<rparr>"

definition g_namespace_body_elements_start_lexems :: "Keyword \<Rightarrow> ExpectedLexem list" where
  "g_namespace_body_elements_start_lexems Keyword =
    map (ExpectedLexem_keyword Keyword)
      [namespace_kw, class_kw, struct_kw, fn_kw, op_kw, var_kw, auto_kw, static_assert_kw]"

section \<open>Every operation moves the cursor forward\<close>

text \<open>
  What the parser relies on: an operation keeps the lexems, does not move the cursor back, does not move it out of the
  list, and keeps the errors reported so far.
\<close>

named_theorems cursor \<open>operations that only move the cursor forward\<close>

definition advances :: "SyntaxAnalyzer \<Rightarrow> SyntaxAnalyzer \<Rightarrow> bool" where
  "advances s s' \<longleftrightarrow> sa_lexems s' = sa_lexems s \<and> sa_it s \<le> sa_it s' \<and>
    (sa_it s < length (sa_lexems s) \<longrightarrow> sa_it s' < length (sa_lexems s)) \<and>
    (\<exists>es. sa_error_messages s' = sa_error_messages s @ es)"

lemma advances_refl [cursor]: "advances s s"
  by (simp add: advances_def)

lemma advances_trans: "advances s s' \<Longrightarrow> advances s' s'' \<Longrightarrow> advances s s''"
  by (auto simp: advances_def)

lemma NextLexem_moves [cursor]: "advances s (NextLexem s)"
  by (simp add: advances_def NextLexem_def NotEndOfFile_def)

lemma PushErrorMessage_moves [cursor]: "advances s (PushErrorMessage s)"
  by (simp add: advances_def PushErrorMessage_def NextLexem_def NotEndOfFile_def Let_def)

lemma ExpectLexem_moves [cursor]: "advances s (ExpectLexem t s)"
  by (simp add: ExpectLexem_def cursor)

lemma skip_brackets_loop_bound: "it < length ls \<Longrightarrow> skip_brackets_loop ls b it < length ls"
proof (induction ls b it rule: skip_brackets_loop.induct)
  case (1 ls b it)
  define t where "t = lexem_type (lexem_at ls it)"
  define it' where "it' = (if is_opening t then skip_brackets_loop ls t (it + 1) else it)"
  have eq: "skip_brackets_loop ls b it =
      (if it + 1 < length ls then
         if is_opening t \<and> it' + 1 \<ge> length ls then it'
         else if lexem_type (lexem_at ls it') = closing_bracket b then it' + 1
         else skip_brackets_loop ls b (it' + 1)
       else it)"
    by (subst skip_brackets_loop.simps) (simp only: Let_def t_def it'_def)
  show ?case
  proof (cases "it + 1 < length ls")
    case True
    have "it' < length ls" using 1(1) [OF True t_def] True by (auto simp: it'_def)
    with True 1(2) [OF True t_def it'_def] show ?thesis
      by (cases "is_opening t") (auto simp: eq it'_def)
  qed (use "1.prems" in \<open>simp add: eq\<close>)
qed

lemma TrySkipBrackets_moves [cursor]: "NotEndOfFile s \<Longrightarrow> advances s (TrySkipBrackets b s)"
  using skip_brackets_loop_le [of "sa_it s + 1" "sa_lexems s" b]
    skip_brackets_loop_bound [of "sa_it s + 1" "sa_lexems s" b]
  by (simp add: advances_def TrySkipBrackets_def NotEndOfFile_def)

text \<open>One step of \<open>recover_loop\<close>, with the position behind a bracketed group as \<open>it'\<close>.\<close>

lemma recover_loop_step:
  fixes ls it
  defines "t \<equiv> lexem_type (lexem_at ls it)"
  defines "it' \<equiv> (if is_opening t then skip_brackets_loop ls t (it + 1) else it)"
  assumes "it + 1 < length ls"
  shows "recover_loop ls e it =
      (if is_opening t \<and> it' + 1 \<ge> length ls then it'
       else if list_ex (expected_eq (lexem_at ls it')) e then it'
       else recover_loop ls e (it' + 1))"
    and "it \<le> it'" and "it' < length ls" and "it' + 1 \<ge> length ls \<Longrightarrow> is_opening t"
proof -
  show "recover_loop ls e it =
      (if is_opening t \<and> it' + 1 \<ge> length ls then it'
       else if list_ex (expected_eq (lexem_at ls it')) e then it'
       else recover_loop ls e (it' + 1))"
    using assms(3) by (subst recover_loop.simps) (simp only: Let_def t_def it'_def if_True)
  show "it \<le> it'" using skip_brackets_loop_le [of "it + 1" ls t] by (simp add: it'_def)
  show "it' < length ls" "it' + 1 \<ge> length ls \<Longrightarrow> is_opening t"
    using assms(3) skip_brackets_loop_bound [of "it + 1" ls t] by (auto simp: it'_def split: if_splits)
qed

lemma recover_loop_props:
  assumes "it < length ls"
  shows "it \<le> recover_loop ls e it \<and> recover_loop ls e it < length ls \<and>
    (recover_loop ls e it + 1 < length ls \<longrightarrow> list_ex (expected_eq (lexem_at ls (recover_loop ls e it))) e)"
  using assms
proof (induction "length ls - it" arbitrary: it rule: less_induct)
  case less
  show ?case
  proof (cases "it + 1 < length ls")
    case False
    with less.prems show ?thesis by (simp add: recover_loop.simps)
  next
    case True
    note step = recover_loop_step [OF True]
    define it' where "it' = (let t = lexem_type (lexem_at ls it) in if is_opening t then skip_brackets_loop ls t (it + 1) else it)"
    have it': "it \<le> it'" "it' < length ls" using step(2,3) by (simp_all add: it'_def Let_def)
    have eq: "recover_loop ls e it =
      (if it' + 1 \<ge> length ls then it'
       else if list_ex (expected_eq (lexem_at ls it')) e then it'
       else recover_loop ls e (it' + 1))"
      using step(1,4) True by (auto simp: it'_def Let_def)
    show ?thesis
    proof (cases "it' + 1 \<ge> length ls \<or> list_ex (expected_eq (lexem_at ls it')) e")
      case False
      moreover have "length ls - (it' + 1) < length ls - it" using it' by simp
      ultimately show ?thesis using less.hyps [of "it' + 1"] it' by (auto simp: eq)
    qed (use eq it' in auto)
  qed
qed

lemma TryRecoverAfterError_moves [cursor]: "sa_it s < length (sa_lexems s) \<Longrightarrow> advances s (TryRecoverAfterError e s)"
  using recover_loop_props [of "sa_it s" "sa_lexems s" e] by (simp add: advances_def TryRecoverAfterError_def)

section \<open>Imports\<close>

record Import =
  im_src_loc :: SrcLoc
  im_import_name :: "byte list"

definition is_import :: "Keyword \<Rightarrow> Lexem \<Rightarrow> bool" where
  "is_import Keyword l \<longleftrightarrow> lexem_type l = Identifier \<and> lexem_text l = Keyword import_kw"

function parse_imports_loop :: "Keyword \<Rightarrow> SyntaxAnalyzer \<Rightarrow> Import list \<Rightarrow> Import list \<times> SyntaxAnalyzer" where
  "parse_imports_loop Keyword s imports =
    (if \<not> NotEndOfFile s then (imports, s)
     else if \<not> is_import Keyword (cur s) then (imports, s)
     else
       let s = NextLexem s in
       if lexem_type (cur s) = String
       then parse_imports_loop Keyword (NextLexem s)
              (imports @ [\<lparr> im_src_loc = lexem_src_loc (cur s), im_import_name = lexem_text (cur s) \<rparr>])
       else parse_imports_loop Keyword
              (TryRecoverAfterError
                ([ExpectedLexem_keyword Keyword import_kw, ExpectedLexem_type String] @
                  g_namespace_body_elements_start_lexems Keyword)
                (PushErrorMessage s))
              imports)"
  by pat_completeness auto

lemma NextLexem_decreases:
  "NotEndOfFile s \<Longrightarrow> length (sa_lexems (NextLexem s)) - sa_it (NextLexem s) < length (sa_lexems s) - sa_it s"
  "NotEndOfFile s \<Longrightarrow> sa_it (NextLexem s) < length (sa_lexems (NextLexem s))"
  by (simp_all add: NextLexem_def NotEndOfFile_def)

lemma advances_measure: "advances s s' \<Longrightarrow> length (sa_lexems s') - sa_it s' \<le> length (sa_lexems s) - sa_it s"
  by (auto simp: advances_def)

lemma recovery_moves:
  assumes "sa_it s < length (sa_lexems s)"
  shows "advances s (TryRecoverAfterError e (PushErrorMessage s))"
proof -
  have "sa_it (PushErrorMessage s) < length (sa_lexems (PushErrorMessage s))"
    using PushErrorMessage_moves [of s] assms by (simp add: advances_def)
  then show ?thesis by (rule advances_trans [OF PushErrorMessage_moves TryRecoverAfterError_moves])
qed

termination parse_imports_loop
proof (relation "measure (\<lambda>(_, s, _). length (sa_lexems s) - sa_it s)", goal_cases)
  case (2 _ s _ s')
  then show ?case
    using NextLexem_decreases(1) [of s] advances_measure [OF NextLexem_moves [of s']] by simp
next
  case (3 _ s _ s')
  then show ?case
    using NextLexem_decreases [of s] advances_measure [OF recovery_moves [of s']] by (auto intro: le_less_trans)
qed simp

declare parse_imports_loop.simps [simp del]

definition ParseImports :: "Keyword \<Rightarrow> Lexem list \<Rightarrow> Import list" where
  "ParseImports Keyword lexems = fst (parse_imports_loop Keyword (SyntaxAnalyzer_start lexems) [])"

text \<open>
  After recovery from an error the cursor has not moved back or out of the list, and it stands on the last lexem
  or on one of the expected lexems.
\<close>

theorem TryRecoverAfterError_correct:
  assumes "sa_it s < length (sa_lexems s)"
  shows "advances s (TryRecoverAfterError e s) \<and>
    (NotEndOfFile (TryRecoverAfterError e s) \<longrightarrow> list_ex (expected_eq (cur (TryRecoverAfterError e s))) e)"
  using recover_loop_props [OF assms, of e] TryRecoverAfterError_moves [OF assms]
  by (simp add: TryRecoverAfterError_def NotEndOfFile_def cur_def)

lemma parse_imports_pairs:
  assumes "\<forall>(a, b) \<in> set ps. is_import Keyword a \<and> lexem_type b = String"
    and "rest \<noteq> []" and "is_import Keyword (hd rest) \<Longrightarrow> tl rest = []"
    and "sa_lexems s = done @ concat (map (\<lambda>(a, b). [a, b]) ps) @ rest" and "sa_it s = length done"
  shows "fst (parse_imports_loop Keyword s ims) =
    ims @ map (\<lambda>(a, b). \<lparr> im_src_loc = lexem_src_loc b, im_import_name = lexem_text b \<rparr>) ps"
  using assms
proof (induction ps arbitrary: s "done" ims)
  case Nil
  have "cur s = hd rest" using Nil.prems(2,4,5) by (simp add: cur_def lexem_at_def nth_append hd_conv_nth)
  moreover have "tl rest = [] \<Longrightarrow> \<not> NotEndOfFile s"
    using Nil.prems(2,4,5) by (cases rest) (simp_all add: NotEndOfFile_def)
  ultimately show ?case using Nil.prems(3) by (subst parse_imports_loop.simps) auto
next
  case (Cons p ps)
  obtain a b where p: "p = (a, b)" by force
  have ab: "is_import Keyword a" "lexem_type b = String" using Cons.prems(1) p by auto
  have ls: "sa_lexems s = done @ a # b # concat (map (\<lambda>(a, b). [a, b]) ps) @ rest" using Cons.prems(4) p by simp
  have s: "NotEndOfFile s" "cur s = a" "NotEndOfFile (NextLexem s)" "cur (NextLexem s) = b"
    using ls Cons.prems(2,5) by (auto simp: NotEndOfFile_def NextLexem_def cur_def lexem_at_def nth_append)
  let ?s = "NextLexem (NextLexem s)"
  have nx: "sa_lexems ?s = (done @ [a, b]) @ concat (map (\<lambda>(a, b). [a, b]) ps) @ rest" "sa_it ?s = length (done @ [a, b])"
    using s(1,3) ls Cons.prems(5) by (auto simp: NextLexem_def)
  have "fst (parse_imports_loop Keyword ?s ims') =
      ims' @ map (\<lambda>(a, b). \<lparr> im_src_loc = lexem_src_loc b, im_import_name = lexem_text b \<rparr>) ps" for ims'
    by (rule Cons.IH [OF _ Cons.prems(2,3) nx]) (use Cons.prems(1) in auto)
  then show ?case using s ab p by (subst parse_imports_loop.simps) (simp add: Let_def)
qed

text \<open>
  The imports of a file are its leading pairs of the keyword and a string, in their order, with the locations of
  the strings.
\<close>

theorem ParseImports_correct:
  assumes "\<forall>(a, b) \<in> set ps. is_import Keyword a \<and> lexem_type b = String"
    and "rest \<noteq> []" and "is_import Keyword (hd rest) \<longrightarrow> tl rest = []"
  shows "ParseImports Keyword (concat (map (\<lambda>(a, b). [a, b]) ps) @ rest) =
    map (\<lambda>(a, b). \<lparr> im_src_loc = lexem_src_loc b, im_import_name = lexem_text b \<rparr>) ps"
  using parse_imports_pairs [OF assms(1,2), of "SyntaxAnalyzer_start (concat (map (\<lambda>(a, b). [a, b]) ps) @ rest)" "[]" "[]"] assms(3)
  by (simp add: ParseImports_def SyntaxAnalyzer_start_def SyntaxAnalyzer_make_def)

definition example_lexem :: "Lexem_Type \<Rightarrow> string \<Rightarrow> Lexem" where
  "example_lexem t s = \<lparr> lexem_text = str s, lexem_src_loc = SrcLoc_make 0 1 0, lexem_type = t \<rparr>"

theorem ParseImports_correct_witness:
  "ParseImports keywords_list
     ([example_lexem Identifier ''import'', example_lexem String ''/a.u''] @ [example_lexem EndOfFile ''EOF'']) =
   [\<lparr> im_src_loc = SrcLoc_make 0 1 0, im_import_name = str ''/a.u'' \<rparr>]"
  using ParseImports_correct [of "[(example_lexem Identifier ''import'', example_lexem String ''/a.u'')]" keywords_list
      "[example_lexem EndOfFile ''EOF'']"]
  by (simp add: is_import_def example_lexem_def keywords_list_def)

theorem TryRecoverAfterError_correct_witness:
  "advances (SyntaxAnalyzer_start [example_lexem Comma '','', example_lexem EndOfFile ''EOF''])
    (TryRecoverAfterError [] (SyntaxAnalyzer_start [example_lexem Comma '','', example_lexem EndOfFile ''EOF'']))"
  using TryRecoverAfterError_correct [of "SyntaxAnalyzer_start [example_lexem Comma '','', example_lexem EndOfFile ''EOF'']" "[]"]
  by (simp add: SyntaxAnalyzer_start_def SyntaxAnalyzer_make_def)

section \<open>Bracketed groups\<close>

definition is_closing :: "Lexem_Type \<Rightarrow> bool" where
  "is_closing t \<longleftrightarrow> t = BracketRight \<or> t = SquareBracketRight \<or> t = BraceRight \<or> t = TemplateBracketRight"

text \<open>Well-nested lexems in which no group stands directly behind another.\<close>

inductive nested :: "Lexem list \<Rightarrow> bool" where
  nested_Nil: "nested []"
| nested_plain: "\<not> is_opening (lexem_type l) \<Longrightarrow> \<not> is_closing (lexem_type l) \<Longrightarrow> nested ls \<Longrightarrow> nested (l # ls)"
| nested_group: "is_opening (lexem_type b) \<Longrightarrow> nested ls \<Longrightarrow> lexem_type c = closing_bracket (lexem_type b) \<Longrightarrow>
    nested ms \<Longrightarrow> ms = [] \<or> \<not> is_opening (lexem_type (hd ms)) \<Longrightarrow> nested (b # ls @ c # ms)"

lemma closing_is_closing: "is_opening b \<Longrightarrow> is_closing (closing_bracket b)" "is_closing t \<Longrightarrow> \<not> is_opening t"
  by (auto simp: is_opening_def is_closing_def)

inductive_cases nested_ConsE: "nested (l # ls)"

lemma skip_step:
  assumes "it + 1 < length ls" and "\<not> is_opening (lexem_type (lexem_at ls it))"
  shows "skip_brackets_loop ls b it =
    (if lexem_type (lexem_at ls it) = closing_bracket b then it + 1 else skip_brackets_loop ls b (it + 1))"
  using assms by (subst skip_brackets_loop.simps) (auto simp: Let_def)

lemma skip_group:
  assumes "it + 1 < length ls" and "is_opening (lexem_type (lexem_at ls it))"
    and "skip_brackets_loop ls (lexem_type (lexem_at ls it)) (it + 1) = j" and "j + 1 < length ls"
  shows "skip_brackets_loop ls b it =
    (if lexem_type (lexem_at ls j) = closing_bracket b then j + 1 else skip_brackets_loop ls b (j + 1))"
  using assms by (subst skip_brackets_loop.simps) (simp add: Let_def)

lemma lexem_at_append: "lexem_at (xs @ y # ys) (length xs) = y"
  by (simp add: lexem_at_def)

lemma nested_hd: "nested (l # ls) \<Longrightarrow> \<not> is_closing (lexem_type l)"
  by (erule nested_ConsE) (auto dest: closing_is_closing(2))

lemma skip_nested:
  assumes "nested body" and "lexem_type c = closing_bracket b" and "is_opening b" and "rest \<noteq> []"
  shows "skip_brackets_loop (pre @ body @ c # rest) b (length pre) = length pre + length body + 1"
  using assms
proof (induction arbitrary: pre b c rest rule: nested.induct)
  case nested_Nil
  then show ?case
    using closing_is_closing by (subst skip_step) (auto simp: lexem_at_append)
next
  case (nested_plain l ls)
  have "lexem_type l \<noteq> closing_bracket b" using nested_plain closing_is_closing by metis
  moreover have "lexem_at (pre @ (l # ls) @ c # rest) (length pre) = l" by (simp add: lexem_at_def)
  ultimately show ?case
    using nested_plain.IH [OF nested_plain.prems, of "pre @ [l]"] nested_plain.hyps(1) nested_plain.prems(3)
    by (subst skip_step) auto
next
  case (nested_group a ls c' ms)
  define xs where "xs = pre @ (a # ls @ c' # ms) @ c # rest"
  define j where "j = length pre + length ls + 2"
  have a: "lexem_at xs (length pre) = a" by (simp add: xs_def lexem_at_def)
  have len: "j + 1 < length xs" using nested_group.prems(3) by (cases rest) (auto simp: xs_def j_def)
  have inner: "skip_brackets_loop xs (lexem_type a) (length pre + 1) = j"
    using nested_group.IH(1) [of c' "lexem_type a" "ms @ c # rest" "pre @ [a]"] nested_group.hyps
    by (simp add: xs_def j_def)
  have outer: "skip_brackets_loop xs b j = j + length ms + 1"
    using nested_group.IH(2) [OF nested_group.prems, of "pre @ a # ls @ [c']"] by (simp add: xs_def j_def)
  have group: "skip_brackets_loop xs b (length pre) =
      (if lexem_type (lexem_at xs j) = closing_bracket b then j + 1 else skip_brackets_loop xs b (j + 1))"
    by (rule skip_group [OF _ _ _ len]) (use len nested_group.hyps(1) inner in \<open>simp_all only: a\<close>, simp add: j_def)
  have "skip_brackets_loop xs b (length pre) = j + length ms + 1"
  proof (cases ms)
    case Nil
    then have "lexem_at xs j = c" by (simp add: xs_def j_def lexem_at_def nth_append)
    with group Nil nested_group.prems(1) show ?thesis by simp
  next
    case (Cons m ms')
    then have m: "lexem_at xs j = m" by (simp add: xs_def j_def lexem_at_def nth_append)
    have "\<not> is_opening (lexem_type m)" "lexem_type m \<noteq> closing_bracket b"
      using nested_group.hyps(4,5) nested_hd [of m ms'] Cons closing_is_closing(1) [OF nested_group.prems(2)] by auto
    then show ?thesis using skip_step [OF len, of b] outer group m by simp
  qed
  then show ?case by (simp add: xs_def j_def)
qed

text \<open>
  Skipping a bracketed group stops directly behind its closing bracket, if the group is well nested and no group
  inside it stands directly behind another.
\<close>

theorem TrySkipBrackets_correct:
  assumes "sa_lexems s = pre @ a # body @ c # rest" and "sa_it s = length pre" and "rest \<noteq> []"
    and "is_opening (lexem_type a)" and "lexem_type c = closing_bracket (lexem_type a)" and "nested body"
  shows "sa_it (TrySkipBrackets (lexem_type a) s) = length pre + length body + 2"
  using skip_nested [OF assms(6,5,4,3), of "pre @ [a]"] assms(1,2) by (simp add: TrySkipBrackets_def)

theorem TrySkipBrackets_correct_witness:
  "sa_it (TrySkipBrackets BracketLeft (SyntaxAnalyzer_start
     [example_lexem BracketLeft ''('', example_lexem Identifier ''a'', example_lexem BracketRight '')'', example_lexem EndOfFile ''EOF''])) = 3"
  using TrySkipBrackets_correct [of "SyntaxAnalyzer_start
      [example_lexem BracketLeft ''('', example_lexem Identifier ''a'', example_lexem BracketRight '')'', example_lexem EndOfFile ''EOF'']"
      "[]" "example_lexem BracketLeft ''(''" "[example_lexem Identifier ''a'']" "example_lexem BracketRight '')''"
      "[example_lexem EndOfFile ''EOF'']"]
  by (simp add: SyntaxAnalyzer_start_def SyntaxAnalyzer_make_def example_lexem_def is_opening_def is_closing_def nested.intros)

definition adjacent_groups :: "Lexem list" where
  "adjacent_groups = map (\<lambda>t. example_lexem t [])
    [BracketLeft, BracketLeft, BracketRight, BracketLeft, BracketRight, BracketRight, EndOfFile]"

text \<open>
  Behind a nested group the next lexem is not treated as an opening bracket: in \<^verbatim>\<open>(()())\<close> the skip stops in
  front of the last bracket.
\<close>

theorem TrySkipBrackets_adjacent_groups:
  "sa_it (TrySkipBrackets BracketLeft (SyntaxAnalyzer_start adjacent_groups)) = 5"
  by (simp add: TrySkipBrackets_def SyntaxAnalyzer_start_def SyntaxAnalyzer_make_def adjacent_groups_def example_lexem_def
      skip_brackets_loop.simps is_opening_def lexem_at_def Let_def)

end
