(* ===== verification/Source_Graph.thy ===== *)
theory Source_Graph
  imports Parser_Cursor Lexical_Analysis "HOL-Library.AList"
begin

text \<open>
  \<^verbatim>\<open>source/compiler0/lex_synt_lib/source_graph_loader.hpp\<close> and \<^verbatim>\<open>source_graph_loader.cpp\<close> and the interface
  \<^verbatim>\<open>i_vfs.hpp\<close>: loading a file and, recursively, the files it imports, with the macros they export.

  The file system is the interface \<open>IVfs\<close>, a record of functions. The lexer and the parser of imports are the models of
  this development; the syntax analyzer proper is a parameter (the field \<open>fe_SyntaxAnalysis\<close>), any function from
  lexems, macros, expansion contexts and a hash to a result and new expansion contexts. The maps of macros are association lists.
  The result \<open>~0u\<close> of the recursive function is \<open>None\<close>. Loading may not end: that is the outer \<open>None\<close>.
\<close>

section \<open>The graph\<close>

record Vfs =
  LoadFileContent :: "byte list \<Rightarrow> byte list option"
  GetFullFilePath :: "byte list \<Rightarrow> byte list \<Rightarrow> byte list"
  IsImportingFileAllowed :: "byte list \<Rightarrow> bool"
  IsFileFromSourcesDirectory :: "byte list \<Rightarrow> bool"

record 'p SyntaxAnalysisResult =
  sr_imports :: "Import list"
  sr_macros :: "MacrosByContextMap option"
  sr_program_elements :: 'p
  sr_error_messages :: "LexSyntError list"

record 'p Frontend =
  fe_Keyword :: Keyword
  fe_no_program :: 'p
  fe_SyntaxAnalysis :: "Lexem list \<Rightarrow> MacrosByContextMap \<Rightarrow> MacroExpansionContext list \<Rightarrow> byte list \<Rightarrow>
    'p SyntaxAnalysisResult \<times> MacroExpansionContext list"
  fe_source_file_path_hashing_function :: "byte list \<Rightarrow> byte list"

datatype Category = SourceOrInternalImport | OtherImport | BuiltInPrelude

record 'p Node =
  n_file_path :: "byte list"
  n_file_path_hash :: "byte list"
  n_child_nodes_indices :: "nat list"
  n_ast :: "'p SyntaxAnalysisResult"
  n_category :: Category

record 'p SourceGraph =
  sg_nodes_storage :: "'p Node list"
  sg_macro_expansion_contexts :: "MacroExpansionContext list"
  sg_errors :: "LexSyntError list"

section \<open>Merging of macros\<close>

definition merge_macro ::
  "nat \<Rightarrow> byte list \<times> Macro \<Rightarrow> MacroMap \<times> LexSyntError list \<Rightarrow> MacroMap \<times> LexSyntError list" where
  "merge_macro node_index p acc =
    (let (name, macro) = p; (dst_map, errors) = acc in
     if (case map_of dst_map name of None \<Rightarrow> False | Some m \<Rightarrow> \<not> SrcLoc_eq (mc_src_loc macro) (mc_src_loc m))
     then (dst_map, errors @ [mk_error (str ''Macro \"'' @ name @ str ''\" redefinition.'') (SrcLoc_make (word_of_nat node_index) 0 0)])
     else (AList.update name macro dst_map, errors))"

definition merge_context ::
  "nat \<Rightarrow> MacroContext \<times> MacroMap \<Rightarrow> MacrosByContextMap \<times> LexSyntError list \<Rightarrow> MacrosByContextMap \<times> LexSyntError list" where
  "merge_context node_index p acc =
    (let (merged, errors) = acc;
         dst_map = (case map_of merged (fst p) of None \<Rightarrow> [] | Some m \<Rightarrow> m);
         (dst_map, errors) = fold (merge_macro node_index) (snd p) (dst_map, errors)
     in (AList.update (fst p) dst_map merged, errors))"

definition merge_macroses ::
  "nat \<Rightarrow> MacrosByContextMap list \<Rightarrow> LexSyntError list \<Rightarrow> MacrosByContextMap \<times> LexSyntError list" where
  "merge_macroses node_index imported_macroses errors =
    fold (\<lambda>macros. fold (merge_context node_index) macros) imported_macroses ([], errors)"

section \<open>Loading\<close>

definition push_error :: "byte list \<Rightarrow> SrcLoc \<Rightarrow> 'p SourceGraph \<Rightarrow> 'p SourceGraph" where
  "push_error message loc g = g \<lparr> sg_errors := sg_errors g @ [mk_error message loc] \<rparr>"

definition import_loop_message :: "byte list list \<Rightarrow> byte list \<Rightarrow> byte list" where
  "import_loop_message stack full_file_path =
    str ''Import loop detected: '' @
    concat (map (\<lambda>p. p @ str '' -> '') (dropWhile (\<lambda>p. p \<noteq> full_file_path) stack)) @ full_file_path"

definition find_node :: "byte list \<Rightarrow> 'p Node list \<Rightarrow> nat option" where
  "find_node full_file_path nodes =
    (let i = length (takeWhile (\<lambda>n. n_file_path n \<noteq> full_file_path) nodes) in if i < length nodes then Some i else None)"

definition no_ast :: "'p Frontend \<Rightarrow> 'p SyntaxAnalysisResult" where
  "no_ast fe = \<lparr> sr_imports = [], sr_macros = None, sr_program_elements = fe_no_program fe, sr_error_messages = [] \<rparr>"

definition add_node :: "'p Frontend \<Rightarrow> Vfs \<Rightarrow> byte list \<Rightarrow> 'p SourceGraph \<Rightarrow> 'p SourceGraph" where
  "add_node fe vfs full_file_path g =
    g \<lparr> sg_nodes_storage := sg_nodes_storage g @
      [\<lparr> n_file_path = full_file_path, n_file_path_hash = [], n_child_nodes_indices = [], n_ast = no_ast fe,
         n_category = (if IsFileFromSourcesDirectory vfs full_file_path then SourceOrInternalImport else OtherImport) \<rparr>] \<rparr>"

definition update_node :: "nat \<Rightarrow> ('p Node \<Rightarrow> 'p Node) \<Rightarrow> 'p SourceGraph \<Rightarrow> 'p SourceGraph" where
  "update_node i f g = g \<lparr> sg_nodes_storage := (sg_nodes_storage g)[i := f (sg_nodes_storage g ! i)] \<rparr>"

definition set_lexem_file :: "nat \<Rightarrow> Lexem \<Rightarrow> Lexem" where
  "set_lexem_file node_index l = l \<lparr> lexem_src_loc := SetFileIndex (word_of_nat node_index) (lexem_src_loc l) \<rparr>"

definition set_error_file :: "nat \<Rightarrow> LexSyntError \<Rightarrow> LexSyntError" where
  "set_error_file node_index e = e \<lparr> error_src_loc := SetFileIndex (word_of_nat node_index) (error_src_loc e) \<rparr>"

text \<open>What the loop over the imports does with the result of the recursive call for import number \<open>i\<close>.\<close>

definition link_child ::
  "nat \<Rightarrow> nat \<Rightarrow> nat option \<times> 'p SourceGraph \<Rightarrow> MacrosByContextMap list \<Rightarrow> 'p SourceGraph \<times> MacrosByContextMap list" where
  "link_child node_index i r imported_macroses =
    (case fst r of
       None \<Rightarrow> (snd r, imported_macroses)
     | Some child \<Rightarrow>
         (update_node node_index (\<lambda>n. n \<lparr> n_child_nodes_indices := (n_child_nodes_indices n)[i := child] \<rparr>) (snd r),
          imported_macroses @ (case sr_macros (n_ast (sg_nodes_storage (snd r) ! child)) of None \<Rightarrow> [] | Some m \<Rightarrow> [m])))"

text \<open>The end of \<open>LoadNode_r\<close>: macros are merged and the file is parsed with them.\<close>

definition finish_node ::
  "'p Frontend \<Rightarrow> nat \<Rightarrow> byte list \<Rightarrow> Lexem list \<Rightarrow> 'p SourceGraph \<times> MacrosByContextMap list \<Rightarrow> 'p SourceGraph" where
  "finish_node fe node_index full_file_path lexems r =
    (let (g, imported_macroses) = r;
         (merged_macroses, errors) = merge_macroses node_index imported_macroses (sg_errors g);
         hash = fe_source_file_path_hashing_function fe full_file_path;
         (ast, contexts) = fe_SyntaxAnalysis fe lexems merged_macroses (sg_macro_expansion_contexts g) hash
     in update_node node_index (\<lambda>n. n \<lparr> n_ast := ast, n_file_path_hash := hash \<rparr>)
          (g \<lparr> sg_macro_expansion_contexts := contexts, sg_errors := errors @ sr_error_messages ast \<rparr>))"

definition file_name :: "byte list \<Rightarrow> byte list \<Rightarrow> byte list" where
  "file_name full_file_path file_path = (if full_file_path = [] then file_path else full_file_path)"

partial_function (option) LoadNode_r ::
  "'p Frontend \<Rightarrow> Vfs \<Rightarrow> byte list \<Rightarrow> byte list \<Rightarrow> byte list list \<Rightarrow> SrcLoc \<Rightarrow> 'p SourceGraph \<Rightarrow>
    (nat option \<times> 'p SourceGraph) option" where
  [code]: "LoadNode_r fe vfs file_path parent_file_path stack import_src_loc g =
    (let full_file_path = GetFullFilePath vfs file_path parent_file_path in
     if full_file_path \<in> set stack
     then Some (None, push_error (import_loop_message stack full_file_path) import_src_loc g)
     else case find_node full_file_path (sg_nodes_storage g) of
       Some i \<Rightarrow> Some (Some i, g)
     | None \<Rightarrow>
         let node_index = length (sg_nodes_storage g); g = add_node fe vfs full_file_path g in
         case LoadFileContent vfs full_file_path of
           None \<Rightarrow>
             Some (None, push_error (str ''Can not read file \"'' @ file_name full_file_path file_path @ str ''\"'') import_src_loc g)
         | Some content \<Rightarrow>
             if \<not> IsImportingFileAllowed vfs full_file_path
             then Some (None, push_error
               (str ''Importing file \"'' @ file_name full_file_path file_path @ str ''\" isn't allowed.'') import_src_loc g)
             else Option.bind (LexicalAnalysis content) (\<lambda>lex_result.
               if result_errors lex_result \<noteq> []
               then Some (None, g \<lparr> sg_errors := sg_errors g @ map (set_error_file node_index) (result_errors lex_result) \<rparr>)
               else
                 let lexems = map (set_lexem_file node_index) (result_lexems lex_result);
                     imports = ParseImports (fe_Keyword fe) lexems;
                     g = update_node node_index (\<lambda>n. n \<lparr> n_child_nodes_indices := replicate (length imports) 0 \<rparr>) g
                 in Option.bind
                      (foldM (\<lambda>p acc.
                         Option.bind
                           (LoadNode_r fe vfs (im_import_name (snd p)) full_file_path (stack @ [full_file_path])
                             (im_src_loc (snd p)) (fst acc))
                           (\<lambda>r. Some (link_child node_index (fst p) r (snd acc))))
                         (enumerate 0 imports) (g, []))
                      (\<lambda>r. Some (Some node_index, finish_node fe node_index full_file_path lexems r))))"

definition add_prelude :: "'p Frontend \<Rightarrow> byte list \<Rightarrow> 'p SourceGraph \<Rightarrow> 'p SourceGraph option" where
  "add_prelude fe prelude_code g =
    Option.bind (LexicalAnalysis prelude_code) (\<lambda>lex_result.
      let prelude_node_index = length (sg_nodes_storage g);
          lexems = map (set_lexem_file prelude_node_index) (result_lexems lex_result);
          file_path = str ''compiler_generated_prelude'';
          hash = fe_source_file_path_hashing_function fe file_path;
          (ast, contexts) = fe_SyntaxAnalysis fe lexems [] (sg_macro_expansion_contexts g) hash
      in Some (g \<lparr>
        sg_macro_expansion_contexts := contexts,
        sg_errors := sg_errors g @ sr_error_messages ast,
        sg_nodes_storage :=
          map (\<lambda>n. if n_child_nodes_indices n = [] then n \<lparr> n_child_nodes_indices := [prelude_node_index] \<rparr> else n)
            (sg_nodes_storage g) @
          [\<lparr> n_file_path = file_path, n_file_path_hash = hash, n_child_nodes_indices = [], n_ast = ast,
             n_category = BuiltInPrelude \<rparr>] \<rparr>))"

definition empty_graph :: "'p SourceGraph" where
  "empty_graph = \<lparr> sg_nodes_storage = [], sg_macro_expansion_contexts = [], sg_errors = [] \<rparr>"

definition LoadSourceGraph :: "'p Frontend \<Rightarrow> Vfs \<Rightarrow> byte list \<Rightarrow> byte list \<Rightarrow> 'p SourceGraph option" where
  "LoadSourceGraph fe vfs root_file_path prelude_code =
    Option.bind (LoadNode_r fe vfs root_file_path [] [] (SrcLoc_make 0 0 0) empty_graph)
      (\<lambda>r. if prelude_code = [] then Some (snd r) else add_prelude fe prelude_code (snd r))"

end
