(* ===== verification/Source_Graph_Laws.thy ===== *)
theory Source_Graph_Laws
  imports Source_Graph Lexer_Properties
begin

text \<open>
  Correctness of the loader of source files: without errors the graph has no cycle, every file is loaded once, and the children
  of a file are the files it imports; loading ends if there are finitely many files and the lexer ends on each of them.
\<close>

section \<open>Consistent graphs\<close>

type_synonym 'p nodes = "'p Node list"

abbreviation path_at :: "'p nodes \<Rightarrow> nat \<Rightarrow> byte list" where
  "path_at ns i \<equiv> n_file_path (ns ! i)"

abbreviation children_at :: "'p nodes \<Rightarrow> nat \<Rightarrow> nat list" where
  "children_at ns i \<equiv> n_child_nodes_indices (ns ! i)"

text \<open>The full paths of the imports of a file.\<close>

definition import_paths :: "'p Frontend \<Rightarrow> Vfs \<Rightarrow> nat \<Rightarrow> byte list \<Rightarrow> byte list list" where
  "import_paths fe vfs i p =
    (case LoadFileContent vfs p of
       None \<Rightarrow> []
     | Some content \<Rightarrow>
         (case LexicalAnalysis content of
            None \<Rightarrow> []
          | Some lex_result \<Rightarrow>
              map (\<lambda>im. GetFullFilePath vfs (im_import_name im) p)
                (ParseImports (fe_Keyword fe) (map (set_lexem_file i) (result_lexems lex_result)))))"

definition node_ok :: "'p Frontend \<Rightarrow> Vfs \<Rightarrow> 'p nodes \<Rightarrow> nat \<Rightarrow> bool" where
  "node_ok fe vfs ns i \<longleftrightarrow>
    LoadFileContent vfs (path_at ns i) \<noteq> None \<and> IsImportingFileAllowed vfs (path_at ns i) \<and>
    (\<forall>c \<in> set (children_at ns i). c < length ns) \<and>
    map (path_at ns) (children_at ns i) = import_paths fe vfs i (path_at ns i)"

text \<open>The edges that leave the finished nodes: those whose files are not on the stack of files being loaded.\<close>

definition done_edges :: "byte list list \<Rightarrow> 'p nodes \<Rightarrow> (nat \<times> nat) set" where
  "done_edges stack ns = {(i, c). i < length ns \<and> path_at ns i \<notin> set stack \<and> c \<in> set (children_at ns i)}"

definition consistent :: "'p Frontend \<Rightarrow> Vfs \<Rightarrow> byte list list \<Rightarrow> 'p nodes \<Rightarrow> bool" where
  "consistent fe vfs stack ns \<longleftrightarrow>
    (\<forall>i < length ns. path_at ns i \<notin> set stack \<longrightarrow>
       node_ok fe vfs ns i \<and> (\<forall>c \<in> set (children_at ns i). path_at ns c \<notin> set stack)) \<and>
    acyclic (done_edges stack ns)"

lemma consistentD:
  "consistent fe vfs stack ns \<Longrightarrow> i < length ns \<Longrightarrow> path_at ns i \<notin> set stack \<Longrightarrow>
    node_ok fe vfs ns i \<and> (\<forall>c \<in> set (children_at ns i). path_at ns c \<notin> set stack)"
  by (simp add: consistent_def)

lemma consistentI:
  "(\<And>i. i < length ns \<Longrightarrow> path_at ns i \<notin> set stack \<Longrightarrow>
      node_ok fe vfs ns i \<and> (\<forall>c \<in> set (children_at ns i). path_at ns c \<notin> set stack)) \<Longrightarrow>
    acyclic (done_edges stack ns) \<Longrightarrow> consistent fe vfs stack ns"
  by (simp add: consistent_def)

lemma consistent_acyclic: "consistent fe vfs stack ns \<Longrightarrow> acyclic (done_edges stack ns)"
  by (simp add: consistent_def)

text \<open>Nodes that are on the stack may change without notice, as long as their paths stay.\<close>

lemma consistent_update:
  assumes "consistent fe vfs stack ns" and "i < length ns" and "path_at ns i \<in> set stack" and "n_file_path n = path_at ns i"
  shows "consistent fe vfs stack (ns[i := n])"
proof -
  have p: "path_at (ns[i := n]) j = path_at ns j" if "j < length ns" for j
    using assms(4) that by (cases "i = j") auto
  have c: "children_at (ns[i := n]) j = children_at ns j" if "j < length ns" "path_at ns j \<notin> set stack" for j
    using that assms(3) by (cases "i = j") auto
  have edges: "done_edges stack (ns[i := n]) = done_edges stack ns"
    using p c by (auto simp: done_edges_def)
  have "node_ok fe vfs (ns[i := n]) j \<and> (\<forall>c \<in> set (children_at (ns[i := n]) j). path_at (ns[i := n]) c \<notin> set stack)"
    if "j < length ns" "path_at ns j \<notin> set stack" for j
  proof -
    have ok: "node_ok fe vfs ns j" "\<forall>c \<in> set (children_at ns j). path_at ns c \<notin> set stack"
      using assms(1) that by (auto simp: consistent_def)
    then have "map (path_at (ns[i := n])) (children_at ns j) = map (path_at ns) (children_at ns j)"
      using p by (intro map_cong [OF refl]) (auto simp: node_ok_def)
    with ok p c [OF that] that(1) show ?thesis by (auto simp: node_ok_def)
  qed
  with assms(1) p edges show ?thesis by (simp add: consistent_def)
qed

text \<open>A file that starts to be loaded: its node has no edges yet.\<close>

lemma consistent_start:
  assumes "consistent fe vfs stack ns" and "n_file_path n \<notin> n_file_path ` set ns"
  shows "consistent fe vfs (stack @ [n_file_path n]) (ns @ [n])"
proof -
  let ?p = "n_file_path n"
  have old: "path_at (ns @ [n]) j = path_at ns j" "children_at (ns @ [n]) j = children_at ns j" "path_at ns j \<noteq> ?p"
    if "j < length ns" for j
    using that assms(2) by (simp_all add: nth_append) (metis imageI nth_mem)
  have lt: "j < length ns" if "j < length (ns @ [n])" "path_at (ns @ [n]) j \<notin> set (stack @ [?p])" for j
    using that by (cases "j = length ns") auto
  have "(j, c) \<in> done_edges (stack @ [?p]) (ns @ [n]) \<longleftrightarrow> (j, c) \<in> done_edges stack ns" for j c
  proof (cases "j < length ns")
    case True
    then show ?thesis by (simp add: done_edges_def old [OF True])
  next
    case False
    then show ?thesis using lt [of j] by (auto simp: done_edges_def)
  qed
  then have edges: "done_edges (stack @ [?p]) (ns @ [n]) = done_edges stack ns" by auto
  show ?thesis
  proof (rule consistentI)
    show "acyclic (done_edges (stack @ [?p]) (ns @ [n]))" using consistent_acyclic [OF assms(1)] by (simp add: edges)
  next
    fix j assume that: "j < length (ns @ [n])" "path_at (ns @ [n]) j \<notin> set (stack @ [?p])"
    have j: "j < length ns" by (rule lt [OF that])
    have "path_at ns j \<notin> set stack" using that(2) old [OF j] by simp
    note ok = consistentD [OF assms(1) j this]
    then have c: "\<forall>c \<in> set (children_at ns j). c < length ns" by (simp add: node_ok_def)
    then have "map (path_at (ns @ [n])) (children_at ns j) = map (path_at ns) (children_at ns j)"
      using old(1) by simp
    with ok c have "node_ok fe vfs (ns @ [n]) j"
      by (auto simp: node_ok_def old(1,2) [OF j] intro: less_SucI)
    moreover have "\<forall>c \<in> set (children_at (ns @ [n]) j). path_at (ns @ [n]) c \<notin> set (stack @ [?p])"
      using ok c old(1,3) by (simp add: old(2) [OF j])
    ultimately show "node_ok fe vfs (ns @ [n]) j \<and>
      (\<forall>c \<in> set (children_at (ns @ [n]) j). path_at (ns @ [n]) c \<notin> set (stack @ [?p]))" by (rule conjI)
  qed
qed

lemma acyclic_source:
  assumes "acyclic E" and "\<And>x. (x, n) \<notin> E" and "n \<notin> C"
  shows "acyclic (E \<union> {n} \<times> C)"
proof (rule acyclicI, rule allI, rule notI)
  fix x
  let ?F = "E \<union> {n} \<times> C"
  assume x: "(x, x) \<in> ?F\<^sup>+"
  have no: "(y, n) \<notin> ?F" for y using assms(2,3) by auto
  have "(y, z) \<in> E\<^sup>+" if "(y, z) \<in> ?F\<^sup>+" "y \<noteq> n" for y z
    using that
  proof (induction rule: trancl_induct)
    case (step z w)
    then have "z \<noteq> n" using no by (metis tranclD2)
    with step show ?case by (auto intro: trancl_into_trancl)
  qed auto
  moreover have "x \<noteq> n" using x no by (metis tranclD2)
  ultimately show False using x assms(1) by (auto simp: acyclic_def)
qed

text \<open>A file that has been loaded: its children are finished, so its edges close no cycle.\<close>

lemma consistent_finish:
  assumes "consistent fe vfs (stack @ [p]) ns" and "i < length ns" and "path_at ns i = p" and "distinct (map n_file_path ns)"
    and "node_ok fe vfs ns i" and "\<forall>c \<in> set (children_at ns i). path_at ns c \<notin> set (stack @ [p])"
  shows "consistent fe vfs stack ns"
proof -
  have uniq: "j = i" if "j < length ns" "path_at ns j = p" for j
    using assms(2,3,4) that by (auto simp: distinct_conv_nth)
  have "done_edges stack ns \<subseteq> done_edges (stack @ [p]) ns \<union> {i} \<times> set (children_at ns i)"
    using uniq by (auto simp: done_edges_def)
  moreover have "acyclic (done_edges (stack @ [p]) ns \<union> {i} \<times> set (children_at ns i))"
  proof (rule acyclic_source)
    show "acyclic (done_edges (stack @ [p]) ns)" using assms(1) by (simp add: consistent_def)
    show "(x, i) \<notin> done_edges (stack @ [p]) ns" for x
      using assms(1,3) by (fastforce simp: done_edges_def consistent_def)
    show "i \<notin> set (children_at ns i)" using assms(3,6) by auto
  qed
  ultimately have edges: "acyclic (done_edges stack ns)" by (rule acyclic_subset [rotated])
  show ?thesis
  proof (rule consistentI [OF _ edges])
    fix j assume j: "j < length ns" "path_at ns j \<notin> set stack"
    show "node_ok fe vfs ns j \<and> (\<forall>c \<in> set (children_at ns j). path_at ns c \<notin> set stack)"
    proof (cases "j = i")
      case True
      with assms(5,6) show ?thesis by simp
    next
      case False
      with j uniq have "path_at ns j \<notin> set (stack @ [p])" by auto
      from consistentD [OF assms(1) j(1) this] show ?thesis by simp
    qed
  qed
qed

section \<open>What one call of the recursive function does\<close>

lemma length_takeWhile_less_iff: "length (takeWhile P xs) < length xs \<longleftrightarrow> (\<exists>x \<in> set xs. \<not> P x)"
  by (induction xs) auto

lemma find_node_None: "find_node p ns = None \<longleftrightarrow> p \<notin> n_file_path ` set ns"
  by (auto simp: find_node_def Let_def length_takeWhile_less_iff)

lemma find_node_Some:
  assumes "find_node p ns = Some i"
  shows "i < length ns \<and> path_at ns i = p"
proof -
  have i: "i = length (takeWhile (\<lambda>n. n_file_path n \<noteq> p) ns)" "i < length ns"
    using assms by (auto simp: find_node_def Let_def split: if_splits)
  with nth_length_takeWhile [of "\<lambda>n. n_file_path n \<noteq> p" ns] show ?thesis by simp
qed

abbreviation paths :: "'p SourceGraph \<Rightarrow> byte list list" where
  "paths g \<equiv> map n_file_path (sg_nodes_storage g)"

definition loaded ::
  "'p Frontend \<Rightarrow> Vfs \<Rightarrow> byte list \<Rightarrow> byte list list \<Rightarrow> 'p SourceGraph \<Rightarrow> nat option \<times> 'p SourceGraph \<Rightarrow> bool" where
  "loaded fe vfs full stack g r \<longleftrightarrow>
    (\<exists>ns. sg_nodes_storage (snd r) = sg_nodes_storage g @ ns \<and> (ns = [] \<or> n_file_path (hd ns) = full)) \<and>
    (\<exists>es. sg_errors (snd r) = sg_errors g @ es) \<and>
    (distinct (paths g) \<longrightarrow> distinct (paths (snd r))) \<and>
    (sg_errors (snd r) = [] \<and> distinct (paths g) \<and> consistent fe vfs stack (sg_nodes_storage g) \<longrightarrow>
      consistent fe vfs stack (sg_nodes_storage (snd r)) \<and> full \<notin> set stack \<and>
      (\<exists>j. fst r = Some j \<and> j < length (sg_nodes_storage (snd r)) \<and> path_at (sg_nodes_storage (snd r)) j = full))"

text \<open>The state of the loop over the imports after \<open>k\<close> of them, which lead to the paths \<open>targets\<close>.\<close>

definition loading ::
  "'p Frontend \<Rightarrow> Vfs \<Rightarrow> byte list \<Rightarrow> byte list list \<Rightarrow> 'p SourceGraph \<Rightarrow> byte list list \<Rightarrow> nat \<Rightarrow>
    'p SourceGraph \<times> MacrosByContextMap list \<Rightarrow> bool" where
  "loading fe vfs full stack g0 targets k acc \<longleftrightarrow>
    (\<exists>nd ns. sg_nodes_storage (fst acc) = sg_nodes_storage g0 @ nd # ns \<and> n_file_path nd = full \<and>
       length (n_child_nodes_indices nd) = length targets \<and>
       (sg_errors (fst acc) = [] \<and> distinct (paths g0) \<and> consistent fe vfs stack (sg_nodes_storage g0) \<longrightarrow>
         consistent fe vfs (stack @ [full]) (sg_nodes_storage (fst acc)) \<and>
         (\<forall>j < k. n_child_nodes_indices nd ! j < length (sg_nodes_storage (fst acc)) \<and>
            path_at (sg_nodes_storage (fst acc)) (n_child_nodes_indices nd ! j) = targets ! j \<and>
            targets ! j \<notin> set (stack @ [full])))) \<and>
    (\<exists>es. sg_errors (fst acc) = sg_errors g0 @ es) \<and>
    (distinct (paths g0) \<longrightarrow> distinct (paths (fst acc)))"

lemma loading_start:
  assumes "full \<notin> n_file_path ` set (sg_nodes_storage g)"
  shows "loading fe vfs full stack g targets 0
    (update_node (length (sg_nodes_storage g)) (\<lambda>n. n \<lparr> n_child_nodes_indices := replicate (length targets) 0 \<rparr>)
      (add_node fe vfs full g), ms)"
proof -
  let ?nd = "\<lparr> n_file_path = full, n_file_path_hash = [], n_child_nodes_indices = replicate (length targets) 0,
    n_ast = no_ast fe, n_category = (if IsFileFromSourcesDirectory vfs full then SourceOrInternalImport else OtherImport) \<rparr>"
  have "consistent fe vfs (stack @ [full]) (sg_nodes_storage g @ [?nd])" if "consistent fe vfs stack (sg_nodes_storage g)"
    using consistent_start [OF that, of ?nd] assms by simp
  then show ?thesis
    using assms unfolding loading_def by (intro conjI exI [of _ ?nd] exI [of _ "[]"]) (auto simp: update_node_def add_node_def)
qed

lemma loading_step:
  assumes inv: "loading fe vfs full stack g0 targets k acc" and "k < length targets"
    and rec: "loaded fe vfs (targets ! k) (stack @ [full]) (fst acc) r"
  shows "loading fe vfs full stack g0 targets (Suc k) (link_child (length (sg_nodes_storage g0)) k r ms)"
proof -
  obtain nd ns where nodes: "sg_nodes_storage (fst acc) = sg_nodes_storage g0 @ nd # ns" "n_file_path nd = full"
      "length (n_child_nodes_indices nd) = length targets"
    and cons: "sg_errors (fst acc) = [] \<Longrightarrow> distinct (paths g0) \<Longrightarrow> consistent fe vfs stack (sg_nodes_storage g0) \<Longrightarrow>
         consistent fe vfs (stack @ [full]) (sg_nodes_storage (fst acc)) \<and>
         (\<forall>j < k. n_child_nodes_indices nd ! j < length (sg_nodes_storage (fst acc)) \<and>
            path_at (sg_nodes_storage (fst acc)) (n_child_nodes_indices nd ! j) = targets ! j \<and>
            targets ! j \<notin> set (stack @ [full]))"
    and errs: "\<exists>es. sg_errors (fst acc) = sg_errors g0 @ es"
    and dist: "distinct (paths g0) \<Longrightarrow> distinct (paths (fst acc))"
    using inv unfolding loading_def by blast
  obtain ns' where nodes': "sg_nodes_storage (snd r) = sg_nodes_storage (fst acc) @ ns'"
    using rec unfolding loaded_def by blast
  have errs': "\<exists>es. sg_errors (snd r) = sg_errors (fst acc) @ es" and dist': "distinct (paths (fst acc)) \<Longrightarrow> distinct (paths (snd r))"
    and cons': "sg_errors (snd r) = [] \<Longrightarrow> distinct (paths (fst acc)) \<Longrightarrow>
      consistent fe vfs (stack @ [full]) (sg_nodes_storage (fst acc)) \<Longrightarrow>
      consistent fe vfs (stack @ [full]) (sg_nodes_storage (snd r)) \<and> targets ! k \<notin> set (stack @ [full]) \<and>
      (\<exists>j. fst r = Some j \<and> j < length (sg_nodes_storage (snd r)) \<and> path_at (sg_nodes_storage (snd r)) j = targets ! k)"
    using rec unfolding loaded_def by blast+
  let ?n = "length (sg_nodes_storage g0)"
  define nd' where "nd' = (case fst r of None \<Rightarrow> nd | Some c \<Rightarrow> nd \<lparr> n_child_nodes_indices := (n_child_nodes_indices nd)[k := c] \<rparr>)"
  define g' where "g' = fst (link_child ?n k r ms)"
  have g': "sg_nodes_storage g' = (sg_nodes_storage (snd r))[?n := nd']" "sg_errors g' = sg_errors (snd r)"
    using nodes(1) nodes' by (auto simp: g'_def nd'_def link_child_def update_node_def nth_append split: option.splits)
  have n: "?n < length (sg_nodes_storage (snd r))" "path_at (sg_nodes_storage (snd r)) ?n = full" "n_file_path nd' = full"
      "length (n_child_nodes_indices nd') = length targets"
    using nodes nodes' by (auto simp: nth_append nd'_def split: option.splits)
  have path: "path_at (sg_nodes_storage g') j = path_at (sg_nodes_storage (snd r)) j" for j
    using n by (cases "j = ?n") (auto simp: g')
  have "consistent fe vfs (stack @ [full]) (sg_nodes_storage g') \<and>
      (\<forall>j < Suc k. n_child_nodes_indices nd' ! j < length (sg_nodes_storage g') \<and>
        path_at (sg_nodes_storage g') (n_child_nodes_indices nd' ! j) = targets ! j \<and> targets ! j \<notin> set (stack @ [full]))"
    if e: "sg_errors g' = []" "distinct (paths g0)" "consistent fe vfs stack (sg_nodes_storage g0)"
  proof -
    have "sg_errors (fst acc) = []" using e(1) errs' by (auto simp: g')
    note old = cons [OF this e(2,3)]
    note new = cons' [OF _ dist [OF e(2)] old [THEN conjunct1]]
    obtain c where c: "fst r = Some c" "c < length (sg_nodes_storage (snd r))" "path_at (sg_nodes_storage (snd r)) c = targets ! k"
      using new e(1) by (auto simp: g')
    have "consistent fe vfs (stack @ [full]) (sg_nodes_storage g')"
      unfolding g' by (rule consistent_update) (use new e(1) n in \<open>simp_all add: g'\<close>)
    moreover have "n_child_nodes_indices nd' ! j < length (sg_nodes_storage g') \<and>
        path_at (sg_nodes_storage g') (n_child_nodes_indices nd' ! j) = targets ! j \<and> targets ! j \<notin> set (stack @ [full])"
      if "j < Suc k" for j
    proof (cases "j = k")
      case True
      then have "n_child_nodes_indices nd' ! j = c" using c(1) assms(2) nodes(3) by (simp add: nd'_def)
      with True c new e(1) show ?thesis by (simp add: path) (simp add: g')
    next
      case False
      then have j: "j < k" "n_child_nodes_indices nd' ! j = n_child_nodes_indices nd ! j"
        using that by (auto simp: nd'_def split: option.splits)
      from old j(1) show ?thesis unfolding path j(2) by (auto simp: g' nodes' nth_append)
    qed
    ultimately show ?thesis by blast
  qed
  moreover have "sg_nodes_storage g' = sg_nodes_storage g0 @ nd' # ns @ ns'"
    using nodes(1) nodes' by (simp add: g')
  moreover have "paths g' = paths (snd r)" using path by (intro nth_equalityI) (simp_all add: g'(1))
  ultimately show ?thesis
    unfolding loading_def g'_def [symmetric] using n(3,4) errs errs' dist dist'
    by (intro conjI exI [of _ nd'] exI [of _ "ns @ ns'"]) (auto simp: g'(2))
qed

lemma fold_extends:
  assumes "\<And>x a. \<exists>es. snd (f x a) = snd a @ es"
  shows "\<exists>es. snd (fold f xs a) = snd a @ es"
proof (induction xs arbitrary: a)
  case (Cons x xs)
  from assms [of x a] Cons [of "f x a"] show ?case by auto
qed simp

lemma merge_macroses_errors: "\<exists>es. snd (merge_macroses i ms errors) = errors @ es"
proof -
  have macro: "\<exists>es. snd (merge_macro i p a) = snd a @ es" for p a
    by (simp add: merge_macro_def split: prod.split)
  have ctx: "\<exists>es. snd (merge_context i p a) = snd a @ es" for p a
  proof -
    define dst where "dst = (case map_of (fst a) (fst p) of None \<Rightarrow> [] | Some m \<Rightarrow> m)"
    obtain d e where fold: "fold (merge_macro i) (snd p) (dst, snd a) = (d, e)" by force
    with fold_extends [of "merge_macro i" "snd p" "(dst, snd a)", OF macro] show ?thesis
      by (cases a) (auto simp: merge_context_def Let_def dst_def)
  qed
  show ?thesis
    unfolding merge_macroses_def
    using fold_extends [of "\<lambda>macros. fold (merge_context i) macros" ms "([], errors)", OF fold_extends, OF ctx] by simp
qed

lemma finish_node_fields:
  obtains ast hash es where
    "sg_nodes_storage (finish_node fe i p lexems (g, ms)) =
       (sg_nodes_storage g)[i := (sg_nodes_storage g ! i) \<lparr> n_ast := ast, n_file_path_hash := hash \<rparr>]"
    "sg_errors (finish_node fe i p lexems (g, ms)) = sg_errors g @ es"
proof -
  obtain merged errors where m: "merge_macroses i ms (sg_errors g) = (merged, errors)" by force
  then obtain es where "errors = sg_errors g @ es" using merge_macroses_errors [of i ms "sg_errors g"] by auto
  moreover obtain ast contexts where
    "fe_SyntaxAnalysis fe lexems merged (sg_macro_expansion_contexts g) (fe_source_file_path_hashing_function fe p) = (ast, contexts)"
    by force
  ultimately show ?thesis
    using m by (intro that [where ast = ast and hash = "fe_source_file_path_hashing_function fe p" and es = "es @ sr_error_messages ast"])
      (simp_all add: finish_node_def update_node_def Let_def)
qed

lemma loading_finish:
  assumes inv: "loading fe vfs full stack g0 targets (length targets) (g, ms)"
    and readable: "LoadFileContent vfs full \<noteq> None" "IsImportingFileAllowed vfs full" "full \<notin> set stack"
    and targets: "import_paths fe vfs (length (sg_nodes_storage g0)) full = targets"
  shows "loaded fe vfs full stack g0
    (Some (length (sg_nodes_storage g0)), finish_node fe (length (sg_nodes_storage g0)) full lexems (g, ms))"
proof -
  let ?n = "length (sg_nodes_storage g0)"
  obtain nd ns where nodes: "sg_nodes_storage g = sg_nodes_storage g0 @ nd # ns" "n_file_path nd = full"
      "length (n_child_nodes_indices nd) = length targets"
    and cons: "sg_errors g = [] \<Longrightarrow> distinct (paths g0) \<Longrightarrow> consistent fe vfs stack (sg_nodes_storage g0) \<Longrightarrow>
         consistent fe vfs (stack @ [full]) (sg_nodes_storage g) \<and>
         (\<forall>j < length targets. n_child_nodes_indices nd ! j < length (sg_nodes_storage g) \<and>
            path_at (sg_nodes_storage g) (n_child_nodes_indices nd ! j) = targets ! j \<and>
            targets ! j \<notin> set (stack @ [full]))"
    and errs: "\<exists>es. sg_errors g = sg_errors g0 @ es"
    and dist: "distinct (paths g0) \<Longrightarrow> distinct (paths g)"
    using inv unfolding loading_def fst_conv by blast
  obtain ast hash es where fin: "sg_nodes_storage (finish_node fe ?n full lexems (g, ms)) =
       (sg_nodes_storage g)[?n := (sg_nodes_storage g ! ?n) \<lparr> n_ast := ast, n_file_path_hash := hash \<rparr>]"
    "sg_errors (finish_node fe ?n full lexems (g, ms)) = sg_errors g @ es"
    by (rule finish_node_fields)
  let ?nd = "nd \<lparr> n_ast := ast, n_file_path_hash := hash \<rparr>"
  let ?ns = "sg_nodes_storage g0 @ ?nd # ns"
  have fin_nodes: "sg_nodes_storage (finish_node fe ?n full lexems (g, ms)) = ?ns"
    using fin(1) nodes(1) by simp
  have path: "path_at ?ns j = path_at (sg_nodes_storage g) j" for j
    using nodes(1) by (auto simp: nth_append nth_Cons')
  have children: "children_at ?ns ?n = n_child_nodes_indices nd" "path_at ?ns ?n = full" using nodes(2) by (simp_all add: nth_append)
  have paths: "map n_file_path ?ns = paths g" using nodes(1) by simp
  have "consistent fe vfs stack ?ns"
    if e: "sg_errors g = []" "distinct (paths g0)" "consistent fe vfs stack (sg_nodes_storage g0)"
  proof (rule consistent_finish)
    note c = cons [OF e]
    have "consistent fe vfs (stack @ [full]) ((sg_nodes_storage g)[?n := ?nd])"
      by (rule consistent_update) (use c nodes in simp_all)
    then show "consistent fe vfs (stack @ [full]) ?ns" using nodes(1) by simp
    show "distinct (map n_file_path ?ns)" using dist [OF e(2)] paths by simp
    show "?n < length ?ns" "path_at ?ns ?n = full" using nodes(2) by (simp_all add: nth_append)
    have "\<forall>x \<in> set (n_child_nodes_indices nd). x < length ?ns \<and> path_at ?ns x \<notin> set (stack @ [full])"
      using c nodes(1,3) unfolding path by (force simp: in_set_conv_nth)
    moreover have "map (path_at ?ns) (n_child_nodes_indices nd) = targets"
      unfolding path using c nodes(3) by (intro nth_equalityI) simp_all
    ultimately show "node_ok fe vfs ?ns ?n" "\<forall>c \<in> set (children_at ?ns ?n). path_at ?ns c \<notin> set (stack @ [full])"
      unfolding node_ok_def children using readable(1,2) targets by auto
  qed
  then show ?thesis
    unfolding loaded_def snd_conv fst_conv fin_nodes fin(2) paths
    using errs dist readable(3) nodes(2) by (intro conjI) (auto simp: nth_append)
qed

lemma loaded_error:
  assumes "sg_nodes_storage g' = sg_nodes_storage g @ ns" and "ns = [] \<or> n_file_path (hd ns) = full"
    and "distinct (paths g) \<Longrightarrow> distinct (paths g')" and "sg_errors g' = sg_errors g @ es" and "es \<noteq> []"
  shows "loaded fe vfs full stack g (None, g')"
  using assms by (auto simp: loaded_def)

lemma loaded_add_node_error:
  assumes "full \<notin> n_file_path ` set (sg_nodes_storage g)" and "es \<noteq> []"
  shows "loaded fe vfs full stack g (None, add_node fe vfs full g \<lparr> sg_errors := sg_errors g @ es \<rparr>)"
  by (rule loaded_error [OF _ _ _ _ assms(2)]) (use assms(1) in \<open>auto simp: add_node_def\<close>)

lemma add_node_errors: "sg_errors (add_node fe vfs full g) = sg_errors g"
  by (simp add: add_node_def)

lemma enumerate_nth: "k < length xs \<Longrightarrow> enumerate 0 xs ! k = (k, xs ! k)"
  by (simp add: nth_enumerate_eq)

lemma LoadNode_r_loaded:
  assumes "LoadNode_r fe vfs file_path parent_file_path stack loc g = Some r"
  shows "loaded fe vfs (GetFullFilePath vfs file_path parent_file_path) stack g r"
  using assms
proof (rule LoadNode_r.raw_induct [where P = "\<lambda>fe vfs file_path parent_file_path stack loc g r.
    loaded fe vfs (GetFullFilePath vfs file_path parent_file_path) stack g r", rotated], goal_cases)
  case (1 rec fe vfs file_path parent_file_path stack loc g r)
  define full where "full = GetFullFilePath vfs file_path parent_file_path"
  note body = 1(2) [unfolded Let_def, folded full_def]
  note IH = 1(1)
  show ?case unfolding full_def [symmetric]
  proof (cases "full \<in> set stack")
    case True
    with body have "r = (None, push_error (import_loop_message stack full) loc g)" by simp
    then show "loaded fe vfs full stack g r" by (auto intro!: loaded_error simp: push_error_def)
  next
    case False
    show "loaded fe vfs full stack g r"
    proof (cases "find_node full (sg_nodes_storage g)")
      case (Some i)
      with body False have "r = (Some i, g)" by simp
      with False find_node_Some [OF Some] show ?thesis by (simp add: loaded_def)
    next
      case None
      then have new: "full \<notin> n_file_path ` set (sg_nodes_storage g)" by (simp add: find_node_None)
      show ?thesis
      proof (cases "LoadFileContent vfs full")
        case no_file: None
        with body False None new show ?thesis
          by (auto simp: push_error_def add_node_errors intro!: loaded_add_node_error)
      next
        case (Some content)
        show ?thesis
        proof (cases "IsImportingFileAllowed vfs full")
          case no_import: False
          with body False None Some new show ?thesis
            by (auto simp: push_error_def add_node_errors intro!: loaded_add_node_error)
        next
          case True
          obtain lex where lex: "LexicalAnalysis content = Some lex"
            using body False None Some True by (cases "LexicalAnalysis content") auto
          show ?thesis
          proof (cases "result_errors lex = []")
            case lex_errors: False
            with body False None Some True lex new show ?thesis
              by (auto simp: add_node_errors intro!: loaded_add_node_error)
          next
            case no_errors: True
            let ?n = "length (sg_nodes_storage g)"
            define lexems where "lexems = map (set_lexem_file ?n) (result_lexems lex)"
            define ims where "ims = ParseImports (fe_Keyword fe) lexems"
            define targets where "targets = map (\<lambda>im. GetFullFilePath vfs (im_import_name im) full) ims"
            define start where "start = update_node ?n (\<lambda>n. n \<lparr> n_child_nodes_indices := replicate (length ims) 0 \<rparr>) (add_node fe vfs full g)"
            obtain acc where acc: "foldM (\<lambda>p acc. Option.bind (rec fe vfs (im_import_name (snd p)) full (stack @ [full])
                (im_src_loc (snd p)) (fst acc)) (\<lambda>r. Some (link_child ?n (fst p) r (snd acc)))) (enumerate 0 ims) (start, []) = Some acc"
              and r: "r = (Some ?n, finish_node fe ?n full lexems acc)"
              using body False None Some True lex no_errors
              by (auto simp: lexems_def ims_def start_def bind_eq_Some_conv)
            have "loading fe vfs full stack g targets (length (enumerate 0 ims)) acc"
            proof (rule foldM_invariant [OF acc])
              show "loading fe vfs full stack g targets 0 (start, [])"
                using loading_start [OF new, of fe vfs stack targets] by (simp add: start_def targets_def)
            next
              fix k s t assume k: "k < length (enumerate 0 ims)" and inv: "loading fe vfs full stack g targets k s"
                and step: "Option.bind (rec fe vfs (im_import_name (snd (enumerate 0 ims ! k))) full (stack @ [full])
                  (im_src_loc (snd (enumerate 0 ims ! k))) (fst s))
                  (\<lambda>r. Some (link_child ?n (fst (enumerate 0 ims ! k)) r (snd s))) = Some t"
              then obtain q where q: "rec fe vfs (im_import_name (ims ! k)) full (stack @ [full]) (im_src_loc (ims ! k)) (fst s) = Some q"
                and t: "t = link_child ?n k q (snd s)"
                by (auto simp: enumerate_nth bind_eq_Some_conv)
              have "loaded fe vfs (targets ! k) (stack @ [full]) (fst s) q"
                using IH [OF q] k by (simp add: targets_def)
              with inv k show "loading fe vfs full stack g targets (Suc k) t"
                unfolding t by (intro loading_step) (simp_all add: targets_def)
            qed
            then have "loading fe vfs full stack g targets (length targets) (fst acc, snd acc)" by (simp add: targets_def)
            moreover have "import_paths fe vfs ?n full = targets"
              using Some lex by (simp add: import_paths_def targets_def ims_def lexems_def)
            ultimately show ?thesis
              using loading_finish [of fe vfs full stack g targets "fst acc" "snd acc" lexems] Some True False by (simp add: r)
          qed
        qed
      qed
    qed
  qed
qed

section \<open>The graph of sources\<close>

definition edges :: "'p SourceGraph \<Rightarrow> (nat \<times> nat) set" where
  "edges g = {(i, c). i < length (sg_nodes_storage g) \<and> c \<in> set (children_at (sg_nodes_storage g) i)}"

lemma edges_done: "edges g = done_edges [] (sg_nodes_storage g)"
  by (simp add: edges_def done_edges_def)

lemma loaded_empty:
  assumes "loaded fe vfs full [] empty_graph r" and "sg_errors (snd r) = []"
  shows "sg_nodes_storage (snd r) \<noteq> [] \<and> path_at (sg_nodes_storage (snd r)) 0 = full \<and> distinct (paths (snd r)) \<and>
    consistent fe vfs [] (sg_nodes_storage (snd r))"
proof -
  have "consistent fe vfs [] (sg_nodes_storage empty_graph)"
    by (simp add: consistent_def empty_graph_def done_edges_def acyclic_def)
  then have "distinct (paths (snd r))" "consistent fe vfs [] (sg_nodes_storage (snd r))" "sg_nodes_storage (snd r) \<noteq> []"
    "\<exists>ns. sg_nodes_storage (snd r) = ns \<and> (ns = [] \<or> n_file_path (hd ns) = full)"
    using assms unfolding loaded_def by (auto simp: empty_graph_def)
  then show ?thesis by (auto simp: hd_conv_nth)
qed

lemma LoadSourceGraph_files:
  assumes "LoadSourceGraph fe vfs root_file_path [] = Some g" and "sg_errors g = []"
  shows "sg_nodes_storage g \<noteq> [] \<and> path_at (sg_nodes_storage g) 0 = GetFullFilePath vfs root_file_path [] \<and>
    distinct (paths g) \<and> consistent fe vfs [] (sg_nodes_storage g)"
proof -
  obtain r where "LoadNode_r fe vfs root_file_path [] [] (SrcLoc_make 0 0 0) empty_graph = Some r" "g = snd r"
    using assms(1) by (auto simp: LoadSourceGraph_def bind_eq_Some_conv)
  with loaded_empty [OF LoadNode_r_loaded] assms(2) show ?thesis by blast
qed

text \<open>
  C4. If a graph of sources is loaded without errors (and without the prelude), then its first node is the root file, no file
  is loaded twice, the children of a node are the files it imports in their order, and the graph has no cycle.
\<close>

theorem LoadSourceGraph_correct:
  assumes "LoadSourceGraph fe vfs root_file_path [] = Some g" and "sg_errors g = []"
  shows "sg_nodes_storage g \<noteq> [] \<and> path_at (sg_nodes_storage g) 0 = GetFullFilePath vfs root_file_path [] \<and>
    distinct (paths g) \<and> (\<forall>i < length (sg_nodes_storage g). node_ok fe vfs (sg_nodes_storage g) i) \<and> acyclic (edges g)"
  using LoadSourceGraph_files [OF assms] by (auto simp: edges_done consistent_def)

lemma add_prelude_fields:
  assumes "add_prelude fe prelude_code g = Some g'"
  obtains nd es where "sg_nodes_storage g' =
      map (\<lambda>n. if n_child_nodes_indices n = [] then n \<lparr> n_child_nodes_indices := [length (sg_nodes_storage g)] \<rparr> else n)
        (sg_nodes_storage g) @ [nd]"
    "n_child_nodes_indices nd = []" "sg_errors g' = sg_errors g @ es"
proof -
  obtain lex where lex: "LexicalAnalysis prelude_code = Some lex"
    using assms by (cases "LexicalAnalysis prelude_code") (auto simp: add_prelude_def)
  define p where "p = str ''compiler_generated_prelude''"
  define hash where "hash = fe_source_file_path_hashing_function fe p"
  obtain ast contexts where "fe_SyntaxAnalysis fe (map (set_lexem_file (length (sg_nodes_storage g))) (result_lexems lex)) []
      (sg_macro_expansion_contexts g) hash = (ast, contexts)" by force
  with assms lex that [of "\<lparr> n_file_path = p, n_file_path_hash = hash, n_child_nodes_indices = [], n_ast = ast,
             n_category = BuiltInPrelude \<rparr>" "sr_error_messages ast"]
  show ?thesis by (auto simp: add_prelude_def Let_def simp del: str_Cons simp flip: p_def hash_def)
qed

lemma prelude_edges:
  fixes ns :: "'p nodes" and nd
  defines "n \<equiv> length ns"
  defines "g \<equiv> map (\<lambda>nd. if n_child_nodes_indices nd = [] then nd \<lparr> n_child_nodes_indices := [n] \<rparr> else nd) ns @ [nd]"
  assumes "n_child_nodes_indices nd = []"
  shows "done_edges [] g = done_edges [] ns \<union> {(i, n) | i. i < n \<and> children_at ns i = []}"
  using assms(3) by (auto simp: done_edges_def g_def n_def nth_append less_Suc_eq split: if_splits)

lemma acyclic_sink:
  assumes "acyclic E" and "\<And>y. (n, y) \<notin> E" and "\<And>x y. (x, y) \<in> F \<Longrightarrow> y = n \<and> x \<noteq> n"
  shows "acyclic (E \<union> F)"
proof -
  have "acyclic (E\<inverse> \<union> {n} \<times> {x. (x, n) \<in> F})"
    using assms by (intro acyclic_source) (auto simp: acyclic_converse)
  moreover have "(E \<union> F)\<inverse> = E\<inverse> \<union> {n} \<times> {x. (x, n) \<in> F}" using assms(3) by auto
  ultimately show ?thesis by (metis acyclic_converse)
qed

lemma reaches_sink:
  fixes E :: "(nat \<times> nat) set"
  assumes "acyclic E" and "E \<subseteq> {..n} \<times> {..n}" and "\<And>i. i < n \<Longrightarrow> \<exists>c. (i, c) \<in> E" and "i \<le> n"
  shows "(i, n) \<in> E\<^sup>*"
proof -
  have "finite E" using assms(2) by (rule finite_subset) simp
  then have "wf (E\<inverse>)" using assms(1) by (rule finite_acyclic_wf_converse)
  then show ?thesis using assms(4)
  proof (induction i rule: wf_induct_rule)
    case (less i)
    show ?case
    proof (cases "i < n")
      case True
      then obtain c where c: "(i, c) \<in> E" using assms(3) by blast
      moreover have "(c, n) \<in> E\<^sup>*" using less.IH [of c] c assms(2) by auto
      ultimately show ?thesis by (rule converse_rtrancl_into_rtrancl)
    qed (use less.prems in simp)
  qed
qed

text \<open>
  C37. If a graph of sources is loaded without errors together with a prelude, then the prelude is its last node, the
  graph has no cycle, and the prelude is reached from every node.
\<close>

theorem LoadSourceGraph_prelude:
  assumes "LoadSourceGraph fe vfs root_file_path prelude_code = Some g" and "prelude_code \<noteq> []" and "sg_errors g = []"
  shows "acyclic (edges g) \<and> (\<forall>i < length (sg_nodes_storage g). (i, length (sg_nodes_storage g) - 1) \<in> (edges g)\<^sup>*)"
proof -
  obtain r where r: "LoadNode_r fe vfs root_file_path [] [] (SrcLoc_make 0 0 0) empty_graph = Some r"
    "add_prelude fe prelude_code (snd r) = Some g"
    using assms(1,2) by (auto simp: LoadSourceGraph_def bind_eq_Some_conv)
  define ns where "ns = sg_nodes_storage (snd r)"
  define n where "n = length ns"
  obtain nd es where g: "sg_nodes_storage g =
      map (\<lambda>nd. if n_child_nodes_indices nd = [] then nd \<lparr> n_child_nodes_indices := [n] \<rparr> else nd) ns @ [nd]"
    "n_child_nodes_indices nd = []" "sg_errors g = sg_errors (snd r) @ es"
    using add_prelude_fields [OF r(2)] unfolding ns_def n_def by blast
  have c: "consistent fe vfs [] ns"
    using loaded_empty [OF LoadNode_r_loaded [OF r(1)]] assms(3) g(3) by (simp add: ns_def)
  define F where "F = {(i, n) | i. i < n \<and> children_at ns i = []}"
  have e: "edges g = done_edges [] ns \<union> F"
    unfolding edges_done g(1) F_def n_def by (rule prelude_edges [OF g(2)])
  have bound: "x < n \<and> y < n" if "(x, y) \<in> done_edges [] ns" for x y
    using that consistentD [OF c, of x] by (auto simp: done_edges_def node_ok_def n_def)
  have acyclic: "acyclic (edges g)"
    unfolding e using consistent_acyclic [OF c] by (rule acyclic_sink [of _ n]) (use bound in \<open>auto simp: F_def\<close>)
  have "edges g \<subseteq> {..n} \<times> {..n}" unfolding e using bound by (fastforce simp: F_def)
  moreover have "\<exists>c. (i, c) \<in> edges g" if "i < n" for i
    using that by (cases "children_at ns i") (auto simp: e F_def done_edges_def n_def)
  ultimately have "(i, n) \<in> (edges g)\<^sup>*" if "i \<le> n" for i
    using acyclic that by (intro reaches_sink) auto
  moreover have "length (sg_nodes_storage g) = n + 1" using g(1) by (simp add: n_def)
  ultimately show ?thesis using acyclic by simp
qed

section \<open>Loading ends\<close>

text \<open>
  Only finitely many paths can come out of the file system, and the lexer returns on every file.
\<close>

definition loadable :: "Vfs \<Rightarrow> byte list set \<Rightarrow> bool" where
  "loadable vfs A \<longleftrightarrow> finite A \<and> (\<forall>p q. GetFullFilePath vfs p q \<in> A) \<and>
    (\<forall>p content. LoadFileContent vfs p = Some content \<longrightarrow> LexicalAnalysis content \<noteq> None)"

lemma paths_update_node:
  assumes "\<And>nd. n_file_path (f nd) = n_file_path nd"
  shows "paths (update_node i f g) = paths g"
  by (cases "i < length (sg_nodes_storage g)") (simp_all add: update_node_def map_update assms list_update_same_conv list_update_beyond)

lemma foldM_loads:
  fixes g :: "'p SourceGraph" and xs :: "(nat \<times> Import) list"
  assumes "\<And>p parent stack loc h. set (paths g) \<subseteq> set (paths h) \<Longrightarrow> \<exists>r. LoadNode_r fe vfs p parent stack loc h = Some r"
  shows "\<exists>t. foldM (\<lambda>p acc. Option.bind (LoadNode_r fe vfs (im_import_name (snd p)) full stack (im_src_loc (snd p)) (fst acc))
      (\<lambda>r. Some (link_child n (fst p) r (snd acc)))) xs (g, ms) = Some t"
proof -
  have "\<exists>t. foldM (\<lambda>p acc. Option.bind (LoadNode_r fe vfs (im_import_name (snd p)) full stack (im_src_loc (snd p)) (fst acc))
      (\<lambda>r. Some (link_child n (fst p) r (snd acc)))) xs (g, ms) = Some t \<and> set (paths g) \<subseteq> set (paths (fst t))"
  proof (rule foldM_total)
    fix x :: "nat \<times> Import" and acc :: "'p SourceGraph \<times> MacrosByContextMap list" assume acc: "set (paths g) \<subseteq> set (paths (fst acc))"
    obtain r where r: "LoadNode_r fe vfs (im_import_name (snd x)) full stack (im_src_loc (snd x)) (fst acc) = Some r"
      using assms acc by blast
    then obtain ns where "sg_nodes_storage (snd r) = sg_nodes_storage (fst acc) @ ns"
      using LoadNode_r_loaded unfolding loaded_def by blast
    moreover have "paths (fst (link_child n (fst x) r (snd acc))) = paths (snd r)"
      by (simp add: link_child_def paths_update_node split: option.split)
    ultimately have "set (paths g) \<subseteq> set (paths (fst (link_child n (fst x) r (snd acc))))"
      using acc by (simp only: set_map map_append set_append) blast
    with r show "\<exists>t. Option.bind (LoadNode_r fe vfs (im_import_name (snd x)) full stack (im_src_loc (snd x)) (fst acc))
        (\<lambda>r. Some (link_child n (fst x) r (snd acc))) = Some t \<and> set (paths g) \<subseteq> set (paths (fst t))"
      by simp
  qed simp
  then show ?thesis by blast
qed

lemma LoadNode_r_total:
  assumes "loadable vfs A"
  shows "\<exists>r. LoadNode_r fe vfs file_path parent_file_path stack loc g = Some r"
proof (induction "card (A - set (paths g))" arbitrary: file_path parent_file_path stack loc g rule: less_induct)
  case less
  define full where "full = GetFullFilePath vfs file_path parent_file_path"
  have full: "full \<in> A" "finite A" using assms(1) by (auto simp: loadable_def full_def)
  show ?case
  proof (cases "full \<in> set stack \<or> find_node full (sg_nodes_storage g) \<noteq> None")
    case True
    then show ?thesis by (subst LoadNode_r.simps) (auto simp: Let_def full_def [symmetric])
  next
    case False
    then have new: "full \<notin> set (paths g)" by (simp add: find_node_None)
    let ?n = "length (sg_nodes_storage g)"
    have IH: "\<exists>r. LoadNode_r fe vfs p parent stack' loc' h = Some r"
      if h: "set (paths (add_node fe vfs full g)) \<subseteq> set (paths h)" for p parent stack' loc' h
    proof (rule less.hyps)
      have "A - set (paths h) \<subset> A - set (paths g)"
        using h full(1) new by (auto simp: add_node_def)
      then show "card (A - set (paths h)) < card (A - set (paths g))" using full(2) by (simp add: psubset_card_mono)
    qed
    have loop: "\<exists>t. foldM (\<lambda>p acc. Option.bind
        (LoadNode_r fe vfs (im_import_name (snd p)) full (stack @ [full]) (im_src_loc (snd p)) (fst acc))
        (\<lambda>r. Some (link_child ?n (fst p) r (snd acc)))) xs
        (update_node ?n (\<lambda>n. n \<lparr> n_child_nodes_indices := cs \<rparr>) (add_node fe vfs full g), []) = Some t" for xs :: "(nat \<times> Import) list" and cs
    proof (rule foldM_loads, rule IH)
      fix h :: "'a SourceGraph"
      have "paths (update_node ?n (\<lambda>n. n \<lparr> n_child_nodes_indices := cs \<rparr>) (add_node fe vfs full g)) = paths (add_node fe vfs full g)"
        by (rule paths_update_node) simp
      then show "set (paths (add_node fe vfs full g)) \<subseteq> set (paths h)"
        if "set (paths (update_node ?n (\<lambda>n. n \<lparr> n_child_nodes_indices := cs \<rparr>) (add_node fe vfs full g))) \<subseteq> set (paths h)"
        using that by (simp only:)
    qed
    show ?thesis
    proof (cases "LoadFileContent vfs full")
      case None
      with False show ?thesis by (subst LoadNode_r.simps) (simp add: Let_def full_def [symmetric])
    next
      case (Some content)
      then obtain lex where lex: "LexicalAnalysis content = Some lex" using assms unfolding loadable_def by blast
      define ims where "ims = ParseImports (fe_Keyword fe) (map (set_lexem_file ?n) (result_lexems lex))"
      obtain t where "foldM (\<lambda>p acc. Option.bind
        (LoadNode_r fe vfs (im_import_name (snd p)) full (stack @ [full]) (im_src_loc (snd p)) (fst acc))
        (\<lambda>r. Some (link_child ?n (fst p) r (snd acc)))) (enumerate 0 ims)
        (update_node ?n (\<lambda>n. n \<lparr> n_child_nodes_indices := replicate (length ims) 0 \<rparr>) (add_node fe vfs full g), []) = Some t"
        using loop by blast
      with False Some lex show ?thesis
        by (subst LoadNode_r.simps) (simp add: Let_def full_def [symmetric] ims_def [symmetric])
    qed
  qed
qed


section \<open>An example\<close>

text \<open>A file that imports another; the syntax analyzer of the example accepts everything.\<close>

definition example_vfs :: Vfs where
  "example_vfs =
    \<lparr> LoadFileContent = (\<lambda>p. if p = str ''a'' then Some (str ''import \"b\"'') else if p = str ''b'' then Some [] else None),
      GetFullFilePath = (\<lambda>p _. if p = str ''a'' then str ''a'' else str ''b''),
      IsImportingFileAllowed = (\<lambda>_. True), IsFileFromSourcesDirectory = (\<lambda>_. True) \<rparr>"

definition example_frontend :: "unit Frontend" where
  "example_frontend =
    \<lparr> fe_Keyword = keywords_list, fe_no_program = (),
      fe_SyntaxAnalysis = (\<lambda>_ _ c _. (\<lparr> sr_imports = [], sr_macros = None, sr_program_elements = (), sr_error_messages = [] \<rparr>, c)),
      fe_source_file_path_hashing_function = (\<lambda>p. p) \<rparr>"

lemma example_loads:
  "(case LoadSourceGraph example_frontend example_vfs (str ''a'') [] of
      None \<Rightarrow> False | Some g \<Rightarrow> sg_errors g = [] \<and> map n_child_nodes_indices (sg_nodes_storage g) = [[1], []]) \<and>
   (case LoadSourceGraph example_frontend example_vfs (str ''a'') (str ''x'') of None \<Rightarrow> False | Some g \<Rightarrow> sg_errors g = [])"
  by code_simp

theorem LoadSourceGraph_correct_witness:
  "\<exists>g. LoadSourceGraph example_frontend example_vfs (str ''a'') [] = Some g \<and> acyclic (edges g) \<and>
    (\<forall>i < length (sg_nodes_storage g). node_ok example_frontend example_vfs (sg_nodes_storage g) i)"
  using LoadSourceGraph_correct [of example_frontend example_vfs "str ''a''"] example_loads
  by (auto simp del: str_Cons split: option.splits)

theorem LoadSourceGraph_prelude_witness:
  "\<exists>g. LoadSourceGraph example_frontend example_vfs (str ''a'') (str ''x'') = Some g \<and> acyclic (edges g)"
  using LoadSourceGraph_prelude [of example_frontend example_vfs "str ''a''" "str ''x''"] example_loads
  by (auto simp del: str_Cons simp: str_def split: option.splits)

lemma example_lexer: "LexicalAnalysis (str ''import \"b\"'') \<noteq> None" "LexicalAnalysis [] \<noteq> None"
  by (intro LexicalAnalysis_returns ascii_plain_digits; simp add: ch_def)+


end
