(* ===== verification/Template_Params.thy ===== *)
theory Template_Params
  imports Types_Laws
begin

text \<open>
  \<^verbatim>\<open>source/compiler0/code_builder_lib/template_signature_param.hpp\<close> and \<^verbatim>\<open>template_signature_param.cpp\<close>: the parameters in
  the signature of a template, their equality, and the substitution of signature parameters for template parameters.

  The alternatives of the \<open>std::variant\<close> are constructors; a shared pointer to a constant parameter is the parameter itself. The
  assertion on the index of a template parameter is the value \<open>None\<close>.
\<close>

section \<open>Signature parameters\<close>

datatype TemplateSignatureParam =
    TypeParam Type
  | VariableParam Type LlvmPtr
  | TypeTemplateParam TypeTemplatePtr
  | TemplateParam (tp_index: nat) (tp_kind_index: nat)
  | ArrayParam (ap_element_count: TemplateSignatureParam) (ap_element_type: TemplateSignatureParam)
  | TupleParam "TemplateSignatureParam list"
  | RawPointerParam TemplateSignatureParam
  | FunctionParam TemplateSignatureParam ValueType bool CallingConvention "SignatureFunctionParam list"
  | CoroutineParam CoroutineKind TemplateSignatureParam ValueType "ParamReference list" "ParamReference list list"
      "InnerReferenceKind list" bool
  | SpecializedTemplateParam (st_type_templates: "TemplateSignatureParam list") (st_params: "TemplateSignatureParam list")
and SignatureFunctionParam =
    SignatureFunctionParam (fp_type: TemplateSignatureParam) (fp_value_type: ValueType)

fun TemplateSignatureParam_eq :: "TemplateSignatureParam \<Rightarrow> TemplateSignatureParam \<Rightarrow> bool"
  and TemplateSignatureParams_eq :: "TemplateSignatureParam list \<Rightarrow> TemplateSignatureParam list \<Rightarrow> bool"
  and SignatureFunctionParam_eq :: "SignatureFunctionParam \<Rightarrow> SignatureFunctionParam \<Rightarrow> bool"
  and SignatureFunctionParams_eq :: "SignatureFunctionParam list \<Rightarrow> SignatureFunctionParam list \<Rightarrow> bool"
where
  "TemplateSignatureParam_eq (TypeParam t) r = (case r of TypeParam u \<Rightarrow> Type_eq t u | _ \<Rightarrow> False)" |
  "TemplateSignatureParam_eq (VariableParam t v) r =
    (case r of VariableParam u w \<Rightarrow> Type_eq t u \<and> v = w | _ \<Rightarrow> False)" |
  "TemplateSignatureParam_eq (TypeTemplateParam t) r = (case r of TypeTemplateParam u \<Rightarrow> t = u | _ \<Rightarrow> False)" |
  "TemplateSignatureParam_eq (TemplateParam i k) r = (case r of TemplateParam j l \<Rightarrow> i = j \<and> k = l | _ \<Rightarrow> False)" |
  "TemplateSignatureParam_eq (ArrayParam n t) r =
    (case r of ArrayParam m u \<Rightarrow> TemplateSignatureParam_eq t u \<and> TemplateSignatureParam_eq n m | _ \<Rightarrow> False)" |
  "TemplateSignatureParam_eq (TupleParam ts) r =
    (case r of TupleParam us \<Rightarrow> TemplateSignatureParams_eq ts us | _ \<Rightarrow> False)" |
  "TemplateSignatureParam_eq (RawPointerParam t) r =
    (case r of RawPointerParam u \<Rightarrow> TemplateSignatureParam_eq t u | _ \<Rightarrow> False)" |
  "TemplateSignatureParam_eq (FunctionParam t vt un cc ps) r =
    (case r of FunctionParam u wt un' cc' qs \<Rightarrow>
       SignatureFunctionParams_eq ps qs \<and> TemplateSignatureParam_eq t u \<and> vt = wt \<and> un = un' \<and> cc = cc'
     | _ \<Rightarrow> False)" |
  "TemplateSignatureParam_eq (CoroutineParam k t vt rr rir ir ns) r =
    (case r of CoroutineParam k' u vt' rr' rir' ir' ns' \<Rightarrow>
       k = k' \<and> TemplateSignatureParam_eq t u \<and> vt = vt' \<and> rr = rr' \<and> rir = rir' \<and> ir = ir' \<and> ns = ns'
     | _ \<Rightarrow> False)" |
  "TemplateSignatureParam_eq (SpecializedTemplateParam tts ts) r =
    (case r of SpecializedTemplateParam uus us \<Rightarrow> TemplateSignatureParams_eq tts uus \<and> TemplateSignatureParams_eq ts us
     | _ \<Rightarrow> False)" |
  "TemplateSignatureParams_eq [] us = (us = [])" |
  "TemplateSignatureParams_eq (t # ts) us =
    (case us of [] \<Rightarrow> False | u # us' \<Rightarrow> TemplateSignatureParam_eq t u \<and> TemplateSignatureParams_eq ts us')" |
  "SignatureFunctionParam_eq (SignatureFunctionParam t vt) q =
    (case q of SignatureFunctionParam u wt \<Rightarrow> TemplateSignatureParam_eq t u \<and> vt = wt)" |
  "SignatureFunctionParams_eq [] qs = (qs = [])" |
  "SignatureFunctionParams_eq (p # ps) qs =
    (case qs of [] \<Rightarrow> False | q # qs' \<Rightarrow> SignatureFunctionParam_eq p q \<and> SignatureFunctionParams_eq ps qs')"

section \<open>Substitution\<close>

fun MapTemplateParamsToSignatureParams ::
    "TemplateSignatureParam list \<Rightarrow> TemplateSignatureParam \<Rightarrow> TemplateSignatureParam option"
  and map_function_param ::
    "TemplateSignatureParam list \<Rightarrow> SignatureFunctionParam \<Rightarrow> SignatureFunctionParam option"
where
  "MapTemplateParamsToSignatureParams m (TypeParam t) = Some (TypeParam t)" |
  "MapTemplateParamsToSignatureParams m (VariableParam t v) = Some (VariableParam t v)" |
  "MapTemplateParamsToSignatureParams m (TypeTemplateParam t) = Some (TypeTemplateParam t)" |
  "MapTemplateParamsToSignatureParams m (TemplateParam i k) = (if i < length m then Some (m ! i) else None)" |
  "MapTemplateParamsToSignatureParams m (ArrayParam n t) =
    Option.bind (MapTemplateParamsToSignatureParams m n) (\<lambda>n'.
      map_option (ArrayParam n') (MapTemplateParamsToSignatureParams m t))" |
  "MapTemplateParamsToSignatureParams m (TupleParam ts) =
    map_option TupleParam (those (map (MapTemplateParamsToSignatureParams m) ts))" |
  "MapTemplateParamsToSignatureParams m (RawPointerParam t) =
    map_option RawPointerParam (MapTemplateParamsToSignatureParams m t)" |
  "MapTemplateParamsToSignatureParams m (FunctionParam t vt un cc ps) =
    Option.bind (MapTemplateParamsToSignatureParams m t) (\<lambda>t'.
      map_option (FunctionParam t' vt un cc) (those (map (map_function_param m) ps)))" |
  "MapTemplateParamsToSignatureParams m (CoroutineParam k t vt rr rir ir ns) =
    map_option (\<lambda>t'. CoroutineParam k t' vt rr rir ir ns) (MapTemplateParamsToSignatureParams m t)" |
  "MapTemplateParamsToSignatureParams m (SpecializedTemplateParam tts ts) =
    Option.bind (those (map (MapTemplateParamsToSignatureParams m) tts)) (\<lambda>tts'.
      map_option (SpecializedTemplateParam tts') (those (map (MapTemplateParamsToSignatureParams m) ts)))" |
  "map_function_param m (SignatureFunctionParam t vt) =
    map_option (\<lambda>t'. SignatureFunctionParam t' vt) (MapTemplateParamsToSignatureParams m t)"

section \<open>Laws\<close>

text \<open>Signature parameters without the pointers to LLVM types inside their types.\<close>

fun erase_sig :: "TemplateSignatureParam \<Rightarrow> TemplateSignatureParam"
  and erase_sig_function :: "SignatureFunctionParam \<Rightarrow> SignatureFunctionParam"
where
  "erase_sig (TypeParam t) = TypeParam (erase t)" |
  "erase_sig (VariableParam t v) = VariableParam (erase t) v" |
  "erase_sig (TypeTemplateParam t) = TypeTemplateParam t" |
  "erase_sig (TemplateParam i k) = TemplateParam i k" |
  "erase_sig (ArrayParam n t) = ArrayParam (erase_sig n) (erase_sig t)" |
  "erase_sig (TupleParam ts) = TupleParam (map erase_sig ts)" |
  "erase_sig (RawPointerParam t) = RawPointerParam (erase_sig t)" |
  "erase_sig (FunctionParam t vt un cc ps) = FunctionParam (erase_sig t) vt un cc (map erase_sig_function ps)" |
  "erase_sig (CoroutineParam k t vt rr rir ir ns) = CoroutineParam k (erase_sig t) vt rr rir ir ns" |
  "erase_sig (SpecializedTemplateParam tts ts) = SpecializedTemplateParam (map erase_sig tts) (map erase_sig ts)" |
  "erase_sig_function (SignatureFunctionParam t vt) = SignatureFunctionParam (erase_sig t) vt"

lemma sig_eq_iff_erase:
  "TemplateSignatureParam_eq a b \<longleftrightarrow> erase_sig a = erase_sig b"
  "TemplateSignatureParams_eq as bs \<longleftrightarrow> map erase_sig as = map erase_sig bs"
  "SignatureFunctionParam_eq p q \<longleftrightarrow> erase_sig_function p = erase_sig_function q"
  "SignatureFunctionParams_eq ps qs \<longleftrightarrow> map erase_sig_function ps = map erase_sig_function qs"
proof (induction a b and as bs and p q and ps qs
    rule: TemplateSignatureParam_eq_TemplateSignatureParams_eq_SignatureFunctionParam_eq_SignatureFunctionParams_eq.induct)
  case (8 t vt un cc ps r)
  then show ?case by (cases r) auto
next
  case (9 k t vt rr rir ir ns r)
  then show ?case by (cases r) auto
qed (auto simp: Type_eq_iff split: TemplateSignatureParam.split SignatureFunctionParam.split list.split)

lemmas TemplateSignatureParam_eq_iff = sig_eq_iff_erase(1)

text \<open>The template parameters that occur in a signature parameter.\<close>

fun indices :: "TemplateSignatureParam \<Rightarrow> nat set" and indices_function :: "SignatureFunctionParam \<Rightarrow> nat set" where
  "indices (TypeParam _) = {}" |
  "indices (VariableParam _ _) = {}" |
  "indices (TypeTemplateParam _) = {}" |
  "indices (TemplateParam i _) = {i}" |
  "indices (ArrayParam n t) = indices n \<union> indices t" |
  "indices (TupleParam ts) = (\<Union>t \<in> set ts. indices t)" |
  "indices (RawPointerParam t) = indices t" |
  "indices (FunctionParam t _ _ _ ps) = indices t \<union> (\<Union>p \<in> set ps. indices_function p)" |
  "indices (CoroutineParam _ t _ _ _ _ _) = indices t" |
  "indices (SpecializedTemplateParam tts ts) = (\<Union>t \<in> set tts. indices t) \<union> (\<Union>t \<in> set ts. indices t)" |
  "indices_function (SignatureFunctionParam t _) = indices t"

lemma those_eq_Some: "those xs = Some ys \<longleftrightarrow> xs = map Some ys"
proof (induction xs arbitrary: ys)
  case (Cons x xs)
  then show ?case by (cases ys; cases x) auto
qed auto

lemma those_total: "(\<exists>ys. those xs = Some ys) \<longleftrightarrow> None \<notin> set xs"
proof (induction xs)
  case (Cons x xs)
  then show ?case by (cases x) auto
qed simp

lemma those_map_total: "(\<exists>ys. those (map f xs) = Some ys) \<longleftrightarrow> (\<forall>x \<in> set xs. \<exists>y. f x = Some y)"
  unfolding those_total by (auto simp: image_iff) (metis not_None_eq)

lemma map_Some_choice: "map f xs = map Some ys \<longleftrightarrow> list_all2 (\<lambda>x y. f x = Some y) xs ys"
  by (simp add: list_eq_iff_nth_eq list_all2_conv_all_nth cong: conj_cong)

lemma map_params_total:
  "(\<exists>q. MapTemplateParamsToSignatureParams m p = Some q) \<longleftrightarrow> (\<forall>i \<in> indices p. i < length m)"
  "(\<exists>q. map_function_param m fp = Some q) \<longleftrightarrow> (\<forall>i \<in> indices_function fp. i < length m)"
proof (induction p and fp rule: TemplateSignatureParam.induct SignatureFunctionParam.induct)
  case (TupleParam ts)
  then show ?case by (simp add: those_map_total)
next
  case (FunctionParam t vt un cc ps)
  have "(\<exists>q. those (map (map_function_param m) ps) = Some q) \<longleftrightarrow> (\<forall>p \<in> set ps. \<forall>i \<in> indices_function p. i < length m)"
    using FunctionParam by (simp add: those_map_total)
  with FunctionParam(1) show ?case by (auto simp: bind_eq_Some_conv)
next
  case (SpecializedTemplateParam tts ts)
  have "(\<exists>q. those (map (MapTemplateParamsToSignatureParams m) ts) = Some q) \<longleftrightarrow> (\<forall>p \<in> set ts. \<forall>i \<in> indices p. i < length m)"
    "(\<exists>q. those (map (MapTemplateParamsToSignatureParams m) tts) = Some q) \<longleftrightarrow> (\<forall>p \<in> set tts. \<forall>i \<in> indices p. i < length m)"
    using SpecializedTemplateParam by (simp_all add: those_map_total)
  then show ?case by (auto simp: bind_eq_Some_conv)
qed (auto simp: bind_eq_Some_conv)

lemma those_compose:
  assumes "those (map f xs) = Some ys" and "\<And>x y. x \<in> set xs \<Longrightarrow> f x = Some y \<Longrightarrow> g y = h x"
  shows "those (map g ys) = those (map h xs)"
proof -
  have "list_all2 (\<lambda>x y. f x = Some y) xs ys" using assms(1) by (simp add: those_eq_Some map_Some_choice)
  then have "map g ys = map h xs" using assms(2) by (auto simp: list_all2_conv_all_nth list_eq_iff_nth_eq)
  then show ?thesis by simp
qed

lemma map_params_compose:
  assumes "map (MapTemplateParamsToSignatureParams m2) m1 = map Some m12"
  shows "MapTemplateParamsToSignatureParams m1 p = Some q \<Longrightarrow>
      MapTemplateParamsToSignatureParams m2 q = MapTemplateParamsToSignatureParams m12 p"
    and "map_function_param m1 fp = Some fq \<Longrightarrow> map_function_param m2 fq = map_function_param m12 fp"
proof (induction p and fp arbitrary: q and fq rule: TemplateSignatureParam.induct SignatureFunctionParam.induct)
  case (TemplateParam i k)
  have "length m12 = length m1" using assms by (metis length_map)
  moreover have "MapTemplateParamsToSignatureParams m2 (m1 ! i) = Some (m12 ! i)" if "i < length m1"
    using assms that calculation by (metis nth_map)
  ultimately show ?case using TemplateParam by (auto split: if_splits)
next
  case (TupleParam ts)
  then show ?case by (auto intro!: arg_cong [of _ _ "map_option TupleParam"] those_compose)
next
  case (FunctionParam t vt un cc ps)
  then obtain t' qs where q: "q = FunctionParam t' vt un cc qs" "MapTemplateParamsToSignatureParams m1 t = Some t'"
    "those (map (map_function_param m1) ps) = Some qs" by (auto simp: bind_eq_Some_conv)
  with those_compose [OF q(3) FunctionParam(2)] FunctionParam(1) [OF q(2)] show ?case by simp
next
  case (SpecializedTemplateParam tts ts)
  then obtain q1 q2 where q: "q = SpecializedTemplateParam q1 q2"
    "those (map (MapTemplateParamsToSignatureParams m1) tts) = Some q1"
    "those (map (MapTemplateParamsToSignatureParams m1) ts) = Some q2"
    by (auto simp: bind_eq_Some_conv)
  with those_compose [OF q(2) SpecializedTemplateParam(1)] those_compose [OF q(3) SpecializedTemplateParam(2)]
  show ?case by simp
qed (auto simp: bind_eq_Some_conv)

text \<open>
  Substitution of signature parameters for template parameters succeeds if and only if every template parameter
  that occurs has an entry in the mapping, and two substitutions one after the other are one substitution by the composed mapping.
\<close>

theorem MapTemplateParamsToSignatureParams_correct:
  assumes "\<forall>m \<in> set m1. \<forall>i \<in> indices m. i < length m2"
  shows "(MapTemplateParamsToSignatureParams m1 p = None \<longleftrightarrow> (\<exists>i \<in> indices p. i \<ge> length m1)) \<and>
    Option.bind (MapTemplateParamsToSignatureParams m1 p) (MapTemplateParamsToSignatureParams m2) =
    (if \<exists>i \<in> indices p. i \<ge> length m1 then None
     else MapTemplateParamsToSignatureParams (map (the \<circ> MapTemplateParamsToSignatureParams m2) m1) p)"
proof -
  have "map (MapTemplateParamsToSignatureParams m2) m1 = map Some (map (the \<circ> MapTemplateParamsToSignatureParams m2) m1)"
    using assms map_params_total(1) [of m2] by fastforce
  note comp = map_params_compose(1) [OF this, of p]
  show ?thesis
  proof (cases "\<exists>i \<in> indices p. i \<ge> length m1")
    case True
    then have "MapTemplateParamsToSignatureParams m1 p = None"
      using map_params_total(1) [of m1 p] by (metis linorder_not_le not_Some_eq)
    with True show ?thesis by simp
  next
    case False
    then obtain q where "MapTemplateParamsToSignatureParams m1 p = Some q"
      using map_params_total(1) [of m1 p] by (auto simp: not_le)
    with comp False show ?thesis by simp
  qed
qed

theorem MapTemplateParamsToSignatureParams_correct_witness:
  "Option.bind (MapTemplateParamsToSignatureParams [RawPointerParam (TemplateParam 0 0)] (TupleParam [TemplateParam 0 0]))
     (MapTemplateParamsToSignatureParams [TypeParam (ClassType 1)]) =
   MapTemplateParamsToSignatureParams [RawPointerParam (TypeParam (ClassType 1))] (TupleParam [TemplateParam 0 0])"
  using MapTemplateParamsToSignatureParams_correct
    [of "[RawPointerParam (TemplateParam 0 0)]" "[TypeParam (ClassType 1)]" "TupleParam [TemplateParam 0 0]"]
  by simp

text \<open>
  Equality of signature parameters is identity up to the pointers to LLVM types, and substitution respects it.
\<close>

theorem TemplateSignatureParam_equality:
  "TemplateSignatureParam_eq a b \<longleftrightarrow> erase_sig a = erase_sig b"
  by (rule TemplateSignatureParam_eq_iff)

end
