(* ===== verification/Specialization.thy ===== *)
theory Specialization
  imports Template_Params
begin

text \<open>
  The comparison of conversions in \<^verbatim>\<open>source/compiler0/code_builder_lib/cb_overloading_resolution.cpp\<close>: which of two parameter types
  and which of two signature parameters of templates fits an argument better.

  Behind every assertion that fails, \<open>TemplateSpecializationCompare\<close> runs to its final \<open>return\<close>; these branches have its value
  \<open>Incomparable\<close>, as in a build without assertions. \<open>None\<close> in the comparison of types is a test of convertibility that does not end.
\<close>

section \<open>Comparison of conversions\<close>

datatype ArgOverloadingClass = ImmutableReference | MutalbeReference

definition GetArgOverloadingClass :: "Param \<Rightarrow> ArgOverloadingClass" where
  "GetArgOverloadingClass param = (if p_value_type param = ReferenceMut then MutalbeReference else ImmutableReference)"

datatype ConversionsCompareResult = Same | LeftIsBetter | RightIsBetter | Incomparable

definition CompareConversionsTypes :: "Tables \<Rightarrow> Type \<Rightarrow> Type \<Rightarrow> Type \<Rightarrow> ConversionsCompareResult option" where
  "CompareConversionsTypes tb src dst_left dst_right =
    (if Type_eq dst_left dst_right then Some Same
     else if Type_eq src dst_left then Some LeftIsBetter
     else if Type_eq src dst_right then Some RightIsBetter
     else Option.bind (ReferenceIsConvertibleTo tb src dst_left) (\<lambda>to_left.
       Option.bind (ReferenceIsConvertibleTo tb src dst_right) (\<lambda>to_right.
         if to_left \<and> to_right then
           Option.bind (ReferenceIsConvertibleTo tb dst_right dst_left) (\<lambda>c.
             if c then Some RightIsBetter
             else Option.bind (ReferenceIsConvertibleTo tb dst_left dst_right) (\<lambda>c.
               Some (if c then LeftIsBetter else Incomparable)))
         else if to_left then Some LeftIsBetter
         else if to_right then Some RightIsBetter
         else Some Incomparable)))"

definition CompareConversionsMutability :: "Param \<Rightarrow> Param \<Rightarrow> Param \<Rightarrow> ConversionsCompareResult" where
  "CompareConversionsMutability src dst_left dst_right =
    (let left_overloding_class = GetArgOverloadingClass dst_left; right_overloding_class = GetArgOverloadingClass dst_right in
     if left_overloding_class = right_overloding_class then Same
     else if left_overloding_class = MutalbeReference then LeftIsBetter
     else if right_overloding_class = MutalbeReference then RightIsBetter
     else Incomparable)"

text \<open>One step of the loops over elements, parameters and arguments; \<open>None\<close> is the early return.\<close>

definition combine_results :: "ConversionsCompareResult \<Rightarrow> ConversionsCompareResult \<Rightarrow> ConversionsCompareResult option" where
  "combine_results result arg_result =
    (if arg_result = Incomparable then None
     else if arg_result = Same then Some result
     else if result = Same then Some arg_result
     else if result \<noteq> arg_result then None
     else Some result)"

definition array_result :: "ConversionsCompareResult \<Rightarrow> ConversionsCompareResult \<Rightarrow> ConversionsCompareResult" where
  "array_result size_compare_result type_compare_result =
    (if size_compare_result = Incomparable \<or> type_compare_result = Incomparable then Incomparable
     else if size_compare_result = Same then type_compare_result
     else if type_compare_result = Same then size_compare_result
     else if type_compare_result = size_compare_result then size_compare_result
     else Incomparable)"

fun TemplateSpecializationCompare :: "TemplateSignatureParam \<Rightarrow> TemplateSignatureParam \<Rightarrow> ConversionsCompareResult"
  and compare_all :: "ConversionsCompareResult \<Rightarrow> TemplateSignatureParam list \<Rightarrow> TemplateSignatureParam list \<Rightarrow>
    ConversionsCompareResult"
  and compare_function_params :: "ConversionsCompareResult \<Rightarrow> SignatureFunctionParam list \<Rightarrow> SignatureFunctionParam list \<Rightarrow>
    ConversionsCompareResult"
where
  "TemplateSpecializationCompare (TypeParam _) r =
    (case r of
       TypeParam _ \<Rightarrow> Same
     | VariableParam _ _ \<Rightarrow> Incomparable
     | TypeTemplateParam _ \<Rightarrow> Incomparable
     | _ \<Rightarrow> LeftIsBetter)" |
  "TemplateSpecializationCompare (VariableParam _ _) r =
    (case r of VariableParam _ _ \<Rightarrow> Same | TemplateParam _ _ \<Rightarrow> LeftIsBetter | _ \<Rightarrow> Incomparable)" |
  "TemplateSpecializationCompare (TypeTemplateParam _) r =
    (case r of TypeTemplateParam _ \<Rightarrow> Same | TemplateParam _ _ \<Rightarrow> LeftIsBetter | _ \<Rightarrow> Incomparable)" |
  "TemplateSpecializationCompare (ArrayParam l_count l_type) r =
    (case r of
       TypeParam _ \<Rightarrow> RightIsBetter
     | TemplateParam _ _ \<Rightarrow> LeftIsBetter
     | ArrayParam r_count r_type \<Rightarrow>
         array_result (TemplateSpecializationCompare l_count r_count) (TemplateSpecializationCompare l_type r_type)
     | _ \<Rightarrow> Incomparable)" |
  "TemplateSpecializationCompare (TupleParam ls) r =
    (case r of
       TypeParam _ \<Rightarrow> RightIsBetter
     | TemplateParam _ _ \<Rightarrow> LeftIsBetter
     | TupleParam rs \<Rightarrow> if length ls \<noteq> length rs then Incomparable else compare_all Same ls rs
     | _ \<Rightarrow> Incomparable)" |
  "TemplateSpecializationCompare (RawPointerParam l) r =
    (case r of
       TypeParam _ \<Rightarrow> RightIsBetter
     | TemplateParam _ _ \<Rightarrow> LeftIsBetter
     | RawPointerParam r' \<Rightarrow> TemplateSpecializationCompare l r'
     | _ \<Rightarrow> Incomparable)" |
  "TemplateSpecializationCompare (FunctionParam l_return_type _ _ _ ls) r =
    (case r of
       TypeParam _ \<Rightarrow> RightIsBetter
     | TemplateParam _ _ \<Rightarrow> LeftIsBetter
     | FunctionParam r_return_type _ _ _ rs \<Rightarrow>
         if length ls \<noteq> length rs then Incomparable
         else compare_function_params (TemplateSpecializationCompare l_return_type r_return_type) ls rs
     | _ \<Rightarrow> Incomparable)" |
  "TemplateSpecializationCompare (CoroutineParam l_kind l_type l_value_type l_rr l_rir l_ir _) r =
    (case r of
       TypeParam _ \<Rightarrow> RightIsBetter
     | TemplateParam _ _ \<Rightarrow> LeftIsBetter
     | CoroutineParam r_kind r_type r_value_type r_rr r_rir r_ir _ \<Rightarrow>
         if l_kind \<noteq> r_kind \<or> l_value_type \<noteq> r_value_type \<or> l_rr \<noteq> r_rr \<or> l_rir \<noteq> r_rir \<or> l_ir \<noteq> r_ir then Incomparable
         else TemplateSpecializationCompare l_type r_type
     | _ \<Rightarrow> Incomparable)" |
  "TemplateSpecializationCompare (SpecializedTemplateParam l_type_templates ls) r =
    (case r of
       TypeParam _ \<Rightarrow> RightIsBetter
     | TemplateParam _ _ \<Rightarrow> LeftIsBetter
     | SpecializedTemplateParam r_type_templates rs \<Rightarrow>
         if length l_type_templates \<noteq> length r_type_templates then Incomparable
         else
           let result =
             (case (l_type_templates, r_type_templates) of
                ([l'], [r']) \<Rightarrow> TemplateSpecializationCompare l' r'
              | _ \<Rightarrow> if \<not> TemplateSignatureParams_eq l_type_templates r_type_templates then Incomparable else Same)
           in if result = Incomparable then Incomparable
              else if length ls \<noteq> length rs then Incomparable
              else compare_all result ls rs
     | _ \<Rightarrow> Incomparable)" |
  "TemplateSpecializationCompare (TemplateParam _ _) r =
    (case r of TemplateParam _ _ \<Rightarrow> Same | CoroutineParam _ _ _ _ _ _ _ \<Rightarrow> Incomparable | _ \<Rightarrow> RightIsBetter)" |
  "compare_all result (l # ls) (r # rs) =
    (case combine_results result (TemplateSpecializationCompare l r) of
       None \<Rightarrow> Incomparable | Some result' \<Rightarrow> compare_all result' ls rs)" |
  "compare_all result _ _ = result" |
  "compare_function_params result (SignatureFunctionParam l _ # ls) (SignatureFunctionParam r _ # rs) =
    (case combine_results result (TemplateSpecializationCompare l r) of
       None \<Rightarrow> Incomparable | Some result' \<Rightarrow> compare_function_params result' ls rs)" |
  "compare_function_params result _ _ = result"


definition CompareConversions :: "Tables \<Rightarrow> Param \<Rightarrow> Param \<Rightarrow> Param \<Rightarrow> ConversionsCompareResult option" where
  "CompareConversions tb src dst_left dst_right =
    map_option (\<lambda>types_compare.
      let mutability_compare = CompareConversionsMutability src dst_left dst_right in
      if types_compare = mutability_compare then types_compare
      else if types_compare = Incomparable \<or> mutability_compare = Incomparable then Incomparable
      else if types_compare = Same then mutability_compare
      else if mutability_compare = Same then types_compare
      else Incomparable)
      (CompareConversionsTypes tb (p_type src) (p_type dst_left) (p_type dst_right))"

text \<open>The overload of the same name that takes signature parameters of templates too.\<close>

definition CompareConversions_templates ::
  "Tables \<Rightarrow> Param \<Rightarrow> Param \<Rightarrow> Param \<Rightarrow> TemplateSignatureParam \<Rightarrow> TemplateSignatureParam \<Rightarrow> ConversionsCompareResult option" where
  "CompareConversions_templates tb src dst_left dst_right left_template right_template =
    map_option (\<lambda>conversions_compare.
      if conversions_compare = Same then TemplateSpecializationCompare left_template right_template
      else conversions_compare)
      (CompareConversions tb src dst_left dst_right)"

section \<open>Specialization as an order\<close>

text \<open>
  The specification of the comparison: \<open>special l r\<close> says that \<open>l\<close> is at least as specialized as \<open>r\<close>. A concrete type is more
  special than any composite, every parameter is more special than a template parameter, composites are compared element by element.
\<close>

inductive special :: "TemplateSignatureParam \<Rightarrow> TemplateSignatureParam \<Rightarrow> bool" where
  special_type: "special (TypeParam t) (TypeParam u)"
| special_param: "special l (TemplateParam i k)"
| special_type_array: "special (TypeParam t) (ArrayParam n u)"
| special_type_tuple: "special (TypeParam t) (TupleParam us)"
| special_type_pointer: "special (TypeParam t) (RawPointerParam u)"
| special_type_function: "special (TypeParam t) (FunctionParam u vt un cc ps)"
| special_type_coroutine: "special (TypeParam t) (CoroutineParam k u vt rr rir ir ns)"
| special_type_template: "special (TypeParam t) (SpecializedTemplateParam uus us)"
| special_variable: "special (VariableParam t v) (VariableParam u w)"
| special_type_template_param: "special (TypeTemplateParam t) (TypeTemplateParam u)"
| special_array: "special n m \<Longrightarrow> special t u \<Longrightarrow> special (ArrayParam n t) (ArrayParam m u)"
| special_tuple: "list_all2 special ts us \<Longrightarrow> special (TupleParam ts) (TupleParam us)"
| special_pointer: "special t u \<Longrightarrow> special (RawPointerParam t) (RawPointerParam u)"
| special_function: "special t u \<Longrightarrow> list_all2 (\<lambda>p q. special (fp_type p) (fp_type q)) ps qs \<Longrightarrow>
    special (FunctionParam t vt un cc ps) (FunctionParam u vt' un' cc' qs)"
| special_coroutine: "special t u \<Longrightarrow> special (CoroutineParam k t vt rr rir ir ns) (CoroutineParam k u vt rr rir ir ns')"
| special_template_single: "special t u \<Longrightarrow> list_all2 special ts us \<Longrightarrow>
    special (SpecializedTemplateParam [t] ts) (SpecializedTemplateParam [u] us)"
| special_template: "length tts \<noteq> 1 \<Longrightarrow> TemplateSignatureParams_eq tts uus \<Longrightarrow> list_all2 special ts us \<Longrightarrow>
    special (SpecializedTemplateParam tts ts) (SpecializedTemplateParam uus us)"

definition at_least :: "ConversionsCompareResult \<Rightarrow> bool" where
  "at_least c \<longleftrightarrow> c = Same \<or> c = LeftIsBetter"

lemma combine_at_least:
  "(case combine_results a b of None \<Rightarrow> False | Some c \<Rightarrow> at_least c) \<longleftrightarrow> at_least a \<and> at_least b"
  "combine_results a b = Some Same \<longleftrightarrow> a = Same \<and> b = Same"
  by (cases a; cases b; simp add: combine_results_def at_least_def)+

lemma not_at_least [simp]: "\<not> at_least Incomparable" "\<not> at_least RightIsBetter" "at_least Same" "at_least LeftIsBetter"
  by (simp_all add: at_least_def)

lemma array_result [simp]:
  "at_least (array_result a b) \<longleftrightarrow> at_least a \<and> at_least b" "array_result a b = Same \<longleftrightarrow> a = Same \<and> b = Same"
  by (cases a; cases b; simp add: array_result_def)+

lemma compare_function_params_all:
  "compare_function_params result ps qs = compare_all result (map fp_type ps) (map fp_type qs)"
proof (induction ps arbitrary: result qs)
  case (Cons p ps)
  show ?case by (cases p; cases qs; cases "hd qs") (auto simp: Cons.IH split: option.split)
qed simp

lemma compare_all_at_least:
  assumes "length ls = length rs" and "\<And>l r. l \<in> set ls \<Longrightarrow> at_least (TemplateSpecializationCompare l r) \<longleftrightarrow> P l r"
  shows "at_least (compare_all result ls rs) \<longleftrightarrow> at_least result \<and> list_all2 P ls rs"
  using assms
proof (induction ls rs arbitrary: result rule: list_induct2)
  case (Cons l ls r rs)
  have "at_least (compare_all result (l # ls) (r # rs)) \<longleftrightarrow>
      (case combine_results result (TemplateSpecializationCompare l r) of None \<Rightarrow> False | Some c \<Rightarrow> at_least c) \<and>
      list_all2 P ls rs"
    using Cons.IH [OF Cons.prems] by (simp split: option.split)
  then show ?case using Cons.prems [of l r] by (simp add: combine_at_least)
qed simp

lemma compare_all_Same:
  "length ls = length rs \<Longrightarrow> compare_all result ls rs = Same \<longleftrightarrow>
    result = Same \<and> list_all2 (\<lambda>l r. TemplateSpecializationCompare l r = Same) ls rs"
proof (induction ls rs arbitrary: result rule: list_induct2)
  case (Cons l ls r rs)
  show ?case
  proof (cases "combine_results result (TemplateSpecializationCompare l r)")
    case None
    with combine_at_least(2) [of result "TemplateSpecializationCompare l r"] show ?thesis by auto
  next
    case (Some c)
    with combine_at_least(2) [of result "TemplateSpecializationCompare l r"] Cons.IH [of c] show ?thesis by simp
  qed
qed simp

inductive_simps special_simps:
  "special (TypeParam t) r" "special (VariableParam t v) r" "special (TypeTemplateParam t) r" "special (TemplateParam i k) r"
  "special (ArrayParam n t) r" "special (TupleParam ts) r" "special (RawPointerParam t) r"
  "special (FunctionParam t vt un cc ps) r" "special (CoroutineParam c t vt rr rir ir ns) r"
  "special (SpecializedTemplateParam tts ts) r"

lemma TemplateSpecializationCompare_special:
  "at_least (TemplateSpecializationCompare l r) \<longleftrightarrow> special l r"
  "\<And>r. at_least (TemplateSpecializationCompare (fp_type p) r) \<longleftrightarrow> special (fp_type p) r"
proof (induction l and p arbitrary: r rule: TemplateSignatureParam.induct SignatureFunctionParam.induct)
  case (TupleParam ts)
  then show ?case
    by (cases r) (auto simp: special_simps compare_all_at_least [where P = special] dest: list_all2_lengthD)
next
  case (FunctionParam t vt un cc ps)
  show ?case
  proof (cases r)
    case (FunctionParam u vt' un' cc' qs)
    have "at_least (compare_all a (map fp_type ps) (map fp_type qs)) \<longleftrightarrow>
        at_least a \<and> list_all2 (\<lambda>p q. special (fp_type p) (fp_type q)) ps qs" if "length ps = length qs" for a
      using compare_all_at_least [of "map fp_type ps" "map fp_type qs" special] FunctionParam.IH(2) that
      by (auto simp: list.rel_map)
    then show ?thesis using FunctionParam FunctionParam.IH(1)
      by (auto simp: special_simps compare_function_params_all dest: list_all2_lengthD)
  qed (simp_all add: special_simps)
next
  case (SpecializedTemplateParam tts ts)
  show ?case
  proof (cases r)
    case (SpecializedTemplateParam uus us)
    have params: "at_least (compare_all a ts us) \<longleftrightarrow> at_least a \<and> list_all2 special ts us" if "length ts = length us" for a
      using compare_all_at_least [OF that] SpecializedTemplateParam.IH(2) by blast
    show ?thesis
    proof (cases "length tts = 1 \<and> length uus = 1")
      case True
      then obtain t u where "tts = [t]" "uus = [u]" by (auto simp: length_Suc_conv)
      then show ?thesis using SpecializedTemplateParam SpecializedTemplateParam.IH(1) [of t u] params
        by (auto simp: special_simps Let_def dest: list_all2_lengthD)
    next
      case False
      have len: "length tts = length uus" if "TemplateSignatureParams_eq tts uus"
        using that unfolding sig_eq_iff_erase by (metis length_map)
      have e: "(case (tts, uus) of ([l'], [r']) \<Rightarrow> TemplateSpecializationCompare l' r' | _ \<Rightarrow> x) = x" for x
        using False by (auto split: list.split)
      have "special (SpecializedTemplateParam tts ts) r \<longleftrightarrow> TemplateSignatureParams_eq tts uus \<and> list_all2 special ts us"
        unfolding SpecializedTemplateParam using False len by (auto simp: special_simps)
      then show ?thesis
        unfolding SpecializedTemplateParam TemplateSpecializationCompare.simps TemplateSignatureParam.case e Let_def
        using len params [of Same] by (auto dest: list_all2_lengthD)
    qed
  qed (simp_all add: special_simps)
qed (auto simp: special_simps Let_def split: TemplateSignatureParam.split)

lemma special_refl: "special l l" "special (fp_type p) (fp_type p)"
proof (induction l and p rule: TemplateSignatureParam.induct SignatureFunctionParam.induct)
  case (SpecializedTemplateParam tts ts)
  show ?case
  proof (cases "length tts = 1")
    case True
    with SpecializedTemplateParam show ?thesis
      by (auto simp: length_Suc_conv intro!: special_template_single list.rel_refl_strong)
  qed (use SpecializedTemplateParam in \<open>auto simp: sig_eq_iff_erase intro!: special_template list.rel_refl_strong\<close>)
qed (auto simp: special_simps intro!: list.rel_refl_strong)

lemma special_trans: "special l m \<Longrightarrow> special m r \<Longrightarrow> special l r"
proof (induction l m arbitrary: r rule: special.induct)
  case (special_tuple ts us)
  then show ?case by (auto simp: special_simps list_all2_conv_all_nth)
next
  case (special_function t u ps qs vt un cc vt' un' cc')
  then show ?case
    by (auto simp: special_simps list_all2_conv_all_nth)
next
  case (special_template_single t u ts us)
  then show ?case by (auto simp: special_simps list_all2_conv_all_nth)
next
  case (special_template tts uus ts us)
  have "length tts = length uus" using special_template(2) unfolding sig_eq_iff_erase by (metis length_map)
  with special_template show ?case by (auto simp: special_simps sig_eq_iff_erase list_all2_conv_all_nth)
qed (auto simp: special_simps intro: special_param)

definition at_most :: "ConversionsCompareResult \<Rightarrow> bool" where
  "at_most c \<longleftrightarrow> c = Same \<or> c = RightIsBetter"

lemma not_at_most [simp]: "\<not> at_most Incomparable" "\<not> at_most LeftIsBetter" "at_most Same" "at_most RightIsBetter"
  by (simp_all add: at_most_def)

lemma combine_at_most:
  "(case combine_results a b of None \<Rightarrow> False | Some c \<Rightarrow> at_most c) \<longleftrightarrow> at_most a \<and> at_most b"
  by (cases a; cases b; simp add: combine_results_def at_most_def)

lemma array_result_at_most [simp]: "at_most (array_result a b) \<longleftrightarrow> at_most a \<and> at_most b"
  by (cases a; cases b; simp add: array_result_def)

lemma compare_all_at_most:
  assumes "length ls = length rs" and "\<And>l r. l \<in> set ls \<Longrightarrow> at_most (TemplateSpecializationCompare l r) \<Longrightarrow> P r l"
    and "at_most (compare_all result ls rs)"
  shows "at_most result \<and> list_all2 P rs ls"
  using assms
proof (induction ls rs arbitrary: result rule: list_induct2)
  case (Cons l ls r rs)
  obtain c where c: "combine_results result (TemplateSpecializationCompare l r) = Some c" "at_most (compare_all c ls rs)"
    using Cons.prems(2) by (simp split: option.splits)
  have "at_most c \<and> list_all2 P rs ls" using Cons.IH [OF Cons.prems(1) c(2)] by simp
  then show ?case
    using Cons.prems(1) [of l r] combine_at_most [of result "TemplateSpecializationCompare l r"] c(1) by simp
qed simp

lemma at_most_special:
  "at_most (TemplateSpecializationCompare l r) \<Longrightarrow> special r l"
  "\<And>r. at_most (TemplateSpecializationCompare (fp_type p) r) \<Longrightarrow> special r (fp_type p)"
proof (induction l and p arbitrary: r rule: TemplateSignatureParam.induct SignatureFunctionParam.induct)
  case (TupleParam ts)
  have "list_all2 special us ts" if "length ts = length us" "at_most (compare_all Same ts us)" for us
    using compare_all_at_most [of ts us special Same] that TupleParam.IH by blast
  with TupleParam.prems show ?case by (cases r) (auto simp: special_simps split: if_splits)
next
  case (FunctionParam t vt un cc ps)
  have "at_most a \<and> list_all2 (\<lambda>q p. special (fp_type q) (fp_type p)) qs ps"
    if "length ps = length qs" "at_most (compare_all a (map fp_type ps) (map fp_type qs))" for a qs
    using compare_all_at_most [of "map fp_type ps" "map fp_type qs" special a] that FunctionParam.IH(2)
    by (auto simp: list.rel_map)
  with FunctionParam.prems FunctionParam.IH(1) show ?case
    by (cases r) (auto simp: special_simps compare_function_params_all split: if_splits)
next
  case (SpecializedTemplateParam tts ts)
  have ps: "at_most a \<and> list_all2 special us ts" if "length ts = length us" "at_most (compare_all a ts us)" for a us
    using compare_all_at_most [of ts us special a] that SpecializedTemplateParam.IH(2) by blast
  show ?case
  proof (cases r)
    case (SpecializedTemplateParam uus us)
    show ?thesis
    proof (cases "length tts = 1 \<and> length uus = 1")
      case True
      then obtain t u where tu: "tts = [t]" "uus = [u]" by (auto simp: length_Suc_conv)
      have "length ts = length us \<and> at_most (compare_all (TemplateSpecializationCompare t u) ts us)"
        using SpecializedTemplateParam.prems tu SpecializedTemplateParam by (simp add: Let_def split: if_splits)
      with ps [of us "TemplateSpecializationCompare t u"] SpecializedTemplateParam.IH(1) [of t u] tu
      show ?thesis unfolding SpecializedTemplateParam by (simp add: special_template_single)
    next
      case False
      have e: "(case (tts, uus) of ([l'], [r']) \<Rightarrow> TemplateSpecializationCompare l' r' | _ \<Rightarrow> x) = x" for x
        using False by (auto split: list.split)
      have "TemplateSignatureParams_eq tts uus \<and> length tts = length uus \<and> length ts = length us \<and> at_most (compare_all Same ts us)"
        using SpecializedTemplateParam.prems
        unfolding SpecializedTemplateParam TemplateSpecializationCompare.simps TemplateSignatureParam.case e Let_def
        by (simp split: if_splits)
      with ps [of us Same] False show ?thesis
        unfolding SpecializedTemplateParam by (intro special_template) (auto simp: sig_eq_iff_erase)
    qed
  qed (use SpecializedTemplateParam.prems in \<open>simp_all add: special_simps\<close>)
qed (auto simp: special_simps Let_def split: TemplateSignatureParam.splits if_splits)

lemma list_all2_same:
  "list_all2 (\<lambda>x y. special x y \<and> (special y x \<longrightarrow> TemplateSpecializationCompare x y = Same)) xs ys \<Longrightarrow> list_all2 special ys xs \<Longrightarrow>
    length xs = length ys \<and> list_all2 (\<lambda>l r. TemplateSpecializationCompare l r = Same) xs ys"
  by (auto simp: list_all2_conv_all_nth)

lemma special_Same: "special l r \<Longrightarrow> special r l \<Longrightarrow> TemplateSpecializationCompare l r = Same"
proof (induction l r rule: special.induct)
  case (special_tuple ts us)
  then show ?case using list_all2_same [of ts us] by (auto simp: special_simps compare_all_Same)
next
  case (special_function t u ps qs vt un cc vt' un' cc')
  have "list_all2 special (map fp_type qs) (map fp_type ps)"
    using special_function(4) by (simp add: special_simps list.rel_map)
  with special_function(3) have "length ps = length qs \<and>
      list_all2 (\<lambda>l r. TemplateSpecializationCompare l r = Same) (map fp_type ps) (map fp_type qs)"
    using list_all2_same [of "map fp_type ps" "map fp_type qs"] by (simp add: list.rel_map list_all2_conv_all_nth)
  with special_function show ?case by (simp add: special_simps compare_function_params_all compare_all_Same)
next
  case (special_template_single t u ts us)
  then show ?case using list_all2_same [of ts us] by (auto simp: special_simps compare_all_Same Let_def)
next
  case (special_template tts uus ts us)
  have "length tts = length uus" using special_template(2) unfolding sig_eq_iff_erase by (metis length_map)
  moreover have "(case (tts, uus) of ([l'], [r']) \<Rightarrow> TemplateSpecializationCompare l' r' | _ \<Rightarrow> x) = x" for x
    using special_template(1) by (auto split: list.split)
  moreover have "list_all2 special us ts" using special_template(1,4) by (auto simp: special_simps)
  ultimately show ?case using special_template(2) list_all2_same [OF special_template(3)]
    by (simp add: compare_all_Same Let_def)
qed (auto simp: special_simps)

lemma compare_special:
  "TemplateSpecializationCompare l r = Same \<longleftrightarrow> special l r \<and> special r l"
  "TemplateSpecializationCompare l r = LeftIsBetter \<longleftrightarrow> special l r \<and> \<not> special r l"
  "TemplateSpecializationCompare l r = RightIsBetter \<Longrightarrow> special r l \<and> \<not> special l r"
  using TemplateSpecializationCompare_special(1) [of l r] at_most_special(1) [of l r] special_Same [of l r]
  by (metis not_at_least not_at_most ConversionsCompareResult.exhaust)+

text \<open>
  C6. \<open>TemplateSpecializationCompare\<close> implements the order of specialization, which is reflexive and transitive: two signature parameters are
  the same if each is at least as special as the other, the left one is better if it is strictly more special, and if the right one is
  better, then it is strictly more special.
\<close>

theorem TemplateSpecializationCompare_refines:
  "reflp special \<and> transp special \<and>
   (TemplateSpecializationCompare l r = Same \<longleftrightarrow> special l r \<and> special r l) \<and>
   (TemplateSpecializationCompare l r = LeftIsBetter \<longleftrightarrow> special l r \<and> \<not> special r l) \<and>
   (TemplateSpecializationCompare l r = RightIsBetter \<longrightarrow> special r l \<and> \<not> special l r)"
  using compare_special [of l r] special_refl(1) special_trans by (blast intro: reflpI transpI)

theorem TemplateSpecializationCompare_refines_witness:
  "special (TypeParam (ClassType 1)) (RawPointerParam (TemplateParam 0 0)) \<and>
   \<not> special (RawPointerParam (TemplateParam 0 0)) (TypeParam (ClassType 1))"
  using TemplateSpecializationCompare_refines [of "RawPointerParam (TemplateParam 0 0)" "TypeParam (ClassType 1)"] by simp

text \<open>
  The comparison is not symmetric for coroutines: a coroutine on the left is better than a template parameter on the
  right, with the sides exchanged they are incomparable.
\<close>

theorem TemplateSpecializationCompare_coroutine:
  "TemplateSpecializationCompare (CoroutineParam k t vt rr rir ir ns) (TemplateParam i n) = LeftIsBetter \<and>
   TemplateSpecializationCompare (TemplateParam i n) (CoroutineParam k t vt rr rir ir ns) = Incomparable"
  by simp

end
