(* ===== verification/Template_Matching.thy ===== *)
theory Template_Matching
  imports Template_Params
begin

text \<open>
  Deduction of template arguments, from \<^verbatim>\<open>source/compiler0/code_builder_lib/cb_templates.cpp\<close>: the overloads of
  \<open>CodeBuilder::MatchTemplateArgImpl\<close>, which compare an argument of a template with a parameter of its signature and set the
  template parameters in it.

  The scope of the template arguments is a map from names to values; the values that can be in it are those the code
  puts there. A match returns whether it was successful, and the scope, which is changed by a match that fails in the end, too. The value
  \<open>None\<close> means that a name or an index is looked up that does not exist, which the code does not check.

  Parameters are the tables of classes, the constant LLVM has for a size, and the values of default arguments.
\<close>

section \<open>Scopes of template arguments\<close>

datatype TemplateParameterData = TypeParamData | TypeTemplateParamData | VariableParamData TemplateSignatureParam

record TemplateParameter =
  tpm_name :: "byte list"
  tpm_kind_data :: TemplateParameterData

datatype ArgValue =
    YetNotDeducedTemplateArg
  | TypeNameValue Type
  | VariableValue Type LlvmPtr
  | TypeTemplatesSetValue "TypeTemplatePtr list"

type_synonym ArgsScope = "byte list \<rightharpoonup> ArgValue"

record TemplateEnv =
  te_tables :: Tables
  te_size_llvm_type :: LlvmPtr
  te_size_constant :: "u64 \<Rightarrow> LlvmPtr"
  te_default_arg :: "ClassPtr \<Rightarrow> nat \<Rightarrow> TemplateArg option"

type_synonym matched = "(bool \<times> ArgsScope) option"

text \<open>Both matches are successful; the second one is tried only if the first one is.\<close>

definition and_match :: "matched \<Rightarrow> (ArgsScope \<Rightarrow> matched) \<Rightarrow> matched" where
  "and_match r f = (case r of None \<Rightarrow> None | Some (ok, scope) \<Rightarrow> if ok then f scope else Some (False, scope))"

lemma and_match_cong [fundef_cong]:
  "r = r' \<Longrightarrow> (\<And>scope. r' = Some (True, scope) \<Longrightarrow> f scope = g scope) \<Longrightarrow> and_match r f = and_match r' g"
  by (auto simp: and_match_def split: option.splits)

lemma and_match_True: "and_match r f = Some (True, scope') \<longleftrightarrow> (\<exists>scope. r = Some (True, scope) \<and> f scope = Some (True, scope'))"
  by (auto simp: and_match_def split: option.splits if_splits)

text \<open>The value of a parameter that is deduced already agrees with another argument for it.\<close>

fun same_arg :: "ArgValue \<Rightarrow> TemplateArg \<Rightarrow> bool" where
  "same_arg (TypeNameValue t) (TypeArg u) = Type_eq u t" |
  "same_arg (VariableValue t v) (VariableArg a) = (Type_eq (tv_type a) t \<and> tv_constexpr_value a = v)" |
  "same_arg (TypeTemplatesSetValue ts) (TypeTemplateArg u) = (length ts = 1 \<and> hd ts = u)" |
  "same_arg _ _ = False"

text \<open>The argument for the size of an array.\<close>

definition size_arg :: "TemplateEnv \<Rightarrow> u64 \<Rightarrow> TemplateArg" where
  "size_arg env n = VariableArg \<lparr> tv_type = Fundamental size_type_t (te_size_llvm_type env), tv_constexpr_value = te_size_constant env n \<rparr>"

text \<open>
  The arguments of a class template beyond those that are given are equal to their default values; \<open>te_default_arg\<close> is the
  value of the default argument in the scope of the class, if there is one.
\<close>

definition defaults_match :: "TemplateEnv \<Rightarrow> ClassPtr \<Rightarrow> nat \<Rightarrow> TemplateArg list \<Rightarrow> bool" where
  "defaults_match env c n args \<longleftrightarrow>
    list_all (\<lambda>i. case te_default_arg env c i of None \<Rightarrow> False | Some a \<Rightarrow> TemplateArg_eq (args ! i) a) [n..<length args]"

section \<open>Matching\<close>

function MatchTemplateArg :: "TemplateEnv \<Rightarrow> TemplateParameter list \<Rightarrow> TemplateSignatureParam \<Rightarrow> TemplateArg \<Rightarrow> ArgsScope \<Rightarrow> matched"
  and match_all :: "TemplateEnv \<Rightarrow> TemplateParameter list \<Rightarrow> TemplateSignatureParam list \<Rightarrow> TemplateArg list \<Rightarrow> ArgsScope \<Rightarrow> matched"
  and match_params :: "TemplateEnv \<Rightarrow> TemplateParameter list \<Rightarrow> SignatureFunctionParam list \<Rightarrow> Param list \<Rightarrow> ArgsScope \<Rightarrow> matched"
  and match_any :: "TemplateEnv \<Rightarrow> TemplateParameter list \<Rightarrow> TemplateSignatureParam list \<Rightarrow> TypeTemplatePtr \<Rightarrow> ArgsScope \<Rightarrow> matched"
where
  "MatchTemplateArg env tps (TypeParam t) arg scope = Some (case arg of TypeArg u \<Rightarrow> Type_eq u t | _ \<Rightarrow> False, scope)" |
  "MatchTemplateArg env tps (VariableParam t v) arg scope =
    Some (case arg of VariableArg a \<Rightarrow> Type_eq (tv_type a) t \<and> tv_constexpr_value a = v | _ \<Rightarrow> False, scope)" |
  "MatchTemplateArg env tps (TypeTemplateParam t) arg scope = Some (case arg of TypeTemplateArg u \<Rightarrow> u = t | _ \<Rightarrow> False, scope)" |
  "MatchTemplateArg env tps (TemplateParam i k) arg scope =
    (if i < length tps then
       case scope (tpm_name (tps ! i)) of
         None \<Rightarrow> None
       | Some v \<Rightarrow>
           if v = YetNotDeducedTemplateArg then
             case tpm_kind_data (tps ! i) of
               TypeParamData \<Rightarrow>
                 Some (case arg of TypeArg t \<Rightarrow> (True, scope(tpm_name (tps ! i) \<mapsto> TypeNameValue t)) | _ \<Rightarrow> (False, scope))
             | VariableParamData p \<Rightarrow>
                 (case arg of
                    VariableArg a \<Rightarrow>
                      if \<not> IsValidForTemplateVariableArgument (tv_type a) \<or> tv_constexpr_value a = 0 then Some (False, scope)
                      else and_match (MatchTemplateArg env tps p (TypeArg (tv_type a)) scope)
                        (\<lambda>scope. Some (True, scope(tpm_name (tps ! i) \<mapsto> VariableValue (tv_type a) (tv_constexpr_value a))))
                  | _ \<Rightarrow> Some (False, scope))
             | TypeTemplateParamData \<Rightarrow>
                 Some (case arg of TypeTemplateArg t \<Rightarrow> (True, scope(tpm_name (tps ! i) \<mapsto> TypeTemplatesSetValue [t])) | _ \<Rightarrow> (False, scope))
           else Some (same_arg v arg, scope)
     else None)" |
  "MatchTemplateArg env tps (ArrayParam n t) arg scope =
    (case arg of
       TypeArg (Array element element_count _) \<Rightarrow>
         and_match (MatchTemplateArg env tps t (TypeArg element) scope) (\<lambda>scope. MatchTemplateArg env tps n (size_arg env element_count) scope)
     | _ \<Rightarrow> Some (False, scope))" |
  "MatchTemplateArg env tps (TupleParam ps) arg scope =
    (case arg of
       TypeArg (Tuple ts _) \<Rightarrow> if length ts \<noteq> length ps then Some (False, scope) else match_all env tps ps (map TypeArg ts) scope
     | _ \<Rightarrow> Some (False, scope))" |
  "MatchTemplateArg env tps (RawPointerParam p) arg scope =
    (case arg of TypeArg (RawPointer t _) \<Rightarrow> MatchTemplateArg env tps p (TypeArg t) scope | _ \<Rightarrow> Some (False, scope))" |
  "MatchTemplateArg env tps (FunctionParam p vt un cc ps) arg scope =
    (case arg of
       TypeArg (FunctionPointer f _) \<Rightarrow>
         if unsafe f = un \<and> calling_convention f = cc \<and> return_value_type f = vt then
           and_match (MatchTemplateArg env tps p (TypeArg (return_type f)) scope)
             (\<lambda>scope. if length (params f) = length ps then match_params env tps ps (params f) scope else Some (False, scope))
         else Some (False, scope)
     | _ \<Rightarrow> Some (False, scope))" |
  "MatchTemplateArg env tps (CoroutineParam k p vt rr rir ir ns) arg scope =
    (case arg of
       TypeArg (ClassType c) \<Rightarrow>
         (case c_generated_class_data (classes (te_tables env) c) of
            CoroutineData d \<Rightarrow>
              if cd_kind d = k \<and> cd_return_value_type d = vt \<and> cd_return_references d = rr \<and> cd_return_inner_references d = rir \<and>
                cd_inner_references d = ir \<and> cd_non_sync d = ns
              then MatchTemplateArg env tps p (TypeArg (cd_return_type d)) scope
              else Some (False, scope)
          | _ \<Rightarrow> Some (False, scope))
     | _ \<Rightarrow> Some (False, scope))" |
  "MatchTemplateArg env tps (SpecializedTemplateParam tts ps) arg scope =
    (case arg of
       TypeArg (ClassType c) \<Rightarrow>
         (case c_generated_class_data (classes (te_tables env) c) of
            BaseTemplateData b \<Rightarrow>
              if length ps > length (bt_signature_args b) then Some (False, scope)
              else and_match (match_any env tps tts (bt_class_template b) scope) (\<lambda>scope.
                and_match (match_all env tps ps (bt_signature_args b) scope) (\<lambda>scope.
                  Some (defaults_match env c (length ps) (bt_signature_args b), scope)))
          | _ \<Rightarrow> Some (False, scope))
     | _ \<Rightarrow> Some (False, scope))" |
  "match_all env tps [] args scope = Some (True, scope)" |
  "match_all env tps (p # ps) [] scope = None" |
  "match_all env tps (p # ps) (arg # args) scope =
    and_match (MatchTemplateArg env tps p arg scope) (\<lambda>scope. match_all env tps ps args scope)" |
  "match_params env tps [] qs scope = Some (True, scope)" |
  "match_params env tps (SignatureFunctionParam p vt # ps) [] scope = None" |
  "match_params env tps (SignatureFunctionParam p vt # ps) (q # qs) scope =
    (if p_value_type q = vt then
       and_match (MatchTemplateArg env tps p (TypeArg (p_type q)) scope) (\<lambda>scope. match_params env tps ps qs scope)
     else Some (False, scope))" |
  "match_any env tps [] t scope = Some (False, scope)" |
  "match_any env tps (p # ps) t scope =
    (case MatchTemplateArg env tps p (TypeTemplateArg t) scope of
       None \<Rightarrow> None
     | Some (ok, scope) \<Rightarrow> if ok then Some (True, scope) else match_any env tps ps t scope)"
  by pat_completeness auto

text \<open>
  The recursion goes down in the signature parameter, except from a template parameter for a value to the type of this value. The
  types of such values contain no classes, so that from there on the recursion goes down in the type.
\<close>

fun only_parts :: "TemplateArg \<Rightarrow> bool" where
  "only_parts (TypeArg t) = IsValidForTemplateVariableArgument t" |
  "only_parts (VariableArg a) = (case tv_type a of Fundamental _ _ \<Rightarrow> True | _ \<Rightarrow> False)" |
  "only_parts (TypeTemplateArg _) = False"

fun arg_size :: "TemplateArg \<Rightarrow> nat" where
  "arg_size (TypeArg t) = 2 * size t" |
  "arg_size (VariableArg a) = 2 * size (tv_type a) + 1" |
  "arg_size (TypeTemplateArg _) = 0"

definition args_size :: "TemplateArg list \<Rightarrow> nat" where
  "args_size args = (\<Sum>a \<leftarrow> args. Suc (arg_size a))"

lemma args_size_simps [simp]: "args_size [] = 0" "args_size (a # as) = Suc (arg_size a + args_size as)"
  by (simp_all add: args_size_def)

lemma args_size_types: "args_size (map TypeArg ts) \<le> 2 * size_list size ts"
  by (induction ts) simp_all

lemma only_parts_size_arg: "only_parts (size_arg env n)" "arg_size (size_arg env n) = 1"
  by (simp_all add: size_arg_def)

termination MatchTemplateArg
  by (relation "measures
      [\<lambda>x. case x of
         Inl (Inl (env, tps, p, arg, scope)) \<Rightarrow> if only_parts arg then 0 else 1
       | Inl (Inr (env, tps, ps, args, scope)) \<Rightarrow> if list_all only_parts args then 0 else 1
       | Inr _ \<Rightarrow> (1 :: nat),
       \<lambda>x. case x of
         Inl (Inl (env, tps, p, arg, scope)) \<Rightarrow> if only_parts arg then arg_size arg else size p
       | Inl (Inr (env, tps, ps, args, scope)) \<Rightarrow> if list_all only_parts args then args_size args else size_list size ps
       | Inr (Inl (env, tps, ps, qs, scope)) \<Rightarrow> size_list size ps
       | Inr (Inr (env, tps, ps, t, scope)) \<Rightarrow> size_list size ps]")
    (auto simp: only_parts_size_arg list_all_iff less_Suc_eq_le args_size_types le_SucI)

end
