(* ===== verification/Template_Matching_Laws.thy ===== *)
theory Template_Matching_Laws
  imports Template_Matching
begin

text \<open>
  What deduction of template arguments computes. A signature parameter denotes an argument in a scope if it becomes the argument when the
  deduced values are put in. Matching finds the least scope above the given one in which the parameter denotes the
  argument, and fails only if there is none.
\<close>

section \<open>Specification\<close>

fun denotes :: "TemplateEnv \<Rightarrow> TemplateParameter list \<Rightarrow> ArgsScope \<Rightarrow> TemplateSignatureParam \<Rightarrow> TemplateArg \<Rightarrow> bool"
  and denotes_all :: "TemplateEnv \<Rightarrow> TemplateParameter list \<Rightarrow> ArgsScope \<Rightarrow> TemplateSignatureParam list \<Rightarrow> TemplateArg list \<Rightarrow> bool"
  and denotes_params :: "TemplateEnv \<Rightarrow> TemplateParameter list \<Rightarrow> ArgsScope \<Rightarrow> SignatureFunctionParam list \<Rightarrow> Param list \<Rightarrow> bool"
  and denotes_any :: "TemplateEnv \<Rightarrow> TemplateParameter list \<Rightarrow> ArgsScope \<Rightarrow> TemplateSignatureParam list \<Rightarrow> TypeTemplatePtr \<Rightarrow> bool"
where
  "denotes env tps s (TypeParam t) arg = (case arg of TypeArg u \<Rightarrow> Type_eq u t | _ \<Rightarrow> False)" |
  "denotes env tps s (VariableParam t v) arg =
    (case arg of VariableArg a \<Rightarrow> Type_eq (tv_type a) t \<and> tv_constexpr_value a = v | _ \<Rightarrow> False)" |
  "denotes env tps s (TypeTemplateParam t) arg = (case arg of TypeTemplateArg u \<Rightarrow> u = t | _ \<Rightarrow> False)" |
  "denotes env tps s (TemplateParam i k) arg = (case s (tpm_name (tps ! i)) of None \<Rightarrow> False | Some v \<Rightarrow> same_arg v arg)" |
  "denotes env tps s (ArrayParam n t) arg =
    (case arg of TypeArg (Array element m _) \<Rightarrow> denotes env tps s t (TypeArg element) \<and> denotes env tps s n (size_arg env m) | _ \<Rightarrow> False)" |
  "denotes env tps s (TupleParam ps) arg =
    (case arg of TypeArg (Tuple ts _) \<Rightarrow> length ts = length ps \<and> denotes_all env tps s ps (map TypeArg ts) | _ \<Rightarrow> False)" |
  "denotes env tps s (RawPointerParam p) arg = (case arg of TypeArg (RawPointer t _) \<Rightarrow> denotes env tps s p (TypeArg t) | _ \<Rightarrow> False)" |
  "denotes env tps s (FunctionParam p vt un cc ps) arg =
    (case arg of
       TypeArg (FunctionPointer f _) \<Rightarrow>
         unsafe f = un \<and> calling_convention f = cc \<and> return_value_type f = vt \<and> denotes env tps s p (TypeArg (return_type f)) \<and>
         length (params f) = length ps \<and> denotes_params env tps s ps (params f)
     | _ \<Rightarrow> False)" |
  "denotes env tps s (CoroutineParam k p vt rr rir ir ns) arg =
    (case arg of
       TypeArg (ClassType c) \<Rightarrow>
         (case c_generated_class_data (classes (te_tables env) c) of
            CoroutineData d \<Rightarrow>
              cd_kind d = k \<and> cd_return_value_type d = vt \<and> cd_return_references d = rr \<and> cd_return_inner_references d = rir \<and>
              cd_inner_references d = ir \<and> cd_non_sync d = ns \<and> denotes env tps s p (TypeArg (cd_return_type d))
          | _ \<Rightarrow> False)
     | _ \<Rightarrow> False)" |
  "denotes env tps s (SpecializedTemplateParam tts ps) arg =
    (case arg of
       TypeArg (ClassType c) \<Rightarrow>
         (case c_generated_class_data (classes (te_tables env) c) of
            BaseTemplateData b \<Rightarrow>
              length ps \<le> length (bt_signature_args b) \<and> denotes_any env tps s tts (bt_class_template b) \<and>
              denotes_all env tps s ps (bt_signature_args b) \<and> defaults_match env c (length ps) (bt_signature_args b)
          | _ \<Rightarrow> False)
     | _ \<Rightarrow> False)" |
  "denotes_all env tps s [] args = True" |
  "denotes_all env tps s (p # ps) args = (case args of [] \<Rightarrow> False | a # as \<Rightarrow> denotes env tps s p a \<and> denotes_all env tps s ps as)" |
  "denotes_params env tps s [] qs = True" |
  "denotes_params env tps s (SignatureFunctionParam p vt # ps) qs =
    (case qs of [] \<Rightarrow> False | q # qs' \<Rightarrow> p_value_type q = vt \<and> denotes env tps s p (TypeArg (p_type q)) \<and> denotes_params env tps s ps qs')" |
  "denotes_any env tps s [] t = False" |
  "denotes_any env tps s (p # ps) t = (denotes env tps s p (TypeTemplateArg t) \<or> denotes_any env tps s ps t)"

text \<open>Values up to the pointers to LLVM types, and scopes in which more is deduced.\<close>

fun same_value :: "ArgValue \<Rightarrow> ArgValue \<Rightarrow> bool" where
  "same_value (TypeNameValue t) w = (case w of TypeNameValue u \<Rightarrow> Type_eq t u | _ \<Rightarrow> False)" |
  "same_value (VariableValue t c) w = (case w of VariableValue u d \<Rightarrow> Type_eq t u \<and> c = d | _ \<Rightarrow> False)" |
  "same_value v w = (v = w)"

definition scope_le :: "ArgsScope \<Rightarrow> ArgsScope \<Rightarrow> bool" where
  "scope_le s s' \<longleftrightarrow> dom s = dom s' \<and>
    (\<forall>n v. s n = Some v \<longrightarrow> v \<noteq> YetNotDeducedTemplateArg \<longrightarrow> (\<exists>w. s' n = Some w \<and> same_value v w))"

text \<open>The deduced values have the kinds of the template parameters, and the values of variables have the types that the parameters ask for.\<close>

fun kind_ok :: "TemplateEnv \<Rightarrow> TemplateParameter list \<Rightarrow> ArgsScope \<Rightarrow> TemplateParameterData \<Rightarrow> ArgValue \<Rightarrow> bool" where
  "kind_ok env tps s k YetNotDeducedTemplateArg = True" |
  "kind_ok env tps s k (TypeNameValue t) = (k = TypeParamData)" |
  "kind_ok env tps s k (VariableValue t c) =
    (case k of VariableParamData p \<Rightarrow> IsValidForTemplateVariableArgument t \<and> c \<noteq> 0 \<and> denotes env tps s p (TypeArg t) | _ \<Rightarrow> False)" |
  "kind_ok env tps s k (TypeTemplatesSetValue ts) = (k = TypeTemplateParamData \<and> length ts = 1)"

definition scope_ok :: "TemplateEnv \<Rightarrow> TemplateParameter list \<Rightarrow> ArgsScope \<Rightarrow> bool" where
  "scope_ok env tps s \<longleftrightarrow>
    (\<forall>i < length tps. \<exists>v. s (tpm_name (tps ! i)) = Some v \<and> kind_ok env tps s (tpm_kind_data (tps ! i)) v)"

text \<open>
  Signature parameters as they come out of \<open>CreateTemplateSignatureParameter\<close>: their indices are those of parameters, and the
  candidates for a specialized template are a template parameter or templates.
\<close>

fun sig_ok :: "nat \<Rightarrow> TemplateSignatureParam \<Rightarrow> bool" and function_param_ok :: "nat \<Rightarrow> SignatureFunctionParam \<Rightarrow> bool" where
  "sig_ok n (TemplateParam i k) = (i < n)" |
  "sig_ok n (ArrayParam m t) = (sig_ok n m \<and> sig_ok n t)" |
  "sig_ok n (TupleParam ps) = (\<forall>p \<in> set ps. sig_ok n p)" |
  "sig_ok n (RawPointerParam p) = sig_ok n p" |
  "sig_ok n (FunctionParam p vt un cc ps) = (sig_ok n p \<and> (\<forall>q \<in> set ps. function_param_ok n q))" |
  "sig_ok n (CoroutineParam k p vt rr rir ir ns) = sig_ok n p" |
  "sig_ok n (SpecializedTemplateParam tts ps) =
    ((\<forall>p \<in> set tts. sig_ok n p) \<and> (length tts = 1 \<or> (\<forall>p \<in> set tts. \<exists>t. p = TypeTemplateParam t)) \<and> (\<forall>p \<in> set ps. sig_ok n p))" |
  "sig_ok n _ = True" |
  "function_param_ok n (SignatureFunctionParam p vt) = sig_ok n p"

definition params_ok :: "TemplateParameter list \<Rightarrow> bool" where
  "params_ok tps \<longleftrightarrow> distinct (map tpm_name tps) \<and>
    (\<forall>tp \<in> set tps. \<forall>p. tpm_kind_data tp = VariableParamData p \<longrightarrow> sig_ok (length tps) p)"

section \<open>Scopes\<close>

lemma same_arg_value: "same_value v w \<Longrightarrow> same_arg v a = same_arg w a"
  by (cases v; cases w; cases a) (auto simp: Type_eq_iff)

lemma same_value_refl: "same_value v v"
  by (cases v) (auto simp: Type_eq_iff)

lemma same_value_trans: "same_value u v \<Longrightarrow> same_value v w \<Longrightarrow> same_value u w"
  by (cases u; cases v; cases w) (auto simp: Type_eq_iff)

lemma same_value_deduced: "same_value v w \<Longrightarrow> v = YetNotDeducedTemplateArg \<longleftrightarrow> w = YetNotDeducedTemplateArg"
  by (cases v; cases w) auto

lemma not_deduced_same_arg: "\<not> same_arg YetNotDeducedTemplateArg a"
  by (cases a) auto

lemma scope_le_refl: "scope_le s s"
  by (auto simp: scope_le_def same_value_refl)

lemma scope_leD: "scope_le s s' \<Longrightarrow> s n = Some v \<Longrightarrow> v \<noteq> YetNotDeducedTemplateArg \<Longrightarrow> \<exists>w. s' n = Some w \<and> same_value v w"
  by (simp add: scope_le_def)

lemma scope_le_trans:
  assumes "scope_le s s'" and "scope_le s' s''"
  shows "scope_le s s''"
  unfolding scope_le_def
proof (intro conjI allI impI)
  show "dom s = dom s''" using assms by (simp add: scope_le_def)
  fix n v assume v: "s n = Some v" "v \<noteq> YetNotDeducedTemplateArg"
  obtain w where w: "s' n = Some w" "same_value v w" using scope_leD [OF assms(1) v] by blast
  then have "w \<noteq> YetNotDeducedTemplateArg" using v(2) same_value_deduced by blast
  then obtain x where "s'' n = Some x" "same_value w x" using scope_leD [OF assms(2) w(1)] by blast
  then show "\<exists>x. s'' n = Some x \<and> same_value v x" using same_value_trans [OF w(2)] by blast
qed

lemma scope_le_update:
  "scope_le s s' \<Longrightarrow> s n = Some YetNotDeducedTemplateArg \<Longrightarrow> scope_le s (s'(n \<mapsto> v))"
  by (auto simp: scope_le_def)

lemma scope_le_update_left:
  "scope_le s s' \<Longrightarrow> s' n = Some w \<Longrightarrow> same_value v w \<Longrightarrow> scope_le (s(n \<mapsto> v)) s'"
  by (auto simp: scope_le_def)

lemma scope_le_same_arg:
  assumes "scope_le s s'" and "s n = Some v" and "same_arg v a"
  shows "\<exists>w. s' n = Some w \<and> same_arg w a"
proof -
  have "v \<noteq> YetNotDeducedTemplateArg" using assms(3) not_deduced_same_arg by auto
  then obtain w where "s' n = Some w" "same_value v w" using scope_leD [OF assms(1,2)] by blast
  then show ?thesis using assms(3) same_arg_value by blast
qed

lemma denotes_mono:
  assumes "scope_le s s'"
  shows "denotes env tps s p arg \<Longrightarrow> denotes env tps s' p arg"
    and "denotes_all env tps s ps args \<Longrightarrow> denotes_all env tps s' ps args"
    and "denotes_params env tps s fs qs \<Longrightarrow> denotes_params env tps s' fs qs"
    and "denotes_any env tps s tts t \<Longrightarrow> denotes_any env tps s' tts t"
  using assms
proof (induction env tps s p arg and env tps s ps args and env tps s fs qs and env tps s tts t
    rule: denotes_denotes_all_denotes_params_denotes_any.induct)
  case (4 env tps s i k arg)
  then show ?case by (auto split: option.splits dest: scope_le_same_arg)
qed (auto split: TemplateArg.splits Type.splits GeneratedClassData.splits list.splits)

text \<open>Arguments that are equal up to the pointers to LLVM types are denoted by the same parameters.\<close>

lemma Type_eq_inv:
  "Type_eq (Array e n l) u \<Longrightarrow> \<exists>e' l'. u = Array e' n l' \<and> Type_eq e e'"
  "Type_eq (RawPointer e l) u \<Longrightarrow> \<exists>e' l'. u = RawPointer e' l' \<and> Type_eq e e'"
  "Type_eq (ClassType c) u \<Longrightarrow> u = ClassType c"
  "Type_eq (Tuple ts l) u \<Longrightarrow> \<exists>us l'. u = Tuple us l' \<and> Types_eq ts us"
  "Type_eq (FunctionPointer f l) u \<Longrightarrow> \<exists>g l'. u = FunctionPointer g l' \<and> FunctionType_eq f g"
  by (cases u; simp)+

lemma FunctionType_eq_inv:
  "FunctionType_eq f g \<Longrightarrow> unsafe g = unsafe f \<and> calling_convention g = calling_convention f \<and>
    return_value_type g = return_value_type f \<and> Type_eq (return_type f) (return_type g) \<and> Params_eq (params f) (params g)"
  by (cases f) auto

lemma Types_eq_args: "Types_eq ts us \<Longrightarrow> list_all2 TemplateArg_eq (map TypeArg ts) (map TypeArg us)"
  by (induction ts arbitrary: us) (auto split: list.splits)

lemma Params_eq_length: "Params_eq ps qs \<Longrightarrow> length qs = length ps"
  by (induction ps arbitrary: qs) (auto split: list.splits)

lemma TemplateArg_eq_inv:
  "TemplateArg_eq (TypeArg t) b \<Longrightarrow> \<exists>u. b = TypeArg u \<and> Type_eq t u"
  "TemplateArg_eq (VariableArg a) b \<Longrightarrow> \<exists>c. b = VariableArg c \<and> Type_eq (tv_type a) (tv_type c) \<and> tv_constexpr_value a = tv_constexpr_value c"
  "TemplateArg_eq (TypeTemplateArg x) b \<Longrightarrow> b = TypeTemplateArg x"
  by (cases b; auto simp: TemplateVariableArg_eq_def)+

text \<open>The shapes of the arguments that composite parameters denote.\<close>

lemma denotes_Array:
  "denotes env tps s (ArrayParam n t) arg \<longleftrightarrow>
    (\<exists>e m l. arg = TypeArg (Array e m l) \<and> denotes env tps s t (TypeArg e) \<and> denotes env tps s n (size_arg env m))"
  by (simp split: TemplateArg.split Type.split)

lemma denotes_Tuple:
  "denotes env tps s (TupleParam ps) arg \<longleftrightarrow>
    (\<exists>ts l. arg = TypeArg (Tuple ts l) \<and> length ts = length ps \<and> denotes_all env tps s ps (map TypeArg ts))"
  by (simp split: TemplateArg.split Type.split)

lemma denotes_RawPointer:
  "denotes env tps s (RawPointerParam p) arg \<longleftrightarrow> (\<exists>e l. arg = TypeArg (RawPointer e l) \<and> denotes env tps s p (TypeArg e))"
  by (simp split: TemplateArg.split Type.split)

lemma denotes_Function:
  "denotes env tps s (FunctionParam p vt un cc ps) arg \<longleftrightarrow>
    (\<exists>f l. arg = TypeArg (FunctionPointer f l) \<and> unsafe f = un \<and> calling_convention f = cc \<and> return_value_type f = vt \<and>
      denotes env tps s p (TypeArg (return_type f)) \<and> length (params f) = length ps \<and> denotes_params env tps s ps (params f))"
  by (simp split: TemplateArg.split Type.split)

lemma denotes_Class:
  "denotes env tps s (CoroutineParam k p vt rr rir ir ns) arg \<Longrightarrow> \<exists>c. arg = TypeArg (ClassType c)"
  "denotes env tps s (SpecializedTemplateParam tts ps) arg \<Longrightarrow> \<exists>c. arg = TypeArg (ClassType c)"
  by (simp_all split: TemplateArg.splits Type.splits)

lemma TemplateArg_eq_shape:
  "TemplateArg_eq (TypeArg (Array e n l)) b \<Longrightarrow> \<exists>e' l'. b = TypeArg (Array e' n l') \<and> Type_eq e e'"
  "TemplateArg_eq (TypeArg (Tuple ts l)) b \<Longrightarrow> \<exists>us l'. b = TypeArg (Tuple us l') \<and> Types_eq ts us"
  "TemplateArg_eq (TypeArg (RawPointer e l)) b \<Longrightarrow> \<exists>e' l'. b = TypeArg (RawPointer e' l') \<and> Type_eq e e'"
  "TemplateArg_eq (TypeArg (FunctionPointer f l)) b \<Longrightarrow> \<exists>g l'. b = TypeArg (FunctionPointer g l') \<and> FunctionType_eq f g"
  "TemplateArg_eq (TypeArg (ClassType c)) b \<Longrightarrow> b = TypeArg (ClassType c)"
  by (blast dest!: TemplateArg_eq_inv(1) Type_eq_inv)+

lemma denotes_same:
  "denotes env tps s p arg \<Longrightarrow> TemplateArg_eq arg arg' \<Longrightarrow> denotes env tps s p arg'"
  "denotes_all env tps s ps args \<Longrightarrow> list_all2 TemplateArg_eq args args' \<Longrightarrow> denotes_all env tps s ps args'"
  "denotes_params env tps s fs qs \<Longrightarrow> Params_eq qs qs' \<Longrightarrow> denotes_params env tps s fs qs'"
  "denotes_any env tps s tts t \<Longrightarrow> denotes_any env tps s tts t"
proof (induction env tps s p arg and env tps s ps args and env tps s fs qs and env tps s tts t
    arbitrary: arg' and args' and qs' rule: denotes_denotes_all_denotes_params_denotes_any.induct)
  case (1 env tps s t arg)
  then show ?case by (cases arg) (auto simp: Type_eq_iff dest!: TemplateArg_eq_inv)
next
  case (2 env tps s t v arg)
  then show ?case by (cases arg) (auto simp: Type_eq_iff dest!: TemplateArg_eq_inv)
next
  case (3 env tps s t arg)
  then show ?case by (cases arg) (auto dest!: TemplateArg_eq_inv)
next
  case (4 env tps s i k arg)
  then obtain v where "s (tpm_name (tps ! i)) = Some v" "same_arg v arg" by (auto split: option.splits)
  moreover from this have "same_arg v arg'" using 4(2) by (cases v; cases arg) (auto simp: Type_eq_iff dest!: TemplateArg_eq_inv)
  ultimately show ?case by simp
next
  case (5 env tps s n t arg)
  then obtain e m l where a: "arg = TypeArg (Array e m l)" "denotes env tps s t (TypeArg e)" "denotes env tps s n (size_arg env m)"
    unfolding denotes_Array by blast
  from 5(4) obtain e' l' where "arg' = TypeArg (Array e' m l')" "Type_eq e e'" unfolding a using TemplateArg_eq_shape(1) by blast
  then show ?case using 5(1) a by simp
next
  case (6 env tps s ps arg)
  then obtain ts l where a: "arg = TypeArg (Tuple ts l)" "length ts = length ps" "denotes_all env tps s ps (map TypeArg ts)"
    unfolding denotes_Tuple by blast
  from 6(3) obtain us l' where u: "arg' = TypeArg (Tuple us l')" "Types_eq ts us" unfolding a using TemplateArg_eq_shape(2) by blast
  note list = Types_eq_args [OF u(2)]
  then show ?case using 6(1) a u list_all2_lengthD [OF list] by simp
next
  case (7 env tps s p arg)
  then obtain e l where a: "arg = TypeArg (RawPointer e l)" "denotes env tps s p (TypeArg e)"
    unfolding denotes_RawPointer by blast
  from 7(3) obtain e' l' where "arg' = TypeArg (RawPointer e' l')" "Type_eq e e'" unfolding a using TemplateArg_eq_shape(3) by blast
  then show ?case using 7(1) a by simp
next
  case (8 env tps s p vt un cc ps arg)
  then obtain f l where a: "arg = TypeArg (FunctionPointer f l)" "unsafe f = un" "calling_convention f = cc" "return_value_type f = vt"
    "denotes env tps s p (TypeArg (return_type f))" "length (params f) = length ps" "denotes_params env tps s ps (params f)"
    unfolding denotes_Function by blast
  from 8(4) obtain g l' where g: "arg' = TypeArg (FunctionPointer g l')" "FunctionType_eq f g"
    unfolding a using TemplateArg_eq_shape(4) by blast
  note same = FunctionType_eq_inv [OF g(2)]
  with Params_eq_length [of "params f" "params g"] show ?case using 8(1,2) a g by simp
next
  case (9 env tps s k p vt rr rir ir ns arg)
  then obtain c where "arg = TypeArg (ClassType c)" using denotes_Class(1) by blast
  with 9(3) TemplateArg_eq_shape(5) have "arg' = arg" by blast
  then show ?case using 9(2) by blast
next
  case (10 env tps s tts ps arg)
  then obtain c where "arg = TypeArg (ClassType c)" using denotes_Class(2) by blast
  with 10(4) TemplateArg_eq_shape(5) have "arg' = arg" by blast
  then show ?case using 10(3) by blast
next
  case (12 env tps s p ps args)
  then show ?case by (auto simp: list_all2_Cons1 split: list.splits)
next
  case (14 env tps s p vt ps qs)
  from 14(3) obtain q qr where q: "qs = q # qr" "p_value_type q = vt" "denotes env tps s p (TypeArg (p_type q))" "denotes_params env tps s ps qr"
    by (cases qs) simp_all
  from 14(4) obtain q' qr' where q': "qs' = q' # qr'" "Param_eq q q'" "Params_eq qr qr'" unfolding q(1) by (cases qs') simp_all
  have "Type_eq (p_type q) (p_type q')" "p_value_type q' = vt" using q'(2) q(2) by (cases q; simp)+
  then show ?case using 14(1,2) q q' by simp
qed simp_all

section \<open>A match of a type deduces no value whose type is composite\<close>

fun composite :: "TemplateSignatureParam \<Rightarrow> bool" where
  "composite (TypeParam t) = False" |
  "composite (TemplateParam i k) = False" |
  "composite _ = True"

lemma composite_no_match: "composite p \<Longrightarrow> MatchTemplateArg env tps p (TypeArg (Fundamental f l)) scope = Some (False, scope)"
  by (cases p) simp_all

definition composite_name :: "TemplateParameter list \<Rightarrow> byte list \<Rightarrow> bool" where
  "composite_name tps n \<longleftrightarrow> (\<forall>i < length tps. tpm_name (tps ! i) = n \<longrightarrow> (\<exists>q. tpm_kind_data (tps ! i) = VariableParamData q \<and> composite q))"

definition keeps :: "byte list \<Rightarrow> ArgsScope \<Rightarrow> matched \<Rightarrow> bool" where
  "keeps n scope r \<longleftrightarrow> (scope n = Some YetNotDeducedTemplateArg \<longrightarrow> (\<forall>ok s. r = Some (ok, s) \<longrightarrow> s n = Some YetNotDeducedTemplateArg))"

lemma keeps_and_match:
  assumes "keeps n scope r" and "\<And>s. r = Some (True, s) \<Longrightarrow> keeps n s (f s)"
  shows "keeps n scope (and_match r f)"
  using assms by (cases r) (auto simp: keeps_def and_match_def split: if_splits)

lemma keeps_unchanged [simp]: "keeps n scope (Some (ok, scope))" "keeps n scope None"
  by (simp_all add: keeps_def)

lemma keeps_update: "m \<noteq> n \<Longrightarrow> keeps n scope (Some (ok, scope(m \<mapsto> v)))"
  by (simp add: keeps_def)

lemma keeps_template_param:
  assumes "composite_name tps n" and "only_parts arg"
    and "\<And>p a. arg = VariableArg a \<Longrightarrow> IsValidForTemplateVariableArgument (tv_type a) \<Longrightarrow> tv_constexpr_value a \<noteq> 0 \<Longrightarrow> tpm_kind_data (tps ! i) = VariableParamData p \<Longrightarrow>
      keeps n scope (MatchTemplateArg env tps p (TypeArg (tv_type a)) scope)"
  shows "keeps n scope (MatchTemplateArg env tps (TemplateParam i k) arg scope)"
proof (cases "i < length tps \<and> scope (tpm_name (tps ! i)) = Some YetNotDeducedTemplateArg")
  case False
  then show ?thesis by (auto split: option.splits)
next
  case True
  show ?thesis
  proof (cases "tpm_name (tps ! i) = n")
    case n: True
    then obtain q where q: "tpm_kind_data (tps ! i) = VariableParamData q" "composite q" using assms(1) True unfolding composite_name_def by blast
    show ?thesis
    proof (cases arg)
      case (VariableArg a)
      then obtain f l where "tv_type a = Fundamental f l" using assms(2) by (auto split: Type.splits)
      then show ?thesis using True q VariableArg composite_no_match by (simp add: and_match_def)
    qed (use True q in simp_all)
  next
    case other: False
    have "keeps n scope (and_match r (\<lambda>s. Some (True, s(tpm_name (tps ! i) \<mapsto> v))))" if "keeps n scope r" for r v
      using that by (rule keeps_and_match) (use other in \<open>simp add: keeps_update\<close>)
    then show ?thesis using True assms(3) other
      by (cases arg; cases "tpm_kind_data (tps ! i)") (simp_all add: keeps_update)
  qed
qed

lemma MatchTemplateArg_keeps:
  "composite_name tps n \<Longrightarrow> only_parts arg \<Longrightarrow> keeps n scope (MatchTemplateArg env tps p arg scope)"
  "composite_name tps n \<Longrightarrow> list_all only_parts args \<Longrightarrow> keeps n scope (match_all env tps ps args scope)"
  "match_params env tps fs qs scope = match_params env tps fs qs scope"
  "match_any env tps tts t scope = match_any env tps tts t scope"
proof (induction env tps p arg scope and env tps ps args scope and env tps fs qs scope and env tps tts t scope
    rule: MatchTemplateArg_match_all_match_params_match_any.induct)
  case (4 env tps i k arg scope)
  show ?case
  proof (cases "i < length tps \<and> scope (tpm_name (tps ! i)) = Some YetNotDeducedTemplateArg")
    case False
    then show ?thesis by (auto split: option.splits)
  next
    case True
    then show ?thesis using 4 by (intro keeps_template_param) simp_all
  qed
next
  case (5 env tps n t arg scope)
  then show ?case
    by (auto split: TemplateArg.split Type.split intro!: keeps_and_match simp: only_parts_size_arg)
next
  case (6 env tps ps arg scope)
  then show ?case by (auto split: TemplateArg.split Type.split simp: list_all_iff)
next
  case (7 env tps p arg scope)
  then show ?case by (auto split: TemplateArg.split Type.split)
next
  case (8 env tps p vt un cc ps arg scope)
  then show ?case by (auto split: TemplateArg.split Type.split)
next
  case (9 env tps k p vt rr rir ir ns arg scope)
  then show ?case by (auto split: TemplateArg.split Type.split)
next
  case (10 env tps tts ps arg scope)
  then show ?case by (auto split: TemplateArg.split Type.split)
next
  case (13 env tps p ps arg args scope)
  then show ?case by (auto intro!: keeps_and_match)
qed (simp_all add: keeps_def)

section \<open>Matching finds the least solution\<close>

text \<open>The result of a match that has to establish \<open>D\<close>.\<close>

definition least_solution :: "TemplateEnv \<Rightarrow> TemplateParameter list \<Rightarrow> ArgsScope \<Rightarrow> (ArgsScope \<Rightarrow> bool) \<Rightarrow> matched \<Rightarrow> bool" where
  "least_solution env tps scope D r \<longleftrightarrow>
    (\<exists>ok s. r = Some (ok, s) \<and> scope_le scope s \<and> scope_ok env tps s \<and>
      (if ok then D s \<and> (\<forall>s'. scope_le scope s' \<and> scope_ok env tps s' \<and> D s' \<longrightarrow> scope_le s s')
       else \<not> (\<exists>s'. scope_le scope s' \<and> scope_ok env tps s' \<and> D s')))"

lemma least_solution_found:
  "r = Some (True, s) \<Longrightarrow> scope_le scope s \<Longrightarrow> scope_ok env tps s \<Longrightarrow> D s \<Longrightarrow>
    (\<And>s'. scope_le scope s' \<Longrightarrow> scope_ok env tps s' \<Longrightarrow> D s' \<Longrightarrow> scope_le s s') \<Longrightarrow> least_solution env tps scope D r"
  unfolding least_solution_def by auto

lemma least_solution_none:
  "r = Some (False, s) \<Longrightarrow> scope_le scope s \<Longrightarrow> scope_ok env tps s \<Longrightarrow>
    (\<And>s'. scope_le scope s' \<Longrightarrow> scope_ok env tps s' \<Longrightarrow> \<not> D s') \<Longrightarrow> least_solution env tps scope D r"
  unfolding least_solution_def by auto

lemma least_solutionE:
  assumes "least_solution env tps scope D r"
  obtains (found) s where "r = Some (True, s)" "scope_le scope s" "scope_ok env tps s" "D s"
      "\<And>s'. scope_le scope s' \<Longrightarrow> scope_ok env tps s' \<Longrightarrow> D s' \<Longrightarrow> scope_le s s'"
    | (none) s where "r = Some (False, s)" "scope_le scope s" "scope_ok env tps s"
      "\<And>s'. scope_le scope s' \<Longrightarrow> scope_ok env tps s' \<Longrightarrow> \<not> D s'"
proof -
  from assms obtain ok s where s: "r = Some (ok, s)" "scope_le scope s" "scope_ok env tps s"
    "if ok then D s \<and> (\<forall>s'. scope_le scope s' \<and> scope_ok env tps s' \<and> D s' \<longrightarrow> scope_le s s')
       else \<not> (\<exists>s'. scope_le scope s' \<and> scope_ok env tps s' \<and> D s')"
    unfolding least_solution_def by blast
  show thesis using s found none by (cases ok) simp_all
qed

lemma least_solution_failed:
  "scope_ok env tps scope \<Longrightarrow> (\<And>s. scope_le scope s \<Longrightarrow> scope_ok env tps s \<Longrightarrow> \<not> D s) \<Longrightarrow> least_solution env tps scope D (Some (False, scope))"
  by (auto simp: least_solution_def scope_le_refl)

lemma least_solution_unchanged:
  "scope_ok env tps scope \<Longrightarrow> (\<And>s. scope_le scope s \<Longrightarrow> D s = ok) \<Longrightarrow> least_solution env tps scope D (Some (ok, scope))"
  by (auto simp: least_solution_def scope_le_refl)

lemma least_solution_and_match:
  assumes r: "least_solution env tps scope D r"
    and f: "\<And>s. scope_le scope s \<Longrightarrow> scope_ok env tps s \<Longrightarrow> r = Some (True, s) \<Longrightarrow> least_solution env tps s E (f s)"
    and mono: "\<And>s s'. scope_le s s' \<Longrightarrow> D s \<Longrightarrow> D s'"
  shows "least_solution env tps scope (\<lambda>s. D s \<and> E s) (and_match r f)"
  using r
proof (cases rule: least_solutionE)
  case (none s)
  show ?thesis by (rule least_solution_none [OF _ none(2,3)]) (use none in \<open>simp_all add: and_match_def\<close>)
next
  case (found s)
  have f': "and_match r f = f s" using found(1) by (simp add: and_match_def)
  from f [OF found(2,3,1)] show ?thesis
  proof (cases rule: least_solutionE)
    case s1: (found s1)
    show ?thesis
      by (rule least_solution_found [OF _ scope_le_trans [OF found(2) s1(2)] s1(3)]) (use found s1 f' mono [OF s1(2)] in simp_all)
  next
    case s1: (none s1)
    show ?thesis by (rule least_solution_none [OF _ scope_le_trans [OF found(2) s1(2)] s1(3)]) (use found(5) s1 f' in auto)
  qed
qed

lemma least_solution_implied:
  assumes "least_solution env tps scope (\<lambda>s. E s \<and> D s) r" and implied: "\<And>s. scope_ok env tps s \<Longrightarrow> D s \<Longrightarrow> E s"
  shows "least_solution env tps scope D r"
  using assms(1)
proof (cases rule: least_solutionE)
  case (found s)
  then show ?thesis using implied by (intro least_solution_found) blast+
next
  case (none s)
  then show ?thesis using implied by (intro least_solution_none) blast+
qed

lemma kind_ok_mono: "kind_ok env tps s k v \<Longrightarrow> scope_le s s' \<Longrightarrow> kind_ok env tps s' k v"
  using denotes_mono(1) by (cases v) (auto split: TemplateParameterData.splits)

lemma params_ok_name:
  "params_ok tps \<Longrightarrow> i < length tps \<Longrightarrow> j < length tps \<Longrightarrow> tpm_name (tps ! j) = tpm_name (tps ! i) \<longleftrightarrow> j = i"
  unfolding params_ok_def by (metis length_map nth_eq_iff_index_eq nth_map)

lemma scope_ok_update:
  assumes "scope_ok env tps s" and "params_ok tps" and "i < length tps" and "s (tpm_name (tps ! i)) = Some YetNotDeducedTemplateArg"
    and "kind_ok env tps s (tpm_kind_data (tps ! i)) v"
  shows "scope_ok env tps (s(tpm_name (tps ! i) \<mapsto> v))"
proof -
  let ?s = "s(tpm_name (tps ! i) \<mapsto> v)"
  have le: "scope_le s ?s" by (rule scope_le_update [OF scope_le_refl]) (rule assms(4))
  have "\<exists>w. ?s (tpm_name (tps ! j)) = Some w \<and> kind_ok env tps ?s (tpm_kind_data (tps ! j)) w" if j: "j < length tps" for j
  proof (cases "j = i")
    case True
    then show ?thesis using kind_ok_mono [OF assms(5) le] by simp
  next
    case False
    then have "tpm_name (tps ! j) \<noteq> tpm_name (tps ! i)" using assms(2,3) j params_ok_name by blast
    moreover obtain w where "s (tpm_name (tps ! j)) = Some w" "kind_ok env tps s (tpm_kind_data (tps ! j)) w"
      using assms(1) j unfolding scope_ok_def by blast
    ultimately show ?thesis using kind_ok_mono [OF _ le] by simp
  qed
  then show ?thesis unfolding scope_ok_def by blast
qed

lemma IsValid_erase: "IsValidForTemplateVariableArgument (erase t) = IsValidForTemplateVariableArgument t"
  by (induction t rule: IsValidForTemplateVariableArgument.induct) (simp_all add: list_all_iff)

lemma IsValid_same: "Type_eq t u \<Longrightarrow> IsValidForTemplateVariableArgument u = IsValidForTemplateVariableArgument t"
  by (metis IsValid_erase Type_eq_iff(1))

lemma scope_ok_kind:
  "scope_ok env tps s \<Longrightarrow> i < length tps \<Longrightarrow> \<exists>v. s (tpm_name (tps ! i)) = Some v \<and> kind_ok env tps s (tpm_kind_data (tps ! i)) v"
  by (auto simp: scope_ok_def)

lemma same_arg_deduced: "same_arg v (TypeArg t) \<longleftrightarrow> (\<exists>u. v = TypeNameValue u \<and> Type_eq t u)"
  "same_arg v (VariableArg a) \<longleftrightarrow> (\<exists>u. v = VariableValue u (tv_constexpr_value a) \<and> Type_eq (tv_type a) u)"
  "same_arg v (TypeTemplateArg x) \<longleftrightarrow> v = TypeTemplatesSetValue [x]"
  by (cases v; auto simp: length_Suc_conv)+

text \<open>A parameter that is deduced already.\<close>

lemma least_solution_deduced:
  assumes "scope_ok env tps scope" and "scope n = Some v" and "v \<noteq> YetNotDeducedTemplateArg"
  shows "least_solution env tps scope (\<lambda>s. case s n of None \<Rightarrow> False | Some v \<Rightarrow> same_arg v arg) (Some (same_arg v arg, scope))"
proof (rule least_solution_unchanged [OF assms(1)])
  fix s assume "scope_le scope s"
  then obtain w where "s n = Some w" "same_value v w" using assms(2,3) unfolding scope_le_def by blast
  then show "(case s n of None \<Rightarrow> False | Some v \<Rightarrow> same_arg v arg) = same_arg v arg" using same_arg_value by simp
qed

text \<open>Deduction of a parameter.\<close>

lemma least_solution_deduce:
  assumes "scope_ok env tps s" and "params_ok tps" and "i < length tps" and "s (tpm_name (tps ! i)) = Some YetNotDeducedTemplateArg"
    and "kind_ok env tps s (tpm_kind_data (tps ! i)) v" and "same_arg v arg" and "\<And>w. same_arg w arg \<Longrightarrow> same_value v w"
  shows "least_solution env tps s (\<lambda>s. denotes env tps s (TemplateParam i k) arg) (Some (True, s(tpm_name (tps ! i) \<mapsto> v)))"
  unfolding least_solution_def
proof (intro exI conjI)
  let ?s = "s(tpm_name (tps ! i) \<mapsto> v)"
  show "scope_le s ?s" by (rule scope_le_update [OF scope_le_refl]) (rule assms(4))
  show "scope_ok env tps ?s" by (rule scope_ok_update [OF assms(1-5)])
  have "scope_le ?s s'" if "scope_le s s'" "denotes env tps s' (TemplateParam i k) arg" for s'
    using that assms(7) by (auto split: option.splits intro: scope_le_update_left)
  then show "if True then denotes env tps ?s (TemplateParam i k) arg \<and>
      (\<forall>s'. scope_le s s' \<and> scope_ok env tps s' \<and> denotes env tps s' (TemplateParam i k) arg \<longrightarrow> scope_le ?s s')
    else \<not> (\<exists>s'. scope_le s s' \<and> scope_ok env tps s' \<and> denotes env tps s' (TemplateParam i k) arg)" using assms(6) by simp
qed simp

lemma least_solution_wrong_kind:
  assumes "scope_ok env tps scope" and "i < length tps"
    and "\<And>s v. scope_ok env tps s \<Longrightarrow> kind_ok env tps s (tpm_kind_data (tps ! i)) v \<Longrightarrow> \<not> same_arg v arg"
  shows "least_solution env tps scope (\<lambda>s. denotes env tps s (TemplateParam i k) arg) (Some (False, scope))"
proof (rule least_solution_failed [OF assms(1)])
  fix s assume "scope_ok env tps s"
  then show "\<not> denotes env tps s (TemplateParam i k) arg" using scope_ok_kind [of env tps s i] assms(2,3) by fastforce
qed

text \<open>A value is deduced after the type of the value.\<close>

lemma least_solution_variable:
  assumes scope: "scope_ok env tps scope" and ok: "params_ok tps" "i < length tps"
    and "scope (tpm_name (tps ! i)) = Some YetNotDeducedTemplateArg" and kind: "tpm_kind_data (tps ! i) = VariableParamData p"
    and valid: "IsValidForTemplateVariableArgument (tv_type a)" "tv_constexpr_value a \<noteq> 0"
    and p: "least_solution env tps scope (\<lambda>s. denotes env tps s p (TypeArg (tv_type a))) r"
    and kept: "keeps (tpm_name (tps ! i)) scope r"
  shows "least_solution env tps scope (\<lambda>s. denotes env tps s (TemplateParam i k) (VariableArg a))
    (and_match r (\<lambda>s. Some (True, s(tpm_name (tps ! i) \<mapsto> VariableValue (tv_type a) (tv_constexpr_value a)))))"
    (is "least_solution _ _ _ ?D _")
proof -
  let ?E = "\<lambda>s. denotes env tps s p (TypeArg (tv_type a))"
  have "least_solution env tps scope (\<lambda>s. ?E s \<and> ?D s)
    (and_match r (\<lambda>s. Some (True, s(tpm_name (tps ! i) \<mapsto> VariableValue (tv_type a) (tv_constexpr_value a)))))"
  proof (rule least_solution_and_match [OF p _ denotes_mono(1)])
    fix s assume s: "scope_ok env tps s" "r = Some (True, s)"
    then have "?E s" using p unfolding least_solution_def by auto
    then have "kind_ok env tps s (tpm_kind_data (tps ! i)) (VariableValue (tv_type a) (tv_constexpr_value a))" using kind valid by simp
    moreover have "s (tpm_name (tps ! i)) = Some YetNotDeducedTemplateArg" using kept assms(4) s(2) unfolding keeps_def by blast
    ultimately show "least_solution env tps s ?D (Some (True, s(tpm_name (tps ! i) \<mapsto> VariableValue (tv_type a) (tv_constexpr_value a))))"
      using s(1) ok by (intro least_solution_deduce) (auto simp: same_arg_deduced Type_eq_iff simp del: same_arg.simps)
  qed assumption
  then show ?thesis
  proof (rule least_solution_implied)
    fix s assume that: "scope_ok env tps s" "?D s"
    from that(2) obtain u where u: "s (tpm_name (tps ! i)) = Some (VariableValue u (tv_constexpr_value a))" "Type_eq (tv_type a) u"
      by (auto simp: same_arg_deduced split: option.splits simp del: same_arg.simps)
    then have "denotes env tps s p (TypeArg u)" using scope_ok_kind [OF that(1) ok(2)] kind by simp
    moreover have "TemplateArg_eq (TypeArg u) (TypeArg (tv_type a))" using u(2) by (simp add: Type_eq_iff)
    ultimately show "?E s" by (rule denotes_same(1))
  qed
qed

lemma own_name_kept:
  assumes "params_ok tps" and "i < length tps" and kind: "tpm_kind_data (tps ! i) = VariableParamData p" and "IsValidForTemplateVariableArgument t"
  shows "keeps (tpm_name (tps ! i)) scope (MatchTemplateArg env tps p (TypeArg t) scope)"
proof (cases "composite p")
  case True
  then have "composite_name tps (tpm_name (tps ! i))" using params_ok_name [OF assms(1,2)] kind unfolding composite_name_def by auto
  then show ?thesis using assms(4) by (intro MatchTemplateArg_keeps(1)) simp_all
next
  case False
  then consider u where "p = TypeParam u" | j k where "p = TemplateParam j k" by (cases p) simp_all
  then show ?thesis
  proof cases
    case (2 j k)
    then show ?thesis using params_ok_name [OF assms(1,2), of j] kind
      by (cases "j = i") (auto simp: keeps_update split: option.split TemplateParameterData.split)
  qed simp
qed

lemma match_template_param:
  assumes scope: "scope_ok env tps scope" and ok: "params_ok tps" "i < length tps"
    and IH: "\<And>p a. scope (tpm_name (tps ! i)) = Some YetNotDeducedTemplateArg \<Longrightarrow> arg = VariableArg a \<Longrightarrow>
      IsValidForTemplateVariableArgument (tv_type a) \<Longrightarrow> tv_constexpr_value a \<noteq> 0 \<Longrightarrow> tpm_kind_data (tps ! i) = VariableParamData p \<Longrightarrow>
      least_solution env tps scope (\<lambda>s. denotes env tps s p (TypeArg (tv_type a))) (MatchTemplateArg env tps p (TypeArg (tv_type a)) scope)"
  shows "least_solution env tps scope (\<lambda>s. denotes env tps s (TemplateParam i k) arg) (MatchTemplateArg env tps (TemplateParam i k) arg scope)"
proof -
  obtain v where v: "scope (tpm_name (tps ! i)) = Some v" using scope_ok_kind [OF scope ok(2)] by blast
  note wrong = least_solution_wrong_kind [OF scope ok(2), of arg k]
  show ?thesis
  proof (cases "v = YetNotDeducedTemplateArg")
    case False
    then show ?thesis using least_solution_deduced [OF scope v] v ok(2) by simp
  next
    case new: True
    note deduce = least_solution_deduce [OF scope ok v [unfolded new]]
    show ?thesis
    proof (cases "tpm_kind_data (tps ! i)")
      case TypeParamData
      then have "same_arg w arg \<Longrightarrow> kind_ok env tps s TypeParamData w \<Longrightarrow> \<exists>t. arg = TypeArg t" for s w
        by (cases w; cases arg) simp_all
      then show ?thesis using v new ok(2) TypeParamData wrong deduce [of "TypeNameValue t" "TypeArg t" k for t]
        by (cases arg) (fastforce simp: same_arg_deduced Type_eq_iff simp del: same_arg.simps)+
    next
      case TypeTemplateParamData
      then have "same_arg w arg \<Longrightarrow> kind_ok env tps s TypeTemplateParamData w \<Longrightarrow> \<exists>t. arg = TypeTemplateArg t" for s w
        by (cases w; cases arg) simp_all
      then show ?thesis using v new ok(2) TypeTemplateParamData wrong deduce [of "TypeTemplatesSetValue [t]" "TypeTemplateArg t" k for t]
        by (cases arg) (fastforce simp: same_arg_deduced simp del: same_arg.simps)+
    next
      case (VariableParamData p)
      have bad: "same_arg w arg \<Longrightarrow> kind_ok env tps s (VariableParamData p) w \<Longrightarrow>
          \<exists>a. arg = VariableArg a \<and> IsValidForTemplateVariableArgument (tv_type a) \<and> tv_constexpr_value a \<noteq> 0" for s w
        by (cases w; cases arg) (auto simp: IsValid_same)
      show ?thesis
      proof (cases "\<exists>a. arg = VariableArg a \<and> IsValidForTemplateVariableArgument (tv_type a) \<and> tv_constexpr_value a \<noteq> 0")
        case True
        then obtain a where a: "arg = VariableArg a" "IsValidForTemplateVariableArgument (tv_type a)" "tv_constexpr_value a \<noteq> 0" by blast
        have "scope (tpm_name (tps ! i)) = Some YetNotDeducedTemplateArg" using v new by simp
        then have "least_solution env tps scope (\<lambda>s. denotes env tps s (TemplateParam i k) (VariableArg a))
          (and_match (MatchTemplateArg env tps p (TypeArg (tv_type a)) scope)
            (\<lambda>s. Some (True, s(tpm_name (tps ! i) \<mapsto> VariableValue (tv_type a) (tv_constexpr_value a)))))"
          using IH a VariableParamData own_name_kept [OF ok VariableParamData a(2)]
          by (intro least_solution_variable [OF scope ok _ VariableParamData a(2,3)])
        then show ?thesis using a v new ok(2) VariableParamData by simp
      next
        case False
        then show ?thesis using v new ok(2) VariableParamData wrong bad by (cases arg) fastforce+
      qed
    qed
  qed
qed

text \<open>The candidates for a specialized template: one template parameter, or templates, whose matches change no scope.\<close>

definition candidates_ok :: "nat \<Rightarrow> TemplateSignatureParam list \<Rightarrow> bool" where
  "candidates_ok n tts \<longleftrightarrow> list_all (sig_ok n) tts \<and> (length tts \<le> 1 \<or> (\<forall>p \<in> set tts. \<exists>t. p = TypeTemplateParam t))"

lemma candidates_ok_Cons: "candidates_ok n (p # ps) \<Longrightarrow> sig_ok n p \<and> candidates_ok n ps \<and> (ps = [] \<or> (\<exists>t. p = TypeTemplateParam t))"
  by (auto simp: candidates_ok_def Suc_le_length_iff)

lemma least_solution_any:
  assumes r: "least_solution env tps scope D r" and one: "(\<forall>s. \<not> E s) \<or> (\<exists>ok. r = Some (ok, scope))"
    and f: "\<And>s. r = Some (False, s) \<Longrightarrow> scope_ok env tps s \<Longrightarrow> least_solution env tps s E (f s)"
  shows "least_solution env tps scope (\<lambda>s. D s \<or> E s) (case r of None \<Rightarrow> None | Some (ok, s) \<Rightarrow> if ok then Some (True, s) else f s)"
  using r
proof (cases rule: least_solutionE)
  case (found s)
  show ?thesis by (rule least_solution_found [OF _ found(2,3)]) (use found one in auto)
next
  case (none s)
  have same: "s = scope" if "E s'" for s' using one none(1) that by auto
  from f [OF none(1,3)] show ?thesis
  proof (cases rule: least_solutionE)
    case s1: (found s1)
    have "scope_le s1 s'" if "scope_le scope s'" "scope_ok env tps s'" "D s' \<or> E s'" for s'
      using none(4) [OF that(1,2)] that same s1(5) by blast
    then show ?thesis by (intro least_solution_found [OF _ scope_le_trans [OF none(2) s1(2)] s1(3)]) (use none s1 in auto)
  next
    case s1: (none s1)
    have "\<not> (D s' \<or> E s')" if "scope_le scope s'" "scope_ok env tps s'" for s'
      using none(4) [OF that(1,2)] that same s1(4) by blast
    then show ?thesis by (intro least_solution_none [OF _ scope_le_trans [OF none(2) s1(2)] s1(3)]) (use none s1 in auto)
  qed
qed

lemma MatchTemplateArg_least:
  "params_ok tps \<Longrightarrow> scope_ok env tps scope \<Longrightarrow> sig_ok (length tps) p \<Longrightarrow>
    least_solution env tps scope (\<lambda>s. denotes env tps s p arg) (MatchTemplateArg env tps p arg scope)"
  "params_ok tps \<Longrightarrow> scope_ok env tps scope \<Longrightarrow> list_all (sig_ok (length tps)) ps \<Longrightarrow> length ps \<le> length args \<Longrightarrow>
    least_solution env tps scope (\<lambda>s. denotes_all env tps s ps args) (match_all env tps ps args scope)"
  "params_ok tps \<Longrightarrow> scope_ok env tps scope \<Longrightarrow> list_all (function_param_ok (length tps)) fs \<Longrightarrow> length fs = length qs \<Longrightarrow>
    least_solution env tps scope (\<lambda>s. denotes_params env tps s fs qs) (match_params env tps fs qs scope)"
  "params_ok tps \<Longrightarrow> scope_ok env tps scope \<Longrightarrow> candidates_ok (length tps) tts \<Longrightarrow>
    least_solution env tps scope (\<lambda>s. denotes_any env tps s tts t) (match_any env tps tts t scope)"
proof (induction env tps p arg scope and env tps ps args scope and env tps fs qs scope and env tps tts t scope
    rule: MatchTemplateArg_match_all_match_params_match_any.induct)
  case (4 env tps i k arg scope)
  have i: "i < length tps" using 4(4) by simp
  show ?case
  proof (rule match_template_param [OF 4(3,2) i])
    fix p a
    assume new: "scope (tpm_name (tps ! i)) = Some YetNotDeducedTemplateArg" and a: "arg = VariableArg a" "IsValidForTemplateVariableArgument (tv_type a)"
      "tv_constexpr_value a \<noteq> 0" and kind: "tpm_kind_data (tps ! i) = VariableParamData p"
    then have "sig_ok (length tps) p" using 4(2) i nth_mem unfolding params_ok_def by blast
    with 4(1) [OF i new refl kind a(1)] a 4(2,3) show "least_solution env tps scope (\<lambda>s. denotes env tps s p (TypeArg (tv_type a)))
      (MatchTemplateArg env tps p (TypeArg (tv_type a)) scope)" by simp
  qed
next
  case (5 env tps n t arg scope)
  show ?case
  proof (cases "\<exists>e m l. arg = TypeArg (Array e m l)")
    case True
    then obtain e m l where a: "arg = TypeArg (Array e m l)" by blast
    have "least_solution env tps scope (\<lambda>s. denotes env tps s t (TypeArg e) \<and> denotes env tps s n (size_arg env m))
        (and_match (MatchTemplateArg env tps t (TypeArg e) scope) (\<lambda>scope. MatchTemplateArg env tps n (size_arg env m) scope))"
    proof (rule least_solution_and_match [OF _ _ denotes_mono(1)])
      show "least_solution env tps scope (\<lambda>s. denotes env tps s t (TypeArg e)) (MatchTemplateArg env tps t (TypeArg e) scope)"
        using 5(1) [OF a refl 5(3,4)] 5(5) by simp
      fix s assume "MatchTemplateArg env tps t (TypeArg e) scope = Some (True, s)" "scope_ok env tps s"
      then show "least_solution env tps s (\<lambda>s. denotes env tps s n (size_arg env m)) (MatchTemplateArg env tps n (size_arg env m) s)"
        using 5(2) [OF a refl] 5(3,5) by simp
    qed
    then show ?thesis using a by simp
  next
    case False
    then show ?thesis using 5(4) least_solution_failed [OF 5(4)] unfolding denotes_Array by (simp split: TemplateArg.split Type.split)
  qed
next
  case (6 env tps ps arg scope)
  show ?case
  proof (cases "\<exists>ts l. arg = TypeArg (Tuple ts l) \<and> length ts = length ps")
    case True
    then show ?thesis using 6 by (auto simp: list_all_iff)
  next
    case False
    then show ?thesis using least_solution_failed [OF 6(3)] unfolding denotes_Tuple by (auto split: TemplateArg.split Type.split)
  qed
next
  case (7 env tps p arg scope)
  show ?case
  proof (cases "\<exists>t l. arg = TypeArg (RawPointer t l)")
    case True
    then show ?thesis using 7 by auto
  next
    case False
    then show ?thesis using least_solution_failed [OF 7(3)] unfolding denotes_RawPointer by (simp split: TemplateArg.split Type.split)
  qed
next
  case (8 env tps p vt un cc ps arg scope)
  show ?case
  proof (cases "\<exists>f l. arg = TypeArg (FunctionPointer f l) \<and> unsafe f = un \<and> calling_convention f = cc \<and> return_value_type f = vt")
    case True
    then obtain f l where a: "arg = TypeArg (FunctionPointer f l)" "unsafe f = un \<and> calling_convention f = cc \<and> return_value_type f = vt" by blast
    have "least_solution env tps scope
        (\<lambda>s. denotes env tps s p (TypeArg (return_type f)) \<and> (length (params f) = length ps \<and> denotes_params env tps s ps (params f)))
        (and_match (MatchTemplateArg env tps p (TypeArg (return_type f)) scope)
          (\<lambda>scope. if length (params f) = length ps then match_params env tps ps (params f) scope else Some (False, scope)))"
    proof (rule least_solution_and_match [OF _ _ denotes_mono(1)])
      show "least_solution env tps scope (\<lambda>s. denotes env tps s p (TypeArg (return_type f)))
          (MatchTemplateArg env tps p (TypeArg (return_type f)) scope)"
        using 8(1) [OF a(1) refl a(2) 8(3,4)] 8(5) by simp
      fix s assume s: "MatchTemplateArg env tps p (TypeArg (return_type f)) scope = Some (True, s)" "scope_ok env tps s"
      show "least_solution env tps s (\<lambda>s. length (params f) = length ps \<and> denotes_params env tps s ps (params f))
          (if length (params f) = length ps then match_params env tps ps (params f) s else Some (False, s))"
        using 8(2) [OF a(1) refl a(2) s(1) _ 8(3) s(2)] 8(5) least_solution_failed [OF s(2)] by (simp add: list_all_iff)
    qed
    then show ?thesis using a by simp
  next
    case False
    then show ?thesis using least_solution_failed [OF 8(4)] unfolding denotes_Function by (auto split: TemplateArg.split Type.split)
  qed
next
  case (9 env tps k p vt rr rir ir ns arg scope)
  show ?case
  proof (cases "\<exists>c d. arg = TypeArg (ClassType c) \<and> c_generated_class_data (classes (te_tables env) c) = CoroutineData d")
    case True
    then obtain c d where a: "arg = TypeArg (ClassType c)" "c_generated_class_data (classes (te_tables env) c) = CoroutineData d" by blast
    show ?thesis using 9(1) [OF a(1) refl a(2) _ 9(2,3)] 9(4) least_solution_failed [OF 9(3)] a by simp
  next
    case False
    then show ?thesis using least_solution_failed [OF 9(3)] by (auto split: TemplateArg.split Type.split GeneratedClassData.split)
  qed
next
  case (10 env tps tts ps arg scope)
  show ?case
  proof (cases "\<exists>c b. arg = TypeArg (ClassType c) \<and> c_generated_class_data (classes (te_tables env) c) = BaseTemplateData b \<and>
      length ps \<le> length (bt_signature_args b)")
    case True
    then obtain c b where a: "arg = TypeArg (ClassType c)" "c_generated_class_data (classes (te_tables env) c) = BaseTemplateData b"
      "\<not> length (bt_signature_args b) < length ps" by auto
    have ok: "candidates_ok (length tps) tts" "list_all (sig_ok (length tps)) ps" using 10(5) by (auto simp: candidates_ok_def list_all_iff)
    have "least_solution env tps scope (\<lambda>s. denotes_any env tps s tts (bt_class_template b) \<and>
          (denotes_all env tps s ps (bt_signature_args b) \<and> defaults_match env c (length ps) (bt_signature_args b)))
        (and_match (match_any env tps tts (bt_class_template b) scope) (\<lambda>scope.
                and_match (match_all env tps ps (bt_signature_args b) scope) (\<lambda>scope.
                  Some (defaults_match env c (length ps) (bt_signature_args b), scope))))"
    proof (rule least_solution_and_match [OF _ least_solution_and_match [OF _ _ denotes_mono(2)] denotes_mono(4)])
      show "least_solution env tps scope (\<lambda>s. denotes_any env tps s tts (bt_class_template b)) (match_any env tps tts (bt_class_template b) scope)"
        using 10(1) [OF a(1) refl a(2,3) 10(3,4)] ok(1) by simp
      fix s assume s: "match_any env tps tts (bt_class_template b) scope = Some (True, s)" "scope_ok env tps s"
      show "least_solution env tps s (\<lambda>s. denotes_all env tps s ps (bt_signature_args b)) (match_all env tps ps (bt_signature_args b) s)"
        using 10(2) [OF a(1) refl a(2,3) s(1) 10(3) s(2) ok(2)] a(3) by simp
    qed (simp_all add: least_solution_unchanged)
    then show ?thesis using a by simp
  next
    case False
    then show ?thesis using least_solution_failed [OF 10(4)] by (auto split: TemplateArg.split Type.split GeneratedClassData.split)
  qed
next
  case (13 env tps p ps arg args scope)
  have "least_solution env tps scope (\<lambda>s. denotes env tps s p arg \<and> denotes_all env tps s ps args)
      (and_match (MatchTemplateArg env tps p arg scope) (\<lambda>scope. match_all env tps ps args scope))"
    by (rule least_solution_and_match [OF 13(1) 13(2) denotes_mono(1)]) (use 13(3-6) in simp_all)
  then show ?case by simp
next
  case (16 env tps p vt ps q qs scope)
  show ?case 
  proof (cases "p_value_type q = vt")
    case True
    have "least_solution env tps scope (\<lambda>s. denotes env tps s p (TypeArg (p_type q)) \<and> denotes_params env tps s ps qs)
        (and_match (MatchTemplateArg env tps p (TypeArg (p_type q)) scope) (\<lambda>scope. match_params env tps ps qs scope))"
      by (rule least_solution_and_match [OF 16(1) [OF True] 16(2) [OF True] denotes_mono(1)]) (use 16(3-6) in simp_all)
    then show ?thesis using True by simp
  next
    case False
    then show ?thesis using least_solution_failed [OF 16(4)] by simp
  qed
next
  case (18 env tps p ps t scope)
  note ok = candidates_ok_Cons [OF 18(5)]
  have same: "(\<forall>s. \<not> denotes_any env tps s ps t) \<or> (\<exists>ok. MatchTemplateArg env tps p (TypeTemplateArg t) scope = Some (ok, scope))"
    using ok by auto
  have "least_solution env tps s (\<lambda>s. denotes_any env tps s ps t) (match_any env tps ps t s)"
    if "MatchTemplateArg env tps p (TypeTemplateArg t) scope = Some (False, s)" "scope_ok env tps s" for s
    using 18(2) [OF that(1) refl] 18(3) that(2) ok by simp
  with least_solution_any [OF 18(1) [OF 18(3,4)] same] ok show ?case by simp
qed (auto intro!: least_solution_unchanged)

section \<open>Correctness of deduction\<close>

text \<open>
  C8. Deduction of template arguments finds the least solution. In a scope in which every template parameter has a value of its
  kind or none yet, a match always ends without a failed lookup. If it succeeds, the values it has added make the signature
  parameter equal to the argument, values that were there already are kept, and every other
  scope that solves the match agrees with the values that were deduced. If it fails, no scope that keeps the given values solves it.
\<close>

theorem MatchTemplateArg_correct:
  assumes "params_ok tps" and "scope_ok env tps scope" and "sig_ok (length tps) p"
  shows "\<exists>ok s. MatchTemplateArg env tps p arg scope = Some (ok, s) \<and> scope_le scope s \<and> scope_ok env tps s \<and>
    (if ok then denotes env tps s p arg \<and> (\<forall>s'. scope_le scope s' \<and> scope_ok env tps s' \<and> denotes env tps s' p arg \<longrightarrow> scope_le s s')
     else \<not> (\<exists>s'. scope_le scope s' \<and> scope_ok env tps s' \<and> denotes env tps s' p arg))"
  using MatchTemplateArg_least(1) [OF assms] unfolding least_solution_def .

text \<open>An array of an element type and a size that are both template parameters, matched with an array of five numbers.\<close>

definition example_env :: TemplateEnv where
  "example_env = \<lparr> te_tables = example_tables, te_size_llvm_type = 0, te_size_constant = (\<lambda>n. n + 1), te_default_arg = (\<lambda>_ _. None) \<rparr>"

definition example_params :: "TemplateParameter list" where
  "example_params =
    [\<lparr> tpm_name = str ''T'', tpm_kind_data = TypeParamData \<rparr>,
     \<lparr> tpm_name = str ''N'', tpm_kind_data = VariableParamData (TypeParam (Fundamental size_type_t 0)) \<rparr>]"

definition example_scope :: ArgsScope where
  "example_scope = [str ''T'' \<mapsto> YetNotDeducedTemplateArg, str ''N'' \<mapsto> YetNotDeducedTemplateArg]"

definition example_param :: TemplateSignatureParam where
  "example_param = ArrayParam (TemplateParam 1 2) (TemplateParam 0 0)"

definition example_arg :: TemplateArg where
  "example_arg = TypeArg (Array (Fundamental i32_t 0) 5 0)"

lemma example_names: "ch CHR ''T'' \<noteq> ch CHR ''N''" "ch CHR ''N'' \<noteq> ch CHR ''T''"
  by code_simp+

lemma example_ok: "params_ok example_params" "scope_ok example_env example_params example_scope" "sig_ok (length example_params) example_param"
  by (simp_all add: params_ok_def scope_ok_def example_params_def example_scope_def example_param_def example_names less_Suc_eq)

lemma example_match:
  "MatchTemplateArg example_env example_params example_param example_arg example_scope =
    Some (True, example_scope(str ''T'' \<mapsto> TypeNameValue (Fundamental i32_t 0), str ''N'' \<mapsto> VariableValue (Fundamental size_type_t 0) 6))"
  by (simp add: example_params_def example_param_def example_arg_def example_scope_def example_env_def size_arg_def and_match_def example_names
      IsInteger_def IsUnsignedInteger_def)

theorem MatchTemplateArg_correct_witness:
  "\<exists>s. MatchTemplateArg example_env example_params example_param example_arg example_scope = Some (True, s) \<and>
    s (str ''T'') = Some (TypeNameValue (Fundamental i32_t 0)) \<and> denotes example_env example_params s example_param example_arg"
proof -
  obtain b s where s: "MatchTemplateArg example_env example_params example_param example_arg example_scope = Some (b, s)"
    "b \<longrightarrow> denotes example_env example_params s example_param example_arg"
    using MatchTemplateArg_correct [OF example_ok, of example_arg] by (metis (full_types))
  then have "b" "s (str ''T'') = Some (TypeNameValue (Fundamental i32_t 0))" unfolding example_match by (auto simp: example_names)
  with s show ?thesis by (metis (full_types))
qed

end
