(* ===== verification/Overloading.thy ===== *)
theory Overloading
  imports Specialization Src_Loc Operators
begin

text \<open>
  \<^verbatim>\<open>source/compiler0/code_builder_lib/cb_overloading_resolution.cpp\<close>: sets of overloaded functions, the functions that
  match given arguments, and the selection of the best function and of the best type template.

  What the file calls in the rest of the code builder is the record \<open>Builder\<close>: whether a class is complete after it has been
  built, the type that a type name denotes in a scope, the preparation and the generation of a template function, the
  constructors and the operators of a class. \<open>None\<close> is a failed assertion, a read outside a vector, or a search through parents
  that does not end.
\<close>

section \<open>Functions, templates and candidates\<close>

record 't FunctionParamSyntax =
  fs_name :: "byte list"
  fs_type :: 't
  fs_mutability_modifier :: MutabilityModifier
  fs_reference_modifier :: ReferenceModifier

record FunctionVariable =
  fv_type :: FunctionType
  fv_is_this_call :: bool
  fv_is_constructor :: bool
  fv_is_conversion_constructor :: bool

text \<open>Of the syntax element of a template the parameters of the function and its conversion constructor flag are read.\<close>

record 't FunctionTemplate =
  ft_params :: "'t FunctionParamSyntax list"
  ft_is_conversion_constructor :: bool
  ft_base_class :: "ClassPtr option"
  ft_signature_params :: "TemplateSignatureParam list"

record 't OverloadedFunctionsSet =
  fs_functions :: "FunctionVariable list"
  fs_template_functions :: "'t FunctionTemplate list"

datatype ('t, 's) OverloadingResolutionItem =
    FunctionItem FunctionVariable
  | TemplateFunctionPreparationResult "'t FunctionTemplate" 's

datatype CodeBuilderError =
    CouldNotOverloadFunction
  | UsingIncompleteType Type
  | TooManySuitableOverloadedFunctions "Param list"
  | CouldNotSelectOverloadedFunction "Param list"
  | AccessingNonpublicClassMember "byte list" ClassPtr

type_synonym CodeBuilderErrors = "(CodeBuilderError \<times> SrcLoc) list"

record ('t, 's) Builder =
  b_tables :: Tables
  b_Keyword :: Keyword
  b_invalid_type :: Type
  b_class_is_complete :: "ClassPtr \<Rightarrow> bool"
  b_PrepareType :: "'t \<Rightarrow> 's \<Rightarrow> Type"
  b_PrepareTemplateFunction :: "'t FunctionTemplate \<Rightarrow> Param list \<Rightarrow> bool \<Rightarrow> bool \<Rightarrow> 's option \<times> CodeBuilderErrors"
  b_FinishTemplateFunctionGeneration :: "'t FunctionTemplate \<Rightarrow> 's \<Rightarrow> FunctionVariable option \<times> CodeBuilderErrors"
  b_constructors :: "ClassPtr \<Rightarrow> 't OverloadedFunctionsSet option"

section \<open>Sets of functions\<close>

definition GetFunctionWithSameType :: "FunctionType \<Rightarrow> FunctionVariable list \<Rightarrow> FunctionVariable option" where
  "GetFunctionWithSameType function_type functions = List.find (\<lambda>f. FunctionType_eq (fv_type f) function_type) functions"

definition param_is_same :: "Param \<Rightarrow> Param \<Rightarrow> bool" where
  "param_is_same p q \<longleftrightarrow> Type_eq (p_type p) (p_type q) \<and> GetArgOverloadingClass p = GetArgOverloadingClass q"

definition could_not_overload :: "FunctionVariable \<Rightarrow> FunctionVariable \<Rightarrow> bool" where
  "could_not_overload f set_f \<longleftrightarrow>
    (let ps = params (fv_type f); qs = params (fv_type set_f) in
     length ps = length qs \<and> length (filter (\<lambda>(p, q). param_is_same p q) (zip ps qs)) = length ps)"

definition ApplyOverloadedFunction ::
  "FunctionVariable \<Rightarrow> SrcLoc \<Rightarrow> FunctionVariable list \<times> CodeBuilderErrors \<Rightarrow>
    bool \<times> FunctionVariable list \<times> CodeBuilderErrors" where
  "ApplyOverloadedFunction f src_loc s =
    (let (functions, errors) = s in
     if functions = [] then (True, [f], errors)
     else if list_ex (could_not_overload f) functions then (False, functions, errors @ [(CouldNotOverloadFunction, src_loc)])
     else (True, functions @ [f], errors))"

section \<open>Candidates\<close>

definition OverloadingResolutionItemGetParamExtendedType ::
  "('t, 's) Builder \<Rightarrow> ('t, 's) OverloadingResolutionItem \<Rightarrow> nat \<Rightarrow> Param option" where
  "OverloadingResolutionItemGetParamExtendedType b item param_index =
    (case item of
       FunctionItem f \<Rightarrow>
         if param_index < length (params (fv_type f)) then Some (params (fv_type f) ! param_index) else None
     | TemplateFunctionPreparationResult ft scope \<Rightarrow>
         if param_index < length (ft_params ft) then
           let param = ft_params ft ! param_index;
               value_type =
                 (if fs_reference_modifier param = Reference
                  then if fs_mutability_modifier param = Mutable then ReferenceMut else ReferenceImut
                  else Value)
           in Some (Param
             (if fs_name param = b_Keyword b this_kw then
                case ft_base_class ft of Some c \<Rightarrow> ClassType c | None \<Rightarrow> b_invalid_type b
              else b_PrepareType b (fs_type param) scope) value_type)
         else None)"

definition OverloadingResolutionItemGetTemplateSignatureParam ::
  "('t, 's) OverloadingResolutionItem \<Rightarrow> nat \<Rightarrow> TemplateSignatureParam option" where
  "OverloadingResolutionItemGetTemplateSignatureParam item param_index =
    (case item of
       FunctionItem _ \<Rightarrow> Some (TypeParam (Fundamental void_t 0))
     | TemplateFunctionPreparationResult ft _ \<Rightarrow>
         if param_index < length (ft_signature_params ft) then Some (ft_signature_params ft ! param_index) else None)"

definition OverloadingResolutionItemIsThisCall :: "('t, 's) Builder \<Rightarrow> ('t, 's) OverloadingResolutionItem \<Rightarrow> bool" where
  "OverloadingResolutionItemIsThisCall b item =
    (case item of
       FunctionItem f \<Rightarrow> fv_is_this_call f
     | TemplateFunctionPreparationResult ft _ \<Rightarrow> ft_params ft \<noteq> [] \<and> fs_name (hd (ft_params ft)) = b_Keyword b this_kw)"

definition OverloadingResolutionItemIsConversionConstructor :: "('t, 's) OverloadingResolutionItem \<Rightarrow> bool" where
  "OverloadingResolutionItemIsConversionConstructor item =
    (case item of
       FunctionItem f \<Rightarrow> fv_is_conversion_constructor f
     | TemplateFunctionPreparationResult ft _ \<Rightarrow> ft_is_conversion_constructor ft)"

definition FinalizeSelectedFunction ::
  "('t, 's) Builder \<Rightarrow> ('t, 's) OverloadingResolutionItem \<Rightarrow> CodeBuilderErrors \<Rightarrow>
    FunctionVariable option \<times> CodeBuilderErrors" where
  "FinalizeSelectedFunction b item errors =
    (case item of
       FunctionItem f \<Rightarrow> (Some f, errors)
     | TemplateFunctionPreparationResult ft scope \<Rightarrow>
         let (f, es) = b_FinishTemplateFunctionGeneration b ft scope in (f, errors @ es))"

section \<open>Completeness of types and conversion of references\<close>

fun EnsureTypeComplete :: "(ClassPtr \<Rightarrow> bool) \<Rightarrow> Type \<Rightarrow> bool" where
  "EnsureTypeComplete complete (Fundamental _ _) = True" |
  "EnsureTypeComplete complete (FunctionPointer _ _) = True" |
  "EnsureTypeComplete complete (EnumType _) = True" |
  "EnsureTypeComplete complete (Array t _ _) = EnsureTypeComplete complete t" |
  "EnsureTypeComplete complete (RawPointer _ _) = True" |
  "EnsureTypeComplete complete (Tuple ts _) = list_all (EnsureTypeComplete complete) ts" |
  "EnsureTypeComplete complete (ClassType c) = complete c"

definition incomplete_errors :: "(ClassPtr \<Rightarrow> bool) \<Rightarrow> Type \<Rightarrow> SrcLoc \<Rightarrow> CodeBuilderErrors" where
  "incomplete_errors complete t src_loc = (if EnsureTypeComplete complete t then [] else [(UsingIncompleteType t, src_loc)])"

definition ReferenceIsConvertible ::
  "('t, 's) Builder \<Rightarrow> Type \<Rightarrow> Type \<Rightarrow> SrcLoc \<Rightarrow> CodeBuilderErrors \<Rightarrow> (bool \<times> CodeBuilderErrors) option" where
  "ReferenceIsConvertible b from_type to_type src_loc errors =
    (if Type_eq from_type to_type then Some (True, errors)
     else
       let errors = errors @ incomplete_errors (b_class_is_complete b) from_type src_loc @
             incomplete_errors (b_class_is_complete b) to_type src_loc
       in map_option (\<lambda>r. (r, errors)) (ReferenceIsConvertibleTo (b_tables b) from_type to_type))"

definition IsCopyConstructor :: "FunctionType \<Rightarrow> Type \<Rightarrow> bool" where
  "IsCopyConstructor function_type base_class =
    (case params function_type of
       [p, q] \<Rightarrow>
         Type_eq (p_type p) base_class \<and> p_value_type p = ReferenceMut \<and>
         Type_eq (p_type q) base_class \<and> p_value_type q = ReferenceImut
     | _ \<Rightarrow> False)"

section \<open>Matching functions\<close>

text \<open>
  The test of one argument, with the test for a conversion constructor as an argument: \<open>HasConversionConstructor\<close> is only called
  where type conversions are enabled, and calls the fetch of functions with type conversions disabled.
\<close>

definition arg_is_compatible ::
  "('t, 's) Builder \<Rightarrow> (Param \<Rightarrow> Type \<Rightarrow> SrcLoc \<Rightarrow> CodeBuilderErrors \<Rightarrow> (bool \<times> CodeBuilderErrors) option) \<Rightarrow> bool \<Rightarrow>
    FunctionVariable \<Rightarrow> SrcLoc \<Rightarrow> Param \<Rightarrow> Param \<Rightarrow> CodeBuilderErrors \<Rightarrow> (bool \<times> CodeBuilderErrors) option" where
  "arg_is_compatible b has_conversion enable_type_conversions f src_loc arg param errors =
    Option.bind
      (if Type_eq (p_type arg) (p_type param) then Some (True, errors)
       else if \<not> (EnsureTypeComplete (b_class_is_complete b) (p_type param) \<and>
                  EnsureTypeComplete (b_class_is_complete b) (p_type arg))
       then Some (False, errors)
       else Option.bind (ReferenceIsConvertible b (p_type arg) (p_type param) src_loc errors) (\<lambda>(c, errors).
         if c then Some (True, errors)
         else if enable_type_conversions \<and> GetArgOverloadingClass param = ImmutableReference \<and>
             \<not> fv_is_conversion_constructor f \<and>
             \<not> (fv_is_constructor f \<and> IsCopyConstructor (fv_type f) (p_type (hd (params (fv_type f)))))
         then has_conversion arg (p_type param) src_loc errors
         else Some (False, errors)))
      (\<lambda>(ok, errors).
        Some (ok \<and> \<not> (GetArgOverloadingClass param = MutalbeReference \<and> GetArgOverloadingClass arg \<noteq> MutalbeReference), errors))"

primrec args_are_compatible ::
  "(Param \<Rightarrow> Param \<Rightarrow> CodeBuilderErrors \<Rightarrow> (bool \<times> CodeBuilderErrors) option) \<Rightarrow> (Param \<times> Param) list \<Rightarrow> CodeBuilderErrors \<Rightarrow>
    (bool \<times> CodeBuilderErrors) option" where
  "args_are_compatible test [] errors = Some (True, errors)" |
  "args_are_compatible test (ap # aps) errors =
    Option.bind (test (fst ap) (snd ap) errors) (\<lambda>(ok, errors).
      if ok then args_are_compatible test aps errors else Some (False, errors))"

definition match_function ::
  "('t, 's) Builder \<Rightarrow> (Param \<Rightarrow> Type \<Rightarrow> SrcLoc \<Rightarrow> CodeBuilderErrors \<Rightarrow> (bool \<times> CodeBuilderErrors) option) \<Rightarrow> bool \<Rightarrow>
    Param list \<Rightarrow> bool \<Rightarrow> SrcLoc \<Rightarrow> FunctionVariable \<Rightarrow> ('t, 's) OverloadingResolutionItem list \<times> CodeBuilderErrors \<Rightarrow>
    (('t, 's) OverloadingResolutionItem list \<times> CodeBuilderErrors) option" where
  "match_function b has_conversion enable actual_args first_actual_arg_is_this src_loc f acc =
    (let args = (if first_actual_arg_is_this \<and> \<not> fv_is_this_call f then tl actual_args else actual_args);
         ps = params (fv_type f)
     in if length ps \<noteq> length args then Some acc
        else map_option (\<lambda>(ok, errors). (if ok then fst acc @ [FunctionItem f] else fst acc, errors))
          (args_are_compatible (arg_is_compatible b has_conversion enable f src_loc) (zip args ps) (snd acc)))"

definition match_template ::
  "('t, 's) Builder \<Rightarrow> bool \<Rightarrow> Param list \<Rightarrow> bool \<Rightarrow> 't FunctionTemplate \<Rightarrow>
    ('t, 's) OverloadingResolutionItem list \<times> CodeBuilderErrors \<Rightarrow> ('t, 's) OverloadingResolutionItem list \<times> CodeBuilderErrors" where
  "match_template b enable actual_args first_actual_arg_is_this ft acc =
    (let (r, es) = b_PrepareTemplateFunction b ft actual_args first_actual_arg_is_this enable in
     (case r of None \<Rightarrow> fst acc | Some scope \<Rightarrow> fst acc @ [TemplateFunctionPreparationResult ft scope], snd acc @ es))"

definition fetch_matched ::
  "('t, 's) Builder \<Rightarrow> (Param \<Rightarrow> Type \<Rightarrow> SrcLoc \<Rightarrow> CodeBuilderErrors \<Rightarrow> (bool \<times> CodeBuilderErrors) option) \<Rightarrow> bool \<Rightarrow>
    't OverloadedFunctionsSet \<Rightarrow> Param list \<Rightarrow> bool \<Rightarrow> SrcLoc \<Rightarrow>
    ('t, 's) OverloadingResolutionItem list \<times> CodeBuilderErrors \<Rightarrow>
    (('t, 's) OverloadingResolutionItem list \<times> CodeBuilderErrors) option" where
  "fetch_matched b has_conversion enable functions_set actual_args first_actual_arg_is_this src_loc acc =
    map_option (fold (match_template b enable actual_args first_actual_arg_is_this) (fs_template_functions functions_set))
      (foldM (match_function b has_conversion enable actual_args first_actual_arg_is_this src_loc)
        (fs_functions functions_set) acc)"

definition GetConstructors ::
  "('t, 's) Builder \<Rightarrow> Type \<Rightarrow> SrcLoc \<Rightarrow> CodeBuilderErrors \<Rightarrow> 't OverloadedFunctionsSet option \<times> CodeBuilderErrors" where
  "GetConstructors b t src_loc errors =
    (if \<not> EnsureTypeComplete (b_class_is_complete b) t then (None, errors @ [(UsingIncompleteType t, src_loc)])
     else (case GetClassType t of None \<Rightarrow> None | Some c \<Rightarrow> b_constructors b c, errors))"

definition HasConversionConstructor ::
  "('t, 's) Builder \<Rightarrow> Param \<Rightarrow> Type \<Rightarrow> SrcLoc \<Rightarrow> CodeBuilderErrors \<Rightarrow> (bool \<times> CodeBuilderErrors) option" where
  "HasConversionConstructor b src_type_extended dst_type src_loc errors =
    (case GetConstructors b dst_type src_loc errors of
       (None, errors) \<Rightarrow> Some (False, errors)
     | (Some constructors, errors) \<Rightarrow>
         map_option (\<lambda>(items, errors). (list_ex OverloadingResolutionItemIsConversionConstructor items, errors))
           (fetch_matched b (\<lambda>_ _ _ errors. Some (False, errors)) False constructors
             [Param dst_type ReferenceMut, src_type_extended] False src_loc ([], errors)))"

definition FetchMatchedOverloadedFunctions ::
  "('t, 's) Builder \<Rightarrow> 't OverloadedFunctionsSet \<Rightarrow> Param list \<Rightarrow> bool \<Rightarrow> SrcLoc \<Rightarrow> bool \<Rightarrow>
    ('t, 's) OverloadingResolutionItem list \<times> CodeBuilderErrors \<Rightarrow>
    (('t, 's) OverloadingResolutionItem list \<times> CodeBuilderErrors) option" where
  "FetchMatchedOverloadedFunctions b functions_set actual_args first_actual_arg_is_this src_loc enable_type_conversions acc =
    fetch_matched b (HasConversionConstructor b) enable_type_conversions functions_set actual_args
      first_actual_arg_is_this src_loc acc"

section \<open>Selection of the best candidate\<close>

text \<open>
  The loops that functions and type templates share: for every argument, a candidate that is at least as good as all others
  excludes the candidates it is better than. \<open>part n x\<close> says that candidate \<open>x\<close> takes part for argument \<open>n\<close>, \<open>cmp n l r\<close>
  compares two candidates for that argument.
\<close>

primrec is_best :: "('c \<Rightarrow> bool) \<Rightarrow> ('c \<Rightarrow> ConversionsCompareResult option) \<Rightarrow> 'c list \<Rightarrow> bool option" where
  "is_best part cmp [] = Some True" |
  "is_best part cmp (r # rs) =
    (if \<not> part r then is_best part cmp rs
     else Option.bind (cmp r) (\<lambda>comp. if comp = Same \<or> comp = LeftIsBetter then is_best part cmp rs else Some False))"

primrec exclude_worse ::
  "('c \<Rightarrow> bool) \<Rightarrow> ('c \<Rightarrow> ConversionsCompareResult option) \<Rightarrow> ('c \<times> bool) list \<Rightarrow> ('c \<times> bool) list option" where
  "exclude_worse part cmp [] = Some []" |
  "exclude_worse part cmp (rf # rfs) =
    Option.bind (if \<not> part (fst rf) then Some (snd rf) else map_option (\<lambda>comp. snd rf \<and> comp = Same) (cmp (fst rf)))
      (\<lambda>flag. map_option ((#) (fst rf, flag)) (exclude_worse part cmp rfs))"

definition exclude_for_candidate ::
  "('c \<Rightarrow> bool) \<Rightarrow> ('c \<Rightarrow> 'c \<Rightarrow> ConversionsCompareResult option) \<Rightarrow> 'c \<Rightarrow> ('c \<times> bool) list \<Rightarrow> ('c \<times> bool) list option" where
  "exclude_for_candidate part cmp l flags =
    (if \<not> part l then Some flags
     else Option.bind (is_best part (cmp l) (map fst flags)) (\<lambda>best.
       if best then exclude_worse part (cmp l) flags else Some flags))"

definition best_candidates ::
  "(nat \<Rightarrow> 'c \<Rightarrow> bool) \<Rightarrow> (nat \<Rightarrow> 'c \<Rightarrow> 'c \<Rightarrow> ConversionsCompareResult option) \<Rightarrow> nat \<Rightarrow> 'c list \<Rightarrow> ('c \<times> bool) list option" where
  "best_candidates part cmp arg_count cs =
    foldM (\<lambda>n. foldM (exclude_for_candidate (part n) (cmp n)) cs) [0..<arg_count] (map (\<lambda>c. (c, True)) cs)"

fun select_single :: "bool list \<Rightarrow> nat \<Rightarrow> nat option \<Rightarrow> nat option" where
  "select_single [] n selected = selected" |
  "select_single (flag # flags) n selected =
    (if flag then (case selected of None \<Rightarrow> select_single flags (n + 1) (Some n) | Some _ \<Rightarrow> None)
     else select_single flags (n + 1) selected)"

text \<open>The number of the parameter for an argument: a call of a static function through \<^verbatim>\<open>this\<close> skips the first argument.\<close>

definition takes_part :: "('t, 's) Builder \<Rightarrow> bool \<Rightarrow> nat \<Rightarrow> ('t, 's) OverloadingResolutionItem \<Rightarrow> bool" where
  "takes_part b first_actual_arg_is_this arg_n item \<longleftrightarrow>
    \<not> (first_actual_arg_is_this \<and> \<not> OverloadingResolutionItemIsThisCall b item \<and> arg_n = 0)"

definition item_arg_n :: "('t, 's) Builder \<Rightarrow> bool \<Rightarrow> nat \<Rightarrow> ('t, 's) OverloadingResolutionItem \<Rightarrow> nat" where
  "item_arg_n b first_actual_arg_is_this arg_n item =
    (if first_actual_arg_is_this \<and> \<not> OverloadingResolutionItemIsThisCall b item then arg_n - 1 else arg_n)"

definition compare_items ::
  "('t, 's) Builder \<Rightarrow> Param list \<Rightarrow> bool \<Rightarrow> nat \<Rightarrow> ('t, 's) OverloadingResolutionItem \<Rightarrow> ('t, 's) OverloadingResolutionItem \<Rightarrow>
    ConversionsCompareResult option" where
  "compare_items b actual_args first_actual_arg_is_this arg_n l r =
    (let l_arg_n = item_arg_n b first_actual_arg_is_this arg_n l; r_arg_n = item_arg_n b first_actual_arg_is_this arg_n r in
     Option.bind (OverloadingResolutionItemGetParamExtendedType b l l_arg_n) (\<lambda>l_param.
     Option.bind (OverloadingResolutionItemGetParamExtendedType b r r_arg_n) (\<lambda>r_param.
     Option.bind (OverloadingResolutionItemGetTemplateSignatureParam l l_arg_n) (\<lambda>l_template.
     Option.bind (OverloadingResolutionItemGetTemplateSignatureParam r r_arg_n) (\<lambda>r_template.
       CompareConversions_templates (b_tables b) (actual_args ! arg_n) l_param r_param l_template r_template)))))"

definition SelectOverloadedFunction ::
  "('t, 's) Builder \<Rightarrow> Param list \<Rightarrow> bool \<Rightarrow> SrcLoc \<Rightarrow> ('t, 's) OverloadingResolutionItem list \<Rightarrow> CodeBuilderErrors \<Rightarrow>
    (nat option \<times> CodeBuilderErrors) option" where
  "SelectOverloadedFunction b actual_args first_actual_arg_is_this src_loc matched_functions errors =
    (if length matched_functions = 1 then Some (Some 0, errors)
     else map_option (\<lambda>flags.
       let selected_function = select_single (map snd flags) 0 None in
       (selected_function,
        if selected_function = None then errors @ [(TooManySuitableOverloadedFunctions actual_args, src_loc)] else errors))
       (best_candidates (takes_part b first_actual_arg_is_this) (compare_items b actual_args first_actual_arg_is_this)
         (length actual_args) matched_functions))"

definition GetOverloadedFunction ::
  "('t, 's) Builder \<Rightarrow> 't OverloadedFunctionsSet \<Rightarrow> Param list \<Rightarrow> bool \<Rightarrow> SrcLoc \<Rightarrow> CodeBuilderErrors \<Rightarrow>
    (FunctionVariable option \<times> CodeBuilderErrors) option" where
  "GetOverloadedFunction b functions_set actual_args first_actual_arg_is_this src_loc errors =
    (if first_actual_arg_is_this \<and> actual_args = [] then None
     else Option.bind
       (FetchMatchedOverloadedFunctions b functions_set actual_args first_actual_arg_is_this src_loc True ([], errors))
       (\<lambda>(matched_functions, errors).
         if matched_functions = [] then Some (None, errors @ [(CouldNotSelectOverloadedFunction actual_args, src_loc)])
         else map_option (\<lambda>(item, errors).
           case item of None \<Rightarrow> (None, errors) | Some k \<Rightarrow> FinalizeSelectedFunction b (matched_functions ! k) errors)
           (SelectOverloadedFunction b actual_args first_actual_arg_is_this src_loc matched_functions errors)))"

definition GetConversionConstructor ::
  "('t, 's) Builder \<Rightarrow> Param \<Rightarrow> Type \<Rightarrow> SrcLoc \<Rightarrow> CodeBuilderErrors \<Rightarrow> (FunctionVariable option \<times> CodeBuilderErrors) option" where
  "GetConversionConstructor b src_type_extended dst_type src_loc errors =
    (case GetConstructors b dst_type src_loc errors of
       (None, errors) \<Rightarrow> Some (None, errors)
     | (Some constructors, errors) \<Rightarrow>
         let actual_args = [Param dst_type ReferenceMut, src_type_extended] in
         Option.bind (FetchMatchedOverloadedFunctions b constructors actual_args False src_loc False ([], errors))
           (\<lambda>(matched_functions, errors).
             if matched_functions = [] then Some (None, errors)
             else map_option (\<lambda>(item, errors).
               case item of
                 None \<Rightarrow> (None, errors)
               | Some k \<Rightarrow>
                   let (func, errors) = FinalizeSelectedFunction b (matched_functions ! k) errors in
                   (case func of
                      None \<Rightarrow> None
                    | Some f \<Rightarrow> if fv_is_conversion_constructor f then Some f else None, errors))
               (SelectOverloadedFunction b actual_args True src_loc matched_functions errors)))"

text \<open>
  The loop of \<open>GetOverloadedOperator\<close> over the arguments: the operators of the classes of the arguments, each class once.
  \<open>resolve\<close> is \<open>ResolveClassValue\<close> for the name of the operator. The inner \<open>None\<close> is the early return.
\<close>

fun operator_candidates ::
  "('t, 's) Builder \<Rightarrow> (ClassPtr \<Rightarrow> ('t OverloadedFunctionsSet \<times> ClassMemberVisibility) option) \<Rightarrow> bool \<Rightarrow> Param list \<Rightarrow> SrcLoc \<Rightarrow>
    Param list \<Rightarrow> ClassPtr list \<Rightarrow> (ClassPtr \<times> ClassMemberVisibility) list \<Rightarrow>
    ('t, 's) OverloadingResolutionItem list \<times> CodeBuilderErrors \<Rightarrow>
    (((ClassPtr \<times> ClassMemberVisibility) list \<times> ('t, 's) OverloadingResolutionItem list) option \<times> CodeBuilderErrors) option" where
  "operator_candidates b resolve only_first actual_args src_loc [] processed visibility acc = Some (Some (visibility, fst acc), snd acc)" |
  "operator_candidates b resolve only_first actual_args src_loc (arg # args) processed visibility acc =
    (let rest = (if only_first then [] else args) in
     case GetClassType (p_type arg) of
       None \<Rightarrow> operator_candidates b resolve only_first actual_args src_loc rest processed visibility acc
     | Some c \<Rightarrow>
         if \<not> EnsureTypeComplete (b_class_is_complete b) (p_type arg)
         then Some (None, snd acc @ [(UsingIncompleteType (p_type arg), src_loc)])
         else if c \<in> set processed
         then operator_candidates b resolve only_first actual_args src_loc rest processed visibility acc
         else case resolve c of
           None \<Rightarrow> operator_candidates b resolve only_first actual_args src_loc rest (processed @ [c]) visibility acc
         | Some (operators_set, v) \<Rightarrow>
             Option.bind (FetchMatchedOverloadedFunctions b operators_set actual_args False src_loc True acc) (\<lambda>acc'.
               operator_candidates b resolve only_first actual_args src_loc rest (processed @ [c])
                 (visibility @ replicate (length (fst acc') - length (fst acc)) (c, v)) acc'))"

definition visibility_rank :: "ClassMemberVisibility \<Rightarrow> nat" where
  "visibility_rank v = (case v of Public \<Rightarrow> 0 | Protected \<Rightarrow> 1 | Private \<Rightarrow> 2)"

definition GetOverloadedOperator ::
  "('t, 's) Builder \<Rightarrow> (byte list \<Rightarrow> ClassPtr \<Rightarrow> ('t OverloadedFunctionsSet \<times> ClassMemberVisibility) option) \<Rightarrow>
    (ClassPtr \<Rightarrow> ClassMemberVisibility) \<Rightarrow> Param list \<Rightarrow> OverloadedOperator \<Rightarrow> SrcLoc \<Rightarrow> CodeBuilderErrors \<Rightarrow>
    (FunctionVariable option \<times> CodeBuilderErrors) option" where
  "GetOverloadedOperator b ResolveClassValue GetAccessFor actual_args op src_loc errors =
    (let op_name = str (OverloadedOperatorToString op) in
     Option.bind
       (operator_candidates b (ResolveClassValue op_name) (op = Indexing \<or> op = Call) actual_args src_loc actual_args [] [] ([], errors))
       (\<lambda>(found, errors).
         case found of
           None \<Rightarrow> Some (None, errors)
         | Some (classes_visibility, matched_functions) \<Rightarrow>
             if matched_functions = [] then Some (None, errors)
             else map_option (\<lambda>(item, errors).
               case item of
                 None \<Rightarrow> (None, errors)
               | Some k \<Rightarrow>
                   let (func, errors) = FinalizeSelectedFunction b (matched_functions ! k) errors in
                   case func of
                     None \<Rightarrow> (None, errors)
                   | Some f \<Rightarrow>
                       let (c, v) = classes_visibility ! k in
                       (Some f,
                        if visibility_rank (GetAccessFor c) < visibility_rank v
                        then errors @ [(AccessingNonpublicClassMember op_name c, src_loc)] else errors))
               (SelectOverloadedFunction b actual_args False src_loc matched_functions errors)))"

definition SelectTemplateType :: "TemplateSignatureParam list list \<Rightarrow> nat \<Rightarrow> nat option option" where
  "SelectTemplateType candidate_templates arg_count =
    (if candidate_templates = [] then Some None
     else if length candidate_templates = 1 then Some (Some 0)
     else map_option (\<lambda>flags. select_single (map snd flags) 0 None)
       (best_candidates (\<lambda>_ _. True)
         (\<lambda>i l r. if i < length l \<and> i < length r then Some (TemplateSpecializationCompare (l ! i) (r ! i)) else None)
         arg_count candidate_templates))"

end
