(* ===== verification/Overloading_Laws.thy ===== *)
theory Overloading_Laws
  imports Overloading
begin

text \<open>
  Correctness of overloading resolution: the functions of a set stay distinguishable, the candidate that is selected is better than
  every other candidate, and a candidate that is the best one is selected.
\<close>

section \<open>Selection of a candidate\<close>

lemma select_single_later: "select_single flags n (Some m) = (if True \<in> set flags then None else Some m)"
  by (induction flags arbitrary: n) auto

lemma select_single_iff:
  "select_single flags n None = Some k \<longleftrightarrow> (\<exists>i < length flags. k = n + i \<and> (\<forall>j < length flags. flags ! j \<longleftrightarrow> j = i))"
proof (induction flags arbitrary: n)
  case (Cons flag flags)
  then show ?case
    by (cases flag) (auto simp: select_single_later All_less_Suc2 Ex_less_Suc2 in_set_conv_nth)
qed simp

text \<open>
  What the selection relies on in the comparison of candidates: it is defined for valid candidates, candidates that compare as the
  same compare alike with others, and two candidates that are at least as good as each other are the same.
\<close>

locale candidate_order =
  fixes part :: "nat \<Rightarrow> 'c \<Rightarrow> bool"
    and valid :: "nat \<Rightarrow> 'c \<Rightarrow> bool"
    and cmp :: "nat \<Rightarrow> 'c \<Rightarrow> 'c \<Rightarrow> ConversionsCompareResult option"
  assumes total: "valid n l \<Longrightarrow> valid n r \<Longrightarrow> \<exists>c. cmp n l r = Some c"
    and same_left: "valid n l \<Longrightarrow> valid n k \<Longrightarrow> valid n r \<Longrightarrow> cmp n l k = Some Same \<Longrightarrow> cmp n l r = Some c \<Longrightarrow> at_least c \<Longrightarrow>
      cmp n k r = Some c"
    and antisym: "valid n l \<Longrightarrow> valid n r \<Longrightarrow> cmp n l r = Some c \<Longrightarrow> at_least c \<Longrightarrow> cmp n r l = Some d \<Longrightarrow> at_least d \<Longrightarrow> c = Same"
begin

definition better_or_same :: "nat \<Rightarrow> 'c \<Rightarrow> 'c \<Rightarrow> bool" where
  "better_or_same n l r \<longleftrightarrow> (\<exists>c. cmp n l r = Some c \<and> at_least c)"

definition best :: "'c list \<Rightarrow> nat \<Rightarrow> 'c \<Rightarrow> bool" where
  "best cs n l \<longleftrightarrow> part n l \<and> (\<forall>r \<in> set cs. part n r \<longrightarrow> better_or_same n l r)"

definition kept :: "'c list \<Rightarrow> nat \<Rightarrow> 'c \<Rightarrow> bool" where
  "kept cs args k \<longleftrightarrow> (\<forall>n < args. \<forall>l \<in> set cs. best cs n l \<longrightarrow> part n k \<longrightarrow> cmp n l k = Some Same)"

definition all_valid :: "'c list \<Rightarrow> nat \<Rightarrow> bool" where
  "all_valid cs args \<longleftrightarrow> (\<forall>n < args. \<forall>c \<in> set cs. part n c \<longrightarrow> valid n c)"

lemma is_best_eq:
  assumes "\<forall>r \<in> set cs. part n r \<longrightarrow> (\<exists>c. cmp n l r = Some c)"
  shows "is_best (part n) (cmp n l) cs = Some (\<forall>r \<in> set cs. part n r \<longrightarrow> better_or_same n l r)"
  using assms by (induction cs) (auto simp: better_or_same_def at_least_def)

lemma exclude_worse_eq:
  assumes "\<forall>r \<in> set cs. part n r \<longrightarrow> (\<exists>c. cmp n l r = Some c)"
  shows "exclude_worse (part n) (cmp n l) (map (\<lambda>c. (c, f c)) cs) =
    Some (map (\<lambda>c. (c, f c \<and> (part n c \<longrightarrow> cmp n l c = Some Same))) cs)"
  using assms by (induction cs) auto

lemma exclude_for_candidate_eq:
  assumes "all_valid cs args" and "n < args" and "l \<in> set cs"
  shows "exclude_for_candidate (part n) (cmp n) l (map (\<lambda>c. (c, f c)) cs) =
    Some (map (\<lambda>c. (c, f c \<and> (best cs n l \<longrightarrow> part n c \<longrightarrow> cmp n l c = Some Same))) cs)"
proof (cases "part n l")
  case True
  have "\<forall>r \<in> set cs. part n r \<longrightarrow> (\<exists>c. cmp n l r = Some c)"
    using assms True total [of n l] by (auto simp: all_valid_def)
  from is_best_eq [OF this] exclude_worse_eq [OF this] True show ?thesis
    by (auto simp: exclude_for_candidate_def best_def o_def)
qed (simp add: exclude_for_candidate_def best_def)

lemma exclude_for_all:
  assumes "all_valid cs args" and "n < args" and "set ls \<subseteq> set cs"
  shows "foldM (exclude_for_candidate (part n) (cmp n)) ls (map (\<lambda>c. (c, f c)) cs) =
    Some (map (\<lambda>c. (c, f c \<and> (\<forall>l \<in> set ls. best cs n l \<longrightarrow> part n c \<longrightarrow> cmp n l c = Some Same))) cs)"
  using assms(3)
proof (induction ls arbitrary: f)
  case (Cons l ls)
  then show ?case
    by (simp add: exclude_for_candidate_eq [OF assms(1,2)] conj_assoc)
qed simp

lemma exclude_for_args:
  assumes "all_valid cs args" and "set ns \<subseteq> {..<args}"
  shows "foldM (\<lambda>n. foldM (exclude_for_candidate (part n) (cmp n)) cs) ns (map (\<lambda>c. (c, f c)) cs) =
    Some (map (\<lambda>c. (c, f c \<and> (\<forall>n \<in> set ns. \<forall>l \<in> set cs. best cs n l \<longrightarrow> part n c \<longrightarrow> cmp n l c = Some Same))) cs)"
  using assms(2)
proof (induction ns arbitrary: f)
  case (Cons n ns)
  then show ?case by (simp add: exclude_for_all [OF assms(1)] conj_assoc)
qed simp

lemma best_candidates_eq:
  assumes "all_valid cs args"
  shows "best_candidates part cmp args cs = Some (map (\<lambda>c. (c, kept cs args c)) cs)"
  using exclude_for_args [OF assms, of "[0..<args]" "\<lambda>_. True"] by (auto simp: best_candidates_def kept_def atLeast0LessThan)

definition selected :: "'c list \<Rightarrow> nat \<Rightarrow> nat option" where
  "selected cs args = select_single (map (kept cs args) cs) 0 None"

lemma selected_iff:
  "selected cs args = Some k \<longleftrightarrow> k < length cs \<and> (\<forall>j < length cs. kept cs args (cs ! j) \<longleftrightarrow> j = k)"
  by (auto simp: selected_def select_single_iff)

lemma selected_better:
  assumes "all_valid cs args" and "selected cs args = Some k" and "j < length cs" and "j \<noteq> k"
  shows "\<exists>n < args. part n (cs ! j) \<and> (\<exists>l \<in> set cs. best cs n l \<and> cmp n l (cs ! j) = Some LeftIsBetter) \<and>
    (part n (cs ! k) \<longrightarrow> best cs n (cs ! k) \<and> cmp n (cs ! k) (cs ! j) = Some LeftIsBetter)"
proof -
  have k: "k < length cs" "kept cs args (cs ! k)" "\<not> kept cs args (cs ! j)"
    using assms by (auto simp: selected_iff)
  then obtain n l where n: "n < args" "l \<in> set cs" "best cs n l" "part n (cs ! j)" "cmp n l (cs ! j) \<noteq> Some Same"
    by (auto simp: kept_def)
  then have l: "cmp n l (cs ! j) = Some LeftIsBetter"
    using assms(3) nth_mem [of j cs] by (auto simp: best_def better_or_same_def at_least_def)
  have "best cs n (cs ! k) \<and> cmp n (cs ! k) (cs ! j) = Some LeftIsBetter" if part: "part n (cs ! k)"
  proof -
    have same: "cmp n l (cs ! k) = Some Same" using k n part by (auto simp: kept_def)
    have v: "valid n c" if "c \<in> set cs" "part n c" for c using assms(1) n(1) that by (auto simp: all_valid_def)
    have "valid n l" "valid n (cs ! k)" using v n k(1) part by (auto simp: best_def)
    from same_left [OF this _ same] v l n show ?thesis
      using part assms(3) by (fastforce simp: best_def better_or_same_def)
  qed
  with n l show ?thesis by blast
qed

lemma best_selected:
  assumes "all_valid cs args" and "k < length cs" and "\<forall>n < args. best cs n (cs ! k)"
    and "\<forall>j < length cs. j \<noteq> k \<longrightarrow> (\<exists>n < args. part n (cs ! j) \<and> cmp n (cs ! k) (cs ! j) = Some LeftIsBetter)"
  shows "selected cs args = Some k"
proof -
  have "kept cs args (cs ! k)"
    unfolding kept_def
  proof (intro allI ballI impI)
    fix n l assume n: "n < args" "l \<in> set cs" "best cs n l" "part n (cs ! k)"
    have "valid n l" "valid n (cs ! k)" using assms(1,2) n by (auto simp: all_valid_def best_def)
    moreover have "better_or_same n l (cs ! k)" "better_or_same n (cs ! k) l"
      using n assms(2,3) by (auto simp: best_def)
    ultimately show "cmp n l (cs ! k) = Some Same" using antisym by (auto simp: better_or_same_def)
  qed
  moreover have "\<not> kept cs args (cs ! j)" if j: "j < length cs" "j \<noteq> k" for j
  proof
    assume kept: "kept cs args (cs ! j)"
    obtain n where n: "n < args" "part n (cs ! j)" "cmp n (cs ! k) (cs ! j) = Some LeftIsBetter" using assms(4) j by blast
    with kept assms(2,3) have "cmp n (cs ! k) (cs ! j) = Some Same" by (simp add: kept_def)
    with n(3) show False by simp
  qed
  ultimately show ?thesis using assms(2) by (auto simp: selected_iff)
qed

end

section \<open>Type templates\<close>

lemma compare_same_left:
  assumes "TemplateSpecializationCompare l k = Same" and "TemplateSpecializationCompare l r = c" and "at_least c"
  shows "TemplateSpecializationCompare k r = c"
proof -
  have lk: "special l k" "special k l" using assms(1) by (simp_all add: compare_special(1))
  have "special l r" using assms(2,3) by (simp flip: TemplateSpecializationCompare_special(1))
  then have "special k r" using lk special_trans by blast
  moreover have "special r k \<longleftrightarrow> special r l" using lk special_trans by blast
  moreover have "c = Same \<or> c = LeftIsBetter" using assms(3) by (simp add: at_least_def)
  ultimately show ?thesis using assms(2) compare_special(1,2) [of l r] compare_special(1,2) [of k r] by metis
qed

lemma compare_antisym:
  assumes "at_least (TemplateSpecializationCompare l r)" and "at_least (TemplateSpecializationCompare r l)"
  shows "TemplateSpecializationCompare l r = Same"
  using assms by (simp add: TemplateSpecializationCompare_special(1) special_Same)

definition compare_signatures :: "nat \<Rightarrow> TemplateSignatureParam list \<Rightarrow> TemplateSignatureParam list \<Rightarrow> ConversionsCompareResult option" where
  "compare_signatures i l r = (if i < length l \<and> i < length r then Some (TemplateSpecializationCompare (l ! i) (r ! i)) else None)"

interpretation templates: candidate_order "\<lambda>_ _. True" "\<lambda>i l. i < length l" compare_signatures
proof
  fix n and l r k :: "TemplateSignatureParam list" and c d
  show "n < length l \<Longrightarrow> n < length r \<Longrightarrow> \<exists>c. compare_signatures n l r = Some c"
    by (simp add: compare_signatures_def)
  show "compare_signatures n k r = Some c"
    if "n < length l" "n < length k" "n < length r" "compare_signatures n l k = Some Same"
      "compare_signatures n l r = Some c" "at_least c"
    using that compare_same_left [of "l ! n" "k ! n" "r ! n" c] by (simp add: compare_signatures_def)
  show "c = Same" if "n < length l" "n < length r" "compare_signatures n l r = Some c" "at_least c"
      "compare_signatures n r l = Some d" "at_least d"
    using that compare_antisym [of "l ! n" "r ! n"] by (simp add: compare_signatures_def)
qed

lemma SelectTemplateType_selected:
  assumes "length cs \<ge> 2" and "\<forall>c \<in> set cs. arg_count \<le> length c"
  shows "SelectTemplateType cs arg_count = Some (templates.selected cs arg_count)"
proof -
  have "templates.all_valid cs arg_count" using assms(2) by (fastforce simp: templates.all_valid_def)
  from templates.best_candidates_eq [OF this] assms(1) show ?thesis
    by (auto simp: SelectTemplateType_def templates.selected_def o_def simp flip: compare_signatures_def)
qed

text \<open>Candidate \<open>k\<close> is at least as special as every candidate for argument \<open>i\<close>.\<close>

definition most_special :: "TemplateSignatureParam list list \<Rightarrow> nat \<Rightarrow> nat \<Rightarrow> bool" where
  "most_special cs i k \<longleftrightarrow> (\<forall>r \<in> set cs. special (cs ! k ! i) (r ! i))"

lemma templates_best:
  assumes "\<forall>c \<in> set cs. arg_count \<le> length c" and "i < arg_count" and "k < length cs"
  shows "templates.best cs i (cs ! k) \<longleftrightarrow> most_special cs i k"
proof -
  have "templates.better_or_same i (cs ! k) r \<longleftrightarrow> special (cs ! k ! i) (r ! i)" if "r \<in> set cs" for r
  proof -
    have "i < length (cs ! k)" "i < length r" using assms that nth_mem [of k cs] by fastforce+
    then show ?thesis
      by (simp add: templates.better_or_same_def compare_signatures_def TemplateSpecializationCompare_special(1))
  qed
  then show ?thesis by (simp add: templates.best_def most_special_def)
qed

lemma templates_better:
  assumes "\<forall>c \<in> set cs. arg_count \<le> length c" and "i < arg_count" and "k < length cs" and "j < length cs"
  shows "compare_signatures i (cs ! k) (cs ! j) = Some LeftIsBetter \<longleftrightarrow>
    special (cs ! k ! i) (cs ! j ! i) \<and> \<not> special (cs ! j ! i) (cs ! k ! i)"
proof -
  have "i < length (cs ! k)" "i < length (cs ! j)" using assms nth_mem [of k cs] nth_mem [of j cs] by fastforce+
  then show ?thesis by (simp add: compare_signatures_def compare_special(2))
qed

lemma SelectTemplateType_best:
  assumes "length cs \<ge> 2" and "\<forall>c \<in> set cs. arg_count \<le> length c"
  shows "\<exists>s. SelectTemplateType cs arg_count = Some s \<and>
    (\<forall>k. s = Some k \<longrightarrow> k < length cs \<and>
      (\<forall>j < length cs. j \<noteq> k \<longrightarrow> (\<exists>i < arg_count. most_special cs i k \<and> \<not> special (cs ! j ! i) (cs ! k ! i)))) \<and>
    (\<forall>k < length cs. (\<forall>i < arg_count. most_special cs i k) \<longrightarrow>
      (\<forall>j < length cs. j \<noteq> k \<longrightarrow> (\<exists>i < arg_count. \<not> special (cs ! j ! i) (cs ! k ! i))) \<longrightarrow> s = Some k)"
proof -
  have valid: "templates.all_valid cs arg_count" using assms(2) by (fastforce simp: templates.all_valid_def)
  note best = templates_best [OF assms(2)] and better = templates_better [OF assms(2)]
  let ?s = "templates.selected cs arg_count"
  have sound: "k < length cs \<and>
      (\<forall>j < length cs. j \<noteq> k \<longrightarrow> (\<exists>i < arg_count. most_special cs i k \<and> \<not> special (cs ! j ! i) (cs ! k ! i)))"
    if k: "?s = Some k" for k
  proof -
    have "k < length cs" using k by (simp add: templates.selected_iff)
    then show ?thesis using templates.selected_better [OF valid k] best better by blast
  qed
  have complete: "?s = Some k" if "k < length cs" "\<forall>i < arg_count. most_special cs i k"
      "\<forall>j < length cs. j \<noteq> k \<longrightarrow> (\<exists>i < arg_count. \<not> special (cs ! j ! i) (cs ! k ! i))" for k
  proof (rule templates.best_selected [OF valid that(1)])
    show "\<forall>i < arg_count. templates.best cs i (cs ! k)" using that(1,2) best by blast
    have "\<exists>i < arg_count. compare_signatures i (cs ! k) (cs ! j) = Some LeftIsBetter" if "j < length cs" "j \<noteq> k" for j
      using \<open>k < length cs\<close> that(1) \<open>\<forall>j < length cs. j \<noteq> k \<longrightarrow> _ j\<close> that \<open>\<forall>i < arg_count. most_special cs i k\<close> better [OF _ \<open>k < length cs\<close> that(1)]
      unfolding most_special_def by (meson nth_mem)
    then show "\<forall>j < length cs. j \<noteq> k \<longrightarrow> (\<exists>n < arg_count. True \<and> compare_signatures n (cs ! k) (cs ! j) = Some LeftIsBetter)"
      by simp
  qed
  show ?thesis
    using SelectTemplateType_selected [OF assms] sound complete by blast
qed

text \<open>
  C25. Among two or more type templates, the one that is selected is for every other template the most special one at
  some argument, and strictly more special there than the other. And a template that is most special at every argument, and strictly more
  special than every other one at some argument, is selected.
\<close>

theorem SelectTemplateType_correct:
  assumes "length cs \<ge> 2" and "\<forall>c \<in> set cs. arg_count \<le> length c"
  shows "\<exists>s. SelectTemplateType cs arg_count = Some s \<and>
    (\<forall>k. s = Some k \<longrightarrow> k < length cs \<and>
      (\<forall>j < length cs. j \<noteq> k \<longrightarrow> (\<exists>i < arg_count. most_special cs i k \<and> \<not> special (cs ! j ! i) (cs ! k ! i)))) \<and>
    (\<forall>k < length cs. (\<forall>i < arg_count. most_special cs i k) \<longrightarrow>
      (\<forall>j < length cs. j \<noteq> k \<longrightarrow> (\<exists>i < arg_count. \<not> special (cs ! j ! i) (cs ! k ! i))) \<longrightarrow> s = Some k)"
  by (rule SelectTemplateType_best [OF assms])

definition example_templates :: "TemplateSignatureParam list list" where
  "example_templates = [[TemplateParam 0 0], [RawPointerParam (TemplateParam 0 0)]]"

theorem SelectTemplateType_correct_witness: "SelectTemplateType example_templates 1 = Some (Some 1)"
  using SelectTemplateType_correct [of example_templates 1]
  by (auto simp: example_templates_def most_special_def special_simps less_Suc_eq nth_Cons')

section \<open>Functions\<close>

lemma erase_ClassType: "erase l = erase k \<Longrightarrow> l = ClassType c \<longleftrightarrow> k = ClassType c"
  by (cases l; cases k) auto

lemma ReferenceIsConvertibleTo_cong:
  assumes "wf (parent_of (classes tb))" and "erase l = erase k"
  shows "ReferenceIsConvertibleTo tb l x = ReferenceIsConvertibleTo tb k x"
    and "ReferenceIsConvertibleTo tb x l = ReferenceIsConvertibleTo tb x k"
  using erase_ClassType [OF assms(2)] assms(2)
  by (simp_all add: ReferenceIsConvertibleTo_iff [OF assms(1)] Type_eq_iff)

definition convertible :: "Tables \<Rightarrow> Type \<Rightarrow> Type \<Rightarrow> bool" where
  "convertible tb a b \<longleftrightarrow> ReferenceIsConvertibleTo tb a b = Some True"

lemma CompareConversionsTypes_total:
  assumes "wf (parent_of (classes tb))"
  shows "CompareConversionsTypes tb src l r = Some
    (if Type_eq l r then Same
     else if Type_eq src l then LeftIsBetter
     else if Type_eq src r then RightIsBetter
     else if convertible tb src l \<and> convertible tb src r then
       if convertible tb r l then RightIsBetter else if convertible tb l r then LeftIsBetter else Incomparable
     else if convertible tb src l then LeftIsBetter
     else if convertible tb src r then RightIsBetter
     else Incomparable)"
proof -
  have "ReferenceIsConvertibleTo tb a b = Some (convertible tb a b)" for a b
    by (simp add: ReferenceIsConvertibleTo_iff [OF assms] convertible_def)
  then show ?thesis by (simp add: CompareConversionsTypes_def)
qed

lemma CompareConversionsTypes_cong:
  assumes "wf (parent_of (classes tb))" and "Type_eq l k"
  shows "CompareConversionsTypes tb src l r = CompareConversionsTypes tb src k r"
  using assms(2) ReferenceIsConvertibleTo_cong [OF assms(1), of l k]
  by (simp add: CompareConversionsTypes_total [OF assms(1)] Type_eq_iff convertible_def)

lemma CompareConversionsTypes_swap:
  assumes "wf (parent_of (classes tb))" and "CompareConversionsTypes tb src l r = Some c" and "at_least c"
    and "CompareConversionsTypes tb src r l = Some d" and "at_least d"
  shows "c = Same"
proof (rule ccontr)
  assume "c \<noteq> Same"
  then have "c = LeftIsBetter" using assms(3) by (simp add: at_least_def)
  with assms(2,4,5) show False
    unfolding CompareConversionsTypes_total [OF assms(1)] by (auto simp: Type_eq_iff split: if_splits)
qed

lemma CompareConversions_props:
  assumes "wf (parent_of (classes tb))"
  shows "\<exists>c. CompareConversions tb src l r = Some c"
    and "CompareConversions tb src l k = Some Same \<Longrightarrow> CompareConversions tb src l r = CompareConversions tb src k r"
    and "CompareConversions tb src l r = Some c \<Longrightarrow> at_least c \<Longrightarrow> CompareConversions tb src r l = Some d \<Longrightarrow> at_least d \<Longrightarrow> c = Same"
proof -
  note types = CompareConversionsTypes_total [OF assms]
  show "\<exists>c. CompareConversions tb src l r = Some c" by (simp add: CompareConversions_def types)
  show "CompareConversions tb src l r = CompareConversions tb src k r" if "CompareConversions tb src l k = Some Same"
  proof -
    obtain t where t: "CompareConversionsTypes tb (p_type src) (p_type l) (p_type k) = Some t" using types by blast
    have "t = Same \<and> CompareConversionsMutability src l k = Same"
      using that t by (auto simp: CompareConversions_def Let_def split: if_splits)
    then have "Type_eq (p_type l) (p_type k)" "GetArgOverloadingClass l = GetArgOverloadingClass k"
      using t unfolding types by (auto simp: CompareConversionsMutability_def Let_def split: if_splits)
    then show ?thesis
      using CompareConversionsTypes_cong [OF assms, of "p_type l" "p_type k"]
      by (simp add: CompareConversions_def CompareConversionsMutability_def)
  qed
  show "c = Same" if "CompareConversions tb src l r = Some c" "at_least c" "CompareConversions tb src r l = Some d" "at_least d"
  proof -
    obtain t u where tu: "CompareConversionsTypes tb (p_type src) (p_type l) (p_type r) = Some t"
      "CompareConversionsTypes tb (p_type src) (p_type r) (p_type l) = Some u" using types by blast
    define m n where "m = CompareConversionsMutability src l r" and "n = CompareConversionsMutability src r l"
    have "at_least t \<and> at_least m" "at_least u \<and> at_least n" "t = Same \<longrightarrow> m = Same \<longrightarrow> c = Same"
      using that tu by (auto simp: CompareConversions_def Let_def m_def n_def at_least_def split: if_splits)
    moreover have "m = Same" if "at_least m" "at_least n"
      using that by (auto simp: m_def n_def CompareConversionsMutability_def Let_def split: if_splits)
    ultimately show ?thesis using CompareConversionsTypes_swap [OF assms tu(1) _ tu(2)] by blast
  qed
qed

definition item_valid :: "('t, 's) Builder \<Rightarrow> bool \<Rightarrow> nat \<Rightarrow> ('t, 's) OverloadingResolutionItem \<Rightarrow> bool" where
  "item_valid b first_actual_arg_is_this n item \<longleftrightarrow> wf (parent_of (classes (b_tables b))) \<and>
    (\<exists>p. OverloadingResolutionItemGetParamExtendedType b item (item_arg_n b first_actual_arg_is_this n item) = Some p) \<and>
    (\<exists>p. OverloadingResolutionItemGetTemplateSignatureParam item (item_arg_n b first_actual_arg_is_this n item) = Some p)"

definition item_param :: "('t, 's) Builder \<Rightarrow> bool \<Rightarrow> nat \<Rightarrow> ('t, 's) OverloadingResolutionItem \<Rightarrow> Param" where
  "item_param b ft n item = the (OverloadingResolutionItemGetParamExtendedType b item (item_arg_n b ft n item))"

definition item_signature :: "('t, 's) Builder \<Rightarrow> bool \<Rightarrow> nat \<Rightarrow> ('t, 's) OverloadingResolutionItem \<Rightarrow> TemplateSignatureParam" where
  "item_signature b ft n item = the (OverloadingResolutionItemGetTemplateSignatureParam item (item_arg_n b ft n item))"

lemma compare_items_valid:
  "item_valid b ft n l \<Longrightarrow> item_valid b ft n r \<Longrightarrow> compare_items b args ft n l r =
    CompareConversions_templates (b_tables b) (args ! n) (item_param b ft n l) (item_param b ft n r)
      (item_signature b ft n l) (item_signature b ft n r)"
  by (auto simp: item_valid_def compare_items_def item_param_def item_signature_def)

lemma CompareConversions_templates_props:
  assumes "wf (parent_of (classes tb))"
  shows "\<exists>c. CompareConversions_templates tb src l r s t = Some c"
    and "CompareConversions_templates tb src l k s u = Some Same \<Longrightarrow> CompareConversions_templates tb src l r s t = Some c \<Longrightarrow>
      at_least c \<Longrightarrow> CompareConversions_templates tb src k r u t = Some c"
    and "CompareConversions_templates tb src l r s t = Some c \<Longrightarrow> at_least c \<Longrightarrow>
      CompareConversions_templates tb src r l t s = Some d \<Longrightarrow> at_least d \<Longrightarrow> c = Same"
proof -
  note props = CompareConversions_props [OF assms]
  show "\<exists>c. CompareConversions_templates tb src l r s t = Some c"
    using props(1) by (auto simp: CompareConversions_templates_def)
  show "CompareConversions_templates tb src k r u t = Some c"
    if "CompareConversions_templates tb src l k s u = Some Same" "CompareConversions_templates tb src l r s t = Some c" "at_least c"
  proof -
    have "CompareConversions tb src l k = Some Same" "TemplateSpecializationCompare s u = Same"
      using that(1) by (auto simp: CompareConversions_templates_def split: if_splits)
    with that(2,3) props(2) [of src l k r] compare_same_left [of s u t c] show ?thesis
      by (auto simp: CompareConversions_templates_def split: if_splits)
  qed
  show "c = Same" if "CompareConversions_templates tb src l r s t = Some c" "at_least c"
      "CompareConversions_templates tb src r l t s = Some d" "at_least d"
  proof -
    obtain x y where xy: "CompareConversions tb src l r = Some x" "CompareConversions tb src r l = Some y" using props(1) by blast
    have "at_least x" "at_least y" using that xy by (auto simp: CompareConversions_templates_def split: if_splits)
    with props(3) xy have "x = Same" "y = Same" by blast+
    with that xy compare_antisym [of s t] show ?thesis by (auto simp: CompareConversions_templates_def)
  qed
qed

interpretation candidates: candidate_order "takes_part b ft" "item_valid b ft" "compare_items b args ft" for b ft args
proof
  fix n l r k c d
  { assume "item_valid b ft n l"
    then have "wf (parent_of (classes (b_tables b)))" by (simp add: item_valid_def) }
  note props = CompareConversions_templates_props [OF this]
  show "\<exists>c. compare_items b args ft n l r = Some c" if "item_valid b ft n l" "item_valid b ft n r"
    using that props(1) by (simp add: compare_items_valid)
  show "c = Same" if "item_valid b ft n l" "item_valid b ft n r" "compare_items b args ft n l r = Some c" "at_least c"
      "compare_items b args ft n r l = Some d" "at_least d"
    using that props(3) [OF that(1)] unfolding compare_items_valid [OF that(1,2)] compare_items_valid [OF that(2,1)] by blast
  show "compare_items b args ft n k r = Some c"
    if "item_valid b ft n l" "item_valid b ft n k" "item_valid b ft n r" "compare_items b args ft n l k = Some Same"
      "compare_items b args ft n l r = Some c" "at_least c"
    using that props(2) [OF that(1)]
    unfolding compare_items_valid [OF that(1,2)] compare_items_valid [OF that(1,3)] compare_items_valid [OF that(2,3)] by blast
qed

text \<open>Item \<open>l\<close> is at least as good as item \<open>r\<close> for argument \<open>n\<close>; item \<open>k\<close> is the best one for it.\<close>

definition at_least_as_good ::
  "('t, 's) Builder \<Rightarrow> Param list \<Rightarrow> bool \<Rightarrow> nat \<Rightarrow> ('t, 's) OverloadingResolutionItem \<Rightarrow> ('t, 's) OverloadingResolutionItem \<Rightarrow> bool" where
  "at_least_as_good b args ft n l r \<longleftrightarrow> (\<exists>c. compare_items b args ft n l r = Some c \<and> at_least c)"

definition best_for_arg ::
  "('t, 's) Builder \<Rightarrow> Param list \<Rightarrow> bool \<Rightarrow> ('t, 's) OverloadingResolutionItem list \<Rightarrow> nat \<Rightarrow> ('t, 's) OverloadingResolutionItem \<Rightarrow> bool" where
  "best_for_arg b args ft items n k \<longleftrightarrow> takes_part b ft n k \<and>
    (\<forall>r \<in> set items. takes_part b ft n r \<longrightarrow> at_least_as_good b args ft n k r)"

lemma best_for_arg: "candidates.best b ft args items n k \<longleftrightarrow> best_for_arg b args ft items n k"
  by (simp add: candidates.best_def candidates.better_or_same_def best_for_arg_def at_least_as_good_def)

lemma SelectOverloadedFunction_selected:
  assumes "length items \<ge> 2" and "\<forall>n < length args. \<forall>i \<in> set items. takes_part b ft n i \<longrightarrow> item_valid b ft n i"
  shows "SelectOverloadedFunction b args ft src_loc items errors =
    Some (candidates.selected b ft args items (length args),
      if candidates.selected b ft args items (length args) = None
      then errors @ [(TooManySuitableOverloadedFunctions args, src_loc)] else errors)"
proof -
  have "candidates.all_valid b ft items (length args)" using assms(2) by (simp add: candidates.all_valid_def)
  from candidates.best_candidates_eq [OF this] assms(1) show ?thesis
    by (auto simp: SelectOverloadedFunction_def candidates.selected_def o_def Let_def)
qed

text \<open>
  C14. If inheritance has no cycle and the parameters of the matching functions fit the arguments, the function that is
  selected among several is better than every other one: for each of the others there is an argument for which the selected function is the
  best one and better than the other (or for which, as a static function called through \<^verbatim>\<open>this\<close>, it has no parameter). If some function
  is the best for every argument and better than each other one for some argument, then it is selected. An error is reported if and only if no function
  is selected.
\<close>

theorem SelectOverloadedFunction_correct:
  assumes "length items \<ge> 2" and "\<forall>n < length args. \<forall>i \<in> set items. takes_part b ft n i \<longrightarrow> item_valid b ft n i"
  shows "\<exists>s. SelectOverloadedFunction b args ft src_loc items errors =
      Some (s, if s = None then errors @ [(TooManySuitableOverloadedFunctions args, src_loc)] else errors) \<and>
    (\<forall>k. s = Some k \<longrightarrow> k < length items \<and> (\<forall>j < length items. j \<noteq> k \<longrightarrow>
      (\<exists>n < length args. takes_part b ft n (items ! j) \<and> (takes_part b ft n (items ! k) \<longrightarrow>
        best_for_arg b args ft items n (items ! k) \<and> compare_items b args ft n (items ! k) (items ! j) = Some LeftIsBetter)))) \<and>
    (\<forall>k < length items. (\<forall>n < length args. best_for_arg b args ft items n (items ! k)) \<longrightarrow>
      (\<forall>j < length items. j \<noteq> k \<longrightarrow> (\<exists>n < length args. takes_part b ft n (items ! j) \<and>
        compare_items b args ft n (items ! k) (items ! j) = Some LeftIsBetter)) \<longrightarrow> s = Some k)"
proof -
  have valid: "candidates.all_valid b ft items (length args)" using assms(2) by (simp add: candidates.all_valid_def)
  have "k < length items" if "candidates.selected b ft args items (length args) = Some k" for k
    using that by (simp add: candidates.selected_iff)
  with SelectOverloadedFunction_selected [OF assms] candidates.selected_better [OF valid, unfolded best_for_arg]
    candidates.best_selected [OF valid, unfolded best_for_arg]
  show ?thesis by blast
qed

section \<open>Sets of functions\<close>

text \<open>Two functions differ in the number of parameters, or in the type or the overloading class of a parameter.\<close>

definition distinguishable :: "FunctionVariable \<Rightarrow> FunctionVariable \<Rightarrow> bool" where
  "distinguishable f g \<longleftrightarrow> length (params (fv_type f)) \<noteq> length (params (fv_type g)) \<or>
    (\<exists>i < length (params (fv_type f)).
      \<not> Type_eq (p_type (params (fv_type f) ! i)) (p_type (params (fv_type g) ! i)) \<or>
      GetArgOverloadingClass (params (fv_type f) ! i) \<noteq> GetArgOverloadingClass (params (fv_type g) ! i))"

lemma length_filter_eq_iff: "length (filter P xs) = length xs \<longleftrightarrow> (\<forall>x \<in> set xs. P x)"
  by (metis filter_True length_filter_less less_irrefl)

lemma could_not_overload_iff: "could_not_overload f g \<longleftrightarrow> \<not> distinguishable f g"
proof (cases "length (params (fv_type f)) = length (params (fv_type g))")
  case True
  let ?z = "zip (params (fv_type f)) (params (fv_type g))"
  have "length ?z = length (params (fv_type f))" using True by simp
  with length_filter_eq_iff [of "\<lambda>(p, q). param_is_same p q" ?z] True show ?thesis
    by (auto simp: could_not_overload_def distinguishable_def Let_def set_zip param_is_same_def)
qed (simp add: could_not_overload_def distinguishable_def Let_def)

lemma distinguishable_sym: "distinguishable f g \<longleftrightarrow> distinguishable g f"
  by (auto simp: distinguishable_def Type_eq_iff)

text \<open>
  C26. A function is added to a set of overloaded functions if and only if it is distinguishable from all functions of the set;
  otherwise the set stays as it is and one error is reported. So the functions of a set are pairwise distinguishable at all times.
\<close>

theorem ApplyOverloadedFunction_correct:
  assumes "sorted_wrt distinguishable fs" and "ApplyOverloadedFunction f src_loc (fs, errors) = (ok, fs', errors')"
  shows "sorted_wrt distinguishable fs' \<and> (ok \<longleftrightarrow> (\<forall>g \<in> set fs. distinguishable f g)) \<and>
    fs' = (if ok then fs @ [f] else fs) \<and> errors' = (if ok then errors else errors @ [(CouldNotOverloadFunction, src_loc)])"
  using assms distinguishable_sym
  by (auto simp: ApplyOverloadedFunction_def list_ex_iff could_not_overload_iff sorted_wrt_append split: if_splits)

definition example_function :: "Param list \<Rightarrow> FunctionVariable" where
  "example_function ps = \<lparr> fv_type = FunctionType ps (Fundamental void_t 0) Value False Default [] [] [],
    fv_is_this_call = False, fv_is_constructor = False, fv_is_conversion_constructor = False \<rparr>"

definition example_i32 :: "ValueType \<Rightarrow> Param" where
  "example_i32 vt = Param (Fundamental i32_t 0) vt"

theorem ApplyOverloadedFunction_correct_witness:
  "sorted_wrt distinguishable [example_function [example_i32 Value], example_function [example_i32 ReferenceMut]] \<and>
   ApplyOverloadedFunction (example_function [example_i32 ReferenceMut]) (SrcLoc_make 0 1 0) ([example_function [example_i32 Value]], []) =
     (True, [example_function [example_i32 Value], example_function [example_i32 ReferenceMut]], [])"
proof -
  have e: "ApplyOverloadedFunction (example_function [example_i32 ReferenceMut]) (SrcLoc_make 0 1 0) ([example_function [example_i32 Value]], []) =
     (True, [example_function [example_i32 Value], example_function [example_i32 ReferenceMut]], [])"
    by (simp add: ApplyOverloadedFunction_def could_not_overload_def example_function_def example_i32_def param_is_same_def
        GetArgOverloadingClass_def)
  show ?thesis using ApplyOverloadedFunction_correct [OF _ e] e by simp
qed

section \<open>Resolution\<close>

text \<open>
  An argument fits a parameter: a mutable reference is only bound to a mutable reference, and the types are equal, or the reference
  converts, or a conversion constructor makes an immutable argument.
\<close>

definition arg_fits :: "('t, 's) Builder \<Rightarrow> SrcLoc \<Rightarrow> Param \<Rightarrow> Param \<Rightarrow> bool" where
  "arg_fits b src_loc a p \<longleftrightarrow>
    (GetArgOverloadingClass p = MutalbeReference \<longrightarrow> GetArgOverloadingClass a = MutalbeReference) \<and>
    (Type_eq (p_type a) (p_type p) \<or> convertible (b_tables b) (p_type a) (p_type p) \<or>
     GetArgOverloadingClass p = ImmutableReference \<and>
       (\<exists>es es'. HasConversionConstructor b a (p_type p) src_loc es = Some (True, es')))"

definition call_args :: "Param list \<Rightarrow> bool \<Rightarrow> bool \<Rightarrow> Param list" where
  "call_args args ft is_this_call = (if ft \<and> \<not> is_this_call then tl args else args)"

definition function_fits :: "('t, 's) Builder \<Rightarrow> Param list \<Rightarrow> bool \<Rightarrow> SrcLoc \<Rightarrow> FunctionVariable \<Rightarrow> bool" where
  "function_fits b args ft src_loc f \<longleftrightarrow> list_all2 (arg_fits b src_loc) (call_args args ft (fv_is_this_call f)) (params (fv_type f))"

definition hierarchy_ok :: "('t, 's) Builder \<Rightarrow> bool" where
  "hierarchy_ok b \<longleftrightarrow> wf (parent_of (classes (b_tables b)))"

lemma ReferenceIsConvertible_total:
  assumes "hierarchy_ok b"
  shows "\<exists>es'. ReferenceIsConvertible b s t src_loc es = Some (Type_eq s t \<or> convertible (b_tables b) s t, es')"
  using assms by (auto simp: ReferenceIsConvertible_def convertible_def hierarchy_ok_def ReferenceIsConvertibleTo_iff Let_def)

lemma arg_is_compatible_props:
  assumes "hierarchy_ok b" and "enable \<Longrightarrow> \<exists>r. hc a (p_type p) src_loc = r \<and> (\<forall>es. \<exists>x. r es = Some x)"
  shows "\<exists>ok es'. arg_is_compatible b hc enable f src_loc a p es = Some (ok, es') \<and>
    (ok \<longrightarrow> (GetArgOverloadingClass p = MutalbeReference \<longrightarrow> GetArgOverloadingClass a = MutalbeReference) \<and>
      (Type_eq (p_type a) (p_type p) \<or> convertible (b_tables b) (p_type a) (p_type p) \<or>
       enable \<and> GetArgOverloadingClass p = ImmutableReference \<and> (\<exists>es es'. hc a (p_type p) src_loc es = Some (True, es'))))"
proof -
  obtain es1 where "ReferenceIsConvertible b (p_type a) (p_type p) src_loc es =
      Some (Type_eq (p_type a) (p_type p) \<or> convertible (b_tables b) (p_type a) (p_type p), es1)"
    using ReferenceIsConvertible_total [OF assms(1)] by blast
  moreover have "enable \<Longrightarrow> \<exists>ok es'. hc a (p_type p) src_loc es1 = Some (ok, es')" using assms(2) by (metis surj_pair)
  ultimately show ?thesis by (auto simp: arg_is_compatible_def) blast+
qed

lemma args_are_compatible_props:
  assumes "\<And>a p es. (a, p) \<in> set aps \<Longrightarrow> \<exists>ok es'. test a p es = Some (ok, es') \<and> (ok \<longrightarrow> P a p)"
  shows "\<exists>ok es'. args_are_compatible test aps es = Some (ok, es') \<and> (ok \<longrightarrow> (\<forall>(a, p) \<in> set aps. P a p))"
  using assms
proof (induction aps arbitrary: es)
  case (Cons ap aps)
  obtain ok es' where t: "test (fst ap) (snd ap) es = Some (ok, es')" "ok \<longrightarrow> P (fst ap) (snd ap)"
    using Cons.prems [of "fst ap" "snd ap" es] by auto
  obtain ok2 es2 where r: "args_are_compatible test aps es' = Some (ok2, es2)" "ok2 \<longrightarrow> (\<forall>(a, p) \<in> set aps. P a p)"
    using Cons.IH [of es'] Cons.prems by fastforce
  from t r show ?case by (cases ap; cases ok) auto
qed auto

text \<open>A matching item belongs to the set and fits the arguments as the argument \<open>fits\<close> says.\<close>

definition item_fits ::
  "('t, 's) Builder \<Rightarrow> (FunctionVariable \<Rightarrow> bool) \<Rightarrow> bool \<Rightarrow> 't OverloadedFunctionsSet \<Rightarrow> Param list \<Rightarrow> bool \<Rightarrow>
    ('t, 's) OverloadingResolutionItem \<Rightarrow> bool" where
  "item_fits b fits enable fs args ft item =
    (case item of
       FunctionItem f \<Rightarrow> f \<in> set (fs_functions fs) \<and> fits f
     | TemplateFunctionPreparationResult t scope \<Rightarrow>
         t \<in> set (fs_template_functions fs) \<and> fst (b_PrepareTemplateFunction b t args ft enable) = Some scope)"

lemma match_function_props:
  assumes "\<And>a p es. \<exists>ok es'. arg_is_compatible b hc enable f src_loc a p es = Some (ok, es') \<and> (ok \<longrightarrow> P a p)"
  shows "\<exists>items es'. match_function b hc enable args ft src_loc f (acc, es) = Some (acc @ items, es') \<and>
    (\<forall>i \<in> set items. i = FunctionItem f \<and> list_all2 P (call_args args ft (fv_is_this_call f)) (params (fv_type f)))"
proof -
  let ?args = "call_args args ft (fv_is_this_call f)" and ?ps = "params (fv_type f)"
  obtain ok es' where r: "args_are_compatible (arg_is_compatible b hc enable f src_loc) (zip ?args ?ps) es = Some (ok, es')"
    "ok \<longrightarrow> (\<forall>(a, p) \<in> set (zip ?args ?ps). P a p)"
    using args_are_compatible_props [of "zip ?args ?ps" "arg_is_compatible b hc enable f src_loc" P es] assms by blast
  show ?thesis
  proof (cases "length ?ps = length ?args")
    case True
    with r have "ok \<longrightarrow> list_all2 P ?args ?ps" by (simp add: list_all2_iff)
    with True r(1) show ?thesis
      by (cases ok) (auto simp: match_function_def call_args_def Let_def cong: if_cong)
  qed (auto simp: match_function_def call_args_def Let_def cong: if_cong)
qed

lemma match_template_props:
  "\<exists>items es'. fold (match_template b enable args ft) ts (acc, es) = (acc @ items, es') \<and>
    (\<forall>i \<in> set items. \<exists>t \<in> set ts. \<exists>scope. i = TemplateFunctionPreparationResult t scope \<and>
      fst (b_PrepareTemplateFunction b t args ft enable) = Some scope)"
proof (induction ts arbitrary: acc es)
  case (Cons t ts)
  obtain r es1 where r: "b_PrepareTemplateFunction b t args ft enable = (r, es1)" by force
  define items1 where "items1 = (case r of None \<Rightarrow> [] | Some scope \<Rightarrow> [TemplateFunctionPreparationResult t scope])"
  have "match_template b enable args ft t (acc, es) = (acc @ items1, es @ es1)"
    by (simp add: match_template_def r items1_def split: option.split)
  moreover obtain items es' where "fold (match_template b enable args ft) ts (acc @ items1, es @ es1) = ((acc @ items1) @ items, es')"
    "\<forall>i \<in> set items. \<exists>t \<in> set ts. \<exists>scope. i = TemplateFunctionPreparationResult t scope \<and>
      fst (b_PrepareTemplateFunction b t args ft enable) = Some scope"
    using Cons.IH [of "acc @ items1" "es @ es1"] by blast
  moreover have "\<forall>i \<in> set items1. \<exists>scope. i = TemplateFunctionPreparationResult t scope \<and> r = Some scope"
    by (auto simp: items1_def split: option.splits)
  ultimately show ?case using r by (intro exI [of _ "items1 @ items"] exI [of _ es']) auto
qed simp

lemma fetch_matched_props:
  assumes "\<And>f a p es. \<exists>ok es'. arg_is_compatible b hc enable f src_loc a p es = Some (ok, es') \<and> (ok \<longrightarrow> P a p)"
  shows "\<exists>items es'. fetch_matched b hc enable fs args ft src_loc (acc, es) = Some (acc @ items, es') \<and>
    (\<forall>i \<in> set items. item_fits b (\<lambda>f. list_all2 P (call_args args ft (fv_is_this_call f)) (params (fv_type f))) enable fs args ft i)"
proof -
  let ?fits = "item_fits b (\<lambda>f. list_all2 P (call_args args ft (fv_is_this_call f)) (params (fv_type f))) enable fs args ft"
  let ?Q = "\<lambda>s. \<exists>items. fst s = acc @ items \<and> (\<forall>i \<in> set items. ?fits i)"
  have step: "\<exists>t. match_function b hc enable args ft src_loc f s = Some t \<and> ?Q t" if f: "f \<in> set (fs_functions fs)" and Q: "?Q s" for f s
  proof -
    obtain items where items: "fst s = acc @ items" "\<forall>i \<in> set items. ?fits i" using Q by blast
    obtain items' es' where m: "match_function b hc enable args ft src_loc f (acc @ items, snd s) = Some ((acc @ items) @ items', es')"
      "\<forall>i \<in> set items'. i = FunctionItem f \<and> list_all2 P (call_args args ft (fv_is_this_call f)) (params (fv_type f))"
      using match_function_props [of b hc enable f src_loc P args ft "acc @ items" "snd s"] assms by blast
    from items m(2) f have "\<forall>i \<in> set (items @ items'). ?fits i" by (auto simp: item_fits_def)
    with m(1) items(1) show ?thesis by (metis append_assoc fst_conv prod.collapse)
  qed
  obtain t where t: "foldM (match_function b hc enable args ft src_loc) (fs_functions fs) (acc, es) = Some t" "?Q t"
    using foldM_total [of ?Q "(acc, es)" "fs_functions fs" "match_function b hc enable args ft src_loc"] step by auto
  then obtain items es1 where items: "t = (acc @ items, es1)" "\<forall>i \<in> set items. ?fits i" by (cases t) auto
  obtain items' es' where m: "fold (match_template b enable args ft) (fs_template_functions fs) (acc @ items, es1) = ((acc @ items) @ items', es')"
    "\<forall>i \<in> set items'. \<exists>t \<in> set (fs_template_functions fs). \<exists>scope. i = TemplateFunctionPreparationResult t scope \<and>
      fst (b_PrepareTemplateFunction b t args ft enable) = Some scope"
    using match_template_props [of b enable args ft "fs_template_functions fs" "acc @ items" es1] by (elim exE conjE)
  have "\<forall>i \<in> set (items @ items'). ?fits i" using items(2) m(2) by (auto simp: item_fits_def)
  moreover have "fetch_matched b hc enable fs args ft src_loc (acc, es) = Some (acc @ items @ items', es')"
    using t(1) m(1) items(1) by (simp add: fetch_matched_def)
  ultimately show ?thesis by blast
qed

lemma HasConversionConstructor_total:
  assumes "hierarchy_ok b"
  shows "\<exists>x. HasConversionConstructor b a t src_loc es = Some x"
proof -
  have "\<exists>ok es'. arg_is_compatible b (\<lambda>_ _ _ es. Some (False, es)) False f src_loc a p es = Some (ok, es') \<and> (ok \<longrightarrow> True)" for f a p es
    using arg_is_compatible_props [OF assms, of False] by blast
  from fetch_matched_props [of b _ False src_loc "\<lambda>_ _. True", OF this] show ?thesis
    by (fastforce simp: HasConversionConstructor_def split: prod.split option.split)
qed

lemma FetchMatchedOverloadedFunctions_props:
  assumes "hierarchy_ok b"
  shows "\<exists>items es'. FetchMatchedOverloadedFunctions b fs args ft src_loc enable (acc, es) = Some (acc @ items, es') \<and>
    (\<forall>i \<in> set items. item_fits b (function_fits b args ft src_loc) enable fs args ft i)"
proof -
  have "\<exists>ok es'. arg_is_compatible b (HasConversionConstructor b) enable f src_loc a p es = Some (ok, es') \<and>
      (ok \<longrightarrow> arg_fits b src_loc a p)" for f a p es
    using arg_is_compatible_props [OF assms, of enable "HasConversionConstructor b" a p src_loc f es]
      HasConversionConstructor_total [OF assms] unfolding arg_fits_def by blast
  from fetch_matched_props [of b _ enable src_loc "arg_fits b src_loc", OF this] show ?thesis
    unfolding FetchMatchedOverloadedFunctions_def function_fits_def by blast
qed

text \<open>
  What the resolution relies on in \<open>PrepareTemplateFunction\<close>: it succeeds only if the template has as many parameters as there are
  arguments, without the first one for a static function that is called through \<^verbatim>\<open>this\<close>.
\<close>

definition templates_fit :: "('t, 's) Builder \<Rightarrow> bool" where
  "templates_fit b \<longleftrightarrow> (\<forall>t args ft enable scope. fst (b_PrepareTemplateFunction b t args ft enable) = Some scope \<longrightarrow>
    length (ft_params t) = length (call_args args ft (OverloadingResolutionItemIsThisCall b (TemplateFunctionPreparationResult t scope))) \<and>
    length (ft_signature_params t) = length (ft_params t))"

lemma item_fits_valid:
  assumes "hierarchy_ok b" and "templates_fit b" and "item_fits b (function_fits b args ft src_loc) enable fs args ft i"
    and "n < length args" and "takes_part b ft n i"
  shows "item_valid b ft n i"
proof (cases i)
  case (FunctionItem f)
  have "length (params (fv_type f)) = length (call_args args ft (fv_is_this_call f))"
    using assms(3) FunctionItem by (auto simp: item_fits_def function_fits_def dest: list_all2_lengthD)
  with assms(1,4,5) FunctionItem show ?thesis
    by (auto simp: item_valid_def hierarchy_ok_def item_arg_n_def takes_part_def call_args_def OverloadingResolutionItemIsThisCall_def
        OverloadingResolutionItemGetParamExtendedType_def OverloadingResolutionItemGetTemplateSignatureParam_def)
next
  case (TemplateFunctionPreparationResult t scope)
  have len: "length (ft_params t) = length (call_args args ft (OverloadingResolutionItemIsThisCall b i))"
    "length (ft_signature_params t) = length (ft_params t)"
    using assms(2,3) TemplateFunctionPreparationResult by (auto simp: item_fits_def templates_fit_def)
  have "item_arg_n b ft n i < length (ft_params t)"
    using len(1) assms(4,5) by (auto simp: item_arg_n_def takes_part_def call_args_def)
  with len(2) assms(1) TemplateFunctionPreparationResult show ?thesis
    by (simp add: item_valid_def hierarchy_ok_def OverloadingResolutionItemGetParamExtendedType_def
        OverloadingResolutionItemGetTemplateSignatureParam_def Let_def)
qed

lemma SelectOverloadedFunction_defined:
  assumes "items \<noteq> []" and "\<forall>n < length args. \<forall>i \<in> set items. takes_part b ft n i \<longrightarrow> item_valid b ft n i"
  obtains k es' where "SelectOverloadedFunction b args ft src_loc items es = Some (k, es')" "\<forall>i. k = Some i \<longrightarrow> i < length items"
proof (cases "length items = 1")
  case True
  then show ?thesis using that [of "Some 0" es] by (simp add: SelectOverloadedFunction_def)
next
  case False
  moreover have "length items \<noteq> 0" using assms(1) by simp
  ultimately have "length items \<ge> 2" by linarith
  then show ?thesis
    using that SelectOverloadedFunction_selected [OF _ assms(2)] candidates.selected_iff by blast
qed


section \<open>An example\<close>

text \<open>Two functions, one with a value parameter and one with a mutable reference, called with a mutable variable.\<close>

definition example_builder :: "(unit, unit) Builder" where
  "example_builder =
    \<lparr> b_tables = example_tables, b_Keyword = keywords_list, b_invalid_type = Fundamental InvalidType 0,
      b_class_is_complete = (\<lambda>_. True), b_PrepareType = (\<lambda>_ _. Fundamental InvalidType 0),
      b_PrepareTemplateFunction = (\<lambda>_ _ _ _. (None, [])), b_FinishTemplateFunctionGeneration = (\<lambda>_ _. (None, [])),
      b_constructors = (\<lambda>_. None) \<rparr>"

definition example_items :: "(unit, unit) OverloadingResolutionItem list" where
  "example_items = [FunctionItem (example_function [example_i32 Value]), FunctionItem (example_function [example_i32 ReferenceMut])]"

lemma example_hierarchy: "wf (parent_of (classes (b_tables example_builder)))" "hierarchy_ok example_builder" "templates_fit example_builder"
  using example_wf by (simp_all add: example_builder_def example_tables_def hierarchy_ok_def templates_fit_def)

lemma example_compare:
  "compare_items example_builder [example_i32 ReferenceMut] False 0 (FunctionItem (example_function [example_i32 a]))
    (FunctionItem (example_function [example_i32 b])) =
   Some (if (a = ReferenceMut) = (b = ReferenceMut) then Same else if a = ReferenceMut then LeftIsBetter else RightIsBetter)"
  by (simp add: compare_items_def item_arg_n_def OverloadingResolutionItemGetParamExtendedType_def
      OverloadingResolutionItemGetTemplateSignatureParam_def example_function_def example_i32_def CompareConversions_templates_def
      CompareConversions_def CompareConversionsTypes_def CompareConversionsMutability_def GetArgOverloadingClass_def Let_def)

theorem SelectOverloadedFunction_correct_witness:
  "SelectOverloadedFunction example_builder [example_i32 ReferenceMut] False (SrcLoc_make 0 1 0) example_items [] = Some (Some 1, [])"
proof -
  have valid: "\<forall>n < length [example_i32 ReferenceMut]. \<forall>i \<in> set example_items.
      takes_part example_builder False n i \<longrightarrow> item_valid example_builder False n i"
    using example_hierarchy(1) by (simp add: example_items_def item_valid_def item_arg_n_def OverloadingResolutionItemGetParamExtendedType_def
      OverloadingResolutionItemGetTemplateSignatureParam_def example_function_def)
  have best: "\<forall>n < length [example_i32 ReferenceMut].
      best_for_arg example_builder [example_i32 ReferenceMut] False example_items n (example_items ! 1)"
    by (simp add: best_for_arg_def at_least_as_good_def example_items_def example_compare takes_part_def)
  have "compare_items example_builder [example_i32 ReferenceMut] False 0 (example_items ! 1) (example_items ! 0) = Some LeftIsBetter"
    by (simp add: example_items_def example_compare)
  then have better: "\<forall>j < length example_items. j \<noteq> 1 \<longrightarrow> (\<exists>n < length [example_i32 ReferenceMut].
      takes_part example_builder False n (example_items ! j) \<and>
      compare_items example_builder [example_i32 ReferenceMut] False n (example_items ! 1) (example_items ! j) = Some LeftIsBetter)"
    by (auto simp: takes_part_def example_items_def less_Suc_eq)
  have len: "2 \<le> length example_items" "1 < length example_items" by (simp_all add: example_items_def)
  from SelectOverloadedFunction_correct [OF len(1) valid, of "SrcLoc_make 0 1 0" "[]"] obtain s where
    s: "SelectOverloadedFunction example_builder [example_i32 ReferenceMut] False (SrcLoc_make 0 1 0) example_items [] =
      Some (s, if s = None then [] @ [(TooManySuitableOverloadedFunctions [example_i32 ReferenceMut], SrcLoc_make 0 1 0)] else [])"
    and c: "\<forall>k < length example_items.
      (\<forall>n < length [example_i32 ReferenceMut]. best_for_arg example_builder [example_i32 ReferenceMut] False example_items n (example_items ! k)) \<longrightarrow>
      (\<forall>j < length example_items. j \<noteq> k \<longrightarrow> (\<exists>n < length [example_i32 ReferenceMut]. takes_part example_builder False n (example_items ! j) \<and>
        compare_items example_builder [example_i32 ReferenceMut] False n (example_items ! k) (example_items ! j) = Some LeftIsBetter)) \<longrightarrow> s = Some k"
    by (elim exE conjE)
  have "s = Some 1"
    using c [THEN spec, THEN mp, OF len(2), THEN mp, OF best, THEN mp, OF better] .
  with s show ?thesis by simp
qed


end
