(* ===== verification/Template_Preparation.thy ===== *)
theory Template_Preparation
  imports Template_Matching_Laws Overloading_Laws
begin

text \<open>
  Selection of type templates and parameterization of function templates, from \<^verbatim>\<open>source/compiler0/code_builder_lib/cb_templates.cpp\<close>:
  \<open>ValueToTemplateArg\<close>, \<open>EvaluateTemplateArgs\<close>, \<open>PrepareTemplateType\<close>, \<open>GenTemplateType\<close>, \<open>ParameterizeFunctionTemplate\<close>,
  \<open>FillKnownFunctionTemplateArgsIntoNamespace\<close>, \<open>PrepareTemplateFunction\<close> and the collection of the arguments of a function template.

  Parameters are \<open>build\<close>, the value of an expression with the errors of its evaluation, \<open>loc\<close>, the location of an
  expression, and \<open>finish\<close>, the generation of a type for a template that is selected. A value is one of those that can become a template argument, or \<open>None\<close> for
  the other kinds of values. The value \<open>None\<close> of a whole operation is a read outside a list.
\<close>

section \<open>Values as template arguments\<close>

text \<open>Errors, without the names that are put into their texts.\<close>

datatype 'x TemplateError =
    MoreThanOneTypeTemplateAsTemplateArgument
  | InvalidTypeOfTemplateVariableArgument Type
  | ExpectedConstantExpression
  | InvalidValueAsTemplateArgument
  | TemplateParametersDeductionFailed
  | CouldNotSelectMoreSpecializedTypeTemplate
  | TemplateFunctionGenerationFailed
  | ExpressionError 'x

type_synonym 'x TemplateErrors = "('x TemplateError \<times> SrcLoc) list"

definition ValueToTemplateArg :: "ArgValue option \<Rightarrow> SrcLoc \<Rightarrow> TemplateArg option \<times> 'x TemplateErrors" where
  "ValueToTemplateArg v src_loc =
    (case v of
       Some (TypeNameValue t) \<Rightarrow> (Some (TypeArg t), [])
     | Some (TypeTemplatesSetValue ts) \<Rightarrow>
         if length ts = 1 then (Some (TypeTemplateArg (hd ts)), []) else (None, [(MoreThanOneTypeTemplateAsTemplateArgument, src_loc)])
     | Some (VariableValue t c) \<Rightarrow>
         if \<not> IsValidForTemplateVariableArgument t then (None, [(InvalidTypeOfTemplateVariableArgument t, src_loc)])
         else if c = 0 then (None, [(ExpectedConstantExpression, src_loc)])
         else (Some (VariableArg \<lparr> tv_type = t, tv_constexpr_value = c \<rparr>), [])
     | _ \<Rightarrow> (None, [(InvalidValueAsTemplateArgument, src_loc)]))"

fun EvaluateTemplateArgs :: "('e \<Rightarrow> ArgValue option \<times> 'x TemplateErrors) \<Rightarrow> ('e \<Rightarrow> SrcLoc) \<Rightarrow> 'e list \<Rightarrow> TemplateArg list \<times> 'x TemplateErrors" where
  "EvaluateTemplateArgs build loc [] = ([], [])" |
  "EvaluateTemplateArgs build loc (expr # exprs) =
    (let (v, build_errors) = build expr;
         (arg, arg_errors) = ValueToTemplateArg v (loc expr);
         (args, errors) = EvaluateTemplateArgs build loc exprs
     in (case arg of None \<Rightarrow> args | Some a \<Rightarrow> a # args, build_errors @ arg_errors @ errors))"

section \<open>Type templates\<close>

text \<open>Of the syntax element of a type template the default values of its signature parameters are read.\<close>

record 'e TypeTemplate =
  tt_template_params :: "TemplateParameter list"
  tt_signature_params :: "TemplateSignatureParam list"
  tt_first_optional_signature_param :: nat
  tt_default_values :: "'e list"

definition AddName :: "byte list \<Rightarrow> ArgValue \<Rightarrow> ArgsScope \<Rightarrow> ArgsScope" where
  "AddName name v scope = (if scope name = None then scope(name \<mapsto> v) else scope)"

definition not_deduced_scope :: "TemplateParameter list \<Rightarrow> ArgsScope" where
  "not_deduced_scope tps = fold (\<lambda>tp. AddName (tpm_name tp) YetNotDeducedTemplateArg) tps Map.empty"

text \<open>The argument that a default value gives; a value that is no template argument leaves the initial argument.\<close>

definition default_signature_arg ::
  "('e \<Rightarrow> ArgValue option \<times> 'x TemplateErrors) \<Rightarrow> ('e \<Rightarrow> SrcLoc) \<Rightarrow> 'e \<Rightarrow> TemplateArg \<times> 'x TemplateErrors" where
  "default_signature_arg build loc expr =
    (let (v, build_errors) = build expr;
         (arg, arg_errors) = ValueToTemplateArg v (loc expr)
     in (case arg of None \<Rightarrow> VariableArg \<lparr> tv_type = Fundamental void_t 0, tv_constexpr_value = 0 \<rparr> | Some a \<Rightarrow> a, build_errors @ arg_errors))"

text \<open>
  The loop over the signature parameters, from parameter \<open>i\<close> on. A result with a template is the scope of the arguments and the signature
  arguments; a result without one is \<open>None\<close>, since its other parts are not used.
\<close>

fun prepare_signature ::
  "TemplateEnv \<Rightarrow> ('e \<Rightarrow> ArgsScope \<Rightarrow> ArgValue option \<times> 'x TemplateErrors) \<Rightarrow> ('e \<Rightarrow> SrcLoc) \<Rightarrow> 'e TypeTemplate \<Rightarrow> TemplateArg list \<Rightarrow>
    TemplateSignatureParam list \<Rightarrow> ArgsScope \<Rightarrow> TemplateArg list \<Rightarrow> ((ArgsScope \<times> TemplateArg list) option \<times> 'x TemplateErrors) option" where
  "prepare_signature env build loc tt template_arguments [] scope signature_args = Some (Some (scope, signature_args), [])" |
  "prepare_signature env build loc tt template_arguments (p # ps) scope signature_args =
    (let i = length signature_args in
     if i < length template_arguments \<or> i < length (tt_default_values tt) then
       let (arg, arg_errors) =
             (if i < length template_arguments then (template_arguments ! i, [])
              else default_signature_arg (\<lambda>e. build e scope) loc (tt_default_values tt ! i))
       in case MatchTemplateArg env (tt_template_params tt) p arg scope of
            None \<Rightarrow> None
          | Some (ok, scope) \<Rightarrow>
              if ok then map_option (\<lambda>(r, errors). (r, arg_errors @ errors))
                (prepare_signature env build loc tt template_arguments ps scope (signature_args @ [arg]))
              else Some (None, arg_errors)
     else None)"

definition PrepareTemplateType ::
  "TemplateEnv \<Rightarrow> ('e \<Rightarrow> ArgsScope \<Rightarrow> ArgValue option \<times> 'x TemplateErrors) \<Rightarrow> ('e \<Rightarrow> SrcLoc) \<Rightarrow> 'e TypeTemplate \<Rightarrow> TemplateArg list \<Rightarrow>
    ((ArgsScope \<times> TemplateArg list) option \<times> 'x TemplateErrors) option" where
  "PrepareTemplateType env build loc tt template_arguments =
    (if length template_arguments < tt_first_optional_signature_param tt \<or> length template_arguments > length (tt_signature_params tt)
     then Some (None, [])
     else prepare_signature env build loc tt template_arguments (tt_signature_params tt) (not_deduced_scope (tt_template_params tt)) [])"

text \<open>The templates of a set that can be prepared for the arguments, with their indices in the set.\<close>

fun prepare_types ::
  "('t \<Rightarrow> ((ArgsScope \<times> TemplateArg list) option \<times> 'x TemplateErrors) option) \<Rightarrow> 't list \<Rightarrow>
    (('t \<times> ArgsScope \<times> TemplateArg list) list \<times> 'x TemplateErrors) option" where
  "prepare_types prepare [] = Some ([], [])" |
  "prepare_types prepare (t # ts) =
    (case prepare t of
       None \<Rightarrow> None
     | Some (r, prepare_errors) \<Rightarrow>
         map_option (\<lambda>(prepared, errors). (case r of None \<Rightarrow> prepared | Some x \<Rightarrow> (t, x) # prepared, prepare_errors @ errors))
           (prepare_types prepare ts))"

definition GenTemplateType ::
  "TemplateEnv \<Rightarrow> ('e \<Rightarrow> ArgsScope \<Rightarrow> ArgValue option \<times> 'x TemplateErrors) \<Rightarrow> ('e \<Rightarrow> SrcLoc) \<Rightarrow> SrcLoc \<Rightarrow> 'e TypeTemplate list \<Rightarrow>
    ('e \<Rightarrow> ArgValue option \<times> 'x TemplateErrors) \<Rightarrow> 'e list \<Rightarrow> ('e TypeTemplate \<times> ArgsScope \<times> TemplateArg list \<Rightarrow> 'r option \<times> 'x TemplateErrors) \<Rightarrow>
    ('r option \<times> 'x TemplateErrors) option" where
  "GenTemplateType env build loc src_loc type_templates build_arg template_arguments finish =
    (let (args, arg_errors) = EvaluateTemplateArgs build_arg loc template_arguments in
     if length args \<noteq> length template_arguments then Some (None, arg_errors @ [(TemplateParametersDeductionFailed, src_loc)])
     else case prepare_types (\<lambda>tt. PrepareTemplateType env build loc tt args) type_templates of
       None \<Rightarrow> None
     | Some (prepared, prepare_errors) \<Rightarrow>
         if prepared = [] then Some (None, arg_errors @ prepare_errors @ [(TemplateParametersDeductionFailed, src_loc)])
         else case SelectTemplateType (map (\<lambda>(tt, _). tt_signature_params tt) prepared) (length template_arguments) of
           None \<Rightarrow> None
         | Some None \<Rightarrow> Some (None, arg_errors @ prepare_errors @ [(CouldNotSelectMoreSpecializedTypeTemplate, src_loc)])
         | Some (Some k) \<Rightarrow>
             let (r, errors) = finish (prepared ! k) in Some (r, arg_errors @ prepare_errors @ errors))"

section \<open>Function templates with known arguments\<close>

record KnownArgs =
  ka_template_params :: "TemplateParameter list"
  ka_known_template_args :: "TemplateArg list"

fun arg_value :: "TemplateArg \<Rightarrow> ArgValue" where
  "arg_value (TypeArg t) = TypeNameValue t" |
  "arg_value (VariableArg a) = VariableValue (tv_type a) (tv_constexpr_value a)" |
  "arg_value (TypeTemplateArg t) = TypeTemplatesSetValue [t]"

definition FillKnownFunctionTemplateArgsIntoNamespace :: "KnownArgs \<Rightarrow> ArgsScope \<Rightarrow> ArgsScope" where
  "FillKnownFunctionTemplateArgsIntoNamespace ft scope =
    fold (\<lambda>i. AddName (tpm_name (ka_template_params ft ! i))
        (if i < length (ka_known_template_args ft) then arg_value (ka_known_template_args ft ! i) else YetNotDeducedTemplateArg))
      [0..<length (ka_template_params ft)] scope"

fun value_arg :: "ArgValue \<Rightarrow> TemplateArg option" where
  "value_arg (TypeNameValue t) = Some (TypeArg t)" |
  "value_arg (VariableValue t c) = Some (VariableArg \<lparr> tv_type = t, tv_constexpr_value = c \<rparr>)" |
  "value_arg (TypeTemplatesSetValue ts) = (if length ts = 1 then Some (TypeTemplateArg (hd ts)) else None)" |
  "value_arg YetNotDeducedTemplateArg = None"

text \<open>
  The arguments by which an instance of a function template is identified, in \<open>FinishTemplateFunctionGeneration\<close>: there are fewer of them than
  parameters if a parameter has no value, which is an error. \<open>None\<close> is a name that is not in the scope, or several templates in a set.
\<close>

fun collect_template_args :: "TemplateParameter list \<Rightarrow> ArgsScope \<Rightarrow> TemplateArg list option" where
  "collect_template_args [] scope = Some []" |
  "collect_template_args (tp # tps) scope =
    (case scope (tpm_name tp) of
       None \<Rightarrow> None
     | Some YetNotDeducedTemplateArg \<Rightarrow> collect_template_args tps scope
     | Some v \<Rightarrow> Option.bind (value_arg v) (\<lambda>a. map_option ((#) a) (collect_template_args tps scope)))"

text \<open>The arguments that were deduced beyond the given ones, up to the first parameter that is not known.\<close>

fun further_args :: "TemplateParameter list \<Rightarrow> ArgsScope \<Rightarrow> TemplateArg list" where
  "further_args [] scope = []" |
  "further_args (tp # tps) scope =
    (case scope (tpm_name tp) of
       None \<Rightarrow> further_args tps scope
     | Some v \<Rightarrow> (case value_arg v of None \<Rightarrow> [] | Some a \<Rightarrow> a # further_args tps scope))"

fun kind_index :: "TemplateParameterData \<Rightarrow> nat" where
  "kind_index TypeParamData = 0" |
  "kind_index TypeTemplateParamData = 1" |
  "kind_index (VariableParamData _) = 2"

text \<open>The loop over the arguments goes on after a match that fails.\<close>

fun match_known :: "TemplateEnv \<Rightarrow> TemplateParameter list \<Rightarrow> nat \<Rightarrow> TemplateArg list \<Rightarrow> bool \<Rightarrow> ArgsScope \<Rightarrow> matched" where
  "match_known env tps i [] ok scope = Some (ok, scope)" |
  "match_known env tps i (arg # args) ok scope =
    (if i < length tps then
       case MatchTemplateArg env tps (TemplateParam i (kind_index (tpm_kind_data (tps ! i)))) arg scope of
         None \<Rightarrow> None
       | Some (ok', scope) \<Rightarrow> match_known env tps (i + 1) args (ok \<and> ok') scope
     else None)"

text \<open>One function template of the set that is parameterized; the inner \<open>None\<close> is a template that is left out.\<close>

definition parameterize_template :: "TemplateEnv \<Rightarrow> TemplateArg list \<Rightarrow> KnownArgs \<Rightarrow> KnownArgs option option" where
  "parameterize_template env args ft =
    (let tps = ka_template_params ft in
     if length tps < length args then Some None
     else case match_known env tps 0 args True (not_deduced_scope tps) of
       None \<Rightarrow> None
     | Some (ok, scope) \<Rightarrow>
         if ok then
           let known = ka_known_template_args ft @ args in
           Some (Some (ft \<lparr> ka_known_template_args := known @ further_args (drop (length known) tps) scope \<rparr>))
         else Some None)"

fun parameterize_templates :: "TemplateEnv \<Rightarrow> TemplateArg list \<Rightarrow> KnownArgs list \<Rightarrow> KnownArgs list option" where
  "parameterize_templates env args [] = Some []" |
  "parameterize_templates env args (ft # fts) =
    (case parameterize_template env args ft of
       None \<Rightarrow> None
     | Some r \<Rightarrow> map_option (\<lambda>result. case r of None \<Rightarrow> result | Some f \<Rightarrow> f # result) (parameterize_templates env args fts))"

text \<open>The cache of parameterized sets is an association list of keys and sets; of a set its function templates are kept.\<close>

type_synonym ParameterizedFunctionsCache = "(ParameterizedFunctionTemplateKey \<times> KnownArgs list) list"

definition ParameterizeFunctionTemplate ::
  "TemplateEnv \<Rightarrow> ('e \<Rightarrow> ArgValue option \<times> 'x TemplateErrors) \<Rightarrow> ('e \<Rightarrow> SrcLoc) \<Rightarrow> SrcLoc \<Rightarrow> u64 \<Rightarrow> KnownArgs list \<Rightarrow> 'e list \<Rightarrow> ParameterizedFunctionsCache \<Rightarrow>
    (KnownArgs list option \<times> ParameterizedFunctionsCache \<times> 'x TemplateErrors) option" where
  "ParameterizeFunctionTemplate env build_arg loc src_loc functions_set_ptr function_templates template_arguments cache =
    (let (args, errors) = EvaluateTemplateArgs build_arg loc template_arguments;
         template_key = \<lparr> pk_functions_set = functions_set_ptr, pk_args = args \<rparr>
     in if length args \<noteq> length template_arguments then Some (None, cache, errors)
        else case List.find (\<lambda>(key, _). ParameterizedFunctionTemplateKey_eq key template_key) cache of
          Some (_, result) \<Rightarrow> Some (Some result, cache, errors)
        | None \<Rightarrow>
            map_option (\<lambda>result.
              if result = [] then (None, cache, errors @ [(TemplateFunctionGenerationFailed, src_loc)])
              else (Some result, cache @ [(template_key, result)], errors)) (parameterize_templates env args function_templates))"

section \<open>Preparation of a function template\<close>

text \<open>The type that an argument has to have or to convert to, if the signature parameter is a type or a template parameter that is a type already.\<close>

definition known_type :: "TemplateParameter list \<Rightarrow> ArgsScope \<Rightarrow> TemplateSignatureParam \<Rightarrow> Type option option" where
  "known_type tps scope p =
    (case p of
       TypeParam t \<Rightarrow> Some (Some t)
     | TemplateParam i _ \<Rightarrow>
         if i < length tps then
           case scope (tpm_name (tps ! i)) of None \<Rightarrow> None | Some (TypeNameValue t) \<Rightarrow> Some (Some t) | Some _ \<Rightarrow> Some None
         else None
     | _ \<Rightarrow> Some None)"

definition expected_arg_is_mutalbe_reference :: "'t FunctionParamSyntax \<Rightarrow> bool" where
  "expected_arg_is_mutalbe_reference p \<longleftrightarrow> fs_reference_modifier p = Reference \<and> fs_mutability_modifier p = Mutable"

definition deduced_specially ::
  "('t, 's) Builder \<Rightarrow> 't FunctionParamSyntax \<Rightarrow> Type option \<Rightarrow> Param \<Rightarrow> bool \<Rightarrow> SrcLoc \<Rightarrow> CodeBuilderErrors \<Rightarrow> (bool \<times> CodeBuilderErrors) option" where
  "deduced_specially b p known given_arg enable_type_conversions src_loc errors =
    (case known of
       None \<Rightarrow> Some (False, errors)
     | Some t \<Rightarrow>
         if Type_eq t (p_type given_arg) then Some (True, errors)
         else Option.bind (ReferenceIsConvertible b (p_type given_arg) t src_loc errors) (\<lambda>(ok, errors).
           if ok then Some (True, errors)
           else if \<not> expected_arg_is_mutalbe_reference p \<and> enable_type_conversions then HasConversionConstructor b given_arg t src_loc errors
           else Some (False, errors)))"

text \<open>The loop over the parameters of the function; \<open>None\<close> as scope is a template that does not fit.\<close>

fun prepare_params ::
  "('t, 's) Builder \<Rightarrow> TemplateEnv \<Rightarrow> TemplateParameter list \<Rightarrow> bool \<Rightarrow> SrcLoc \<Rightarrow> 't FunctionParamSyntax list \<Rightarrow> TemplateSignatureParam list \<Rightarrow> Param list \<Rightarrow>
    ArgsScope \<Rightarrow> CodeBuilderErrors \<Rightarrow> (ArgsScope option \<times> CodeBuilderErrors) option" where
  "prepare_params b env tps enable src_loc [] sigs args scope errors = Some (Some scope, errors)" |
  "prepare_params b env tps enable src_loc (p # ps) (sig # sigs) (a # args) scope errors =
    (if expected_arg_is_mutalbe_reference p \<and> p_value_type a \<noteq> ReferenceMut then Some (None, errors)
     else Option.bind (known_type tps scope sig) (\<lambda>known.
       Option.bind (deduced_specially b p known a enable src_loc errors) (\<lambda>(special, errors).
         if special then prepare_params b env tps enable src_loc ps sigs args scope errors
         else Option.bind (MatchTemplateArg env tps sig (TypeArg (p_type a)) scope) (\<lambda>(ok, scope).
           if ok then prepare_params b env tps enable src_loc ps sigs args scope errors else Some (None, errors)))))" |
  "prepare_params b env tps enable src_loc (p # ps) sigs args scope errors = None"

text \<open>The value of the condition \<^verbatim>\<open>enable_if\<close> in a scope is the parameter \<open>condition\<close>, if the function has such a condition.\<close>

definition PrepareTemplateFunction ::
  "('t, 's) Builder \<Rightarrow> TemplateEnv \<Rightarrow> (ArgsScope \<Rightarrow> bool) option \<Rightarrow> KnownArgs \<Rightarrow> 't FunctionTemplate \<Rightarrow> CodeBuilderErrors \<Rightarrow> SrcLoc \<Rightarrow> Param list \<Rightarrow> bool \<Rightarrow> bool \<Rightarrow>
    (ArgsScope option \<times> CodeBuilderErrors) option" where
  "PrepareTemplateFunction b env condition known function_template errors src_loc actual_args first_actual_arg_is_this enable_type_conversions =
    (let ps = ft_params function_template;
         given_args = (if first_actual_arg_is_this \<and> ps \<noteq> [] \<and> fs_name (hd ps) \<noteq> b_Keyword b this_kw then tl actual_args else actual_args)
     in if length given_args \<noteq> length ps then Some (None, errors)
        else map_option (\<lambda>(r, errors).
            (case r of None \<Rightarrow> None | Some scope \<Rightarrow> (case condition of None \<Rightarrow> Some scope | Some c \<Rightarrow> if c scope then Some scope else None), errors))
          (prepare_params b env (ka_template_params known) enable_type_conversions src_loc ps (ft_signature_params function_template) given_args
            (FillKnownFunctionTemplateArgsIntoNamespace known Map.empty) errors))"

end
