(* ===== verification/Template_Preparation_Laws.thy ===== *)
theory Template_Preparation_Laws
  imports Template_Preparation
begin

text \<open>
  What the selection of a type template and the parameterization of a function template give: the arguments fit the signature of a
  template that is used, no other template that fits is more special at every argument, and the arguments known for a
  function template follow from the given ones.
\<close>

section \<open>Scopes with nothing deduced\<close>

lemma fold_AddName_not_deduced:
  "fold (\<lambda>tp. AddName (tpm_name tp) YetNotDeducedTemplateArg) tps s n =
    (case s n of Some v \<Rightarrow> Some v | None \<Rightarrow> if n \<in> tpm_name ` set tps then Some YetNotDeducedTemplateArg else None)"
  by (induction tps arbitrary: s) (auto simp: AddName_def split: option.splits)

lemma not_deduced_scope_eq: "not_deduced_scope tps n = (if n \<in> tpm_name ` set tps then Some YetNotDeducedTemplateArg else None)"
  by (simp add: not_deduced_scope_def fold_AddName_not_deduced)

lemma scope_ok_not_deduced: "scope_ok env tps (not_deduced_scope tps)"
  by (simp add: scope_ok_def not_deduced_scope_eq)

lemma dom_not_deduced: "dom (not_deduced_scope tps) = tpm_name ` set tps"
  by (auto simp: dom_def not_deduced_scope_eq split: if_splits)

section \<open>Preparation of a type template\<close>

definition template_ok :: "'e TypeTemplate \<Rightarrow> bool" where
  "template_ok tt \<longleftrightarrow> params_ok (tt_template_params tt) \<and> list_all (sig_ok (length (tt_template_params tt))) (tt_signature_params tt) \<and>
    length (tt_default_values tt) = length (tt_signature_params tt)"

text \<open>The result of matching the signature parameters \<open>ps\<close> with arguments that start with \<open>args\<close>.\<close>

definition prepared_ok ::
  "TemplateEnv \<Rightarrow> TemplateParameter list \<Rightarrow> ArgsScope \<Rightarrow> TemplateSignatureParam list \<Rightarrow> TemplateArg list \<Rightarrow> (ArgsScope \<times> TemplateArg list) option \<Rightarrow> bool" where
  "prepared_ok env tps scope ps args r \<longleftrightarrow>
    (case r of
       Some (s, sargs) \<Rightarrow> length sargs = length ps \<and> take (length args) sargs = args \<and> scope_le scope s \<and> scope_ok env tps s \<and>
         denotes_all env tps s ps sargs \<and> (\<forall>s'. scope_le scope s' \<and> scope_ok env tps s' \<and> denotes_all env tps s' ps sargs \<longrightarrow> scope_le s s')
     | None \<Rightarrow> length args = length ps \<longrightarrow> \<not> (\<exists>s'. scope_le scope s' \<and> scope_ok env tps s' \<and> denotes_all env tps s' ps args))"

lemma prepared_ok_Cons:
  assumes s: "scope_le scope s" "denotes env tps s p a" "\<And>s'. scope_le scope s' \<Longrightarrow> scope_ok env tps s' \<Longrightarrow> denotes env tps s' p a \<Longrightarrow> scope_le s s'"
    and r: "prepared_ok env tps s ps (tl args) r" and a: "args = [] \<or> hd args = a"
  shows "prepared_ok env tps scope (p # ps) args (map_option (\<lambda>(s, sargs). (s, a # sargs)) r)"
proof (cases r)
  case None
  have "\<not> denotes_all env tps s' (p # ps) args" if "length args = Suc (length ps)" "scope_le scope s'" "scope_ok env tps s'" for s'
    using r s(3) [OF that(2,3)] that a None by (cases args) (auto simp: prepared_ok_def)
  then show ?thesis using None by (simp add: prepared_ok_def)
next
  case (Some x)
  obtain s1 sargs where x: "x = (s1, sargs)" by force
  have s1: "length sargs = length ps" "take (length (tl args)) sargs = tl args" "scope_le s s1" "scope_ok env tps s1" "denotes_all env tps s1 ps sargs"
    "\<And>s'. scope_le s s' \<Longrightarrow> scope_ok env tps s' \<Longrightarrow> denotes_all env tps s' ps sargs \<Longrightarrow> scope_le s1 s'"
    using r unfolding Some x prepared_ok_def by auto
  have "take (length args) (a # sargs) = args" using a s1(2) by (cases args) auto
  moreover have "scope_le scope s1" using s(1) s1(3) scope_le_trans by blast
  moreover have "denotes env tps s1 p a" using denotes_mono(1) [OF s1(3) s(2)] .
  ultimately show ?thesis using s(3) s1 by (simp add: Some x prepared_ok_def)
qed

lemma prepare_signature_ok:
  assumes "params_ok (tt_template_params tt)" and "list_all (sig_ok (length (tt_template_params tt))) ps" and "scope_ok env (tt_template_params tt) scope"
    and "length signature_args + length ps \<le> length (tt_default_values tt)" and "length template_arguments \<le> length signature_args + length ps"
  shows "\<exists>r errors. prepare_signature env build loc tt template_arguments ps scope signature_args =
      Some (map_option (\<lambda>(s, sargs). (s, signature_args @ sargs)) r, errors) \<and>
    prepared_ok env (tt_template_params tt) scope ps (drop (length signature_args) template_arguments) r"
  using assms(2-5)
proof (induction ps arbitrary: scope signature_args)
  case Nil
  then have "prepared_ok env (tt_template_params tt) scope [] (drop (length signature_args) template_arguments) (Some (scope, []))"
    by (simp add: prepared_ok_def scope_le_refl)
  then show ?case by (intro exI [of _ "Some (scope, [])"]) simp
next
  case (Cons p ps)
  let ?tps = "tt_template_params tt" and ?i = "length signature_args"
  let ?args = "drop ?i template_arguments"
  obtain arg arg_errors where arg: "(if ?i < length template_arguments then (template_arguments ! ?i, [])
      else default_signature_arg (\<lambda>e. build e scope) loc (tt_default_values tt ! ?i)) = (arg, arg_errors)" by force
  have hd: "?args = [] \<or> hd ?args = arg" using arg by (auto simp: hd_drop_conv_nth split: if_splits)
  have tl: "tl ?args = drop (length (signature_args @ [arg])) template_arguments" by (simp add: drop_Suc tl_drop)
  have i: "?i < length (tt_default_values tt)" using Cons.prems(3) by simp
  have "least_solution env ?tps scope (\<lambda>s. denotes env ?tps s p arg) (MatchTemplateArg env ?tps p arg scope)"
    using Cons.prems(1,2) by (intro MatchTemplateArg_least(1) [OF assms(1)]) simp_all
  then show ?case
  proof (cases rule: least_solutionE)
    case (none s)
    have "prepared_ok env ?tps scope (p # ps) ?args None" using none(4) hd by (cases ?args) (auto simp: prepared_ok_def)
    then show ?thesis using none(1) arg i by (intro exI [of _ None]) simp
  next
    case (found s)
    obtain r errors where r: "prepare_signature env build loc tt template_arguments ps s (signature_args @ [arg]) =
        Some (map_option (\<lambda>(s, sargs). (s, (signature_args @ [arg]) @ sargs)) r, errors)" "prepared_ok env ?tps s ps (tl ?args) r"
      using Cons.IH [of s "signature_args @ [arg]"] Cons.prems found(3) unfolding tl by auto
    have "map_option (\<lambda>(s, sargs). (s, (signature_args @ [arg]) @ sargs)) r =
        map_option (\<lambda>(s, sargs). (s, signature_args @ sargs)) (map_option (\<lambda>(s, sargs). (s, arg # sargs)) r)"
      by (cases r) auto
    with r(1) prepared_ok_Cons [OF found(2,4,5) r(2) hd] found(1) arg i show ?thesis
      by (intro exI [of _ "map_option (\<lambda>(s, sargs). (s, arg # sargs)) r"]) simp
  qed
qed

lemma PrepareTemplateType_ok:
  assumes "template_ok tt"
  shows "\<exists>r errors. PrepareTemplateType env build loc tt args = Some (r, errors) \<and>
    (if tt_first_optional_signature_param tt \<le> length args \<and> length args \<le> length (tt_signature_params tt)
     then prepared_ok env (tt_template_params tt) (not_deduced_scope (tt_template_params tt)) (tt_signature_params tt) args r
     else r = None)"
proof -
  have "\<exists>r errors. prepare_signature env build loc tt args (tt_signature_params tt) (not_deduced_scope (tt_template_params tt)) [] = Some (r, errors) \<and>
    prepared_ok env (tt_template_params tt) (not_deduced_scope (tt_template_params tt)) (tt_signature_params tt) args r"
    if "length args \<le> length (tt_signature_params tt)"
    using prepare_signature_ok [of tt "tt_signature_params tt" env "not_deduced_scope (tt_template_params tt)" "[]" args build loc] that assms
      scope_ok_not_deduced by (auto simp: template_ok_def option.map_id)
  then show ?thesis by (auto simp: PrepareTemplateType_def)
qed

section \<open>Selection of a type template\<close>

lemma prepare_types_ok:
  assumes "\<And>t. t \<in> set ts \<Longrightarrow> \<exists>r errors. prepare t = Some (r, errors)"
  shows "\<exists>prepared errors. prepare_types prepare ts = Some (prepared, errors) \<and> length prepared \<le> length ts \<and>
    (\<forall>t x. (t, x) \<in> set prepared \<longleftrightarrow> t \<in> set ts \<and> (\<exists>errors. prepare t = Some (Some x, errors)))"
  using assms
proof (induction ts)
  case (Cons t ts)
  obtain r es where r: "prepare t = Some (r, es)" using Cons.prems [of t] by auto
  obtain prepared errors where "prepare_types prepare ts = Some (prepared, errors)" "length prepared \<le> length ts"
    "\<forall>t x. (t, x) \<in> set prepared \<longleftrightarrow> t \<in> set ts \<and> (\<exists>errors. prepare t = Some (Some x, errors))" using Cons by auto
  with r show ?case by (cases r) auto
qed simp

lemma SelectTemplateType_any:
  assumes "cs \<noteq> []" and "\<forall>c \<in> set cs. arg_count \<le> length c"
  shows "\<exists>s. SelectTemplateType cs arg_count = Some s \<and> (s = None \<longrightarrow> length cs \<ge> 2) \<and>
    (\<forall>k. s = Some k \<longrightarrow> k < length cs \<and>
      (\<forall>j < length cs. j \<noteq> k \<longrightarrow> (\<exists>i < arg_count. most_special cs i k \<and> \<not> special (cs ! j ! i) (cs ! k ! i))))"
proof (cases "length cs \<ge> 2")
  case True
  then show ?thesis using SelectTemplateType_best [OF True assms(2)] by blast
next
  case False
  with assms(1) have "length cs = 1" by (cases cs) (auto simp: Suc_le_eq)
  then show ?thesis by (auto simp: SelectTemplateType_def)
qed

text \<open>A template fits arguments if it is prepared for them.\<close>

definition template_fits ::
  "TemplateEnv \<Rightarrow> ('e \<Rightarrow> ArgsScope \<Rightarrow> ArgValue option \<times> 'x TemplateErrors) \<Rightarrow> ('e \<Rightarrow> SrcLoc) \<Rightarrow> TemplateArg list \<Rightarrow> 'e TypeTemplate \<Rightarrow>
    ArgsScope \<times> TemplateArg list \<Rightarrow> bool" where
  "template_fits env build loc args tt x \<longleftrightarrow> (\<exists>errors. PrepareTemplateType env build loc tt args = Some (Some x, errors))"

lemma template_fits_length: "template_fits env build loc args tt x \<Longrightarrow> length args \<le> length (tt_signature_params tt)"
  by (auto simp: template_fits_def PrepareTemplateType_def split: if_splits)

text \<open>\<open>tt\<close> is at some argument more special than \<open>tt'\<close>.\<close>

definition more_special :: "nat \<Rightarrow> 'e TypeTemplate \<Rightarrow> 'e TypeTemplate \<Rightarrow> bool" where
  "more_special arg_count tt tt' \<longleftrightarrow> (\<exists>i < arg_count. special (tt_signature_params tt ! i) (tt_signature_params tt' ! i) \<and>
    \<not> special (tt_signature_params tt' ! i) (tt_signature_params tt ! i))"

lemma select_prepared:
  assumes "prepared \<noteq> []" and "\<forall>(tt, x) \<in> set prepared. n \<le> length (tt_signature_params tt)"
  shows "\<exists>s. SelectTemplateType (map (\<lambda>(tt, _). tt_signature_params tt) prepared) n = Some s \<and>
    (s = None \<longrightarrow> length prepared \<ge> 2) \<and>
    (\<forall>k. s = Some k \<longrightarrow> k < length prepared \<and> (\<forall>(tt, x) \<in> set prepared. tt \<noteq> fst (prepared ! k) \<longrightarrow> more_special n (fst (prepared ! k)) tt))"
proof -
  let ?cs = "map (\<lambda>(tt, _). tt_signature_params tt) prepared"
  obtain s where s: "SelectTemplateType ?cs n = Some s" "s = None \<longrightarrow> length ?cs \<ge> 2"
    "\<And>k j. s = Some k \<Longrightarrow> k < length ?cs \<and> (j < length ?cs \<longrightarrow> j \<noteq> k \<longrightarrow> (\<exists>i < n. most_special ?cs i k \<and> \<not> special (?cs ! j ! i) (?cs ! k ! i)))"
    using SelectTemplateType_any [of ?cs n] assms by fastforce
  have "more_special n (fst (prepared ! k)) tt" if k: "s = Some k" and tt: "(tt, x) \<in> set prepared" "tt \<noteq> fst (prepared ! k)" for k tt x
  proof -
    obtain j where j: "j < length prepared" "prepared ! j = (tt, x)" using tt(1) by (auto simp: in_set_conv_nth)
    have nth: "?cs ! j = tt_signature_params tt" "?cs ! k = tt_signature_params (fst (prepared ! k))"
      using j s(3) [OF k] by (auto simp: case_prod_beta)
    have "j \<noteq> k" using j tt(2) by auto
    then obtain i where "i < n" "most_special ?cs i k" "\<not> special (?cs ! j ! i) (?cs ! k ! i)" using s(3) [OF k, of j] j(1) by auto
    moreover have "?cs ! j \<in> set ?cs" using j(1) by (metis length_map nth_mem)
    ultimately have "i < n" "special (?cs ! k ! i) (?cs ! j ! i)" "\<not> special (?cs ! j ! i) (?cs ! k ! i)" unfolding most_special_def by blast+
    then show ?thesis unfolding nth more_special_def by blast
  qed
  then show ?thesis using s by fastforce
qed

section \<open>Correctness of the selection\<close>



section \<open>Known arguments of function templates\<close>

text \<open>The given arguments, from parameter \<open>i\<close> on, are the values of the parameters.\<close>

fun gives :: "TemplateEnv \<Rightarrow> TemplateParameter list \<Rightarrow> ArgsScope \<Rightarrow> nat \<Rightarrow> TemplateArg list \<Rightarrow> bool" where
  "gives env tps s i [] = True" |
  "gives env tps s i (arg # args) = (denotes env tps s (TemplateParam i 0) arg \<and> gives env tps s (Suc i) args)"

lemma denotes_kind: "denotes env tps s (TemplateParam i k) arg = denotes env tps s (TemplateParam i 0) arg"
  by simp

lemma match_known_failed:
  assumes "params_ok tps" and "scope_ok env tps scope" and "i + length args \<le> length tps"
  shows "\<exists>s. match_known env tps i args False scope = Some (False, s) \<and> scope_le scope s \<and> scope_ok env tps s"
  using assms(2,3)
proof (induction args arbitrary: i scope)
  case (Cons arg args)
  let ?p = "TemplateParam i (kind_index (tpm_kind_data (tps ! i)))"
  have "least_solution env tps scope (\<lambda>s. denotes env tps s ?p arg) (MatchTemplateArg env tps ?p arg scope)"
    using Cons.prems by (intro MatchTemplateArg_least(1) [OF assms(1)]) simp_all
  then obtain ok s where s: "MatchTemplateArg env tps ?p arg scope = Some (ok, s)" "scope_le scope s" "scope_ok env tps s"
    unfolding least_solution_def by blast
  with Cons.IH [of s "Suc i"] Cons.prems(2) show ?case by (auto simp del: MatchTemplateArg.simps intro: scope_le_trans)
qed (simp add: scope_le_refl)

lemma match_known_least:
  assumes "params_ok tps" and "scope_ok env tps scope" and "i + length args \<le> length tps"
  shows "least_solution env tps scope (\<lambda>s. gives env tps s i args) (match_known env tps i args True scope)"
  using assms(2,3)
proof (induction args arbitrary: i scope)
  case Nil
  then show ?case by (simp add: least_solution_unchanged)
next
  case (Cons arg args)
  let ?p = "TemplateParam i (kind_index (tpm_kind_data (tps ! i)))"
  let ?r = "MatchTemplateArg env tps ?p arg scope"
  have p: "least_solution env tps scope (\<lambda>s. denotes env tps s (TemplateParam i 0) arg) ?r"
    using MatchTemplateArg_least(1) [OF assms(1), of env scope ?p arg] Cons.prems unfolding denotes_kind [of env tps _ i "kind_index _"] by simp
  have both: "least_solution env tps scope (\<lambda>s. denotes env tps s (TemplateParam i 0) arg \<and> gives env tps s (Suc i) args)
      (and_match ?r (\<lambda>s. match_known env tps (Suc i) args True s))"
    by (rule least_solution_and_match [OF p _ denotes_mono(1)]) (use Cons in simp_all)
  from p show ?case
  proof (cases rule: least_solutionE)
    case (found s)
    then show ?thesis using both Cons.prems(2) by (simp add: and_match_def del: MatchTemplateArg.simps)
  next
    case (none s)
    obtain s' where s': "match_known env tps (Suc i) args False s = Some (False, s')" "scope_le s s'" "scope_ok env tps s'"
      using match_known_failed [OF assms(1) none(3), of "Suc i" args] Cons.prems(2) by auto
    show ?thesis
      by (rule least_solution_none [OF _ scope_le_trans [OF none(2) s'(2)] s'(3)])
        (use none s' Cons.prems(2) in \<open>simp_all del: MatchTemplateArg.simps denotes.simps\<close>)
  qed
qed

lemma gives_nth: "gives env tps s i args \<longleftrightarrow> (\<forall>j < length args. denotes env tps s (TemplateParam (i + j) 0) (args ! j))"
  by (induction args arbitrary: i) (auto simp: less_Suc_eq_0_disj simp del: denotes.simps)

lemma value_arg_value: "value_arg v = Some a \<Longrightarrow> arg_value a = v"
  by (cases v) (auto simp: length_Suc_conv split: if_splits)

lemma same_arg_value_arg: "same_arg v a \<Longrightarrow> same_value (arg_value a) v"
  by (cases a) (auto simp: same_arg_deduced simp del: same_arg.simps)

lemma same_value_sym: "same_value v w \<Longrightarrow> same_value w v"
  by (cases v; cases w) (auto simp: Type_eq_iff)

lemma further_args_length: "length (further_args tps s) \<le> length tps"
  by (induction tps) (auto split: option.splits)

lemma further_args_nth:
  assumes "\<forall>tp \<in> set tps. s (tpm_name tp) \<noteq> None" and "i < length (further_args tps s)"
  shows "s (tpm_name (tps ! i)) = Some (arg_value (further_args tps s ! i))"
  using assms
proof (induction tps arbitrary: i)
  case (Cons tp tps)
  then obtain v where v: "s (tpm_name tp) = Some v" by auto
  obtain a where "value_arg v = Some a" using Cons.prems(2) v by (cases "value_arg v") simp_all
  then show ?case using v Cons value_arg_value by (cases i) auto
qed simp

text \<open>The scope that the known arguments make.\<close>

lemma fill_prefix:
  assumes "params_ok (ka_template_params ft)" and "m \<le> length (ka_template_params ft)"
  defines "val \<equiv> \<lambda>i. if i < length (ka_known_template_args ft) then arg_value (ka_known_template_args ft ! i) else YetNotDeducedTemplateArg"
  shows "let s = fold (\<lambda>i. AddName (tpm_name (ka_template_params ft ! i)) (val i)) [0..<m] Map.empty in
    dom s = (\<lambda>i. tpm_name (ka_template_params ft ! i)) ` {..<m} \<and> (\<forall>i < m. s (tpm_name (ka_template_params ft ! i)) = Some (val i))"
  using assms(2)
proof (induction m)
  case (Suc m)
  let ?name = "\<lambda>i. tpm_name (ka_template_params ft ! i)" and ?s = "fold (\<lambda>i. AddName (tpm_name (ka_template_params ft ! i)) (val i)) [0..<m] Map.empty"
  have other: "?name i \<noteq> ?name m" if "i < m" for i using params_ok_name [OF assms(1), of m i] Suc.prems that by simp
  have s: "dom ?s = ?name ` {..<m}" "\<forall>i < m. ?s (?name i) = Some (val i)" using Suc by (simp_all add: Let_def)
  have "?name m \<notin> dom ?s" unfolding s(1) using other by (auto dest: sym)
  then have "fold (\<lambda>i. AddName (tpm_name (ka_template_params ft ! i)) (val i)) [0..<Suc m] Map.empty = ?s(?name m \<mapsto> val m)"
    by (simp add: AddName_def [of "?name m"] domIff)
  then show ?case unfolding Let_def using s other by (auto simp: lessThan_Suc less_Suc_eq)
qed simp

lemma fill_scope:
  assumes "params_ok (ka_template_params ft)"
  shows "dom (FillKnownFunctionTemplateArgsIntoNamespace ft Map.empty) = tpm_name ` set (ka_template_params ft)"
    and "i < length (ka_template_params ft) \<Longrightarrow> FillKnownFunctionTemplateArgsIntoNamespace ft Map.empty (tpm_name (ka_template_params ft ! i)) =
      Some (if i < length (ka_known_template_args ft) then arg_value (ka_known_template_args ft ! i) else YetNotDeducedTemplateArg)"
  using fill_prefix [OF assms order_refl] unfolding FillKnownFunctionTemplateArgsIntoNamespace_def Let_def
  by (auto simp: set_conv_nth)

lemma kind_ok_same: "kind_ok env tps s k v \<Longrightarrow> same_value v w \<Longrightarrow> kind_ok env tps s k w"
proof (cases v)
  case (VariableValue t c)
  assume v: "kind_ok env tps s k v" "same_value v w"
  then obtain u where u: "w = VariableValue u c" "Type_eq t u" using VariableValue by (cases w) auto
  show ?thesis using v(1) u IsValid_same [OF u(2)] denotes_same(1) [of env tps s _ "TypeArg t" "TypeArg u"] VariableValue
    by (auto split: TemplateParameterData.splits)
qed (cases w; simp)+

text \<open>Known arguments agree with a scope.\<close>

definition known_from :: "KnownArgs \<Rightarrow> ArgsScope \<Rightarrow> bool" where
  "known_from ft s \<longleftrightarrow> length (ka_known_template_args ft) \<le> length (ka_template_params ft) \<and>
    (\<forall>i < length (ka_known_template_args ft). \<exists>v. s (tpm_name (ka_template_params ft ! i)) = Some v \<and> same_value (arg_value (ka_known_template_args ft ! i)) v)"

lemma arg_value_deduced: "arg_value a \<noteq> YetNotDeducedTemplateArg"
  by (cases a) simp_all

lemma fill_le:
  assumes "params_ok (ka_template_params ft)" and "known_from ft s" and "dom s = tpm_name ` set (ka_template_params ft)"
  shows "scope_le (FillKnownFunctionTemplateArgsIntoNamespace ft Map.empty) s"
  unfolding scope_le_def
proof (intro conjI allI impI)
  show "dom (FillKnownFunctionTemplateArgsIntoNamespace ft Map.empty) = dom s" using fill_scope(1) assms(1,3) by simp
  fix n v assume v: "FillKnownFunctionTemplateArgsIntoNamespace ft Map.empty n = Some v" "v \<noteq> YetNotDeducedTemplateArg"
  then have "n \<in> tpm_name ` set (ka_template_params ft)" using fill_scope(1) [OF assms(1)] by blast
  then obtain i where i: "i < length (ka_template_params ft)" "n = tpm_name (ka_template_params ft ! i)" by (auto simp: in_set_conv_nth)
  with v fill_scope(2) [OF assms(1) i(1)] have "i < length (ka_known_template_args ft)" "v = arg_value (ka_known_template_args ft ! i)"
    by (auto split: if_splits)
  then show "\<exists>w. s n = Some w \<and> same_value v w" using assms(2) i(2) unfolding known_from_def by blast
qed

lemma fill_all_ok:
  assumes ok: "params_ok (ka_template_params ft)" and known: "known_from ft s" and dom: "dom s = tpm_name ` set (ka_template_params ft)"
    and s: "scope_ok env (ka_template_params ft) s" and all: "length (ka_known_template_args ft) = length (ka_template_params ft)"
  shows "scope_ok env (ka_template_params ft) (FillKnownFunctionTemplateArgsIntoNamespace ft Map.empty)"
proof -
  let ?f = "FillKnownFunctionTemplateArgsIntoNamespace ft Map.empty" and ?tps = "ka_template_params ft"
  have same: "\<exists>v w. s (tpm_name (?tps ! i)) = Some v \<and> ?f (tpm_name (?tps ! i)) = Some w \<and> same_value v w" if i: "i < length ?tps" for i
  proof -
    obtain v where "s (tpm_name (?tps ! i)) = Some v" "same_value (arg_value (ka_known_template_args ft ! i)) v"
      using known all i unfolding known_from_def by auto
    then show ?thesis using fill_scope(2) [OF ok i] all i same_value_sym by auto
  qed
  have le: "scope_le s ?f"
    unfolding scope_le_def
  proof (intro conjI allI impI)
    show "dom s = dom ?f" using fill_scope(1) [OF ok] dom by simp
    fix n v assume v: "s n = Some v"
    then have "n \<in> tpm_name ` set ?tps" using dom by blast
    then obtain i where "i < length ?tps" "n = tpm_name (?tps ! i)" by (auto simp: in_set_conv_nth)
    then show "\<exists>w. ?f n = Some w \<and> same_value v w" using same v by fastforce
  qed
  have "\<exists>w. ?f (tpm_name (?tps ! i)) = Some w \<and> kind_ok env ?tps ?f (tpm_kind_data (?tps ! i)) w" if i: "i < length ?tps" for i
  proof -
    obtain v w where "s (tpm_name (?tps ! i)) = Some v" "?f (tpm_name (?tps ! i)) = Some w" "same_value v w" using same [OF i] by blast
    then show ?thesis using scope_ok_kind [OF s i] kind_ok_mono [OF _ le] kind_ok_same by fastforce
  qed
  then show ?thesis unfolding scope_ok_def by blast
qed

lemma parameterized_known_from:
  assumes "gives env tps s 0 args" and "scope_ok env tps s" and "length args \<le> length tps"
  shows "known_from (ft \<lparr> ka_template_params := tps, ka_known_template_args := args @ further_args (drop (length args) tps) s \<rparr>) s"
proof -
  let ?further = "further_args (drop (length args) tps) s"
  have "\<exists>v. s (tpm_name (tps ! i)) = Some v \<and> same_value (arg_value ((args @ ?further) ! i)) v" if "i < length args + length ?further" for i
  proof (cases "i < length args")
    case True
    then have "denotes env tps s (TemplateParam i 0) (args ! i)" using assms(1) by (simp add: gives_nth del: denotes.simps)
    then show ?thesis using True same_arg_value_arg by (auto simp: nth_append split: option.splits)
  next
    case False
    have "\<forall>tp \<in> set (drop (length args) tps). s (tpm_name tp) \<noteq> None"
      using scope_ok_kind [OF assms(2)] by (metis in_set_conv_nth in_set_dropD option.distinct(1))
    from further_args_nth [OF this, of "i - length args"] False that assms(3) further_args_length [of "drop (length args) tps" s]
    show ?thesis by (auto simp: nth_append same_value_refl)
  qed
  then show ?thesis using further_args_length [of "drop (length args) tps" s] assms(3) by (auto simp: known_from_def)
qed

text \<open>If all arguments are known, the instance of the template is identified by them.\<close>

lemma collect_values:
  "list_all2 (\<lambda>tp a. s (tpm_name tp) = Some (arg_value a)) tps args \<Longrightarrow> collect_template_args tps s = Some args"
proof (induction tps args rule: list_all2_induct)
  case (Cons tp tps a args)
  then show ?case by (cases a) auto
qed simp

lemma collect_known:
  assumes "params_ok (ka_template_params ft)" and "length (ka_known_template_args ft) = length (ka_template_params ft)"
  shows "collect_template_args (ka_template_params ft) (FillKnownFunctionTemplateArgsIntoNamespace ft Map.empty) = Some (ka_known_template_args ft)"
  using assms fill_scope(2) [OF assms(1)] by (intro collect_values) (auto simp: list_all2_conv_all_nth)

text \<open>
  C24. Parameterization of a function template by arguments always ends. It leaves a template out only if there are too many arguments or no values of
  the parameters go with them. Otherwise the known arguments are the given ones followed by arguments that every such choice of values agrees
  with, and if all parameters are known, their values have the kinds and types that the parameters ask for.
\<close>

theorem parameterize_template_correct:
  assumes "params_ok (ka_template_params ft)" and "ka_known_template_args ft = []"
  shows "\<exists>r. parameterize_template env args ft = Some r \<and>
    (case r of
       None \<Rightarrow> length args \<le> length (ka_template_params ft) \<longrightarrow>
         \<not> (\<exists>s. scope_le (not_deduced_scope (ka_template_params ft)) s \<and> scope_ok env (ka_template_params ft) s \<and> gives env (ka_template_params ft) s 0 args)
     | Some ft' \<Rightarrow> ka_template_params ft' = ka_template_params ft \<and> take (length args) (ka_known_template_args ft') = args \<and>
         length args \<le> length (ka_known_template_args ft') \<and> length (ka_known_template_args ft') \<le> length (ka_template_params ft) \<and>
         (\<exists>s. scope_le (not_deduced_scope (ka_template_params ft)) s \<and> scope_ok env (ka_template_params ft) s \<and> gives env (ka_template_params ft) s 0 args) \<and>
         (\<forall>s. scope_le (not_deduced_scope (ka_template_params ft)) s \<and> scope_ok env (ka_template_params ft) s \<and> gives env (ka_template_params ft) s 0 args \<longrightarrow>
            scope_le (FillKnownFunctionTemplateArgsIntoNamespace ft' Map.empty) s) \<and>
         (length (ka_known_template_args ft') = length (ka_template_params ft) \<longrightarrow>
            scope_ok env (ka_template_params ft) (FillKnownFunctionTemplateArgsIntoNamespace ft' Map.empty)))"
proof (cases "length (ka_template_params ft) < length args")
  case True
  then show ?thesis by (simp add: parameterize_template_def)
next
  case False
  let ?tps = "ka_template_params ft"
  have "least_solution env ?tps (not_deduced_scope ?tps) (\<lambda>s. gives env ?tps s 0 args) (match_known env ?tps 0 args True (not_deduced_scope ?tps))"
    using False by (intro match_known_least [OF assms(1) scope_ok_not_deduced]) simp
  then show ?thesis
  proof (cases rule: least_solutionE)
    case (none s)
    then show ?thesis using False by (auto simp: parameterize_template_def)
  next
    case (found s)
    let ?ft = "ft \<lparr> ka_known_template_args := args @ further_args (drop (length args) ?tps) s \<rparr>"
    have result: "parameterize_template env args ft = Some (Some ?ft)"
      using False found(1) assms(2) by (simp add: parameterize_template_def)
    have known: "known_from ?ft s" using parameterized_known_from [OF found(4,3), of ft] False by simp
    have dom: "dom s = tpm_name ` set ?tps" using found(2) by (simp add: scope_le_def dom_not_deduced)
    have le: "scope_le (FillKnownFunctionTemplateArgsIntoNamespace ?ft Map.empty) s" using fill_le [of ?ft s] assms(1) known dom by simp
    have all: "scope_ok env ?tps (FillKnownFunctionTemplateArgsIntoNamespace ?ft Map.empty)" if "length (ka_known_template_args ?ft) = length ?tps"
      using fill_all_ok [of ?ft s env] assms(1) known dom found(3) that by simp
    have "length (ka_known_template_args ?ft) \<le> length ?tps" using known by (simp add: known_from_def)
    then show ?thesis using found(2-5) scope_le_trans [OF le] all
      unfolding result by (intro exI [of _ "Some ?ft"]) auto
  qed
qed

text \<open>A set of function templates is parameterized once for equal arguments: a repeated request gives the set of the first one.\<close>

lemma key_eq_refl: "ParameterizedFunctionTemplateKey_eq k k"
proof -
  have "TemplateArg_eq a a" for a by (cases a) (simp_all add: Type_eq_iff TemplateVariableArg_eq_def)
  then show ?thesis by (simp add: ParameterizedFunctionTemplateKey_eq_def list_all2_refl)
qed

lemma find_snoc: "List.find P (xs @ [x]) = (case List.find P xs of None \<Rightarrow> if P x then Some x else None | Some y \<Rightarrow> Some y)"
  by (induction xs) simp_all

lemma ParameterizeFunctionTemplate_cached:
  assumes "ParameterizeFunctionTemplate env build_arg loc src_loc set_ptr fts exprs cache = Some (Some r, cache', errors)"
  shows "ParameterizeFunctionTemplate env build_arg loc src_loc set_ptr fts exprs cache' = Some (Some r, cache', errors)"
  using assms
  by (cases "EvaluateTemplateArgs build_arg loc exprs")
    (auto simp: ParameterizeFunctionTemplate_def Let_def find_snoc key_eq_refl split: if_splits option.splits)

section \<open>Function templates that fit a call\<close>

text \<open>An argument fits a parameter of a function template: a mutable reference gets a mutable variable, and the argument has the type that the
  signature parameter denotes, or converts to it.\<close>

definition param_fits ::
  "('t, 's) Builder \<Rightarrow> TemplateEnv \<Rightarrow> TemplateParameter list \<Rightarrow> bool \<Rightarrow> SrcLoc \<Rightarrow> ArgsScope \<Rightarrow> 't FunctionParamSyntax \<Rightarrow> TemplateSignatureParam \<Rightarrow> Param \<Rightarrow> bool" where
  "param_fits b env tps enable src_loc s p sig a \<longleftrightarrow>
    (expected_arg_is_mutalbe_reference p \<longrightarrow> p_value_type a = ReferenceMut) \<and>
    (\<exists>t. denotes env tps s sig (TypeArg t) \<and>
      (Type_eq (p_type a) t \<or> convertible (b_tables b) (p_type a) t \<or>
       enable \<and> \<not> expected_arg_is_mutalbe_reference p \<and> (\<exists>es es'. HasConversionConstructor b a t src_loc es = Some (True, es'))))"

lemma param_fits_mono: "scope_le s s' \<Longrightarrow> param_fits b env tps enable src_loc s p sig a \<Longrightarrow> param_fits b env tps enable src_loc s' p sig a"
  unfolding param_fits_def using denotes_mono(1) by blast

lemma known_type_total:
  assumes "scope_ok env tps s" and "sig_ok (length tps) sig"
  shows "\<exists>known. known_type tps s sig = Some known \<and> (\<forall>t. known = Some t \<longrightarrow> denotes env tps s sig (TypeArg t))"
proof (cases sig)
  case (TemplateParam i k)
  then obtain v where "s (tpm_name (tps ! i)) = Some v" "i < length tps" using scope_ok_kind [OF assms(1)] assms(2) by auto
  then show ?thesis using TemplateParam by (cases v) (auto simp: known_type_def Type_eq_iff)
qed (auto simp: known_type_def Type_eq_iff)

lemma deduced_specially_total:
  assumes "hierarchy_ok b"
  shows "\<exists>special es'. deduced_specially b p known a enable src_loc es = Some (special, es') \<and>
    (special \<longrightarrow> (\<exists>t. known = Some t \<and> (Type_eq (p_type a) t \<or> convertible (b_tables b) (p_type a) t \<or>
       enable \<and> \<not> expected_arg_is_mutalbe_reference p \<and> (\<exists>es es'. HasConversionConstructor b a t src_loc es = Some (True, es')))))"
proof (cases known)
  case (Some t)
  obtain es1 where r: "ReferenceIsConvertible b (p_type a) t src_loc es = Some (Type_eq (p_type a) t \<or> convertible (b_tables b) (p_type a) t, es1)"
    using ReferenceIsConvertible_total [OF assms] by blast
  obtain ok es2 where "HasConversionConstructor b a t src_loc es1 = Some (ok, es2)" using HasConversionConstructor_total [OF assms] by (metis surj_pair)
  then show ?thesis using Some r by (auto simp: deduced_specially_def Type_eq_iff) blast
qed (auto simp: deduced_specially_def)

lemma prepare_params_total:
  assumes b: "hierarchy_ok b" and tps: "params_ok tps" and "list_all (sig_ok (length tps)) sigs" and "length ps = length sigs" and "length args = length ps"
    and "scope_ok env tps scope"
  shows "\<exists>r es'. prepare_params b env tps enable src_loc ps sigs args scope es = Some (r, es') \<and>
    (\<forall>s. r = Some s \<longrightarrow> scope_le scope s \<and> scope_ok env tps s \<and>
      (\<forall>i < length ps. param_fits b env tps enable src_loc s (ps ! i) (sigs ! i) (args ! i)))"
  using assms(3-6)
proof (induction ps arbitrary: sigs args scope es)
  case Nil
  then show ?case by (simp add: scope_le_refl)
next
  case (Cons p ps)
  then obtain sig sigs' a args' where c: "sigs = sig # sigs'" "args = a # args'" by (metis length_Suc_conv)
  show ?case
  proof (cases "expected_arg_is_mutalbe_reference p \<and> p_value_type a \<noteq> ReferenceMut")
    case True
    then show ?thesis using c by simp
  next
    case False
    obtain known where known: "known_type tps scope sig = Some known" "\<forall>t. known = Some t \<longrightarrow> denotes env tps scope sig (TypeArg t)"
      using known_type_total [OF Cons.prems(4), of sig] Cons.prems(1) c by auto
    obtain special es1 where special: "deduced_specially b p known a enable src_loc es = Some (special, es1)"
      "special \<longrightarrow> param_fits b env tps enable src_loc scope p sig a"
      using deduced_specially_total [OF b, of p known a enable src_loc es] known(2) False unfolding param_fits_def by blast
    have step: "\<exists>r es'. prepare_params b env tps enable src_loc ps sigs' args' s es1 = Some (r, es') \<and>
        (\<forall>s'. r = Some s' \<longrightarrow> scope_le scope s' \<and> scope_ok env tps s' \<and>
          (\<forall>i < length (p # ps). param_fits b env tps enable src_loc s' ((p # ps) ! i) (sigs ! i) (args ! i)))"
      if s: "scope_ok env tps s" "scope_le scope s" "param_fits b env tps enable src_loc s p sig a" for s
    proof -
      obtain r es' where r: "prepare_params b env tps enable src_loc ps sigs' args' s es1 = Some (r, es')"
        "\<forall>s'. r = Some s' \<longrightarrow> scope_le s s' \<and> scope_ok env tps s' \<and> (\<forall>i < length ps. param_fits b env tps enable src_loc s' (ps ! i) (sigs' ! i) (args' ! i))"
        using Cons.IH [of sigs' args' s es1] Cons.prems s(1) c by auto
      then show ?thesis using s(2) scope_le_trans param_fits_mono [OF _ s(3)] c by (fastforce simp: less_Suc_eq_0_disj)
    qed
    show ?thesis
    proof (cases special)
      case True
      then show ?thesis using step [OF Cons.prems(4) scope_le_refl] special known(1) False c by simp
    next
      case no: False
      have "least_solution env tps scope (\<lambda>s. denotes env tps s sig (TypeArg (p_type a))) (MatchTemplateArg env tps sig (TypeArg (p_type a)) scope)"
        using MatchTemplateArg_least(1) [OF tps Cons.prems(4), of sig] Cons.prems(1) c by simp
      then show ?thesis
      proof (cases rule: least_solutionE)
        case (found s)
        have "param_fits b env tps enable src_loc s p sig a" using found(4) False by (auto simp: param_fits_def Type_eq_iff)
        from step [OF found(3,2) this] show ?thesis using found(1) special(1) known(1) False no c by simp
      next
        case (none s)
        then show ?thesis using special(1) known(1) False no c by simp
      qed
    qed
  qed
qed

text \<open>
  C9. Preparation of a function template for a call always ends if inheritance has no cycle. If it succeeds, the template has a parameter for every
  argument, not counting \<^verbatim>\<open>this\<close> for a static function; the known arguments are kept; and every argument has the type
  that its parameter has with the deduced values or converts to it, without binding an immutable argument to a mutable reference.
\<close>

theorem PrepareTemplateFunction_correct:
  assumes "hierarchy_ok b" and "params_ok (ka_template_params known)" and "list_all (sig_ok (length (ka_template_params known))) (ft_signature_params t)"
    and "length (ft_params t) = length (ft_signature_params t)"
    and "scope_ok env (ka_template_params known) (FillKnownFunctionTemplateArgsIntoNamespace known Map.empty)" and "first_is_this \<longrightarrow> args \<noteq> []"
  shows "\<exists>r es'. PrepareTemplateFunction b env condition known t es src_loc args first_is_this enable = Some (r, es') \<and>
    (\<forall>s. r = Some s \<longrightarrow>
      scope_le (FillKnownFunctionTemplateArgsIntoNamespace known Map.empty) s \<and> scope_ok env (ka_template_params known) s \<and>
      (\<forall>c. condition = Some c \<longrightarrow> c s) \<and>
      (let given = call_args args first_is_this (OverloadingResolutionItemIsThisCall b (TemplateFunctionPreparationResult t x)) in
       length given = length (ft_params t) \<and>
       (\<forall>i < length given. param_fits b env (ka_template_params known) enable src_loc s (ft_params t ! i) (ft_signature_params t ! i) (given ! i))))"
proof -
  let ?ps = "ft_params t" and ?scope = "FillKnownFunctionTemplateArgsIntoNamespace known Map.empty"
  let ?given = "if first_is_this \<and> ?ps \<noteq> [] \<and> fs_name (hd ?ps) \<noteq> b_Keyword b this_kw then tl args else args"
  show ?thesis
  proof (cases "length ?given = length ?ps")
    case False
    then show ?thesis by (simp add: PrepareTemplateFunction_def Let_def)
  next
    case True
    obtain r es' where r: "prepare_params b env (ka_template_params known) enable src_loc ?ps (ft_signature_params t) ?given ?scope es = Some (r, es')"
      "\<forall>s. r = Some s \<longrightarrow> scope_le ?scope s \<and> scope_ok env (ka_template_params known) s \<and>
        (\<forall>i < length ?ps. param_fits b env (ka_template_params known) enable src_loc s (?ps ! i) (ft_signature_params t ! i) (?given ! i))"
      using prepare_params_total [OF assms(1-4) True assms(5)] by blast
    have given: "call_args args first_is_this (OverloadingResolutionItemIsThisCall b (TemplateFunctionPreparationResult t x)) = ?given"
      using True assms(6) by (auto simp: call_args_def OverloadingResolutionItemIsThisCall_def)
    have "PrepareTemplateFunction b env condition known t es src_loc args first_is_this enable =
      Some (case r of None \<Rightarrow> None | Some scope \<Rightarrow> (case condition of None \<Rightarrow> Some scope | Some c \<Rightarrow> if c scope then Some scope else None), es')"
      using r(1) True by (simp add: PrepareTemplateFunction_def Let_def)
    then show ?thesis unfolding given Let_def using r(2) True by (auto split: option.splits if_splits)
  qed
qed

section \<open>Examples\<close>

text \<open>A template for arrays, and an expression for the array of five numbers.\<close>

definition example_type_template :: "unit TypeTemplate" where
  "example_type_template = \<lparr> tt_template_params = example_params, tt_signature_params = [example_param], tt_first_optional_signature_param = 1,
    tt_default_values = [()] \<rparr>"

abbreviation (input) example_build :: "unit \<Rightarrow> ArgsScope \<Rightarrow> ArgValue option \<times> unit TemplateErrors" where
  "example_build \<equiv> \<lambda>_ _. (None, [])"

abbreviation (input) example_build_arg :: "unit \<Rightarrow> ArgValue option \<times> unit TemplateErrors" where
  "example_build_arg \<equiv> \<lambda>_. (Some (TypeNameValue (Array (Fundamental i32_t 0) 5 0)), [])"

abbreviation (input) example_finish :: "unit TypeTemplate \<times> ArgsScope \<times> TemplateArg list \<Rightarrow> nat option \<times> unit TemplateErrors" where
  "example_finish \<equiv> \<lambda>_. (Some 7, [])"

lemma example_template_ok: "template_ok example_type_template"
  using example_ok by (simp add: template_ok_def example_type_template_def)

lemma example_start: "not_deduced_scope example_params = example_scope"
  by (rule ext) (simp add: not_deduced_scope_eq example_params_def example_scope_def)

lemma example_prepare:
  "\<exists>s. PrepareTemplateType example_env example_build (\<lambda>_. SrcLoc_default) example_type_template [example_arg] = Some (Some (s, [example_arg]), [])"
  by (simp add: PrepareTemplateType_def example_type_template_def example_start example_match)



theorem parameterize_template_correct_witness:
  "\<exists>ft. parameterize_template example_env [TypeArg (Fundamental i32_t 0)] \<lparr> ka_template_params = example_params, ka_known_template_args = [] \<rparr> =
      Some (Some ft) \<and> take 1 (ka_known_template_args ft) = [TypeArg (Fundamental i32_t 0)]"
proof -
  let ?ft = "\<lparr> ka_template_params = example_params, ka_known_template_args = [] \<rparr>"
  have "\<exists>ft. parameterize_template example_env [TypeArg (Fundamental i32_t 0)] ?ft = Some (Some ft)"
    by (simp add: parameterize_template_def example_params_def not_deduced_scope_eq Let_def)
  then show ?thesis
    using parameterize_template_correct [of ?ft example_env "[TypeArg (Fundamental i32_t 0)]"] example_ok(1) by auto
qed

text \<open>A function template with a parameter of type \<open>T\<close>, called with a number.\<close>

definition example_function_template :: "unit FunctionTemplate" where
  "example_function_template =
    \<lparr> ft_params = [\<lparr> fs_name = str ''x'', fs_type = (), fs_mutability_modifier = Immutable, fs_reference_modifier = Reference \<rparr>],
      ft_is_conversion_constructor = False, ft_base_class = None, ft_signature_params = [TemplateParam 0 0] \<rparr>"

theorem PrepareTemplateFunction_correct_witness:
  "\<exists>s es. PrepareTemplateFunction example_builder example_env None \<lparr> ka_template_params = example_params, ka_known_template_args = [] \<rparr>
      example_function_template [] SrcLoc_default [example_i32 Value] False True = Some (Some s, es) \<and>
    param_fits example_builder example_env example_params True SrcLoc_default s (hd (ft_params example_function_template)) (TemplateParam 0 0) (example_i32 Value)"
proof -
  let ?known = "\<lparr> ka_template_params = example_params, ka_known_template_args = [] \<rparr>"
  let ?fill = "FillKnownFunctionTemplateArgsIntoNamespace ?known Map.empty"
  have fill: "?fill = example_scope"
    by (rule ext) (simp add: FillKnownFunctionTemplateArgsIntoNamespace_def example_params_def example_scope_def AddName_def)
  have "\<exists>s es. PrepareTemplateFunction example_builder example_env None ?known example_function_template [] SrcLoc_default [example_i32 Value] False True =
      Some (Some s, es)"
    unfolding PrepareTemplateFunction_def fill
    by (simp add: example_function_template_def known_type_def deduced_specially_def expected_arg_is_mutalbe_reference_def example_params_def
        example_scope_def example_i32_def example_names)
  then obtain s es where s: "PrepareTemplateFunction example_builder example_env None ?known example_function_template [] SrcLoc_default
      [example_i32 Value] False True = Some (Some s, es)" by blast
  moreover have "example_params \<noteq> []" by (simp add: example_params_def)
  ultimately show ?thesis
    using PrepareTemplateFunction_correct [of example_builder ?known example_function_template example_env False "[example_i32 Value]" None "[]"
        SrcLoc_default True] example_hierarchy(2) example_ok fill
    by (auto simp: example_function_template_def call_args_def Let_def)
qed

text \<open>
  A value whose type is a template parameter behind a parameter that is not known yet: the type is deduced from the value, but it is not kept
  with the known arguments. A later argument sets the parameter to another type than that of the value.
\<close>

definition gap_params :: "TemplateParameter list" where
  "gap_params =
    [\<lparr> tpm_name = str ''N'', tpm_kind_data = VariableParamData (TemplateParam 2 0) \<rparr>,
     \<lparr> tpm_name = str ''B'', tpm_kind_data = TypeParamData \<rparr>,
     \<lparr> tpm_name = str ''A'', tpm_kind_data = TypeParamData \<rparr>]"

theorem parameterize_template_forgets:
  fixes env defines "a \<equiv> VariableArg \<lparr> tv_type = Fundamental i32_t 0, tv_constexpr_value = 1 \<rparr>"
  shows "\<exists>ft s. parameterize_template env [a] \<lparr> ka_template_params = gap_params, ka_known_template_args = [] \<rparr> = Some (Some ft) \<and>
    MatchTemplateArg env gap_params (TemplateParam 2 0) (TypeArg (Fundamental f32_t 0)) (FillKnownFunctionTemplateArgsIntoNamespace ft Map.empty) = Some (True, s) \<and>
    s (str ''N'') = Some (VariableValue (Fundamental i32_t 0) 1) \<and> s (str ''A'') = Some (TypeNameValue (Fundamental f32_t 0))"
proof -
  have names: "ch CHR ''N'' \<noteq> ch CHR ''B''" "ch CHR ''N'' \<noteq> ch CHR ''A''" "ch CHR ''B'' \<noteq> ch CHR ''A''" by code_simp+
  let ?ft = "\<lparr> ka_template_params = gap_params, ka_known_template_args = [a] \<rparr>"
  have param: "parameterize_template env [a] \<lparr> ka_template_params = gap_params, ka_known_template_args = [] \<rparr> = Some (Some ?ft)"
    by (simp add: parameterize_template_def gap_params_def not_deduced_scope_eq and_match_def names names [symmetric] a_def Let_def
        IsInteger_def IsSignedInteger_def)
  have match: "MatchTemplateArg env gap_params (TemplateParam 2 0) (TypeArg (Fundamental f32_t 0))
      (FillKnownFunctionTemplateArgsIntoNamespace ?ft Map.empty) =
    Some (True, (FillKnownFunctionTemplateArgsIntoNamespace ?ft Map.empty)(str ''A'' \<mapsto> TypeNameValue (Fundamental f32_t 0)))"
    "FillKnownFunctionTemplateArgsIntoNamespace ?ft Map.empty (str ''N'') = Some (VariableValue (Fundamental i32_t 0) 1)"
    by (simp_all add: FillKnownFunctionTemplateArgsIntoNamespace_def gap_params_def AddName_def a_def names names [symmetric])
  show ?thesis
    by (rule exI [of _ ?ft], rule exI, intro conjI, rule param, rule match(1)) (use match(2) names in simp_all)
qed

end
