(* ===== verification/Syntax_Keywords.thy ===== *)
theory Syntax_Keywords
  imports Lang_Types
begin

text \<open>
  The keywords the syntax analyzer compares lexems with. The enumeration \<open>Keywords\<close> of the program is generated by the build;
  its enumerators that other parts use as well are those of \<open>Lang_Types\<close>.
\<close>

datatype (plugins only: ) SyntaxKeywords = Common Keywords |
  await_kw | true_kw | false_kw | move_kw | take_kw | lambda_kw | cast_ref_kw | cast_ref_unsafe_kw | cast_imut_kw | cast_mut_kw |
  embed_kw | same_type_kw | safe_kw | unsafe_kw | mixin_kw | tup_kw | call_conv_kw | nodiscard_kw | byval_kw | zero_init_kw |
  uninitialized_kw | constexpr_kw | alloca_kw | return_kw | yield_kw | label_kw | while_kw | loop_kw | for_kw | break_kw |
  continue_kw | with_kw | if_kw | static_if_kw | if_coro_advance_kw | switch_kw | default_kw | enum_kw | halt_kw | type_kw |
  else_kw | final_kw | polymorph_kw | interface_kw | abstract_kw | ordered_kw | virtual_kw | override_kw | pure_kw |
  nomangle_kw | enable_if_kw | conversion_constructor_kw | constructor_kw | destructor_kw | delete_kw | template_kw |
  public_kw | private_kw | protected_kw | thread_local_kw

type_synonym SyntaxKeyword = "SyntaxKeywords \<Rightarrow> byte list"

text \<open>The words of \<^verbatim>\<open>keywords_list.txt\<close>, an instance of the parameter.\<close>

primrec syntax_keyword_word :: "SyntaxKeywords \<Rightarrow> string" where
  "syntax_keyword_word (Common k) = keyword_word k" |
  "syntax_keyword_word await_kw = ''await''" |
  "syntax_keyword_word true_kw = ''true''" |
  "syntax_keyword_word false_kw = ''false''" |
  "syntax_keyword_word move_kw = ''move''" |
  "syntax_keyword_word take_kw = ''take''" |
  "syntax_keyword_word lambda_kw = ''lambda''" |
  "syntax_keyword_word cast_ref_kw = ''cast_ref''" |
  "syntax_keyword_word cast_ref_unsafe_kw = ''cast_ref_unsafe''" |
  "syntax_keyword_word cast_imut_kw = ''cast_imut''" |
  "syntax_keyword_word cast_mut_kw = ''cast_mut''" |
  "syntax_keyword_word embed_kw = ''embed''" |
  "syntax_keyword_word same_type_kw = ''same_type''" |
  "syntax_keyword_word safe_kw = ''safe''" |
  "syntax_keyword_word unsafe_kw = ''unsafe''" |
  "syntax_keyword_word mixin_kw = ''mixin''" |
  "syntax_keyword_word tup_kw = ''tup''" |
  "syntax_keyword_word call_conv_kw = ''call_conv''" |
  "syntax_keyword_word nodiscard_kw = ''nodiscard''" |
  "syntax_keyword_word byval_kw = ''byval''" |
  "syntax_keyword_word zero_init_kw = ''zero_init''" |
  "syntax_keyword_word uninitialized_kw = ''uninitialized''" |
  "syntax_keyword_word constexpr_kw = ''constexpr''" |
  "syntax_keyword_word alloca_kw = ''alloca''" |
  "syntax_keyword_word return_kw = ''return''" |
  "syntax_keyword_word yield_kw = ''yield''" |
  "syntax_keyword_word label_kw = ''label''" |
  "syntax_keyword_word while_kw = ''while''" |
  "syntax_keyword_word loop_kw = ''loop''" |
  "syntax_keyword_word for_kw = ''for''" |
  "syntax_keyword_word break_kw = ''break''" |
  "syntax_keyword_word continue_kw = ''continue''" |
  "syntax_keyword_word with_kw = ''with''" |
  "syntax_keyword_word if_kw = ''if''" |
  "syntax_keyword_word static_if_kw = ''static_if''" |
  "syntax_keyword_word if_coro_advance_kw = ''if_coro_advance''" |
  "syntax_keyword_word switch_kw = ''switch''" |
  "syntax_keyword_word default_kw = ''default''" |
  "syntax_keyword_word enum_kw = ''enum''" |
  "syntax_keyword_word halt_kw = ''halt''" |
  "syntax_keyword_word type_kw = ''type''" |
  "syntax_keyword_word else_kw = ''else''" |
  "syntax_keyword_word final_kw = ''final''" |
  "syntax_keyword_word polymorph_kw = ''polymorph''" |
  "syntax_keyword_word interface_kw = ''interface''" |
  "syntax_keyword_word abstract_kw = ''abstract''" |
  "syntax_keyword_word ordered_kw = ''ordered''" |
  "syntax_keyword_word virtual_kw = ''virtual''" |
  "syntax_keyword_word override_kw = ''override''" |
  "syntax_keyword_word pure_kw = ''pure''" |
  "syntax_keyword_word nomangle_kw = ''nomangle''" |
  "syntax_keyword_word enable_if_kw = ''enable_if''" |
  "syntax_keyword_word conversion_constructor_kw = ''conversion_constructor''" |
  "syntax_keyword_word constructor_kw = ''constructor''" |
  "syntax_keyword_word destructor_kw = ''destructor''" |
  "syntax_keyword_word delete_kw = ''delete''" |
  "syntax_keyword_word template_kw = ''template''" |
  "syntax_keyword_word public_kw = ''public''" |
  "syntax_keyword_word private_kw = ''private''" |
  "syntax_keyword_word protected_kw = ''protected''" |
  "syntax_keyword_word thread_local_kw = ''thread_local''"

definition syntax_keywords_list :: SyntaxKeyword where
  "syntax_keywords_list k = str (syntax_keyword_word k)"

abbreviation fn_k :: SyntaxKeywords where "fn_k \<equiv> Common fn_kw"
abbreviation op_k :: SyntaxKeywords where "op_k \<equiv> Common op_kw"
abbreviation var_k :: SyntaxKeywords where "var_k \<equiv> Common var_kw"
abbreviation auto_k :: SyntaxKeywords where "auto_k \<equiv> Common auto_kw"
abbreviation mut_k :: SyntaxKeywords where "mut_k \<equiv> Common mut_kw"
abbreviation imut_k :: SyntaxKeywords where "imut_k \<equiv> Common imut_kw"
abbreviation this_k :: SyntaxKeywords where "this_k \<equiv> Common this_kw"

end
