(* ===== verification/Syntax_Elements.thy ===== *)
theory Syntax_Elements
  imports Syntax_Enums Operators Number_Parsing Lexem
begin

text \<open>
  The syntax tree, \<^verbatim>\<open>source/compiler0/lex_synt_lib/syntax_elements.hpp\<close> and \<^verbatim>\<open>syntax_elements.cpp\<close>. A struct is a
  datatype with one constructor, whose arguments are its fields in their order; a variant is a datatype with one constructor for
  each alternative. Structs with the same fields share a constructor that carries their kind. Structs that are
  part of several others have the types of the parts they contain as type variables, because those are not defined yet;
  names, types and initializers have the type of expressions as a type variable, and expressions that of block elements,
  because lambdas contain blocks. The linked lists of elements are lists.
\<close>

section \<open>Structs with parts of any type\<close>

datatype (plugins only: ) Label = Label SrcLoc "byte list"

datatype (plugins only: ) 'e NonSyncTag = NonSyncTagNone | NonSyncTagTrue | NonSyncTagExpression 'e

datatype (plugins only: ) 't FunctionParam =
  FunctionParam (fp_src_loc: SrcLoc) (fp_name: "byte list") (fp_type: 't) MutabilityModifier ReferenceModifier

text \<open>
  The expressions are the calling convention, the pollution of references, the references of the returned reference, and
  the inner references of the returned value.
\<close>

datatype (plugins only: ) ('t, 'e) FunctionTypeSyntax =
  FunctionTypeSyntax SrcLoc "'t FunctionParam list" "'e option" "'t option" "'e option" "'e option" "'e option"
    MutabilityModifier ReferenceModifier bool

datatype (plugins only: ) ('t, 'e) CoroutineTypeSyntax =
  CoroutineTypeSyntax SrcLoc "'e NonSyncTag" 't "MutabilityModifier list" "'e option" "'e option"
    CoroutineKind MutabilityModifier ReferenceModifier

datatype (plugins only: ) 'i MemberInitializer = MemberInitializer SrcLoc "byte list" 'i bool

datatype (plugins only: ) 'i StructNamedInitializer = StructNamedInitializer SrcLoc "'i MemberInitializer list"

datatype (plugins only: ) 'b Block = Block (block_src_loc: SrcLoc) SrcLoc (block_elements: "'b list")

datatype (plugins only: ) NameComponent = NameComponent (nc_name: "byte list") SrcLoc bool

text \<open>The four flags are: not mangled, not discardable, conversion constructor, constexpr.\<close>

datatype (plugins only: ) ('t, 'e, 'i, 'b) FunctionSyntax =
  FunctionSyntax (fn_src_loc: SrcLoc) (fn_name: "NameComponent list") 'e "('t, 'e) FunctionTypeSyntax"
    "'i StructNamedInitializer option" "'b Block option" "'e NonSyncTag" OverloadedOperator VirtualFunctionKind
    FunctionBodyKind FunctionKind bool bool bool bool

datatype (plugins only: ) 'e CaptureListElement = CaptureListElement SrcLoc "byte list" 'e bool bool

datatype (plugins only: ) 'e Capture =
  CaptureNothing | CaptureAllByValue | CaptureAllByReference | CaptureList "'e CaptureListElement list"

datatype (plugins only: ) 'i VariableEntry =
  VariableEntry SrcLoc "byte list" "'i option" MutabilityModifier ReferenceModifier bool

datatype (plugins only: ) ('t, 'i) VariablesDeclaration = VariablesDeclaration SrcLoc 't "'i VariableEntry list"

datatype (plugins only: ) 'e AutoVariableDeclaration =
  AutoVariableDeclaration SrcLoc "byte list" 'e MutabilityModifier ReferenceModifier

text \<open>An entry of a struct component has a location, a name, a component and the flag of completion.\<close>

datatype (plugins only: ) DecomposeDeclarationComponent =
    DecomposeDeclarationNamedComponent SrcLoc "byte list" MutabilityModifier
  | DecomposeDeclarationSequenceComponent SrcLoc "DecomposeDeclarationComponent list"
  | DecomposeDeclarationStructComponent SrcLoc "(SrcLoc \<times> byte list \<times> DecomposeDeclarationComponent \<times> bool) list"

datatype (plugins only: ) 'e DecomposeDeclaration = DecomposeDeclaration SrcLoc DecomposeDeclarationComponent 'e

datatype (plugins only: ) ('t, 'e, 'i) VariableDeclarationPart =
    NoVariableDeclarationPart
  | VariablesPart "('t, 'i) VariablesDeclaration"
  | AutoVariablePart "'e AutoVariableDeclaration"
  | DecomposePart "'e DecomposeDeclaration"

text \<open>The elements of the iteration part of a loop, which are elements of blocks too.\<close>

datatype (plugins only: ) 'e IterationPartElement =
    SingleExpressionOperator SrcLoc 'e
  | AssignmentOperator SrcLoc 'e 'e
  | CompoundAssignmentOperator SrcLoc BinaryOperatorType 'e 'e
  | IncrementOperator SrcLoc 'e
  | DecrementOperator SrcLoc 'e

datatype (plugins only: ) 'e CaseValue = SingleValue 'e | CaseRange 'e 'e

datatype (plugins only: ) 'e CaseValues = CaseValues "'e CaseValue list" | DefaultPlaceholder

datatype (plugins only: ) ('e, 'b) SwitchCase = SwitchCase "'e CaseValues" "'b Block"

datatype (plugins only: ) 'e StaticAssert = StaticAssert SrcLoc 'e "byte list option"

datatype (plugins only: ) 't TypeAlias = TypeAlias SrcLoc "byte list" 't

datatype (plugins only: ) 'e Mixin = Mixin SrcLoc 'e

datatype (plugins only: ) ('e, 'b) IfAlternative =
    BlockAlternative "'b Block"
  | IfAlternative "('e, 'b) IfOperator"
  | StaticIfAlternative "('e, 'b) StaticIfOperator"
  | IfCoroAdvanceAlternative "('e, 'b) IfCoroAdvanceOperator"
and ('e, 'b) IfOperator = IfOperator SrcLoc SrcLoc 'e "'b Block" "('e, 'b) IfAlternative option"
and ('e, 'b) StaticIfOperator = StaticIfOperator SrcLoc 'e "'b Block" "('e, 'b) IfAlternative option"
and ('e, 'b) IfCoroAdvanceOperator =
  IfCoroAdvanceOperator SrcLoc SrcLoc "byte list" 'e "'b Block" "('e, 'b) IfAlternative option" ReferenceModifier MutabilityModifier

section \<open>Names, types, expressions, initializers, elements of blocks\<close>

text \<open>The expressions without parts, and the kinds of the expressions that only have a location and an expression.\<close>

datatype (plugins only: ) TerminalExpression =
    IntegerNumericConstant SrcLoc Int128 "byte list"
  | FloatingPointNumericConstant SrcLoc "byte list" "byte list"
  | BooleanConstant SrcLoc bool
  | MoveOperator SrcLoc "byte list"
  | MoveOperatorCompletion SrcLoc "byte list"
  | StringLiteral SrcLoc "byte list" "byte list"
  | CharacterLiteral SrcLoc u32 "byte list"

datatype (plugins only: ) UnaryKind =
    CallOperatorSignatureHelp | AwaitOperator | UnaryMinus | LogicalNotOperator | BitwiseNotOperator | SafeExpression | UnsafeExpression
  | ReferenceToRawPointerOperator | RawPointerToReferenceOperator | TakeOperator | CastMut | CastImut

datatype (plugins only: ) 'e ComplexName_of =
    RootNamespaceNameLookup SrcLoc "byte list"
  | RootNamespaceNameLookupCompletion SrcLoc "byte list"
  | NameLookup SrcLoc "byte list"
  | NameLookupCompletion SrcLoc "byte list"
  | TypeofTypeName SrcLoc 'e
  | NamesScopeNameFetch SrcLoc "byte list" "'e ComplexName_of"
  | NamesScopeNameFetchCompletion SrcLoc "byte list" "'e ComplexName_of"
  | TemplateParameterization SrcLoc "'e list" "'e ComplexName_of"

datatype (plugins only: ) 'e CompoundTypeName_of =
    TupleType SrcLoc "'e TypeName_of list"
  | RawPointerType SrcLoc "'e TypeName_of"
  | ArrayTypeName SrcLoc "'e TypeName_of" 'e
  | FunctionTypeName "('e TypeName_of, 'e) FunctionTypeSyntax"
  | CoroutineTypeName "('e TypeName_of, 'e) CoroutineTypeSyntax"
  | MixinName "'e Mixin"
and 'e TypeName_of =
    EmptyTypeName
  | NamedType "'e ComplexName_of"
  | CompoundType "'e CompoundTypeName_of"

datatype (plugins only: ) 'e Initializer_of =
    EmptyInitializer
  | ZeroInitializer SrcLoc
  | UninitializedInitializer SrcLoc
  | ExpressionInitializer 'e
  | SequenceInitializer SrcLoc "'e Initializer_of list" bool
  | StructInitializer "'e Initializer_of StructNamedInitializer"
  | ConstructorInitializer SrcLoc "'e list"
  | ConstructorInitializerSignatureHelp SrcLoc "'e list"

datatype (plugins only: ) 'b Expression_of =
    EmptyExpression
  | TerminalNode TerminalExpression
  | UnaryNode UnaryKind SrcLoc "'b Expression_of"
  | TypeInfo SrcLoc "'b Expression_of TypeName_of"
  | SameType SrcLoc "'b Expression_of TypeName_of" "'b Expression_of TypeName_of"
  | NonSyncExpression SrcLoc "'b Expression_of TypeName_of"
  | CallOperator SrcLoc "'b Expression_of" "'b Expression_of list"
  | SubscriptOperator SrcLoc "'b Expression_of" "'b Expression_of"
  | MemberAccessOperator SrcLoc "'b Expression_of" "byte list" "'b Expression_of list" bool
  | MemberAccessOperatorCompletion SrcLoc "'b Expression_of" "byte list"
  | VariableInitialization SrcLoc "'b Expression_of" "'b Expression_of Initializer_of"
  | BinaryOperator SrcLoc BinaryOperatorType "'b Expression_of" "'b Expression_of"
  | TernaryOperator SrcLoc "'b Expression_of" "'b Expression_of" "'b Expression_of"
  | Lambda SrcLoc "'b Expression_of Capture" "('b Expression_of TypeName_of, 'b Expression_of, 'b Expression_of Initializer_of, 'b) FunctionSyntax"
  | CastRef SrcLoc "'b Expression_of TypeName_of" "'b Expression_of"
  | CastRefUnsafe SrcLoc "'b Expression_of TypeName_of" "'b Expression_of"
  | Embed SrcLoc "'b Expression_of ComplexName_of option" "'b Expression_of"
  | ExternalFunctionAccess SrcLoc "'b Expression_of TypeName_of" "byte list"
  | ExternalVariableAccess SrcLoc "'b Expression_of TypeName_of" "byte list"
  | NameExpression "'b Expression_of ComplexName_of"
  | TypeExpression "'b Expression_of CompoundTypeName_of"

datatype (plugins only: ) BlockElement =
    ScopeBlock SrcLoc "BlockElement Block" "Label option" BlockSafety
  | VariablesElement "(BlockElement Expression_of TypeName_of, BlockElement Expression_of Initializer_of) VariablesDeclaration"
  | AutoVariableElement "BlockElement Expression_of AutoVariableDeclaration"
  | DecomposeElement "BlockElement Expression_of DecomposeDeclaration"
  | AllocaDeclaration SrcLoc "BlockElement Expression_of TypeName_of" "byte list" "BlockElement Expression_of"
  | ReturnOperator SrcLoc "BlockElement Expression_of"
  | YieldOperator SrcLoc "BlockElement Expression_of"
  | WhileOperator SrcLoc "BlockElement Expression_of" "Label option" "BlockElement Block"
  | LoopOperator SrcLoc "Label option" "BlockElement Block"
  | RangeForOperator SrcLoc "byte list" "BlockElement Expression_of" "Label option" "BlockElement Block" ReferenceModifier MutabilityModifier
  | CStyleForOperator SrcLoc "(BlockElement Expression_of TypeName_of, BlockElement Expression_of, BlockElement Expression_of Initializer_of) VariableDeclarationPart" "BlockElement Expression_of"
      "BlockElement Expression_of IterationPartElement list" "Label option" "BlockElement Block"
  | BreakOperator SrcLoc "Label option"
  | ContinueOperator SrcLoc "Label option"
  | WithOperator SrcLoc "byte list" "BlockElement Expression_of" "BlockElement Block" ReferenceModifier MutabilityModifier
  | IfElement "(BlockElement Expression_of, BlockElement) IfOperator"
  | StaticIfElement "(BlockElement Expression_of, BlockElement) StaticIfOperator"
  | IfCoroAdvanceElement "(BlockElement Expression_of, BlockElement) IfCoroAdvanceOperator"
  | SwitchOperator SrcLoc SrcLoc "BlockElement Expression_of" "(BlockElement Expression_of, BlockElement) SwitchCase list"
  | ExpressionElement "BlockElement Expression_of IterationPartElement"
  | StaticAssertElement "BlockElement Expression_of StaticAssert"
  | TypeAliasElement "BlockElement Expression_of TypeName_of TypeAlias"
  | Halt SrcLoc
  | HaltIf SrcLoc "BlockElement Expression_of"
  | MixinElement "BlockElement Expression_of Mixin"

type_synonym Expression = "BlockElement Expression_of"
type_synonym ComplexName = "Expression ComplexName_of"
type_synonym CompoundTypeName = "Expression CompoundTypeName_of"
type_synonym TypeName = "Expression TypeName_of"
type_synonym Initializer = "Expression Initializer_of"

type_synonym BodyFunction = "(TypeName, Expression, Initializer, BlockElement) FunctionSyntax"

section \<open>Elements of classes and namespaces\<close>

datatype (plugins only: ) EnumSyntax =
  EnumSyntax SrcLoc "byte list" "ComplexName option" "(SrcLoc \<times> byte list) list" bool

datatype (plugins only: ) TemplateParamKind = TypeParamData | TypeTemplateParamData | VariableParamData TypeName

datatype (plugins only: ) TemplateParam = TemplateParam SrcLoc TemplateParamKind "byte list"

datatype (plugins only: ) SignatureParam = SignatureParam Expression Expression

datatype (plugins only: ) FunctionTemplateSyntax = FunctionTemplateSyntax SrcLoc "TemplateParam list" BodyFunction

text \<open>The expressions of a field are the tag of its reference and the tags of its inner references.\<close>

datatype (plugins only: ) ClassField =
  ClassField SrcLoc TypeName "byte list" "Initializer option" Expression Expression MutabilityModifier ReferenceModifier

datatype (plugins only: ) ClassElement =
    ClassVariables "(TypeName, Initializer) VariablesDeclaration"
  | ClassAutoVariable "Expression AutoVariableDeclaration"
  | ClassStaticAssert "Expression StaticAssert"
  | ClassFunction BodyFunction
  | ClassTypeAlias "TypeName TypeAlias"
  | ClassEnum EnumSyntax
  | ClassClass ClassSyntax
  | ClassFieldElement ClassField
  | ClassVisibilityLabel SrcLoc ClassMemberVisibility
  | ClassTypeTemplate TypeTemplateSyntax
  | ClassFunctionTemplate FunctionTemplateSyntax
  | ClassMixin "Expression Mixin"
and ClassSyntax =
  ClassSyntax SrcLoc "ClassElement list" "byte list" "ComplexName list" "Expression NonSyncTag" ClassKindAttribute bool bool
and TemplatedThing = TemplatedClass ClassSyntax | TemplatedTypeAlias "TypeName TypeAlias"
and TypeTemplateSyntax =
  TypeTemplateSyntax SrcLoc "byte list" "TemplateParam list" "SignatureParam list" TemplatedThing bool

datatype (plugins only: ) ProgramElement =
    ProgramVariables "(TypeName, Initializer) VariablesDeclaration"
  | ProgramAutoVariable "Expression AutoVariableDeclaration"
  | ProgramStaticAssert "Expression StaticAssert"
  | ProgramFunction BodyFunction
  | ProgramTypeAlias "TypeName TypeAlias"
  | ProgramEnum EnumSyntax
  | ProgramClass ClassSyntax
  | ProgramTypeTemplate TypeTemplateSyntax
  | ProgramFunctionTemplate FunctionTemplateSyntax
  | Namespace SrcLoc "byte list" "ProgramElement list"
  | ProgramMixin "Expression Mixin"

section \<open>Conversions and locations\<close>

definition ComplexNameToTypeName :: "ComplexName \<Rightarrow> TypeName" where
  "ComplexNameToTypeName n = NamedType n"

definition ComplexNameToExpression :: "ComplexName \<Rightarrow> Expression" where
  "ComplexNameToExpression n = NameExpression n"

fun TypeNameToExpression :: "TypeName \<Rightarrow> Expression" where
  "TypeNameToExpression EmptyTypeName = EmptyExpression" |
  "TypeNameToExpression (NamedType n) = NameExpression n" |
  "TypeNameToExpression (CompoundType t) = TypeExpression t"

fun GetSrcLoc_ComplexName :: "ComplexName \<Rightarrow> SrcLoc" where
  "GetSrcLoc_ComplexName (RootNamespaceNameLookup loc name) = loc" |
  "GetSrcLoc_ComplexName (RootNamespaceNameLookupCompletion loc name) = loc" |
  "GetSrcLoc_ComplexName (NameLookup loc name) = loc" |
  "GetSrcLoc_ComplexName (NameLookupCompletion loc name) = loc" |
  "GetSrcLoc_ComplexName (TypeofTypeName loc e) = loc" |
  "GetSrcLoc_ComplexName (NamesScopeNameFetch loc name b) = loc" |
  "GetSrcLoc_ComplexName (NamesScopeNameFetchCompletion loc name b) = loc" |
  "GetSrcLoc_ComplexName (TemplateParameterization loc args b) = loc"

fun GetSrcLoc_CompoundTypeName :: "CompoundTypeName \<Rightarrow> SrcLoc" where
  "GetSrcLoc_CompoundTypeName (TupleType loc ts) = loc" |
  "GetSrcLoc_CompoundTypeName (RawPointerType loc t) = loc" |
  "GetSrcLoc_CompoundTypeName (ArrayTypeName loc t e) = loc" |
  "GetSrcLoc_CompoundTypeName (FunctionTypeName (FunctionTypeSyntax loc ps cc r p rr ri m f u)) = loc" |
  "GetSrcLoc_CompoundTypeName (CoroutineTypeName (CoroutineTypeSyntax loc tag t irs rr ri k m f)) = loc" |
  "GetSrcLoc_CompoundTypeName (MixinName (Mixin loc e)) = loc"

fun GetSrcLoc_TerminalExpression :: "TerminalExpression \<Rightarrow> SrcLoc" where
  "GetSrcLoc_TerminalExpression (IntegerNumericConstant loc num sfx) = loc" |
  "GetSrcLoc_TerminalExpression (FloatingPointNumericConstant loc num sfx) = loc" |
  "GetSrcLoc_TerminalExpression (BooleanConstant loc b) = loc" |
  "GetSrcLoc_TerminalExpression (MoveOperator loc name) = loc" |
  "GetSrcLoc_TerminalExpression (MoveOperatorCompletion loc name) = loc" |
  "GetSrcLoc_TerminalExpression (StringLiteral loc v sfx) = loc" |
  "GetSrcLoc_TerminalExpression (CharacterLiteral loc c sfx) = loc"

fun GetSrcLoc :: "Expression \<Rightarrow> SrcLoc" where
  "GetSrcLoc EmptyExpression = SrcLoc_default" |
  "GetSrcLoc (TerminalNode t) = GetSrcLoc_TerminalExpression t" |
  "GetSrcLoc (UnaryNode k loc e) = loc" |
  "GetSrcLoc (TypeInfo loc t) = loc" |
  "GetSrcLoc (SameType loc l r) = loc" |
  "GetSrcLoc (NonSyncExpression loc t) = loc" |
  "GetSrcLoc (CallOperator loc e args) = loc" |
  "GetSrcLoc (SubscriptOperator loc e i) = loc" |
  "GetSrcLoc (MemberAccessOperator loc e name args h) = loc" |
  "GetSrcLoc (MemberAccessOperatorCompletion loc e name) = loc" |
  "GetSrcLoc (VariableInitialization loc e i) = loc" |
  "GetSrcLoc (BinaryOperator loc op l r) = loc" |
  "GetSrcLoc (TernaryOperator loc c t f) = loc" |
  "GetSrcLoc (Lambda loc c f) = loc" |
  "GetSrcLoc (CastRef loc t e) = loc" |
  "GetSrcLoc (CastRefUnsafe loc t e) = loc" |
  "GetSrcLoc (Embed loc t e) = loc" |
  "GetSrcLoc (ExternalFunctionAccess loc t name) = loc" |
  "GetSrcLoc (ExternalVariableAccess loc t name) = loc" |
  "GetSrcLoc (NameExpression n) = GetSrcLoc_ComplexName n" |
  "GetSrcLoc (TypeExpression t) = GetSrcLoc_CompoundTypeName t"

end
