(* ===== verification/Parser_Base.thy ===== *)
theory Parser_Base
  imports Parser_Cursor Syntax_Elements Syntax_Keywords "HOL-Library.Monad_Syntax"
begin

text \<open>
  What the parsers of \<^verbatim>\<open>source/compiler0/lex_synt_lib/syntax_analyzer.cpp\<close> share. A parser is a function from the state of the analyzer to
  a result and a new state; \<open>None\<close> means that it does not return. Loops are the partial function \<open>loop\<close>. The methods of the
  class call each other recursively, so a parser gets the recursive ones as its argument \<open>rec\<close>, a function from a goal and a state;
  the theory \<open>Syntax_Analysis\<close> closes the recursion by a fixed point. Failed assertions have no effect, as in a build
  without \<^verbatim>\<open>U_DEBUG\<close>.

  The second part is a small logic for such parsers. \<open>at b s0 s\<close> says that the analyzer can get from \<open>s0\<close> to \<open>s\<close>: the
  cursor has not moved back or out of the list, errors and contexts of expansion have only been added, and the bound on further work has not
  grown, and has become smaller if \<open>b\<close>. The bound counts the lexems that are left and the errors that may still
  be reported at the cursor before it moves. \<open>gets t Q m\<close> says that a computation returns if \<open>t\<close>, and that \<open>Q\<close> holds if it returns.
\<close>

section \<open>Goals and loops\<close>

datatype Goal =
    GExpression | GComponent | GTypeName | GInitializer bool | GBlockElements Lexem_Type | GIfAlternative | GDecomposeComponent
  | GClassElements Lexem_Type | GNamespaceElements Lexem_Type | GMacroMatchBlock | GMacroResultBlock

datatype Parsed =
    PExpression Expression
  | PTypeName TypeName
  | PInitializer Initializer
  | PBlockElements "BlockElement list"
  | PIfAlternative "(Expression, BlockElement) IfAlternative option"
  | PDecomposeComponent DecomposeDeclarationComponent
  | PClassElements "ClassElement list"
  | PNamespaceElements "ProgramElement list"
  | PMacroMatchBlock "MatchElement list"
  | PMacroResultBlock "ResultElement list"

type_synonym 'a parsed = "('a \<times> SyntaxAnalyzer) option"
type_synonym Rec = "Goal \<times> SyntaxAnalyzer \<Rightarrow> Parsed parsed"

definition rec_Expression :: "Rec \<Rightarrow> SyntaxAnalyzer \<Rightarrow> Expression parsed" where
  "rec_Expression rec s = do { (x, s) \<leftarrow> rec (GExpression, s); case x of PExpression e \<Rightarrow> Some (e, s) | _ \<Rightarrow> None }"

definition rec_Component :: "Rec \<Rightarrow> SyntaxAnalyzer \<Rightarrow> Expression parsed" where
  "rec_Component rec s = do { (x, s) \<leftarrow> rec (GComponent, s); case x of PExpression e \<Rightarrow> Some (e, s) | _ \<Rightarrow> None }"

definition rec_TypeName :: "Rec \<Rightarrow> SyntaxAnalyzer \<Rightarrow> TypeName parsed" where
  "rec_TypeName rec s = do { (x, s) \<leftarrow> rec (GTypeName, s); case x of PTypeName t \<Rightarrow> Some (t, s) | _ \<Rightarrow> None }"

definition rec_Initializer :: "Rec \<Rightarrow> bool \<Rightarrow> SyntaxAnalyzer \<Rightarrow> Initializer parsed" where
  "rec_Initializer rec b s = do { (x, s) \<leftarrow> rec (GInitializer b, s); case x of PInitializer i \<Rightarrow> Some (i, s) | _ \<Rightarrow> None }"

definition rec_BlockElements :: "Rec \<Rightarrow> Lexem_Type \<Rightarrow> SyntaxAnalyzer \<Rightarrow> BlockElement list parsed" where
  "rec_BlockElements rec end_lexem s =
    do { (x, s) \<leftarrow> rec (GBlockElements end_lexem, s); case x of PBlockElements es \<Rightarrow> Some (es, s) | _ \<Rightarrow> None }"

definition rec_IfAlternative :: "Rec \<Rightarrow> SyntaxAnalyzer \<Rightarrow> (Expression, BlockElement) IfAlternative option parsed" where
  "rec_IfAlternative rec s = do { (x, s) \<leftarrow> rec (GIfAlternative, s); case x of PIfAlternative a \<Rightarrow> Some (a, s) | _ \<Rightarrow> None }"

definition rec_DecomposeComponent :: "Rec \<Rightarrow> SyntaxAnalyzer \<Rightarrow> DecomposeDeclarationComponent parsed" where
  "rec_DecomposeComponent rec s =
    do { (x, s) \<leftarrow> rec (GDecomposeComponent, s); case x of PDecomposeComponent c \<Rightarrow> Some (c, s) | _ \<Rightarrow> None }"

definition rec_ClassElements :: "Rec \<Rightarrow> Lexem_Type \<Rightarrow> SyntaxAnalyzer \<Rightarrow> ClassElement list parsed" where
  "rec_ClassElements rec end_lexem s =
    do { (x, s) \<leftarrow> rec (GClassElements end_lexem, s); case x of PClassElements es \<Rightarrow> Some (es, s) | _ \<Rightarrow> None }"

definition rec_NamespaceElements :: "Rec \<Rightarrow> Lexem_Type \<Rightarrow> SyntaxAnalyzer \<Rightarrow> ProgramElement list parsed" where
  "rec_NamespaceElements rec end_lexem s =
    do { (x, s) \<leftarrow> rec (GNamespaceElements end_lexem, s); case x of PNamespaceElements es \<Rightarrow> Some (es, s) | _ \<Rightarrow> None }"

definition rec_MacroMatchBlock :: "Rec \<Rightarrow> SyntaxAnalyzer \<Rightarrow> MatchElement list parsed" where
  "rec_MacroMatchBlock rec s = do { (x, s) \<leftarrow> rec (GMacroMatchBlock, s); case x of PMacroMatchBlock es \<Rightarrow> Some (es, s) | _ \<Rightarrow> None }"

definition rec_MacroResultBlock :: "Rec \<Rightarrow> SyntaxAnalyzer \<Rightarrow> ResultElement list parsed" where
  "rec_MacroResultBlock rec s =
    do { (x, s) \<leftarrow> rec (GMacroResultBlock, s); case x of PMacroResultBlock es \<Rightarrow> Some (es, s) | _ \<Rightarrow> None }"

text \<open>A loop: its body goes on with new values of the local variables (\<open>Inl\<close>) or leaves the loop with a result (\<open>Inr\<close>).\<close>

partial_function (option) loop ::
  "('c \<Rightarrow> SyntaxAnalyzer \<Rightarrow> ('c + 'r) parsed) \<Rightarrow> 'c \<Rightarrow> SyntaxAnalyzer \<Rightarrow> 'r parsed" where
  "loop body c s = do { (x, s) \<leftarrow> body c s; case x of Inl c' \<Rightarrow> loop body c' s | Inr r \<Rightarrow> Some (r, s) }"

section \<open>Tests of the lexem under the cursor\<close>

abbreviation at_lexem :: "Lexem_Type \<Rightarrow> SyntaxAnalyzer \<Rightarrow> bool" where
  "at_lexem t s \<equiv> lexem_type (cur s) = t"

abbreviation at_keyword :: "SyntaxKeyword \<Rightarrow> SyntaxKeywords \<Rightarrow> SyntaxAnalyzer \<Rightarrow> bool" where
  "at_keyword K k s \<equiv> lexem_type (cur s) = Identifier \<and> lexem_text (cur s) = K k"

abbreviation loc :: "SyntaxAnalyzer \<Rightarrow> SrcLoc" where
  "loc s \<equiv> lexem_src_loc (cur s)"

definition next_lexem_type :: "SyntaxAnalyzer \<Rightarrow> Lexem_Type" where
  "next_lexem_type s = lexem_type (lexem_at (sa_lexems s) (sa_it s + 1))"

definition prev_loc :: "SyntaxAnalyzer \<Rightarrow> SrcLoc" where
  "prev_loc s = lexem_src_loc (lexem_at (sa_lexems s) (sa_it s - 1))"

definition add_error_message :: "byte list \<Rightarrow> SrcLoc \<Rightarrow> SyntaxAnalyzer \<Rightarrow> SyntaxAnalyzer" where
  "add_error_message message l s = s \<lparr> sa_error_messages := sa_error_messages s @ [mk_error message l] \<rparr>"

section \<open>Progress of the analyzer\<close>

definition cursor_ok :: "SyntaxAnalyzer \<Rightarrow> bool" where
  "cursor_ok s \<longleftrightarrow> sa_it s < length (sa_lexems s) \<and> lexem_type (last (sa_lexems s)) = EndOfFile \<and>
    sa_last_error_repeats s \<le> 10 \<and> sa_macro_expansion_depth s \<le> 10"

definition effort :: "SyntaxAnalyzer \<Rightarrow> nat" where
  "effort s =
    (if NotEndOfFile s
     then 12 * (length (sa_lexems s) - sa_it s) + (if sa_last_error_it s = sa_it s then 11 - sa_last_error_repeats s else 12)
     else 0)"

definition follows :: "SyntaxAnalyzer \<Rightarrow> SyntaxAnalyzer \<Rightarrow> bool" where
  "follows s s' \<longleftrightarrow> advances s s' \<and> cursor_ok s' \<and> effort s' \<le> effort s \<and>
    sa_macros s' = sa_macros s \<and> sa_macro_expansion_depth s' = sa_macro_expansion_depth s \<and>
    sa_macro_unique_identifiers_base_name s' = sa_macro_unique_identifiers_base_name s \<and>
    (\<exists>cs. sa_macro_expansion_contexts s' = sa_macro_expansion_contexts s @ cs)"

definition at :: "bool \<Rightarrow> SyntaxAnalyzer \<Rightarrow> SyntaxAnalyzer \<Rightarrow> bool" where
  "at b s s' \<longleftrightarrow> cursor_ok s \<and> follows s s' \<and> (b \<longrightarrow> effort s' < effort s)"

lemma follows_refl: "cursor_ok s \<Longrightarrow> follows s s"
  by (simp add: follows_def advances_refl)

lemma follows_trans: "follows s s' \<Longrightarrow> follows s' s'' \<Longrightarrow> follows s s''"
  by (auto simp: follows_def intro: advances_trans)

lemma at_refl: "cursor_ok s \<Longrightarrow> at False s s"
  by (simp add: at_def follows_refl)

lemma at_ok: "at b s s' \<Longrightarrow> cursor_ok s'"
  by (simp add: at_def follows_def)

lemma at_trans: "at b s s' \<Longrightarrow> at c s' s'' \<Longrightarrow> at (b \<or> c) s s''"
  unfolding at_def by (auto intro: follows_trans) (auto simp: follows_def)

lemma at_same: "at b s s' \<Longrightarrow> sa_macros s' = sa_macros s"
  by (simp add: at_def follows_def)

lemma at_weaken: "at b s s' \<Longrightarrow> (c \<longrightarrow> b) \<Longrightarrow> at c s s'"
  by (simp add: at_def)

lemma effort_moved:
  assumes "cursor_ok s" and "cursor_ok s'" and "sa_lexems s' = sa_lexems s" and "sa_it s < sa_it s'"
  shows "effort s' < effort s"
  using assms by (auto simp: effort_def cursor_ok_def NotEndOfFile_def split: if_splits)

lemma cursor_ok_lexem: "cursor_ok s \<Longrightarrow> \<not> at_lexem EndOfFile s \<Longrightarrow> NotEndOfFile s"
proof (rule ccontr)
  assume *: "cursor_ok s" "\<not> at_lexem EndOfFile s" "\<not> NotEndOfFile s"
  then have "sa_it s = length (sa_lexems s) - 1" "sa_lexems s \<noteq> []" by (auto simp: cursor_ok_def NotEndOfFile_def)
  with * show False by (simp add: cur_def lexem_at_def cursor_ok_def last_conv_nth)
qed

text \<open>A step that makes progress where the cursor is not on the last lexem.\<close>

definition stepper :: "(SyntaxAnalyzer \<Rightarrow> SyntaxAnalyzer) \<Rightarrow> bool" where
  "stepper f \<longleftrightarrow> (\<forall>s. cursor_ok s \<longrightarrow> at (NotEndOfFile s) s (f s))"

lemma NextLexem_stepper: "stepper NextLexem"
  unfolding stepper_def
proof (intro allI impI)
  fix s assume ok: "cursor_ok s"
  show "at (NotEndOfFile s) s (NextLexem s)"
  proof (cases "NotEndOfFile s")
    case True
    have *: "cursor_ok (NextLexem s)" using ok True by (simp add: cursor_ok_def NextLexem_def NotEndOfFile_def)
    have "effort (NextLexem s) < effort s"
      by (rule effort_moved [OF ok *]) (use True in \<open>simp_all add: NextLexem_def\<close>)
    with * ok True NextLexem_moves [of s] show ?thesis by (simp add: at_def follows_def NextLexem_def)
  next
    case False
    then show ?thesis using ok by (simp add: NextLexem_def at_refl)
  qed
qed

lemma PushErrorMessage_fields [simp]:
  "sa_macros (PushErrorMessage s) = sa_macros s"
  "sa_macro_expansion_depth (PushErrorMessage s) = sa_macro_expansion_depth s"
  "sa_macro_unique_identifiers_base_name (PushErrorMessage s) = sa_macro_unique_identifiers_base_name s"
  "sa_macro_expansion_contexts (PushErrorMessage s) = sa_macro_expansion_contexts s"
  "sa_lexems (PushErrorMessage s) = sa_lexems s"
  by (simp_all add: PushErrorMessage_def Let_def NextLexem_def)

text \<open>The effect of an error report on the cursor and on the memory of the last error.\<close>

lemma PushErrorMessage_cursor:
  defines "n \<equiv> \<lambda>s. sa_last_error_repeats s"
  shows "sa_it (PushErrorMessage s) = (if sa_it s = sa_last_error_it s \<and> n s \<ge> 10 \<and> NotEndOfFile s then sa_it s + 1 else sa_it s)"
    and "sa_last_error_it (PushErrorMessage s) = sa_it (PushErrorMessage s)"
    and "n (PushErrorMessage s) = (if sa_it s = sa_last_error_it s \<and> n s < 10 then n s + 1 else 0)"
  by (simp_all add: n_def PushErrorMessage_def Let_def NextLexem_def NotEndOfFile_def)

lemma PushErrorMessage_stepper: "stepper PushErrorMessage"
  unfolding stepper_def
proof (intro allI impI)
  fix s assume ok: "cursor_ok s"
  let ?s = "PushErrorMessage s"
  have *: "cursor_ok ?s"
    using ok by (auto simp: cursor_ok_def PushErrorMessage_cursor NotEndOfFile_def)
  have "effort ?s \<le> effort s" "NotEndOfFile s \<longrightarrow> effort ?s < effort s"
    using ok by (auto simp: effort_def PushErrorMessage_cursor NotEndOfFile_def cursor_ok_def)
  with * ok PushErrorMessage_moves [of s] show "at (NotEndOfFile s) s ?s"
    by (simp add: at_def follows_def)
qed

lemma ExpectLexem_stepper: "stepper (ExpectLexem t)"
  using NextLexem_stepper PushErrorMessage_stepper by (simp add: stepper_def ExpectLexem_def)

lemma TryRecoverAfterError_at: "at b s0 s \<Longrightarrow> at b s0 (TryRecoverAfterError e s)"
proof -
  assume *: "at b s0 s"
  have ok: "cursor_ok s" using * by (rule at_ok)
  let ?s = "TryRecoverAfterError e s"
  have adv: "advances s ?s" using TryRecoverAfterError_moves ok by (simp add: cursor_ok_def)
  have ok': "cursor_ok ?s" using adv ok by (auto simp: cursor_ok_def advances_def TryRecoverAfterError_def)
  have "effort ?s \<le> effort s"
  proof (cases "sa_it s < sa_it ?s")
    case True
    then show ?thesis using effort_moved [OF ok ok'] adv by (simp add: advances_def)
  next
    case False
    then show ?thesis using adv by (simp add: advances_def effort_def TryRecoverAfterError_def NotEndOfFile_def)
  qed
  with adv ok' have "follows s ?s" by (simp add: follows_def TryRecoverAfterError_def)
  then show ?thesis using at_trans [OF *, of False ?s] ok by (simp add: at_def)
qed

lemma errors_update [simp]:
  "cursor_ok (s \<lparr> sa_error_messages := es \<rparr>) = cursor_ok s"
  "effort (s \<lparr> sa_error_messages := es \<rparr>) = effort s"
  by (simp_all add: cursor_ok_def effort_def NotEndOfFile_def)

lemma at_errors: "at b s0 s \<Longrightarrow> at b s0 (s \<lparr> sa_error_messages := sa_error_messages s @ es \<rparr>)"
  by (clarsimp simp: at_def follows_def advances_def)

lemma add_error_message_at: "at b s0 s \<Longrightarrow> at b s0 (add_error_message m l s)"
  by (simp add: add_error_message_def at_errors)

text \<open>Progress since \<open>s0\<close>: a state reached without progress still has the cursor of \<open>s0\<close>.\<close>

lemma at_NotEndOfFile:
  assumes "at b s0 s" and "NotEndOfFile s0"
  shows "effort s < effort s0 \<or> NotEndOfFile s"
proof (cases "effort s < effort s0")
  case False
  then have "sa_it s = sa_it s0" "sa_lexems s = sa_lexems s0"
    using assms(1) effort_moved [of s0 s] by (force simp: at_def follows_def advances_def)+
  with assms(2) show ?thesis by (simp add: NotEndOfFile_def)
qed simp

lemma stepper_at:
  assumes "stepper f" and "at b s0 s"
  shows "at (b \<or> NotEndOfFile s0 \<or> \<not> at_lexem EndOfFile s) s0 (f s)"
proof -
  have ok: "cursor_ok s" using assms(2) by (rule at_ok)
  have step: "at (NotEndOfFile s) s (f s)" using assms(1) ok by (simp add: stepper_def)
  have "at (effort s < effort s0) s0 s" using assms(2) by (simp add: at_def)
  from at_trans [OF this step] show ?thesis
    by (rule at_weaken) (use assms(2) at_NotEndOfFile [OF assms(2)] cursor_ok_lexem [OF ok] in \<open>auto simp: at_def\<close>)
qed

section \<open>Results\<close>

definition gets :: "bool \<Rightarrow> ('a \<Rightarrow> SyntaxAnalyzer \<Rightarrow> bool) \<Rightarrow> 'a parsed \<Rightarrow> bool" where
  "gets t Q m \<longleftrightarrow> (case m of None \<Rightarrow> \<not> t | Some (a, s) \<Rightarrow> Q a s)"

lemma gets_mono: "gets t R m \<Longrightarrow> (\<And>a s. R a s \<Longrightarrow> Q a s) \<Longrightarrow> gets t Q m"
  by (auto simp: gets_def split: option.splits)

lemma gets_Some: "at b s0 s \<Longrightarrow> (c a \<longrightarrow> b) \<Longrightarrow> gets t (\<lambda>a. at (c a) s0) (Some (a, s))"
  by (simp add: gets_def at_def)

lemma gets_bind:
  "gets t R m \<Longrightarrow> (\<And>a s. R a s \<Longrightarrow> gets t Q (f a s)) \<Longrightarrow> gets t Q (Option.bind m (\<lambda>(a, s). f a s))"
  by (cases m) (auto simp: gets_def)

lemma gets_if: "(c \<Longrightarrow> gets t Q m) \<Longrightarrow> (\<not> c \<Longrightarrow> gets t Q m') \<Longrightarrow> gets t Q (if c then m else m')"
  by simp

lemma gets_case_prod: "(\<And>x y. p = (x, y) \<Longrightarrow> gets t Q (f x y)) \<Longrightarrow> gets t Q (case p of (x, y) \<Rightarrow> f x y)"
  by (cases p) simp

lemma gets_case_prod_state:
  "(\<And>x y. p = (x, y) \<Longrightarrow> gets t Q (f x y s)) \<Longrightarrow> gets t Q ((case p of (x, y) \<Rightarrow> f x y) s)"
  by (cases p) simp

lemma gets_case_option:
  "(x = None \<Longrightarrow> gets t Q m) \<Longrightarrow> (\<And>a. x = Some a \<Longrightarrow> gets t Q (f a)) \<Longrightarrow> gets t Q (case x of None \<Rightarrow> m | Some a \<Rightarrow> f a)"
  by (cases x) simp_all

lemma gets_case_sum:
  "(\<And>a. x = Inl a \<Longrightarrow> gets t Q (f a)) \<Longrightarrow> (\<And>b. x = Inr b \<Longrightarrow> gets t Q (g b)) \<Longrightarrow>
    gets t Q (case x of Inl a \<Rightarrow> f a | Inr b \<Rightarrow> g b)"
  by (cases x) simp_all

lemma gets_let: "(\<And>x. x = e \<Longrightarrow> gets t Q (f x)) \<Longrightarrow> gets t Q (let x = e in f x)"
  by simp

text \<open>The rules for assignments to the state forget what the new state is, and remember how it was reached.\<close>

lemma gets_let_state: "at c s0 s \<Longrightarrow> (\<And>s. at c s0 s \<Longrightarrow> gets t Q (f s)) \<Longrightarrow> gets t Q (let s = s in f s)"
  by simp

lemma at_if: "at b s0 s \<Longrightarrow> at c s0 s' \<Longrightarrow> at ((P \<longrightarrow> b) \<and> (\<not> P \<longrightarrow> c)) s0 (if P then s else s')"
  by (simp add: at_def)

section \<open>Recursive calls\<close>

text \<open>
  The states a recursive call may start from are those with a greater depth of macro expansion, and those
  with the same depth and a smaller bound on the work that is left.
\<close>

definition smaller :: "SyntaxAnalyzer \<Rightarrow> SyntaxAnalyzer \<Rightarrow> bool" where
  "smaller s' s \<longleftrightarrow> sa_macro_expansion_depth s < sa_macro_expansion_depth s' \<and> sa_macro_expansion_depth s' \<le> 10 \<or>
    sa_macro_expansion_depth s' = sa_macro_expansion_depth s \<and> effort s' < effort s"

lemma wf_smaller: "wfp smaller"
proof -
  have "wf (inv_image (less_than <*lex*> less_than) (\<lambda>s. (10 - sa_macro_expansion_depth s, effort s)))" by auto
  then have "wf {(s', s). smaller s' s}"
    by (rule wf_subset) (auto simp: smaller_def)
  then show ?thesis by (simp add: wfp_def)
qed

definition same_or_smaller :: "bool \<Rightarrow> SyntaxAnalyzer \<Rightarrow> SyntaxAnalyzer \<Rightarrow> bool" where
  "same_or_smaller r s' s \<longleftrightarrow>
    smaller s' s \<or> r \<and> sa_macro_expansion_depth s' = sa_macro_expansion_depth s \<and> effort s' \<le> effort s"

fun answers :: "Goal \<Rightarrow> Parsed \<Rightarrow> bool" where
  "answers GExpression x = (\<exists>e. x = PExpression e)" |
  "answers GComponent x = (\<exists>e. x = PExpression e)" |
  "answers GTypeName x = (\<exists>e. x = PTypeName e)" |
  "answers (GInitializer b) x = (\<exists>e. x = PInitializer e)" |
  "answers (GBlockElements l) x = (\<exists>e. x = PBlockElements e)" |
  "answers GIfAlternative x = (\<exists>e. x = PIfAlternative e)" |
  "answers GDecomposeComponent x = (\<exists>e. x = PDecomposeComponent e)" |
  "answers (GClassElements l) x = (\<exists>e. x = PClassElements e)" |
  "answers (GNamespaceElements l) x = (\<exists>e. x = PNamespaceElements e)" |
  "answers GMacroMatchBlock x = (\<exists>e. x = PMacroMatchBlock e)" |
  "answers GMacroResultBlock x = (\<exists>e. x = PMacroResultBlock e)"

text \<open>The goals that always consume a lexem or report an error.\<close>

definition progresses :: "Goal \<Rightarrow> bool" where
  "progresses g \<longleftrightarrow> g \<in> {GExpression, GComponent, GTypeName, GIfAlternative, GDecomposeComponent} \<or> (\<exists>b. g = GInitializer b)"

text \<open>
  A repeated part of a macro is harmless if every repetition consumes a lexem: a separator, or the lexem a repetition
  starts with.
\<close>

fun match_element_safe :: "MatchElement \<Rightarrow> bool" where
  "match_element_safe (MatchElement kind check lexem name subs) \<longleftrightarrow> list_all match_element_safe subs \<and>
    (kind = MatchRepeated \<longrightarrow>
      (case check of
         LexemAfterBlockEnd \<Rightarrow> lexem_type lexem \<noteq> EndOfFile
       | LexemAtBlockStart \<Rightarrow> subs \<noteq> [] \<and> me_kind (hd subs) = MatchLexem))"

definition macros_safe :: "MacrosByContextMap \<Rightarrow> bool" where
  "macros_safe ms \<longleftrightarrow> (\<forall>(c, m) \<in> set ms. \<forall>(name, macro) \<in> set m. list_all match_element_safe (mc_match_template_elements macro))"

definition rec_ok :: "bool \<Rightarrow> Rec \<Rightarrow> bool \<Rightarrow> SyntaxAnalyzer \<Rightarrow> bool" where
  "rec_ok t rec r s0 \<longleftrightarrow> (t \<longrightarrow> macros_safe (sa_macros s0)) \<and>
    (\<forall>g s. cursor_ok s \<and> sa_macros s = sa_macros s0 \<and> same_or_smaller r s s0 \<longrightarrow>
      gets t (\<lambda>x s'. answers g x \<and> at (progresses g \<and> NotEndOfFile s) s s') (rec (g, s)))"

lemma rec_ok_at:
  assumes "rec_ok t rec r s0" and "at b s0 s"
  shows "rec_ok t rec (r \<or> b) s"
proof -
  have "same_or_smaller r s' s0" if "same_or_smaller (r \<or> b) s' s" for s'
    using that assms(2) by (auto simp: same_or_smaller_def smaller_def at_def follows_def)
  then show ?thesis using assms by (auto simp: rec_ok_def at_def follows_def)
qed

text \<open>A recursive call, where something has been consumed or a call with the same bound is allowed.\<close>

lemma rec_call:
  assumes "rec_ok t rec r s0" and "at b s0 s" and "r \<or> b"
  shows "gets t (\<lambda>x s'. answers g x \<and> at (b \<or> progresses g \<and> (NotEndOfFile s0 \<or> \<not> at_lexem EndOfFile s)) s0 s') (rec (g, s))"
proof -
  have "same_or_smaller r s s0" using assms(2,3) by (auto simp: same_or_smaller_def smaller_def at_def follows_def)
  then have "gets t (\<lambda>x s'. answers g x \<and> at (progresses g \<and> NotEndOfFile s) s s') (rec (g, s))"
    using assms(1) at_ok [OF assms(2)] at_same [OF assms(2)] by (simp add: rec_ok_def)
  then show ?thesis
  proof (rule gets_mono)
    fix x s'
    have *: "at (effort s < effort s0) s0 s" using assms(2) by (simp add: at_def)
    assume "answers g x \<and> at (progresses g \<and> NotEndOfFile s) s s'"
    with at_trans [OF *, of "progresses g \<and> NotEndOfFile s" s'] at_NotEndOfFile [OF assms(2)] assms(2)
      cursor_ok_lexem [OF at_ok [OF assms(2)]]
    show "answers g x \<and> at (b \<or> progresses g \<and> (NotEndOfFile s0 \<or> \<not> at_lexem EndOfFile s)) s0 s'"
      by (auto simp: at_def)
  qed
qed

lemma gets_project:
  assumes "gets t (\<lambda>x s'. P x \<and> R s') m" and "\<And>x s'. P x \<Longrightarrow> R s' \<Longrightarrow> \<exists>a. f x s' = Some (a, s')"
  shows "gets t (\<lambda>_ s'. R s') (Option.bind m (\<lambda>(x, s'). f x s'))"
proof (rule gets_bind [OF assms(1)])
  fix x s' assume "P x \<and> R s'"
  with assms(2) obtain a where "f x s' = Some (a, s')" by blast
  with \<open>P x \<and> R s'\<close> show "gets t (\<lambda>_ s'. R s') (f x s')" by (simp add: gets_def)
qed

lemmas rec_defs = rec_Expression_def rec_Component_def rec_TypeName_def rec_Initializer_def rec_BlockElements_def
  rec_IfAlternative_def rec_DecomposeComponent_def rec_ClassElements_def rec_NamespaceElements_def
  rec_MacroMatchBlock_def rec_MacroResultBlock_def

lemma rec_at:
  assumes "at b s0 s" and "rec_ok t rec r s0" and "r \<or> b"
  shows "gets t (\<lambda>_. at (b \<or> NotEndOfFile s0 \<or> \<not> at_lexem EndOfFile s) s0) (rec_Expression rec s)"
    and "gets t (\<lambda>_. at (b \<or> NotEndOfFile s0 \<or> \<not> at_lexem EndOfFile s) s0) (rec_Component rec s)"
    and "gets t (\<lambda>_. at (b \<or> NotEndOfFile s0 \<or> \<not> at_lexem EndOfFile s) s0) (rec_TypeName rec s)"
    and "gets t (\<lambda>_. at (b \<or> NotEndOfFile s0 \<or> \<not> at_lexem EndOfFile s) s0) (rec_Initializer rec i s)"
    and "gets t (\<lambda>_. at (b \<or> NotEndOfFile s0 \<or> \<not> at_lexem EndOfFile s) s0) (rec_IfAlternative rec s)"
    and "gets t (\<lambda>_. at (b \<or> NotEndOfFile s0 \<or> \<not> at_lexem EndOfFile s) s0) (rec_DecomposeComponent rec s)"
    and "gets t (\<lambda>_. at b s0) (rec_BlockElements rec l s)"
    and "gets t (\<lambda>_. at b s0) (rec_ClassElements rec l s)"
    and "gets t (\<lambda>_. at b s0) (rec_NamespaceElements rec l s)"
    and "gets t (\<lambda>_. at b s0) (rec_MacroMatchBlock rec s)"
    and "gets t (\<lambda>_. at b s0) (rec_MacroResultBlock rec s)"
  unfolding rec_defs
  using rec_call [OF assms(2,1,3), of GExpression] rec_call [OF assms(2,1,3), of GComponent] rec_call [OF assms(2,1,3), of GTypeName]
    rec_call [OF assms(2,1,3), of "GInitializer i"] rec_call [OF assms(2,1,3), of GIfAlternative] rec_call [OF assms(2,1,3), of GDecomposeComponent]
    rec_call [OF assms(2,1,3), of "GBlockElements l"] rec_call [OF assms(2,1,3), of "GClassElements l"] rec_call [OF assms(2,1,3), of "GNamespaceElements l"]
    rec_call [OF assms(2,1,3), of GMacroMatchBlock] rec_call [OF assms(2,1,3), of GMacroResultBlock]
  by (auto simp: progresses_def elim!: gets_project)

section \<open>Loops\<close>

text \<open>A loop returns if every round that is not the last makes progress.\<close>

lemma loop_round:
  assumes "at b s0 s" and "at c s s'" and "\<And>c'. x = Inl c' \<Longrightarrow> at b s0 s' \<Longrightarrow> gets t (\<lambda>_. at b s0) (lp c' s')"
  shows "gets t (\<lambda>_. at b s0) (case x of Inl c' \<Rightarrow> lp c' s' | Inr r \<Rightarrow> Some (r, s'))"
proof -
  have "at b s0 s'" using at_trans [OF assms(1,2)] by (rule at_weaken) simp
  then show ?thesis using assms(3) by (cases x) (simp_all add: gets_def)
qed

lemma gets_loop_total:
  fixes body :: "'c \<Rightarrow> SyntaxAnalyzer \<Rightarrow> ('c + 'r) parsed"
  assumes body: "\<And>c s1. at b s0 s1 \<Longrightarrow> gets t (\<lambda>x. at (isl x) s1) (body c s1)"
    and "at b s0 s"
  shows "gets t (\<lambda>_. at b s0) (loop body c s)"
  using assms(2)
proof (induction "effort s" arbitrary: c s rule: less_induct)
  case less
  show ?case
  proof (subst loop.simps, rule gets_bind [OF body [OF less.prems]])
    fix x :: "'c + 'r" and s' assume x: "at (isl x) s s'"
    show "gets t (\<lambda>_. at b s0) (case x of Inl c' \<Rightarrow> loop body c' s' | Inr r \<Rightarrow> Some (r, s'))"
    proof (rule loop_round [OF less.prems x])
      fix c' assume "x = Inl c'" "at b s0 s'"
      with x show "gets t (\<lambda>_. at b s0) (loop body c' s')" using less.hyps by (simp add: at_def)
    qed
  qed
qed

lemma gets_loop_partial:
  assumes body: "\<And>c s1. at b s0 s1 \<Longrightarrow> gets False (\<lambda>_. at False s1) (body c s1)"
    and "at b s0 s"
  shows "gets False (\<lambda>_. at b s0) (loop body c s)"
proof -
  have "b' = body \<longrightarrow> at b s0 s \<longrightarrow> at b s0 (snd y)" if "loop b' c s = Some y" for b' c s y
    using that
  proof (rule loop.raw_induct [rotated])
    fix lp b' c s y
    assume IH: "\<And>b' c s y. lp b' c s = Some y \<Longrightarrow> b' = body \<longrightarrow> at b s0 s \<longrightarrow> at b s0 (snd y)"
      and step: "Option.bind (b' c s) (\<lambda>(x, s). case x of Inl c' \<Rightarrow> lp b' c' s | Inr r \<Rightarrow> Some (r, s)) = Some y"
    show "b' = body \<longrightarrow> at b s0 s \<longrightarrow> at b s0 (snd y)"
    proof (intro impI)
      assume *: "b' = body" "at b s0 s"
      have "gets False (\<lambda>_. at b s0) (Option.bind (body c s) (\<lambda>(x, s). case x of Inl c' \<Rightarrow> lp body c' s | Inr r \<Rightarrow> Some (r, s)))"
      proof (rule gets_bind [OF body [OF *(2)]])
        fix x s' assume "at False s s'"
        with *(2) show "gets False (\<lambda>_. at b s0) (case x of Inl c' \<Rightarrow> lp body c' s' | Inr r \<Rightarrow> Some (r, s'))"
          by (rule loop_round) (use IH in \<open>fastforce simp: gets_def split: option.splits\<close>)
      qed
      with step [unfolded *(1)] show "at b s0 (snd y)" by (cases y) (simp add: gets_def)
    qed
  qed
  with assms(2) show ?thesis by (fastforce simp: gets_def split: option.splits)
qed

lemma gets_loop:
  assumes "\<And>c s1. at b s0 s1 \<Longrightarrow> at False s1 s1 \<Longrightarrow> gets t (\<lambda>x. at (t \<and> isl x) s1) (body c s1)" and "at b s0 s"
  shows "gets t (\<lambda>_. at b s0) (loop body c s)"
  using gets_loop_total [of b s0 t body s c] gets_loop_partial [of b s0 body s c] assms at_refl [OF at_ok] by (cases t) simp_all

lemma loop_mono [partial_function_mono]:
  fixes B :: "('x \<Rightarrow> 'y option) \<Rightarrow> 'c \<Rightarrow> SyntaxAnalyzer \<Rightarrow> ('c + 'r) parsed"
  assumes "\<And>c s. mono_option (\<lambda>f. B f c s)"
  shows "mono_option (\<lambda>f. loop (B f) c s)"
proof (rule monotoneI)
  fix f g :: "'x \<Rightarrow> 'y option"
  assume fg: "fun_ord option_ord f g"
  have le: "B g c s = Some y" if "B f c s = Some y" for c s y
  proof -
    have "option_ord (B f c s) (B g c s)" by (rule monotoneD [OF assms]) (rule fg)
    then show ?thesis using that by (simp add: flat_ord_def)
  qed
  have "b = B f \<longrightarrow> loop (B g) c s = Some y" if "loop b c s = Some y" for b c s y
    using that
  proof (rule loop.raw_induct [rotated])
    fix lp b c s y
    assume IH: "\<And>b c s y. lp b c s = Some y \<Longrightarrow> b = B f \<longrightarrow> loop (B g) c s = Some y"
      and step: "Option.bind (b c s) (\<lambda>(x, s). case x of Inl c' \<Rightarrow> lp b c' s | Inr r \<Rightarrow> Some (r, s)) = Some y"
    show "b = B f \<longrightarrow> loop (B g) c s = Some y"
    proof
      assume b: "b = B f"
      with step obtain x s' where x: "B f c s = Some (x, s')"
        "(case x of Inl c' \<Rightarrow> lp b c' s' | Inr r \<Rightarrow> Some (r, s')) = Some y"
        by (auto simp: bind_eq_Some_conv)
      then show "loop (B g) c s = Some y"
        using le [OF x(1)] IH b by (subst loop.simps) (cases x; simp)
    qed
  qed
  then show "option_ord (loop (B f) c s) (loop (B g) c s)"
    by (cases "loop (B f) c s") (auto simp: flat_ord_def)
qed

lemmas steppers = NextLexem_stepper PushErrorMessage_stepper ExpectLexem_stepper
lemmas step_at = steppers [THEN stepper_at]

section \<open>Rules\<close>

text \<open>What is shown for a state holds relative to every state before it.\<close>

lemma gets_since: "at b s0 s \<Longrightarrow> gets t (\<lambda>_. at c s) m \<Longrightarrow> (d \<longrightarrow> b \<or> c) \<Longrightarrow> gets t (\<lambda>_. at d s0) m"
  by (erule gets_mono) (blast intro: at_trans at_weaken)

lemma gets_weaken: "gets t (\<lambda>_. at b s0) m \<Longrightarrow> (c \<longrightarrow> b) \<Longrightarrow> gets t (\<lambda>_. at c s0) m"
  by (erule gets_mono) (rule at_weaken)

lemma gets_loop_rec:
  assumes "at b s0 s" and "rec_ok t rec r s0"
    and "\<And>c s1. at False s1 s1 \<Longrightarrow> rec_ok t rec (r \<or> b) s1 \<Longrightarrow> gets t (\<lambda>x. at (t \<and> isl x) s1) (body c s1)"
  shows "gets t (\<lambda>_. at b s0) (loop body c s)"
  by (rule gets_loop [OF _ assms(1)]) (blast intro: assms(3) rec_ok_at [OF assms(2)])

lemma gets_loop_plain:
  assumes "at b s0 s" and "\<And>c s1. at False s1 s1 \<Longrightarrow> gets t (\<lambda>x. at (t \<and> isl x) s1) (body c s1)"
  shows "gets t (\<lambda>_. at b s0) (loop body c s)"
  by (rule gets_loop [OF _ assms(1)]) (blast intro: assms(2))

text \<open>
  The rules a proof about a parser applies, one for each construct of its body. They are syntax-directed: a goal that
  is left over after them is about the flags of progress only.
\<close>

lemmas parse_rules = gets_Some gets_let_state gets_let gets_bind gets_if gets_case_prod gets_case_prod_state gets_case_option gets_case_sum
  step_at TryRecoverAfterError_at add_error_message_at at_if rec_at gets_loop_rec gets_loop_plain

lemma case_prod_mono [partial_function_mono]:
  "(\<And>x y. monotone orda ordb (\<lambda>f. C f x y)) \<Longrightarrow> monotone orda ordb (\<lambda>f. case p of (x, y) \<Rightarrow> C f x y)"
  by (cases p) simp

lemma case_prod_state_mono [partial_function_mono]:
  "(\<And>x y. monotone orda ordb (\<lambda>f. C f x y s)) \<Longrightarrow> monotone orda ordb (\<lambda>f. (case p of (x, y) \<Rightarrow> C f x y) s)"
  by (cases p) simp

lemma case_option_mono [partial_function_mono]:
  "monotone orda ordb B \<Longrightarrow> (\<And>x. monotone orda ordb (\<lambda>f. C f x)) \<Longrightarrow>
    monotone orda ordb (\<lambda>f. case p of None \<Rightarrow> B f | Some x \<Rightarrow> C f x)"
  by (cases p) simp_all

lemma case_sum_mono [partial_function_mono]:
  "(\<And>x. monotone orda ordb (\<lambda>f. B f x)) \<Longrightarrow> (\<And>x. monotone orda ordb (\<lambda>f. C f x)) \<Longrightarrow>
    monotone orda ordb (\<lambda>f. case p of Inl x \<Rightarrow> B f x | Inr x \<Rightarrow> C f x)"
  by (cases p) simp_all

lemma rec_mono [partial_function_mono]:
  assumes "\<And>q. mono_option (\<lambda>f. F f q)"
  shows "mono_option (\<lambda>f. rec_Expression (F f) s)"
    and "mono_option (\<lambda>f. rec_Component (F f) s)"
    and "mono_option (\<lambda>f. rec_TypeName (F f) s)"
    and "mono_option (\<lambda>f. rec_Initializer (F f) b s)"
    and "mono_option (\<lambda>f. rec_BlockElements (F f) l s)"
    and "mono_option (\<lambda>f. rec_IfAlternative (F f) s)"
    and "mono_option (\<lambda>f. rec_DecomposeComponent (F f) s)"
    and "mono_option (\<lambda>f. rec_ClassElements (F f) l s)"
    and "mono_option (\<lambda>f. rec_NamespaceElements (F f) l s)"
    and "mono_option (\<lambda>f. rec_MacroMatchBlock (F f) s)"
    and "mono_option (\<lambda>f. rec_MacroResultBlock (F f) s)"
  unfolding rec_defs by (intro partial_function_mono assms)+

end
