(* ===== verification/Parser_Macros.thy ===== *)
theory Parser_Macros
  imports Parser_Base Lexical_Analysis "HOL-Library.AList"
begin

text \<open>
  Blocks and the expansion of macros, \<^verbatim>\<open>source/compiler0/lex_synt_lib/syntax_analyzer.cpp\<close>: matching of the lexems behind a macro name,
  production of the lexems of the expansion, and parsing of these with a new analyzer.

  The iterators of a matched element are indices into the lexems of the analyzer. The chain of maps of names is a list of maps.
\<close>

section \<open>Blocks\<close>

definition ParseBlock :: "Rec \<Rightarrow> SyntaxAnalyzer \<Rightarrow> BlockElement Block parsed" where
  "ParseBlock rec s = do {
    let src_loc = loc s;
    let s = ExpectLexem BraceLeft s;
    (elements, s) \<leftarrow> rec_BlockElements rec BraceRight s;
    let end_src_loc = loc s;
    let s = ExpectLexem BraceRight s;
    Some (Block src_loc end_src_loc elements, s) }"

section \<open>Matching\<close>

datatype ParsedMacroElement = ParsedMacroElement
  (pe_begin: nat) (pe_end: nat) (pe_sub_elements: "(byte list \<times> ParsedMacroElement) list list")
  (pe_kind: MatchElementKind) (pe_need_to_add_brackets_in_expansion: bool)

type_synonym MacroVariablesMap = "(byte list \<times> ParsedMacroElement) list"

definition FetchMacro :: "byte list \<Rightarrow> MacroContext \<Rightarrow> SyntaxAnalyzer \<Rightarrow> Macro option" where
  "FetchMacro macro_name c s = (case map_of (sa_macros s) c of None \<Rightarrow> None | Some m \<Rightarrow> map_of m macro_name)"

definition push_macro_error :: "byte list \<Rightarrow> SyntaxAnalyzer \<Rightarrow> SyntaxAnalyzer" where
  "push_macro_error macro_name s =
    add_error_message (str ''Unexpected lexem - \"'' @ lexem_text (cur s) @ str ''\". (In expansion of macro \"'' @ macro_name @ str ''\")'')
      (loc s) s"

definition same_lexem :: "Lexem \<Rightarrow> SyntaxAnalyzer \<Rightarrow> bool" where
  "same_lexem l s \<longleftrightarrow> lexem_type (cur s) = lexem_type l \<and> lexem_text (cur s) = lexem_text l"

text \<open>
  The repetitions of a part, \<open>sub\<close>, of a macro. The result \<open>None\<close> of the inner option stands for the return from the whole
  match after an error. In the first loop \<open>l\<close> is the lexem behind the last repetition, in the second one the first lexem of each.
\<close>

definition match_until ::
  "byte list \<Rightarrow> Lexem \<Rightarrow> Lexem \<Rightarrow> (SyntaxAnalyzer \<Rightarrow> MacroVariablesMap parsed) \<Rightarrow> SyntaxAnalyzer \<Rightarrow> MacroVariablesMap list option parsed" where
  "match_until macro_name separator l sub = loop (\<lambda>subs s.
    if \<not> NotEndOfFile s \<or> same_lexem l s then Some (Inr (Some subs), s)
    else do {
      (m, s) \<leftarrow> sub s;
      if lexem_type separator = EndOfFile then Some (Inl (subs @ [m]), s)
      else if same_lexem separator s then do {
        let s = NextLexem s;
        if same_lexem l s then let s = push_macro_error macro_name s in Some (Inr None, s)
        else Some (Inl (subs @ [m]), s) }
      else Some (Inr (Some (subs @ [m])), s) }) []"

definition match_while ::
  "byte list \<Rightarrow> Lexem \<Rightarrow> Lexem \<Rightarrow> (SyntaxAnalyzer \<Rightarrow> MacroVariablesMap parsed) \<Rightarrow> SyntaxAnalyzer \<Rightarrow> MacroVariablesMap list option parsed" where
  "match_while macro_name separator l sub = loop (\<lambda>subs s.
    if \<not> NotEndOfFile s \<or> \<not> same_lexem l s then Some (Inr (Some subs), s)
    else do {
      (m, s) \<leftarrow> sub s;
      if lexem_type separator = EndOfFile then Some (Inl (subs @ [m]), s)
      else if same_lexem separator s then do {
        let s = NextLexem s;
        if \<not> same_lexem l s then let s = push_macro_error macro_name s in Some (Inr None, s)
        else Some (Inl (subs @ [m]), s) }
      else Some (Inr (Some (subs @ [m])), s) }) []"

text \<open>What is matched for one element: its parts and the flag of brackets. \<open>None\<close> stands for the return after an error.\<close>

definition match_element ::
  "Rec \<Rightarrow> byte list \<Rightarrow> (SyntaxAnalyzer \<Rightarrow> MacroVariablesMap parsed) \<Rightarrow> MatchElement \<Rightarrow> MatchElement option \<Rightarrow> SyntaxAnalyzer \<Rightarrow>
    (MacroVariablesMap list \<times> bool) option parsed" where
  "match_element rec macro_name sub e next_match_element s =
    (case me_kind e of
      MatchLexem \<Rightarrow>
        if same_lexem (me_lexem e) s then let s = NextLexem s in Some (Some ([], False), s)
        else let s = push_macro_error macro_name s in Some (None, s)
    | MatchIdentifier \<Rightarrow>
        if at_lexem Identifier s then let s = NextLexem s in Some (Some ([], False), s)
        else let s = push_macro_error macro_name s in Some (None, s)
    | MatchTypename \<Rightarrow> do { (_, s) \<leftarrow> rec_TypeName rec s; Some (Some ([], False), s) }
    | MatchExpression \<Rightarrow> do {
        (expression, s) \<leftarrow> rec_Expression rec s;
        if expression = EmptyExpression then let s = push_macro_error macro_name s in Some (None, s)
        else Some (Some ([], True), s) }
    | MatchBlock \<Rightarrow> do { (_, s) \<leftarrow> ParseBlock rec s; Some (Some ([], False), s) }
    | MatchIfAlternative \<Rightarrow> do { (_, s) \<leftarrow> rec_IfAlternative rec s; Some (Some ([], False), s) }
    | MatchOptional \<Rightarrow> do {
        let has_value =
          (if next_match_element \<noteq> None \<and> me_block_check_lexem_kind e = LexemAfterBlockEnd
           then \<not> same_lexem (me_lexem (the next_match_element)) s
           else if me_block_check_lexem_kind e = LexemAtBlockStart then same_lexem (me_lexem (hd (me_sub_elements e))) s
           else True);
        if has_value then do { (m, s) \<leftarrow> sub s; Some (Some ([m], False), s) }
        else Some (Some ([], False), s) }
    | MatchRepeated \<Rightarrow> do {
        (subs, s) \<leftarrow>
          (if next_match_element \<noteq> None \<and> me_block_check_lexem_kind e = LexemAfterBlockEnd
           then match_until macro_name (me_lexem e) (me_lexem (the next_match_element)) sub s
           else if me_block_check_lexem_kind e = LexemAtBlockStart
           then match_while macro_name (me_lexem e) (me_lexem (hd (me_sub_elements e))) sub s
           else Some (Some [], s));
        case subs of None \<Rightarrow> Some (None, s) | Some subs \<Rightarrow> Some (Some (subs, False), s) })"

function MatchMacroBlock ::
  "Rec \<Rightarrow> byte list \<Rightarrow> MatchElement list \<Rightarrow> MacroVariablesMap \<Rightarrow> SyntaxAnalyzer \<Rightarrow> MacroVariablesMap parsed" where
  "MatchMacroBlock rec macro_name [] out_elements s = Some (out_elements, s)" |
  "MatchMacroBlock rec macro_name (e # es) out_elements s = do {
    let begin = sa_it s;
    (r, s) \<leftarrow> match_element rec macro_name (MatchMacroBlock rec macro_name (me_sub_elements e) []) e
                (case es of [] \<Rightarrow> None | n # _ \<Rightarrow> Some n) s;
    case r of
      None \<Rightarrow> Some (out_elements, s)
    | Some (subs, brackets) \<Rightarrow>
        MatchMacroBlock rec macro_name es
          (AList.update (me_name e) (ParsedMacroElement begin (sa_it s) subs (me_kind e) brackets) out_elements) s }"
  by pat_completeness auto
termination
proof (relation "measure (\<lambda>(_, _, es, _). size_list size es)", goal_cases)
  case (2 rec macro_name e es out_elements s x s')
  then show ?case by (cases e) simp
qed auto

section \<open>Production of lexems\<close>

definition GetElement :: "byte list \<Rightarrow> MacroVariablesMap list \<Rightarrow> ParsedMacroElement option" where
  "GetElement name names =
    fold (\<lambda>m r. case r of None \<Rightarrow> map_of m name | Some e \<Rightarrow> Some e) names None"

text \<open>What the production changes: the lexems, the identifiers made up so far, the errors.\<close>

type_synonym Expansion = "Lexem list \<times> (byte list \<times> byte list) list \<times> LexSyntError list"

definition push_result_lexem :: "Lexem \<Rightarrow> Expansion \<Rightarrow> Expansion" where
  "push_result_lexem l x = (case x of (ls, ids, es) \<Rightarrow> (ls @ [l], ids, es))"

definition push_result_error :: "byte list \<Rightarrow> SrcLoc \<Rightarrow> Expansion \<Rightarrow> Expansion" where
  "push_result_error message l x = (case x of (ls, ids, es) \<Rightarrow> (ls, ids, es @ [mk_error message l]))"

definition unique_identifier :: "byte list \<Rightarrow> byte list \<Rightarrow> (byte list \<times> byte list) list \<Rightarrow> byte list" where
  "unique_identifier base_name name ids =
    str ''_macro_ident_'' @ drop 2 name @ str ''_'' @ base_name @ str ''_'' @ to_string (length ids)"

definition push_unique :: "byte list \<Rightarrow> Lexem \<Rightarrow> Expansion \<Rightarrow> Expansion" where
  "push_unique base_name l x =
    (case x of (ls, ids, es) \<Rightarrow>
      case map_of ids (lexem_text l) of
        Some name \<Rightarrow> (ls @ [\<lparr> lexem_text = name, lexem_src_loc = lexem_src_loc l, lexem_type = Identifier \<rparr>], ids, es)
      | None \<Rightarrow>
          (let name = unique_identifier base_name (lexem_text l) ids in
           (ls @ [\<lparr> lexem_text = name, lexem_src_loc = lexem_src_loc l, lexem_type = Identifier \<rparr>],
            ids @ [(lexem_text l, name)], es)))"

definition bracket_lexem :: "string \<Rightarrow> Lexem_Type \<Rightarrow> Lexem" where
  "bracket_lexem s t = \<lparr> lexem_text = str s, lexem_src_loc = SrcLoc_default, lexem_type = t \<rparr>"

definition push_element :: "Lexem list \<Rightarrow> ParsedMacroElement \<Rightarrow> Expansion \<Rightarrow> Expansion" where
  "push_element lexems e x = (case x of (ls, ids, es) \<Rightarrow>
    (ls @ (if pe_need_to_add_brackets_in_expansion e then [bracket_lexem ''('' BracketLeft] else []) @
       take (pe_end e - pe_begin e) (drop (pe_begin e) lexems) @
       (if pe_need_to_add_brackets_in_expansion e then [bracket_lexem '')'' BracketRight] else []), ids, es))"

text \<open>The parts of a repeated element with the information which is the last one.\<close>

definition with_last :: "'a list \<Rightarrow> ('a \<times> bool) list" where
  "with_last xs = map (\<lambda>i. (xs ! i, i + 1 = length xs)) [0..<length xs]"

function DoExpandMacro ::
  "Lexem list \<Rightarrow> byte list \<Rightarrow> MacroVariablesMap list \<Rightarrow> ResultElement list \<Rightarrow> Expansion \<Rightarrow> Expansion" where
  "DoExpandMacro lexems base_name names [] x = x" |
  "DoExpandMacro lexems base_name names (e # es) x =
    (case re_kind e of
      ResultLexem \<Rightarrow>
        DoExpandMacro lexems base_name names es
          (if lexem_type (re_lexem e) = MacroUniqueIdentifier then push_unique base_name (re_lexem e) x
           else push_result_lexem (re_lexem e) x)
    | VariableElement \<Rightarrow>
        (case GetElement (re_name e) names of
          None \<Rightarrow> push_result_error (re_name e @ str '' not found'') (lexem_src_loc (re_lexem e)) x
        | Some element \<Rightarrow> DoExpandMacro lexems base_name names es (push_element lexems element x))
    | VariableElementWithMacroBlock \<Rightarrow>
        (case GetElement (re_name e) names of
          None \<Rightarrow> push_result_error (re_name e @ str '' not found'') (lexem_src_loc (re_lexem e)) x
        | Some element \<Rightarrow>
            if pe_kind element = MatchOptional \<or> pe_kind element = MatchRepeated then
              DoExpandMacro lexems base_name names es
                (fold (\<lambda>(sub_elements, is_last) x.
                   let x = DoExpandMacro lexems base_name (sub_elements # names) (re_sub_elements e) x in
                   if \<not> is_last \<and> lexem_type (re_lexem e) \<noteq> EndOfFile then push_result_lexem (re_lexem e) x else x)
                 (with_last (pe_sub_elements element)) x)
            else push_result_error (str ''Expected optional or repated.'') (lexem_src_loc (re_lexem e)) x))"
  by pat_completeness auto
termination
proof (relation "measure (\<lambda>(_, _, _, es, _). size_list size es)", goal_cases)
  case (4 lexems base_name names e es x element)
  then show ?case by (cases e) simp
qed auto

section \<open>Expansion\<close>

definition set_lexem_macro_index :: "nat \<Rightarrow> Lexem \<Rightarrow> Lexem" where
  "set_lexem_macro_index i l = l \<lparr> lexem_src_loc := SetMacroExpansionIndex (word_of_nat i) (lexem_src_loc l) \<rparr>"

definition expansion_base_name :: "byte list \<Rightarrow> SrcLoc \<Rightarrow> byte list" where
  "expansion_base_name base_name l =
    base_name @ str ''_l'' @ to_string (unat (GetLine l)) @ str ''_c'' @ to_string (unat (GetColumn l))"

text \<open>The lexems of an expansion, with their end and the index of the expansion, and the errors of their production.\<close>

definition expansion_lexems :: "Macro \<Rightarrow> byte list \<Rightarrow> MacroVariablesMap \<Rightarrow> SyntaxAnalyzer \<Rightarrow> Lexem list \<times> LexSyntError list" where
  "expansion_lexems macro base_name elements_map s =
    (let (result_lexems, ids, errors) =
           DoExpandMacro (sa_lexems s) base_name [elements_map] (mc_result_template_elements macro) ([], [], [])
     in (map (set_lexem_macro_index (length (sa_macro_expansion_contexts s)))
           (result_lexems @ [Lexem_default \<lparr> lexem_type := EndOfFile \<rparr>]), errors))"

text \<open>Parsing of an expansion by an analyzer of its own, whose errors and expansions the outer one takes over.\<close>

definition parse_expansion ::
  "Macro \<Rightarrow> SrcLoc \<Rightarrow> (SyntaxAnalyzer \<Rightarrow> 'a parsed) \<Rightarrow> MacroVariablesMap \<Rightarrow> SyntaxAnalyzer \<Rightarrow> 'a parsed" where
  "parse_expansion macro expansion_src_loc parse_fn elements_map s = do {
    let base_name = expansion_base_name (sa_macro_unique_identifiers_base_name s) expansion_src_loc;
    let (lexems, errors) = expansion_lexems macro base_name elements_map s;
    let contexts = sa_macro_expansion_contexts s @
      [\<lparr> mx_macro_name = mc_name macro, mx_macro_declaration_src_loc = mc_src_loc macro, mx_src_loc = expansion_src_loc \<rparr>];
    (element, s') \<leftarrow> parse_fn (SyntaxAnalyzer_make lexems (sa_macros s) contexts base_name (sa_macro_expansion_depth s + 1));
    Some (element, s \<lparr> sa_error_messages := sa_error_messages s @ errors @ sa_error_messages s',
      sa_macro_expansion_contexts := sa_macro_expansion_contexts s' \<rparr>) }"

definition ExpandMacro :: "Rec \<Rightarrow> Macro \<Rightarrow> (SyntaxAnalyzer \<Rightarrow> 'a parsed) \<Rightarrow> 'a \<Rightarrow> SyntaxAnalyzer \<Rightarrow> 'a parsed" where
  "ExpandMacro rec macro parse_fn no_result s = do {
    let expansion_src_loc = loc s;
    let s = NextLexem s;
    if sa_macro_expansion_depth s \<ge> 10 then
      let s = add_error_message (str ''Macro expansion depth 10 reached'') expansion_src_loc s in Some (no_result, s)
    else if length (sa_macro_expansion_contexts s) \<ge> 32767 then
      let s = add_error_message (str ''Macro expansions limit 32767 reached'') expansion_src_loc s in Some (no_result, s)
    else do {
      (elements_map, s) \<leftarrow> MatchMacroBlock rec (mc_name macro) (mc_match_template_elements macro) [] s;
      parse_expansion macro expansion_src_loc parse_fn elements_map s } }"

end
