(* ===== verification/Parser_Macros_Laws.thy ===== *)
theory Parser_Macros_Laws
  imports Parser_Macros
begin

text \<open>
  Blocks and macro expansion in the logic of \<open>Parser_Base\<close>: the operations are monotone in the recursive parsers, they
  move the cursor forward only, and they return if no macro has a repeated part that may consume nothing.
\<close>

section \<open>Monotonicity\<close>

lemma ParseBlock_mono [partial_function_mono]:
  "(\<And>q. mono_option (\<lambda>f. F f q)) \<Longrightarrow> mono_option (\<lambda>f. ParseBlock (F f) s)"
  unfolding ParseBlock_def by (intro partial_function_mono)

lemma match_until_mono [partial_function_mono]:
  "(\<And>s. mono_option (\<lambda>f. sub f s)) \<Longrightarrow> mono_option (\<lambda>f. match_until n l sep (sub f) s)"
  unfolding match_until_def by (intro partial_function_mono)

lemma match_while_mono [partial_function_mono]:
  "(\<And>s. mono_option (\<lambda>f. sub f s)) \<Longrightarrow> mono_option (\<lambda>f. match_while n l sep (sub f) s)"
  unfolding match_while_def by (intro partial_function_mono)

lemma case_MatchElementKind_mono [partial_function_mono]:
  assumes "monotone orda ordb A" "monotone orda ordb B" "monotone orda ordb C" "monotone orda ordb D" "monotone orda ordb E"
    "monotone orda ordb G" "monotone orda ordb H" "monotone orda ordb I"
  shows "monotone orda ordb (\<lambda>f. case k of MatchLexem \<Rightarrow> A f | MatchIdentifier \<Rightarrow> B f | MatchTypename \<Rightarrow> C f
    | MatchExpression \<Rightarrow> D f | MatchBlock \<Rightarrow> E f | MatchIfAlternative \<Rightarrow> G f | MatchOptional \<Rightarrow> H f | MatchRepeated \<Rightarrow> I f)"
  using assms by (cases k) simp_all

lemma match_element_mono [partial_function_mono]:
  "(\<And>q. mono_option (\<lambda>f. F f q)) \<Longrightarrow> (\<And>s. mono_option (\<lambda>f. sub f s)) \<Longrightarrow>
    mono_option (\<lambda>f. match_element (F f) n (sub f) e nx s)"
  unfolding match_element_def by (intro partial_function_mono)

lemma MatchMacroBlock_mono [partial_function_mono]:
  assumes F: "\<And>q. mono_option (\<lambda>f. F f q)"
  shows "mono_option (\<lambda>f. MatchMacroBlock (F f) n es m s)"
proof (induction "size_list size es" arbitrary: es m s rule: less_induct)
  case less
  show ?case
  proof (cases es)
    case (Cons e es')
    have "size_list size (me_sub_elements e) < size_list size es" using Cons by (cases e) simp
    note sub = less.hyps [OF this]
    have "size_list size es' < size_list size es" using Cons by simp
    note rest = less.hyps [OF this]
    show ?thesis unfolding Cons MatchMacroBlock.simps by (intro partial_function_mono F sub rest)
  qed (simp add: partial_function_mono)
qed

section \<open>Progress\<close>

lemma ParseBlock_at:
  "at b s0 s \<Longrightarrow> rec_ok t rec r s0 \<Longrightarrow> r \<or> b \<or> \<not> at_lexem EndOfFile s \<Longrightarrow>
    gets t (\<lambda>_. at (b \<or> NotEndOfFile s0 \<or> \<not> at_lexem EndOfFile s) s0) (ParseBlock rec s)"
  unfolding ParseBlock_def by (assumption | rule parse_rules | (auto; fail))+

lemma push_macro_error_at: "at b s0 s \<Longrightarrow> at b s0 (push_macro_error n s)"
  by (simp add: push_macro_error_def add_error_message_at)

lemma match_until_at:
  assumes "\<And>s1. at b s0 s1 \<Longrightarrow> gets t (\<lambda>_. at False s1) (sub s1)"
    and "at b s0 s" and "t \<longrightarrow> lexem_type separator \<noteq> EndOfFile"
  shows "gets t (\<lambda>_. at b s0) (match_until n separator l sub s)"
  using assms unfolding match_until_def
  by - (rule gets_loop,
    (assumption | rule gets_if gets_Some gets_bind assms(1) gets_let_state push_macro_error_at step_at | (auto simp: same_lexem_def; fail))+)

lemma match_while_at:
  assumes "\<And>s1. at b s0 s1 \<Longrightarrow> gets t (\<lambda>_. at (t \<and> same_lexem l s1 \<and> NotEndOfFile s1) s1) (sub s1)" and "at b s0 s"
  shows "gets t (\<lambda>_. at b s0) (match_while n separator l sub s)"
  using assms unfolding match_while_def
  by - (rule gets_loop,
    (assumption | rule gets_if gets_Some gets_bind assms(1) gets_let_state push_macro_error_at step_at | (auto; fail))+)

definition starts_at :: "MatchElement list \<Rightarrow> SyntaxAnalyzer \<Rightarrow> bool" where
  "starts_at es s \<longleftrightarrow> es \<noteq> [] \<and> me_kind (hd es) = MatchLexem \<and> same_lexem (me_lexem (hd es)) s"

lemma gets_case_MatchElementKind:
  assumes "k = MatchLexem \<Longrightarrow> gets t Q A" "k = MatchIdentifier \<Longrightarrow> gets t Q B" "k = MatchTypename \<Longrightarrow> gets t Q C"
    "k = MatchExpression \<Longrightarrow> gets t Q D" "k = MatchBlock \<Longrightarrow> gets t Q E" "k = MatchIfAlternative \<Longrightarrow> gets t Q G"
    "k = MatchOptional \<Longrightarrow> gets t Q H" "k = MatchRepeated \<Longrightarrow> gets t Q I"
  shows "gets t Q (case k of MatchLexem \<Rightarrow> A | MatchIdentifier \<Rightarrow> B | MatchTypename \<Rightarrow> C
    | MatchExpression \<Rightarrow> D | MatchBlock \<Rightarrow> E | MatchIfAlternative \<Rightarrow> G | MatchOptional \<Rightarrow> H | MatchRepeated \<Rightarrow> I)"
  using assms by (cases k) simp_all

lemma match_repeated_at:
  assumes "\<And>s1. at b s0 s1 \<Longrightarrow> gets t (\<lambda>_. at (t \<and> starts_at (me_sub_elements e) s1 \<and> NotEndOfFile s1) s1) (sub s1)"
    and "at b s0 s" and "t \<longrightarrow> match_element_safe e" and "me_kind e = MatchRepeated"
  shows "me_block_check_lexem_kind e = LexemAfterBlockEnd \<Longrightarrow> gets t (\<lambda>_. at b s0) (match_until n (me_lexem e) l sub s)"
    and "me_block_check_lexem_kind e = LexemAtBlockStart \<Longrightarrow>
      gets t (\<lambda>_. at b s0) (match_while n (me_lexem e) (me_lexem (hd (me_sub_elements e))) sub s)"
proof -
  assume "me_block_check_lexem_kind e = LexemAfterBlockEnd"
  with assms(3,4) have "t \<longrightarrow> lexem_type (me_lexem e) \<noteq> EndOfFile" by (cases e) simp
  then show "gets t (\<lambda>_. at b s0) (match_until n (me_lexem e) l sub s)"
    by - (rule match_until_at [OF gets_weaken [OF assms(1)] assms(2)], assumption, simp)
next
  assume "me_block_check_lexem_kind e = LexemAtBlockStart"
  with assms(3,4) have "t \<longrightarrow> me_sub_elements e \<noteq> [] \<and> me_kind (hd (me_sub_elements e)) = MatchLexem" by (cases e) simp
  then show "gets t (\<lambda>_. at b s0) (match_while n (me_lexem e) (me_lexem (hd (me_sub_elements e))) sub s)"
    by - (rule match_while_at [OF gets_weaken [OF assms(1)] assms(2)], assumption, simp add: starts_at_def)
qed

lemma match_element_at:
  assumes "rec_ok t rec r s0" and "at b s0 s" and "r \<or> b" and "t \<longrightarrow> match_element_safe e"
    and sub: "\<And>s1. at b s0 s1 \<Longrightarrow> gets t (\<lambda>_. at (t \<and> starts_at (me_sub_elements e) s1 \<and> NotEndOfFile s1) s1) (sub s1)"
  shows "gets t (\<lambda>x. at (b \<or> starts_at (e # es) s \<and> NotEndOfFile s0) s0) (match_element rec n sub e nx s)"
proof -
  have sub': "gets t (\<lambda>_. at b s0) (sub s1)" if "at b s0 s1" for s1
    using gets_since [OF that sub [OF that]] by simp
  show ?thesis
    using assms(1-4) unfolding match_element_def starts_at_def
    by - (assumption | rule gets_case_MatchElementKind sub' match_repeated_at [OF sub] ParseBlock_at
        push_macro_error_at parse_rules | (auto; fail))+
qed

lemma MatchMacroBlock_at:
  assumes "rec_ok t rec r s0" and "at b s0 s" and "r \<or> b" and "t \<longrightarrow> list_all match_element_safe es"
  shows "gets t (\<lambda>_. at (b \<or> starts_at es s \<and> NotEndOfFile s0) s0) (MatchMacroBlock rec n es m s)"
  using assms
proof (induction "size_list size es" arbitrary: es m r s0 b s rule: less_induct)
  case less
  note prems = less.prems
  show ?case
  proof (cases es)
    case Nil
    then show ?thesis using prems(2) by (simp add: gets_def starts_at_def at_def)
  next
    case (Cons e es')
    have size: "size_list size (me_sub_elements e) < size_list size es" "size_list size es' < size_list size es"
      using Cons by (cases e; simp)+
    have safe: "t \<longrightarrow> match_element_safe e" "t \<longrightarrow> list_all match_element_safe es'"
      "t \<longrightarrow> list_all match_element_safe (me_sub_elements e)"
      using prems(4) Cons by (cases e; simp)+
    have sub: "gets t (\<lambda>_. at (t \<and> starts_at (me_sub_elements e) s1 \<and> NotEndOfFile s1) s1)
        (MatchMacroBlock rec n (me_sub_elements e) [] s1)" if "at b s0 s1" for s1
      using less.hyps [OF size(1) rec_ok_at [OF prems(1) that] at_refl [OF at_ok [OF that]] _ safe(3), of "[]"] prems(3)
      by (auto intro: gets_weaken)
    have rest: "gets t (\<lambda>_. at (b \<or> starts_at (e # es') s \<and> NotEndOfFile s0) s0) (MatchMacroBlock rec n es' m' s')"
      if "at (b \<or> starts_at (e # es') s \<and> NotEndOfFile s0) s0 s'" for m' s'
      by (rule gets_weaken [OF less.hyps [OF size(2) prems(1) that _ safe(2)]]) (use prems(3) in auto)
    show ?thesis
      unfolding Cons MatchMacroBlock.simps
      by (assumption | rule match_element_at [OF prems(1-3) safe(1) sub] rest parse_rules | (auto simp: at_def; fail))+
  qed
qed

section \<open>Expansion\<close>

lemma parse_expansion_mono [partial_function_mono]:
  "(\<And>s. mono_option (\<lambda>f. parse_fn f s)) \<Longrightarrow> mono_option (\<lambda>f. parse_expansion macro l (parse_fn f) m s)"
  unfolding parse_expansion_def by (intro partial_function_mono)

lemma ExpandMacro_mono [partial_function_mono]:
  "(\<And>q. mono_option (\<lambda>f. F f q)) \<Longrightarrow> (\<And>s. mono_option (\<lambda>f. parse_fn f s)) \<Longrightarrow>
    mono_option (\<lambda>f. ExpandMacro (F f) macro (parse_fn f) d s)"
  unfolding ExpandMacro_def by (intro partial_function_mono)

text \<open>The recursive parsers may be called for the lexems of an expansion, because its depth is greater.\<close>

lemma rec_ok_deeper:
  assumes "rec_ok t rec r s0" and "sa_macros s = sa_macros s0"
    and "sa_macro_expansion_depth s0 < sa_macro_expansion_depth s" and "sa_macro_expansion_depth s \<le> 10"
  shows "rec_ok t rec True s"
proof -
  have "same_or_smaller r s' s0" if "same_or_smaller True s' s" for s'
    using that assms(3,4) by (auto simp: same_or_smaller_def smaller_def)
  then show ?thesis using assms(1,2) by (auto simp: rec_ok_def)
qed

lemma rec_fresh:
  assumes "rec_ok t rec True s" and "cursor_ok s"
  shows "gets t (\<lambda>_. at False s) (rec_Expression rec s)"
    and "gets t (\<lambda>_. at False s) (rec_BlockElements rec l s)"
    and "gets t (\<lambda>_. at False s) (rec_ClassElements rec l s)"
    and "gets t (\<lambda>_. at False s) (rec_NamespaceElements rec l s)"
proof -
  note ok = rec_at [OF at_refl [OF assms(2)] assms(1) disjI1 [OF TrueI]]
  show "gets t (\<lambda>_. at False s) (rec_Expression rec s)" by (rule gets_weaken [OF ok(1)]) simp
  show "gets t (\<lambda>_. at False s) (rec_BlockElements rec l s)" by (rule ok(7))
  show "gets t (\<lambda>_. at False s) (rec_ClassElements rec l s)" by (rule ok(8))
  show "gets t (\<lambda>_. at False s) (rec_NamespaceElements rec l s)" by (rule ok(9))
qed

lemma cursor_ok_make:
  "lexems \<noteq> [] \<Longrightarrow> lexem_type (last lexems) = EndOfFile \<Longrightarrow> depth \<le> 10 \<Longrightarrow>
    cursor_ok (SyntaxAnalyzer_make lexems macros contexts base_name depth)"
  by (simp add: cursor_ok_def SyntaxAnalyzer_make_def)

lemma FetchMacro_safe: "FetchMacro name c s = Some macro \<Longrightarrow> macros_safe (sa_macros s) \<Longrightarrow>
    list_all match_element_safe (mc_match_template_elements macro)"
  by (auto simp: FetchMacro_def macros_safe_def split: option.splits dest!: map_of_SomeD)

lemma expansion_lexems_end:
  assumes "expansion_lexems macro base_name m s = (lexems, errors)"
  shows "lexems \<noteq> []" and "lexem_type (last lexems) = EndOfFile"
proof -
  obtain ls ids es where "DoExpandMacro (sa_lexems s) base_name [m] (mc_result_template_elements macro) ([], [], []) = (ls, ids, es)"
    by (rule prod_cases3)
  with assms show "lexems \<noteq> []" "lexem_type (last lexems) = EndOfFile"
    by (auto simp: expansion_lexems_def set_lexem_macro_index_def)
qed

lemma parse_expansion_at:
  assumes rec: "rec_ok t rec r s0" and at: "at b s0 s" and depth: "sa_macro_expansion_depth s < 10"
    and parse_fn: "\<And>s'. rec_ok t rec True s' \<Longrightarrow> cursor_ok s' \<Longrightarrow> gets t (\<lambda>_. at False s') (parse_fn s')"
  shows "gets t (\<lambda>_. at b s0) (parse_expansion macro l parse_fn m s)"
proof -
  define base_name where "base_name = expansion_base_name (sa_macro_unique_identifiers_base_name s) l"
  obtain lexems errors where lexems: "expansion_lexems macro base_name m s = (lexems, errors)" by force
  define contexts where "contexts = sa_macro_expansion_contexts s @
    [\<lparr> mx_macro_name = mc_name macro, mx_macro_declaration_src_loc = mc_src_loc macro, mx_src_loc = l \<rparr>]"
  let ?s = "SyntaxAnalyzer_make lexems (sa_macros s) contexts base_name (sa_macro_expansion_depth s + 1)"
  have "rec_ok t rec True ?s"
    by (rule rec_ok_deeper [OF rec_ok_at [OF rec at]]) (use depth in \<open>simp_all add: SyntaxAnalyzer_make_def\<close>)
  moreover have "cursor_ok ?s"
    by (rule cursor_ok_make) (use depth expansion_lexems_end [OF lexems] in simp_all)
  ultimately have inner: "gets t (\<lambda>_. at False ?s) (parse_fn ?s)" by (rule parse_fn)
  have outer: "at b s0 (s \<lparr> sa_error_messages := sa_error_messages s @ es, sa_macro_expansion_contexts := sa_macro_expansion_contexts s' \<rparr>)"
    (is "at b s0 ?s'") if "at False ?s s'" for s' es
  proof -
    have "at False s ?s'"
      using at_ok [OF at] that
      by (auto simp: at_def follows_def advances_def cursor_ok_def effort_def NotEndOfFile_def SyntaxAnalyzer_make_def contexts_def)
    from at_trans [OF at this] show ?thesis by simp
  qed
  show ?thesis
    unfolding parse_expansion_def Let_def base_name_def [symmetric] lexems prod.case contexts_def [symmetric]
    by (rule gets_bind [OF inner]) (simp add: gets_def outer)
qed

lemma ExpandMacro_at:
  assumes at: "at b s0 s" and rec: "rec_ok t rec r s0" and "r \<or> b \<or> \<not> at_lexem EndOfFile s"
    and macro: "FetchMacro name c s = Some macro"
    and parse_fn: "\<And>s'. rec_ok t rec True s' \<Longrightarrow> cursor_ok s' \<Longrightarrow> gets t (\<lambda>_. at False s') (parse_fn s')"
  shows "gets t (\<lambda>_. at (b \<or> NotEndOfFile s0 \<or> \<not> at_lexem EndOfFile s) s0) (ExpandMacro rec macro parse_fn d s)"
proof -
  have safe: "t \<longrightarrow> list_all match_element_safe (mc_match_template_elements macro)"
    using FetchMacro_safe [OF macro] rec at_same [OF at] by (simp add: rec_ok_def)
  have expansion: "gets t (\<lambda>_. at b' s0) (parse_expansion macro l parse_fn m s')"
    if "at b' s0 s'" "at b'' s0 s''" "\<not> sa_macro_expansion_depth s'' \<ge> 10" for b' b'' s' s'' l m
    by (rule parse_expansion_at [OF rec that(1) _ parse_fn]) (use that in \<open>auto simp: at_def follows_def\<close>)
  show ?thesis
    using rec at assms(3) safe unfolding ExpandMacro_def
    by - (assumption | rule MatchMacroBlock_at gets_weaken [OF expansion] parse_rules | (auto; fail))+
qed

end
