(* ===== verification/Parser_Expressions.thy ===== *)
theory Parser_Expressions
  imports Parser_Macros_Laws
begin

text \<open>
  The parsers of names, types, expressions and initializers, \<^verbatim>\<open>source/compiler0/lex_synt_lib/syntax_analyzer.cpp\<close>. \<open>K\<close> gives the words of
  the keywords. A suffix of a number or of a character is an array of eight bytes.
\<close>

section \<open>Lists of expected lexems\<close>

definition g_function_params_list_control_lexems :: "ExpectedLexem list" where
  "g_function_params_list_control_lexems = map ExpectedLexem_type [Comma, BracketRight]"

definition g_template_arguments_list_control_lexems :: "ExpectedLexem list" where
  "g_template_arguments_list_control_lexems = map ExpectedLexem_type [Comma, TemplateBracketRight]"

section \<open>Numbers, strings and characters\<close>

definition type_suffix_array :: "byte list \<Rightarrow> byte list" where
  "type_suffix_array suffix = suffix @ replicate (8 - length suffix) 0"

definition parse_integer_text :: "byte list \<Rightarrow> Int128 option" where
  "parse_integer_text num_str =
    (if length num_str \<ge> 2 \<and> num_str ! 0 = ch (CHR ''0'') then
       if num_str ! 1 = ch (CHR ''b'') then DecodeParsedInteger 2 (drop 2 num_str)
       else if num_str ! 1 = ch (CHR ''o'') then DecodeParsedInteger 8 (drop 2 num_str)
       else if num_str ! 1 = ch (CHR ''x'') then DecodeParsedInteger 16 (drop 2 num_str)
       else DecodeParsedInteger 10 num_str
     else DecodeParsedInteger 10 num_str)"

definition ParseIntegerNumericConstant :: "SyntaxAnalyzer \<Rightarrow> TerminalExpression parsed" where
  "ParseIntegerNumericConstant s = do {
    let src_loc = loc s;
    let num_str = lexem_text (cur s);
    let s = NextLexem s;
    let num_parsed = parse_integer_text num_str;
    let s = (if num_parsed = None then add_error_message (str ''Integer numeric literal overflow!'') src_loc s else s);
    let num = (case num_parsed of None \<Rightarrow> \<lparr> lo = 0, hi = 0 \<rparr> | Some n \<Rightarrow> n);
    if at_lexem LiteralSuffix s then do {
      let suffix_str = lexem_text (cur s);
      let type_suffix = (if length suffix_str > 8 then type_suffix_array [] else type_suffix_array suffix_str);
      let s = (if length suffix_str > 8
               then add_error_message (str ''Type suffix of numeric literal is too long!'') (loc s) s else s);
      let s = NextLexem s;
      Some (IntegerNumericConstant src_loc num type_suffix, s) }
    else Some (IntegerNumericConstant src_loc num (type_suffix_array []), s) }"

definition ParseFloatingPointNumericConstant :: "SyntaxAnalyzer \<Rightarrow> TerminalExpression parsed" where
  "ParseFloatingPointNumericConstant s = do {
    let src_loc = loc s;
    let num = lexem_text (cur s);
    let s = NextLexem s;
    if at_lexem LiteralSuffix s then
      let type_suffix = lexem_text (cur s); s = NextLexem s in Some (FloatingPointNumericConstant src_loc num type_suffix, s)
    else Some (FloatingPointNumericConstant src_loc num [], s) }"

definition parse_string_literal :: "SyntaxAnalyzer \<Rightarrow> TerminalExpression parsed" where
  "parse_string_literal s = do {
    let src_loc = loc s;
    let v = lexem_text (cur s);
    let s = NextLexem s;
    if at_lexem LiteralSuffix s then
      let type_suffix = lexem_text (cur s); s = NextLexem s in Some (StringLiteral src_loc v type_suffix, s)
    else Some (StringLiteral src_loc v [], s) }"

definition parse_char_literal :: "SyntaxAnalyzer \<Rightarrow> TerminalExpression parsed" where
  "parse_char_literal s = do {
    let src_loc = loc s;
    let code_point = GetUTF8FirstChar (lexem_text (cur s)) 0 (length (lexem_text (cur s)));
    let s = NextLexem s;
    if at_lexem LiteralSuffix s then do {
      let suffix_str = lexem_text (cur s);
      let type_suffix = (if length suffix_str < 8 then type_suffix_array suffix_str else type_suffix_array []);
      let s = (if length suffix_str < 8 then s
               else add_error_message (str ''Char literal type suffix overflow'') (loc s) s);
      let s = NextLexem s;
      Some (CharacterLiteral src_loc code_point type_suffix, s) }
    else Some (CharacterLiteral src_loc code_point (type_suffix_array []), s) }"

section \<open>Brackets\<close>

definition ParseExpressionInBrackets :: "Rec \<Rightarrow> SyntaxAnalyzer \<Rightarrow> Expression parsed" where
  "ParseExpressionInBrackets rec s = do {
    let s = ExpectLexem BracketLeft s;
    (expr, s) \<leftarrow> rec_Expression rec s;
    let s = ExpectLexem BracketRight s;
    Some (expr, s) }"

definition ParseTypeNameInTemplateBrackets :: "Rec \<Rightarrow> SyntaxAnalyzer \<Rightarrow> TypeName parsed" where
  "ParseTypeNameInTemplateBrackets rec s = do {
    let s = ExpectLexem TemplateBracketLeft s;
    (result, s) \<leftarrow> rec_TypeName rec s;
    let s = ExpectLexem TemplateBracketRight s;
    Some (result, s) }"

definition ParseExpressionMixin :: "Rec \<Rightarrow> SyntaxAnalyzer \<Rightarrow> Expression Mixin parsed" where
  "ParseExpressionMixin rec s = do {
    let src_loc = loc s;
    let s = NextLexem s;
    (expression, s) \<leftarrow> ParseExpressionInBrackets rec s;
    Some (Mixin src_loc expression, s) }"

definition TryParseNonSyncTag :: "SyntaxKeyword \<Rightarrow> Rec \<Rightarrow> SyntaxAnalyzer \<Rightarrow> Expression NonSyncTag parsed" where
  "TryParseNonSyncTag K rec s =
    (if at_keyword K (Common non_sync_kw) s then do {
       let s = NextLexem s;
       if at_lexem BracketLeft s then do {
         (e, s) \<leftarrow> ParseExpressionInBrackets rec s;
         Some (NonSyncTagExpression e, s) }
       else Some (NonSyncTagTrue, s) }
     else Some (NonSyncTagNone, s))"

section \<open>Names\<close>

definition ParseTemplateArgs :: "Rec \<Rightarrow> SyntaxAnalyzer \<Rightarrow> Expression list parsed" where
  "ParseTemplateArgs rec s = do {
    let s = NextLexem s;
    loop (\<lambda>result s.
      if \<not> NotEndOfFile s then Some (Inr result, s)
      else if at_lexem TemplateBracketRight s then let s = NextLexem s in Some (Inr result, s)
      else do {
        (e, s) \<leftarrow> rec_Expression rec s;
        if at_lexem Comma s then do {
          let s = NextLexem s;
          let s = (if at_lexem TemplateBracketRight s then PushErrorMessage s else s);
          Some (Inl (result @ [e]), s) }
        else if at_lexem TemplateBracketRight s then Some (Inl (result @ [e]), s)
        else do {
          let s = PushErrorMessage s;
          let s = TryRecoverAfterError g_template_arguments_list_control_lexems s;
          Some (Inl (result @ [e]), s) } }) [] s }"

definition try_parse_template_args :: "Rec \<Rightarrow> ComplexName \<Rightarrow> SyntaxAnalyzer \<Rightarrow> ComplexName parsed" where
  "try_parse_template_args rec base s =
    (if at_lexem TemplateBracketLeft s then do {
       let src_loc = loc s;
       (args, s) \<leftarrow> ParseTemplateArgs rec s;
       Some (TemplateParameterization src_loc args base, s) }
     else Some (base, s))"

text \<open>The two parsers of the tail of a name call each other; a name with template arguments is one round of the loop.\<close>

definition ParseComplexNameTail :: "Rec \<Rightarrow> ComplexName \<Rightarrow> SyntaxAnalyzer \<Rightarrow> ComplexName parsed" where
  "ParseComplexNameTail rec = loop (\<lambda>base s.
    if at_lexem DoubleColon s then do {
      let s = NextLexem s;
      if at_lexem Identifier s then do {
        let src_loc = loc s;
        let name = lexem_text (cur s);
        let s = NextLexem s;
        (base, s) \<leftarrow> try_parse_template_args rec (NamesScopeNameFetch src_loc name base) s;
        Some (Inl base, s) }
      else if at_lexem CompletionIdentifier s then do {
        let src_loc = loc s;
        let name = lexem_text (cur s);
        let s = NextLexem s;
        Some (Inr (NamesScopeNameFetchCompletion src_loc name base), s) }
      else let s = PushErrorMessage s in Some (Inr base, s) }
    else if at_lexem CompletionScope s then do {
      let src_loc = loc s;
      let s = NextLexem s;
      Some (Inr (NamesScopeNameFetchCompletion src_loc [] base), s) }
    else Some (Inr base, s))"

definition TryParseComplexNameTailWithTemplateArgs :: "Rec \<Rightarrow> ComplexName \<Rightarrow> SyntaxAnalyzer \<Rightarrow> ComplexName parsed" where
  "TryParseComplexNameTailWithTemplateArgs rec base s = do {
    (base, s) \<leftarrow> try_parse_template_args rec base s;
    ParseComplexNameTail rec base s }"

definition ParseComplexName :: "SyntaxKeyword \<Rightarrow> Rec \<Rightarrow> SyntaxAnalyzer \<Rightarrow> ComplexName parsed" where
  "ParseComplexName K rec s =
    (if at_lexem CompletionScope s then
       let src_loc = loc s; s = NextLexem s in Some (RootNamespaceNameLookupCompletion src_loc [], s)
     else if at_lexem DoubleColon s then do {
       let s = NextLexem s;
       if at_lexem Identifier s then do {
         let base = RootNamespaceNameLookup (loc s) (lexem_text (cur s));
         let s = NextLexem s;
         TryParseComplexNameTailWithTemplateArgs rec base s }
       else if at_lexem CompletionIdentifier s then do {
         let r = RootNamespaceNameLookupCompletion (loc s) (lexem_text (cur s));
         let s = NextLexem s;
         Some (r, s) }
       else do {
         let s = PushErrorMessage s;
         Some (RootNamespaceNameLookupCompletion (loc s) [], s) } }
     else if at_lexem Identifier s then
       if lexem_text (cur s) = K (Common typeof_kw) then do {
         let src_loc = loc s;
         let s = NextLexem s;
         (e, s) \<leftarrow> ParseExpressionInBrackets rec s;
         ParseComplexNameTail rec (TypeofTypeName src_loc e) s }
       else do {
         let base = NameLookup (loc s) (lexem_text (cur s));
         let s = NextLexem s;
         TryParseComplexNameTailWithTemplateArgs rec base s }
     else if at_lexem CompletionIdentifier s then do {
       let r = NameLookupCompletion (loc s) (lexem_text (cur s));
       let s = NextLexem s;
       Some (r, s) }
     else do {
       let s = PushErrorMessage s;
       Some (RootNamespaceNameLookup (loc s) [], s) })"

section \<open>Calls and initializers\<close>

text \<open>\<open>None\<close> is the request of help for the signature.\<close>

definition ParseCall :: "Rec \<Rightarrow> SyntaxAnalyzer \<Rightarrow> Expression list option parsed" where
  "ParseCall rec s = do {
    let s = ExpectLexem BracketLeft s;
    (args, s) \<leftarrow> loop (\<lambda>args s.
      if \<not> NotEndOfFile s \<or> at_lexem BracketRight s then Some (Inr (Some args), s)
      else do {
        (e, s) \<leftarrow> rec_Expression rec s;
        let args = args @ [e];
        if at_lexem Comma s then do {
          let s = NextLexem s;
          if at_lexem BracketRight s then let s = PushErrorMessage s in Some (Inr (Some args), s)
          else Some (Inl args, s) }
        else if at_lexem SignatureHelpComma s then Some (Inr None, s)
        else Some (Inr (Some args), s) }) [] s;
    case args of
      None \<Rightarrow> Some (None, s)
    | Some args \<Rightarrow> let s = ExpectLexem BracketRight s in Some (Some args, s) }"

definition ParseVariableInitializer :: "SyntaxKeyword \<Rightarrow> Rec \<Rightarrow> SyntaxAnalyzer \<Rightarrow> Initializer parsed" where
  "ParseVariableInitializer K rec s =
    (if at_lexem Lexem_Type.Equal s then do {
       let s = NextLexem s;
       if at_keyword K zero_init_kw s then let l = loc s; s = NextLexem s in Some (ZeroInitializer l, s)
       else if at_keyword K uninitialized_kw s then let l = loc s; s = NextLexem s in Some (UninitializedInitializer l, s)
       else do {
         (e, s) \<leftarrow> rec_Expression rec s;
         Some (ExpressionInitializer e, s) } }
     else if at_lexem BracketLeft s \<or> at_lexem SignatureHelpBracketLeft s \<or> at_lexem SquareBracketLeft s \<or> at_lexem BraceLeft s
     then rec_Initializer rec False s
     else Some (EmptyInitializer, s))"

definition ParseSequenceInitializer :: "Rec \<Rightarrow> SyntaxAnalyzer \<Rightarrow> Initializer parsed" where
  "ParseSequenceInitializer rec s = do {
    let src_loc = loc s;
    let s = NextLexem s;
    ((initializers, filler), s) \<leftarrow> loop (\<lambda>initializers s.
      if \<not> NotEndOfFile s \<or> at_lexem SquareBracketRight s then Some (Inr (initializers, False), s)
      else do {
        (i, s) \<leftarrow> rec_Initializer rec True s;
        let initializers = initializers @ [i];
        if at_lexem Comma s then let s = NextLexem s in Some (Inl initializers, s)
        else if at_lexem Ellipsis s then let s = NextLexem s in Some (Inr (initializers, True), s)
        else Some (Inr (initializers, False), s) }) [] s;
    let s = ExpectLexem SquareBracketRight s;
    Some (SequenceInitializer src_loc initializers filler, s) }"

text \<open>One member; \<open>None\<close> is the return from the initializer after an error.\<close>

definition parse_member_initializer ::
  "SyntaxKeyword \<Rightarrow> Rec \<Rightarrow> SyntaxAnalyzer \<Rightarrow> Initializer MemberInitializer option parsed" where
  "parse_member_initializer K rec s =
    (if at_lexem Dot s then do {
       let s = NextLexem s;
       if at_lexem Identifier s then do {
         let name = lexem_text (cur s);
         let l = loc s;
         let s = NextLexem s;
         (i, s) \<leftarrow> ParseVariableInitializer K rec s;
         let s = (if i = EmptyInitializer then PushErrorMessage s else s);
         Some (Some (MemberInitializer l name i False), s) }
       else if at_lexem CompletionIdentifier s then do {
         let m = MemberInitializer (loc s) (lexem_text (cur s)) EmptyInitializer True;
         let s = NextLexem s;
         Some (Some m, s) }
       else let s = PushErrorMessage s in Some (None, s) }
     else if at_lexem CompletionDot s then do {
       let m = MemberInitializer (loc s) [] EmptyInitializer True;
       let s = NextLexem s;
       Some (Some m, s) }
     else let s = PushErrorMessage s in Some (None, s))"

text \<open>The flag of the loop says whether the closing brace is still expected.\<close>

definition ParseStructNamedInitializer :: "SyntaxKeyword \<Rightarrow> Rec \<Rightarrow> SyntaxAnalyzer \<Rightarrow> Initializer parsed" where
  "ParseStructNamedInitializer K rec s = do {
    let src_loc = loc s;
    let s = NextLexem s;
    ((members, expect_brace), s) \<leftarrow> loop (\<lambda>members s.
      if \<not> NotEndOfFile s \<or> at_lexem BraceRight s then Some (Inr (members, True), s)
      else do {
        (member, s) \<leftarrow> parse_member_initializer K rec s;
        case member of
          None \<Rightarrow> Some (Inr (members @ [MemberInitializer SrcLoc_default [] EmptyInitializer False], False), s)
        | Some m \<Rightarrow>
            if at_lexem Comma s then do {
              let s = NextLexem s;
              if at_lexem BraceRight s then Some (Inr (members @ [m], True), s)
              else Some (Inl (members @ [m]), s) }
            else Some (Inr (members @ [m], True), s) }) [] s;
    let s = (if expect_brace then ExpectLexem BraceRight s else s);
    Some (StructInitializer (StructNamedInitializer src_loc members), s) }"

definition ParseConstructorInitializer :: "Rec \<Rightarrow> SyntaxAnalyzer \<Rightarrow> Initializer parsed" where
  "ParseConstructorInitializer rec s = do {
    let src_loc = loc s;
    (call_result, s) \<leftarrow> ParseCall rec s;
    case call_result of
      Some args \<Rightarrow> Some (ConstructorInitializer src_loc args, s)
    | None \<Rightarrow> let l = loc s; s = NextLexem s in Some (ConstructorInitializerSignatureHelp l [], s) }"

section \<open>Function types and lambdas\<close>

definition ParseFunctionParam :: "SyntaxKeyword \<Rightarrow> Rec \<Rightarrow> SyntaxAnalyzer \<Rightarrow> TypeName FunctionParam parsed" where
  "ParseFunctionParam K rec s = do {
    let src_loc = loc s;
    (ty, s) \<leftarrow> rec_TypeName rec s;
    let reference_modifier = (if at_lexem Ampersand s then Reference else NoReference);
    let s = (if at_lexem Ampersand s then NextLexem s else s);
    if \<not> at_lexem Identifier s then do {
      let s = PushErrorMessage s;
      let s = TryRecoverAfterError g_function_params_list_control_lexems s;
      Some (FunctionParam src_loc [] ty NoMutability reference_modifier, s) }
    else do {
      let mutability_modifier =
        (if lexem_text (cur s) = K mut_k then Mutable else if lexem_text (cur s) = K imut_k then Immutable else NoMutability);
      let s = (if mutability_modifier = NoMutability then s else NextLexem s);
      if \<not> at_lexem Identifier s then do {
        let s = PushErrorMessage s;
        let s = TryRecoverAfterError g_function_params_list_control_lexems s;
        Some (FunctionParam src_loc [] ty mutability_modifier reference_modifier, s) }
      else do {
        let param = FunctionParam (loc s) (lexem_text (cur s)) ty mutability_modifier reference_modifier;
        let s = NextLexem s;
        Some (param, s) } } }"

text \<open>The loop over the parameters, which function types, lambdas and functions have in common.\<close>

definition parse_function_params ::
  "SyntaxKeyword \<Rightarrow> Rec \<Rightarrow> TypeName FunctionParam list \<Rightarrow> SyntaxAnalyzer \<Rightarrow> TypeName FunctionParam list parsed" where
  "parse_function_params K rec = loop (\<lambda>params s.
    if \<not> NotEndOfFile s \<or> at_lexem EndOfFile s then Some (Inr params, s)
    else if at_lexem BracketRight s then let s = NextLexem s in Some (Inr params, s)
    else do {
      (param, s) \<leftarrow> ParseFunctionParam K rec s;
      if at_lexem Comma s then do {
        let s = NextLexem s;
        let s = (if at_lexem BracketRight s then PushErrorMessage s else s);
        Some (Inl (params @ [param]), s) }
      else if at_lexem BracketRight s then Some (Inl (params @ [param]), s)
      else do {
        let s = PushErrorMessage s;
        let s = TryRecoverAfterError g_function_params_list_control_lexems s;
        Some (Inl (params @ [param]), s) } })"

definition parse_at_expression :: "Rec \<Rightarrow> SyntaxAnalyzer \<Rightarrow> Expression option parsed" where
  "parse_at_expression rec s =
    (if at_lexem At s then do {
       let s = NextLexem s;
       (e, s) \<leftarrow> ParseExpressionInBrackets rec s;
       Some (Some e, s) }
     else Some (None, s))"

definition parse_calling_convention :: "SyntaxKeyword \<Rightarrow> Rec \<Rightarrow> SyntaxAnalyzer \<Rightarrow> Expression option parsed" where
  "parse_calling_convention K rec s =
    (if at_keyword K call_conv_kw s then do {
       let s = NextLexem s;
       (e, s) \<leftarrow> ParseExpressionInBrackets rec s;
       Some (Some e, s) }
     else Some (None, s))"

definition ParseFunctionTypeEnding ::
  "SyntaxKeyword \<Rightarrow> Rec \<Rightarrow> SrcLoc \<Rightarrow> TypeName FunctionParam list \<Rightarrow> SyntaxAnalyzer \<Rightarrow> (TypeName, Expression) FunctionTypeSyntax parsed" where
  "ParseFunctionTypeEnding K rec src_loc params s = do {
    (references_pollution, s) \<leftarrow> parse_at_expression rec s;
    let unsafe = at_keyword K unsafe_kw s;
    let s = (if unsafe then NextLexem s else s);
    (calling_convention, s) \<leftarrow> parse_calling_convention K rec s;
    if at_lexem Colon s then do {
      let s = NextLexem s;
      (return_type, s) \<leftarrow> rec_TypeName rec s;
      (inner_references, s) \<leftarrow> parse_at_expression rec s;
      if at_lexem Ampersand s then do {
        let s = NextLexem s;
        let mutability_modifier =
          (if at_keyword K mut_k s then Mutable else if at_keyword K imut_k s then Immutable else NoMutability);
        let is_identifier = at_lexem Identifier s;
        let s = (if is_identifier \<and> mutability_modifier = NoMutability then PushErrorMessage s else s);
        let s = (if is_identifier then NextLexem s else s);
        (reference, s) \<leftarrow> parse_at_expression rec s;
        Some (FunctionTypeSyntax src_loc params calling_convention (Some return_type) references_pollution reference inner_references
          mutability_modifier Reference unsafe, s) }
      else Some (FunctionTypeSyntax src_loc params calling_convention (Some return_type) references_pollution None inner_references
          NoMutability NoReference unsafe, s) }
    else Some (FunctionTypeSyntax src_loc params calling_convention None references_pollution None None
          NoMutability NoReference unsafe, s) }"

definition ParseFunctionType :: "SyntaxKeyword \<Rightarrow> Rec \<Rightarrow> SyntaxAnalyzer \<Rightarrow> (TypeName, Expression) FunctionTypeSyntax parsed" where
  "ParseFunctionType K rec s = do {
    let src_loc = loc s;
    let s = NextLexem s;
    let s = ExpectLexem BracketLeft s;
    (params, s) \<leftarrow> parse_function_params K rec [] s;
    ParseFunctionTypeEnding K rec src_loc params s }"

definition parse_capture_expression :: "Rec \<Rightarrow> SyntaxAnalyzer \<Rightarrow> Expression parsed" where
  "parse_capture_expression rec s =
    (if at_lexem Lexem_Type.Equal s then do {
       let s = NextLexem s;
       (e, s) \<leftarrow> rec_Expression rec s;
       Some (e, s) }
     else Some (EmptyExpression, s))"

definition parse_capture_list :: "Rec \<Rightarrow> SyntaxAnalyzer \<Rightarrow> Expression CaptureListElement list parsed" where
  "parse_capture_list rec = loop (\<lambda>captures s.
    if \<not> NotEndOfFile s then Some (Inr captures, s)
    else do {
      let by_reference = at_lexem Ampersand s;
      let s = (if by_reference then NextLexem s else s);
      let named = (at_lexem Identifier s \<or> at_lexem CompletionIdentifier s);
      let completion_requested = at_lexem CompletionIdentifier s;
      let src_loc = (if named then loc s else SrcLoc_default);
      let name = (if named then lexem_text (cur s) else []);
      let s = (if named then NextLexem s else PushErrorMessage s);
      (expression, s) \<leftarrow> parse_capture_expression rec s;
      let captures = captures @ [CaptureListElement src_loc name expression by_reference completion_requested];
      if at_lexem Comma s then let s = NextLexem s in Some (Inl captures, s)
      else Some (Inr captures, s) }) []"

definition parse_lambda_capture :: "Rec \<Rightarrow> SyntaxAnalyzer \<Rightarrow> Expression Capture parsed" where
  "parse_lambda_capture rec s =
    (if at_lexem SquareBracketLeft s then do {
       let s = NextLexem s;
       if at_lexem Lexem_Type.Equal s then do {
         let s = NextLexem s;
         let s = ExpectLexem SquareBracketRight s;
         Some (CaptureAllByValue, s) }
       else if at_lexem Ampersand s \<and> next_lexem_type s = SquareBracketRight then do {
         let s = NextLexem s;
         let s = ExpectLexem SquareBracketRight s;
         Some (CaptureAllByReference, s) }
       else do {
         (captures, s) \<leftarrow> (if \<not> at_lexem SquareBracketRight s then parse_capture_list rec s else Some ([], s));
         let s = ExpectLexem SquareBracketRight s;
         Some (CaptureList captures, s) } }
     else Some (CaptureNothing, s))"

definition ParseLambda :: "SyntaxKeyword \<Rightarrow> Rec \<Rightarrow> SyntaxAnalyzer \<Rightarrow> Expression parsed" where
  "ParseLambda K rec s = do {
    let src_loc = loc s;
    let s = NextLexem s;
    let no_discard = at_keyword K nodiscard_kw s;
    let s = (if no_discard then NextLexem s else s);
    (capture, s) \<leftarrow> parse_lambda_capture rec s;
    let this_loc = loc s;
    let reference_modifier = (if at_keyword K byval_kw s then NoReference else Reference);
    let s = (if at_keyword K byval_kw s then NextLexem s else s);
    let mutability_modifier = (if \<not> at_keyword K imut_k s \<and> at_keyword K mut_k s then Mutable else Immutable);
    let s = (if at_keyword K imut_k s \<or> at_keyword K mut_k s then NextLexem s else s);
    let this_param = FunctionParam this_loc (K this_k) EmptyTypeName mutability_modifier reference_modifier;
    let s = ExpectLexem BracketLeft s;
    (params, s) \<leftarrow> parse_function_params K rec [this_param] s;
    (ty, s) \<leftarrow> ParseFunctionTypeEnding K rec src_loc params s;
    let name = [NameComponent (str (OverloadedOperatorToString OverloadedOperator.Call)) src_loc False];
    (block, s) \<leftarrow> ParseBlock rec s;
    Some (Lambda src_loc capture (FunctionSyntax src_loc name EmptyExpression ty None (Some block) NonSyncTagNone
      OverloadedOperator.NoneOperator NotVirtual NoBodyKind RegularFunction False no_discard False False), s) }"

section \<open>Types\<close>

definition parse_tuple_elements :: "Rec \<Rightarrow> SyntaxAnalyzer \<Rightarrow> TypeName list parsed" where
  "parse_tuple_elements rec = loop (\<lambda>element_types s.
    if \<not> NotEndOfFile s then Some (Inr element_types, s)
    else if at_lexem SquareBracketRight s then let s = NextLexem s in Some (Inr element_types, s)
    else do {
      (ty, s) \<leftarrow> rec_TypeName rec s;
      let element_types = element_types @ [ty];
      if at_lexem SquareBracketRight s then let s = NextLexem s in Some (Inr element_types, s)
      else if \<not> at_lexem Comma s then let s = PushErrorMessage s in Some (Inr element_types, s)
      else do {
        let s = NextLexem s;
        if at_lexem SquareBracketRight s then let s = PushErrorMessage s in Some (Inr element_types, s)
        else Some (Inl element_types, s) } }) []"

definition parse_coroutine_inner_references :: "SyntaxKeyword \<Rightarrow> SyntaxAnalyzer \<Rightarrow> MutabilityModifier list parsed" where
  "parse_coroutine_inner_references K = loop (\<lambda>inner_references s.
    if \<not> NotEndOfFile s then Some (Inr inner_references, s)
    else do {
      let references = inner_references @
        (if at_keyword K mut_k s then [Mutable] else if at_keyword K imut_k s then [Immutable] else []);
      let s = (if at_keyword K mut_k s \<or> at_keyword K imut_k s then NextLexem s else PushErrorMessage s);
      if at_lexem Comma s then let s = NextLexem s in Some (Inl references, s)
      else Some (Inr references, s) }) []"

definition parse_coroutine_reference_brackets :: "SyntaxKeyword \<Rightarrow> SyntaxAnalyzer \<Rightarrow> MutabilityModifier list parsed" where
  "parse_coroutine_reference_brackets K s =
    (if at_lexem BracketLeft s then do {
       let s = NextLexem s;
       if at_lexem BracketRight s then let s = NextLexem s in Some ([], s)
       else do {
         (references, s) \<leftarrow> parse_coroutine_inner_references K s;
         let s = ExpectLexem BracketRight s;
         Some (references, s) } }
     else Some ([], s))"

definition parse_coroutine_type :: "SyntaxKeyword \<Rightarrow> Rec \<Rightarrow> SyntaxAnalyzer \<Rightarrow> (TypeName, Expression) CoroutineTypeSyntax parsed" where
  "parse_coroutine_type K rec s = do {
    let src_loc = loc s;
    let kind = (if lexem_text (cur s) = K (Common generator_kw) then Generator else AsyncFunc);
    let s = NextLexem s;
    (inner_references, s) \<leftarrow> parse_coroutine_reference_brackets K s;
    (non_sync_tag, s) \<leftarrow> TryParseNonSyncTag K rec s;
    let s = ExpectLexem Colon s;
    (return_type, s) \<leftarrow> rec_TypeName rec s;
    (inner, s) \<leftarrow> parse_at_expression rec s;
    if at_lexem Ampersand s then do {
      let s = NextLexem s;
      let mutability_modifier =
        (if at_keyword K mut_k s then Mutable else if at_keyword K imut_k s then Immutable else NoMutability);
      let s = (if mutability_modifier = NoMutability then s else NextLexem s);
      (reference, s) \<leftarrow> parse_at_expression rec s;
      Some (CoroutineTypeSyntax src_loc non_sync_tag return_type inner_references reference inner kind mutability_modifier Reference, s) }
    else Some (CoroutineTypeSyntax src_loc non_sync_tag return_type inner_references None inner kind NoMutability NoReference, s) }"

definition ParseTypeName :: "SyntaxKeyword \<Rightarrow> Rec \<Rightarrow> SyntaxAnalyzer \<Rightarrow> TypeName parsed" where
  "ParseTypeName K rec s =
    (if at_lexem SquareBracketLeft s then do {
       let src_loc = loc s;
       let s = NextLexem s;
       (element_type, s) \<leftarrow> rec_TypeName rec s;
       let s = ExpectLexem Comma s;
       (size, s) \<leftarrow> rec_Expression rec s;
       let s = ExpectLexem SquareBracketRight s;
       Some (CompoundType (ArrayTypeName src_loc element_type size), s) }
     else if at_lexem BracketLeft s then do {
       let s = NextLexem s;
       (type_name, s) \<leftarrow> rec_TypeName rec s;
       let s = ExpectLexem BracketRight s;
       Some (type_name, s) }
     else if at_keyword K tup_kw s then do {
       let src_loc = loc s;
       let s = NextLexem s;
       let s = ExpectLexem SquareBracketLeft s;
       (element_types, s) \<leftarrow> parse_tuple_elements rec s;
       Some (CompoundType (TupleType src_loc element_types), s) }
     else if at_lexem Dollar s then do {
       let src_loc = loc s;
       let s = NextLexem s;
       let s = ExpectLexem BracketLeft s;
       (element_type, s) \<leftarrow> rec_TypeName rec s;
       let s = ExpectLexem BracketRight s;
       Some (CompoundType (RawPointerType src_loc element_type), s) }
     else if at_keyword K (Common generator_kw) s \<or> at_keyword K (Common async_kw) s then do {
       (coroutine_type, s) \<leftarrow> parse_coroutine_type K rec s;
       Some (CompoundType (CoroutineTypeName coroutine_type), s) }
     else if at_keyword K fn_k s then do {
       (function_type, s) \<leftarrow> ParseFunctionType K rec s;
       Some (CompoundType (FunctionTypeName function_type), s) }
     else if at_keyword K mixin_kw s then do {
       (mixin, s) \<leftarrow> ParseExpressionMixin rec s;
       Some (CompoundType (MixinName mixin), s) }
     else do {
       (name, s) \<leftarrow> ParseComplexName K rec s;
       Some (ComplexNameToTypeName name, s) })"

section \<open>Operands\<close>

definition unary_operator :: "UnaryKind \<Rightarrow> Rec \<Rightarrow> SyntaxAnalyzer \<Rightarrow> Expression parsed" where
  "unary_operator kind rec s = do {
    let src_loc = loc s;
    let s = NextLexem s;
    (e, s) \<leftarrow> rec_Component rec s;
    Some (UnaryNode kind src_loc e, s) }"

definition unary_in_brackets :: "UnaryKind \<Rightarrow> Rec \<Rightarrow> SyntaxAnalyzer \<Rightarrow> Expression parsed" where
  "unary_in_brackets kind rec s = do {
    let src_loc = loc s;
    let s = NextLexem s;
    (e, s) \<leftarrow> ParseExpressionInBrackets rec s;
    Some (UnaryNode kind src_loc e, s) }"

definition cast_expression :: "(SrcLoc \<Rightarrow> TypeName \<Rightarrow> Expression \<Rightarrow> Expression) \<Rightarrow> Rec \<Rightarrow> SyntaxAnalyzer \<Rightarrow> Expression parsed" where
  "cast_expression node rec s = do {
    let src_loc = loc s;
    let s = NextLexem s;
    (ty, s) \<leftarrow> ParseTypeNameInTemplateBrackets rec s;
    (e, s) \<leftarrow> ParseExpressionInBrackets rec s;
    Some (node src_loc ty e, s) }"

definition parse_brackets :: "Rec \<Rightarrow> SyntaxAnalyzer \<Rightarrow> Expression parsed" where
  "parse_brackets rec s = do {
    let s = ExpectLexem BracketLeft s;
    (expr, s) \<leftarrow> rec_Expression rec s;
    if at_lexem BracketRight s then let s = NextLexem s in Some (expr, s)
    else if at_lexem Question s then do {
      let src_loc = loc s;
      let s = NextLexem s;
      (branch0, s) \<leftarrow> rec_Expression rec s;
      let s = ExpectLexem Colon s;
      (branch1, s) \<leftarrow> rec_Expression rec s;
      let s = ExpectLexem BracketRight s;
      Some (TernaryOperator src_loc expr branch0 branch1, s) }
    else let s = PushErrorMessage s in Some (expr, s) }"

definition parse_move :: "SyntaxAnalyzer \<Rightarrow> Expression parsed" where
  "parse_move s = do {
    let s = NextLexem s;
    let s = ExpectLexem BracketLeft s;
    if at_lexem CompletionIdentifier s then do {
      let e = MoveOperatorCompletion (loc s) (lexem_text (cur s));
      let s = NextLexem s;
      Some (TerminalNode e, s) }
    else do {
      let src_loc = loc s;
      if at_lexem Identifier s then do {
        let e = MoveOperator src_loc (lexem_text (cur s));
        let s = NextLexem s;
        let s = ExpectLexem BracketRight s;
        Some (TerminalNode e, s) }
      else let s = PushErrorMessage s in Some (EmptyExpression, s) } }"

definition parse_embed_type :: "SyntaxKeyword \<Rightarrow> Rec \<Rightarrow> SyntaxAnalyzer \<Rightarrow> ComplexName option parsed" where
  "parse_embed_type K rec s =
    (if at_lexem TemplateBracketLeft s then do {
       let s = NextLexem s;
       (name, s) \<leftarrow> ParseComplexName K rec s;
       let s = ExpectLexem TemplateBracketRight s;
       Some (Some name, s) }
     else Some (None, s))"

definition parse_embed :: "SyntaxKeyword \<Rightarrow> Rec \<Rightarrow> SyntaxAnalyzer \<Rightarrow> Expression parsed" where
  "parse_embed K rec s = do {
    let src_loc = loc s;
    let s = NextLexem s;
    (element_type, s) \<leftarrow> parse_embed_type K rec s;
    (e, s) \<leftarrow> ParseExpressionInBrackets rec s;
    Some (Embed src_loc element_type e, s) }"

text \<open>The access to an external function or variable, behind \<open>import\<close> and the keyword that follows it.\<close>

definition external_access :: "(SrcLoc \<Rightarrow> TypeName \<Rightarrow> byte list \<Rightarrow> Expression) \<Rightarrow> SrcLoc \<Rightarrow> Rec \<Rightarrow> SyntaxAnalyzer \<Rightarrow> Expression parsed" where
  "external_access node src_loc rec s = do {
    let s = NextLexem s;
    (ty, s) \<leftarrow> ParseTypeNameInTemplateBrackets rec s;
    let s = ExpectLexem BracketLeft s;
    let name = (if at_lexem String s then lexem_text (cur s) else []);
    let s = (if at_lexem String s then NextLexem s else PushErrorMessage s);
    let s = ExpectLexem BracketRight s;
    Some (node src_loc ty name, s) }"

definition type_query :: "(SrcLoc \<Rightarrow> TypeName \<Rightarrow> Expression) \<Rightarrow> Rec \<Rightarrow> SyntaxAnalyzer \<Rightarrow> Expression parsed" where
  "type_query node rec s = do {
    let src_loc = loc s;
    let s = NextLexem s;
    (ty, s) \<leftarrow> ParseTypeNameInTemplateBrackets rec s;
    Some (node src_loc ty, s) }"

definition parse_same_type :: "Rec \<Rightarrow> SyntaxAnalyzer \<Rightarrow> Expression parsed" where
  "parse_same_type rec s = do {
    let src_loc = loc s;
    let s = NextLexem s;
    let s = ExpectLexem TemplateBracketLeft s;
    (l, s) \<leftarrow> rec_TypeName rec s;
    let s = ExpectLexem Comma s;
    (r, s) \<leftarrow> rec_TypeName rec s;
    let s = ExpectLexem TemplateBracketRight s;
    Some (SameType src_loc l r, s) }"

definition parse_name_expression :: "SyntaxKeyword \<Rightarrow> Rec \<Rightarrow> SyntaxAnalyzer \<Rightarrow> Expression parsed" where
  "parse_name_expression K rec s = do { (name, s) \<leftarrow> ParseComplexName K rec s; Some (ComplexNameToExpression name, s) }"

definition parse_type_expression :: "SyntaxKeyword \<Rightarrow> Rec \<Rightarrow> SyntaxAnalyzer \<Rightarrow> Expression parsed" where
  "parse_type_expression K rec s = do { (ty, s) \<leftarrow> ParseTypeName K rec s; Some (TypeNameToExpression ty, s) }"

text \<open>
  The tests of keywords behind the one of \<open>import\<close>. They only look at the text of the lexem, and they are reached for the lexem
  behind \<open>import\<close> too, after the report of an error.
\<close>

definition parse_identifier_rest :: "SyntaxKeyword \<Rightarrow> Rec \<Rightarrow> SyntaxAnalyzer \<Rightarrow> Expression parsed" where
  "parse_identifier_rest K rec s =
    (let word = lexem_text (cur s) in
     if word = K (Common typeinfo_kw) then type_query TypeInfo rec s
     else if word = K same_type_kw then parse_same_type rec s
     else if word = K (Common non_sync_kw) then type_query NonSyncExpression rec s
     else if word = K safe_kw then unary_in_brackets SafeExpression rec s
     else if word = K unsafe_kw then unary_in_brackets UnsafeExpression rec s
     else if word = K mixin_kw then do { (mixin, s) \<leftarrow> ParseExpressionMixin rec s; Some (TypeExpression (MixinName mixin), s) }
     else if word = K fn_k \<or> word = K (Common typeof_kw) \<or> word = K tup_kw \<or> word = K (Common generator_kw) \<or> word = K (Common async_kw)
     then parse_type_expression K rec s
     else case FetchMacro word ExpressionContext s of
       Some macro \<Rightarrow> ExpandMacro rec macro (rec_Expression rec) EmptyExpression s
     | None \<Rightarrow> parse_name_expression K rec s)"

definition parse_identifier :: "SyntaxKeyword \<Rightarrow> Rec \<Rightarrow> SyntaxAnalyzer \<Rightarrow> Expression parsed" where
  "parse_identifier K rec s =
    (let word = lexem_text (cur s) in
     if word = K true_kw then let l = loc s; s = NextLexem s in Some (TerminalNode (BooleanConstant l True), s)
     else if word = K false_kw then let l = loc s; s = NextLexem s in Some (TerminalNode (BooleanConstant l False), s)
     else if word = K move_kw then parse_move s
     else if word = K take_kw then unary_in_brackets TakeOperator rec s
     else if word = K lambda_kw then ParseLambda K rec s
     else if word = K cast_ref_kw then cast_expression CastRef rec s
     else if word = K cast_ref_unsafe_kw then cast_expression CastRefUnsafe rec s
     else if word = K cast_imut_kw then unary_in_brackets CastImut rec s
     else if word = K cast_mut_kw then unary_in_brackets CastMut rec s
     else if word = K embed_kw then parse_embed K rec s
     else if word = K (Common import_kw) then do {
       let src_loc = loc s;
       let s = NextLexem s;
       if at_keyword K fn_k s then external_access ExternalFunctionAccess src_loc rec s
       else if at_keyword K var_k s then external_access ExternalVariableAccess src_loc rec s
       else let s = PushErrorMessage s in parse_identifier_rest K rec s }
     else parse_identifier_rest K rec s)"

definition ParseBinaryOperatorComponentCore :: "SyntaxKeyword \<Rightarrow> Rec \<Rightarrow> SyntaxAnalyzer \<Rightarrow> Expression parsed" where
  "ParseBinaryOperatorComponentCore K rec s =
    (if at_lexem Minus s then unary_operator UnaryMinus rec s
     else if at_lexem Exclamation s then unary_operator LogicalNotOperator rec s
     else if at_lexem Tilde s then unary_operator BitwiseNotOperator rec s
     else if at_lexem DoubleColon s \<or> at_lexem CompletionScope s then parse_name_expression K rec s
     else if at_lexem IntegerNumber s then do { (e, s) \<leftarrow> ParseIntegerNumericConstant s; Some (TerminalNode e, s) }
     else if at_lexem FloatingPointNumber s then do { (e, s) \<leftarrow> ParseFloatingPointNumericConstant s; Some (TerminalNode e, s) }
     else if at_lexem String s then do { (e, s) \<leftarrow> parse_string_literal s; Some (TerminalNode e, s) }
     else if at_lexem CharLiteral s then do { (e, s) \<leftarrow> parse_char_literal s; Some (TerminalNode e, s) }
     else if at_lexem BracketLeft s then parse_brackets rec s
     else if at_lexem SquareBracketLeft s \<or> at_lexem Dollar s then parse_type_expression K rec s
     else if at_lexem DollarLess s then unary_in_brackets ReferenceToRawPointerOperator rec s
     else if at_lexem DollarGreater s then unary_in_brackets RawPointerToReferenceOperator rec s
     else if at_lexem Identifier s then parse_identifier K rec s
     else if at_lexem CompletionIdentifier s then parse_name_expression K rec s
     else let s = PushErrorMessage s in Some (EmptyExpression, s))"

text \<open>Member access behind the dot.\<close>

definition parse_member_access :: "SyntaxKeyword \<Rightarrow> Rec \<Rightarrow> Expression \<Rightarrow> SyntaxAnalyzer \<Rightarrow> (Expression + Expression) parsed" where
  "parse_member_access K rec expr s =
    (if at_keyword K await_kw s then let l = loc s; s = NextLexem s in Some (Inl (UnaryNode AwaitOperator l expr), s)
     else if at_lexem Identifier s then do {
       let src_loc = loc s;
       let member_name = lexem_text (cur s);
       let s = NextLexem s;
       if at_lexem TemplateBracketLeft s then do {
         (template_args, s) \<leftarrow> ParseTemplateArgs rec s;
         Some (Inl (MemberAccessOperator src_loc expr member_name template_args True), s) }
       else Some (Inl (MemberAccessOperator src_loc expr member_name [] False), s) }
     else if at_lexem CompletionIdentifier s then do {
       let e = MemberAccessOperatorCompletion (loc s) expr (lexem_text (cur s));
       let s = NextLexem s;
       Some (Inr e, s) }
     else let s = PushErrorMessage s in Some (Inr EmptyExpression, s))"

text \<open>The recursion of the parser of postfix operators is in tail position: it is a loop.\<close>

definition TryParseBinaryOperatorComponentPostfixOperator :: "SyntaxKeyword \<Rightarrow> Rec \<Rightarrow> Expression \<Rightarrow> SyntaxAnalyzer \<Rightarrow> Expression parsed" where
  "TryParseBinaryOperatorComponentPostfixOperator K rec = loop (\<lambda>expr s.
    if at_lexem SquareBracketLeft s then do {
      let src_loc = loc s;
      let s = NextLexem s;
      (index, s) \<leftarrow> rec_Expression rec s;
      let s = ExpectLexem SquareBracketRight s;
      Some (Inl (SubscriptOperator src_loc expr index), s) }
    else if at_lexem BracketLeft s then do {
      let src_loc = loc s;
      (call_result, s) \<leftarrow> ParseCall rec s;
      case call_result of
        Some arguments \<Rightarrow> Some (Inl (CallOperator src_loc expr arguments), s)
      | None \<Rightarrow> let l = loc s; s = NextLexem s in Some (Inr (UnaryNode CallOperatorSignatureHelp l expr), s) }
    else if at_lexem SignatureHelpBracketLeft s then
      let l = loc s; s = NextLexem s in Some (Inl (UnaryNode CallOperatorSignatureHelp l expr), s)
    else if at_lexem Dot s then do {
      let s = NextLexem s;
      (e, s) \<leftarrow> parse_member_access K rec expr s;
      Some (e, s) }
    else if at_lexem CompletionDot s then
      let l = loc s; s = NextLexem s in Some (Inr (MemberAccessOperatorCompletion l expr []), s)
    else if at_lexem BraceLeft s then do {
      let src_loc = loc s;
      (initializer, s) \<leftarrow> ParseStructNamedInitializer K rec s;
      Some (Inl (VariableInitialization src_loc expr initializer), s) }
    else Some (Inr expr, s))"

definition ParseBinaryOperatorComponent :: "SyntaxKeyword \<Rightarrow> Rec \<Rightarrow> SyntaxAnalyzer \<Rightarrow> Expression parsed" where
  "ParseBinaryOperatorComponent K rec s = do {
    (e, s) \<leftarrow> ParseBinaryOperatorComponentCore K rec s;
    TryParseBinaryOperatorComponentPostfixOperator K rec e s }"

section \<open>Binary operators\<close>

definition g_operators_by_priority_table :: "(Lexem_Type \<times> BinaryOperatorType) list list" where
  "g_operators_by_priority_table = [
    [(DoublePipe, LazyLogicalOr)],
    [(DoubleAmpersand, LazyLogicalAnd)],
    [(Pipe, BinaryOperatorType.Or)],
    [(Caret, BinaryOperatorType.Xor)],
    [(Ampersand, BinaryOperatorType.And)],
    [(DoubleEqual, BinaryOperatorType.Equal), (ExclamationEqual, NotEqual)],
    [(Lexem_Type.Less, BinaryOperatorType.Less), (Lexem_Type.LessEqual, BinaryOperatorType.LessEqual),
     (Lexem_Type.Greater, BinaryOperatorType.Greater), (Lexem_Type.GreaterEqual, BinaryOperatorType.GreaterEqual)],
    [(LessEqualGreater, BinaryOperatorType.CompareOrder)],
    [(DoubleLess, BinaryOperatorType.ShiftLeft), (DoubleGreater, BinaryOperatorType.ShiftRight)],
    [(Plus, BinaryOperatorType.Add), (Minus, BinaryOperatorType.Sub)],
    [(Asterisk, BinaryOperatorType.Mul), (Slash, BinaryOperatorType.Div), (Percent, BinaryOperatorType.Rem)]]"

text \<open>
  The right part of a chain of operators of one priority, the first list, and the operand before it; the template parameter is
  the number of lists before. The recursion of the right part is in tail position.
\<close>

definition TryParseBinaryOperatorRightPart ::
  "(Lexem_Type \<times> BinaryOperatorType) list \<Rightarrow> (SyntaxAnalyzer \<Rightarrow> Expression parsed) \<Rightarrow> Expression \<Rightarrow> SyntaxAnalyzer \<Rightarrow> Expression parsed" where
  "TryParseBinaryOperatorRightPart ops operand = loop (\<lambda>l s.
    case map_of ops (lexem_type (cur s)) of
      Some op \<Rightarrow> do {
        let src_loc = loc s;
        let s = NextLexem s;
        (r, s) \<leftarrow> operand s;
        Some (Inl (BinaryOperator src_loc op l r), s) }
    | None \<Rightarrow> Some (Inr l, s))"

primrec TryParseBinaryOperator ::
  "(Lexem_Type \<times> BinaryOperatorType) list list \<Rightarrow> (SyntaxAnalyzer \<Rightarrow> Expression parsed) \<Rightarrow> SyntaxAnalyzer \<Rightarrow> Expression parsed" where
  "TryParseBinaryOperator [] operand = operand" |
  "TryParseBinaryOperator (ops # levels) operand = (\<lambda>s. do {
    (l, s) \<leftarrow> TryParseBinaryOperator levels operand s;
    TryParseBinaryOperatorRightPart ops (TryParseBinaryOperator levels operand) l s })"

definition ParseExpression :: "SyntaxKeyword \<Rightarrow> Rec \<Rightarrow> SyntaxAnalyzer \<Rightarrow> Expression parsed" where
  "ParseExpression K rec = TryParseBinaryOperator g_operators_by_priority_table (ParseBinaryOperatorComponent K rec)"

definition ParseInitializer :: "SyntaxKeyword \<Rightarrow> Rec \<Rightarrow> bool \<Rightarrow> SyntaxAnalyzer \<Rightarrow> Initializer parsed" where
  "ParseInitializer K rec parse_expression_initializer s =
    (if at_lexem SquareBracketLeft s then ParseSequenceInitializer rec s
     else if at_lexem BracketLeft s then ParseConstructorInitializer rec s
     else if at_lexem SignatureHelpBracketLeft s then
       let l = loc s; s = NextLexem s in Some (ConstructorInitializerSignatureHelp l [], s)
     else if at_lexem BraceLeft s then ParseStructNamedInitializer K rec s
     else if at_keyword K zero_init_kw s then let l = loc s; s = NextLexem s in Some (ZeroInitializer l, s)
     else if at_keyword K uninitialized_kw s then let l = loc s; s = NextLexem s in Some (UninitializedInitializer l, s)
     else if parse_expression_initializer then do { (e, s) \<leftarrow> ParseExpression K rec s; Some (ExpressionInitializer e, s) }
     else let s = PushErrorMessage s in Some (EmptyInitializer, s))"

end
