(* ===== verification/Parser_Expressions_Laws.thy ===== *)
theory Parser_Expressions_Laws
  imports Parser_Expressions
begin

text \<open>
  The parsers of names, types, expressions and initializers in the logic of \<open>Parser_Base\<close>: they are monotone in the recursive
  parsers, they move the cursor forward only, and they return if the recursive calls for smaller states do.
\<close>

section \<open>Monotonicity\<close>

lemma ParseExpressionInBrackets_mono [partial_function_mono]:
  "(\<And>q. mono_option (\<lambda>f. F f q)) \<Longrightarrow> mono_option (\<lambda>f. ParseExpressionInBrackets (F f) s)"
  unfolding ParseExpressionInBrackets_def by (intro partial_function_mono)

lemma ParseTypeNameInTemplateBrackets_mono [partial_function_mono]:
  "(\<And>q. mono_option (\<lambda>f. F f q)) \<Longrightarrow> mono_option (\<lambda>f. ParseTypeNameInTemplateBrackets (F f) s)"
  unfolding ParseTypeNameInTemplateBrackets_def by (intro partial_function_mono)

lemma ParseExpressionMixin_mono [partial_function_mono]:
  "(\<And>q. mono_option (\<lambda>f. F f q)) \<Longrightarrow> mono_option (\<lambda>f. ParseExpressionMixin (F f) s)"
  unfolding ParseExpressionMixin_def by (intro partial_function_mono)

lemma TryParseNonSyncTag_mono [partial_function_mono]:
  "(\<And>q. mono_option (\<lambda>f. F f q)) \<Longrightarrow> mono_option (\<lambda>f. TryParseNonSyncTag K (F f) s)"
  unfolding TryParseNonSyncTag_def by (intro partial_function_mono)

lemma ParseTemplateArgs_mono [partial_function_mono]:
  "(\<And>q. mono_option (\<lambda>f. F f q)) \<Longrightarrow> mono_option (\<lambda>f. ParseTemplateArgs (F f) s)"
  unfolding ParseTemplateArgs_def by (intro partial_function_mono)

lemma try_parse_template_args_mono [partial_function_mono]:
  "(\<And>q. mono_option (\<lambda>f. F f q)) \<Longrightarrow> mono_option (\<lambda>f. try_parse_template_args (F f) base s)"
  unfolding try_parse_template_args_def by (intro partial_function_mono)

lemma ParseComplexNameTail_mono [partial_function_mono]:
  "(\<And>q. mono_option (\<lambda>f. F f q)) \<Longrightarrow> mono_option (\<lambda>f. ParseComplexNameTail (F f) base s)"
  unfolding ParseComplexNameTail_def by (intro partial_function_mono)

lemma TryParseComplexNameTailWithTemplateArgs_mono [partial_function_mono]:
  "(\<And>q. mono_option (\<lambda>f. F f q)) \<Longrightarrow> mono_option (\<lambda>f. TryParseComplexNameTailWithTemplateArgs (F f) base s)"
  unfolding TryParseComplexNameTailWithTemplateArgs_def by (intro partial_function_mono)

lemma ParseComplexName_mono [partial_function_mono]:
  "(\<And>q. mono_option (\<lambda>f. F f q)) \<Longrightarrow> mono_option (\<lambda>f. ParseComplexName K (F f) s)"
  unfolding ParseComplexName_def by (intro partial_function_mono)

lemma ParseCall_mono [partial_function_mono]:
  "(\<And>q. mono_option (\<lambda>f. F f q)) \<Longrightarrow> mono_option (\<lambda>f. ParseCall (F f) s)"
  unfolding ParseCall_def by (intro partial_function_mono)

lemma ParseVariableInitializer_mono [partial_function_mono]:
  "(\<And>q. mono_option (\<lambda>f. F f q)) \<Longrightarrow> mono_option (\<lambda>f. ParseVariableInitializer K (F f) s)"
  unfolding ParseVariableInitializer_def by (intro partial_function_mono)

lemma ParseSequenceInitializer_mono [partial_function_mono]:
  "(\<And>q. mono_option (\<lambda>f. F f q)) \<Longrightarrow> mono_option (\<lambda>f. ParseSequenceInitializer (F f) s)"
  unfolding ParseSequenceInitializer_def by (intro partial_function_mono)

lemma parse_member_initializer_mono [partial_function_mono]:
  "(\<And>q. mono_option (\<lambda>f. F f q)) \<Longrightarrow> mono_option (\<lambda>f. parse_member_initializer K (F f) s)"
  unfolding parse_member_initializer_def by (intro partial_function_mono)

lemma ParseStructNamedInitializer_mono [partial_function_mono]:
  "(\<And>q. mono_option (\<lambda>f. F f q)) \<Longrightarrow> mono_option (\<lambda>f. ParseStructNamedInitializer K (F f) s)"
  unfolding ParseStructNamedInitializer_def by (intro partial_function_mono)

lemma ParseConstructorInitializer_mono [partial_function_mono]:
  "(\<And>q. mono_option (\<lambda>f. F f q)) \<Longrightarrow> mono_option (\<lambda>f. ParseConstructorInitializer (F f) s)"
  unfolding ParseConstructorInitializer_def by (intro partial_function_mono)

lemma ParseFunctionParam_mono [partial_function_mono]:
  "(\<And>q. mono_option (\<lambda>f. F f q)) \<Longrightarrow> mono_option (\<lambda>f. ParseFunctionParam K (F f) s)"
  unfolding ParseFunctionParam_def by (intro partial_function_mono)

lemma parse_function_params_mono [partial_function_mono]:
  "(\<And>q. mono_option (\<lambda>f. F f q)) \<Longrightarrow> mono_option (\<lambda>f. parse_function_params K (F f) params s)"
  unfolding parse_function_params_def by (intro partial_function_mono)

lemma parse_at_expression_mono [partial_function_mono]:
  "(\<And>q. mono_option (\<lambda>f. F f q)) \<Longrightarrow> mono_option (\<lambda>f. parse_at_expression (F f) s)"
  unfolding parse_at_expression_def by (intro partial_function_mono)

lemma parse_calling_convention_mono [partial_function_mono]:
  "(\<And>q. mono_option (\<lambda>f. F f q)) \<Longrightarrow> mono_option (\<lambda>f. parse_calling_convention K (F f) s)"
  unfolding parse_calling_convention_def by (intro partial_function_mono)

lemma ParseFunctionTypeEnding_mono [partial_function_mono]:
  "(\<And>q. mono_option (\<lambda>f. F f q)) \<Longrightarrow> mono_option (\<lambda>f. ParseFunctionTypeEnding K (F f) l params s)"
  unfolding ParseFunctionTypeEnding_def by (intro partial_function_mono)

lemma ParseFunctionType_mono [partial_function_mono]:
  "(\<And>q. mono_option (\<lambda>f. F f q)) \<Longrightarrow> mono_option (\<lambda>f. ParseFunctionType K (F f) s)"
  unfolding ParseFunctionType_def by (intro partial_function_mono)

lemma parse_capture_expression_mono [partial_function_mono]:
  "(\<And>q. mono_option (\<lambda>f. F f q)) \<Longrightarrow> mono_option (\<lambda>f. parse_capture_expression (F f) s)"
  unfolding parse_capture_expression_def by (intro partial_function_mono)

lemma parse_capture_list_mono [partial_function_mono]:
  "(\<And>q. mono_option (\<lambda>f. F f q)) \<Longrightarrow> mono_option (\<lambda>f. parse_capture_list (F f) s)"
  unfolding parse_capture_list_def by (intro partial_function_mono)

lemma parse_lambda_capture_mono [partial_function_mono]:
  "(\<And>q. mono_option (\<lambda>f. F f q)) \<Longrightarrow> mono_option (\<lambda>f. parse_lambda_capture (F f) s)"
  unfolding parse_lambda_capture_def by (intro partial_function_mono)

lemma ParseLambda_mono [partial_function_mono]:
  "(\<And>q. mono_option (\<lambda>f. F f q)) \<Longrightarrow> mono_option (\<lambda>f. ParseLambda K (F f) s)"
  unfolding ParseLambda_def by (intro partial_function_mono)

lemma parse_tuple_elements_mono [partial_function_mono]:
  "(\<And>q. mono_option (\<lambda>f. F f q)) \<Longrightarrow> mono_option (\<lambda>f. parse_tuple_elements (F f) s)"
  unfolding parse_tuple_elements_def by (intro partial_function_mono)

lemma parse_coroutine_type_mono [partial_function_mono]:
  "(\<And>q. mono_option (\<lambda>f. F f q)) \<Longrightarrow> mono_option (\<lambda>f. parse_coroutine_type K (F f) s)"
  unfolding parse_coroutine_type_def by (intro partial_function_mono)

lemma ParseTypeName_mono [partial_function_mono]:
  "(\<And>q. mono_option (\<lambda>f. F f q)) \<Longrightarrow> mono_option (\<lambda>f. ParseTypeName K (F f) s)"
  unfolding ParseTypeName_def by (intro partial_function_mono)

lemma unary_operator_mono [partial_function_mono]:
  "(\<And>q. mono_option (\<lambda>f. F f q)) \<Longrightarrow> mono_option (\<lambda>f. unary_operator k (F f) s)"
  unfolding unary_operator_def by (intro partial_function_mono)

lemma unary_in_brackets_mono [partial_function_mono]:
  "(\<And>q. mono_option (\<lambda>f. F f q)) \<Longrightarrow> mono_option (\<lambda>f. unary_in_brackets k (F f) s)"
  unfolding unary_in_brackets_def by (intro partial_function_mono)

lemma cast_expression_mono [partial_function_mono]:
  "(\<And>q. mono_option (\<lambda>f. F f q)) \<Longrightarrow> mono_option (\<lambda>f. cast_expression k (F f) s)"
  unfolding cast_expression_def by (intro partial_function_mono)

lemma parse_brackets_mono [partial_function_mono]:
  "(\<And>q. mono_option (\<lambda>f. F f q)) \<Longrightarrow> mono_option (\<lambda>f. parse_brackets (F f) s)"
  unfolding parse_brackets_def by (intro partial_function_mono)

lemma parse_embed_type_mono [partial_function_mono]:
  "(\<And>q. mono_option (\<lambda>f. F f q)) \<Longrightarrow> mono_option (\<lambda>f. parse_embed_type K (F f) s)"
  unfolding parse_embed_type_def by (intro partial_function_mono)

lemma parse_embed_mono [partial_function_mono]:
  "(\<And>q. mono_option (\<lambda>f. F f q)) \<Longrightarrow> mono_option (\<lambda>f. parse_embed K (F f) s)"
  unfolding parse_embed_def by (intro partial_function_mono)

lemma external_access_mono [partial_function_mono]:
  "(\<And>q. mono_option (\<lambda>f. F f q)) \<Longrightarrow> mono_option (\<lambda>f. external_access k l (F f) s)"
  unfolding external_access_def by (intro partial_function_mono)

lemma type_query_mono [partial_function_mono]:
  "(\<And>q. mono_option (\<lambda>f. F f q)) \<Longrightarrow> mono_option (\<lambda>f. type_query k (F f) s)"
  unfolding type_query_def by (intro partial_function_mono)

lemma parse_same_type_mono [partial_function_mono]:
  "(\<And>q. mono_option (\<lambda>f. F f q)) \<Longrightarrow> mono_option (\<lambda>f. parse_same_type (F f) s)"
  unfolding parse_same_type_def by (intro partial_function_mono)

lemma parse_name_expression_mono [partial_function_mono]:
  "(\<And>q. mono_option (\<lambda>f. F f q)) \<Longrightarrow> mono_option (\<lambda>f. parse_name_expression K (F f) s)"
  unfolding parse_name_expression_def by (intro partial_function_mono)

lemma parse_type_expression_mono [partial_function_mono]:
  "(\<And>q. mono_option (\<lambda>f. F f q)) \<Longrightarrow> mono_option (\<lambda>f. parse_type_expression K (F f) s)"
  unfolding parse_type_expression_def by (intro partial_function_mono)

lemma parse_identifier_rest_mono [partial_function_mono]:
  "(\<And>q. mono_option (\<lambda>f. F f q)) \<Longrightarrow> mono_option (\<lambda>f. parse_identifier_rest K (F f) s)"
  unfolding parse_identifier_rest_def by (intro partial_function_mono)

lemma parse_identifier_mono [partial_function_mono]:
  "(\<And>q. mono_option (\<lambda>f. F f q)) \<Longrightarrow> mono_option (\<lambda>f. parse_identifier K (F f) s)"
  unfolding parse_identifier_def by (intro partial_function_mono)

lemma ParseBinaryOperatorComponentCore_mono [partial_function_mono]:
  "(\<And>q. mono_option (\<lambda>f. F f q)) \<Longrightarrow> mono_option (\<lambda>f. ParseBinaryOperatorComponentCore K (F f) s)"
  unfolding ParseBinaryOperatorComponentCore_def by (intro partial_function_mono)

lemma parse_member_access_mono [partial_function_mono]:
  "(\<And>q. mono_option (\<lambda>f. F f q)) \<Longrightarrow> mono_option (\<lambda>f. parse_member_access K (F f) e s)"
  unfolding parse_member_access_def by (intro partial_function_mono)

lemma TryParseBinaryOperatorComponentPostfixOperator_mono [partial_function_mono]:
  "(\<And>q. mono_option (\<lambda>f. F f q)) \<Longrightarrow> mono_option (\<lambda>f. TryParseBinaryOperatorComponentPostfixOperator K (F f) e s)"
  unfolding TryParseBinaryOperatorComponentPostfixOperator_def by (intro partial_function_mono)

lemma ParseBinaryOperatorComponent_mono [partial_function_mono]:
  "(\<And>q. mono_option (\<lambda>f. F f q)) \<Longrightarrow> mono_option (\<lambda>f. ParseBinaryOperatorComponent K (F f) s)"
  unfolding ParseBinaryOperatorComponent_def by (intro partial_function_mono)

section \<open>Progress\<close>

lemma ParseIntegerNumericConstant_at:
  "at b s0 s \<Longrightarrow>
    gets t (\<lambda>_. at (b \<or> NotEndOfFile s0 \<or> \<not> at_lexem EndOfFile s) s0) (ParseIntegerNumericConstant  s)"
  unfolding ParseIntegerNumericConstant_def by (assumption | rule parse_rules | (auto; fail))+

lemma ParseFloatingPointNumericConstant_at:
  "at b s0 s \<Longrightarrow>
    gets t (\<lambda>_. at (b \<or> NotEndOfFile s0 \<or> \<not> at_lexem EndOfFile s) s0) (ParseFloatingPointNumericConstant  s)"
  unfolding ParseFloatingPointNumericConstant_def by (assumption | rule parse_rules | (auto; fail))+

lemma parse_string_literal_at:
  "at b s0 s \<Longrightarrow>
    gets t (\<lambda>_. at (b \<or> NotEndOfFile s0 \<or> \<not> at_lexem EndOfFile s) s0) (parse_string_literal  s)"
  unfolding parse_string_literal_def by (assumption | rule parse_rules | (auto; fail))+

lemma parse_char_literal_at:
  "at b s0 s \<Longrightarrow>
    gets t (\<lambda>_. at (b \<or> NotEndOfFile s0 \<or> \<not> at_lexem EndOfFile s) s0) (parse_char_literal  s)"
  unfolding parse_char_literal_def by (assumption | rule parse_rules | (auto; fail))+

lemma parse_move_at:
  "at b s0 s \<Longrightarrow>
    gets t (\<lambda>_. at (b \<or> NotEndOfFile s0 \<or> \<not> at_lexem EndOfFile s) s0) (parse_move  s)"
  unfolding parse_move_def by (assumption | rule parse_rules | (auto; fail))+

lemma ParseExpressionInBrackets_at:
  "at b s0 s \<Longrightarrow> rec_ok t rec r s0 \<Longrightarrow> r \<or> b \<or> \<not> at_lexem EndOfFile s \<Longrightarrow>
    gets t (\<lambda>_. at (b \<or> NotEndOfFile s0 \<or> \<not> at_lexem EndOfFile s) s0) (ParseExpressionInBrackets rec s)"
  unfolding ParseExpressionInBrackets_def by (assumption | rule parse_rules | (auto; fail))+

lemma ParseTypeNameInTemplateBrackets_at:
  "at b s0 s \<Longrightarrow> rec_ok t rec r s0 \<Longrightarrow> r \<or> b \<or> \<not> at_lexem EndOfFile s \<Longrightarrow>
    gets t (\<lambda>_. at (b \<or> NotEndOfFile s0 \<or> \<not> at_lexem EndOfFile s) s0) (ParseTypeNameInTemplateBrackets rec s)"
  unfolding ParseTypeNameInTemplateBrackets_def by (assumption | rule parse_rules | (auto; fail))+

lemma ParseExpressionMixin_at:
  "at b s0 s \<Longrightarrow> rec_ok t rec r s0 \<Longrightarrow> r \<or> b \<or> \<not> at_lexem EndOfFile s \<Longrightarrow>
    gets t (\<lambda>_. at (b \<or> NotEndOfFile s0 \<or> \<not> at_lexem EndOfFile s) s0) (ParseExpressionMixin rec s)"
  unfolding ParseExpressionMixin_def by (assumption | rule ParseExpressionInBrackets_at parse_rules | (auto; fail))+

lemma TryParseNonSyncTag_at:
  "at b s0 s \<Longrightarrow> rec_ok t rec r s0 \<Longrightarrow>
    gets t (\<lambda>_. at b s0) (TryParseNonSyncTag K rec s)"
  unfolding TryParseNonSyncTag_def by (assumption | rule ParseExpressionInBrackets_at parse_rules | (auto; fail))+

lemma ParseTemplateArgs_at:
  "at b s0 s \<Longrightarrow> rec_ok t rec r s0 \<Longrightarrow> r \<or> b \<or> \<not> at_lexem EndOfFile s \<Longrightarrow>
    gets t (\<lambda>_. at (b \<or> NotEndOfFile s0 \<or> \<not> at_lexem EndOfFile s) s0) (ParseTemplateArgs rec s)"
  unfolding ParseTemplateArgs_def by (assumption | rule parse_rules gets_loop_rec [THEN gets_weaken] | (auto; fail))+

lemma try_parse_template_args_at:
  "at b s0 s \<Longrightarrow> rec_ok t rec r s0 \<Longrightarrow>
    gets t (\<lambda>_. at b s0) (try_parse_template_args rec base s)"
  unfolding try_parse_template_args_def by (assumption | rule ParseTemplateArgs_at parse_rules | (auto; fail))+

lemma ParseComplexNameTail_at:
  "at b s0 s \<Longrightarrow> rec_ok t rec r s0 \<Longrightarrow>
    gets t (\<lambda>_. at b s0) (ParseComplexNameTail rec base s)"
  unfolding ParseComplexNameTail_def by (assumption | rule try_parse_template_args_at parse_rules | (auto; fail))+

lemma TryParseComplexNameTailWithTemplateArgs_at:
  "at b s0 s \<Longrightarrow> rec_ok t rec r s0 \<Longrightarrow>
    gets t (\<lambda>_. at b s0) (TryParseComplexNameTailWithTemplateArgs rec base s)"
  unfolding TryParseComplexNameTailWithTemplateArgs_def by (assumption | rule try_parse_template_args_at ParseComplexNameTail_at
    parse_rules | (auto; fail))+

lemma ParseComplexName_at:
  "at b s0 s \<Longrightarrow> rec_ok t rec r s0 \<Longrightarrow>
    gets t (\<lambda>_. at (b \<or> NotEndOfFile s0 \<or> \<not> at_lexem EndOfFile s) s0) (ParseComplexName K rec s)"
  unfolding ParseComplexName_def by (assumption | rule ParseExpressionInBrackets_at ParseComplexNameTail_at
    TryParseComplexNameTailWithTemplateArgs_at parse_rules ParseComplexNameTail_at [THEN gets_weaken]
    TryParseComplexNameTailWithTemplateArgs_at [THEN gets_weaken] | (auto; fail))+

lemma ParseCall_at:
  "at b s0 s \<Longrightarrow> rec_ok t rec r s0 \<Longrightarrow> r \<or> b \<or> \<not> at_lexem EndOfFile s \<Longrightarrow>
    gets t (\<lambda>_. at (b \<or> NotEndOfFile s0 \<or> \<not> at_lexem EndOfFile s) s0) (ParseCall rec s)"
  unfolding ParseCall_def by (assumption | rule parse_rules | (auto; fail))+

lemma ParseVariableInitializer_at:
  "at b s0 s \<Longrightarrow> rec_ok t rec r s0 \<Longrightarrow> r \<or> b \<Longrightarrow>
    gets t (\<lambda>_. at b s0) (ParseVariableInitializer K rec s)"
  unfolding ParseVariableInitializer_def by (assumption | rule parse_rules rec_at [THEN gets_weaken] | (auto; fail))+

lemma ParseSequenceInitializer_at:
  "at b s0 s \<Longrightarrow> rec_ok t rec r s0 \<Longrightarrow> r \<or> b \<or> \<not> at_lexem EndOfFile s \<Longrightarrow>
    gets t (\<lambda>_. at (b \<or> NotEndOfFile s0 \<or> \<not> at_lexem EndOfFile s) s0) (ParseSequenceInitializer rec s)"
  unfolding ParseSequenceInitializer_def by (assumption | rule parse_rules | (auto; fail))+

lemma parse_member_initializer_at:
  "at b s0 s \<Longrightarrow> rec_ok t rec r s0 \<Longrightarrow> r \<or> b \<Longrightarrow>
    gets t (\<lambda>_. at (b \<or> NotEndOfFile s0 \<or> \<not> at_lexem EndOfFile s) s0) (parse_member_initializer K rec s)"
  unfolding parse_member_initializer_def by (assumption | rule ParseVariableInitializer_at parse_rules | (auto; fail))+

lemma ParseStructNamedInitializer_at:
  "at b s0 s \<Longrightarrow> rec_ok t rec r s0 \<Longrightarrow> r \<or> b \<or> \<not> at_lexem EndOfFile s \<Longrightarrow>
    gets t (\<lambda>_. at (b \<or> NotEndOfFile s0 \<or> \<not> at_lexem EndOfFile s) s0) (ParseStructNamedInitializer K rec s)"
  unfolding ParseStructNamedInitializer_def by (assumption | rule parse_member_initializer_at parse_rules | (auto; fail))+

lemma ParseConstructorInitializer_at:
  "at b s0 s \<Longrightarrow> rec_ok t rec r s0 \<Longrightarrow> r \<or> b \<or> \<not> at_lexem EndOfFile s \<Longrightarrow>
    gets t (\<lambda>_. at (b \<or> NotEndOfFile s0 \<or> \<not> at_lexem EndOfFile s) s0) (ParseConstructorInitializer rec s)"
  unfolding ParseConstructorInitializer_def by (assumption | rule ParseCall_at parse_rules | (auto; fail))+

lemma ParseFunctionParam_at:
  "at b s0 s \<Longrightarrow> rec_ok t rec r s0 \<Longrightarrow> r \<or> b \<Longrightarrow>
    gets t (\<lambda>_. at (b \<or> NotEndOfFile s0 \<or> \<not> at_lexem EndOfFile s) s0) (ParseFunctionParam K rec s)"
  unfolding ParseFunctionParam_def by (assumption | rule parse_rules | (auto; fail))+

lemma parse_function_params_at:
  "at b s0 s \<Longrightarrow> rec_ok t rec r s0 \<Longrightarrow> r \<or> b \<Longrightarrow>
    gets t (\<lambda>_. at b s0) (parse_function_params K rec params s)"
  unfolding parse_function_params_def by (assumption | rule ParseFunctionParam_at parse_rules | (auto; fail))+

lemma parse_at_expression_at:
  "at b s0 s \<Longrightarrow> rec_ok t rec r s0 \<Longrightarrow>
    gets t (\<lambda>_. at b s0) (parse_at_expression rec s)"
  unfolding parse_at_expression_def by (assumption | rule ParseExpressionInBrackets_at parse_rules | (auto; fail))+

lemma parse_calling_convention_at:
  "at b s0 s \<Longrightarrow> rec_ok t rec r s0 \<Longrightarrow>
    gets t (\<lambda>_. at b s0) (parse_calling_convention K rec s)"
  unfolding parse_calling_convention_def by (assumption | rule ParseExpressionInBrackets_at parse_rules | (auto; fail))+

lemma ParseFunctionTypeEnding_at:
  "at b s0 s \<Longrightarrow> rec_ok t rec r s0 \<Longrightarrow>
    gets t (\<lambda>_. at b s0) (ParseFunctionTypeEnding K rec l params s)"
  unfolding ParseFunctionTypeEnding_def by (assumption | rule parse_at_expression_at parse_calling_convention_at parse_rules |
    (auto; fail))+

lemma ParseFunctionType_at:
  "at b s0 s \<Longrightarrow> rec_ok t rec r s0 \<Longrightarrow> r \<or> b \<or> \<not> at_lexem EndOfFile s \<Longrightarrow>
    gets t (\<lambda>_. at (b \<or> NotEndOfFile s0 \<or> \<not> at_lexem EndOfFile s) s0) (ParseFunctionType K rec s)"
  unfolding ParseFunctionType_def by (assumption | rule parse_function_params_at ParseFunctionTypeEnding_at parse_rules
    ParseFunctionTypeEnding_at [THEN gets_weaken] | (auto; fail))+

lemma parse_capture_expression_at:
  "at b s0 s \<Longrightarrow> rec_ok t rec r s0 \<Longrightarrow>
    gets t (\<lambda>_. at b s0) (parse_capture_expression rec s)"
  unfolding parse_capture_expression_def by (assumption | rule parse_rules | (auto; fail))+

lemma parse_capture_list_at:
  "at b s0 s \<Longrightarrow> rec_ok t rec r s0 \<Longrightarrow>
    gets t (\<lambda>_. at b s0) (parse_capture_list rec s)"
  unfolding parse_capture_list_def by (assumption | rule parse_capture_expression_at parse_rules | (auto; fail))+

lemma parse_lambda_capture_at:
  "at b s0 s \<Longrightarrow> rec_ok t rec r s0 \<Longrightarrow>
    gets t (\<lambda>_. at b s0) (parse_lambda_capture rec s)"
  unfolding parse_lambda_capture_def by (assumption | rule parse_capture_list_at parse_rules | (auto; fail))+

lemma ParseLambda_at:
  "at b s0 s \<Longrightarrow> rec_ok t rec r s0 \<Longrightarrow> r \<or> b \<or> \<not> at_lexem EndOfFile s \<Longrightarrow>
    gets t (\<lambda>_. at (b \<or> NotEndOfFile s0 \<or> \<not> at_lexem EndOfFile s) s0) (ParseLambda K rec s)"
  unfolding ParseLambda_def by (assumption | rule parse_lambda_capture_at parse_function_params_at ParseFunctionTypeEnding_at
    ParseBlock_at parse_rules | (auto; fail))+

lemma parse_tuple_elements_at:
  "at b s0 s \<Longrightarrow> rec_ok t rec r s0 \<Longrightarrow> r \<or> b \<Longrightarrow>
    gets t (\<lambda>_. at b s0) (parse_tuple_elements rec s)"
  unfolding parse_tuple_elements_def by (assumption | rule parse_rules | (auto; fail))+

lemma parse_coroutine_inner_references_at:
  "at b s0 s \<Longrightarrow>
    gets t (\<lambda>_. at b s0) (parse_coroutine_inner_references K s)"
  unfolding parse_coroutine_inner_references_def by (assumption | rule parse_rules | (auto; fail))+

lemma parse_coroutine_reference_brackets_at:
  "at b s0 s \<Longrightarrow>
    gets t (\<lambda>_. at b s0) (parse_coroutine_reference_brackets K s)"
  unfolding parse_coroutine_reference_brackets_def by (assumption | rule parse_coroutine_inner_references_at parse_rules | (auto;
    fail))+

lemma parse_coroutine_type_at:
  "at b s0 s \<Longrightarrow> rec_ok t rec r s0 \<Longrightarrow> r \<or> b \<or> \<not> at_lexem EndOfFile s \<Longrightarrow>
    gets t (\<lambda>_. at (b \<or> NotEndOfFile s0 \<or> \<not> at_lexem EndOfFile s) s0) (parse_coroutine_type K rec s)"
  unfolding parse_coroutine_type_def by (assumption | rule parse_coroutine_reference_brackets_at TryParseNonSyncTag_at
    parse_at_expression_at parse_rules | (auto; fail))+

lemma ParseTypeName_at:
  "at b s0 s \<Longrightarrow> rec_ok t rec r s0 \<Longrightarrow>
    gets t (\<lambda>_. at (b \<or> NotEndOfFile s0 \<or> \<not> at_lexem EndOfFile s) s0) (ParseTypeName K rec s)"
  unfolding ParseTypeName_def by (assumption | rule parse_tuple_elements_at parse_coroutine_type_at ParseFunctionType_at
    ParseExpressionMixin_at ParseComplexName_at parse_rules | (auto; fail))+

lemma unary_operator_at:
  "at b s0 s \<Longrightarrow> rec_ok t rec r s0 \<Longrightarrow> r \<or> b \<or> \<not> at_lexem EndOfFile s \<Longrightarrow>
    gets t (\<lambda>_. at (b \<or> NotEndOfFile s0 \<or> \<not> at_lexem EndOfFile s) s0) (unary_operator k rec s)"
  unfolding unary_operator_def by (assumption | rule parse_rules | (auto; fail))+

lemma unary_in_brackets_at:
  "at b s0 s \<Longrightarrow> rec_ok t rec r s0 \<Longrightarrow> r \<or> b \<or> \<not> at_lexem EndOfFile s \<Longrightarrow>
    gets t (\<lambda>_. at (b \<or> NotEndOfFile s0 \<or> \<not> at_lexem EndOfFile s) s0) (unary_in_brackets k rec s)"
  unfolding unary_in_brackets_def by (assumption | rule ParseExpressionInBrackets_at parse_rules | (auto; fail))+

lemma cast_expression_at:
  "at b s0 s \<Longrightarrow> rec_ok t rec r s0 \<Longrightarrow> r \<or> b \<or> \<not> at_lexem EndOfFile s \<Longrightarrow>
    gets t (\<lambda>_. at (b \<or> NotEndOfFile s0 \<or> \<not> at_lexem EndOfFile s) s0) (cast_expression k rec s)"
  unfolding cast_expression_def by (assumption | rule ParseTypeNameInTemplateBrackets_at ParseExpressionInBrackets_at parse_rules |
    (auto; fail))+

lemma parse_brackets_at:
  "at b s0 s \<Longrightarrow> rec_ok t rec r s0 \<Longrightarrow> r \<or> b \<or> \<not> at_lexem EndOfFile s \<Longrightarrow>
    gets t (\<lambda>_. at (b \<or> NotEndOfFile s0 \<or> \<not> at_lexem EndOfFile s) s0) (parse_brackets rec s)"
  unfolding parse_brackets_def by (assumption | rule parse_rules | (auto; fail))+

lemma parse_embed_type_at:
  "at b s0 s \<Longrightarrow> rec_ok t rec r s0 \<Longrightarrow>
    gets t (\<lambda>_. at b s0) (parse_embed_type K rec s)"
  unfolding parse_embed_type_def by (assumption | rule ParseComplexName_at parse_rules | (auto; fail))+

lemma parse_embed_at:
  "at b s0 s \<Longrightarrow> rec_ok t rec r s0 \<Longrightarrow> r \<or> b \<or> \<not> at_lexem EndOfFile s \<Longrightarrow>
    gets t (\<lambda>_. at (b \<or> NotEndOfFile s0 \<or> \<not> at_lexem EndOfFile s) s0) (parse_embed K rec s)"
  unfolding parse_embed_def by (assumption | rule parse_embed_type_at ParseExpressionInBrackets_at parse_rules | (auto; fail))+

lemma external_access_at:
  "at b s0 s \<Longrightarrow> rec_ok t rec r s0 \<Longrightarrow> r \<or> b \<or> \<not> at_lexem EndOfFile s \<Longrightarrow>
    gets t (\<lambda>_. at (b \<or> NotEndOfFile s0 \<or> \<not> at_lexem EndOfFile s) s0) (external_access k l rec s)"
  unfolding external_access_def by (assumption | rule ParseTypeNameInTemplateBrackets_at parse_rules | (auto; fail))+

lemma type_query_at:
  "at b s0 s \<Longrightarrow> rec_ok t rec r s0 \<Longrightarrow> r \<or> b \<or> \<not> at_lexem EndOfFile s \<Longrightarrow>
    gets t (\<lambda>_. at (b \<or> NotEndOfFile s0 \<or> \<not> at_lexem EndOfFile s) s0) (type_query k rec s)"
  unfolding type_query_def by (assumption | rule ParseTypeNameInTemplateBrackets_at parse_rules | (auto; fail))+

lemma parse_same_type_at:
  "at b s0 s \<Longrightarrow> rec_ok t rec r s0 \<Longrightarrow> r \<or> b \<or> \<not> at_lexem EndOfFile s \<Longrightarrow>
    gets t (\<lambda>_. at (b \<or> NotEndOfFile s0 \<or> \<not> at_lexem EndOfFile s) s0) (parse_same_type rec s)"
  unfolding parse_same_type_def by (assumption | rule parse_rules | (auto; fail))+

lemma parse_name_expression_at:
  "at b s0 s \<Longrightarrow> rec_ok t rec r s0 \<Longrightarrow>
    gets t (\<lambda>_. at (b \<or> NotEndOfFile s0 \<or> \<not> at_lexem EndOfFile s) s0) (parse_name_expression K rec s)"
  unfolding parse_name_expression_def by (assumption | rule ParseComplexName_at parse_rules | (auto; fail))+

lemma parse_type_expression_at:
  "at b s0 s \<Longrightarrow> rec_ok t rec r s0 \<Longrightarrow>
    gets t (\<lambda>_. at (b \<or> NotEndOfFile s0 \<or> \<not> at_lexem EndOfFile s) s0) (parse_type_expression K rec s)"
  unfolding parse_type_expression_def by (assumption | rule ParseTypeName_at parse_rules | (auto; fail))+

lemma parse_identifier_rest_at:
  "at b s0 s \<Longrightarrow> rec_ok t rec r s0 \<Longrightarrow> r \<or> b \<or> \<not> at_lexem EndOfFile s \<Longrightarrow>
    gets t (\<lambda>_. at (b \<or> NotEndOfFile s0 \<or> \<not> at_lexem EndOfFile s) s0) (parse_identifier_rest K rec s)"
  unfolding parse_identifier_rest_def by (assumption | rule type_query_at parse_same_type_at unary_in_brackets_at
    ParseExpressionMixin_at parse_type_expression_at parse_name_expression_at ExpandMacro_at [OF _ _ _ _ rec_fresh(1)] parse_rules
    | (auto; fail))+

lemma parse_identifier_at:
  "at b s0 s \<Longrightarrow> rec_ok t rec r s0 \<Longrightarrow> r \<or> b \<or> \<not> at_lexem EndOfFile s \<Longrightarrow>
    gets t (\<lambda>_. at (b \<or> NotEndOfFile s0 \<or> \<not> at_lexem EndOfFile s) s0) (parse_identifier K rec s)"
  unfolding parse_identifier_def by (assumption | rule parse_move_at unary_in_brackets_at ParseLambda_at cast_expression_at
    parse_embed_at external_access_at parse_identifier_rest_at parse_rules external_access_at [THEN gets_weaken]
    parse_identifier_rest_at [THEN gets_weaken] | (auto; fail))+

lemma ParseBinaryOperatorComponentCore_at:
  "at b s0 s \<Longrightarrow> rec_ok t rec r s0 \<Longrightarrow>
    gets t (\<lambda>_. at (b \<or> NotEndOfFile s0 \<or> \<not> at_lexem EndOfFile s) s0) (ParseBinaryOperatorComponentCore K rec s)"
  unfolding ParseBinaryOperatorComponentCore_def by (assumption | rule unary_operator_at parse_name_expression_at
    ParseIntegerNumericConstant_at ParseFloatingPointNumericConstant_at parse_string_literal_at parse_char_literal_at
    parse_brackets_at parse_type_expression_at unary_in_brackets_at parse_identifier_at parse_rules | (auto; fail))+

lemma parse_member_access_at:
  "at b s0 s \<Longrightarrow> rec_ok t rec r s0 \<Longrightarrow>
    gets t (\<lambda>_. at (b \<or> NotEndOfFile s0 \<or> \<not> at_lexem EndOfFile s) s0) (parse_member_access K rec e s)"
  unfolding parse_member_access_def by (assumption | rule ParseTemplateArgs_at parse_rules | (auto; fail))+

lemma TryParseBinaryOperatorComponentPostfixOperator_at:
  "at b s0 s \<Longrightarrow> rec_ok t rec r s0 \<Longrightarrow>
    gets t (\<lambda>_. at b s0) (TryParseBinaryOperatorComponentPostfixOperator K rec e s)"
  unfolding TryParseBinaryOperatorComponentPostfixOperator_def by (assumption | rule ParseCall_at parse_member_access_at
    ParseStructNamedInitializer_at parse_rules | (auto; fail))+

lemma ParseBinaryOperatorComponent_at:
  "at b s0 s \<Longrightarrow> rec_ok t rec r s0 \<Longrightarrow>
    gets t (\<lambda>_. at (b \<or> NotEndOfFile s0 \<or> \<not> at_lexem EndOfFile s) s0) (ParseBinaryOperatorComponent K rec s)"
  unfolding ParseBinaryOperatorComponent_def by (assumption | rule ParseBinaryOperatorComponentCore_at
    TryParseBinaryOperatorComponentPostfixOperator_at parse_rules | (auto; fail))+

section \<open>Binary operators\<close>

lemma TryParseBinaryOperatorRightPart_mono [partial_function_mono]:
  "(\<And>s. mono_option (\<lambda>f. operand f s)) \<Longrightarrow> mono_option (\<lambda>f. TryParseBinaryOperatorRightPart ops (operand f) l s)"
  unfolding TryParseBinaryOperatorRightPart_def by (intro partial_function_mono)

lemma TryParseBinaryOperator_mono [partial_function_mono]:
  assumes "\<And>s. mono_option (\<lambda>f. operand f s)"
  shows "mono_option (\<lambda>f. TryParseBinaryOperator levels (operand f) s)"
proof (induction levels arbitrary: s)
  case (Cons ops levels)
  show ?case unfolding TryParseBinaryOperator.simps by (intro partial_function_mono Cons.IH)
qed (simp add: assms)

text \<open>No operator of the table is the end of the file, so each round of a chain of operators consumes a lexem.\<close>

lemma no_operator_at_end: "ops \<in> set g_operators_by_priority_table \<Longrightarrow> map_of ops EndOfFile = None"
  by (auto simp: g_operators_by_priority_table_def)

lemma TryParseBinaryOperatorRightPart_at:
  assumes at: "at b s0 s" and rec: "rec_ok t rec r s0" and ops: "map_of ops EndOfFile = None"
    and operand: "\<And>b r s0 s. at b s0 s \<Longrightarrow> rec_ok t rec r s0 \<Longrightarrow>
      gets t (\<lambda>_. at (b \<or> NotEndOfFile s0 \<or> \<not> at_lexem EndOfFile s) s0) (operand s)"
  shows "gets t (\<lambda>_. at b s0) (TryParseBinaryOperatorRightPart ops operand l s)"
proof -
  have op: "\<not> at_lexem EndOfFile s" if "map_of ops (lexem_type (cur s)) = Some x" for s x
    using that ops by auto
  show ?thesis
    using at rec unfolding TryParseBinaryOperatorRightPart_def
    by - (assumption | rule operand parse_rules | (auto dest: op; fail))+
qed

lemma TryParseBinaryOperator_at:
  assumes "at b s0 s" and "rec_ok t rec r s0" and "\<And>ops. ops \<in> set levels \<Longrightarrow> map_of ops EndOfFile = None"
    and operand: "\<And>b r s0 s. at b s0 s \<Longrightarrow> rec_ok t rec r s0 \<Longrightarrow>
      gets t (\<lambda>_. at (b \<or> NotEndOfFile s0 \<or> \<not> at_lexem EndOfFile s) s0) (operand s)"
  shows "gets t (\<lambda>_. at (b \<or> NotEndOfFile s0 \<or> \<not> at_lexem EndOfFile s) s0) (TryParseBinaryOperator levels operand s)"
  using assms(1-3)
proof (induction levels arbitrary: b s0 r s)
  case (Cons ops levels)
  have IH: "gets t (\<lambda>_. at (b \<or> NotEndOfFile s0 \<or> \<not> at_lexem EndOfFile s) s0) (TryParseBinaryOperator levels operand s)"
    if "at b s0 s" "rec_ok t rec r s0" for b s0 r s
    by (rule Cons.IH [OF that]) (use Cons.prems(3) in simp)
  show ?case
    unfolding TryParseBinaryOperator.simps
    by (rule gets_bind [OF IH [OF Cons.prems(1,2)]], rule TryParseBinaryOperatorRightPart_at [OF _ Cons.prems(2) _ IH])
      (use Cons.prems(3) in auto)
qed (simp add: operand)

lemma ParseExpression_mono [partial_function_mono]:
  "(\<And>q. mono_option (\<lambda>f. F f q)) \<Longrightarrow> mono_option (\<lambda>f. ParseExpression K (F f) s)"
  unfolding ParseExpression_def by (intro partial_function_mono)

lemma ParseExpression_at:
  "at b s0 s \<Longrightarrow> rec_ok t rec r s0 \<Longrightarrow>
    gets t (\<lambda>_. at (b \<or> NotEndOfFile s0 \<or> \<not> at_lexem EndOfFile s) s0) (ParseExpression K rec s)"
  unfolding ParseExpression_def by (rule TryParseBinaryOperator_at [OF _ _ no_operator_at_end ParseBinaryOperatorComponent_at])

lemma ParseInitializer_mono [partial_function_mono]:
  "(\<And>q. mono_option (\<lambda>f. F f q)) \<Longrightarrow> mono_option (\<lambda>f. ParseInitializer K (F f) i s)"
  unfolding ParseInitializer_def by (intro partial_function_mono)

lemma ParseInitializer_at:
  "at b s0 s \<Longrightarrow> rec_ok t rec r s0 \<Longrightarrow>
    gets t (\<lambda>_. at (b \<or> NotEndOfFile s0 \<or> \<not> at_lexem EndOfFile s) s0) (ParseInitializer K rec i s)"
  unfolding ParseInitializer_def by (assumption | rule ParseSequenceInitializer_at ParseConstructorInitializer_at
    ParseStructNamedInitializer_at ParseExpression_at parse_rules | (auto; fail))+

end
