(* ===== verification/Parser_Blocks.thy ===== *)
theory Parser_Blocks
  imports Parser_Expressions_Laws
begin

text \<open>
  The parsers of the elements of blocks, \<^verbatim>\<open>source/compiler0/lex_synt_lib/syntax_analyzer.cpp\<close>: declarations of variables, loops,
  conditions, switches, assertions, enumerations and type aliases. A parser that returns early leaves the rest of the struct with its default
  values. The builders of linked lists are lists.
\<close>

section \<open>Modifiers and labels\<close>

definition ExpectedLexem_word :: "SyntaxKeyword \<Rightarrow> SyntaxKeywords \<Rightarrow> ExpectedLexem" where
  "ExpectedLexem_word K k = \<lparr> el_type = Identifier, el_text = K k \<rparr>"

definition g_block_body_elements_control_lexems :: "SyntaxKeyword \<Rightarrow> ExpectedLexem list" where
  "g_block_body_elements_control_lexems K = map (ExpectedLexem_word K)
    [if_kw, static_if_kw, while_kw, return_kw, break_kw, continue_kw, var_k, auto_k, halt_kw, Common static_assert_kw]"

definition mutability_at :: "SyntaxKeyword \<Rightarrow> SyntaxAnalyzer \<Rightarrow> MutabilityModifier" where
  "mutability_at K s = (if at_keyword K mut_k s then Mutable else if at_keyword K imut_k s then Immutable else NoMutability)"

definition mutability_or_constexpr_at :: "SyntaxKeyword \<Rightarrow> SyntaxAnalyzer \<Rightarrow> MutabilityModifier" where
  "mutability_or_constexpr_at K s =
    (if at_keyword K mut_k s then Mutable else if at_keyword K imut_k s then Immutable
     else if at_keyword K constexpr_kw s then Constexpr else NoMutability)"

definition reference_at :: "SyntaxAnalyzer \<Rightarrow> ReferenceModifier" where
  "reference_at s = (if at_lexem Ampersand s then Reference else NoReference)"

text \<open>The modifiers of a variable that a loop, a \<open>with\<close> or a condition declares.\<close>

definition parse_binding_modifiers :: "SyntaxKeyword \<Rightarrow> SyntaxAnalyzer \<Rightarrow> (ReferenceModifier \<times> MutabilityModifier) parsed" where
  "parse_binding_modifiers K s = do {
    let reference_modifier = reference_at s;
    let s = (if at_lexem Ampersand s then NextLexem s else s);
    let mutability_modifier = mutability_at K s;
    let s = (if mutability_modifier = NoMutability then s else NextLexem s);
    Some ((reference_modifier, mutability_modifier), s) }"

definition TryParseLabel :: "SyntaxKeyword \<Rightarrow> SyntaxAnalyzer \<Rightarrow> Label option parsed" where
  "TryParseLabel K s =
    (if at_keyword K label_kw s then do {
       let src_loc = loc s;
       let s = NextLexem s;
       if \<not> at_lexem Identifier s then let s = PushErrorMessage s in Some (Some (Label src_loc []), s)
       else let name = lexem_text (cur s); s = NextLexem s in Some (Some (Label src_loc name), s) }
     else Some (None, s))"

definition TryParseNoDiscard :: "SyntaxKeyword \<Rightarrow> SyntaxAnalyzer \<Rightarrow> bool parsed" where
  "TryParseNoDiscard K s =
    (if at_keyword K nodiscard_kw s then let s = NextLexem s in Some (True, s) else Some (False, s))"

section \<open>Declarations of variables\<close>

definition nonempty_initializer :: "Initializer \<Rightarrow> Initializer option" where
  "nonempty_initializer i = (case i of EmptyInitializer \<Rightarrow> None | _ \<Rightarrow> Some i)"

text \<open>One variable; the flag says whether the separator is to be parsed, it is false after an error.\<close>

definition parse_variable_entry :: "SyntaxKeyword \<Rightarrow> Rec \<Rightarrow> SyntaxAnalyzer \<Rightarrow> (Initializer VariableEntry \<times> bool) parsed" where
  "parse_variable_entry K rec s = do {
    let reference_modifier = reference_at s;
    let s = (if at_lexem Ampersand s then NextLexem s else s);
    if \<not> at_lexem Identifier s then
      let s = PushErrorMessage s in Some ((VariableEntry SrcLoc_default [] None NoMutability reference_modifier False, False), s)
    else do {
      let mutability_modifier = mutability_or_constexpr_at K s;
      let s = (if mutability_modifier = NoMutability then s else NextLexem s);
      if \<not> at_lexem Identifier s then
        let s = PushErrorMessage s in Some ((VariableEntry SrcLoc_default [] None mutability_modifier reference_modifier False, False), s)
      else do {
        let name = lexem_text (cur s);
        let src_loc = loc s;
        let s = NextLexem s;
        (i, s) \<leftarrow> ParseVariableInitializer K rec s;
        Some ((VariableEntry src_loc name (nonempty_initializer i) mutability_modifier reference_modifier False, True), s) } } }"

text \<open>The separator behind a variable.\<close>

definition parse_variables_separator ::
  "Initializer VariableEntry list \<Rightarrow> SyntaxAnalyzer \<Rightarrow> (Initializer VariableEntry list + Initializer VariableEntry list) parsed" where
  "parse_variables_separator variables s =
    (if at_lexem Comma s then do {
       let s = NextLexem s;
       if NotEndOfFile s then Some (Inl variables, s) else Some (Inr variables, s) }
     else if at_lexem Semicolon s then let s = NextLexem s in Some (Inr variables, s)
     else let s = PushErrorMessage s in Some (Inr variables, s))"

definition ParseVariablesDeclaration :: "SyntaxKeyword \<Rightarrow> Rec \<Rightarrow> SyntaxAnalyzer \<Rightarrow> (TypeName, Initializer) VariablesDeclaration parsed" where
  "ParseVariablesDeclaration K rec s = do {
    let src_loc = loc s;
    let s = NextLexem s;
    (ty, s) \<leftarrow> rec_TypeName rec s;
    (variables, s) \<leftarrow> loop (\<lambda>variables s. do {
      ((entry, ok), s) \<leftarrow> parse_variable_entry K rec s;
      if ok then parse_variables_separator (variables @ [entry]) s
      else Some (Inr (variables @ [entry]), s) }) [] s;
    Some (VariablesDeclaration src_loc ty variables, s) }"

definition ParseThreadLocalVariablesDeclaration ::
  "SyntaxKeyword \<Rightarrow> Rec \<Rightarrow> SyntaxAnalyzer \<Rightarrow> (TypeName, Initializer) VariablesDeclaration parsed" where
  "ParseThreadLocalVariablesDeclaration K rec s = do {
    let src_loc = loc s;
    let s = NextLexem s;
    (ty, s) \<leftarrow> rec_TypeName rec s;
    (variables, s) \<leftarrow> loop (\<lambda>variables s.
      if \<not> at_lexem Identifier s then let s = PushErrorMessage s in Some (Inr variables, s)
      else do {
        let name = lexem_text (cur s);
        let l = loc s;
        let s = NextLexem s;
        (i, s) \<leftarrow> ParseVariableInitializer K rec s;
        parse_variables_separator (variables @ [VariableEntry l name (nonempty_initializer i) Mutable NoReference True]) s }) [] s;
    Some (VariablesDeclaration src_loc ty variables, s) }"

definition ParseAutoVariableDeclaration :: "SyntaxKeyword \<Rightarrow> Rec \<Rightarrow> SyntaxAnalyzer \<Rightarrow> Expression AutoVariableDeclaration parsed" where
  "ParseAutoVariableDeclaration K rec s = do {
    let src_loc = loc s;
    let s = NextLexem s;
    let reference_modifier = reference_at s;
    let s = (if at_lexem Ampersand s then NextLexem s else s);
    if \<not> at_lexem Identifier s then
      let s = PushErrorMessage s in Some (AutoVariableDeclaration src_loc [] EmptyExpression NoMutability reference_modifier, s)
    else do {
      let mutability_modifier = mutability_or_constexpr_at K s;
      let s = (if mutability_modifier = NoMutability then s else NextLexem s);
      if \<not> at_lexem Identifier s then
        let s = PushErrorMessage s in Some (AutoVariableDeclaration src_loc [] EmptyExpression mutability_modifier reference_modifier, s)
      else do {
        let name = lexem_text (cur s);
        let src_loc = loc s;
        let s = NextLexem s;
        let s = ExpectLexem Lexem_Type.Equal s;
        (e, s) \<leftarrow> rec_Expression rec s;
        let s = ExpectLexem Semicolon s;
        Some (AutoVariableDeclaration src_loc name e mutability_modifier reference_modifier, s) } } }"

section \<open>Decompositions\<close>

definition parse_sequence_components :: "Rec \<Rightarrow> SyntaxAnalyzer \<Rightarrow> DecomposeDeclarationComponent list parsed" where
  "parse_sequence_components rec = loop (\<lambda>components s.
    if \<not> NotEndOfFile s then Some (Inr components, s)
    else do {
      (c, s) \<leftarrow> rec_DecomposeComponent rec s;
      if at_lexem Comma s then let s = NextLexem s in Some (Inl (components @ [c]), s)
      else Some (Inr (components @ [c]), s) }) []"

text \<open>The entry for a component; \<open>None\<close> is the end of the loop after an error.\<close>

definition parse_struct_entry ::
  "DecomposeDeclarationComponent \<Rightarrow> SyntaxAnalyzer \<Rightarrow> (SrcLoc \<times> byte list \<times> DecomposeDeclarationComponent \<times> bool) option parsed" where
  "parse_struct_entry component s =
    (if at_lexem Colon s then do {
       let s = NextLexem s;
       if \<not> at_lexem CompletionIdentifier s \<and> \<not> at_lexem Identifier s then let s = PushErrorMessage s in Some (None, s)
       else do {
         let e = (loc s, lexem_text (cur s), component, at_lexem CompletionIdentifier s);
         let s = NextLexem s;
         Some (Some e, s) } }
     else case component of
         DecomposeDeclarationNamedComponent src_loc name mutability \<Rightarrow> Some (Some (src_loc, name, component, False), s)
       | _ \<Rightarrow> let s = PushErrorMessage s in Some (None, s))"

definition parse_struct_components ::
  "Rec \<Rightarrow> SyntaxAnalyzer \<Rightarrow> (SrcLoc \<times> byte list \<times> DecomposeDeclarationComponent \<times> bool) list parsed" where
  "parse_struct_components rec = loop (\<lambda>entries s.
    if \<not> NotEndOfFile s then Some (Inr entries, s)
    else do {
      (c, s) \<leftarrow> rec_DecomposeComponent rec s;
      (e, s) \<leftarrow> parse_struct_entry c s;
      case e of
        None \<Rightarrow> Some (Inr entries, s)
      | Some e \<Rightarrow>
          if at_lexem Comma s then let s = NextLexem s in Some (Inl (entries @ [e]), s)
          else Some (Inr (entries @ [e]), s) }) []"

definition named_component :: "MutabilityModifier \<Rightarrow> SyntaxAnalyzer \<Rightarrow> DecomposeDeclarationComponent parsed" where
  "named_component mutability_modifier s = do {
    let component = DecomposeDeclarationNamedComponent (loc s) (lexem_text (cur s)) mutability_modifier;
    let s = NextLexem s;
    Some (component, s) }"

definition ParseDecomposeDeclarationComponent :: "SyntaxKeyword \<Rightarrow> Rec \<Rightarrow> SyntaxAnalyzer \<Rightarrow> DecomposeDeclarationComponent parsed" where
  "ParseDecomposeDeclarationComponent K rec s =
    (if at_lexem SquareBracketLeft s then do {
       let src_loc = loc s;
       let s = NextLexem s;
       if at_lexem SquareBracketRight s then let s = NextLexem s in Some (DecomposeDeclarationSequenceComponent src_loc [], s)
       else do {
         (components, s) \<leftarrow> parse_sequence_components rec s;
         let s = ExpectLexem SquareBracketRight s;
         Some (DecomposeDeclarationSequenceComponent src_loc components, s) } }
     else if at_lexem BraceLeft s then do {
       let src_loc = loc s;
       let s = NextLexem s;
       if at_lexem BraceRight s then let s = NextLexem s in Some (DecomposeDeclarationStructComponent src_loc [], s)
       else do {
         (entries, s) \<leftarrow> parse_struct_components rec s;
         let s = ExpectLexem BraceRight s;
         Some (DecomposeDeclarationStructComponent src_loc entries, s) } }
     else if at_lexem Identifier s then do {
       let mutability_modifier = mutability_or_constexpr_at K s;
       if mutability_modifier = NoMutability then named_component mutability_modifier s
       else do {
         let s = NextLexem s;
         if at_lexem Identifier s then named_component mutability_modifier s
         else let s = PushErrorMessage s in named_component mutability_modifier s } }
     else let s = PushErrorMessage s in Some (DecomposeDeclarationNamedComponent (loc s) [] NoMutability, s))"

definition ParseDecomposeDeclaration :: "Rec \<Rightarrow> SyntaxAnalyzer \<Rightarrow> Expression DecomposeDeclaration parsed" where
  "ParseDecomposeDeclaration rec s = do {
    let src_loc = loc s;
    let s = NextLexem s;
    (root_component, s) \<leftarrow> rec_DecomposeComponent rec s;
    let s = ExpectLexem Lexem_Type.Equal s;
    (e, s) \<leftarrow> rec_Expression rec s;
    let s = ExpectLexem Semicolon s;
    Some (DecomposeDeclaration src_loc root_component e, s) }"

section \<open>Operators without blocks\<close>

definition ParseAllocaDeclaration :: "Rec \<Rightarrow> SyntaxAnalyzer \<Rightarrow> BlockElement parsed" where
  "ParseAllocaDeclaration rec s = do {
    let src_loc = loc s;
    let s = NextLexem s;
    (ty, s) \<leftarrow> rec_TypeName rec s;
    let named = at_lexem Identifier s;
    let name = (if named then lexem_text (cur s) else []);
    let src_loc = (if named then loc s else src_loc);
    let s = (if named then NextLexem s else PushErrorMessage s);
    let s = ExpectLexem SquareBracketLeft s;
    (size, s) \<leftarrow> rec_Expression rec s;
    let s = ExpectLexem SquareBracketRight s;
    let s = ExpectLexem Semicolon s;
    Some (AllocaDeclaration src_loc ty name size, s) }"

definition ParseReturnOperator :: "Rec \<Rightarrow> SyntaxAnalyzer \<Rightarrow> BlockElement parsed" where
  "ParseReturnOperator rec s = do {
    let src_loc = loc s;
    let s = NextLexem s;
    if at_lexem Semicolon s then let s = NextLexem s in Some (ReturnOperator src_loc EmptyExpression, s)
    else do {
      (e, s) \<leftarrow> rec_Expression rec s;
      let s = ExpectLexem Semicolon s;
      Some (ReturnOperator src_loc e, s) } }"

definition parse_expression_unless :: "bool \<Rightarrow> Rec \<Rightarrow> SyntaxAnalyzer \<Rightarrow> Expression parsed" where
  "parse_expression_unless omitted rec s = (if omitted then Some (EmptyExpression, s) else rec_Expression rec s)"

definition ParseYieldOperator :: "Rec \<Rightarrow> SyntaxAnalyzer \<Rightarrow> BlockElement parsed" where
  "ParseYieldOperator rec s = do {
    let src_loc = loc s;
    let s = NextLexem s;
    (e, s) \<leftarrow> parse_expression_unless (at_lexem Semicolon s) rec s;
    let s = ExpectLexem Semicolon s;
    Some (YieldOperator src_loc e, s) }"

definition parse_jump :: "(SrcLoc \<Rightarrow> Label option \<Rightarrow> BlockElement) \<Rightarrow> SyntaxKeyword \<Rightarrow> SyntaxAnalyzer \<Rightarrow> BlockElement parsed" where
  "parse_jump node K s = do {
    let src_loc = loc s;
    let s = NextLexem s;
    (label, s) \<leftarrow> TryParseLabel K s;
    let s = ExpectLexem Semicolon s;
    Some (node src_loc label, s) }"

definition ParseBreakOperator :: "SyntaxKeyword \<Rightarrow> SyntaxAnalyzer \<Rightarrow> BlockElement parsed" where
  "ParseBreakOperator = parse_jump BreakOperator"

definition ParseContinueOperator :: "SyntaxKeyword \<Rightarrow> SyntaxAnalyzer \<Rightarrow> BlockElement parsed" where
  "ParseContinueOperator = parse_jump ContinueOperator"

definition ParseStaticAssert :: "Rec \<Rightarrow> SyntaxAnalyzer \<Rightarrow> Expression StaticAssert parsed" where
  "ParseStaticAssert rec s = do {
    let src_loc = loc s;
    let s = NextLexem s;
    let s = ExpectLexem BracketLeft s;
    (e, s) \<leftarrow> rec_Expression rec s;
    if at_lexem Comma s then do {
      let s = NextLexem s;
      let s = (if at_lexem String s then s else PushErrorMessage s);
      let message = lexem_text (cur s);
      let s = NextLexem s;
      let s = ExpectLexem BracketRight s;
      let s = (if at_lexem Semicolon s then NextLexem s else PushErrorMessage s);
      Some (StaticAssert src_loc e (Some message), s) }
    else do {
      let s = ExpectLexem BracketRight s;
      let s = (if at_lexem Semicolon s then NextLexem s else PushErrorMessage s);
      Some (StaticAssert src_loc e None, s) } }"

definition ParseTypeAliasBody :: "Rec \<Rightarrow> SyntaxAnalyzer \<Rightarrow> TypeName TypeAlias parsed" where
  "ParseTypeAliasBody rec s = do {
    let src_loc = loc s;
    let s = ExpectLexem Lexem_Type.Equal s;
    (ty, s) \<leftarrow> rec_TypeName rec s;
    let s = ExpectLexem Semicolon s;
    Some (TypeAlias src_loc [] ty, s) }"

definition TypeAlias_rename :: "SrcLoc \<Rightarrow> byte list \<Rightarrow> TypeName TypeAlias \<Rightarrow> TypeName TypeAlias" where
  "TypeAlias_rename src_loc name alias = (case alias of TypeAlias l n v \<Rightarrow> TypeAlias src_loc name v)"

definition ParseTypeAlias :: "Rec \<Rightarrow> SyntaxAnalyzer \<Rightarrow> TypeName TypeAlias parsed" where
  "ParseTypeAlias rec s = do {
    let s = NextLexem s;
    if \<not> at_lexem Identifier s then let s = PushErrorMessage s in Some (TypeAlias (loc s) [] EmptyTypeName, s)
    else do {
      let name = lexem_text (cur s);
      let src_loc = loc s;
      let s = NextLexem s;
      (alias, s) \<leftarrow> ParseTypeAliasBody rec s;
      Some (TypeAlias_rename src_loc name alias, s) } }"

definition ParseMixin :: "Rec \<Rightarrow> SyntaxAnalyzer \<Rightarrow> Expression Mixin parsed" where
  "ParseMixin rec s = do {
    let src_loc = loc s;
    let s = NextLexem s;
    (e, s) \<leftarrow> ParseExpressionInBrackets rec s;
    let s = ExpectLexem Semicolon s;
    Some (Mixin src_loc e, s) }"

definition ParseHalt :: "SyntaxKeyword \<Rightarrow> Rec \<Rightarrow> SyntaxAnalyzer \<Rightarrow> BlockElement parsed" where
  "ParseHalt K rec s = do {
    let src_loc = loc s;
    let s = NextLexem s;
    if at_keyword K if_kw s then do {
      let s = NextLexem s;
      (condition, s) \<leftarrow> ParseExpressionInBrackets rec s;
      let s = ExpectLexem Semicolon s;
      Some (HaltIf src_loc condition, s) }
    else if at_lexem Semicolon s then let s = NextLexem s in Some (Halt src_loc, s)
    else let s = PushErrorMessage s in Some (Halt src_loc, s) }"

section \<open>Enumerations\<close>

definition parse_enum_members :: "SyntaxAnalyzer \<Rightarrow> (SrcLoc \<times> byte list) list parsed" where
  "parse_enum_members = loop (\<lambda>members s.
    if \<not> NotEndOfFile s then Some (Inr members, s)
    else if \<not> at_lexem Identifier s then let s = PushErrorMessage s in Some (Inr members, s)
    else do {
      let members = members @ [(loc s, lexem_text (cur s))];
      let s = NextLexem s;
      if at_lexem Comma s then do {
        let s = NextLexem s;
        if at_lexem BraceRight s then let s = NextLexem s in Some (Inr members, s)
        else Some (Inl members, s) }
      else if at_lexem BraceRight s then let s = NextLexem s in Some (Inr members, s)
      else let s = PushErrorMessage s in Some (Inr members, s) }) []"

definition parse_enum_underlying_type :: "SyntaxKeyword \<Rightarrow> Rec \<Rightarrow> SyntaxAnalyzer \<Rightarrow> ComplexName option parsed" where
  "parse_enum_underlying_type K rec s =
    (if at_lexem Colon s then do {
       let s = NextLexem s;
       (name, s) \<leftarrow> ParseComplexName K rec s;
       Some (Some name, s) }
     else Some (None, s))"

definition ParseEnum :: "SyntaxKeyword \<Rightarrow> Rec \<Rightarrow> SyntaxAnalyzer \<Rightarrow> EnumSyntax parsed" where
  "ParseEnum K rec s = do {
    let src_loc = loc s;
    let s = NextLexem s;
    if \<not> at_lexem Identifier s then let s = PushErrorMessage s in Some (EnumSyntax src_loc [] None [] False, s)
    else do {
      let name = lexem_text (cur s);
      let src_loc = loc s;
      let s = NextLexem s;
      (underlying_type_name, s) \<leftarrow> parse_enum_underlying_type K rec s;
      (no_discard, s) \<leftarrow> TryParseNoDiscard K s;
      let s = ExpectLexem BraceLeft s;
      (members, s) \<leftarrow> parse_enum_members s;
      Some (EnumSyntax src_loc name underlying_type_name members no_discard, s) } }"

section \<open>Loops\<close>

definition ParseWhileOperator :: "SyntaxKeyword \<Rightarrow> Rec \<Rightarrow> SyntaxAnalyzer \<Rightarrow> BlockElement parsed" where
  "ParseWhileOperator K rec s = do {
    let src_loc = loc s;
    let s = NextLexem s;
    (condition, s) \<leftarrow> ParseExpressionInBrackets rec s;
    (label, s) \<leftarrow> TryParseLabel K s;
    (block, s) \<leftarrow> ParseBlock rec s;
    Some (WhileOperator src_loc condition label block, s) }"

definition ParseLoopOperator :: "SyntaxKeyword \<Rightarrow> Rec \<Rightarrow> SyntaxAnalyzer \<Rightarrow> BlockElement parsed" where
  "ParseLoopOperator K rec s = do {
    let src_loc = loc s;
    let s = NextLexem s;
    (label, s) \<leftarrow> TryParseLabel K s;
    (block, s) \<leftarrow> ParseBlock rec s;
    Some (LoopOperator src_loc label block, s) }"

definition default_block :: "SrcLoc \<Rightarrow> BlockElement Block" where
  "default_block src_loc = Block src_loc SrcLoc_default []"

definition ParseRangeForOperator :: "SyntaxKeyword \<Rightarrow> Rec \<Rightarrow> SyntaxAnalyzer \<Rightarrow> BlockElement parsed" where
  "ParseRangeForOperator K rec s = do {
    let src_loc = loc s;
    let s = NextLexem s;
    let s = ExpectLexem BracketLeft s;
    ((reference_modifier, mutability_modifier), s) \<leftarrow> parse_binding_modifiers K s;
    if \<not> at_lexem Identifier s then do {
      let s = PushErrorMessage s;
      Some (RangeForOperator src_loc [] EmptyExpression None (default_block src_loc) reference_modifier mutability_modifier, s) }
    else do {
      let loop_variable_name = lexem_text (cur s);
      let s = NextLexem s;
      let s = ExpectLexem Colon s;
      (sequence, s) \<leftarrow> rec_Expression rec s;
      let s = ExpectLexem BracketRight s;
      (label, s) \<leftarrow> TryParseLabel K s;
      (block, s) \<leftarrow> ParseBlock rec s;
      Some (RangeForOperator src_loc loop_variable_name sequence label block reference_modifier mutability_modifier, s) } }"

definition GetCompoundAssignmentOperator :: "Lexem \<Rightarrow> BinaryOperatorType option" where
  "GetCompoundAssignmentOperator lexem = map_of [
    (PlusEqual, BinaryOperatorType.Add), (MinusEqual, BinaryOperatorType.Sub), (AsteriskEqual, BinaryOperatorType.Mul),
    (SlashEqual, BinaryOperatorType.Div), (AmpersandEqual, BinaryOperatorType.And), (PercentEqual, BinaryOperatorType.Rem),
    (PipeEqual, BinaryOperatorType.Or), (CaretEqual, BinaryOperatorType.Xor), (DoubleLessEqual, BinaryOperatorType.ShiftLeft),
    (DoubleGreaterEqual, BinaryOperatorType.ShiftRight)] (lexem_type lexem)"

text \<open>An increment, a decrement, an assignment or an expression in the iteration part of a loop.\<close>

definition parse_iteration_element :: "Rec \<Rightarrow> SyntaxAnalyzer \<Rightarrow> Expression IterationPartElement parsed" where
  "parse_iteration_element rec s =
    (if at_lexem DoublePlus s then do {
       let src_loc = loc s;
       let s = NextLexem s;
       (e, s) \<leftarrow> rec_Expression rec s;
       Some (IncrementOperator src_loc e, s) }
     else if at_lexem DoubleMinus s then do {
       let src_loc = loc s;
       let s = NextLexem s;
       (e, s) \<leftarrow> rec_Expression rec s;
       Some (DecrementOperator src_loc e, s) }
     else do {
       (expression_l, s) \<leftarrow> rec_Expression rec s;
       if at_lexem Lexem_Type.Equal s then do {
         let src_loc = loc s;
         let s = NextLexem s;
         (e, s) \<leftarrow> rec_Expression rec s;
         Some (AssignmentOperator src_loc expression_l e, s) }
       else case GetCompoundAssignmentOperator (cur s) of
           Some compound_operation \<Rightarrow> do {
             let src_loc = loc s;
             let s = NextLexem s;
             (e, s) \<leftarrow> rec_Expression rec s;
             Some (CompoundAssignmentOperator src_loc compound_operation expression_l e, s) }
         | None \<Rightarrow> Some (SingleExpressionOperator (GetSrcLoc expression_l) expression_l, s) })"

text \<open>\<open>None\<close> is the return from the parser of the loop after an error.\<close>

definition parse_iteration_part :: "Rec \<Rightarrow> SyntaxAnalyzer \<Rightarrow> Expression IterationPartElement list option parsed" where
  "parse_iteration_part rec = loop (\<lambda>elements s.
    if \<not> NotEndOfFile s \<or> at_lexem BracketRight s then Some (Inr (Some elements), s)
    else do {
      (e, s) \<leftarrow> parse_iteration_element rec s;
      if at_lexem Comma s then do {
        let s = NextLexem s;
        if at_lexem BracketRight s then let s = PushErrorMessage s in Some (Inr None, s)
        else Some (Inl (elements @ [e]), s) }
      else Some (Inr (Some (elements @ [e])), s) }) []"

definition parse_for_declaration :: "SyntaxKeyword \<Rightarrow> Rec \<Rightarrow> SyntaxAnalyzer \<Rightarrow>
    (TypeName, Expression, Initializer) VariableDeclarationPart option parsed" where
  "parse_for_declaration K rec s =
    (if at_keyword K var_k s then do {
       (d, s) \<leftarrow> ParseVariablesDeclaration K rec s;
       Some (Some (VariablesPart d), s) }
     else if at_keyword K auto_k s then
       if next_lexem_type s = SquareBracketLeft \<or> next_lexem_type s = BraceLeft then do {
         (d, s) \<leftarrow> ParseDecomposeDeclaration rec s;
         Some (Some (DecomposePart d), s) }
       else do {
         (d, s) \<leftarrow> ParseAutoVariableDeclaration K rec s;
         Some (Some (AutoVariablePart d), s) }
     else if at_lexem Semicolon s then let s = NextLexem s in Some (Some NoVariableDeclarationPart, s)
     else let s = PushErrorMessage s in Some (None, s))"

definition ParseCStyleForOperator :: "SyntaxKeyword \<Rightarrow> Rec \<Rightarrow> SyntaxAnalyzer \<Rightarrow> BlockElement parsed" where
  "ParseCStyleForOperator K rec s = do {
    let src_loc = loc s;
    let s = NextLexem s;
    let s = ExpectLexem BracketLeft s;
    (declaration, s) \<leftarrow> parse_for_declaration K rec s;
    case declaration of
      None \<Rightarrow> Some (CStyleForOperator src_loc NoVariableDeclarationPart EmptyExpression [] None (default_block src_loc), s)
    | Some variable_declaration_part \<Rightarrow> do {
        (loop_condition, s) \<leftarrow> parse_expression_unless (at_lexem Semicolon s) rec s;
        let s = ExpectLexem Semicolon s;
        (iteration_part, s) \<leftarrow> parse_iteration_part rec s;
        case iteration_part of
          None \<Rightarrow> Some (CStyleForOperator src_loc variable_declaration_part loop_condition [] None (default_block src_loc), s)
        | Some iteration_part_elements \<Rightarrow> do {
            let s = ExpectLexem BracketRight s;
            (label, s) \<leftarrow> TryParseLabel K s;
            (block, s) \<leftarrow> ParseBlock rec s;
            Some (CStyleForOperator src_loc variable_declaration_part loop_condition iteration_part_elements label block, s) } } }"

definition ParseForOperator :: "SyntaxKeyword \<Rightarrow> Rec \<Rightarrow> SyntaxAnalyzer \<Rightarrow> BlockElement parsed" where
  "ParseForOperator K rec s =
    (let next_lexem = lexem_at (sa_lexems s) (sa_it s + 2) in
     if length (sa_lexems s) - sa_it s \<ge> 3 \<and>
       (lexem_type next_lexem = Identifier \<and> (lexem_text next_lexem = K var_k \<or> lexem_text next_lexem = K auto_k) \<or>
        lexem_type next_lexem = Semicolon)
     then ParseCStyleForOperator K rec s
     else ParseRangeForOperator K rec s)"

section \<open>With, if, switch\<close>

definition ParseWithOperator :: "SyntaxKeyword \<Rightarrow> Rec \<Rightarrow> SyntaxAnalyzer \<Rightarrow> BlockElement parsed" where
  "ParseWithOperator K rec s = do {
    let src_loc = loc s;
    let s = NextLexem s;
    let s = ExpectLexem BracketLeft s;
    ((reference_modifier, mutability_modifier), s) \<leftarrow> parse_binding_modifiers K s;
    if \<not> at_lexem Identifier s then do {
      let s = PushErrorMessage s;
      Some (WithOperator src_loc [] EmptyExpression (default_block src_loc) reference_modifier mutability_modifier, s) }
    else do {
      let variable_name = lexem_text (cur s);
      let src_loc = loc s;
      let s = NextLexem s;
      let s = ExpectLexem Colon s;
      (e, s) \<leftarrow> rec_Expression rec s;
      let s = ExpectLexem BracketRight s;
      (block, s) \<leftarrow> ParseBlock rec s;
      Some (WithOperator src_loc variable_name e block reference_modifier mutability_modifier, s) } }"

definition TryParseIfAlternative :: "SyntaxKeyword \<Rightarrow> Rec \<Rightarrow> SyntaxAnalyzer \<Rightarrow> (Expression, BlockElement) IfAlternative option parsed" where
  "TryParseIfAlternative K rec s =
    (if at_keyword K else_kw s then do {
       let s = NextLexem s;
       (alternative, s) \<leftarrow> rec_IfAlternative rec s;
       Some (alternative, s) }
     else Some (None, s))"

definition ParseIfOperator :: "SyntaxKeyword \<Rightarrow> Rec \<Rightarrow> SyntaxAnalyzer \<Rightarrow> (Expression, BlockElement) IfOperator parsed" where
  "ParseIfOperator K rec s = do {
    let src_loc = loc s;
    let s = NextLexem s;
    (condition, s) \<leftarrow> ParseExpressionInBrackets rec s;
    (block, s) \<leftarrow> ParseBlock rec s;
    (alternative, s) \<leftarrow> TryParseIfAlternative K rec s;
    Some (IfOperator src_loc (prev_loc s) condition block alternative, s) }"

definition ParseStaticIfOperator :: "SyntaxKeyword \<Rightarrow> Rec \<Rightarrow> SyntaxAnalyzer \<Rightarrow> (Expression, BlockElement) StaticIfOperator parsed" where
  "ParseStaticIfOperator K rec s = do {
    let src_loc = loc s;
    let s = NextLexem s;
    (condition, s) \<leftarrow> ParseExpressionInBrackets rec s;
    (block, s) \<leftarrow> ParseBlock rec s;
    (alternative, s) \<leftarrow> TryParseIfAlternative K rec s;
    Some (StaticIfOperator src_loc condition block alternative, s) }"

definition ParseIfCoroAdvanceOperator ::
  "SyntaxKeyword \<Rightarrow> Rec \<Rightarrow> SyntaxAnalyzer \<Rightarrow> (Expression, BlockElement) IfCoroAdvanceOperator parsed" where
  "ParseIfCoroAdvanceOperator K rec s = do {
    let src_loc = loc s;
    let s = NextLexem s;
    let s = ExpectLexem BracketLeft s;
    ((reference_modifier, mutability_modifier), s) \<leftarrow> parse_binding_modifiers K s;
    if \<not> at_lexem Identifier s then do {
      let s = PushErrorMessage s;
      Some (IfCoroAdvanceOperator src_loc SrcLoc_default [] EmptyExpression (default_block src_loc) None
        reference_modifier mutability_modifier, s) }
    else do {
      let variable_name = lexem_text (cur s);
      let s = NextLexem s;
      let s = ExpectLexem Colon s;
      (e, s) \<leftarrow> rec_Expression rec s;
      let s = ExpectLexem BracketRight s;
      (block, s) \<leftarrow> ParseBlock rec s;
      (alternative, s) \<leftarrow> TryParseIfAlternative K rec s;
      Some (IfCoroAdvanceOperator src_loc (prev_loc s) variable_name e block alternative
        reference_modifier mutability_modifier, s) } }"

text \<open>The element a macro expands to, as an alternative; \<open>Inl\<close> is the text of an error.\<close>

definition macro_if_alternative :: "BlockElement list \<Rightarrow> byte list + (Expression, BlockElement) IfAlternative" where
  "macro_if_alternative elements =
    (if length elements > 1
     then Inl (str ''Syntax error - expected exactly one element in expansion of macro for \"if\" alternative.'')
     else case elements of
       [ScopeBlock src_loc block label safety] \<Rightarrow>
         if safety = NoSafety \<and> label = None then Inr (BlockAlternative block)
         else Inl (str ''Syntax error - expected block without safety modifiers and labels for \"if\" alternative.'')
     | [IfElement if_operator] \<Rightarrow> Inr (IfAlternative if_operator)
     | [StaticIfElement static_if] \<Rightarrow> Inr (StaticIfAlternative static_if)
     | [IfCoroAdvanceElement if_coro_advance_operator] \<Rightarrow> Inr (IfCoroAdvanceAlternative if_coro_advance_operator)
     | _ \<Rightarrow> Inl (str ''Syntax error - unexpected element kind for \"if\" alternative.''))"

definition parse_macro_if_alternative ::
  "Rec \<Rightarrow> Macro \<Rightarrow> SyntaxAnalyzer \<Rightarrow> (Expression, BlockElement) IfAlternative option parsed" where
  "parse_macro_if_alternative rec macro s = do {
    (elements, s) \<leftarrow> ExpandMacro rec macro (rec_BlockElements rec EndOfFile) [] s;
    case macro_if_alternative elements of
      Inl message \<Rightarrow> let s = add_error_message message (loc s) s in Some (None, s)
    | Inr alternative \<Rightarrow> Some (Some alternative, s) }"

definition ParseIfAlternative :: "SyntaxKeyword \<Rightarrow> Rec \<Rightarrow> SyntaxAnalyzer \<Rightarrow> (Expression, BlockElement) IfAlternative option parsed" where
  "ParseIfAlternative K rec s =
    (if at_lexem BraceLeft s then do {
       (block, s) \<leftarrow> ParseBlock rec s;
       Some (Some (BlockAlternative block), s) }
     else if at_keyword K if_kw s then do {
       (e, s) \<leftarrow> ParseIfOperator K rec s;
       Some (Some (IfAlternative e), s) }
     else if at_keyword K static_if_kw s then do {
       (e, s) \<leftarrow> ParseStaticIfOperator K rec s;
       Some (Some (StaticIfAlternative e), s) }
     else if at_keyword K if_coro_advance_kw s then do {
       (e, s) \<leftarrow> ParseIfCoroAdvanceOperator K rec s;
       Some (Some (IfCoroAdvanceAlternative e), s) }
     else if at_lexem Identifier s then
       case FetchMacro (lexem_text (cur s)) BlockContext s of
         Some macro \<Rightarrow> parse_macro_if_alternative rec macro s
       | None \<Rightarrow> let s = PushErrorMessage s in Some (None, s)
     else let s = PushErrorMessage s in Some (None, s))"

definition parse_case_high :: "Rec \<Rightarrow> SyntaxAnalyzer \<Rightarrow> Expression parsed" where
  "parse_case_high rec s = parse_expression_unless (at_lexem Comma s \<or> at_lexem MinusGreater s) rec s"

definition parse_case_value :: "Rec \<Rightarrow> SyntaxAnalyzer \<Rightarrow> Expression CaseValue parsed" where
  "parse_case_value rec s =
    (if at_lexem Ellipsis s then do {
       let s = NextLexem s;
       (high, s) \<leftarrow> parse_case_high rec s;
       Some (CaseRange EmptyExpression high, s) }
     else do {
       (e, s) \<leftarrow> rec_Expression rec s;
       if at_lexem Ellipsis s then do {
         let s = NextLexem s;
         (high, s) \<leftarrow> parse_case_high rec s;
         Some (CaseRange e high, s) }
       else Some (SingleValue e, s) })"

definition parse_case_values :: "SyntaxKeyword \<Rightarrow> Rec \<Rightarrow> SyntaxAnalyzer \<Rightarrow> Expression CaseValues parsed" where
  "parse_case_values K rec s =
    (if at_keyword K default_kw s then let s = NextLexem s in Some (DefaultPlaceholder, s)
     else do {
       (values, s) \<leftarrow> loop (\<lambda>values s.
         if \<not> NotEndOfFile s then Some (Inr values, s)
         else do {
           (v, s) \<leftarrow> parse_case_value rec s;
           if at_lexem Comma s then let s = NextLexem s in Some (Inl (values @ [v]), s)
           else Some (Inr (values @ [v]), s) }) [] s;
       Some (CaseValues values, s) })"

definition ParseSwitchOperator :: "SyntaxKeyword \<Rightarrow> Rec \<Rightarrow> SyntaxAnalyzer \<Rightarrow> BlockElement parsed" where
  "ParseSwitchOperator K rec s = do {
    let src_loc = loc s;
    let s = NextLexem s;
    (v, s) \<leftarrow> ParseExpressionInBrackets rec s;
    let s = ExpectLexem BraceLeft s;
    (cases, s) \<leftarrow> loop (\<lambda>cases s.
      if at_lexem BraceRight s \<or> \<not> NotEndOfFile s then Some (Inr cases, s)
      else do {
        (case_values, s) \<leftarrow> parse_case_values K rec s;
        let s = ExpectLexem MinusGreater s;
        (block, s) \<leftarrow> ParseBlock rec s;
        let cases = cases @ [SwitchCase case_values block];
        if at_lexem Comma s then let s = NextLexem s in Some (Inl cases, s)
        else Some (Inr cases, s) }) [] s;
    let end_src_loc = loc s;
    let s = ExpectLexem BraceRight s;
    Some (SwitchOperator src_loc end_src_loc v cases, s) }"

section \<open>Elements of blocks\<close>

definition parse_scope_block :: "SyntaxKeyword \<Rightarrow> Rec \<Rightarrow> BlockSafety \<Rightarrow> SyntaxAnalyzer \<Rightarrow> BlockElement parsed" where
  "parse_scope_block K rec safety s = do {
    (block, s) \<leftarrow> ParseBlock rec s;
    (label, s) \<leftarrow> TryParseLabel K s;
    Some (ScopeBlock (block_src_loc block) block label safety, s) }"

text \<open>The end of an assignment or an expression.\<close>

definition parse_element_end :: "SyntaxKeyword \<Rightarrow> SyntaxAnalyzer \<Rightarrow> SyntaxAnalyzer" where
  "parse_element_end K s =
    (if at_lexem Semicolon s then NextLexem s
     else TryRecoverAfterError (g_block_body_elements_control_lexems K) (PushErrorMessage s))"

definition parse_expression_element :: "SyntaxKeyword \<Rightarrow> Rec \<Rightarrow> SyntaxAnalyzer \<Rightarrow> BlockElement parsed" where
  "parse_expression_element K rec s = do {
    (l_expression, s) \<leftarrow> ParseExpression K rec s;
    if at_lexem Lexem_Type.Equal s then do {
      let src_loc = loc s;
      let s = NextLexem s;
      (r_expression, s) \<leftarrow> rec_Expression rec s;
      let s = parse_element_end K s;
      Some (ExpressionElement (AssignmentOperator src_loc l_expression r_expression), s) }
    else case GetCompoundAssignmentOperator (cur s) of
        Some compound_operation \<Rightarrow> do {
          let src_loc = loc s;
          let s = NextLexem s;
          (r_expression, s) \<leftarrow> rec_Expression rec s;
          let s = parse_element_end K s;
          Some (ExpressionElement (CompoundAssignmentOperator src_loc compound_operation l_expression r_expression), s) }
      | None \<Rightarrow> do {
          let src_loc = loc s;
          let s = parse_element_end K s;
          Some (ExpressionElement (SingleExpressionOperator src_loc l_expression), s) } }"

definition parse_increment ::
  "(SrcLoc \<Rightarrow> Expression \<Rightarrow> Expression IterationPartElement) \<Rightarrow> Rec \<Rightarrow> SyntaxAnalyzer \<Rightarrow> BlockElement parsed" where
  "parse_increment node rec s = do {
    let src_loc = loc s;
    let s = NextLexem s;
    (e, s) \<leftarrow> rec_Expression rec s;
    let s = ExpectLexem Semicolon s;
    Some (ExpressionElement (node src_loc e), s) }"

definition returning :: "('a \<Rightarrow> 'b) \<Rightarrow> 'a parsed \<Rightarrow> 'b parsed" where
  "returning node m = do { (x, s) \<leftarrow> m; Some (node x, s) }"

text \<open>One round of the loop over the elements of a block; a macro expands to any number of elements.\<close>

definition parse_block_element :: "SyntaxKeyword \<Rightarrow> Rec \<Rightarrow> SyntaxAnalyzer \<Rightarrow> BlockElement list parsed" where
  "parse_block_element K rec s =
    (if at_keyword K var_k s then returning (\<lambda>e. [VariablesElement e]) (ParseVariablesDeclaration K rec s)
     else if at_keyword K auto_k s then
       if next_lexem_type s = SquareBracketLeft \<or> next_lexem_type s = BraceLeft
       then returning (\<lambda>e. [DecomposeElement e]) (ParseDecomposeDeclaration rec s)
       else returning (\<lambda>e. [AutoVariableElement e]) (ParseAutoVariableDeclaration K rec s)
     else if at_keyword K alloca_kw s then returning (\<lambda>e. [e]) (ParseAllocaDeclaration rec s)
     else if at_keyword K return_kw s then returning (\<lambda>e. [e]) (ParseReturnOperator rec s)
     else if at_keyword K yield_kw s then returning (\<lambda>e. [e]) (ParseYieldOperator rec s)
     else if at_keyword K while_kw s then returning (\<lambda>e. [e]) (ParseWhileOperator K rec s)
     else if at_keyword K loop_kw s then returning (\<lambda>e. [e]) (ParseLoopOperator K rec s)
     else if at_keyword K for_kw s then returning (\<lambda>e. [e]) (ParseForOperator K rec s)
     else if at_keyword K break_kw s then returning (\<lambda>e. [e]) (ParseBreakOperator K s)
     else if at_keyword K continue_kw s then returning (\<lambda>e. [e]) (ParseContinueOperator K s)
     else if at_keyword K with_kw s then returning (\<lambda>e. [e]) (ParseWithOperator K rec s)
     else if at_keyword K if_kw s then returning (\<lambda>e. [IfElement e]) (ParseIfOperator K rec s)
     else if at_keyword K static_if_kw s then returning (\<lambda>e. [StaticIfElement e]) (ParseStaticIfOperator K rec s)
     else if at_keyword K if_coro_advance_kw s then returning (\<lambda>e. [IfCoroAdvanceElement e]) (ParseIfCoroAdvanceOperator K rec s)
     else if at_keyword K switch_kw s then returning (\<lambda>e. [e]) (ParseSwitchOperator K rec s)
     else if at_keyword K (Common static_assert_kw) s then returning (\<lambda>e. [StaticAssertElement e]) (ParseStaticAssert rec s)
     else if at_keyword K type_kw s then returning (\<lambda>e. [TypeAliasElement e]) (ParseTypeAlias rec s)
     else if at_keyword K halt_kw s then returning (\<lambda>e. [e]) (ParseHalt K rec s)
     else if at_keyword K mixin_kw s then returning (\<lambda>e. [MixinElement e]) (ParseMixin rec s)
     else if at_keyword K safe_kw s \<and> next_lexem_type s = BraceLeft then
       let s = NextLexem s in returning (\<lambda>e. [e]) (parse_scope_block K rec Safe s)
     else if at_keyword K unsafe_kw s \<and> next_lexem_type s = BraceLeft then
       let s = NextLexem s in returning (\<lambda>e. [e]) (parse_scope_block K rec Unsafe s)
     else if at_lexem BraceLeft s then returning (\<lambda>e. [e]) (parse_scope_block K rec NoSafety s)
     else if at_lexem DoublePlus s then returning (\<lambda>e. [e]) (parse_increment IncrementOperator rec s)
     else if at_lexem DoubleMinus s then returning (\<lambda>e. [e]) (parse_increment DecrementOperator rec s)
     else if at_lexem Identifier s then
       case FetchMacro (lexem_text (cur s)) BlockContext s of
         Some macro \<Rightarrow> ExpandMacro rec macro (rec_BlockElements rec EndOfFile) [] s
       | None \<Rightarrow> returning (\<lambda>e. [e]) (parse_expression_element K rec s)
     else returning (\<lambda>e. [e]) (parse_expression_element K rec s))"

definition ParseBlockElementsImpl :: "SyntaxKeyword \<Rightarrow> Rec \<Rightarrow> Lexem_Type \<Rightarrow> SyntaxAnalyzer \<Rightarrow> BlockElement list parsed" where
  "ParseBlockElementsImpl K rec end_lexem = loop (\<lambda>elements s.
    if \<not> NotEndOfFile s \<or> at_lexem EndOfFile s \<or> at_lexem end_lexem s then Some (Inr elements, s)
    else do {
      (es, s) \<leftarrow> parse_block_element K rec s;
      Some (Inl (elements @ es), s) }) []"

end
