(* ===== verification/Parser_Blocks_Laws.thy ===== *)
theory Parser_Blocks_Laws
  imports Parser_Blocks
begin

text \<open>
  The parsers of the elements of blocks in the logic of \<open>Parser_Base\<close>: they are monotone in the recursive parsers, they
  move the cursor forward only, and they return if the recursive calls for smaller states do. Every round of the loop over the elements of a
  block consumes a lexem or reports an error at one.
\<close>

section \<open>Rules\<close>

lemma returning_mono [partial_function_mono]: "mono_option (\<lambda>f. m f) \<Longrightarrow> mono_option (\<lambda>f. returning node (m f))"
  unfolding returning_def by (intro partial_function_mono)

lemma gets_returning: "gets t (\<lambda>_. Q) m \<Longrightarrow> gets t (\<lambda>_. Q) (returning node m)"
  by (auto simp: gets_def returning_def split: option.splits)

lemma gets_weaken_result: "gets t (\<lambda>_. at b s0) m \<Longrightarrow> (\<And>a. c a \<longrightarrow> b) \<Longrightarrow> gets t (\<lambda>a. at (c a) s0) m"
  by (erule gets_mono) (blast intro: at_weaken)

lemma gets_case_DecomposeDeclarationComponent:
  "(\<And>l n m. gets t Q (f l n m)) \<Longrightarrow> (\<And>l cs. gets t Q (g l cs)) \<Longrightarrow> (\<And>l es. gets t Q (h l es)) \<Longrightarrow>
    gets t Q (case c of DecomposeDeclarationNamedComponent l n m \<Rightarrow> f l n m
      | DecomposeDeclarationSequenceComponent l cs \<Rightarrow> g l cs | DecomposeDeclarationStructComponent l es \<Rightarrow> h l es)"
  by (cases c) simp_all

lemma GetCompoundAssignmentOperator_end [simp]: "at_lexem EndOfFile s \<Longrightarrow> GetCompoundAssignmentOperator (cur s) = None"
  by (simp add: GetCompoundAssignmentOperator_def)

lemma parse_element_end_at: "at b s0 s \<Longrightarrow> at (b \<or> NotEndOfFile s0 \<or> \<not> at_lexem EndOfFile s) s0 (parse_element_end K s)"
  unfolding parse_element_end_def
  by (rule at_weaken [OF at_if [OF step_at(1) TryRecoverAfterError_at [OF step_at(2)]]]) auto

section \<open>Monotonicity\<close>

lemma parse_variable_entry_mono [partial_function_mono]:
  "(\<And>q. mono_option (\<lambda>f. F f q)) \<Longrightarrow> mono_option (\<lambda>f. parse_variable_entry K (F f) s)"
  unfolding parse_variable_entry_def by (intro partial_function_mono)

lemma ParseVariablesDeclaration_mono [partial_function_mono]:
  "(\<And>q. mono_option (\<lambda>f. F f q)) \<Longrightarrow> mono_option (\<lambda>f. ParseVariablesDeclaration K (F f) s)"
  unfolding ParseVariablesDeclaration_def by (intro partial_function_mono)

lemma ParseThreadLocalVariablesDeclaration_mono [partial_function_mono]:
  "(\<And>q. mono_option (\<lambda>f. F f q)) \<Longrightarrow> mono_option (\<lambda>f. ParseThreadLocalVariablesDeclaration K (F f) s)"
  unfolding ParseThreadLocalVariablesDeclaration_def by (intro partial_function_mono)

lemma ParseAutoVariableDeclaration_mono [partial_function_mono]:
  "(\<And>q. mono_option (\<lambda>f. F f q)) \<Longrightarrow> mono_option (\<lambda>f. ParseAutoVariableDeclaration K (F f) s)"
  unfolding ParseAutoVariableDeclaration_def by (intro partial_function_mono)

lemma parse_sequence_components_mono [partial_function_mono]:
  "(\<And>q. mono_option (\<lambda>f. F f q)) \<Longrightarrow> mono_option (\<lambda>f. parse_sequence_components (F f) s)"
  unfolding parse_sequence_components_def by (intro partial_function_mono)

lemma parse_struct_components_mono [partial_function_mono]:
  "(\<And>q. mono_option (\<lambda>f. F f q)) \<Longrightarrow> mono_option (\<lambda>f. parse_struct_components (F f) s)"
  unfolding parse_struct_components_def by (intro partial_function_mono)

lemma ParseDecomposeDeclarationComponent_mono [partial_function_mono]:
  "(\<And>q. mono_option (\<lambda>f. F f q)) \<Longrightarrow> mono_option (\<lambda>f. ParseDecomposeDeclarationComponent K (F f) s)"
  unfolding ParseDecomposeDeclarationComponent_def by (intro partial_function_mono)

lemma ParseDecomposeDeclaration_mono [partial_function_mono]:
  "(\<And>q. mono_option (\<lambda>f. F f q)) \<Longrightarrow> mono_option (\<lambda>f. ParseDecomposeDeclaration (F f) s)"
  unfolding ParseDecomposeDeclaration_def by (intro partial_function_mono)

lemma ParseAllocaDeclaration_mono [partial_function_mono]:
  "(\<And>q. mono_option (\<lambda>f. F f q)) \<Longrightarrow> mono_option (\<lambda>f. ParseAllocaDeclaration (F f) s)"
  unfolding ParseAllocaDeclaration_def by (intro partial_function_mono)

lemma ParseReturnOperator_mono [partial_function_mono]:
  "(\<And>q. mono_option (\<lambda>f. F f q)) \<Longrightarrow> mono_option (\<lambda>f. ParseReturnOperator (F f) s)"
  unfolding ParseReturnOperator_def by (intro partial_function_mono)

lemma parse_expression_unless_mono [partial_function_mono]:
  "(\<And>q. mono_option (\<lambda>f. F f q)) \<Longrightarrow> mono_option (\<lambda>f. parse_expression_unless om (F f) s)"
  unfolding parse_expression_unless_def by (intro partial_function_mono)

lemma ParseYieldOperator_mono [partial_function_mono]:
  "(\<And>q. mono_option (\<lambda>f. F f q)) \<Longrightarrow> mono_option (\<lambda>f. ParseYieldOperator (F f) s)"
  unfolding ParseYieldOperator_def by (intro partial_function_mono)

lemma ParseStaticAssert_mono [partial_function_mono]:
  "(\<And>q. mono_option (\<lambda>f. F f q)) \<Longrightarrow> mono_option (\<lambda>f. ParseStaticAssert (F f) s)"
  unfolding ParseStaticAssert_def by (intro partial_function_mono)

lemma ParseTypeAliasBody_mono [partial_function_mono]:
  "(\<And>q. mono_option (\<lambda>f. F f q)) \<Longrightarrow> mono_option (\<lambda>f. ParseTypeAliasBody (F f) s)"
  unfolding ParseTypeAliasBody_def by (intro partial_function_mono)

lemma ParseTypeAlias_mono [partial_function_mono]:
  "(\<And>q. mono_option (\<lambda>f. F f q)) \<Longrightarrow> mono_option (\<lambda>f. ParseTypeAlias (F f) s)"
  unfolding ParseTypeAlias_def by (intro partial_function_mono)

lemma ParseMixin_mono [partial_function_mono]:
  "(\<And>q. mono_option (\<lambda>f. F f q)) \<Longrightarrow> mono_option (\<lambda>f. ParseMixin (F f) s)"
  unfolding ParseMixin_def by (intro partial_function_mono)

lemma ParseHalt_mono [partial_function_mono]:
  "(\<And>q. mono_option (\<lambda>f. F f q)) \<Longrightarrow> mono_option (\<lambda>f. ParseHalt K (F f) s)"
  unfolding ParseHalt_def by (intro partial_function_mono)

lemma parse_enum_underlying_type_mono [partial_function_mono]:
  "(\<And>q. mono_option (\<lambda>f. F f q)) \<Longrightarrow> mono_option (\<lambda>f. parse_enum_underlying_type K (F f) s)"
  unfolding parse_enum_underlying_type_def by (intro partial_function_mono)

lemma ParseEnum_mono [partial_function_mono]:
  "(\<And>q. mono_option (\<lambda>f. F f q)) \<Longrightarrow> mono_option (\<lambda>f. ParseEnum K (F f) s)"
  unfolding ParseEnum_def by (intro partial_function_mono)

lemma ParseWhileOperator_mono [partial_function_mono]:
  "(\<And>q. mono_option (\<lambda>f. F f q)) \<Longrightarrow> mono_option (\<lambda>f. ParseWhileOperator K (F f) s)"
  unfolding ParseWhileOperator_def by (intro partial_function_mono)

lemma ParseLoopOperator_mono [partial_function_mono]:
  "(\<And>q. mono_option (\<lambda>f. F f q)) \<Longrightarrow> mono_option (\<lambda>f. ParseLoopOperator K (F f) s)"
  unfolding ParseLoopOperator_def by (intro partial_function_mono)

lemma ParseRangeForOperator_mono [partial_function_mono]:
  "(\<And>q. mono_option (\<lambda>f. F f q)) \<Longrightarrow> mono_option (\<lambda>f. ParseRangeForOperator K (F f) s)"
  unfolding ParseRangeForOperator_def by (intro partial_function_mono)

lemma parse_iteration_element_mono [partial_function_mono]:
  "(\<And>q. mono_option (\<lambda>f. F f q)) \<Longrightarrow> mono_option (\<lambda>f. parse_iteration_element (F f) s)"
  unfolding parse_iteration_element_def by (intro partial_function_mono)

lemma parse_iteration_part_mono [partial_function_mono]:
  "(\<And>q. mono_option (\<lambda>f. F f q)) \<Longrightarrow> mono_option (\<lambda>f. parse_iteration_part (F f) s)"
  unfolding parse_iteration_part_def by (intro partial_function_mono)

lemma parse_for_declaration_mono [partial_function_mono]:
  "(\<And>q. mono_option (\<lambda>f. F f q)) \<Longrightarrow> mono_option (\<lambda>f. parse_for_declaration K (F f) s)"
  unfolding parse_for_declaration_def by (intro partial_function_mono)

lemma ParseCStyleForOperator_mono [partial_function_mono]:
  "(\<And>q. mono_option (\<lambda>f. F f q)) \<Longrightarrow> mono_option (\<lambda>f. ParseCStyleForOperator K (F f) s)"
  unfolding ParseCStyleForOperator_def by (intro partial_function_mono)

lemma ParseForOperator_mono [partial_function_mono]:
  "(\<And>q. mono_option (\<lambda>f. F f q)) \<Longrightarrow> mono_option (\<lambda>f. ParseForOperator K (F f) s)"
  unfolding ParseForOperator_def by (intro partial_function_mono)

lemma ParseWithOperator_mono [partial_function_mono]:
  "(\<And>q. mono_option (\<lambda>f. F f q)) \<Longrightarrow> mono_option (\<lambda>f. ParseWithOperator K (F f) s)"
  unfolding ParseWithOperator_def by (intro partial_function_mono)

lemma TryParseIfAlternative_mono [partial_function_mono]:
  "(\<And>q. mono_option (\<lambda>f. F f q)) \<Longrightarrow> mono_option (\<lambda>f. TryParseIfAlternative K (F f) s)"
  unfolding TryParseIfAlternative_def by (intro partial_function_mono)

lemma ParseIfOperator_mono [partial_function_mono]:
  "(\<And>q. mono_option (\<lambda>f. F f q)) \<Longrightarrow> mono_option (\<lambda>f. ParseIfOperator K (F f) s)"
  unfolding ParseIfOperator_def by (intro partial_function_mono)

lemma ParseStaticIfOperator_mono [partial_function_mono]:
  "(\<And>q. mono_option (\<lambda>f. F f q)) \<Longrightarrow> mono_option (\<lambda>f. ParseStaticIfOperator K (F f) s)"
  unfolding ParseStaticIfOperator_def by (intro partial_function_mono)

lemma ParseIfCoroAdvanceOperator_mono [partial_function_mono]:
  "(\<And>q. mono_option (\<lambda>f. F f q)) \<Longrightarrow> mono_option (\<lambda>f. ParseIfCoroAdvanceOperator K (F f) s)"
  unfolding ParseIfCoroAdvanceOperator_def by (intro partial_function_mono)

lemma parse_macro_if_alternative_mono [partial_function_mono]:
  "(\<And>q. mono_option (\<lambda>f. F f q)) \<Longrightarrow> mono_option (\<lambda>f. parse_macro_if_alternative (F f) macro s)"
  unfolding parse_macro_if_alternative_def by (intro partial_function_mono)

lemma ParseIfAlternative_mono [partial_function_mono]:
  "(\<And>q. mono_option (\<lambda>f. F f q)) \<Longrightarrow> mono_option (\<lambda>f. ParseIfAlternative K (F f) s)"
  unfolding ParseIfAlternative_def by (intro partial_function_mono)

lemma parse_case_high_mono [partial_function_mono]:
  "(\<And>q. mono_option (\<lambda>f. F f q)) \<Longrightarrow> mono_option (\<lambda>f. parse_case_high (F f) s)"
  unfolding parse_case_high_def by (intro partial_function_mono)

lemma parse_case_value_mono [partial_function_mono]:
  "(\<And>q. mono_option (\<lambda>f. F f q)) \<Longrightarrow> mono_option (\<lambda>f. parse_case_value (F f) s)"
  unfolding parse_case_value_def by (intro partial_function_mono)

lemma parse_case_values_mono [partial_function_mono]:
  "(\<And>q. mono_option (\<lambda>f. F f q)) \<Longrightarrow> mono_option (\<lambda>f. parse_case_values K (F f) s)"
  unfolding parse_case_values_def by (intro partial_function_mono)

lemma ParseSwitchOperator_mono [partial_function_mono]:
  "(\<And>q. mono_option (\<lambda>f. F f q)) \<Longrightarrow> mono_option (\<lambda>f. ParseSwitchOperator K (F f) s)"
  unfolding ParseSwitchOperator_def by (intro partial_function_mono)

lemma parse_scope_block_mono [partial_function_mono]:
  "(\<And>q. mono_option (\<lambda>f. F f q)) \<Longrightarrow> mono_option (\<lambda>f. parse_scope_block K (F f) safety s)"
  unfolding parse_scope_block_def by (intro partial_function_mono)

lemma parse_expression_element_mono [partial_function_mono]:
  "(\<And>q. mono_option (\<lambda>f. F f q)) \<Longrightarrow> mono_option (\<lambda>f. parse_expression_element K (F f) s)"
  unfolding parse_expression_element_def by (intro partial_function_mono)

lemma parse_increment_mono [partial_function_mono]:
  "(\<And>q. mono_option (\<lambda>f. F f q)) \<Longrightarrow> mono_option (\<lambda>f. parse_increment node (F f) s)"
  unfolding parse_increment_def by (intro partial_function_mono)

lemma parse_block_element_mono [partial_function_mono]:
  "(\<And>q. mono_option (\<lambda>f. F f q)) \<Longrightarrow> mono_option (\<lambda>f. parse_block_element K (F f) s)"
  unfolding parse_block_element_def by (intro partial_function_mono)

lemma ParseBlockElementsImpl_mono [partial_function_mono]:
  "(\<And>q. mono_option (\<lambda>f. F f q)) \<Longrightarrow> mono_option (\<lambda>f. ParseBlockElementsImpl K (F f) l s)"
  unfolding ParseBlockElementsImpl_def by (intro partial_function_mono)

section \<open>Progress\<close>

lemma parse_binding_modifiers_at:
  "at b s0 s \<Longrightarrow>
    gets t (\<lambda>_. at b s0) (parse_binding_modifiers K s)"
  unfolding parse_binding_modifiers_def by (assumption | rule parse_rules | (auto; fail))+

lemma TryParseLabel_at:
  "at b s0 s \<Longrightarrow>
    gets t (\<lambda>_. at b s0) (TryParseLabel K s)"
  unfolding TryParseLabel_def by (assumption | rule parse_rules | (auto; fail))+

lemma TryParseNoDiscard_at:
  "at b s0 s \<Longrightarrow>
    gets t (\<lambda>_. at b s0) (TryParseNoDiscard K s)"
  unfolding TryParseNoDiscard_def by (assumption | rule parse_rules | (auto; fail))+

lemma parse_variables_separator_at:
  "at b s0 s \<Longrightarrow>
    gets t (\<lambda>_. at b s0) (parse_variables_separator vs s)"
  unfolding parse_variables_separator_def by (assumption | rule parse_rules | (auto; fail))+

lemma parse_variable_entry_at:
  "at b s0 s \<Longrightarrow> rec_ok t rec r s0 \<Longrightarrow> r \<or> b \<Longrightarrow>
    gets t (\<lambda>x. at (b \<or> snd x) s0) (parse_variable_entry K rec s)"
  unfolding parse_variable_entry_def by (assumption | rule ParseVariableInitializer_at parse_rules | (auto; fail))+

lemma ParseVariablesDeclaration_at:
  "at b s0 s \<Longrightarrow> rec_ok t rec r s0 \<Longrightarrow> r \<or> b \<or> \<not> at_lexem EndOfFile s \<Longrightarrow>
    gets t (\<lambda>_. at (b \<or> NotEndOfFile s0 \<or> \<not> at_lexem EndOfFile s) s0) (ParseVariablesDeclaration K rec s)"
  unfolding ParseVariablesDeclaration_def by (assumption | rule parse_variable_entry_at parse_rules parse_variables_separator_at
    [THEN gets_weaken_result] | (auto; fail))+

lemma ParseThreadLocalVariablesDeclaration_at:
  "at b s0 s \<Longrightarrow> rec_ok t rec r s0 \<Longrightarrow> r \<or> b \<or> \<not> at_lexem EndOfFile s \<Longrightarrow>
    gets t (\<lambda>_. at (b \<or> NotEndOfFile s0 \<or> \<not> at_lexem EndOfFile s) s0) (ParseThreadLocalVariablesDeclaration K rec s)"
  unfolding ParseThreadLocalVariablesDeclaration_def by (assumption | rule ParseVariableInitializer_at parse_rules
    parse_variables_separator_at [THEN gets_weaken_result] | (auto; fail))+

lemma ParseAutoVariableDeclaration_at:
  "at b s0 s \<Longrightarrow> rec_ok t rec r s0 \<Longrightarrow> r \<or> b \<or> \<not> at_lexem EndOfFile s \<Longrightarrow>
    gets t (\<lambda>_. at (b \<or> NotEndOfFile s0 \<or> \<not> at_lexem EndOfFile s) s0) (ParseAutoVariableDeclaration K rec s)"
  unfolding ParseAutoVariableDeclaration_def by (assumption | rule parse_rules | (auto; fail))+

lemma parse_sequence_components_at:
  "at b s0 s \<Longrightarrow> rec_ok t rec r s0 \<Longrightarrow> r \<or> b \<Longrightarrow>
    gets t (\<lambda>_. at b s0) (parse_sequence_components rec s)"
  unfolding parse_sequence_components_def by (assumption | rule parse_rules | (auto; fail))+

lemma parse_struct_entry_at:
  "at b s0 s \<Longrightarrow>
    gets t (\<lambda>_. at b s0) (parse_struct_entry c s)"
  unfolding parse_struct_entry_def by (assumption | rule gets_case_DecomposeDeclarationComponent parse_rules | (auto; fail))+

lemma parse_struct_components_at:
  "at b s0 s \<Longrightarrow> rec_ok t rec r s0 \<Longrightarrow> r \<or> b \<Longrightarrow>
    gets t (\<lambda>_. at b s0) (parse_struct_components rec s)"
  unfolding parse_struct_components_def by (assumption | rule parse_struct_entry_at parse_rules | (auto; fail))+

lemma named_component_at:
  "at b s0 s \<Longrightarrow>
    gets t (\<lambda>_. at (b \<or> NotEndOfFile s0 \<or> \<not> at_lexem EndOfFile s) s0) (named_component m s)"
  unfolding named_component_def by (assumption | rule parse_rules | (auto; fail))+

lemma ParseDecomposeDeclarationComponent_at:
  "at b s0 s \<Longrightarrow> rec_ok t rec r s0 \<Longrightarrow>
    gets t (\<lambda>_. at (b \<or> NotEndOfFile s0 \<or> \<not> at_lexem EndOfFile s) s0) (ParseDecomposeDeclarationComponent K rec s)"
  unfolding ParseDecomposeDeclarationComponent_def by (assumption | rule parse_sequence_components_at parse_struct_components_at
    named_component_at parse_rules named_component_at [THEN gets_weaken] | (auto; fail))+

lemma ParseDecomposeDeclaration_at:
  "at b s0 s \<Longrightarrow> rec_ok t rec r s0 \<Longrightarrow> r \<or> b \<or> \<not> at_lexem EndOfFile s \<Longrightarrow>
    gets t (\<lambda>_. at (b \<or> NotEndOfFile s0 \<or> \<not> at_lexem EndOfFile s) s0) (ParseDecomposeDeclaration rec s)"
  unfolding ParseDecomposeDeclaration_def by (assumption | rule parse_rules | (auto; fail))+

lemma ParseAllocaDeclaration_at:
  "at b s0 s \<Longrightarrow> rec_ok t rec r s0 \<Longrightarrow> r \<or> b \<or> \<not> at_lexem EndOfFile s \<Longrightarrow>
    gets t (\<lambda>_. at (b \<or> NotEndOfFile s0 \<or> \<not> at_lexem EndOfFile s) s0) (ParseAllocaDeclaration rec s)"
  unfolding ParseAllocaDeclaration_def by (assumption | rule parse_rules | (auto; fail))+

lemma ParseReturnOperator_at:
  "at b s0 s \<Longrightarrow> rec_ok t rec r s0 \<Longrightarrow> r \<or> b \<or> \<not> at_lexem EndOfFile s \<Longrightarrow>
    gets t (\<lambda>_. at (b \<or> NotEndOfFile s0 \<or> \<not> at_lexem EndOfFile s) s0) (ParseReturnOperator rec s)"
  unfolding ParseReturnOperator_def by (assumption | rule parse_rules | (auto; fail))+

lemma parse_expression_unless_at:
  "at b s0 s \<Longrightarrow> rec_ok t rec r s0 \<Longrightarrow> r \<or> b \<Longrightarrow>
    gets t (\<lambda>_. at b s0) (parse_expression_unless om rec s)"
  unfolding parse_expression_unless_def by (assumption | rule parse_rules rec_at [THEN gets_weaken] | (auto; fail))+

lemma ParseYieldOperator_at:
  "at b s0 s \<Longrightarrow> rec_ok t rec r s0 \<Longrightarrow> r \<or> b \<or> \<not> at_lexem EndOfFile s \<Longrightarrow>
    gets t (\<lambda>_. at (b \<or> NotEndOfFile s0 \<or> \<not> at_lexem EndOfFile s) s0) (ParseYieldOperator rec s)"
  unfolding ParseYieldOperator_def by (assumption | rule parse_expression_unless_at parse_rules | (auto; fail))+

lemma parse_jump_at:
  "at b s0 s \<Longrightarrow>
    gets t (\<lambda>_. at (b \<or> NotEndOfFile s0 \<or> \<not> at_lexem EndOfFile s) s0) (parse_jump node K s)"
  unfolding parse_jump_def by (assumption | rule TryParseLabel_at parse_rules | (auto; fail))+

lemma ParseBreakOperator_at:
  "at b s0 s \<Longrightarrow>
    gets t (\<lambda>_. at (b \<or> NotEndOfFile s0 \<or> \<not> at_lexem EndOfFile s) s0) (ParseBreakOperator K s)"
  unfolding ParseBreakOperator_def by (assumption | rule parse_jump_at parse_rules | (auto; fail))+

lemma ParseContinueOperator_at:
  "at b s0 s \<Longrightarrow>
    gets t (\<lambda>_. at (b \<or> NotEndOfFile s0 \<or> \<not> at_lexem EndOfFile s) s0) (ParseContinueOperator K s)"
  unfolding ParseContinueOperator_def by (assumption | rule parse_jump_at parse_rules | (auto; fail))+

lemma ParseStaticAssert_at:
  "at b s0 s \<Longrightarrow> rec_ok t rec r s0 \<Longrightarrow> r \<or> b \<or> \<not> at_lexem EndOfFile s \<Longrightarrow>
    gets t (\<lambda>_. at (b \<or> NotEndOfFile s0 \<or> \<not> at_lexem EndOfFile s) s0) (ParseStaticAssert rec s)"
  unfolding ParseStaticAssert_def by (assumption | rule parse_rules | (auto; fail))+

lemma ParseTypeAliasBody_at:
  "at b s0 s \<Longrightarrow> rec_ok t rec r s0 \<Longrightarrow> r \<or> b \<Longrightarrow>
    gets t (\<lambda>_. at (b \<or> NotEndOfFile s0 \<or> \<not> at_lexem EndOfFile s) s0) (ParseTypeAliasBody rec s)"
  unfolding ParseTypeAliasBody_def by (assumption | rule parse_rules | (auto; fail))+

lemma ParseTypeAlias_at:
  "at b s0 s \<Longrightarrow> rec_ok t rec r s0 \<Longrightarrow> r \<or> b \<or> \<not> at_lexem EndOfFile s \<Longrightarrow>
    gets t (\<lambda>_. at (b \<or> NotEndOfFile s0 \<or> \<not> at_lexem EndOfFile s) s0) (ParseTypeAlias rec s)"
  unfolding ParseTypeAlias_def by (assumption | rule ParseTypeAliasBody_at parse_rules | (auto; fail))+

lemma ParseMixin_at:
  "at b s0 s \<Longrightarrow> rec_ok t rec r s0 \<Longrightarrow> r \<or> b \<or> \<not> at_lexem EndOfFile s \<Longrightarrow>
    gets t (\<lambda>_. at (b \<or> NotEndOfFile s0 \<or> \<not> at_lexem EndOfFile s) s0) (ParseMixin rec s)"
  unfolding ParseMixin_def by (assumption | rule ParseExpressionInBrackets_at parse_rules | (auto; fail))+

lemma ParseHalt_at:
  "at b s0 s \<Longrightarrow> rec_ok t rec r s0 \<Longrightarrow> r \<or> b \<or> \<not> at_lexem EndOfFile s \<Longrightarrow>
    gets t (\<lambda>_. at (b \<or> NotEndOfFile s0 \<or> \<not> at_lexem EndOfFile s) s0) (ParseHalt K rec s)"
  unfolding ParseHalt_def by (assumption | rule ParseExpressionInBrackets_at parse_rules | (auto; fail))+

lemma parse_enum_members_at:
  "at b s0 s \<Longrightarrow>
    gets t (\<lambda>_. at b s0) (parse_enum_members  s)"
  unfolding parse_enum_members_def by (assumption | rule parse_rules | (auto; fail))+

lemma parse_enum_underlying_type_at:
  "at b s0 s \<Longrightarrow> rec_ok t rec r s0 \<Longrightarrow>
    gets t (\<lambda>_. at b s0) (parse_enum_underlying_type K rec s)"
  unfolding parse_enum_underlying_type_def by (assumption | rule ParseComplexName_at parse_rules | (auto; fail))+

lemma ParseEnum_at:
  "at b s0 s \<Longrightarrow> rec_ok t rec r s0 \<Longrightarrow> r \<or> b \<or> \<not> at_lexem EndOfFile s \<Longrightarrow>
    gets t (\<lambda>_. at (b \<or> NotEndOfFile s0 \<or> \<not> at_lexem EndOfFile s) s0) (ParseEnum K rec s)"
  unfolding ParseEnum_def by (assumption | rule parse_enum_underlying_type_at TryParseNoDiscard_at parse_enum_members_at parse_rules
    | (auto; fail))+

lemma ParseWhileOperator_at:
  "at b s0 s \<Longrightarrow> rec_ok t rec r s0 \<Longrightarrow> r \<or> b \<or> \<not> at_lexem EndOfFile s \<Longrightarrow>
    gets t (\<lambda>_. at (b \<or> NotEndOfFile s0 \<or> \<not> at_lexem EndOfFile s) s0) (ParseWhileOperator K rec s)"
  unfolding ParseWhileOperator_def by (assumption | rule ParseExpressionInBrackets_at TryParseLabel_at ParseBlock_at parse_rules |
    (auto; fail))+

lemma ParseLoopOperator_at:
  "at b s0 s \<Longrightarrow> rec_ok t rec r s0 \<Longrightarrow> r \<or> b \<or> \<not> at_lexem EndOfFile s \<Longrightarrow>
    gets t (\<lambda>_. at (b \<or> NotEndOfFile s0 \<or> \<not> at_lexem EndOfFile s) s0) (ParseLoopOperator K rec s)"
  unfolding ParseLoopOperator_def by (assumption | rule TryParseLabel_at ParseBlock_at parse_rules | (auto; fail))+

lemma ParseRangeForOperator_at:
  "at b s0 s \<Longrightarrow> rec_ok t rec r s0 \<Longrightarrow> r \<or> b \<or> \<not> at_lexem EndOfFile s \<Longrightarrow>
    gets t (\<lambda>_. at (b \<or> NotEndOfFile s0 \<or> \<not> at_lexem EndOfFile s) s0) (ParseRangeForOperator K rec s)"
  unfolding ParseRangeForOperator_def by (assumption | rule parse_binding_modifiers_at TryParseLabel_at ParseBlock_at parse_rules |
    (auto; fail))+

lemma parse_iteration_element_at:
  "at b s0 s \<Longrightarrow> rec_ok t rec r s0 \<Longrightarrow> r \<or> b \<Longrightarrow>
    gets t (\<lambda>_. at (b \<or> NotEndOfFile s0 \<or> \<not> at_lexem EndOfFile s) s0) (parse_iteration_element rec s)"
  unfolding parse_iteration_element_def by (assumption | rule parse_rules | (auto; fail))+

lemma parse_iteration_part_at:
  "at b s0 s \<Longrightarrow> rec_ok t rec r s0 \<Longrightarrow> r \<or> b \<Longrightarrow>
    gets t (\<lambda>_. at b s0) (parse_iteration_part rec s)"
  unfolding parse_iteration_part_def by (assumption | rule parse_iteration_element_at parse_rules | (auto; fail))+

lemma parse_for_declaration_at:
  "at b s0 s \<Longrightarrow> rec_ok t rec r s0 \<Longrightarrow> r \<or> b \<or> \<not> at_lexem EndOfFile s \<Longrightarrow>
    gets t (\<lambda>_. at (b \<or> NotEndOfFile s0 \<or> \<not> at_lexem EndOfFile s) s0) (parse_for_declaration K rec s)"
  unfolding parse_for_declaration_def by (assumption | rule ParseVariablesDeclaration_at ParseDecomposeDeclaration_at
    ParseAutoVariableDeclaration_at parse_rules | (auto; fail))+

lemma ParseCStyleForOperator_at:
  "at b s0 s \<Longrightarrow> rec_ok t rec r s0 \<Longrightarrow> r \<or> b \<or> \<not> at_lexem EndOfFile s \<Longrightarrow>
    gets t (\<lambda>_. at (b \<or> NotEndOfFile s0 \<or> \<not> at_lexem EndOfFile s) s0) (ParseCStyleForOperator K rec s)"
  unfolding ParseCStyleForOperator_def by (assumption | rule parse_for_declaration_at parse_expression_unless_at
    parse_iteration_part_at TryParseLabel_at ParseBlock_at parse_rules | (auto; fail))+

lemma ParseForOperator_at:
  "at b s0 s \<Longrightarrow> rec_ok t rec r s0 \<Longrightarrow> r \<or> b \<or> \<not> at_lexem EndOfFile s \<Longrightarrow>
    gets t (\<lambda>_. at (b \<or> NotEndOfFile s0 \<or> \<not> at_lexem EndOfFile s) s0) (ParseForOperator K rec s)"
  unfolding ParseForOperator_def by (assumption | rule ParseCStyleForOperator_at ParseRangeForOperator_at parse_rules | (auto;
    fail))+

lemma ParseWithOperator_at:
  "at b s0 s \<Longrightarrow> rec_ok t rec r s0 \<Longrightarrow> r \<or> b \<or> \<not> at_lexem EndOfFile s \<Longrightarrow>
    gets t (\<lambda>_. at (b \<or> NotEndOfFile s0 \<or> \<not> at_lexem EndOfFile s) s0) (ParseWithOperator K rec s)"
  unfolding ParseWithOperator_def by (assumption | rule parse_binding_modifiers_at ParseBlock_at parse_rules | (auto; fail))+

lemma TryParseIfAlternative_at:
  "at b s0 s \<Longrightarrow> rec_ok t rec r s0 \<Longrightarrow>
    gets t (\<lambda>_. at b s0) (TryParseIfAlternative K rec s)"
  unfolding TryParseIfAlternative_def by (assumption | rule parse_rules | (auto; fail))+

lemma ParseIfOperator_at:
  "at b s0 s \<Longrightarrow> rec_ok t rec r s0 \<Longrightarrow> r \<or> b \<or> \<not> at_lexem EndOfFile s \<Longrightarrow>
    gets t (\<lambda>_. at (b \<or> NotEndOfFile s0 \<or> \<not> at_lexem EndOfFile s) s0) (ParseIfOperator K rec s)"
  unfolding ParseIfOperator_def by (assumption | rule ParseExpressionInBrackets_at ParseBlock_at TryParseIfAlternative_at
    parse_rules | (auto; fail))+

lemma ParseStaticIfOperator_at:
  "at b s0 s \<Longrightarrow> rec_ok t rec r s0 \<Longrightarrow> r \<or> b \<or> \<not> at_lexem EndOfFile s \<Longrightarrow>
    gets t (\<lambda>_. at (b \<or> NotEndOfFile s0 \<or> \<not> at_lexem EndOfFile s) s0) (ParseStaticIfOperator K rec s)"
  unfolding ParseStaticIfOperator_def by (assumption | rule ParseExpressionInBrackets_at ParseBlock_at TryParseIfAlternative_at
    parse_rules | (auto; fail))+

lemma ParseIfCoroAdvanceOperator_at:
  "at b s0 s \<Longrightarrow> rec_ok t rec r s0 \<Longrightarrow> r \<or> b \<or> \<not> at_lexem EndOfFile s \<Longrightarrow>
    gets t (\<lambda>_. at (b \<or> NotEndOfFile s0 \<or> \<not> at_lexem EndOfFile s) s0) (ParseIfCoroAdvanceOperator K rec s)"
  unfolding ParseIfCoroAdvanceOperator_def by (assumption | rule parse_binding_modifiers_at ParseBlock_at TryParseIfAlternative_at
    parse_rules | (auto; fail))+

lemma parse_macro_if_alternative_at:
  "at b s0 s \<Longrightarrow> rec_ok t rec r s0 \<Longrightarrow> r \<or> b \<or> \<not> at_lexem EndOfFile s \<Longrightarrow> FetchMacro name c s = Some macro \<Longrightarrow>
    gets t (\<lambda>_. at (b \<or> NotEndOfFile s0 \<or> \<not> at_lexem EndOfFile s) s0) (parse_macro_if_alternative rec macro s)"
  unfolding parse_macro_if_alternative_def by (assumption | rule ExpandMacro_at [OF _ _ _ _ rec_fresh(2)] parse_rules | (auto;
    fail))+

lemma ParseIfAlternative_at:
  "at b s0 s \<Longrightarrow> rec_ok t rec r s0 \<Longrightarrow>
    gets t (\<lambda>_. at (b \<or> NotEndOfFile s0 \<or> \<not> at_lexem EndOfFile s) s0) (ParseIfAlternative K rec s)"
  unfolding ParseIfAlternative_def by (assumption | rule ParseBlock_at ParseIfOperator_at ParseStaticIfOperator_at
    ParseIfCoroAdvanceOperator_at parse_macro_if_alternative_at parse_rules | (auto; fail))+

lemma parse_case_high_at:
  "at b s0 s \<Longrightarrow> rec_ok t rec r s0 \<Longrightarrow> r \<or> b \<Longrightarrow>
    gets t (\<lambda>_. at b s0) (parse_case_high rec s)"
  unfolding parse_case_high_def by (assumption | rule parse_expression_unless_at parse_rules | (auto; fail))+

lemma parse_case_value_at:
  "at b s0 s \<Longrightarrow> rec_ok t rec r s0 \<Longrightarrow> r \<or> b \<Longrightarrow>
    gets t (\<lambda>_. at (b \<or> NotEndOfFile s0 \<or> \<not> at_lexem EndOfFile s) s0) (parse_case_value rec s)"
  unfolding parse_case_value_def by (assumption | rule parse_case_high_at parse_rules | (auto; fail))+

lemma parse_case_values_at:
  "at b s0 s \<Longrightarrow> rec_ok t rec r s0 \<Longrightarrow> r \<or> b \<Longrightarrow>
    gets t (\<lambda>_. at b s0) (parse_case_values K rec s)"
  unfolding parse_case_values_def by (assumption | rule parse_case_value_at parse_rules | (auto; fail))+

lemma ParseSwitchOperator_at:
  "at b s0 s \<Longrightarrow> rec_ok t rec r s0 \<Longrightarrow> r \<or> b \<or> \<not> at_lexem EndOfFile s \<Longrightarrow>
    gets t (\<lambda>_. at (b \<or> NotEndOfFile s0 \<or> \<not> at_lexem EndOfFile s) s0) (ParseSwitchOperator K rec s)"
  unfolding ParseSwitchOperator_def by (assumption | rule ParseExpressionInBrackets_at parse_case_values_at ParseBlock_at
    parse_rules | (auto; fail))+

lemma parse_scope_block_at:
  "at b s0 s \<Longrightarrow> rec_ok t rec r s0 \<Longrightarrow> r \<or> b \<or> \<not> at_lexem EndOfFile s \<Longrightarrow>
    gets t (\<lambda>_. at (b \<or> NotEndOfFile s0 \<or> \<not> at_lexem EndOfFile s) s0) (parse_scope_block K rec safety s)"
  unfolding parse_scope_block_def by (assumption | rule ParseBlock_at TryParseLabel_at parse_rules | (auto; fail))+

lemma parse_expression_element_at:
  "at b s0 s \<Longrightarrow> rec_ok t rec r s0 \<Longrightarrow>
    gets t (\<lambda>_. at (b \<or> NotEndOfFile s0 \<or> \<not> at_lexem EndOfFile s) s0) (parse_expression_element K rec s)"
  unfolding parse_expression_element_def by (assumption | rule ParseExpression_at parse_element_end_at parse_rules | (auto; fail))+

lemma parse_increment_at:
  "at b s0 s \<Longrightarrow> rec_ok t rec r s0 \<Longrightarrow> r \<or> b \<or> \<not> at_lexem EndOfFile s \<Longrightarrow>
    gets t (\<lambda>_. at (b \<or> NotEndOfFile s0 \<or> \<not> at_lexem EndOfFile s) s0) (parse_increment node rec s)"
  unfolding parse_increment_def by (assumption | rule parse_rules | (auto; fail))+

lemma parse_block_element_at:
  "at b s0 s \<Longrightarrow> rec_ok t rec r s0 \<Longrightarrow> r \<or> b \<or> \<not> at_lexem EndOfFile s \<Longrightarrow>
    gets t (\<lambda>_. at (b \<or> NotEndOfFile s0 \<or> \<not> at_lexem EndOfFile s) s0) (parse_block_element K rec s)"
  unfolding parse_block_element_def by (assumption | rule gets_returning ParseVariablesDeclaration_at ParseDecomposeDeclaration_at
    ParseAutoVariableDeclaration_at ParseAllocaDeclaration_at ParseReturnOperator_at ParseYieldOperator_at ParseWhileOperator_at
    ParseLoopOperator_at ParseForOperator_at ParseBreakOperator_at ParseContinueOperator_at ParseWithOperator_at
    ParseIfOperator_at ParseStaticIfOperator_at ParseIfCoroAdvanceOperator_at ParseSwitchOperator_at ParseStaticAssert_at
    ParseTypeAlias_at ParseHalt_at ParseMixin_at parse_scope_block_at parse_increment_at parse_expression_element_at
    ExpandMacro_at [OF _ _ _ _ rec_fresh(2)] parse_scope_block_at parse_rules parse_scope_block_at [THEN gets_weaken] | (auto;
    fail))+

lemma ParseBlockElementsImpl_at:
  "at b s0 s \<Longrightarrow> rec_ok t rec r s0 \<Longrightarrow>
    gets t (\<lambda>_. at b s0) (ParseBlockElementsImpl K rec l s)"
  unfolding ParseBlockElementsImpl_def by (assumption | rule gets_returning parse_block_element_at parse_rules | (auto; fail))+

end
