(* ===== verification/Parser_Declarations.thy ===== *)
theory Parser_Declarations
  imports Parser_Blocks_Laws
begin

text \<open>
  The parsers of functions, classes, templates, elements of classes and namespaces, and definitions of macros,
  \<^verbatim>\<open>source/compiler0/lex_synt_lib/syntax_analyzer.cpp\<close>. A parser that returns early leaves the rest of the struct
  with its default values. \<open>IsKeyword\<close>, a parameter, is generated code.
\<close>

section \<open>Heads of functions\<close>

record FunctionModifiers =
  fm_virtual_function_kind :: VirtualFunctionKind
  fm_kind :: FunctionKind
  fm_coroutine_non_sync_tag :: "Expression NonSyncTag"
  fm_constexpr :: bool
  fm_no_mangle :: bool
  fm_no_discard :: bool
  fm_condition :: Expression

definition parse_virtual_kind :: "SyntaxKeyword \<Rightarrow> SyntaxAnalyzer \<Rightarrow> VirtualFunctionKind parsed" where
  "parse_virtual_kind K s =
    (if at_keyword K virtual_kw s then do {
       let s = NextLexem s;
       if at_keyword K override_kw s then let s = NextLexem s in Some (VirtualOverride, s)
       else if at_keyword K final_kw s then let s = NextLexem s in Some (VirtualFinal, s)
       else if at_keyword K pure_kw s then let s = NextLexem s in Some (VirtualPure, s)
       else Some (DeclareVirtual, s) }
     else Some (NotVirtual, s))"

definition parse_coroutine_kind :: "SyntaxKeyword \<Rightarrow> Rec \<Rightarrow> SyntaxAnalyzer \<Rightarrow> (FunctionKind \<times> Expression NonSyncTag) parsed" where
  "parse_coroutine_kind K rec s =
    (if at_keyword K (Common generator_kw) s then do {
       let s = NextLexem s;
       (tag, s) \<leftarrow> TryParseNonSyncTag K rec s;
       Some ((GeneratorFunction, tag), s) }
     else if at_keyword K (Common async_kw) s then do {
       let s = NextLexem s;
       (tag, s) \<leftarrow> TryParseNonSyncTag K rec s;
       Some ((AsyncFunction, tag), s) }
     else Some ((RegularFunction, NonSyncTagNone), s))"

definition parse_enable_if :: "SyntaxKeyword \<Rightarrow> Rec \<Rightarrow> SyntaxAnalyzer \<Rightarrow> Expression parsed" where
  "parse_enable_if K rec s =
    (if at_keyword K enable_if_kw s then do {
       let s = NextLexem s;
       (e, s) \<leftarrow> ParseExpressionInBrackets rec s;
       Some (e, s) }
     else Some (EmptyExpression, s))"

definition parse_function_modifiers :: "SyntaxKeyword \<Rightarrow> Rec \<Rightarrow> SyntaxAnalyzer \<Rightarrow> FunctionModifiers parsed" where
  "parse_function_modifiers K rec s = do {
    (virtual_function_kind, s) \<leftarrow> parse_virtual_kind K s;
    ((kind, coroutine_non_sync_tag), s) \<leftarrow> parse_coroutine_kind K rec s;
    let is_constexpr = at_keyword K constexpr_kw s;
    let s = (if is_constexpr then NextLexem s else s);
    let no_mangle = at_keyword K nomangle_kw s;
    let s = (if no_mangle then NextLexem s else s);
    let no_discard = at_keyword K nodiscard_kw s;
    let s = (if no_discard then NextLexem s else s);
    (condition, s) \<leftarrow> parse_enable_if K rec s;
    Some (\<lparr> fm_virtual_function_kind = virtual_function_kind, fm_kind = kind, fm_coroutine_non_sync_tag = coroutine_non_sync_tag,
      fm_constexpr = is_constexpr, fm_no_mangle = no_mangle, fm_no_discard = no_discard, fm_condition = condition \<rparr>, s) }"

text \<open>The name before the parameters or the operator; the flag is false where the function is returned as it is.\<close>

type_synonym FunctionName = "NameComponent list \<times> SrcLoc \<times> bool"

definition parse_function_name_components :: "SyntaxKeyword \<Rightarrow> byte list \<Rightarrow> NameComponent list \<times> SrcLoc \<Rightarrow> SyntaxAnalyzer \<Rightarrow> FunctionName parsed" where
  "parse_function_name_components K word = loop (\<lambda>(name, src_loc) s.
    if \<not> NotEndOfFile s then Some (Inr (name, src_loc, True), s)
    else if at_lexem CompletionIdentifier s then do {
      let name = name @ [NameComponent (lexem_text (cur s)) (loc s) True];
      let s = NextLexem s;
      Some (Inr (name, src_loc, False), s) }
    else if \<not> at_lexem Identifier s then let s = PushErrorMessage s in Some (Inr (name, src_loc, False), s)
    else do {
      let name = name @ [NameComponent (lexem_text (cur s)) (loc s) False];
      let src_loc = loc s;
      let s = NextLexem s;
      if at_lexem DoubleColon s then do {
        let s = NextLexem s;
        if at_lexem Identifier s \<or> at_lexem CompletionIdentifier s then Some (Inl (name, src_loc), s)
        else if word = K op_k then Some (Inr (name, src_loc, True), s)
        else let s = PushErrorMessage s in Some (Inr (name, src_loc, False), s) }
      else if at_lexem CompletionScope s then do {
        let name = name @ [NameComponent [] (loc s) True];
        let s = NextLexem s;
        Some (Inr (name, src_loc, False), s) }
      else Some (Inr (name, src_loc, True), s) })"

definition parse_function_name :: "SyntaxKeyword \<Rightarrow> byte list \<Rightarrow> SrcLoc \<Rightarrow> SyntaxAnalyzer \<Rightarrow> FunctionName parsed" where
  "parse_function_name K word src_loc s = do {
    let name = (if at_lexem DoubleColon s then [NameComponent [] SrcLoc_default False] else []);
    let s = (if at_lexem DoubleColon s then NextLexem s else s);
    if at_lexem CompletionScope s then do {
      let name = name @ [NameComponent [] (loc s) True];
      let s = NextLexem s;
      Some ((name @ [NameComponent [] (loc s) False], src_loc, False), s) }
    else if at_lexem CompletionIdentifier s then do {
      let name = name @ [NameComponent (lexem_text (cur s)) (loc s) True];
      let s = NextLexem s;
      Some ((name, src_loc, False), s) }
    else if at_lexem Identifier s then parse_function_name_components K word (name, src_loc) s
    else Some ((name, src_loc, True), s) }"

definition overloaded_operator_lexems :: "(Lexem_Type \<times> OverloadedOperator) list" where
  "overloaded_operator_lexems = [
    (Plus, OverloadedOperator.Add), (Minus, OverloadedOperator.Sub), (Asterisk, OverloadedOperator.Mul), (Slash, OverloadedOperator.Div),
    (Percent, OverloadedOperator.Rem), (DoubleEqual, CompareEqual), (LessEqualGreater, OverloadedOperator.CompareOrder),
    (Ampersand, OverloadedOperator.And), (Pipe, OverloadedOperator.Or), (Caret, OverloadedOperator.Xor),
    (DoubleLess, OverloadedOperator.ShiftLeft), (DoubleGreater, OverloadedOperator.ShiftRight),
    (PlusEqual, AssignAdd), (MinusEqual, AssignSub), (AsteriskEqual, AssignMul), (SlashEqual, AssignDiv), (PercentEqual, AssignRem),
    (AmpersandEqual, AssignAnd), (PipeEqual, AssignOr), (CaretEqual, AssignXor), (DoubleLessEqual, AssignShiftLeft),
    (DoubleGreaterEqual, AssignShiftRight), (Exclamation, LogicalNot), (Tilde, BitwiseNot), (Lexem_Type.Equal, Assign),
    (DoublePlus, Increment), (DoubleMinus, Decrement)]"

text \<open>The operator, with the cursor on its last lexem; \<open>None\<close> is the return after an error.\<close>

definition parse_overloaded_operator :: "SyntaxAnalyzer \<Rightarrow> OverloadedOperator option parsed" where
  "parse_overloaded_operator s =
    (case map_of overloaded_operator_lexems (lexem_type (cur s)) of
       Some op \<Rightarrow> Some (Some op, s)
     | None \<Rightarrow>
         if at_lexem SquareBracketLeft s then do {
           let s = NextLexem s;
           if \<not> at_lexem SquareBracketRight s then let s = PushErrorMessage s in Some (None, s) else Some (Some Indexing, s) }
         else if at_lexem BracketLeft s then do {
           let s = NextLexem s;
           if \<not> at_lexem BracketRight s then let s = PushErrorMessage s in Some (None, s) else Some (Some OverloadedOperator.Call, s) }
         else let s = PushErrorMessage s in Some (None, s))"

section \<open>Parameters and bodies of functions\<close>

definition is_constructor_or_destructor :: "SyntaxKeyword \<Rightarrow> NameComponent list \<Rightarrow> bool" where
  "is_constructor_or_destructor K name \<longleftrightarrow> nc_name (last name) = K constructor_kw \<or> nc_name (last name) = K destructor_kw"

definition parse_this_param :: "SyntaxKeyword \<Rightarrow> NameComponent list \<Rightarrow> SyntaxAnalyzer \<Rightarrow> TypeName FunctionParam list parsed" where
  "parse_this_param K name s =
    (if at_keyword K byval_kw s \<or> at_keyword K mut_k s \<or> at_keyword K imut_k s \<or> at_keyword K this_k s then do {
       let reference_modifier = (if at_keyword K byval_kw s then NoReference else Reference);
       let s = (if at_keyword K byval_kw s then NextLexem s else s);
       let mutability_modifier = mutability_at K s;
       let s = (if mutability_modifier = NoMutability then s else NextLexem s);
       let s = (if at_keyword K this_k s then NextLexem s else PushErrorMessage s);
       let mutability_modifier = (if is_constructor_or_destructor K name then Mutable else mutability_modifier);
       let this_param = FunctionParam (loc s) (K this_k) EmptyTypeName mutability_modifier reference_modifier;
       if at_lexem Comma s then do {
         let s = NextLexem s;
         let s = (if at_lexem BracketRight s then PushErrorMessage s else s);
         Some ([this_param], s) }
       else Some ([this_param], s) }
     else Some ([], s))"

definition add_this_param :: "SyntaxKeyword \<Rightarrow> NameComponent list \<Rightarrow> SrcLoc \<Rightarrow> TypeName FunctionParam list \<Rightarrow> TypeName FunctionParam list" where
  "add_this_param K name src_loc params =
    (if is_constructor_or_destructor K name \<and> (params = [] \<or> fp_name (hd params) \<noteq> K this_k)
     then FunctionParam src_loc (K this_k) EmptyTypeName Mutable Reference # params
     else params)"

definition parse_initialization_list :: "SyntaxKeyword \<Rightarrow> Rec \<Rightarrow> SyntaxAnalyzer \<Rightarrow> Initializer MemberInitializer list parsed" where
  "parse_initialization_list K rec = loop (\<lambda>members s.
    if \<not> NotEndOfFile s \<or> at_lexem BracketRight s then Some (Inr members, s)
    else do {
      let named = (at_lexem Identifier s \<or> at_lexem CompletionIdentifier s);
      let name = (if named then lexem_text (cur s) else []);
      let src_loc = (if named then loc s else SrcLoc_default);
      let completion_requested = at_lexem CompletionIdentifier s;
      let s = (if named then s else PushErrorMessage s);
      let s = NextLexem s;
      (i, s) \<leftarrow> ParseVariableInitializer K rec s;
      let s = (if i = EmptyInitializer then PushErrorMessage s else s);
      let members = members @ [MemberInitializer src_loc name i completion_requested];
      if at_lexem Comma s then do {
        let s = NextLexem s;
        if at_lexem BracketRight s then Some (Inr members, s) else Some (Inl members, s) }
      else Some (Inr members, s) }) []"

definition parse_constructor_initialization_list ::
  "SyntaxKeyword \<Rightarrow> Rec \<Rightarrow> SyntaxAnalyzer \<Rightarrow> Initializer StructNamedInitializer option parsed" where
  "parse_constructor_initialization_list K rec s =
    (if at_lexem BracketLeft s then do {
       let src_loc = loc s;
       let s = NextLexem s;
       (members, s) \<leftarrow> parse_initialization_list K rec s;
       let s = ExpectLexem BracketRight s;
       Some (Some (StructNamedInitializer src_loc members), s) }
     else Some (None, s))"

type_synonym FunctionBody = "Initializer StructNamedInitializer option \<times> BlockElement Block option \<times> FunctionBodyKind"

definition parse_function_body :: "SyntaxKeyword \<Rightarrow> Rec \<Rightarrow> SyntaxAnalyzer \<Rightarrow> FunctionBody parsed" where
  "parse_function_body K rec s =
    (if at_lexem Semicolon s then let s = NextLexem s in Some ((None, None, NoBodyKind), s)
     else if at_lexem Lexem_Type.Equal s then do {
       let s = NextLexem s;
       if at_keyword K default_kw s \<or> at_keyword K delete_kw s then do {
         let body_kind = (if lexem_text (cur s) = K default_kw then BodyGenerationRequired else BodyGenerationDisabled);
         let s = NextLexem s;
         let s = ExpectLexem Semicolon s;
         Some ((None, None, body_kind), s) }
       else let s = PushErrorMessage s in Some ((None, None, NoBodyKind), s) }
     else do {
       (constructor_initialization_list, s) \<leftarrow> parse_constructor_initialization_list K rec s;
       if at_lexem BraceLeft s then do {
         (block, s) \<leftarrow> ParseBlock rec s;
         Some ((constructor_initialization_list, Some block, NoBodyKind), s) }
       else let s = PushErrorMessage s in Some ((constructor_initialization_list, None, NoBodyKind), s) })"

section \<open>Functions\<close>

definition make_function :: "SrcLoc \<Rightarrow> NameComponent list \<Rightarrow> FunctionModifiers \<Rightarrow> (TypeName, Expression) FunctionTypeSyntax \<Rightarrow>
    FunctionBody \<Rightarrow> OverloadedOperator \<Rightarrow> bool \<Rightarrow> BodyFunction" where
  "make_function src_loc name modifiers ty body op is_conversion_constructor =
    (case body of (initialization_list, block, body_kind) \<Rightarrow>
       FunctionSyntax src_loc name (fm_condition modifiers) ty initialization_list block (fm_coroutine_non_sync_tag modifiers) op
         (fm_virtual_function_kind modifiers) body_kind (fm_kind modifiers) (fm_no_mangle modifiers) (fm_no_discard modifiers)
         is_conversion_constructor (fm_constexpr modifiers))"

text \<open>A function that is returned after its name; its type has the location of the function, and nothing else.\<close>

definition unfinished_function :: "SrcLoc \<Rightarrow> SrcLoc \<Rightarrow> NameComponent list \<Rightarrow> FunctionModifiers \<Rightarrow> BodyFunction" where
  "unfinished_function type_loc src_loc name modifiers = make_function src_loc name modifiers
    (FunctionTypeSyntax type_loc [] None None None None None NoMutability NoReference False) (None, None, NoBodyKind)
    OverloadedOperator.NoneOperator False"

text \<open>What follows the name: the parameters, the end of the type and the body.\<close>

definition parse_function_rest :: "SyntaxKeyword \<Rightarrow> Rec \<Rightarrow> SrcLoc \<Rightarrow> SrcLoc \<Rightarrow> NameComponent list \<Rightarrow> FunctionModifiers \<Rightarrow>
    OverloadedOperator \<Rightarrow> bool \<Rightarrow> SyntaxAnalyzer \<Rightarrow> BodyFunction parsed" where
  "parse_function_rest K rec type_loc src_loc name modifiers op is_conversion_constructor s = do {
    let s = ExpectLexem BracketLeft s;
    (this_params, s) \<leftarrow> parse_this_param K name s;
    (params, s) \<leftarrow> parse_function_params K rec this_params s;
    let params = add_this_param K name src_loc params;
    (ty, s) \<leftarrow> ParseFunctionTypeEnding K rec type_loc params s;
    (body, s) \<leftarrow> parse_function_body K rec s;
    Some (make_function src_loc name modifiers ty body op is_conversion_constructor, s) }"

definition ParseFunction :: "SyntaxKeyword \<Rightarrow> Rec \<Rightarrow> SyntaxAnalyzer \<Rightarrow> BodyFunction parsed" where
  "ParseFunction K rec s = do {
    let type_loc = loc s;
    let function_definition_lexem = lexem_text (cur s);
    let s = NextLexem s;
    (modifiers, s) \<leftarrow> parse_function_modifiers K rec s;
    ((name, src_loc, go_on), s) \<leftarrow> parse_function_name K function_definition_lexem type_loc s;
    if \<not> go_on then Some (unfinished_function type_loc src_loc name modifiers, s)
    else if function_definition_lexem = K fn_k then do {
      let s = (if name = [] then PushErrorMessage s else s);
      let name = (if name = [] then [NameComponent (str ''dummy'') SrcLoc_default False] else name);
      let is_conversion_constructor = (nc_name (last name) = K conversion_constructor_kw);
      let name = (if is_conversion_constructor
                  then butlast name @ [case last name of NameComponent n l c \<Rightarrow> NameComponent (K constructor_kw) l c] else name);
      parse_function_rest K rec type_loc src_loc name modifiers OverloadedOperator.NoneOperator is_conversion_constructor s }
    else do {
      let src_loc = loc s;
      (op, s) \<leftarrow> parse_overloaded_operator s;
      case op of
        None \<Rightarrow> Some (unfinished_function type_loc src_loc name modifiers, s)
      | Some op \<Rightarrow> do {
          let name = name @ [NameComponent (str (OverloadedOperatorToString op)) src_loc False];
          let s = NextLexem s;
          parse_function_rest K rec type_loc src_loc name modifiers op False s } } }"

section \<open>Classes\<close>

definition TryParseClassKindAttribute :: "SyntaxKeyword \<Rightarrow> SyntaxAnalyzer \<Rightarrow> ClassKindAttribute parsed" where
  "TryParseClassKindAttribute K s =
    (if at_keyword K abstract_kw s then let s = NextLexem s in Some (AbstractAttribute, s)
     else if at_keyword K interface_kw s then let s = NextLexem s in Some (InterfaceAttribute, s)
     else if at_keyword K polymorph_kw s then let s = NextLexem s in Some (PolymorphAttribute, s)
     else if at_keyword K final_kw s then let s = NextLexem s in Some (FinalAttribute, s)
     else Some (ClassAttribute, s))"

definition TryParseClassParentsList :: "SyntaxKeyword \<Rightarrow> Rec \<Rightarrow> SyntaxAnalyzer \<Rightarrow> ComplexName list parsed" where
  "TryParseClassParentsList K rec s =
    (if \<not> at_lexem Colon s then Some ([], s)
     else do {
       let s = NextLexem s;
       loop (\<lambda>parents s.
         if \<not> NotEndOfFile s then Some (Inr parents, s)
         else do {
           (name, s) \<leftarrow> ParseComplexName K rec s;
           if at_lexem Comma s then let s = NextLexem s in Some (Inl (parents @ [name]), s)
           else Some (Inr (parents @ [name]), s) }) [] s })"

definition TryParseClassFieldsOrdered :: "SyntaxKeyword \<Rightarrow> SyntaxAnalyzer \<Rightarrow> bool parsed" where
  "TryParseClassFieldsOrdered K s =
    (if at_keyword K ordered_kw s then let s = NextLexem s in Some (True, s) else Some (False, s))"

definition ParseClassBody :: "Rec \<Rightarrow> SyntaxAnalyzer \<Rightarrow> ClassSyntax parsed" where
  "ParseClassBody rec s = do {
    let src_loc = loc s;
    if at_lexem BraceLeft s then do {
      let s = NextLexem s;
      (elements, s) \<leftarrow> rec_ClassElements rec BraceRight s;
      let s = ExpectLexem BraceRight s;
      Some (ClassSyntax src_loc elements [] [] NonSyncTagNone StructAttribute False False, s) }
    else let s = PushErrorMessage s in Some (ClassSyntax src_loc [] [] [] NonSyncTagNone StructAttribute False False, s) }"

definition parse_class_kind :: "SyntaxKeyword \<Rightarrow> Rec \<Rightarrow> bool \<Rightarrow> SyntaxAnalyzer \<Rightarrow> (ClassKindAttribute \<times> ComplexName list) parsed" where
  "parse_class_kind K rec is_class s =
    (if is_class then do {
       (kind, s) \<leftarrow> TryParseClassKindAttribute K s;
       (parents, s) \<leftarrow> TryParseClassParentsList K rec s;
       Some ((kind, parents), s) }
     else Some ((StructAttribute, []), s))"

text \<open>What follows the name of a class: the attributes and the body.\<close>

definition parse_class_rest :: "SyntaxKeyword \<Rightarrow> Rec \<Rightarrow> SrcLoc \<Rightarrow> byte list \<Rightarrow> bool \<Rightarrow> SyntaxAnalyzer \<Rightarrow> ClassSyntax parsed" where
  "parse_class_rest K rec src_loc name is_class s = do {
    ((kind_attribute, parents), s) \<leftarrow> parse_class_kind K rec is_class s;
    (non_sync_tag, s) \<leftarrow> TryParseNonSyncTag K rec s;
    (keep_fields_order, s) \<leftarrow> TryParseClassFieldsOrdered K s;
    (no_discard, s) \<leftarrow> TryParseNoDiscard K s;
    (body, s) \<leftarrow> ParseClassBody rec s;
    case body of ClassSyntax l elements n ps tag kind ordered discard \<Rightarrow>
      Some (ClassSyntax src_loc elements name parents non_sync_tag kind_attribute keep_fields_order no_discard, s) }"

definition ParseClass :: "SyntaxKeyword \<Rightarrow> Rec \<Rightarrow> SyntaxAnalyzer \<Rightarrow> ClassSyntax parsed" where
  "ParseClass K rec s = do {
    let is_class = (lexem_text (cur s) = K (Common class_kw));
    let s = NextLexem s;
    if \<not> at_lexem Identifier s then
      let s = PushErrorMessage s in Some (ClassSyntax (loc s) [] [] [] NonSyncTagNone StructAttribute False False, s)
    else do {
      let name = lexem_text (cur s);
      let class_src_loc = loc s;
      let s = NextLexem s;
      parse_class_rest K rec class_src_loc name is_class s } }"

section \<open>Templates\<close>

datatype (plugins only: ) TemplateVar = NoTemplate | TypeTemplateVar TypeTemplateSyntax | FunctionTemplateVar FunctionTemplateSyntax

definition parse_template_param_kind :: "SyntaxKeyword \<Rightarrow> Rec \<Rightarrow> SyntaxAnalyzer \<Rightarrow> TemplateParamKind parsed" where
  "parse_template_param_kind K rec s =
    (if at_keyword K type_kw s then do {
       let s = NextLexem s;
       if at_keyword K template_kw s then let s = NextLexem s in Some (TypeTemplateParamData, s)
       else Some (TypeParamData, s) }
     else do {
       (ty, s) \<leftarrow> rec_TypeName rec s;
       Some (VariableParamData ty, s) })"

text \<open>The separator behind a parameter of a template or of its signature.\<close>

definition parse_template_separator :: "SyntaxAnalyzer \<Rightarrow> SyntaxAnalyzer" where
  "parse_template_separator s =
    (if at_lexem Comma s then
       let s = NextLexem s in if at_lexem TemplateBracketRight s then PushErrorMessage s else s
     else if at_lexem TemplateBracketRight s then s
     else TryRecoverAfterError g_template_arguments_list_control_lexems (PushErrorMessage s))"

text \<open>\<open>None\<close> is the return after an error.\<close>

definition parse_template_params :: "SyntaxKeyword \<Rightarrow> Rec \<Rightarrow> SyntaxAnalyzer \<Rightarrow> TemplateParam list option parsed" where
  "parse_template_params K rec = loop (\<lambda>params s.
    if \<not> NotEndOfFile s then Some (Inr (Some params), s)
    else if at_lexem TemplateBracketRight s then let s = NextLexem s in Some (Inr (Some params), s)
    else do {
      (kind, s) \<leftarrow> parse_template_param_kind K rec s;
      if \<not> at_lexem Identifier s then let s = PushErrorMessage s in Some (Inr None, s)
      else do {
        let params = params @ [TemplateParam (loc s) kind (lexem_text (cur s))];
        let s = NextLexem s;
        let s = parse_template_separator s;
        Some (Inl params, s) } }) []"

definition parse_signature_default :: "Rec \<Rightarrow> SyntaxAnalyzer \<Rightarrow> Expression parsed" where
  "parse_signature_default rec s =
    (if at_lexem Lexem_Type.Equal s then do {
       let s = NextLexem s;
       (e, s) \<leftarrow> rec_Expression rec s;
       Some (e, s) }
     else Some (EmptyExpression, s))"

text \<open>The parameters of the signature, and whether the template has the short form without them.\<close>

definition parse_signature_params :: "Rec \<Rightarrow> SyntaxAnalyzer \<Rightarrow> (SignatureParam list \<times> bool) parsed" where
  "parse_signature_params rec s =
    (if at_lexem TemplateBracketLeft s then do {
       let s = NextLexem s;
       (params, s) \<leftarrow> loop (\<lambda>params s.
         if \<not> NotEndOfFile s then Some (Inr params, s)
         else if at_lexem TemplateBracketRight s then let s = NextLexem s in Some (Inr params, s)
         else do {
           (name, s) \<leftarrow> rec_Expression rec s;
           (default_value, s) \<leftarrow> parse_signature_default rec s;
           let s = parse_template_separator s;
           Some (Inl (params @ [SignatureParam name default_value]), s) }) [] s;
       Some ((params, False), s) }
     else Some (([], True), s))"

definition parse_class_template ::
  "SyntaxKeyword \<Rightarrow> Rec \<Rightarrow> SrcLoc \<Rightarrow> TemplateParam list \<Rightarrow> bool \<Rightarrow> SyntaxAnalyzer \<Rightarrow> TemplateVar parsed" where
  "parse_class_template K rec thing_src_loc params is_class s = do {
    let s = NextLexem s;
    if \<not> at_lexem Identifier s then let s = PushErrorMessage s in Some (NoTemplate, s)
    else do {
      let name = lexem_text (cur s);
      let name_src_loc = loc s;
      let s = NextLexem s;
      ((signature_params, is_short_form), s) \<leftarrow> parse_signature_params rec s;
      (c, s) \<leftarrow> parse_class_rest K rec thing_src_loc (str ''_'') is_class s;
      Some (TypeTemplateVar (TypeTemplateSyntax name_src_loc name params signature_params (TemplatedClass c) is_short_form), s) } }"

definition parse_type_alias_template ::
  "Rec \<Rightarrow> TemplateParam list \<Rightarrow> SyntaxAnalyzer \<Rightarrow> TemplateVar parsed" where
  "parse_type_alias_template rec params s = do {
    let s = NextLexem s;
    if \<not> at_lexem Identifier s then let s = PushErrorMessage s in Some (NoTemplate, s)
    else do {
      let name = lexem_text (cur s);
      let name_src_loc = loc s;
      let s = NextLexem s;
      ((signature_params, is_short_form), s) \<leftarrow> parse_signature_params rec s;
      (alias, s) \<leftarrow> ParseTypeAliasBody rec s;
      case alias of TypeAlias l n v \<Rightarrow>
        Some (TypeTemplateVar (TypeTemplateSyntax name_src_loc name params signature_params
          (TemplatedTypeAlias (TypeAlias l name v)) is_short_form), s) } }"

definition ParseTemplate :: "SyntaxKeyword \<Rightarrow> Rec \<Rightarrow> SyntaxAnalyzer \<Rightarrow> TemplateVar parsed" where
  "ParseTemplate K rec s = do {
    let s = NextLexem s;
    let s = ExpectLexem TemplateBracketLeft s;
    (params, s) \<leftarrow> parse_template_params K rec s;
    case params of
      None \<Rightarrow> Some (NoTemplate, s)
    | Some params \<Rightarrow>
        if \<not> at_lexem Identifier s then let s = PushErrorMessage s in Some (NoTemplate, s)
        else if at_keyword K (Common struct_kw) s \<or> at_keyword K (Common class_kw) s
        then parse_class_template K rec (loc s) params (lexem_text (cur s) \<noteq> K (Common struct_kw)) s
        else if at_keyword K type_kw s then parse_type_alias_template rec params s
        else if at_keyword K fn_k s \<or> at_keyword K op_k s then do {
          (f, s) \<leftarrow> ParseFunction K rec s;
          Some (FunctionTemplateVar (FunctionTemplateSyntax (fn_src_loc f) params f), s) }
        else let s = PushErrorMessage s in Some (NoTemplate, s) }"

section \<open>Elements of classes\<close>

definition g_class_body_elements_control_lexems :: "SyntaxKeyword \<Rightarrow> ExpectedLexem list" where
  "g_class_body_elements_control_lexems K =
    map (ExpectedLexem_word K) [Common class_kw, Common struct_kw, fn_k, op_k, var_k, auto_k, Common static_assert_kw] @
    [ExpectedLexem_type BraceRight]"

definition parse_tag_expression :: "Rec \<Rightarrow> SyntaxAnalyzer \<Rightarrow> Expression parsed" where
  "parse_tag_expression rec s =
    (if at_lexem At s then do {
       let s = NextLexem s;
       (e, s) \<leftarrow> ParseExpressionInBrackets rec s;
       Some (e, s) }
     else Some (EmptyExpression, s))"

text \<open>The modifiers of a field and the tag of its reference.\<close>

definition parse_field_modifiers ::
  "SyntaxKeyword \<Rightarrow> Rec \<Rightarrow> SyntaxAnalyzer \<Rightarrow> (ReferenceModifier \<times> MutabilityModifier \<times> Expression) parsed" where
  "parse_field_modifiers K rec s =
    (if at_lexem Ampersand s then do {
       let s = NextLexem s;
       let mutability_modifier = mutability_or_constexpr_at K s;
       let s = (if mutability_modifier = NoMutability then s else NextLexem s);
       (tag, s) \<leftarrow> parse_tag_expression rec s;
       Some ((Reference, mutability_modifier, tag), s) }
     else do {
       let mutability_modifier = mutability_at K s;
       let s = (if mutability_modifier = NoMutability then s else NextLexem s);
       Some ((NoReference, mutability_modifier, EmptyExpression), s) })"

definition parse_class_field :: "SyntaxKeyword \<Rightarrow> Rec \<Rightarrow> SyntaxAnalyzer \<Rightarrow> ClassElement parsed" where
  "parse_class_field K rec s = do {
    let src_loc = loc s;
    (ty, s) \<leftarrow> ParseTypeName K rec s;
    (inner_tags, s) \<leftarrow> parse_tag_expression rec s;
    ((reference_modifier, mutability_modifier, tag), s) \<leftarrow> parse_field_modifiers K rec s;
    if at_lexem Identifier s then do {
      let name = lexem_text (cur s);
      let src_loc = loc s;
      let s = NextLexem s;
      (i, s) \<leftarrow> ParseVariableInitializer K rec s;
      let field = ClassFieldElement
        (ClassField src_loc ty name (nonempty_initializer i) tag inner_tags mutability_modifier reference_modifier);
      if at_lexem Semicolon s then let s = NextLexem s in Some (field, s)
      else do {
        let s = PushErrorMessage s;
        let s = TryRecoverAfterError (g_class_body_elements_control_lexems K) s;
        Some (field, s) } }
    else do {
      let s = PushErrorMessage s;
      let s = TryRecoverAfterError (g_class_body_elements_control_lexems K) s;
      Some (ClassFieldElement (ClassField src_loc ty [] None tag inner_tags mutability_modifier reference_modifier), s) } }"

definition parse_visibility_label :: "SyntaxKeyword \<Rightarrow> SyntaxAnalyzer \<Rightarrow> ClassElement parsed" where
  "parse_visibility_label K s = do {
    let visibility = (if lexem_text (cur s) = K protected_kw then Protected else if lexem_text (cur s) = K private_kw then Private else Public);
    let label = ClassVisibilityLabel (loc s) visibility;
    let s = NextLexem s;
    let s = ExpectLexem Colon s;
    Some (label, s) }"

definition template_class_elements :: "TemplateVar \<Rightarrow> ClassElement list" where
  "template_class_elements v =
    (case v of NoTemplate \<Rightarrow> [] | TypeTemplateVar t \<Rightarrow> [ClassTypeTemplate t] | FunctionTemplateVar t \<Rightarrow> [ClassFunctionTemplate t])"

text \<open>One round of the loop over the elements of a class; a macro expands to any number of elements.\<close>

definition parse_class_element :: "SyntaxKeyword \<Rightarrow> Rec \<Rightarrow> SyntaxAnalyzer \<Rightarrow> ClassElement list parsed" where
  "parse_class_element K rec s =
    (if at_keyword K fn_k s \<or> at_keyword K op_k s then returning (\<lambda>e. [ClassFunction e]) (ParseFunction K rec s)
     else if at_keyword K (Common struct_kw) s \<or> at_keyword K (Common class_kw) s
     then returning (\<lambda>e. [ClassClass e]) (ParseClass K rec s)
     else if at_keyword K var_k s then returning (\<lambda>e. [ClassVariables e]) (ParseVariablesDeclaration K rec s)
     else if at_keyword K thread_local_kw s then returning (\<lambda>e. [ClassVariables e]) (ParseThreadLocalVariablesDeclaration K rec s)
     else if at_keyword K auto_k s then returning (\<lambda>e. [ClassAutoVariable e]) (ParseAutoVariableDeclaration K rec s)
     else if at_keyword K (Common static_assert_kw) s then returning (\<lambda>e. [ClassStaticAssert e]) (ParseStaticAssert rec s)
     else if at_keyword K enum_kw s then returning (\<lambda>e. [ClassEnum e]) (ParseEnum K rec s)
     else if at_keyword K type_kw s then returning (\<lambda>e. [ClassTypeAlias e]) (ParseTypeAlias rec s)
     else if at_keyword K mixin_kw s then returning (\<lambda>e. [ClassMixin e]) (ParseMixin rec s)
     else if at_keyword K template_kw s then returning template_class_elements (ParseTemplate K rec s)
     else if at_keyword K public_kw s \<or> at_keyword K private_kw s \<or> at_keyword K protected_kw s
     then returning (\<lambda>e. [e]) (parse_visibility_label K s)
     else if at_lexem Identifier s then
       case FetchMacro (lexem_text (cur s)) ClassContext s of
         Some macro \<Rightarrow> ExpandMacro rec macro (rec_ClassElements rec EndOfFile) [] s
       | None \<Rightarrow> returning (\<lambda>e. [e]) (parse_class_field K rec s)
     else returning (\<lambda>e. [e]) (parse_class_field K rec s))"

definition ParseClassBodyElementsImpl :: "SyntaxKeyword \<Rightarrow> Rec \<Rightarrow> Lexem_Type \<Rightarrow> SyntaxAnalyzer \<Rightarrow> ClassElement list parsed" where
  "ParseClassBodyElementsImpl K rec end_lexem = loop (\<lambda>elements s.
    if \<not> NotEndOfFile s \<or> at_lexem end_lexem s then Some (Inr elements, s)
    else do {
      (es, s) \<leftarrow> parse_class_element K rec s;
      Some (Inl (elements @ es), s) }) []"

section \<open>Elements of namespaces\<close>

definition template_program_elements :: "TemplateVar \<Rightarrow> ProgramElement list" where
  "template_program_elements v =
    (case v of NoTemplate \<Rightarrow> [] | TypeTemplateVar t \<Rightarrow> [ProgramTypeTemplate t] | FunctionTemplateVar t \<Rightarrow> [ProgramFunctionTemplate t])"

definition parse_namespace :: "SyntaxKeyword \<Rightarrow> Rec \<Rightarrow> SyntaxAnalyzer \<Rightarrow> ProgramElement parsed" where
  "parse_namespace K rec s = do {
    let src_loc = loc s;
    let s = NextLexem s;
    let named = at_lexem Identifier s;
    let name = (if named then lexem_text (cur s) else []);
    let src_loc = (if named then loc s else src_loc);
    let s = (if named then NextLexem s else PushErrorMessage s);
    let s = (if at_lexem BraceLeft s then NextLexem s
             else TryRecoverAfterError (g_namespace_body_elements_start_lexems (\<lambda>k. K (Common k))) (PushErrorMessage s));
    (elements, s) \<leftarrow> rec_NamespaceElements rec BraceRight s;
    let s = ExpectLexem BraceRight s;
    Some (Namespace src_loc name elements, s) }"

text \<open>One round of the loop over the elements of a namespace; \<open>None\<close> is the end of the namespace.\<close>

definition parse_namespace_element :: "SyntaxKeyword \<Rightarrow> Rec \<Rightarrow> Lexem_Type \<Rightarrow> SyntaxAnalyzer \<Rightarrow> ProgramElement list option parsed" where
  "parse_namespace_element K rec end_lexem s =
    (if at_keyword K fn_k s \<or> at_keyword K op_k s then returning (\<lambda>e. Some [ProgramFunction e]) (ParseFunction K rec s)
     else if at_keyword K (Common struct_kw) s \<or> at_keyword K (Common class_kw) s
     then returning (\<lambda>e. Some [ProgramClass e]) (ParseClass K rec s)
     else if at_keyword K template_kw s then returning (\<lambda>e. Some (template_program_elements e)) (ParseTemplate K rec s)
     else if at_keyword K var_k s then returning (\<lambda>e. Some [ProgramVariables e]) (ParseVariablesDeclaration K rec s)
     else if at_keyword K thread_local_kw s
     then returning (\<lambda>e. Some [ProgramVariables e]) (ParseThreadLocalVariablesDeclaration K rec s)
     else if at_keyword K auto_k s then returning (\<lambda>e. Some [ProgramAutoVariable e]) (ParseAutoVariableDeclaration K rec s)
     else if at_keyword K (Common static_assert_kw) s then returning (\<lambda>e. Some [ProgramStaticAssert e]) (ParseStaticAssert rec s)
     else if at_keyword K enum_kw s then returning (\<lambda>e. Some [ProgramEnum e]) (ParseEnum K rec s)
     else if at_keyword K type_kw s then returning (\<lambda>e. Some [ProgramTypeAlias e]) (ParseTypeAlias rec s)
     else if at_keyword K mixin_kw s then returning (\<lambda>e. Some [ProgramMixin e]) (ParseMixin rec s)
     else if at_keyword K (Common namespace_kw) s then returning (\<lambda>e. Some [e]) (parse_namespace K rec s)
     else if at_lexem end_lexem s then Some (None, s)
     else case (if at_lexem Identifier s then FetchMacro (lexem_text (cur s)) NamespaceContext s else None) of
         Some macro \<Rightarrow> returning Some (ExpandMacro rec macro (rec_NamespaceElements rec EndOfFile) [] s)
       | None \<Rightarrow> do {
           let s = PushErrorMessage s;
           let s = TryRecoverAfterError (g_namespace_body_elements_start_lexems (\<lambda>k. K (Common k))) s;
           Some (Some [], s) })"

definition ParseNamespaceBodyImpl :: "SyntaxKeyword \<Rightarrow> Rec \<Rightarrow> Lexem_Type \<Rightarrow> SyntaxAnalyzer \<Rightarrow> ProgramElement list parsed" where
  "ParseNamespaceBodyImpl K rec end_lexem = loop (\<lambda>elements s.
    if \<not> NotEndOfFile s then Some (Inr elements, s)
    else do {
      (es, s) \<leftarrow> parse_namespace_element K rec end_lexem s;
      case es of None \<Rightarrow> Some (Inr elements, s) | Some es \<Rightarrow> Some (Inl (elements @ es), s) }) []"

section \<open>Definitions of macros\<close>

definition match_element_kinds :: "(byte list \<times> MatchElementKind) list" where
  "match_element_kinds = [(str ''ident'', MatchIdentifier), (str ''ty'', MatchTypename), (str ''expr'', MatchExpression),
    (str ''block'', MatchBlock), (str ''if_alternative'', MatchIfAlternative), (str ''opt'', MatchOptional), (str ''rep'', MatchRepeated)]"

definition is_macro_lexem :: "SyntaxAnalyzer \<Rightarrow> bool" where
  "is_macro_lexem s \<longleftrightarrow>
    at_lexem MacroIdentifier s \<or> at_lexem MacroUniqueIdentifier s \<or> at_lexem MacroBracketLeft s \<or> at_lexem MacroBracketRight s"

definition quoted :: "byte list \<Rightarrow> string \<Rightarrow> byte list" where
  "quoted name message = str ''\"'' @ name @ str ''\"'' @ str message"

definition parse_sub_elements :: "Rec \<Rightarrow> MatchElementKind \<Rightarrow> SyntaxAnalyzer \<Rightarrow> MatchElement list parsed" where
  "parse_sub_elements rec kind s =
    (if kind = MatchOptional \<or> kind = MatchRepeated then do {
       let s = ExpectLexem MacroBracketLeft s;
       (sub_elements, s) \<leftarrow> rec_MacroMatchBlock rec s;
       let s = ExpectLexem MacroBracketRight s;
       Some (sub_elements, s) }
     else Some ([], s))"

text \<open>The separator of a loop, a lexem in brackets; \<open>None\<close> is the return after an error.\<close>

definition parse_separator_lexem :: "SyntaxAnalyzer \<Rightarrow> Lexem option parsed" where
  "parse_separator_lexem s =
    (if at_lexem MacroBracketLeft s then do {
       let s = NextLexem s;
       if is_macro_lexem s then let s = PushErrorMessage s in Some (None, s)
       else do {
         let lexem = cur s;
         let s = NextLexem s;
         let s = ExpectLexem MacroBracketRight s;
         Some (Some lexem, s) } }
     else Some (Some (Lexem_default \<lparr> lexem_type := EndOfFile \<rparr>), s))"

definition parse_loop_separator :: "MatchElementKind \<Rightarrow> SyntaxAnalyzer \<Rightarrow> Lexem option parsed" where
  "parse_loop_separator kind s =
    (if kind = MatchRepeated then parse_separator_lexem s else Some (Some (Lexem_default \<lparr> lexem_type := EndOfFile \<rparr>), s))"

definition check_parameter_name :: "(byte list \<Rightarrow> bool) \<Rightarrow> byte list list \<Rightarrow> byte list \<Rightarrow> SyntaxAnalyzer \<Rightarrow> SyntaxAnalyzer" where
  "check_parameter_name IsKeyword elements_set name s =
    (let s = (if List.member elements_set name
              then add_error_message (quoted name '' macro parameter redefinition.'') (loc s) s else s)
     in if IsKeyword name then add_error_message (str ''Using keyword as macro element name'') (loc s) s else s)"

text \<open>A parameter of a macro; \<open>None\<close> is the return after an error.\<close>

definition parse_match_parameter ::
  "(byte list \<Rightarrow> bool) \<Rightarrow> Rec \<Rightarrow> byte list list \<Rightarrow> SyntaxAnalyzer \<Rightarrow> MatchElement option parsed" where
  "parse_match_parameter IsKeyword rec elements_set s = do {
    let name = lexem_text (cur s);
    let s = NextLexem (check_parameter_name IsKeyword elements_set name s);
    let s = ExpectLexem Colon s;
    if \<not> at_lexem Identifier s then let s = PushErrorMessage s in Some (None, s)
    else do {
      let element_type_str = lexem_text (cur s);
      let s = NextLexem s;
      let kind = (case map_of match_element_kinds element_type_str of Some k \<Rightarrow> k | None \<Rightarrow> MatchLexem);
      let s = (if map_of match_element_kinds element_type_str = None
               then add_error_message (quoted element_type_str '' unknown macro variable type'') (loc s) s else s);
      (sub_elements, s) \<leftarrow> parse_sub_elements rec kind s;
      (separator, s) \<leftarrow> parse_loop_separator kind s;
      case separator of
        None \<Rightarrow> Some (None, s)
      | Some lexem \<Rightarrow> Some (Some (MatchElement kind LexemAfterBlockEnd lexem name sub_elements), s) } }"

text \<open>
  The check of a block of a macro, run after it has been parsed completely: it finds out how the end of an optional or
  repeated part is detected. The errors have the location \<open>l\<close> of the end of the block.
\<close>

definition starts_with_lexem :: "MatchElement \<Rightarrow> bool" where
  "starts_with_lexem element \<longleftrightarrow> me_sub_elements element \<noteq> [] \<and> me_kind (hd (me_sub_elements element)) = MatchLexem"

definition same_type_and_text :: "Lexem \<Rightarrow> Lexem \<Rightarrow> bool" where
  "same_type_and_text l l' \<longleftrightarrow> lexem_type l = lexem_type l' \<and> lexem_text l = lexem_text l'"

definition block_check_errors :: "MatchElement \<Rightarrow> MatchElement option \<Rightarrow> byte list list" where
  "block_check_errors element next_element =
    (let start_lexem = me_lexem (hd (me_sub_elements element)) in
     (if \<not> starts_with_lexem element \<and> \<not> (\<exists>e. next_element = Some e \<and> me_kind e = MatchLexem)
      then [str ''Expected lexem at start or after \"'' @ me_name element @ str ''\" element.''] else []) @
     (case next_element of
        None \<Rightarrow> []
      | Some e \<Rightarrow>
          if me_kind e \<noteq> MatchLexem then []
          else
            (if me_kind element = MatchOptional \<and> starts_with_lexem element \<and> same_type_and_text start_lexem (me_lexem e)
             then [str ''Start lexem of optional macro block must be different from first lexem after optional block.''] else []) @
            (if me_kind element = MatchRepeated \<and> lexem_type (me_lexem element) \<noteq> EndOfFile \<and>
               same_type_and_text (me_lexem element) (me_lexem e)
             then [str ''Separator lexem of repeated macro block must be different from first lexem after repeated block.''] else []) @
            (if me_kind element = MatchRepeated \<and> lexem_type (me_lexem element) = EndOfFile \<and> starts_with_lexem element \<and>
               same_type_and_text start_lexem (me_lexem e)
             then [str ''Start lexem of repeated macro block without separator must be different from first lexem after repeated block.''] else [])))"

definition set_block_check :: "MatchElement \<Rightarrow> MatchElement option \<Rightarrow> MatchElement" where
  "set_block_check element next_element =
    (case element of MatchElement kind check lexem name sub_elements \<Rightarrow>
       if kind = MatchOptional \<or> kind = MatchRepeated then
         MatchElement kind
           (if starts_with_lexem element then LexemAtBlockStart
            else case next_element of
                Some e \<Rightarrow> if me_kind e = MatchLexem then LexemAfterBlockEnd else check
              | None \<Rightarrow> check) lexem name sub_elements
       else element)"

fun check_match_elements :: "SrcLoc \<Rightarrow> MatchElement list \<Rightarrow> MatchElement list \<times> LexSyntError list" where
  "check_match_elements l [] = ([], [])" |
  "check_match_elements l (element # rest) =
    (let next_element = (case rest of [] \<Rightarrow> None | e # _ \<Rightarrow> Some e);
         errors = (if me_kind element = MatchOptional \<or> me_kind element = MatchRepeated
                   then map (\<lambda>m. mk_error m l) (block_check_errors element next_element) else []);
         (rest', errors') = check_match_elements l rest
     in (set_block_check element next_element # rest', errors @ errors'))"

text \<open>The flag of the loop is false where the elements are returned without the check.\<close>

definition parse_match_elements :: "(byte list \<Rightarrow> bool) \<Rightarrow> Rec \<Rightarrow> SyntaxAnalyzer \<Rightarrow> (MatchElement list \<times> bool) parsed" where
  "parse_match_elements IsKeyword rec = loop (\<lambda>(elements, elements_set) s.
    if \<not> NotEndOfFile s \<or> at_lexem MacroBracketRight s then Some (Inr (elements, True), s)
    else if at_lexem MacroBracketLeft s \<or> at_lexem MacroUniqueIdentifier s then
      let s = PushErrorMessage s in Some (Inr (elements, False), s)
    else if at_lexem MacroIdentifier s then do {
      let name = lexem_text (cur s);
      (element, s) \<leftarrow> parse_match_parameter IsKeyword rec elements_set s;
      case element of
        None \<Rightarrow> Some (Inr (elements, False), s)
      | Some e \<Rightarrow> Some (Inl (elements @ [e], elements_set @ [name]), s) }
    else do {
      let element = MatchElement MatchLexem LexemAfterBlockEnd (cur s) [] [];
      let s = NextLexem s;
      Some (Inl (elements @ [element], elements_set), s) }) ([], [])"

definition push_errors :: "LexSyntError list \<Rightarrow> SyntaxAnalyzer \<Rightarrow> SyntaxAnalyzer" where
  "push_errors errors s = s \<lparr> sa_error_messages := sa_error_messages s @ errors \<rparr>"

definition ParseMacroMatchBlock :: "(byte list \<Rightarrow> bool) \<Rightarrow> Rec \<Rightarrow> SyntaxAnalyzer \<Rightarrow> MatchElement list parsed" where
  "ParseMacroMatchBlock IsKeyword rec s = do {
    ((elements, complete), s) \<leftarrow> parse_match_elements IsKeyword rec s;
    if \<not> complete then Some (elements, s)
    else do {
      let (elements, errors) = check_match_elements (loc s) elements;
      let s = push_errors errors s;
      Some (elements, s) } }"

text \<open>The block of a result element; \<open>None\<close> is the return after an error.\<close>

definition parse_result_block :: "Rec \<Rightarrow> byte list \<Rightarrow> SyntaxAnalyzer \<Rightarrow> ResultElement option parsed" where
  "parse_result_block rec name s =
    (if at_lexem MacroBracketLeft s then do {
       let s = NextLexem s;
       (sub_elements, s) \<leftarrow> rec_MacroResultBlock rec s;
       let s = ExpectLexem MacroBracketRight s;
       (separator, s) \<leftarrow> parse_separator_lexem s;
       case separator of
         None \<Rightarrow> Some (None, s)
       | Some lexem \<Rightarrow> Some (Some (ResultElement VariableElementWithMacroBlock lexem name sub_elements), s) }
     else Some (Some (ResultElement VariableElement Lexem_default name []), s))"

definition ParseMacroResultBlock :: "Rec \<Rightarrow> SyntaxAnalyzer \<Rightarrow> ResultElement list parsed" where
  "ParseMacroResultBlock rec = loop (\<lambda>elements s.
    if \<not> NotEndOfFile s \<or> at_lexem MacroBracketRight s then Some (Inr elements, s)
    else if at_lexem MacroBracketLeft s then let s = PushErrorMessage s in Some (Inr elements, s)
    else if at_lexem MacroIdentifier s then do {
      let name = lexem_text (cur s);
      let s = NextLexem s;
      (element, s) \<leftarrow> parse_result_block rec name s;
      case element of None \<Rightarrow> Some (Inr elements, s) | Some e \<Rightarrow> Some (Inl (elements @ [e]), s) }
    else do {
      let element = ResultElement ResultLexem (cur s) [] [];
      let s = NextLexem s;
      Some (Inl (elements @ [element]), s) }) []"

end
