(* ===== verification/Parser_Declarations_Laws.thy ===== *)
theory Parser_Declarations_Laws
  imports Parser_Declarations
begin

text \<open>
  The parsers of functions, classes, templates, elements of classes and namespaces, and definitions of macros in the logic of
  \<open>Parser_Base\<close>: they are monotone in the recursive parsers, they move the cursor forward only, and they return if the
  recursive calls for smaller states do.
\<close>

section \<open>Rules\<close>

lemma gets_case_ClassSyntax:
  "(\<And>l es n ps t' k o' d. gets t Q (f l es n ps t' k o' d)) \<Longrightarrow>
    gets t Q (case c of ClassSyntax l es n ps t' k o' d \<Rightarrow> f l es n ps t' k o' d)"
  by (cases c) simp

lemma gets_case_TypeAlias: "(\<And>l n v. gets t Q (f l n v)) \<Longrightarrow> gets t Q (case c of TypeAlias l n v \<Rightarrow> f l n v)"
  by (cases c) simp

lemma parse_template_separator_at: "at b s0 s \<Longrightarrow> at b s0 (parse_template_separator s)"
  unfolding parse_template_separator_def Let_def
  by (simp add: at_weaken [OF step_at(1)] at_weaken [OF step_at(2)] at_weaken [OF step_at(2) [OF step_at(1)]] TryRecoverAfterError_at)

section \<open>Monotonicity\<close>

lemma parse_coroutine_kind_mono [partial_function_mono]:
  "(\<And>q. mono_option (\<lambda>f. F f q)) \<Longrightarrow> mono_option (\<lambda>f. parse_coroutine_kind K (F f) s)"
  unfolding parse_coroutine_kind_def by (intro partial_function_mono)

lemma parse_enable_if_mono [partial_function_mono]:
  "(\<And>q. mono_option (\<lambda>f. F f q)) \<Longrightarrow> mono_option (\<lambda>f. parse_enable_if K (F f) s)"
  unfolding parse_enable_if_def by (intro partial_function_mono)

lemma parse_function_modifiers_mono [partial_function_mono]:
  "(\<And>q. mono_option (\<lambda>f. F f q)) \<Longrightarrow> mono_option (\<lambda>f. parse_function_modifiers K (F f) s)"
  unfolding parse_function_modifiers_def by (intro partial_function_mono)

lemma parse_initialization_list_mono [partial_function_mono]:
  "(\<And>q. mono_option (\<lambda>f. F f q)) \<Longrightarrow> mono_option (\<lambda>f. parse_initialization_list K (F f) s)"
  unfolding parse_initialization_list_def by (intro partial_function_mono)

lemma parse_constructor_initialization_list_mono [partial_function_mono]:
  "(\<And>q. mono_option (\<lambda>f. F f q)) \<Longrightarrow> mono_option (\<lambda>f. parse_constructor_initialization_list K (F f) s)"
  unfolding parse_constructor_initialization_list_def by (intro partial_function_mono)

lemma parse_function_body_mono [partial_function_mono]:
  "(\<And>q. mono_option (\<lambda>f. F f q)) \<Longrightarrow> mono_option (\<lambda>f. parse_function_body K (F f) s)"
  unfolding parse_function_body_def by (intro partial_function_mono)

lemma parse_function_rest_mono [partial_function_mono]:
  "(\<And>q. mono_option (\<lambda>f. F f q)) \<Longrightarrow> mono_option (\<lambda>f. parse_function_rest K (F f) l0 l n m op c s)"
  unfolding parse_function_rest_def by (intro partial_function_mono)

lemma ParseFunction_mono [partial_function_mono]:
  "(\<And>q. mono_option (\<lambda>f. F f q)) \<Longrightarrow> mono_option (\<lambda>f. ParseFunction K (F f) s)"
  unfolding ParseFunction_def by (intro partial_function_mono)

lemma TryParseClassParentsList_mono [partial_function_mono]:
  "(\<And>q. mono_option (\<lambda>f. F f q)) \<Longrightarrow> mono_option (\<lambda>f. TryParseClassParentsList K (F f) s)"
  unfolding TryParseClassParentsList_def by (intro partial_function_mono)

lemma ParseClassBody_mono [partial_function_mono]:
  "(\<And>q. mono_option (\<lambda>f. F f q)) \<Longrightarrow> mono_option (\<lambda>f. ParseClassBody (F f) s)"
  unfolding ParseClassBody_def by (intro partial_function_mono)

lemma parse_class_kind_mono [partial_function_mono]:
  "(\<And>q. mono_option (\<lambda>f. F f q)) \<Longrightarrow> mono_option (\<lambda>f. parse_class_kind K (F f) b' s)"
  unfolding parse_class_kind_def by (intro partial_function_mono)

lemma parse_class_rest_mono [partial_function_mono]:
  "(\<And>q. mono_option (\<lambda>f. F f q)) \<Longrightarrow> mono_option (\<lambda>f. parse_class_rest K (F f) l n c s)"
  unfolding parse_class_rest_def by (intro partial_function_mono)

lemma ParseClass_mono [partial_function_mono]:
  "(\<And>q. mono_option (\<lambda>f. F f q)) \<Longrightarrow> mono_option (\<lambda>f. ParseClass K (F f) s)"
  unfolding ParseClass_def by (intro partial_function_mono)

lemma parse_template_param_kind_mono [partial_function_mono]:
  "(\<And>q. mono_option (\<lambda>f. F f q)) \<Longrightarrow> mono_option (\<lambda>f. parse_template_param_kind K (F f) s)"
  unfolding parse_template_param_kind_def by (intro partial_function_mono)

lemma parse_template_params_mono [partial_function_mono]:
  "(\<And>q. mono_option (\<lambda>f. F f q)) \<Longrightarrow> mono_option (\<lambda>f. parse_template_params K (F f) s)"
  unfolding parse_template_params_def by (intro partial_function_mono)

lemma parse_signature_default_mono [partial_function_mono]:
  "(\<And>q. mono_option (\<lambda>f. F f q)) \<Longrightarrow> mono_option (\<lambda>f. parse_signature_default (F f) s)"
  unfolding parse_signature_default_def by (intro partial_function_mono)

lemma parse_signature_params_mono [partial_function_mono]:
  "(\<And>q. mono_option (\<lambda>f. F f q)) \<Longrightarrow> mono_option (\<lambda>f. parse_signature_params (F f) s)"
  unfolding parse_signature_params_def by (intro partial_function_mono)

lemma parse_class_template_mono [partial_function_mono]:
  "(\<And>q. mono_option (\<lambda>f. F f q)) \<Longrightarrow> mono_option (\<lambda>f. parse_class_template K (F f) l ps c s)"
  unfolding parse_class_template_def by (intro partial_function_mono)

lemma parse_type_alias_template_mono [partial_function_mono]:
  "(\<And>q. mono_option (\<lambda>f. F f q)) \<Longrightarrow> mono_option (\<lambda>f. parse_type_alias_template (F f) ps s)"
  unfolding parse_type_alias_template_def by (intro partial_function_mono)

lemma ParseTemplate_mono [partial_function_mono]:
  "(\<And>q. mono_option (\<lambda>f. F f q)) \<Longrightarrow> mono_option (\<lambda>f. ParseTemplate K (F f) s)"
  unfolding ParseTemplate_def by (intro partial_function_mono)

lemma parse_tag_expression_mono [partial_function_mono]:
  "(\<And>q. mono_option (\<lambda>f. F f q)) \<Longrightarrow> mono_option (\<lambda>f. parse_tag_expression (F f) s)"
  unfolding parse_tag_expression_def by (intro partial_function_mono)

lemma parse_field_modifiers_mono [partial_function_mono]:
  "(\<And>q. mono_option (\<lambda>f. F f q)) \<Longrightarrow> mono_option (\<lambda>f. parse_field_modifiers K (F f) s)"
  unfolding parse_field_modifiers_def by (intro partial_function_mono)

lemma parse_class_field_mono [partial_function_mono]:
  "(\<And>q. mono_option (\<lambda>f. F f q)) \<Longrightarrow> mono_option (\<lambda>f. parse_class_field K (F f) s)"
  unfolding parse_class_field_def by (intro partial_function_mono)

lemma parse_class_element_mono [partial_function_mono]:
  "(\<And>q. mono_option (\<lambda>f. F f q)) \<Longrightarrow> mono_option (\<lambda>f. parse_class_element K (F f) s)"
  unfolding parse_class_element_def by (intro partial_function_mono)

lemma ParseClassBodyElementsImpl_mono [partial_function_mono]:
  "(\<And>q. mono_option (\<lambda>f. F f q)) \<Longrightarrow> mono_option (\<lambda>f. ParseClassBodyElementsImpl K (F f) l s)"
  unfolding ParseClassBodyElementsImpl_def by (intro partial_function_mono)

lemma parse_namespace_mono [partial_function_mono]:
  "(\<And>q. mono_option (\<lambda>f. F f q)) \<Longrightarrow> mono_option (\<lambda>f. parse_namespace K (F f) s)"
  unfolding parse_namespace_def by (intro partial_function_mono)

lemma parse_namespace_element_mono [partial_function_mono]:
  "(\<And>q. mono_option (\<lambda>f. F f q)) \<Longrightarrow> mono_option (\<lambda>f. parse_namespace_element K (F f) l s)"
  unfolding parse_namespace_element_def by (intro partial_function_mono)

lemma ParseNamespaceBodyImpl_mono [partial_function_mono]:
  "(\<And>q. mono_option (\<lambda>f. F f q)) \<Longrightarrow> mono_option (\<lambda>f. ParseNamespaceBodyImpl K (F f) l s)"
  unfolding ParseNamespaceBodyImpl_def by (intro partial_function_mono)

lemma parse_sub_elements_mono [partial_function_mono]:
  "(\<And>q. mono_option (\<lambda>f. F f q)) \<Longrightarrow> mono_option (\<lambda>f. parse_sub_elements (F f) k s)"
  unfolding parse_sub_elements_def by (intro partial_function_mono)

lemma parse_match_parameter_mono [partial_function_mono]:
  "(\<And>q. mono_option (\<lambda>f. F f q)) \<Longrightarrow> mono_option (\<lambda>f. parse_match_parameter IsKeyword (F f) es s)"
  unfolding parse_match_parameter_def by (intro partial_function_mono)

lemma parse_match_elements_mono [partial_function_mono]:
  "(\<And>q. mono_option (\<lambda>f. F f q)) \<Longrightarrow> mono_option (\<lambda>f. parse_match_elements IsKeyword (F f) s)"
  unfolding parse_match_elements_def by (intro partial_function_mono)

lemma ParseMacroMatchBlock_mono [partial_function_mono]:
  "(\<And>q. mono_option (\<lambda>f. F f q)) \<Longrightarrow> mono_option (\<lambda>f. ParseMacroMatchBlock IsKeyword (F f) s)"
  unfolding ParseMacroMatchBlock_def by (intro partial_function_mono)

lemma parse_result_block_mono [partial_function_mono]:
  "(\<And>q. mono_option (\<lambda>f. F f q)) \<Longrightarrow> mono_option (\<lambda>f. parse_result_block (F f) n s)"
  unfolding parse_result_block_def by (intro partial_function_mono)

lemma ParseMacroResultBlock_mono [partial_function_mono]:
  "(\<And>q. mono_option (\<lambda>f. F f q)) \<Longrightarrow> mono_option (\<lambda>f. ParseMacroResultBlock (F f) s)"
  unfolding ParseMacroResultBlock_def by (intro partial_function_mono)

section \<open>Progress\<close>

lemma parse_virtual_kind_at:
  "at b s0 s \<Longrightarrow>
    gets t (\<lambda>_. at b s0) (parse_virtual_kind K s)"
  unfolding parse_virtual_kind_def by (assumption | rule parse_rules | (auto; fail))+

lemma parse_coroutine_kind_at:
  "at b s0 s \<Longrightarrow> rec_ok t rec r s0 \<Longrightarrow>
    gets t (\<lambda>_. at b s0) (parse_coroutine_kind K rec s)"
  unfolding parse_coroutine_kind_def by (assumption | rule TryParseNonSyncTag_at parse_rules | (auto; fail))+

lemma parse_enable_if_at:
  "at b s0 s \<Longrightarrow> rec_ok t rec r s0 \<Longrightarrow>
    gets t (\<lambda>_. at b s0) (parse_enable_if K rec s)"
  unfolding parse_enable_if_def by (assumption | rule ParseExpressionInBrackets_at parse_rules | (auto; fail))+

lemma parse_function_modifiers_at:
  "at b s0 s \<Longrightarrow> rec_ok t rec r s0 \<Longrightarrow>
    gets t (\<lambda>_. at b s0) (parse_function_modifiers K rec s)"
  unfolding parse_function_modifiers_def by (assumption | rule parse_virtual_kind_at parse_coroutine_kind_at parse_enable_if_at
    parse_rules | (auto; fail))+

lemma parse_function_name_components_at:
  "at b s0 s \<Longrightarrow>
    gets t (\<lambda>_. at b s0) (parse_function_name_components K w n s)"
  unfolding parse_function_name_components_def by (assumption | rule parse_rules | (auto; fail))+

lemma parse_function_name_at:
  "at b s0 s \<Longrightarrow>
    gets t (\<lambda>_. at b s0) (parse_function_name K w l s)"
  unfolding parse_function_name_def by (assumption | rule parse_function_name_components_at parse_function_name_components_at
    parse_rules parse_function_name_components_at [THEN gets_weaken] | (auto; fail))+

lemma parse_overloaded_operator_at:
  "at b s0 s \<Longrightarrow>
    gets t (\<lambda>_. at b s0) (parse_overloaded_operator  s)"
  unfolding parse_overloaded_operator_def by (assumption | rule parse_rules | (auto; fail))+

lemma parse_this_param_at:
  "at b s0 s \<Longrightarrow>
    gets t (\<lambda>_. at b s0) (parse_this_param K n s)"
  unfolding parse_this_param_def by (assumption | rule parse_rules | (auto; fail))+

lemma parse_initialization_list_at:
  "at b s0 s \<Longrightarrow> rec_ok t rec r s0 \<Longrightarrow> r \<or> b \<Longrightarrow>
    gets t (\<lambda>_. at b s0) (parse_initialization_list K rec s)"
  unfolding parse_initialization_list_def by (assumption | rule ParseVariableInitializer_at parse_rules | (auto; fail))+

lemma parse_constructor_initialization_list_at:
  "at b s0 s \<Longrightarrow> rec_ok t rec r s0 \<Longrightarrow>
    gets t (\<lambda>_. at b s0) (parse_constructor_initialization_list K rec s)"
  unfolding parse_constructor_initialization_list_def by (assumption | rule parse_initialization_list_at parse_rules | (auto;
    fail))+

lemma parse_function_body_at:
  "at b s0 s \<Longrightarrow> rec_ok t rec r s0 \<Longrightarrow> r \<or> b \<Longrightarrow>
    gets t (\<lambda>_. at b s0) (parse_function_body K rec s)"
  unfolding parse_function_body_def by (assumption | rule parse_constructor_initialization_list_at ParseBlock_at parse_rules |
    (auto; fail))+

lemma parse_function_rest_at:
  "at b s0 s \<Longrightarrow> rec_ok t rec r s0 \<Longrightarrow> r \<or> b \<Longrightarrow>
    gets t (\<lambda>_. at b s0) (parse_function_rest K rec l0 l n m op c s)"
  unfolding parse_function_rest_def by (assumption | rule parse_this_param_at parse_function_params_at ParseFunctionTypeEnding_at
    parse_function_body_at parse_rules | (auto; fail))+

lemma ParseFunction_at:
  "at b s0 s \<Longrightarrow> rec_ok t rec r s0 \<Longrightarrow> r \<or> b \<or> \<not> at_lexem EndOfFile s \<Longrightarrow>
    gets t (\<lambda>_. at (b \<or> NotEndOfFile s0 \<or> \<not> at_lexem EndOfFile s) s0) (ParseFunction K rec s)"
  unfolding ParseFunction_def by (assumption | rule parse_function_modifiers_at parse_function_name_at parse_overloaded_operator_at
    parse_function_rest_at parse_rules parse_function_rest_at [THEN gets_weaken] | (auto; fail))+

lemma TryParseClassKindAttribute_at:
  "at b s0 s \<Longrightarrow>
    gets t (\<lambda>_. at b s0) (TryParseClassKindAttribute K s)"
  unfolding TryParseClassKindAttribute_def by (assumption | rule parse_rules | (auto; fail))+

lemma TryParseClassParentsList_at:
  "at b s0 s \<Longrightarrow> rec_ok t rec r s0 \<Longrightarrow>
    gets t (\<lambda>_. at b s0) (TryParseClassParentsList K rec s)"
  unfolding TryParseClassParentsList_def by (assumption | rule ParseComplexName_at parse_rules gets_loop_rec [THEN gets_weaken] |
    (auto; fail))+

lemma TryParseClassFieldsOrdered_at:
  "at b s0 s \<Longrightarrow>
    gets t (\<lambda>_. at b s0) (TryParseClassFieldsOrdered K s)"
  unfolding TryParseClassFieldsOrdered_def by (assumption | rule parse_rules | (auto; fail))+

lemma ParseClassBody_at:
  "at b s0 s \<Longrightarrow> rec_ok t rec r s0 \<Longrightarrow>
    gets t (\<lambda>_. at b s0) (ParseClassBody rec s)"
  unfolding ParseClassBody_def by (assumption | rule parse_rules | (auto; fail))+

lemma parse_class_kind_at:
  "at b s0 s \<Longrightarrow> rec_ok t rec r s0 \<Longrightarrow>
    gets t (\<lambda>_. at b s0) (parse_class_kind K rec b' s)"
  unfolding parse_class_kind_def by (assumption | rule TryParseClassKindAttribute_at TryParseClassParentsList_at parse_rules |
    (auto; fail))+

lemma parse_class_rest_at:
  "at b s0 s \<Longrightarrow> rec_ok t rec r s0 \<Longrightarrow>
    gets t (\<lambda>_. at b s0) (parse_class_rest K rec l n c s)"
  unfolding parse_class_rest_def by (assumption | rule parse_class_kind_at TryParseNonSyncTag_at TryParseClassFieldsOrdered_at
    TryParseNoDiscard_at ParseClassBody_at gets_case_ClassSyntax parse_rules | (auto; fail))+

lemma ParseClass_at:
  "at b s0 s \<Longrightarrow> rec_ok t rec r s0 \<Longrightarrow> r \<or> b \<or> \<not> at_lexem EndOfFile s \<Longrightarrow>
    gets t (\<lambda>_. at (b \<or> NotEndOfFile s0 \<or> \<not> at_lexem EndOfFile s) s0) (ParseClass K rec s)"
  unfolding ParseClass_def by (assumption | rule parse_class_rest_at parse_rules parse_class_rest_at [THEN gets_weaken] | (auto;
    fail))+

lemma parse_template_param_kind_at:
  "at b s0 s \<Longrightarrow> rec_ok t rec r s0 \<Longrightarrow> r \<or> b \<Longrightarrow>
    gets t (\<lambda>_. at b s0) (parse_template_param_kind K rec s)"
  unfolding parse_template_param_kind_def by (assumption | rule parse_rules | (auto; fail))+

lemma parse_template_params_at:
  "at b s0 s \<Longrightarrow> rec_ok t rec r s0 \<Longrightarrow> r \<or> b \<Longrightarrow>
    gets t (\<lambda>_. at b s0) (parse_template_params K rec s)"
  unfolding parse_template_params_def by (assumption | rule parse_template_param_kind_at parse_template_separator_at parse_rules |
    (auto; fail))+

lemma parse_signature_default_at:
  "at b s0 s \<Longrightarrow> rec_ok t rec r s0 \<Longrightarrow>
    gets t (\<lambda>_. at b s0) (parse_signature_default rec s)"
  unfolding parse_signature_default_def by (assumption | rule parse_rules | (auto; fail))+

lemma parse_signature_params_at:
  "at b s0 s \<Longrightarrow> rec_ok t rec r s0 \<Longrightarrow>
    gets t (\<lambda>_. at b s0) (parse_signature_params rec s)"
  unfolding parse_signature_params_def by (assumption | rule parse_signature_default_at parse_template_separator_at parse_rules |
    (auto; fail))+

lemma parse_class_template_at:
  "at b s0 s \<Longrightarrow> rec_ok t rec r s0 \<Longrightarrow>
    gets t (\<lambda>_. at (b \<or> NotEndOfFile s0 \<or> \<not> at_lexem EndOfFile s) s0) (parse_class_template K rec l ps c s)"
  unfolding parse_class_template_def by (assumption | rule parse_signature_params_at parse_class_rest_at parse_rules | (auto;
    fail))+

lemma parse_type_alias_template_at:
  "at b s0 s \<Longrightarrow> rec_ok t rec r s0 \<Longrightarrow> r \<or> b \<or> \<not> at_lexem EndOfFile s \<Longrightarrow>
    gets t (\<lambda>_. at (b \<or> NotEndOfFile s0 \<or> \<not> at_lexem EndOfFile s) s0) (parse_type_alias_template rec ps s)"
  unfolding parse_type_alias_template_def by (assumption | rule parse_signature_params_at ParseTypeAliasBody_at gets_case_TypeAlias
    parse_rules | (auto; fail))+

lemma ParseTemplate_at:
  "at b s0 s \<Longrightarrow> rec_ok t rec r s0 \<Longrightarrow> r \<or> b \<or> \<not> at_lexem EndOfFile s \<Longrightarrow>
    gets t (\<lambda>_. at (b \<or> NotEndOfFile s0 \<or> \<not> at_lexem EndOfFile s) s0) (ParseTemplate K rec s)"
  unfolding ParseTemplate_def by (assumption | rule parse_template_params_at ParseFunction_at parse_class_template_at
    parse_type_alias_template_at parse_rules parse_class_template_at [THEN gets_weaken] parse_type_alias_template_at [THEN
    gets_weaken] | (auto; fail))+

lemma parse_tag_expression_at:
  "at b s0 s \<Longrightarrow> rec_ok t rec r s0 \<Longrightarrow>
    gets t (\<lambda>_. at b s0) (parse_tag_expression rec s)"
  unfolding parse_tag_expression_def by (assumption | rule ParseExpressionInBrackets_at parse_rules | (auto; fail))+

lemma parse_field_modifiers_at:
  "at b s0 s \<Longrightarrow> rec_ok t rec r s0 \<Longrightarrow>
    gets t (\<lambda>_. at b s0) (parse_field_modifiers K rec s)"
  unfolding parse_field_modifiers_def by (assumption | rule parse_tag_expression_at parse_rules | (auto; fail))+

lemma parse_class_field_at:
  "at b s0 s \<Longrightarrow> rec_ok t rec r s0 \<Longrightarrow>
    gets t (\<lambda>_. at (b \<or> NotEndOfFile s0 \<or> \<not> at_lexem EndOfFile s) s0) (parse_class_field K rec s)"
  unfolding parse_class_field_def by (assumption | rule ParseTypeName_at parse_tag_expression_at parse_field_modifiers_at
    ParseVariableInitializer_at parse_rules | (auto; fail))+

lemma parse_visibility_label_at:
  "at b s0 s \<Longrightarrow>
    gets t (\<lambda>_. at (b \<or> NotEndOfFile s0 \<or> \<not> at_lexem EndOfFile s) s0) (parse_visibility_label K s)"
  unfolding parse_visibility_label_def by (assumption | rule parse_rules | (auto; fail))+

lemma parse_class_element_at:
  "at b s0 s \<Longrightarrow> rec_ok t rec r s0 \<Longrightarrow>
    gets t (\<lambda>_. at (b \<or> NotEndOfFile s0 \<or> \<not> at_lexem EndOfFile s) s0) (parse_class_element K rec s)"
  unfolding parse_class_element_def by (assumption | rule gets_returning ParseFunction_at ParseClass_at ParseVariablesDeclaration_at
    ParseThreadLocalVariablesDeclaration_at ParseAutoVariableDeclaration_at ParseStaticAssert_at ParseEnum_at ParseTypeAlias_at
    ParseMixin_at ParseTemplate_at parse_visibility_label_at parse_class_field_at ExpandMacro_at [OF _ _ _ _ rec_fresh(3)]
    parse_rules | (auto; fail))+

lemma ParseClassBodyElementsImpl_at:
  "at b s0 s \<Longrightarrow> rec_ok t rec r s0 \<Longrightarrow>
    gets t (\<lambda>_. at b s0) (ParseClassBodyElementsImpl K rec l s)"
  unfolding ParseClassBodyElementsImpl_def by (assumption | rule parse_class_element_at parse_rules | (auto; fail))+

lemma parse_namespace_at:
  "at b s0 s \<Longrightarrow> rec_ok t rec r s0 \<Longrightarrow> r \<or> b \<or> \<not> at_lexem EndOfFile s \<Longrightarrow>
    gets t (\<lambda>_. at (b \<or> NotEndOfFile s0 \<or> \<not> at_lexem EndOfFile s) s0) (parse_namespace K rec s)"
  unfolding parse_namespace_def by (assumption | rule parse_rules | (auto; fail))+

lemma parse_namespace_element_at:
  "at b s0 s \<Longrightarrow> rec_ok t rec r s0 \<Longrightarrow>
    gets t (\<lambda>x. at (b \<or> x \<noteq> None \<and> (NotEndOfFile s0 \<or> \<not> at_lexem EndOfFile s)) s0) (parse_namespace_element K rec l s)"
  unfolding parse_namespace_element_def
  by (assumption | rule gets_returning [THEN gets_weaken_result] ParseFunction_at ParseClass_at ParseVariablesDeclaration_at
    ParseThreadLocalVariablesDeclaration_at ParseAutoVariableDeclaration_at ParseStaticAssert_at ParseEnum_at ParseTypeAlias_at
    ParseMixin_at ParseTemplate_at parse_namespace_at ExpandMacro_at [OF _ _ _ _ rec_fresh(4)] parse_rules | (auto split: if_splits; fail))+

lemma ParseNamespaceBodyImpl_at:
  "at b s0 s \<Longrightarrow> rec_ok t rec r s0 \<Longrightarrow>
    gets t (\<lambda>_. at b s0) (ParseNamespaceBodyImpl K rec l s)"
  unfolding ParseNamespaceBodyImpl_def by (assumption | rule parse_namespace_element_at parse_rules | (auto; fail))+

lemma parse_separator_lexem_at:
  "at b s0 s \<Longrightarrow>
    gets t (\<lambda>_. at b s0) (parse_separator_lexem  s)"
  unfolding parse_separator_lexem_def by (assumption | rule parse_rules | (auto; fail))+

lemma parse_loop_separator_at:
  "at b s0 s \<Longrightarrow>
    gets t (\<lambda>_. at b s0) (parse_loop_separator k s)"
  unfolding parse_loop_separator_def by (assumption | rule parse_separator_lexem_at parse_rules | (auto; fail))+

section \<open>Definitions of macros\<close>

text \<open>The parsers of macros call themselves only, so their laws need the recursive calls for blocks of macros only.\<close>

lemma push_errors_at: "at b s0 s \<Longrightarrow> at b s0 (push_errors es s)"
  by (simp add: push_errors_def at_errors)

definition macro_rec_ok :: "bool \<Rightarrow> (SyntaxAnalyzer \<Rightarrow> 'a parsed) \<Rightarrow> SyntaxAnalyzer \<Rightarrow> bool" where
  "macro_rec_ok t call s0 \<longleftrightarrow> (\<forall>s. at True s0 s \<longrightarrow> gets t (\<lambda>_. at False s) (call s))"

lemma macro_rec_ok_at: "macro_rec_ok t call s0 \<Longrightarrow> at b s0 s \<Longrightarrow> macro_rec_ok t call s"
  by (auto simp: macro_rec_ok_def dest: at_trans [of b s0 s True])

lemma macro_call_at: "at b s0 s \<Longrightarrow> macro_rec_ok t call s0 \<Longrightarrow> b \<Longrightarrow> gets t (\<lambda>_. at b s0) (call s)"
  by (rule gets_since [where c = False]) (auto simp: macro_rec_ok_def)

lemma rec_ok_macro:
  assumes "rec_ok t rec r s0"
  shows "macro_rec_ok t (rec_MacroMatchBlock rec) s0" and "macro_rec_ok t (rec_MacroResultBlock rec) s0"
proof -
  have "rec_ok t rec True s" "at False s s" if "at True s0 s" for s
    using rec_ok_at [OF assms that] at_refl [OF at_ok [OF that]] by simp_all
  then show "macro_rec_ok t (rec_MacroMatchBlock rec) s0" "macro_rec_ok t (rec_MacroResultBlock rec) s0"
    unfolding macro_rec_ok_def by (blast intro: rec_at(10,11) [of False])+
qed

lemma gets_loop_macro:
  assumes "at b s0 s" and "macro_rec_ok t call s0"
    and "\<And>c s1. at False s1 s1 \<Longrightarrow> macro_rec_ok t call s1 \<Longrightarrow> gets t (\<lambda>x. at (t \<and> isl x) s1) (body c s1)"
  shows "gets t (\<lambda>_. at b s0) (loop body c s)"
  by (rule gets_loop [OF _ assms(1)]) (blast intro: assms(3) macro_rec_ok_at [OF assms(2)])

lemmas macro_rules = macro_call_at [where call = "rec_MacroMatchBlock rec" for rec]
  macro_call_at [where call = "rec_MacroResultBlock rec" for rec] gets_loop_macro parse_separator_lexem_at parse_loop_separator_at
  push_errors_at parse_rules

lemma parse_sub_elements_at:
  "at b s0 s \<Longrightarrow> macro_rec_ok t (rec_MacroMatchBlock rec) s0 \<Longrightarrow> b \<Longrightarrow> gets t (\<lambda>_. at b s0) (parse_sub_elements rec k s)"
  unfolding parse_sub_elements_def by (assumption | rule macro_rules | (auto; fail))+

lemma check_parameter_name_cur [simp]: "cur (check_parameter_name IsKeyword es name s) = cur s"
  by (simp add: check_parameter_name_def add_error_message_def cur_def Let_def)

lemma check_parameter_name_at: "at b s0 s \<Longrightarrow> at b s0 (check_parameter_name IsKeyword es name s)"
  by (simp add: check_parameter_name_def add_error_message_at Let_def)

lemma parse_match_parameter_at:
  "at b s0 s \<Longrightarrow> macro_rec_ok t (rec_MacroMatchBlock rec) s0 \<Longrightarrow> \<not> at_lexem EndOfFile s \<Longrightarrow>
    gets t (\<lambda>_. at (b \<or> \<not> at_lexem EndOfFile s) s0) (parse_match_parameter IsKeyword rec es s)"
  unfolding parse_match_parameter_def by (assumption | rule check_parameter_name_at parse_sub_elements_at macro_rules | (auto; fail))+

lemma ParseMacroMatchBlock_at:
  "at b s0 s \<Longrightarrow> macro_rec_ok t (rec_MacroMatchBlock rec) s0 \<Longrightarrow> gets t (\<lambda>_. at b s0) (ParseMacroMatchBlock IsKeyword rec s)"
  unfolding ParseMacroMatchBlock_def parse_match_elements_def
  by (assumption | rule parse_match_parameter_at macro_rules | (auto; fail))+

lemma parse_result_block_at:
  "at b s0 s \<Longrightarrow> macro_rec_ok t (rec_MacroResultBlock rec) s0 \<Longrightarrow> b \<Longrightarrow> gets t (\<lambda>_. at b s0) (parse_result_block rec n s)"
  unfolding parse_result_block_def by (assumption | rule macro_rules | (auto; fail))+

lemma ParseMacroResultBlock_at:
  "at b s0 s \<Longrightarrow> macro_rec_ok t (rec_MacroResultBlock rec) s0 \<Longrightarrow> gets t (\<lambda>_. at b s0) (ParseMacroResultBlock rec s)"
  unfolding ParseMacroResultBlock_def by (assumption | rule parse_result_block_at macro_rules | (auto; fail))+

end
