(* ===== verification/Syntax_Analysis.thy ===== *)
theory Syntax_Analysis
  imports Parser_Declarations_Laws Source_Graph
begin

text \<open>
  The entry points of \<^verbatim>\<open>source/compiler0/lex_synt_lib/syntax_analyzer.cpp\<close>. The recursion between the parsers is closed here:
  \<open>parse\<close> is the least function that answers every goal by the parser for it, and \<open>None\<close> where the recursion
  does not end. The analyzer of a file is \<open>SyntaxAnalysis\<close>; the other entry points parse the results of mixins.

  What is shown: with macros whose repeated parts consume lexems every parser returns; and with any macros a parser that returns has moved the
  cursor forward, inside the list of lexems, and has only added errors and contexts of expansion.
\<close>

section \<open>The recursive parsers\<close>

definition parse_step :: "SyntaxKeyword \<Rightarrow> (byte list \<Rightarrow> bool) \<Rightarrow> Rec \<Rightarrow> Rec" where
  "parse_step K IsKeyword rec q =
    (case q of (goal, s) \<Rightarrow> case goal of
       GExpression \<Rightarrow> returning PExpression (ParseExpression K rec s)
     | GComponent \<Rightarrow> returning PExpression (ParseBinaryOperatorComponent K rec s)
     | GTypeName \<Rightarrow> returning PTypeName (ParseTypeName K rec s)
     | GInitializer b \<Rightarrow> returning PInitializer (ParseInitializer K rec b s)
     | GBlockElements end_lexem \<Rightarrow> returning PBlockElements (ParseBlockElementsImpl K rec end_lexem s)
     | GIfAlternative \<Rightarrow> returning PIfAlternative (ParseIfAlternative K rec s)
     | GDecomposeComponent \<Rightarrow> returning PDecomposeComponent (ParseDecomposeDeclarationComponent K rec s)
     | GClassElements end_lexem \<Rightarrow> returning PClassElements (ParseClassBodyElementsImpl K rec end_lexem s)
     | GNamespaceElements end_lexem \<Rightarrow> returning PNamespaceElements (ParseNamespaceBodyImpl K rec end_lexem s)
     | GMacroMatchBlock \<Rightarrow> returning PMacroMatchBlock (ParseMacroMatchBlock IsKeyword rec s)
     | GMacroResultBlock \<Rightarrow> returning PMacroResultBlock (ParseMacroResultBlock rec s))"

lemma parse_step_mono [partial_function_mono]:
  assumes "\<And>q. mono_option (\<lambda>f. F f q)"
  shows "mono_option (\<lambda>f. parse_step K IsKeyword (F f) q)"
proof -
  obtain g s where q: "q = (g, s)" by force
  show ?thesis unfolding parse_step_def q prod.case
    by (cases g; simp only: Goal.case) (intro partial_function_mono assms)+
qed

partial_function (option) parse :: "SyntaxKeyword \<Rightarrow> (byte list \<Rightarrow> bool) \<Rightarrow> Rec" where
  "parse K IsKeyword q = parse_step K IsKeyword (\<lambda>q. parse K IsKeyword q) q"

section \<open>Progress of the recursive parsers\<close>

text \<open>What a recursive parser promises for a goal and a state.\<close>

definition goal_ok :: "bool \<Rightarrow> Rec \<Rightarrow> Goal \<Rightarrow> SyntaxAnalyzer \<Rightarrow> bool" where
  "goal_ok t rec g s \<longleftrightarrow> gets t (\<lambda>x s'. answers g x \<and> at (progresses g \<and> NotEndOfFile s) s s') (rec (g, s))"

lemma gets_answer:
  assumes "gets t (\<lambda>_. at c s) m" and "p \<longrightarrow> c" and "\<And>x. answers g (node x)"
  shows "gets t (\<lambda>x s'. answers g x \<and> at p s s') (returning node m)"
  using assms by (auto simp: gets_def returning_def at_def split: option.splits)

lemma parse_step_ok:
  assumes "rec_ok t rec False s" and "cursor_ok s"
  shows "goal_ok t (parse_step K IsKeyword rec) g s"
proof -
  note ok = at_refl [OF assms(2)] assms(1)
  note macro_ok = rec_ok_macro [OF assms(1)]
  note laws = ParseExpression_at [OF ok] ParseBinaryOperatorComponent_at [OF ok] ParseTypeName_at [OF ok] ParseInitializer_at [OF ok]
    ParseBlockElementsImpl_at [OF ok] ParseIfAlternative_at [OF ok] ParseDecomposeDeclarationComponent_at [OF ok]
    ParseClassBodyElementsImpl_at [OF ok] ParseNamespaceBodyImpl_at [OF ok]
    ParseMacroMatchBlock_at [OF ok(1) macro_ok(1)] ParseMacroResultBlock_at [OF ok(1) macro_ok(2)]
  show ?thesis
    unfolding goal_ok_def parse_step_def prod.case
    by (cases g; simp only: Goal.case; rule gets_answer, rule laws) (simp_all add: progresses_def)
qed

lemma rec_ok_goals:
  "rec_ok t rec r s0 \<longleftrightarrow> (t \<longrightarrow> macros_safe (sa_macros s0)) \<and>
    (\<forall>g s. cursor_ok s \<and> sa_macros s = sa_macros s0 \<and> same_or_smaller r s s0 \<longrightarrow> goal_ok t rec g s)"
  by (simp add: rec_ok_def goal_ok_def)

lemma goal_ok_parse: "goal_ok t (parse_step K IsKeyword (parse K IsKeyword)) g s \<Longrightarrow> goal_ok t (parse K IsKeyword) g s"
  unfolding goal_ok_def by (subst parse.simps)

lemma parse_total:
  assumes "cursor_ok s" and "macros_safe (sa_macros s)"
  shows "goal_ok True (parse K IsKeyword) g s"
  using assms
proof (induction s arbitrary: g rule: wfp_induct_rule [OF wf_smaller])
  case (1 s)
  have "rec_ok True (parse K IsKeyword) False s"
    using 1 by (auto simp: rec_ok_goals same_or_smaller_def)
  then show ?case by (rule goal_ok_parse [OF parse_step_ok [OF _ 1(2)]])
qed

lemma parse_partial:
  assumes "cursor_ok s"
  shows "goal_ok False (parse K IsKeyword) g s"
proof -
  have "cursor_ok (snd q) \<longrightarrow> answers (fst q) (fst y) \<and> at (progresses (fst q) \<and> NotEndOfFile (snd q)) (snd q) (snd y)"
    if "parse K IsKeyword q = Some y" for q y
    using that
  proof (rule parse.raw_induct [rotated])
    fix pr K IsKeyword q y
    assume IH: "\<And>K IsKeyword q y. pr K IsKeyword q = Some y \<Longrightarrow>
        cursor_ok (snd q) \<longrightarrow> answers (fst q) (fst y) \<and> at (progresses (fst q) \<and> NotEndOfFile (snd q)) (snd q) (snd y)"
      and step: "parse_step K IsKeyword (\<lambda>q. pr K IsKeyword q) q = Some y"
    show "cursor_ok (snd q) \<longrightarrow> answers (fst q) (fst y) \<and> at (progresses (fst q) \<and> NotEndOfFile (snd q)) (snd q) (snd y)"
    proof
      assume ok: "cursor_ok (snd q)"
      have "rec_ok False (pr K IsKeyword) False (snd q)"
        using IH by (fastforce simp: rec_ok_goals goal_ok_def gets_def split: option.splits)
      from parse_step_ok [OF this ok, of K IsKeyword "fst q"] step
      show "answers (fst q) (fst y) \<and> at (progresses (fst q) \<and> NotEndOfFile (snd q)) (snd q) (snd y)"
        by (auto simp: goal_ok_def gets_def split: prod.splits)
    qed
  qed
  with assms show ?thesis by (fastforce simp: goal_ok_def gets_def split: option.splits)
qed

lemma parse_ok: "cursor_ok s \<Longrightarrow> (t \<longrightarrow> macros_safe (sa_macros s)) \<Longrightarrow> goal_ok t (parse K IsKeyword) g s"
  by (cases t) (simp_all add: parse_total parse_partial)

lemma parse_rec_ok: "(t \<longrightarrow> macros_safe (sa_macros s)) \<Longrightarrow> rec_ok t (parse K IsKeyword) r s"
  by (auto simp: rec_ok_goals parse_ok)

section \<open>Definitions of macros\<close>

definition macro_contexts :: "(byte list \<times> MacroContext) list" where
  "macro_contexts = [(str ''expr'', ExpressionContext), (str ''block'', BlockContext), (str ''class'', ClassContext),
    (str ''namespace'', NamespaceContext)]"

text \<open>A definition, without its effect on the known macros; \<open>None\<close> is the return after an error.\<close>

definition parse_macro_definition :: "(byte list \<Rightarrow> bool) \<Rightarrow> Rec \<Rightarrow> SyntaxAnalyzer \<Rightarrow> (MacroContext \<times> Macro) option parsed" where
  "parse_macro_definition IsKeyword rec s = do {
    let s = NextLexem s;
    let s = ExpectLexem MacroBracketLeft s;
    if \<not> at_lexem Identifier s then let s = PushErrorMessage s in Some (None, s)
    else do {
      let name = lexem_text (cur s);
      let src_loc = loc s;
      let s = NextLexem s;
      let s = (if IsKeyword name then add_error_message (str ''Using keyword as macro name'') src_loc s else s);
      let s = ExpectLexem Colon s;
      if \<not> at_lexem Identifier s then let s = PushErrorMessage s in Some (None, s)
      else do {
        let context_str = lexem_text (cur s);
        let s = NextLexem s;
        let macro_context = (case map_of macro_contexts context_str of Some c \<Rightarrow> c | None \<Rightarrow> ExpressionContext);
        let s = (if map_of macro_contexts context_str = None
                 then add_error_message (quoted context_str '' unknown macro context'') src_loc s else s);
        (match_template_elements, s) \<leftarrow> ParseMacroMatchBlock IsKeyword rec s;
        let s = ExpectLexem MacroBracketRight s;
        let s = ExpectLexem MinusGreater s;
        let s = ExpectLexem MacroBracketLeft s;
        (result_template_elements, s) \<leftarrow> ParseMacroResultBlock rec s;
        let s = ExpectLexem MacroBracketRight s;
        Some (Some (macro_context, \<lparr> mc_src_loc = src_loc, mc_name = name, mc_match_template_elements = match_template_elements,
          mc_result_template_elements = result_template_elements \<rparr>), s) } } }"

definition define_macro :: "MacroContext \<Rightarrow> Macro \<Rightarrow> SyntaxAnalyzer \<Rightarrow> SyntaxAnalyzer" where
  "define_macro macro_context macro s =
    (let macro_map = (case map_of (sa_macros s) macro_context of None \<Rightarrow> [] | Some m \<Rightarrow> m) in
     if map_of macro_map (mc_name macro) \<noteq> None
     then add_error_message (quoted (mc_name macro) '' macro redefinition.'') (mc_src_loc macro) s
     else s \<lparr> sa_macros := AList.update macro_context (AList.update (mc_name macro) macro macro_map) (sa_macros s) \<rparr>)"

definition ParseMacro :: "(byte list \<Rightarrow> bool) \<Rightarrow> Rec \<Rightarrow> SyntaxAnalyzer \<Rightarrow> unit parsed" where
  "ParseMacro IsKeyword rec s = do {
    (d, s) \<leftarrow> parse_macro_definition IsKeyword rec s;
    case d of None \<Rightarrow> Some ((), s) | Some (macro_context, macro) \<Rightarrow> Some ((), define_macro macro_context macro s) }"

section \<open>Entry points\<close>

definition at_macro_definition :: "SyntaxAnalyzer \<Rightarrow> bool" where
  "at_macro_definition s \<longleftrightarrow> at_lexem MacroIdentifier s \<and> lexem_text (cur s) = str ''?macro''"

definition parse_macros :: "(byte list \<Rightarrow> bool) \<Rightarrow> Rec \<Rightarrow> SyntaxAnalyzer \<Rightarrow> unit parsed" where
  "parse_macros IsKeyword rec = loop (\<lambda>_ s.
    if \<not> NotEndOfFile s \<or> \<not> at_macro_definition s then Some (Inr (), s)
    else do { (_, s) \<leftarrow> ParseMacro IsKeyword rec s; Some (Inl (), s) }) ()"

text \<open>What stands before the elements of the program: the imports and the macros.\<close>

definition parse_head :: "SyntaxKeyword \<Rightarrow> (byte list \<Rightarrow> bool) \<Rightarrow> Rec \<Rightarrow> SyntaxAnalyzer \<Rightarrow> Import list parsed" where
  "parse_head K IsKeyword rec s = do {
    let (imports, s) = parse_imports_loop (\<lambda>k. K (Common k)) s [];
    (_, s) \<leftarrow> parse_macros IsKeyword rec s;
    Some (imports, s) }"

definition DoAnalyzis ::
  "SyntaxKeyword \<Rightarrow> (byte list \<Rightarrow> bool) \<Rightarrow> Rec \<Rightarrow> SyntaxAnalyzer \<Rightarrow> ProgramElement list SyntaxAnalysisResult parsed" where
  "DoAnalyzis K IsKeyword rec s = do {
    (imports, s) \<leftarrow> parse_head K IsKeyword rec s;
    (program_elements, s) \<leftarrow> ParseNamespaceBodyImpl K rec EndOfFile s;
    Some (\<lparr> sr_imports = imports, sr_macros = Some (sa_macros s), sr_program_elements = program_elements,
      sr_error_messages = sa_error_messages s \<rparr>, s) }"

definition SyntaxAnalysis :: "SyntaxKeyword \<Rightarrow> (byte list \<Rightarrow> bool) \<Rightarrow> Lexem list \<Rightarrow> MacrosByContextMap \<Rightarrow> MacroExpansionContext list \<Rightarrow>
    byte list \<Rightarrow> (ProgramElement list SyntaxAnalysisResult \<times> MacroExpansionContext list) option" where
  "SyntaxAnalysis K IsKeyword lexems macros macro_expansion_contexts file_path_hash = do {
    (result, s) \<leftarrow> DoAnalyzis K IsKeyword (parse K IsKeyword)
      (SyntaxAnalyzer_make lexems macros macro_expansion_contexts file_path_hash 0);
    Some (result, sa_macro_expansion_contexts s) }"

text \<open>The parsers of single elements, with the errors they report.\<close>

definition ParseStandaloneNamespaceElements :: "SyntaxKeyword \<Rightarrow> Rec \<Rightarrow> SyntaxAnalyzer \<Rightarrow> (ProgramElement list \<times> LexSyntError list) parsed" where
  "ParseStandaloneNamespaceElements K rec s = do {
    (es, s) \<leftarrow> ParseNamespaceBodyImpl K rec EndOfFile s;
    Some ((es, sa_error_messages s), s) }"

definition ParseStandaloneClassElements :: "SyntaxKeyword \<Rightarrow> Rec \<Rightarrow> SyntaxAnalyzer \<Rightarrow> (ClassElement list \<times> LexSyntError list) parsed" where
  "ParseStandaloneClassElements K rec s = do {
    (es, s) \<leftarrow> ParseClassBodyElementsImpl K rec EndOfFile s;
    Some ((es, sa_error_messages s), s) }"

definition ParseStandaloneBlockElements :: "SyntaxKeyword \<Rightarrow> Rec \<Rightarrow> SyntaxAnalyzer \<Rightarrow> (BlockElement list \<times> LexSyntError list) parsed" where
  "ParseStandaloneBlockElements K rec s = do {
    (es, s) \<leftarrow> ParseBlockElementsImpl K rec EndOfFile s;
    Some ((es, sa_error_messages s), s) }"

definition require_end :: "SyntaxAnalyzer \<Rightarrow> SyntaxAnalyzer" where
  "require_end s = (if sa_it s \<noteq> length (sa_lexems s) \<and> \<not> at_lexem EndOfFile s then PushErrorMessage s else s)"

definition ParseStandaloneTypeName :: "SyntaxKeyword \<Rightarrow> Rec \<Rightarrow> SyntaxAnalyzer \<Rightarrow> (TypeName \<times> LexSyntError list) parsed" where
  "ParseStandaloneTypeName K rec s = do {
    (ty, s) \<leftarrow> ParseTypeName K rec s;
    let s = require_end s;
    Some ((ty, sa_error_messages s), s) }"

definition ParseStandaloneExpression :: "SyntaxKeyword \<Rightarrow> Rec \<Rightarrow> SyntaxAnalyzer \<Rightarrow> (Expression \<times> LexSyntError list) parsed" where
  "ParseStandaloneExpression K rec s = do {
    (e, s) \<leftarrow> ParseExpression K rec s;
    let s = require_end s;
    Some ((e, sa_error_messages s), s) }"

text \<open>The functions for the results of mixins: a method of a new analyzer, and the contexts of expansion it leaves.\<close>

definition run_standalone :: "(SyntaxAnalyzer \<Rightarrow> 'a parsed) \<Rightarrow> Lexem list \<Rightarrow> MacrosByContextMap \<Rightarrow> MacroExpansionContext list \<Rightarrow> byte list \<Rightarrow>
    ('a \<times> MacroExpansionContext list) option" where
  "run_standalone parse_fn lexems macros macro_expansion_contexts file_path_hash = do {
    (result, s) \<leftarrow> parse_fn (SyntaxAnalyzer_make lexems macros macro_expansion_contexts file_path_hash 0);
    Some (result, sa_macro_expansion_contexts s) }"

definition ParseNamespaceElements :: "SyntaxKeyword \<Rightarrow> (byte list \<Rightarrow> bool) \<Rightarrow> Lexem list \<Rightarrow> MacrosByContextMap \<Rightarrow>
    MacroExpansionContext list \<Rightarrow> byte list \<Rightarrow> ((ProgramElement list \<times> LexSyntError list) \<times> MacroExpansionContext list) option" where
  "ParseNamespaceElements K IsKeyword = run_standalone (ParseStandaloneNamespaceElements K (parse K IsKeyword))"

definition ParseClassElements :: "SyntaxKeyword \<Rightarrow> (byte list \<Rightarrow> bool) \<Rightarrow> Lexem list \<Rightarrow> MacrosByContextMap \<Rightarrow>
    MacroExpansionContext list \<Rightarrow> byte list \<Rightarrow> ((ClassElement list \<times> LexSyntError list) \<times> MacroExpansionContext list) option" where
  "ParseClassElements K IsKeyword = run_standalone (ParseStandaloneClassElements K (parse K IsKeyword))"

definition ParseBlockElements :: "SyntaxKeyword \<Rightarrow> (byte list \<Rightarrow> bool) \<Rightarrow> Lexem list \<Rightarrow> MacrosByContextMap \<Rightarrow>
    MacroExpansionContext list \<Rightarrow> byte list \<Rightarrow> ((BlockElement list \<times> LexSyntError list) \<times> MacroExpansionContext list) option" where
  "ParseBlockElements K IsKeyword = run_standalone (ParseStandaloneBlockElements K (parse K IsKeyword))"

definition ParseTypeName_lexems :: "SyntaxKeyword \<Rightarrow> (byte list \<Rightarrow> bool) \<Rightarrow> Lexem list \<Rightarrow> MacrosByContextMap \<Rightarrow>
    MacroExpansionContext list \<Rightarrow> byte list \<Rightarrow> ((TypeName \<times> LexSyntError list) \<times> MacroExpansionContext list) option" where
  "ParseTypeName_lexems K IsKeyword = run_standalone (ParseStandaloneTypeName K (parse K IsKeyword))"

definition ParseExpression_lexems :: "SyntaxKeyword \<Rightarrow> (byte list \<Rightarrow> bool) \<Rightarrow> Lexem list \<Rightarrow> MacrosByContextMap \<Rightarrow>
    MacroExpansionContext list \<Rightarrow> byte list \<Rightarrow> ((Expression \<times> LexSyntError list) \<times> MacroExpansionContext list) option" where
  "ParseExpression_lexems K IsKeyword = run_standalone (ParseStandaloneExpression K (parse K IsKeyword))"

end
