(* ===== verification/Syntax_Analysis_Laws.thy ===== *)
theory Syntax_Analysis_Laws
  imports Syntax_Analysis
begin

text \<open>
  The properties of the syntax analyzer: it returns if the macros are safe, it reads the whole file, it keeps errors and
  contexts of expansion, macros are checked, binary operators have the priorities of the table.
\<close>

section \<open>Loops\<close>

definition loop_step :: "('c \<Rightarrow> SyntaxAnalyzer \<Rightarrow> ('c + 'r) parsed) \<Rightarrow> 'c \<times> SyntaxAnalyzer \<Rightarrow> 'c \<times> SyntaxAnalyzer \<Rightarrow> bool" where
  "loop_step body x y \<longleftrightarrow> body (fst x) (snd x) = Some (Inl (fst y), snd y)"

text \<open>A loop returns exactly if finitely many rounds lead to a round that leaves it.\<close>

lemma loop_iff:
  "loop body c s = Some (r, s') \<longleftrightarrow> (\<exists>c1 s1. (loop_step body)\<^sup>*\<^sup>* (c, s) (c1, s1) \<and> body c1 s1 = Some (Inr r, s'))"
proof
  have "b = body \<longrightarrow> (\<exists>c1 s1. (loop_step body)\<^sup>*\<^sup>* (c, s) (c1, s1) \<and> body c1 s1 = Some (Inr (fst y), snd y))"
    if "loop b c s = Some y" for b c s y
    using that
  proof (rule loop.raw_induct [rotated])
    fix lp b c s y
    assume IH: "\<And>b c s y. lp b c s = Some y \<Longrightarrow>
        b = body \<longrightarrow> (\<exists>c1 s1. (loop_step body)\<^sup>*\<^sup>* (c, s) (c1, s1) \<and> body c1 s1 = Some (Inr (fst y), snd y))"
      and step: "Option.bind (b c s) (\<lambda>(x, s). case x of Inl c' \<Rightarrow> lp b c' s | Inr r \<Rightarrow> Some (r, s)) = Some y"
    show "b = body \<longrightarrow> (\<exists>c1 s1. (loop_step body)\<^sup>*\<^sup>* (c, s) (c1, s1) \<and> body c1 s1 = Some (Inr (fst y), snd y))"
    proof
      assume b: "b = body"
      with step obtain x s' where x: "body c s = Some (x, s')"
        "(case x of Inl c' \<Rightarrow> lp b c' s' | Inr r \<Rightarrow> Some (r, s')) = Some y" by (auto simp: bind_eq_Some_conv)
      show "\<exists>c1 s1. (loop_step body)\<^sup>*\<^sup>* (c, s) (c1, s1) \<and> body c1 s1 = Some (Inr (fst y), snd y)"
      proof (cases x)
        case (Inl c')
        then have "loop_step body (c, s) (c', s')" using x(1) by (simp add: loop_step_def)
        with IH [of b c' s' y] x(2) Inl b show ?thesis by (auto intro: converse_rtranclp_into_rtranclp)
      next
        case (Inr r)
        with x show ?thesis by (intro exI [of _ c] exI [of _ s]) auto
      qed
    qed
  qed
  then show "loop body c s = Some (r, s') \<Longrightarrow> \<exists>c1 s1. (loop_step body)\<^sup>*\<^sup>* (c, s) (c1, s1) \<and> body c1 s1 = Some (Inr r, s')"
    by fastforce
  assume "\<exists>c1 s1. (loop_step body)\<^sup>*\<^sup>* (c, s) (c1, s1) \<and> body c1 s1 = Some (Inr r, s')"
  then obtain c1 s1 where *: "(loop_step body)\<^sup>*\<^sup>* (c, s) (c1, s1)" "body c1 s1 = Some (Inr r, s')" by blast
  from *(1) show "loop body c s = Some (r, s')"
  proof (induction "(c, s)" arbitrary: c s rule: converse_rtranclp_induct)
    case base
    then show ?case using *(2) by (subst loop.simps) simp
  next
    case (step y)
    then show ?case by (cases y) (subst loop.simps, simp add: loop_step_def)
  qed
qed

lemma loop_invariant:
  assumes "loop body c s = Some (r, s')" and "I c s"
    and "\<And>c s c' s'. I c s \<Longrightarrow> body c s = Some (Inl c', s') \<Longrightarrow> I c' s'"
    and "\<And>c s. I c s \<Longrightarrow> body c s = Some (Inr r, s') \<Longrightarrow> Q"
  shows Q
proof -
  obtain c1 s1 where *: "(loop_step body)\<^sup>*\<^sup>* (c, s) (c1, s1)" "body c1 s1 = Some (Inr r, s')"
    using assms(1) by (auto simp: loop_iff)
  from *(1) have "I c1 s1"
    by (induction "(c1, s1)" arbitrary: c1 s1 rule: rtranclp_induct) (use assms(2,3) in \<open>auto simp: loop_step_def\<close>)
  with *(2) show Q by (rule assms(4) [rotated])
qed

lemma loop_diverges:
  assumes "I c s" and "\<And>c s. I c s \<Longrightarrow> \<exists>c' s'. body c s = Some (Inl c', s') \<and> I c' s'"
  shows "loop body c s = None"
proof (rule ccontr)
  assume "loop body c s \<noteq> None"
  then obtain r s' where "loop body c s = Some (r, s')" by auto
  then show False by (rule loop_invariant [where I = I]) (use assms in fastforce)+
qed

section \<open>The head of a file\<close>

text \<open>The parsers of macros return with any macros, because they do not expand them.\<close>

lemma goal_ok_macro_block:
  "goal_ok t rec GMacroMatchBlock s \<Longrightarrow> gets t (\<lambda>_. at False s) (rec_MacroMatchBlock rec s)"
  "goal_ok t rec GMacroResultBlock s \<Longrightarrow> gets t (\<lambda>_. at False s) (rec_MacroResultBlock rec s)"
  unfolding goal_ok_def rec_defs by (auto simp: progresses_def elim!: gets_project)

lemma parse_macro_blocks:
  assumes "cursor_ok s"
  shows "goal_ok True (parse K IsKeyword) GMacroMatchBlock s" and "goal_ok True (parse K IsKeyword) GMacroResultBlock s"
  using assms
proof (induction "effort s" arbitrary: s rule: less_induct)
  case less
  have smaller: "effort s' < effort s" "cursor_ok s'" if "at True s s'" for s'
    using that by (auto simp: at_def follows_def)
  have ok: "macro_rec_ok True (rec_MacroMatchBlock (parse K IsKeyword)) s" "macro_rec_ok True (rec_MacroResultBlock (parse K IsKeyword)) s"
    unfolding macro_rec_ok_def using less.hyps smaller by (blast intro: goal_ok_macro_block)+
  { case 1
    show ?case
      by (rule goal_ok_parse, unfold goal_ok_def parse_step_def prod.case Goal.case)
        (rule gets_answer [OF ParseMacroMatchBlock_at [OF at_refl [OF 1] ok(1)]], simp_all add: progresses_def)
  next
    case 2
    show ?case
      by (rule goal_ok_parse, unfold goal_ok_def parse_step_def prod.case Goal.case)
        (rule gets_answer [OF ParseMacroResultBlock_at [OF at_refl [OF 2] ok(2)]], simp_all add: progresses_def) }
qed

lemma parse_macro_rec_ok:
  "macro_rec_ok True (rec_MacroMatchBlock (parse K IsKeyword)) s" "macro_rec_ok True (rec_MacroResultBlock (parse K IsKeyword)) s"
  by (auto simp: macro_rec_ok_def intro: goal_ok_macro_block parse_macro_blocks at_ok)

lemma parse_macro_definition_at:
  "at b s0 s \<Longrightarrow> macro_rec_ok t (rec_MacroMatchBlock rec) s0 \<Longrightarrow> macro_rec_ok t (rec_MacroResultBlock rec) s0 \<Longrightarrow>
    gets t (\<lambda>_. at (b \<or> \<not> at_lexem EndOfFile s) s0) (parse_macro_definition IsKeyword rec s)"
  unfolding parse_macro_definition_def
  by (assumption | rule ParseMacroMatchBlock_at ParseMacroResultBlock_at parse_rules | (auto; fail))+

text \<open>What the definition of a macro leaves unchanged.\<close>

definition head_moves :: "bool \<Rightarrow> SyntaxAnalyzer \<Rightarrow> SyntaxAnalyzer \<Rightarrow> bool" where
  "head_moves b s s' \<longleftrightarrow> at b s (s' \<lparr> sa_macros := sa_macros s \<rparr>)"

lemma state_macros [simp]:
  "cursor_ok (s \<lparr> sa_macros := m \<rparr>) = cursor_ok s" "effort (s \<lparr> sa_macros := m \<rparr>) = effort s"
  "advances s0 (s \<lparr> sa_macros := m \<rparr>) = advances s0 s"
  by (simp_all add: cursor_ok_def effort_def NotEndOfFile_def advances_def)

lemma head_moves_trans: "head_moves b s s' \<Longrightarrow> head_moves c s' s'' \<Longrightarrow> head_moves (b \<or> c) s s''"
  unfolding head_moves_def at_def follows_def by (auto intro: advances_trans)

lemma head_moves_at: "at b s s' \<Longrightarrow> head_moves b s s'"
  by (simp add: head_moves_def at_def follows_def)

lemma head_moves_ok: "head_moves b s s' \<Longrightarrow> cursor_ok s'"
  by (simp add: head_moves_def at_def follows_def)

lemma head_moves_less: "head_moves True s s' \<Longrightarrow> effort s' < effort s"
  by (simp add: head_moves_def at_def)

lemma head_moves_weaken: "head_moves b s s' \<Longrightarrow> head_moves False s s'"
  by (simp add: head_moves_def at_def)

lemma define_macro_moves: "cursor_ok s \<Longrightarrow> head_moves False s (define_macro c m s)"
  unfolding define_macro_def Let_def
  by (auto intro: head_moves_at [OF add_error_message_at [OF at_refl]]) (simp add: head_moves_def at_refl)

lemma ParseMacro_moves:
  assumes "cursor_ok s"
  shows "gets True (\<lambda>_. head_moves (\<not> at_lexem EndOfFile s) s) (ParseMacro IsKeyword (parse K IsKeyword) s)"
  unfolding ParseMacro_def
proof (rule gets_bind [OF parse_macro_definition_at [OF at_refl [OF assms] parse_macro_rec_ok]])
  fix d s' assume *: "at (False \<or> \<not> at_lexem EndOfFile s) s s'"
  have "head_moves (\<not> at_lexem EndOfFile s) s (define_macro c m s')" for c m
    using head_moves_trans [OF head_moves_at [OF *] define_macro_moves [OF at_ok [OF *]]] by simp
  with head_moves_at [OF *]
  show "gets True (\<lambda>_. head_moves (\<not> at_lexem EndOfFile s) s)
      (case d of None \<Rightarrow> Some ((), s') | Some (c, m) \<Rightarrow> Some ((), define_macro c m s'))"
    by (auto simp: gets_def split: option.splits)
qed

lemma parse_macros_simps:
  "parse_macros IsKeyword rec s =
    (if \<not> NotEndOfFile s \<or> \<not> at_macro_definition s then Some ((), s)
     else Option.bind (ParseMacro IsKeyword rec s) (\<lambda>(_, s). parse_macros IsKeyword rec s))"
  unfolding parse_macros_def by (subst loop.simps) (cases "ParseMacro IsKeyword rec s"; auto)

lemma parse_macros_moves:
  assumes "cursor_ok s"
  shows "gets True (\<lambda>_. head_moves False s) (parse_macros IsKeyword (parse K IsKeyword) s)"
  using assms
proof (induction "effort s" arbitrary: s rule: less_induct)
  case less
  have refl: "head_moves False s s" using less.prems by (simp add: head_moves_at at_refl)
  show ?case
  proof (cases "NotEndOfFile s \<and> at_macro_definition s")
    case True
    then have eof: "\<not> at_lexem EndOfFile s" by (auto simp: at_macro_definition_def)
    have "gets True (\<lambda>_. head_moves False s) (parse_macros IsKeyword (parse K IsKeyword) s')"
      if "head_moves True s s'" for s'
    proof (rule gets_mono [OF less.hyps])
      show "effort s' < effort s" "cursor_ok s'" using that by (auto dest: head_moves_less head_moves_ok)
      show "head_moves False s s''" if "head_moves False s' s''" for s''
        using head_moves_trans [OF \<open>head_moves True s s'\<close> that] by (rule head_moves_weaken)
    qed
    then show ?thesis
      using ParseMacro_moves [OF less.prems, of IsKeyword K] eof True by (subst parse_macros_simps) (auto intro: gets_bind)
  next
    case False
    then show ?thesis by (subst parse_macros_simps) (auto simp: gets_def refl)
  qed
qed

lemma parse_imports_at: "cursor_ok s \<Longrightarrow> at False s (snd (parse_imports_loop Keyword s ims))"
proof (induction Keyword s ims rule: parse_imports_loop.induct)
  case (1 Keyword s ims)
  let ?s = "NextLexem s"
  have next_at: "at False s ?s"
    using stepper_at [OF NextLexem_stepper at_refl [OF 1(3)]] by (rule at_weaken) simp
  have step: "at False s (NextLexem ?s)" "at False s (TryRecoverAfterError e (PushErrorMessage ?s))" for e
    using stepper_at [OF NextLexem_stepper next_at] TryRecoverAfterError_at [OF stepper_at [OF PushErrorMessage_stepper next_at]]
    by (auto intro: at_weaken)
  have go: "at False s (snd (parse_imports_loop Keyword s' i))"
    if "at False s s'" "at False s' (snd (parse_imports_loop Keyword s' i))" for s' i
    using at_trans [OF that] by simp
  show ?case
    using 1(1,2) step by (subst parse_imports_loop.simps) (auto simp: Let_def at_refl 1(3) intro!: go intro: at_ok)
qed

lemma parse_head_moves:
  assumes "cursor_ok s"
  shows "gets True (\<lambda>_. head_moves False s) (parse_head K IsKeyword (parse K IsKeyword) s)"
proof -
  obtain ims s1 where head: "parse_imports_loop (\<lambda>k. K (Common k)) s [] = (ims, s1)" by force
  have s1: "at False s s1" using parse_imports_at [OF assms, of "\<lambda>k. K (Common k)" "[]"] head by simp
  have "gets True (\<lambda>_. head_moves False s) (parse_macros IsKeyword (parse K IsKeyword) s1)"
    by (rule gets_mono [OF parse_macros_moves [OF at_ok [OF s1]]])
      (use head_moves_trans [OF head_moves_at [OF s1]] in fastforce)
  then show ?thesis by (auto simp: parse_head_def head gets_def split: option.splits)
qed

section \<open>The whole analysis\<close>

lemma DoAnalyzis_cases:
  assumes "cursor_ok s" and "parse_head K IsKeyword (parse K IsKeyword) s = Some (ims, s1)"
  shows "cursor_ok s1" and "head_moves False s s1"
    and "gets (macros_safe (sa_macros s1)) (\<lambda>_. at False s1) (ParseNamespaceBodyImpl K (parse K IsKeyword) EndOfFile s1)"
proof -
  show moves: "head_moves False s s1" using parse_head_moves [OF assms(1), of K IsKeyword] assms(2) by (simp add: gets_def)
  then show ok: "cursor_ok s1" by (rule head_moves_ok)
  show "gets (macros_safe (sa_macros s1)) (\<lambda>_. at False s1) (ParseNamespaceBodyImpl K (parse K IsKeyword) EndOfFile s1)"
    by (rule ParseNamespaceBodyImpl_at [OF at_refl [OF ok] parse_rec_ok]) simp
qed

lemma parse_namespace_element_end:
  assumes "parse_namespace_element K rec end_lexem s = Some (None, s')"
  shows "s' = s \<and> at_lexem end_lexem s"
  using assms unfolding parse_namespace_element_def returning_def
  by (auto simp: bind_eq_Some_conv Let_def split: if_splits option.splits)

lemma ParseNamespaceBodyImpl_end:
  assumes "ParseNamespaceBodyImpl K rec end_lexem s = Some (es, s')"
  shows "\<not> NotEndOfFile s' \<or> at_lexem end_lexem s'"
  using assms unfolding ParseNamespaceBodyImpl_def
  by (rule loop_invariant [where I = "\<lambda>_ _. True"])
    (auto simp: bind_eq_Some_conv split: if_splits option.splits dest: parse_namespace_element_end)

definition lookup_macro :: "MacrosByContextMap \<Rightarrow> MacroContext \<Rightarrow> byte list \<Rightarrow> Macro option" where
  "lookup_macro ms c name = (case map_of ms c of None \<Rightarrow> None | Some m \<Rightarrow> map_of m name)"

lemma define_macro_keeps:
  "lookup_macro (sa_macros s) c name = Some m \<Longrightarrow> lookup_macro (sa_macros (define_macro c' m' s)) c name = Some m"
  by (auto simp: lookup_macro_def define_macro_def Let_def add_error_message_def update_conv' split: option.splits)

lemma parse_macro_definition_macros:
  assumes "cursor_ok s" and "parse_macro_definition IsKeyword (parse K IsKeyword) s = Some (d, s')"
  shows "sa_macros s' = sa_macros s"
  using parse_macro_definition_at [OF at_refl [OF assms(1)] parse_macro_rec_ok, of IsKeyword K IsKeyword] assms(2)
  by (auto simp: gets_def dest: at_same)

lemma ParseMacro_keeps:
  assumes "cursor_ok s" and "ParseMacro IsKeyword (parse K IsKeyword) s = Some (u, s')" and "lookup_macro (sa_macros s) c name = Some m"
  shows "lookup_macro (sa_macros s') c name = Some m"
  using assms(2,3) unfolding ParseMacro_def
  by (auto simp: bind_eq_Some_conv define_macro_keeps split: option.splits dest!: parse_macro_definition_macros [OF assms(1)])

section \<open>Blocks of macros\<close>

text \<open>
  A part that is recognized by its first lexem starts with one: the matcher may look at it.
\<close>

fun match_element_checked :: "MatchElement \<Rightarrow> bool" where
  "match_element_checked (MatchElement kind check lexem name subs) \<longleftrightarrow> list_all match_element_checked subs \<and>
    (check = LexemAtBlockStart \<longrightarrow> subs \<noteq> [] \<and> me_kind (hd subs) = MatchLexem)"

definition macros_checked :: "MacrosByContextMap \<Rightarrow> bool" where
  "macros_checked ms \<longleftrightarrow> (\<forall>c name m. lookup_macro ms c name = Some m \<longrightarrow> list_all match_element_checked (mc_match_template_elements m))"

definition rec_checked :: "Rec \<Rightarrow> bool" where
  "rec_checked rec \<longleftrightarrow> (\<forall>s es s'. rec_MacroMatchBlock rec s = Some (es, s') \<longrightarrow> list_all match_element_checked es)"

lemma rec_checkedI:
  assumes "\<And>s es s'. rec (GMacroMatchBlock, s) = Some (PMacroMatchBlock es, s') \<Longrightarrow> list_all match_element_checked es"
  shows "rec_checked rec"
  unfolding rec_checked_def rec_MacroMatchBlock_def
proof (intro allI impI)
  fix s es s'
  assume *: "Option.bind (rec (GMacroMatchBlock, s)) (\<lambda>(x, s). case x of PMacroMatchBlock es \<Rightarrow> Some (es, s) | _ \<Rightarrow> None) = Some (es, s')"
  then obtain x s1 where "rec (GMacroMatchBlock, s) = Some (x, s1)" by (auto simp: bind_eq_Some_conv)
  with * assms [of s es s1] show "list_all match_element_checked es" by (cases x) auto
qed

lemma set_block_check_checked: "match_element_checked e \<Longrightarrow> match_element_checked (set_block_check e n)"
  by (cases e) (auto simp: set_block_check_def starts_with_lexem_def split: option.splits)

lemma check_match_elements_checked:
  "list_all match_element_checked es \<Longrightarrow> list_all match_element_checked (fst (check_match_elements l es))"
  by (induction es) (auto simp: Let_def set_block_check_checked split: prod.splits)

lemma parse_match_parameter_checked:
  assumes "rec_checked rec" and "parse_match_parameter IsKeyword rec es s = Some (Some e, s')"
  shows "match_element_checked e"
  using assms unfolding parse_match_parameter_def parse_sub_elements_def rec_checked_def
  by (fastforce simp: bind_eq_Some_conv Let_def split: if_splits option.splits)

lemma parse_match_elements_checked:
  assumes "rec_checked rec" and "parse_match_elements IsKeyword rec s = Some ((es, complete), s')"
  shows "list_all match_element_checked es"
  using assms(2) unfolding parse_match_elements_def
proof (rule loop_invariant [where I = "\<lambda>c _. list_all match_element_checked (fst c)"])
  fix c s c' s1
  assume "list_all match_element_checked (fst c)"
    and "(case c of (elements, elements_set) \<Rightarrow> \<lambda>s.
      if \<not> NotEndOfFile s \<or> at_lexem MacroBracketRight s then Some (Inr (elements, True), s)
      else if at_lexem MacroBracketLeft s \<or> at_lexem MacroUniqueIdentifier s then
        let s = PushErrorMessage s in Some (Inr (elements, False), s)
      else if at_lexem MacroIdentifier s then
        let name = lexem_text (cur s) in
        Option.bind (parse_match_parameter IsKeyword rec elements_set s) (\<lambda>(element, s). case element of
          None \<Rightarrow> Some (Inr (elements, False), s)
        | Some e \<Rightarrow> Some (Inl (elements @ [e], elements_set @ [name]), s))
      else
        let element = MatchElement MatchLexem LexemAfterBlockEnd (cur s) [] []; s = NextLexem s
        in Some (Inl (elements @ [element], elements_set), s)) s = Some (Inl c', s1)"
  then show "list_all match_element_checked (fst c')"
    by (auto simp: bind_eq_Some_conv Let_def split: prod.splits if_splits option.splits)
      (erule parse_match_parameter_checked [OF assms(1)])
qed (auto simp: bind_eq_Some_conv Let_def split: prod.splits if_splits option.splits)

lemma ParseMacroMatchBlock_checked:
  assumes "rec_checked rec" and "ParseMacroMatchBlock IsKeyword rec s = Some (es, s')"
  shows "list_all match_element_checked es"
  using assms(2) unfolding ParseMacroMatchBlock_def
  by (auto simp: bind_eq_Some_conv Let_def split: if_splits prod.splits dest!: parse_match_elements_checked [OF assms(1)])
    (metis check_match_elements_checked fst_conv)

lemma parse_checked: "rec_checked (parse K IsKeyword)"
proof -
  have "fst q = GMacroMatchBlock \<longrightarrow> (\<forall>es. fst y = PMacroMatchBlock es \<longrightarrow> list_all match_element_checked es)"
    if "parse K IsKeyword q = Some y" for q y
    using that
  proof (rule parse.raw_induct [rotated])
    fix pr K IsKeyword q y
    assume IH: "\<And>K IsKeyword q y. pr K IsKeyword q = Some y \<Longrightarrow>
        fst q = GMacroMatchBlock \<longrightarrow> (\<forall>es. fst y = PMacroMatchBlock es \<longrightarrow> list_all match_element_checked es)"
      and step: "parse_step K IsKeyword (\<lambda>q. pr K IsKeyword q) q = Some y"
    have checked: "rec_checked (pr K IsKeyword)" by (rule rec_checkedI) (use IH in fastforce)
    show "fst q = GMacroMatchBlock \<longrightarrow> (\<forall>es. fst y = PMacroMatchBlock es \<longrightarrow> list_all match_element_checked es)"
    proof (intro impI allI)
      fix es assume "fst q = GMacroMatchBlock" "fst y = PMacroMatchBlock es"
      then have "q = (GMacroMatchBlock, snd q)" "y = (PMacroMatchBlock es, snd y)" by (simp_all add: prod_eq_iff)
      with step have "parse_step K IsKeyword (pr K IsKeyword) (GMacroMatchBlock, snd q) = Some (PMacroMatchBlock es, snd y)" by metis
      then have "ParseMacroMatchBlock IsKeyword (pr K IsKeyword) (snd q) = Some (es, snd y)"
        by (auto simp: parse_step_def returning_def bind_eq_Some_conv)
      then show "list_all match_element_checked es" by (rule ParseMacroMatchBlock_checked [OF checked])
    qed
  qed
  then show ?thesis by (intro rec_checkedI) fastforce
qed

lemma parse_macro_definition_checked:
  assumes "parse_macro_definition IsKeyword (parse K IsKeyword) s = Some (Some (c, m), s')"
  shows "list_all match_element_checked (mc_match_template_elements m)"
  using assms unfolding parse_macro_definition_def
  by (auto simp: bind_eq_Some_conv Let_def split: if_splits dest: ParseMacroMatchBlock_checked [OF parse_checked])

lemma define_macro_checked:
  "macros_checked (sa_macros s) \<Longrightarrow> list_all match_element_checked (mc_match_template_elements m) \<Longrightarrow>
    macros_checked (sa_macros (define_macro c m s))"
  by (auto simp: macros_checked_def lookup_macro_def define_macro_def Let_def add_error_message_def update_conv'
    split: option.splits if_splits)

lemma ParseMacro_checked:
  assumes "cursor_ok s" and "ParseMacro IsKeyword (parse K IsKeyword) s = Some (u, s')" and "macros_checked (sa_macros s)"
  shows "macros_checked (sa_macros s')"
proof -
  obtain d s1 where d: "parse_macro_definition IsKeyword (parse K IsKeyword) s = Some (d, s1)"
    and s': "s' = (case d of None \<Rightarrow> s1 | Some (c, m) \<Rightarrow> define_macro c m s1)"
    using assms(2) by (auto simp: ParseMacro_def bind_eq_Some_conv split: option.splits)
  have "macros_checked (sa_macros s1)" using parse_macro_definition_macros [OF assms(1) d] assms(3) by simp
  then show ?thesis
    using d s' by (auto simp: define_macro_checked dest: parse_macro_definition_checked split: option.splits)
qed

lemma parse_macros_invariant:
  assumes "cursor_ok s" and "parse_macros IsKeyword (parse K IsKeyword) s = Some (u, s')" and "I s"
    and "\<And>s u s'. cursor_ok s \<Longrightarrow> I s \<Longrightarrow> ParseMacro IsKeyword (parse K IsKeyword) s = Some (u, s') \<Longrightarrow> I s'"
  shows "I s'"
  using assms(2) unfolding parse_macros_def
proof (rule loop_invariant [where I = "\<lambda>_ s. cursor_ok s \<and> I s"])
  fix u :: unit and s c' s1
  assume I: "cursor_ok s \<and> I s"
    and "(if \<not> NotEndOfFile s \<or> \<not> at_macro_definition s then Some (Inr (), s)
      else Option.bind (ParseMacro IsKeyword (parse K IsKeyword) s) (\<lambda>(_, s). Some (Inl (), s))) = Some (Inl c', s1)"
  then have "ParseMacro IsKeyword (parse K IsKeyword) s = Some ((), s1)"
    by (auto simp: bind_eq_Some_conv split: if_splits)
  moreover from this have "cursor_ok s1"
    using ParseMacro_moves [of s IsKeyword K] I by (auto simp: gets_def intro: head_moves_ok)
  ultimately show "cursor_ok s1 \<and> I s1" using I by (blast intro: assms(4))
qed (use assms(1,3) in \<open>auto simp: bind_eq_Some_conv split: if_splits\<close>)

lemma parse_head_invariant:
  assumes "cursor_ok s" and "parse_head K IsKeyword (parse K IsKeyword) s = Some (ims, s')" and "I (sa_macros s)"
    and "\<And>s u s'. cursor_ok s \<Longrightarrow> I (sa_macros s) \<Longrightarrow> ParseMacro IsKeyword (parse K IsKeyword) s = Some (u, s') \<Longrightarrow> I (sa_macros s')"
  shows "I (sa_macros s')"
proof -
  obtain ims' s1 where head: "parse_imports_loop (\<lambda>k. K (Common k)) s [] = (ims', s1)" by force
  have s1: "at False s s1" using parse_imports_at [OF assms(1), of "\<lambda>k. K (Common k)" "[]"] head by simp
  from assms(2) have "parse_macros IsKeyword (parse K IsKeyword) s1 = Some ((), s')"
    by (auto simp: parse_head_def head bind_eq_Some_conv)
  from parse_macros_invariant [OF at_ok [OF s1] this, of "\<lambda>s. I (sa_macros s)"] show ?thesis
    using assms(3,4) at_same [OF s1] by simp
qed

section \<open>Binary operators\<close>

text \<open>
  The grammar of the operators, one rule for each priority: a chain of operands of the next priority, which
  groups to the left. An operand of the last priority is what the parser \<open>operand\<close> accepts.
\<close>

inductive operators_grammar :: "(SyntaxAnalyzer \<Rightarrow> Expression parsed) \<Rightarrow> (Lexem_Type \<times> BinaryOperatorType) list list \<Rightarrow>
    SyntaxAnalyzer \<Rightarrow> Expression \<Rightarrow> SyntaxAnalyzer \<Rightarrow> bool" for operand where
  operand: "operand s = Some (e, s') \<Longrightarrow> operators_grammar operand [] s e s'"
| next_priority: "operators_grammar operand levels s e s' \<Longrightarrow> operators_grammar operand (ops # levels) s e s'"
| binary: "operators_grammar operand (ops # levels) s l s1 \<Longrightarrow> map_of ops (lexem_type (cur s1)) = Some op \<Longrightarrow>
    operators_grammar operand levels (NextLexem s1) r s2 \<Longrightarrow>
    operators_grammar operand (ops # levels) s (BinaryOperator (loc s1) op l r) s2"

inductive_cases operators_grammar_NilE: "operators_grammar operand [] s e s'"

definition no_operator :: "(Lexem_Type \<times> BinaryOperatorType) list list \<Rightarrow> SyntaxAnalyzer \<Rightarrow> bool" where
  "no_operator levels s \<longleftrightarrow> (\<forall>ops \<in> set levels. map_of ops (lexem_type (cur s)) = None)"

fun disjoint_levels :: "(Lexem_Type \<times> BinaryOperatorType) list list \<Rightarrow> bool" where
  "disjoint_levels [] = True" |
  "disjoint_levels (ops # levels) \<longleftrightarrow> disjoint_levels levels \<and>
    (\<forall>t \<in> set (map fst ops). \<forall>ops' \<in> set levels. map_of ops' t = None)"

lemma disjoint_no_operator:
  "disjoint_levels (ops # levels) \<Longrightarrow> map_of ops (lexem_type (cur s)) = Some op \<Longrightarrow> no_operator levels s"
  by (force simp: no_operator_def dest: map_of_SomeD)

definition right_part_step where
  "right_part_step ops operand = loop_step (\<lambda>l s.
    case map_of ops (lexem_type (cur s)) of
      Some op \<Rightarrow> do {
        let src_loc = loc s;
        let s = NextLexem s;
        (r, s) \<leftarrow> operand s;
        Some (Inl (BinaryOperator src_loc op l r) :: Expression + Expression, s) }
    | None \<Rightarrow> Some (Inr l, s))"

lemma right_part_step_iff:
  "right_part_step ops operand (l, s) (l', s') \<longleftrightarrow>
    (\<exists>op r. map_of ops (lexem_type (cur s)) = Some op \<and> operand (NextLexem s) = Some (r, s') \<and> l' = BinaryOperator (loc s) op l r)"
  by (auto simp: right_part_step_def loop_step_def Let_def bind_eq_Some_conv split: option.splits)

lemma right_part_iff:
  "TryParseBinaryOperatorRightPart ops operand l s = Some (e, s') \<longleftrightarrow>
    (right_part_step ops operand)\<^sup>*\<^sup>* (l, s) (e, s') \<and> map_of ops (lexem_type (cur s')) = None"
  unfolding TryParseBinaryOperatorRightPart_def loop_iff right_part_step_def
  by (auto simp: Let_def bind_eq_Some_conv split: option.splits)

lemma grammar_chain:
  assumes IH: "\<And>s e s'. operators_grammar operand levels s e s' \<Longrightarrow> no_operator levels s' \<Longrightarrow>
      TryParseBinaryOperator levels operand s = Some (e, s')"
    and "operators_grammar operand (ops # levels) s e s'" and "disjoint_levels (ops # levels)" and "no_operator levels s'"
  shows "\<exists>l s1. TryParseBinaryOperator levels operand s = Some (l, s1) \<and>
    (right_part_step ops (TryParseBinaryOperator levels operand))\<^sup>*\<^sup>* (l, s1) (e, s')"
  using assms(2-4)
proof (induction "ops # levels" s e s' rule: operators_grammar.induct)
  case (next_priority s e s')
  then show ?case using IH by blast
next
  case (binary s l s1 op r s2)
  obtain l0 s0 where "TryParseBinaryOperator levels operand s = Some (l0, s0)"
    "(right_part_step ops (TryParseBinaryOperator levels operand))\<^sup>*\<^sup>* (l0, s0) (l, s1)"
    using binary disjoint_no_operator by blast
  moreover have "right_part_step ops (TryParseBinaryOperator levels operand) (l, s1) (BinaryOperator (loc s1) op l r, s2)"
    using binary(3) IH [OF binary(4) binary.prems(2)] by (simp add: right_part_step_iff)
  ultimately show ?case by (blast intro: rtranclp.rtrancl_into_rtrancl)
qed

lemma TryParseBinaryOperator_iff:
  assumes "disjoint_levels levels"
  shows "TryParseBinaryOperator levels operand s = Some (e, s') \<longleftrightarrow> operators_grammar operand levels s e s' \<and> no_operator levels s'"
  using assms
proof (induction levels arbitrary: s e s')
  case Nil
  show ?case by (auto simp: no_operator_def intro: operators_grammar.operand elim: operators_grammar_NilE)
next
  case (Cons ops levels)
  note IH = Cons.IH [OF conjunct1 [OF Cons.prems [unfolded disjoint_levels.simps]]]
  let ?step = "right_part_step ops (TryParseBinaryOperator levels operand)"
  have chain: "operators_grammar operand (ops # levels) s e s' \<and> no_operator levels s'"
    if "?step\<^sup>*\<^sup>* (l, s1) (e, s')" "operators_grammar operand levels s l s1" "no_operator levels s1" for l s1
    using that
  proof (induction "(e, s')" arbitrary: e s' rule: rtranclp_induct)
    case base
    then show ?case by (simp add: operators_grammar.next_priority)
  next
    case (step y)
    then show ?case by (cases y) (auto simp: right_part_step_iff IH intro: operators_grammar.binary)
  qed
  have "TryParseBinaryOperator (ops # levels) operand s = Some (e, s') \<longleftrightarrow>
      (\<exists>l s1. TryParseBinaryOperator levels operand s = Some (l, s1) \<and> ?step\<^sup>*\<^sup>* (l, s1) (e, s') \<and> map_of ops (lexem_type (cur s')) = None)"
    by (auto simp: bind_eq_Some_conv right_part_iff)
  also have "\<dots> \<longleftrightarrow> operators_grammar operand (ops # levels) s e s' \<and> no_operator (ops # levels) s'"
    using chain grammar_chain [of operand levels ops s e s'] IH Cons.prems by (auto simp: no_operator_def)
  finally show ?case .
qed

lemma table_disjoint: "disjoint_levels g_operators_by_priority_table"
  by (simp add: g_operators_by_priority_table_def)

text \<open>
  C2. Expressions have the operators of the grammar of priorities, from lazy disjunction to multiplication, all of which group
  to the left: the parser of expressions returns an expression and a state exactly if the grammar derives it for the
  lexems between the states and no operator follows.
\<close>

theorem ParseExpression_grammar:
  "ParseExpression K rec s = Some (e, s') \<longleftrightarrow>
    operators_grammar (ParseBinaryOperatorComponent K rec) g_operators_by_priority_table s e s' \<and>
    no_operator g_operators_by_priority_table s'"
  unfolding ParseExpression_def by (rule TryParseBinaryOperator_iff [OF table_disjoint])

section \<open>Properties\<close>

lemma SyntaxAnalyzer_make_ok:
  "lexems \<noteq> [] \<Longrightarrow> lexem_type (last lexems) = EndOfFile \<Longrightarrow> cursor_ok (SyntaxAnalyzer_make lexems macros contexts hash 0)"
  by (rule cursor_ok_make) simp_all

lemma DoAnalyzis_split:
  assumes "cursor_ok s" and "DoAnalyzis K IsKeyword (parse K IsKeyword) s = Some (r, s')"
  obtains ims s1 es where "parse_head K IsKeyword (parse K IsKeyword) s = Some (ims, s1)"
    and "ParseNamespaceBodyImpl K (parse K IsKeyword) EndOfFile s1 = Some (es, s')" and "at False s1 s'" and "head_moves False s s'"
    and "r = \<lparr> sr_imports = ims, sr_macros = Some (sa_macros s'), sr_program_elements = es, sr_error_messages = sa_error_messages s' \<rparr>"
proof -
  obtain ims s1 es where *: "parse_head K IsKeyword (parse K IsKeyword) s = Some (ims, s1)"
    "ParseNamespaceBodyImpl K (parse K IsKeyword) EndOfFile s1 = Some (es, s')"
    "r = \<lparr> sr_imports = ims, sr_macros = Some (sa_macros s'), sr_program_elements = es, sr_error_messages = sa_error_messages s' \<rparr>"
    using assms(2) by (auto simp: DoAnalyzis_def bind_eq_Some_conv)
  have s1: "head_moves False s s1" "at False s1 s'"
    using DoAnalyzis_cases(2,3) [OF assms(1) *(1)] *(2) by (auto simp: gets_def)
  from head_moves_trans [OF s1(1) head_moves_at [OF s1(2)]] have "head_moves False s s'" by simp
  with * s1 show ?thesis using that by blast
qed

text \<open>
  C1. The syntax analyzer returns for every list of lexems that ends with the end of the file, whatever errors it contains, if
  in all macros (given or defined in the file) every repetition of a repeated part consumes a lexem: the head with the imports and macros is always
  parsed, and the rest is if the macros known then are safe.
\<close>

theorem SyntaxAnalysis_returns:
  assumes "lexems \<noteq> []" and "lexem_type (last lexems) = EndOfFile"
  shows "\<exists>ims s. parse_head K IsKeyword (parse K IsKeyword) (SyntaxAnalyzer_make lexems macros contexts hash 0) = Some (ims, s) \<and>
    (macros_safe (sa_macros s) \<longrightarrow> (\<exists>r. SyntaxAnalysis K IsKeyword lexems macros contexts hash = Some r))"
proof -
  let ?s = "SyntaxAnalyzer_make lexems macros contexts hash 0"
  have ok: "cursor_ok ?s" using assms by (rule SyntaxAnalyzer_make_ok)
  obtain ims s where head: "parse_head K IsKeyword (parse K IsKeyword) ?s = Some (ims, s)"
    using parse_head_moves [OF ok, of K IsKeyword] by (auto simp: gets_def split: option.splits)
  have "\<exists>r. SyntaxAnalysis K IsKeyword lexems macros contexts hash = Some r" if "macros_safe (sa_macros s)"
    using DoAnalyzis_cases(3) [OF ok head] that head
    by (auto simp: gets_def SyntaxAnalysis_def DoAnalyzis_def split: option.splits)
  with head show ?thesis by blast
qed

text \<open>
  C13. When the syntax analyzer returns, with any macros, it has read the whole file: its cursor is on the end of the file, inside the list. The
  contexts of macro expansion that were there before are kept, and so are all macros that were known before.
\<close>

theorem SyntaxAnalysis_reads_all:
  assumes "lexems \<noteq> []" and "lexem_type (last lexems) = EndOfFile"
    and "SyntaxAnalysis K IsKeyword lexems macros contexts hash = Some (r, contexts')"
  shows "\<exists>s cs. DoAnalyzis K IsKeyword (parse K IsKeyword) (SyntaxAnalyzer_make lexems macros contexts hash 0) = Some (r, s) \<and>
    sa_lexems s = lexems \<and> sa_it s < length lexems \<and> at_lexem EndOfFile s \<and> sr_error_messages r = sa_error_messages s \<and>
    contexts' = contexts @ cs \<and>
    (\<forall>c name m. lookup_macro macros c name = Some m \<longrightarrow> lookup_macro (the (sr_macros r)) c name = Some m)"
proof -
  let ?s = "SyntaxAnalyzer_make lexems macros contexts hash 0"
  have ok: "cursor_ok ?s" using assms(1,2) by (rule SyntaxAnalyzer_make_ok)
  obtain s where s: "DoAnalyzis K IsKeyword (parse K IsKeyword) ?s = Some (r, s)" "contexts' = sa_macro_expansion_contexts s"
    using assms(3) by (auto simp: SyntaxAnalysis_def bind_eq_Some_conv)
  obtain ims s1 es where d: "parse_head K IsKeyword (parse K IsKeyword) ?s = Some (ims, s1)"
    "ParseNamespaceBodyImpl K (parse K IsKeyword) EndOfFile s1 = Some (es, s)" "at False s1 s" "head_moves False ?s s"
    "r = \<lparr> sr_imports = ims, sr_macros = Some (sa_macros s), sr_program_elements = es, sr_error_messages = sa_error_messages s \<rparr>"
    using s(1) by (rule DoAnalyzis_split [OF ok])
  have moved: "sa_lexems s = lexems" "sa_it s < length lexems" "\<exists>cs. sa_macro_expansion_contexts s = contexts @ cs" "cursor_ok s"
    using d(4) by (auto simp: head_moves_def at_def follows_def advances_def cursor_ok_def SyntaxAnalyzer_make_def)
  have "at_lexem EndOfFile s"
    using ParseNamespaceBodyImpl_end [OF d(2)] cursor_ok_lexem [OF moved(4)] by blast
  moreover have "lookup_macro (sa_macros s) c name = Some m" if "lookup_macro macros c name = Some m" for c name m
    using parse_head_invariant [OF ok d(1), of "\<lambda>ms. lookup_macro ms c name = Some m"] that at_same [OF d(3)]
    by (simp add: SyntaxAnalyzer_make_def) (blast intro: ParseMacro_keeps)
  ultimately show ?thesis using s d(5) moved by auto
qed


lemma run_standalone_returns:
  assumes "gets True Q (parse_fn (SyntaxAnalyzer_make lexems macros contexts hash 0))"
  shows "\<exists>r. run_standalone parse_fn lexems macros contexts hash = Some r"
  using assms by (auto simp: run_standalone_def gets_def split: option.splits)

lemma require_end_at: "at b s0 s \<Longrightarrow> at b s0 (require_end s)"
  unfolding require_end_def by (rule at_weaken [OF at_if [OF step_at(2)]]) auto


text \<open>
  C16. A repeated part of a macro without a separator that does not start with a lexem passes the check of definitions, but matching
  it never ends where its repetition fails without consuming a lexem: here a repeated identifier before the lexem \<open>l\<close>, where
  the cursor is on a lexem that is neither. The loop adds an error in each round.
\<close>

theorem MatchMacroBlock_diverges:
  fixes l :: Lexem and name parameter macro_name :: "byte list"
  defines "elements \<equiv>
    [MatchElement MatchRepeated LexemAfterBlockEnd (Lexem_default \<lparr> lexem_type := EndOfFile \<rparr>) name
       [MatchElement MatchIdentifier LexemAfterBlockEnd (Lexem_default \<lparr> lexem_type := EndOfFile \<rparr>) parameter []],
     MatchElement MatchLexem LexemAfterBlockEnd l [] []]"
  assumes "NotEndOfFile s" and "\<not> at_lexem Identifier s" and "\<not> same_lexem l s"
  shows "check_match_elements loc' elements = (elements, []) \<and> MatchMacroBlock rec macro_name elements [] s = None"
proof
  show "check_match_elements loc' elements = (elements, [])"
    by (simp add: elements_def set_block_check_def block_check_errors_def starts_with_lexem_def Let_def)
  let ?stuck = "\<lambda>s. NotEndOfFile s \<and> \<not> at_lexem Identifier s \<and> \<not> same_lexem l s"
  have error: "?stuck (push_macro_error macro_name s)" if "?stuck s" for s
    using that by (simp add: push_macro_error_def add_error_message_def NotEndOfFile_def cur_def same_lexem_def)
  have "match_until macro_name (Lexem_default \<lparr> lexem_type := EndOfFile \<rparr>) l
      (MatchMacroBlock rec macro_name [MatchElement MatchIdentifier LexemAfterBlockEnd (Lexem_default \<lparr> lexem_type := EndOfFile \<rparr>) parameter []] []) s = None"
    unfolding match_until_def
    by (rule loop_diverges [where I = "\<lambda>_. ?stuck"]) (use assms(2-4) error in \<open>auto simp: match_element_def Let_def\<close>)
  then show "MatchMacroBlock rec macro_name elements [] s = None"
    by (simp add: elements_def match_element_def)
qed

section \<open>Made-up identifiers\<close>

definition identifiers_ok :: "byte list \<Rightarrow> (byte list \<times> byte list) list \<Rightarrow> bool" where
  "identifiers_ok base_name ids \<longleftrightarrow> distinct (map fst ids) \<and>
    (\<forall>i < length ids. snd (ids ! i) = unique_identifier base_name (fst (ids ! i)) (take i ids))"

lemma push_unique_ok: "identifiers_ok base_name (fst (snd x)) \<Longrightarrow> identifiers_ok base_name (fst (snd (push_unique base_name l x)))"
  by (cases x) (auto simp: push_unique_def identifiers_ok_def Let_def nth_append less_Suc_eq map_of_eq_None_iff split: option.splits)

lemma DoExpandMacro_identifiers:
  "identifiers_ok base_name (fst (snd x)) \<Longrightarrow> identifiers_ok base_name (fst (snd (DoExpandMacro lexems base_name names es x)))"
proof (induction lexems base_name names es x rule: DoExpandMacro.induct)
  case (2 lexems base_name names e es x)
  have push: "identifiers_ok base_name (fst (snd (push_result_lexem l x))) = identifiers_ok base_name (fst (snd x))"
    "identifiers_ok base_name (fst (snd (push_result_error m l' x))) = identifiers_ok base_name (fst (snd x))"
    "identifiers_ok base_name (fst (snd (push_element lexems el x))) = identifiers_ok base_name (fst (snd x))" for l m l' el x
    by (cases x; simp add: push_result_lexem_def push_result_error_def push_element_def)+
  show ?case
  proof (cases "re_kind e")
    case ResultLexem
    then show ?thesis using 2 by (simp add: push push_unique_ok)
  next
    case VariableElement
    then show ?thesis using 2 by (auto simp: push split: option.splits)
  next
    case VariableElementWithMacroBlock
    show ?thesis
    proof (cases "GetElement (re_name e) names")
      case None
      then show ?thesis using VariableElementWithMacroBlock 2(5) by (simp add: push)
    next
      case (Some element)
      show ?thesis
      proof (cases "pe_kind element = MatchOptional \<or> pe_kind element = MatchRepeated")
        case True
        let ?f = "\<lambda>(sub_elements, is_last) x.
           let x = DoExpandMacro lexems base_name (sub_elements # names) (re_sub_elements e) x in
           if \<not> is_last \<and> lexem_type (re_lexem e) \<noteq> EndOfFile then push_result_lexem (re_lexem e) x else x"
        have "identifiers_ok base_name (fst (snd (fold ?f (with_last (pe_sub_elements element)) x)))"
          by (rule fold_invariant [where Q = "\<lambda>p. p \<in> set (with_last (pe_sub_elements element))"])
            (use 2(5) 2(3) [OF VariableElementWithMacroBlock Some True] in \<open>auto simp: Let_def push\<close>)
        then show ?thesis using VariableElementWithMacroBlock Some True 2(4) by simp
      next
        case False
        then show ?thesis using VariableElementWithMacroBlock Some 2(5) by (simp add: push)
      qed
    qed
  qed
qed simp

lemma unique_identifier_inj:
  assumes "unique_identifier base_name m ids = unique_identifier base_name n ids'"
  shows "length ids = length ids'"
proof -
  have "(str ''_macro_ident_'' @ drop 2 m @ str ''_'' @ base_name) @ ch (CHR ''_'') # to_string (length ids) =
      (str ''_macro_ident_'' @ drop 2 n @ str ''_'' @ base_name) @ ch (CHR ''_'') # to_string (length ids')"
    using assms by (simp add: unique_identifier_def str_def)
  then show ?thesis by (intro to_string_inj last_part_eq [OF _ to_string_digits to_string_digits])
qed



section \<open>Examples\<close>

lemma namespace_end:
  assumes "NotEndOfFile s" and "at_lexem BraceRight s"
  shows "rec_NamespaceElements (parse K IsKeyword) BraceRight s = Some ([], s)"
proof -
  have "ParseNamespaceBodyImpl K (parse K IsKeyword) BraceRight s = Some ([], s)"
    unfolding ParseNamespaceBodyImpl_def using assms by (subst loop.simps) (simp add: parse_namespace_element_def)
  then show ?thesis
    unfolding rec_NamespaceElements_def by (subst parse.simps) (simp add: parse_step_def returning_def)
qed

definition example_file :: "Lexem list" where
  "example_file = [example_lexem Identifier ''import'', example_lexem String ''/a.u'', example_lexem Identifier ''namespace'',
    example_lexem Identifier ''N'', example_lexem BraceLeft ''{'', example_lexem BraceRight ''}'', example_lexem EndOfFile ''EOF'']"

lemma example_analysis:
  "SyntaxAnalysis syntax_keywords_list (\<lambda>_. False) example_file [] [] [] = Some (\<lparr>
    sr_imports = [\<lparr> im_src_loc = SrcLoc_make 0 1 0, im_import_name = str ''/a.u'' \<rparr>], sr_macros = Some [],
    sr_program_elements = [Namespace (SrcLoc_make 0 1 0) (str ''N'') []], sr_error_messages = [] \<rparr>, [])"
  unfolding SyntaxAnalysis_def DoAnalyzis_def parse_head_def ParseNamespaceBodyImpl_def
  apply (simp add: SyntaxAnalyzer_make_def)
  apply (simp add: parse_imports_loop.simps is_import_def NotEndOfFile_def cur_def lexem_at_def example_file_def example_lexem_def NextLexem_def syntax_keywords_list_def)
  apply (subst parse_macros_simps)
  apply (simp add: NotEndOfFile_def at_macro_definition_def cur_def lexem_at_def)
  apply (subst loop.simps)
  apply (simp add: NotEndOfFile_def parse_namespace_element_def cur_def lexem_at_def syntax_keywords_list_def)
  apply (simp add: parse_namespace_def returning_def NotEndOfFile_def NextLexem_def cur_def lexem_at_def Let_def namespace_end ExpectLexem_def)
  apply (subst loop.simps)
  apply (simp add: NotEndOfFile_def)
  done

lemma example_file_end: "example_file \<noteq> []" "lexem_type (last example_file) = EndOfFile"
  by (simp_all add: example_file_def example_lexem_def)

theorem SyntaxAnalysis_returns_witness:
  "example_file \<noteq> [] \<and> lexem_type (last example_file) = EndOfFile \<and>
   (\<exists>ims s. parse_head syntax_keywords_list (\<lambda>_. False) (parse syntax_keywords_list (\<lambda>_. False))
       (SyntaxAnalyzer_make example_file [] [] [] 0) = Some (ims, s) \<and>
     (macros_safe (sa_macros s) \<longrightarrow> (\<exists>r. SyntaxAnalysis syntax_keywords_list (\<lambda>_. False) example_file [] [] [] = Some r)))"
  using example_file_end SyntaxAnalysis_returns [OF example_file_end, of syntax_keywords_list "\<lambda>_. False" "[]" "[]" "[]"] by blast

theorem SyntaxAnalysis_reads_all_witness:
  "\<exists>s cs. DoAnalyzis syntax_keywords_list (\<lambda>_. False) (parse syntax_keywords_list (\<lambda>_. False)) (SyntaxAnalyzer_make example_file [] [] [] 0) =
      Some (\<lparr> sr_imports = [\<lparr> im_src_loc = SrcLoc_make 0 1 0, im_import_name = str ''/a.u'' \<rparr>], sr_macros = Some [],
        sr_program_elements = [Namespace (SrcLoc_make 0 1 0) (str ''N'') []], sr_error_messages = [] \<rparr>, s) \<and>
    sa_lexems s = example_file \<and> sa_it s < length example_file \<and> at_lexem EndOfFile s \<and> [] = [] @ cs"
  using SyntaxAnalysis_reads_all [OF example_file_end example_analysis] by auto



theorem MatchMacroBlock_diverges_witness:
  "MatchMacroBlock (\<lambda>_. None) (str ''M'')
     [MatchElement MatchRepeated LexemAfterBlockEnd (Lexem_default \<lparr> lexem_type := EndOfFile \<rparr>) (str ''?r'')
        [MatchElement MatchIdentifier LexemAfterBlockEnd (Lexem_default \<lparr> lexem_type := EndOfFile \<rparr>) (str ''?e'') []],
      MatchElement MatchLexem LexemAfterBlockEnd (example_lexem Semicolon '';'') [] []] []
     (SyntaxAnalyzer_start [example_lexem Comma '','', example_lexem EndOfFile ''EOF'']) = None"
  by (rule conjunct2 [OF MatchMacroBlock_diverges])
    (simp_all add: SyntaxAnalyzer_start_def SyntaxAnalyzer_make_def NotEndOfFile_def cur_def lexem_at_def same_lexem_def example_lexem_def)

end
