(* ===== verification/Spec2Isabelle.thy ===== *)
theory Spec2Isabelle
  imports U_Prelude Src_Loc Program_String Number_Parsing Lexem Lexem_Laws Lexical_Analysis
    Lexer_Properties Text_Positions Operators Lang_Types References_Graph References_Graph_Laws
    Types Types_Laws Text_Change Uri Parser_Cursor Source_Graph Source_Graph_Laws Template_Params
    Specialization Template_Matching Template_Matching_Laws Overloading Overloading_Laws Template_Preparation
    Template_Preparation_Laws Macro Syntax_Enums Syntax_Keywords Syntax_Elements Parser_Base
    Parser_Macros Parser_Macros_Laws Parser_Expressions Parser_Expressions_Laws Parser_Blocks Parser_Blocks_Laws
    Parser_Declarations Parser_Declarations_Laws Syntax_Analysis Syntax_Analysis_Laws
begin

text \<open>
  A verification library for the compiler of the programming language U-00DC and for its language server.

  \<^bold>\<open>The program.\<close> The compiler (\<^verbatim>\<open>source/compiler0\<close>) reads source files, cuts them into lexems, parses them, loads the
  files they import, builds names, types and functions, checks references between variables, and generates code
  through LLVM. The language server (\<^verbatim>\<open>source/language_server\<close>) keeps the texts an editor works on, maps positions
  between versions of a text, and answers requests with the help of the same front end.

  \<^bold>\<open>Theories and sources.\<close>
  \<^item> \<open>U_Prelude\<close>: machine words, bytes of program text, packed bit fields, removal of a vector element by moving
    the last one, search with a set of visited nodes. Every other theory imports it.
  \<^item> \<open>Src_Loc\<close>: \<^verbatim>\<open>lex_synt_lib_common/src_loc\<close> and \<^verbatim>\<open>lex_synt_error\<close>. A location is two 32-bit words with four bit fields;
    the constructor, getters and setters are inverse to each other and the order is lexicographic.
  \<^item> \<open>Program_String\<close>: \<^verbatim>\<open>compiler0/lex_synt_lib/program_string\<close>. Reading and writing UTF-8 is a round trip, and positions
    counted in bytes, UTF-16 words and code points determine each other.
  \<^item> \<open>Number_Parsing\<close>: \<^verbatim>\<open>number_parsing_utils.hpp\<close>, with the carry over four 32-bit words written out.
  \<^item> \<open>Lexem\<close>, \<open>Lexical_Analysis\<close> (definitions), \<open>Lexem_Laws\<close>, \<open>Lexer_Properties\<close>, \<open>Text_Positions\<close> (lemmas):
    \<^verbatim>\<open>lexical_analyzer\<close>. One definition per token routine; the main loop is a step function on the local variables of
    the C++ function, iterated by a partial function, so that not returning is the value \<open>None\<close>. The loop returns on texts
    without stray digits, with increasing locations; on one kind of text it does not return.
  \<^item> \<open>Operators\<close>: \<^verbatim>\<open>operators\<close>, the spelling of operators.
  \<^item> \<open>Lang_Types\<close>: \<^verbatim>\<open>code_builder_lib/lang_types\<close>, with the generated list of keywords as a parameter.
  \<^item> \<open>Types\<close> (definitions), \<open>Types_Laws\<close> (lemmas): \<^verbatim>\<open>type\<close>, and the parts of \<^verbatim>\<open>class\<close>, \<^verbatim>\<open>enum\<close>, \<^verbatim>\<open>coroutine\<close>, \<^verbatim>\<open>template_types\<close>
    that types need. Classes and enums are objects behind addresses, looked up in tables.
  \<^item> \<open>References_Graph\<close> (definitions), \<open>References_Graph_Laws\<close> (lemmas): \<^verbatim>\<open>references_graph\<close>. Variables live in a heap whose owning
    pointers form no cycles; the searches with a set of visited nodes end because the graph is finite.
  \<^item> \<open>Macro\<close>, \<open>Syntax_Enums\<close>, \<open>Syntax_Keywords\<close>, \<open>Syntax_Elements\<close>: \<^verbatim>\<open>macro.hpp\<close> and \<^verbatim>\<open>syntax_elements\<close>, the syntax tree as mutually
    recursive datatypes, with a constructor for each structure of the source.
  \<^item> \<open>Parser_Cursor\<close>: the part of \<^verbatim>\<open>syntax_analyzer.cpp\<close> that moves over the lexems, reports an error and finds the place
    where parsing goes on, and the parser of imports. The cursor only moves forward and stays inside the list of lexems.
  \<^item> \<open>Parser_Base\<close>, \<open>Parser_Macros\<close>, \<open>Parser_Expressions\<close>, \<open>Parser_Blocks\<close>, \<open>Parser_Declarations\<close>, \<open>Syntax_Analysis\<close> (definitions):
    all parsers of \<^verbatim>\<open>syntax_analyzer.cpp\<close>, one definition per C++ method, in the option monad with the analyzer as state. The
    methods call each other in cycles, so each definition takes a record of the parsers it calls back into, and
    \<open>Syntax_Analysis.parse\<close> ties the knot as a least fixed point: a run that does not end is \<open>None\<close>. Loops are
    \<open>loop\<close>, a partial function. The words of the keywords and the test for a keyword are the parameters \<open>K\<close> and \<open>IsKeyword\<close>.
  \<^item> \<open>Parser_Macros_Laws\<close>, \<open>Parser_Expressions_Laws\<close>, \<open>Parser_Blocks_Laws\<close>, \<open>Parser_Declarations_Laws\<close> (lemmas): each parser moves
    forward, by at least one lexem where a loop relies on it, and returns if the parsers it calls do. The rules are those of a small
    logic (\<open>gets\<close>, \<open>at\<close>, \<open>rec_ok\<close>) of \<open>Parser_Base\<close>.
  \<^item> \<open>Syntax_Analysis_Laws\<close>: the calls between two steps of the cursor are bounded (twelve for each lexem), expansions of macros nest at most ten
    deep, hence the analyzer returns; the grammar of operators; the checks of macros; made-up identifiers.
  \<^item> \<open>Source_Graph\<close> (definitions), \<open>Source_Graph_Laws\<close> (lemmas): \<^verbatim>\<open>source_graph_loader\<close>. The file
    system and the syntax analyzer are parameters; the graph has no cycle, its links point to loaded files, and the loader returns on
    finitely many files.
  \<^item> \<open>Template_Params\<close>, \<open>Specialization\<close>: \<^verbatim>\<open>template_signature_param\<close> and the comparison in \<^verbatim>\<open>cb_overloading_resolution.cpp\<close>: equality,
    substitution of parameters, and which of two signatures is more specialized.
  \<^item> \<open>Template_Matching\<close> (definitions), \<open>Template_Matching_Laws\<close> (lemmas): deduction of template arguments in \<^verbatim>\<open>cb_templates.cpp\<close>. A match
    sets the parameters of a signature in a scope of arguments; the result is the least scope in which the signature denotes the
    argument. The constants LLVM has for sizes and the values of default arguments are parameters.
  \<^item> \<open>Overloading\<close> (definitions), \<open>Overloading_Laws\<close> (lemmas): \<^verbatim>\<open>cb_overloading_resolution.cpp\<close>. Which function of a set is
    called: candidates that accept the arguments, the order between two of them, and the choice of the best one.
  \<^item> \<open>Template_Preparation\<close> (definitions), \<open>Template_Preparation_Laws\<close> (lemmas): the callers of the deduction in \<^verbatim>\<open>cb_templates.cpp\<close>:
    which type template is used for arguments, which function templates fit a call, and the arguments known for a parameterized function template. The
    values of expressions and the generation of the type are parameters.
  \<^item> \<open>Text_Change\<close>, \<open>Uri\<close>: \<^verbatim>\<open>language_server/text_change\<close> and \<^verbatim>\<open>uri\<close>.
  \<^item> This theory: the lexem under the cursor (\<^verbatim>\<open>lex_utils.cpp\<close>), which relies on the locations the lexer gives out.

  \<^bold>\<open>Interfaces.\<close> What one part relies on in another is stated as a locale and interpreted on the model's own
  definitions: units of text in \<open>Program_String\<close>, invariant and progress of the lexer's step in \<open>Lexer_Properties\<close>, search
  with visited nodes in \<open>U_Prelude\<close>, search through parents and binary search in \<open>Types_Laws\<close>, the order between candidates, for
  functions and for type templates, in \<open>Overloading_Laws\<close>.

  \<^bold>\<open>Conventions.\<close> A string is the list of its bytes. An assertion that fails, a read outside a text and a loop that does not
  end are the value \<open>None\<close> of an option type, as the theory that defines the operation says. Integers are words of their C++
  width where they can wrap around; sizes and indices of containers are natural numbers. No definition
  uses fuel: recursion is structural, or has a measure, or is a partial function with a theorem about when it returns. Maps of
  macros are association lists; the empty map that looking up a macro adds for its context is left out.

  \<^bold>\<open>Not modelled.\<close> Everything that builds LLVM code or depends on LLVM's data structures (\<^verbatim>\<open>cb_*.cpp\<close> for
  expressions, blocks, initializers, methods, coroutines, debug information, calling conventions, mangling), the names of scopes and their
  resolution, the creation of signature parameters from syntax and the generation of instances of templates, the program writer, the constant interpreter, the build system, the converter of C++ headers, the second
  compiler written in the language itself, the plug-ins for editors, and input and output of the language server.
\<close>

section \<open>The lexem under the cursor\<close>

lemma location_ok_make:
  assumes "location_ok l"
  shows "SrcLoc_make 0 (GetLine l) (GetColumn l) = l"
proof -
  have "GetLine l \<le> c_max_line"
    using unat_less [of "packed_line_column l"]
    unfolding GetLine_def c_max_values word_le_nat_alt unat_drop_bit_eq by (simp add: drop_bit_eq_div)
  moreover have "GetColumn l \<le> c_max_column"
    by (simp add: GetColumn_def word_and_le1)
  ultimately show ?thesis
    using assms by (simp add: SrcLoc_fields_eq_iff SrcLoc_make_get location_ok_def)
qed

lemma lexem_loop_sorted:
  assumes "sorted_wrt (<) (map lexem_src_loc (p # ls))" and "\<forall>l \<in> set ls. location_ok (lexem_src_loc l)"
    and "lexem_src_loc p < pos" and "ls \<noteq> []" and "pos \<le> lexem_src_loc (last ls)"
  shows "\<exists>l \<in> set (p # ls). lexem_loop pos (Some p) ls = Some l \<and> lexem_src_loc l \<le> pos \<and>
    (\<forall>l' \<in> set (p # ls). lexem_src_loc l' \<le> pos \<longrightarrow> lexem_src_loc l' \<le> lexem_src_loc l)"
  using assms
proof (induction ls arbitrary: p)
  case (Cons a ls)
  let ?loc = lexem_src_loc
  have a: "SrcLoc_make 0 (GetLine (?loc a)) (GetColumn (?loc a)) = ?loc a"
    using Cons.prems(2) by (simp add: location_ok_make)
  have order: "?loc p < ?loc a" "\<forall>l \<in> set ls. ?loc a < ?loc l"
    using Cons.prems(1) by auto
  have loop: "lexem_loop pos (Some p) (a # ls) =
      (if pos = ?loc a then Some a else if pos < ?loc a then Some p else lexem_loop pos (Some a) ls)"
    by (auto simp: a Let_def less_SrcLoc_def SrcLoc_eq_def intro: SrcLoc.expand)
  consider "pos = ?loc a" | "pos < ?loc a" | "?loc a < pos" by fastforce
  then show ?case
  proof cases
    case 1
    with loop order show ?thesis by fastforce
  next
    case 2
    with loop order Cons.prems(3) show ?thesis by (fastforce dest: less_trans)
  next
    case 3
    have "ls \<noteq> []" using 3 Cons.prems(5) by auto
    with Cons.IH [of a] 3 Cons.prems order obtain l where "l \<in> set (a # ls)" "lexem_loop pos (Some a) ls = Some l"
      "?loc l \<le> pos" "\<forall>l' \<in> set (a # ls). ?loc l' \<le> pos \<longrightarrow> ?loc l' \<le> ?loc l" by auto
    then show ?thesis using loop 3 order by (intro bexI [of _ l]) (auto dest: less_imp_le)
  qed
qed simp

text \<open>
  C29. In the lexems of a program, \<open>GetLexemForPosition\<close> finds for every position from the first lexem to
  the last the lexem the position belongs to: the last one that does not start behind it.
\<close>

theorem GetLexemForPosition_correct:
  assumes "LexicalAnalysis t = Some r" and "plain_digits t" and "length t < 2 ^ 31"
    and "result_lexems r = first # rest"
    and "lexem_src_loc first \<le> SrcLoc_make 0 line column"
    and "SrcLoc_make 0 line column \<le> lexem_src_loc (last (result_lexems r))"
  shows "\<exists>l \<in> set (result_lexems r). GetLexemForPosition line column (result_lexems r) = Some l \<and>
    lexem_src_loc l \<le> SrcLoc_make 0 line column \<and>
    (\<forall>l' \<in> set (result_lexems r). lexem_src_loc l' \<le> SrcLoc_make 0 line column \<longrightarrow>
       lexem_src_loc l' \<le> lexem_src_loc l)"
proof -
  let ?pos = "SrcLoc_make 0 line column" and ?loc = lexem_src_loc
  have "lex_result_ok r"
    using lexer.loop_total [OF lex_start_inv [OF assms(2,3)]] assms(1) by (auto simp: LexicalAnalysis_def)
  then have sorted: "sorted_wrt (<) (map ?loc (first # rest))"
    and ok: "\<forall>l \<in> set (first # rest). location_ok (?loc l)"
    unfolding assms(4) [symmetric]
    by (auto simp: lex_result_ok_def eof_at_end_def lexems_ok_def sorted_wrt_append)
  have first: "SrcLoc_make 0 (GetLine (?loc first)) (GetColumn (?loc first)) = ?loc first"
    using ok by (simp add: location_ok_make)
  have get: "GetLexemForPosition line column (first # rest) =
      (if ?pos = ?loc first then Some first else lexem_loop ?pos (Some first) rest)"
    by (simp add: GetLexemForPosition_def first Let_def SrcLoc_eq_def) (auto intro: SrcLoc.expand)
  show ?thesis
  proof (cases "?pos = ?loc first")
    case True
    with get sorted show ?thesis unfolding assms(4) by fastforce
  next
    case False
    then have lt: "?loc first < ?pos" using assms(5) by simp
    then have "rest \<noteq> []" using assms(4,6) by auto
    with lexem_loop_sorted [OF sorted _ lt] ok assms(4,6) get False show ?thesis by simp
  qed
qed

theorem GetLexemForPosition_correct_witness:
  "\<exists>l \<in> set (result_lexems a_plus_b). GetLexemForPosition 1 1 (result_lexems a_plus_b) = Some l \<and>
    lexem_src_loc l \<le> SrcLoc_make 0 1 1"
proof -
  have plain: "plain_digits (str ''a +'')" by (rule ascii_plain_digits) (simp add: ch_def)
  have "SrcLoc_make 0 1 0 \<le> SrcLoc_make 0 1 1" "SrcLoc_make 0 1 1 \<le> SrcLoc_make 0 1 3"
    using SrcLoc_make_less [of 0 1 1 0 1] SrcLoc_make_less [of 0 1 1 1 3]
    by (simp_all add: c_max_values)
  then show ?thesis
    using GetLexemForPosition_correct [OF LexicalAnalysis_a_plus plain, of _ _ 1 1]
    by (auto simp: a_plus_b_def)
qed

end
